(* ===== verification/Prelude.thy ===== *)
theory Prelude
  imports
    Complex_Main
    "HOL-Library.AList"
    "HOL-Library.Char_ord"
    "HOL-Library.List_Lexorder"
    "HOL-Library.Product_Lexorder"
begin

text \<open>
  The vocabulary every component shares.

  \<^item> Exceptions are values: \<open>Exn c msg\<close> carries the Python class and the message, a fallible
    computation has type \<open>'a res\<close>, and \<open>isa\<close> is the subclass test that an \<open>except\<close> clause makes.
  \<^item> Python objects that the code inspects with \<open>isinstance\<close> (JSON documents, caller supplied
    times) are of type \<open>pyval\<close>. A finite float is an exact rational: rounding is not modelled,
    the three non-finite values are.
  \<^item> A \<open>str\<close> is a \<open>string\<close>, that is a list of code points below 256; \<open>str_isspace\<close> and
    \<open>str_isalnum\<close> follow Python's character tables on that range.
  \<^item> A \<open>dict\<close> is an association list in insertion order: \<open>AList.update\<close> overwrites in place or
    appends and \<open>AList.delete\<close> removes, as assignment and \<open>pop\<close> do.
\<close>

named_theorems ok_simps \<open>what a successful or failing computation says about its parts\<close>
named_theorems dict_simps \<open>lookups, keys and lengths of association lists\<close>

section \<open>Exceptions\<close>

datatype exn_class =
    BaseException | Exception | ValueError | TypeError | LookupError | KeyError | ArithmeticError
  | OverflowError | OSError | PermissionError | ConnectionError | RuntimeError
  | RoleAuthorizationError | FencingError | ClusterDataError | StateDataError
  | PairingConflict | PairingBusy | RepairRequired | RepairNotRequired | IdentityConflict
  | RemoteProtocolError | RemoteAuthError | RemoteAuthorizationError | IdempotencyCollisionError
  | RemoteExecutionError | RemoteUnavailableError | RemoteTransportError
  | RotationConflict | TransportStateError | CapabilityHandlerError | SurfaceHandlerError
  | PersistenceError | AttributeError | ProfileInUseError | AssertionError | TimeoutError | StructError | SSLCertVerificationError

datatype exn = Exn (exn_cls: exn_class) (exn_msg: string)

text \<open>The direct base class, as the class statements name it.\<close>

fun exn_base :: "exn_class \<Rightarrow> exn_class option" where
  "exn_base BaseException = None"
| "exn_base Exception = Some BaseException"
| "exn_base KeyError = Some LookupError"
| "exn_base OverflowError = Some ArithmeticError"
| "exn_base PermissionError = Some OSError"
| "exn_base ConnectionError = Some OSError"
| "exn_base TimeoutError = Some OSError"
| "exn_base SSLCertVerificationError = Some OSError"
| "exn_base RoleAuthorizationError = Some ValueError"
| "exn_base FencingError = Some ValueError"
| "exn_base ClusterDataError = Some ValueError"
| "exn_base StateDataError = Some ValueError"
| "exn_base ProfileInUseError = Some StateDataError"
| "exn_base PairingConflict = Some ValueError"
| "exn_base PairingBusy = Some PairingConflict"
| "exn_base RepairRequired = Some PairingConflict"
| "exn_base RepairNotRequired = Some PairingConflict"
| "exn_base IdentityConflict = Some PairingConflict"
| "exn_base RemoteProtocolError = Some ValueError"
| "exn_base RemoteAuthError = Some RemoteProtocolError"
| "exn_base RemoteAuthorizationError = Some RemoteProtocolError"
| "exn_base IdempotencyCollisionError = Some RemoteAuthError"
| "exn_base RemoteExecutionError = Some RuntimeError"
| "exn_base RemoteUnavailableError = Some RemoteExecutionError"
| "exn_base RemoteTransportError = Some RuntimeError"
| "exn_base RotationConflict = Some ValueError"
| "exn_base TransportStateError = Some ValueError"
| "exn_base CapabilityHandlerError = Some RuntimeError"
| "exn_base SurfaceHandlerError = Some RuntimeError"
| "exn_base PersistenceError = Some RuntimeError"
| "exn_base _ = Some Exception"

text \<open>The longest chain of bases has six classes.\<close>

fun exn_chain :: "nat \<Rightarrow> exn_class \<Rightarrow> exn_class list" where
  "exn_chain 0 c = [c]"
| "exn_chain (Suc n) c = c # (case exn_base c of None \<Rightarrow> [] | Some b \<Rightarrow> exn_chain n b)"

definition isa :: "exn \<Rightarrow> exn_class \<Rightarrow> bool" where
  "isa e c \<longleftrightarrow> c \<in> set (exn_chain 6 (exn_cls e))"

lemma isa_code [simp]:
  "isa (Exn a m) c \<longleftrightarrow> c \<in> set (exn_chain 6 a)"
  by (simp add: isa_def)

lemma exn_chain_num [simp]:
  "exn_chain (numeral n) c =
     c # (case exn_base c of None \<Rightarrow> [] | Some b \<Rightarrow> exn_chain (pred_numeral n) b)"
  by (simp add: numeral_eq_Suc)

section \<open>Fallible computations\<close>

type_synonym 'a res = "exn + 'a"

fun rbind :: "'a res \<Rightarrow> ('a \<Rightarrow> 'b res) \<Rightarrow> 'b res" where
  "rbind (Inl e) f = Inl e"
| "rbind (Inr x) f = f x"

definition raise :: "exn_class \<Rightarrow> string \<Rightarrow> 'a res" where
  "raise c m = Inl (Exn c m)"

definition ensure :: "bool \<Rightarrow> exn_class \<Rightarrow> string \<Rightarrow> unit res" where
  "ensure b c m = (if b then Inr () else raise c m)"

lemma rbind_Inr_iff [ok_simps]: "rbind r f = Inr y \<longleftrightarrow> (\<exists>x. r = Inr x \<and> f x = Inr y)"
  by (cases r) auto

lemma rbind_Inl_iff [ok_simps]:
  "rbind r f = Inl e \<longleftrightarrow> r = Inl e \<or> (\<exists>x. r = Inr x \<and> f x = Inl e)"
  by (cases r) auto

lemma Inr_rbind_iff [ok_simps]: "Inr y = rbind r f \<longleftrightarrow> (\<exists>x. r = Inr x \<and> f x = Inr y)"
  by (cases r) auto

lemma raise_neq_Inr [simp]: "raise c m \<noteq> Inr x" "Inr x \<noteq> raise c m"
  by (simp_all add: raise_def)

lemma raise_Inl_iff [simp]: "raise c m = Inl e \<longleftrightarrow> e = Exn c m"
  by (auto simp: raise_def)

lemma rbind_raise [simp]: "rbind (raise c m) f = raise c m"
  by (simp add: raise_def)

lemma ensure_Inr_iff [ok_simps]: "ensure b c m = Inr u \<longleftrightarrow> b"
  by (simp add: ensure_def)

lemma ensure_Inl_iff [ok_simps]: "ensure b c m = Inl e \<longleftrightarrow> \<not> b \<and> e = Exn c m"
  by (auto simp: ensure_def)

lemma ensure_code [simp]: "ensure True c m = Inr ()" "ensure False c m = raise c m"
  by (simp_all add: ensure_def)

text \<open>Sequencing of steps that change a state and may raise: an exception keeps the state reached so far.\<close>

definition sbind :: "'s \<times> 'a res \<Rightarrow> ('s \<Rightarrow> 'a \<Rightarrow> 's \<times> 'b res) \<Rightarrow> 's \<times> 'b res" where
  "sbind m f = (case snd m of Inl e \<Rightarrow> (fst m, Inl e) | Inr x \<Rightarrow> f (fst m) x)"

lemma sbind_simps [simp]: "sbind (s, Inr x) f = f s x" "sbind (s, Inl e) f = (s, Inl e)" "sbind (s, raise c t) f = (s, raise c t)"
  by (simp_all add: sbind_def raise_def)

lemma sbind_Inr [ok_simps]: "sbind m f = (s', Inr y) \<longleftrightarrow> (\<exists>s x. m = (s, Inr x) \<and> f s x = (s', Inr y))"
  by (cases m) (auto simp: sbind_def split: sum.splits)

text \<open>A comprehension whose element expression may raise: left to right, the first error wins.\<close>

fun rmap :: "('a \<Rightarrow> 'b res) \<Rightarrow> 'a list \<Rightarrow> 'b list res" where
  "rmap f [] = Inr []"
| "rmap f (x # xs) = rbind (f x) (\<lambda>y. rbind (rmap f xs) (\<lambda>ys. Inr (y # ys)))"

lemma rmap_id: "(\<And>x. x \<in> set xs \<Longrightarrow> f x = Inr (g x)) \<Longrightarrow> rmap f xs = Inr (map g xs)"
  by (induction xs) auto

lemma rmap_map: "rmap f (map h xs) = rmap (\<lambda>x. f (h x)) xs"
  by (induction xs) simp_all

lemma rmap_Inr_nth:
  "rmap f xs = Inr ys \<Longrightarrow> length ys = length xs \<and> (\<forall>i < length xs. f (xs ! i) = Inr (ys ! i))"
proof (induction xs arbitrary: ys)
  case (Cons x xs)
  then obtain y ys' where "f x = Inr y" "rmap f xs = Inr ys'" "ys = y # ys'"
    by (auto simp: ok_simps)
  with Cons.IH [of ys'] show ?case
    by (auto simp: nth_Cons split: nat.splits)
qed simp

lemma rmap_Inr_set: "rmap f xs = Inr ys \<Longrightarrow> y \<in> set ys \<Longrightarrow> \<exists>x \<in> set xs. f x = Inr y"
  by (induction xs arbitrary: ys) (auto simp: ok_simps)

lemma rmap_Inl: "rmap f xs = Inl e \<Longrightarrow> \<exists>x \<in> set xs. f x = Inl e"
  by (induction xs) (auto simp: ok_simps)

section \<open>Python objects\<close>

datatype pyfloat = Fin rat | PosInf | NegInf | NaN

datatype pykey = KStr string | KOther nat

datatype pyval =
    PNone
  | PBool bool
  | PInt int
  | PFloat pyfloat
  | PStr string
  | PList "pyval list"
  | PDict "(pykey \<times> pyval) list"
  | POther nat \<comment> \<open>an object of any other class\<close>

fun isfinite :: "pyfloat \<Rightarrow> bool" where
  "isfinite (Fin r) = True"
| "isfinite _ = False"

text \<open>
  \<open>float(i)\<close> of an \<open>int\<close> raises \<open>OverflowError\<close> from the midpoint between the largest double and
  \<open>2 ^ 1024\<close> on.
\<close>

definition float_limit :: int where
  "float_limit = 2 ^ 1024 - 2 ^ 970"

text \<open>
  \<open>float(s)\<close> of a text of the first 256 characters: surrounding white space is dropped, an underscore may stand between two
  digits, and what remains is a sign and a decimal number, an infinity or not a number. The value is exact.
\<close>

definition decimal_digit :: "char \<Rightarrow> bool" where
  "decimal_digit c \<longleftrightarrow> 48 \<le> (of_char c :: nat) \<and> (of_char c :: nat) \<le> 57"

definition white_space :: "char \<Rightarrow> bool" where
  "white_space c \<longleftrightarrow> (of_char c :: nat) \<in> {9, 10, 11, 12, 13, 28, 29, 30, 31, 32, 133, 160}"

definition lower_letter :: "char \<Rightarrow> char" where
  "lower_letter c = (if 65 \<le> (of_char c :: nat) \<and> (of_char c :: nat) \<le> 90 then char_of (of_char c + 32 :: nat) else c)"

fun underscores_ok :: "bool \<Rightarrow> string \<Rightarrow> bool" where
  "underscores_ok after_digit [] = True"
| "underscores_ok after_digit (c # cs) =
     (if c = CHR 0x5F then after_digit \<and> cs \<noteq> [] \<and> decimal_digit (hd cs) \<and> underscores_ok False cs
      else underscores_ok (decimal_digit c) cs)"

fun split_sign :: "string \<Rightarrow> bool \<times> string" where
  "split_sign [] = (False, [])"
| "split_sign (c # cs) = (if c = CHR ''-'' then (True, cs) else if c = CHR ''+'' then (False, cs) else (False, c # cs))"

definition digits_value :: "string \<Rightarrow> nat" where
  "digits_value = foldl (\<lambda>n c. 10 * n + (of_char c - 48)) 0"

fun exponent_of :: "string \<Rightarrow> int option" where
  "exponent_of [] = Some 0"
| "exponent_of (c # cs) =
     (case split_sign cs of (neg, ds) \<Rightarrow>
        if lower_letter c = CHR ''e'' \<and> ds \<noteq> [] \<and> list_all decimal_digit ds
        then Some (if neg then - int (digits_value ds) else int (digits_value ds)) else None)"

definition decimal_value :: "string \<Rightarrow> rat option" where
  "decimal_value s =
     (let whole = takeWhile decimal_digit s; rest = dropWhile decimal_digit s;
          dot = rest \<noteq> [] \<and> hd rest = CHR ''.'';
          part = (if dot then takeWhile decimal_digit (tl rest) else []);
          rest = (if dot then dropWhile decimal_digit (tl rest) else rest)
      in if whole @ part = [] then None
         else map_option (\<lambda>e. let k = e - int (length part); n = of_nat (digits_value (whole @ part)) in
                if 0 \<le> k then n * 10 ^ nat k else n / 10 ^ nat (- k)) (exponent_of rest))"

definition text_float :: "string \<Rightarrow> pyfloat option" where
  "text_float s =
     (let t = rev (dropWhile white_space (rev (dropWhile white_space s)));
          (neg, u) = split_sign (filter (\<lambda>c. c \<noteq> CHR 0x5F) t);
          name = map lower_letter u
      in if \<not> underscores_ok False t then None
         else if name = ''inf'' \<or> name = ''infinity'' then Some (if neg then NegInf else PosInf)
         else if name = ''nan'' then Some NaN
         else map_option (\<lambda>x. if of_int float_limit \<le> x then (if neg then NegInf else PosInf) else Fin (if neg then - x else x))
                (decimal_value u))"

fun py_float :: "pyval \<Rightarrow> pyfloat res" where
  "py_float (PInt i) = (if \<bar>i\<bar> < float_limit then Inr (Fin (of_int i))
      else raise OverflowError ''int too large to convert to float'')"
| "py_float (PFloat f) = Inr f"
| "py_float (PBool b) = Inr (Fin (if b then 1 else 0))"
| "py_float (PStr s) = (case text_float s of None \<Rightarrow> raise ValueError ''could not convert string to float'' | Some f \<Rightarrow> Inr f)"
| "py_float _ = raise TypeError ''float() argument must be a string or a real number''"

fun is_number :: "pyval \<Rightarrow> bool" where
  \<comment> \<open>\<open>isinstance(v, (int, float)) and not isinstance(v, bool)\<close>\<close>
  "is_number (PInt _) = True"
| "is_number (PFloat _) = True"
| "is_number _ = False"

text \<open>The rational a finite number denotes: comparisons of Python numbers are exact.\<close>

fun num_value :: "pyval \<Rightarrow> rat option" where
  "num_value (PInt i) = (if \<bar>i\<bar> < float_limit then Some (of_int i) else None)"
| "num_value (PFloat (Fin r)) = Some r"
| "num_value _ = None"

lemma num_value_is_number: "num_value v = Some r \<Longrightarrow> is_number v \<and> py_float v = Inr (Fin r)"
  by (cases v rule: num_value.cases) (auto split: if_splits)

lemma num_value_float [simp]: "num_value (PFloat (Fin r)) = Some r"
  by simp

fun is_str :: "pyval \<Rightarrow> bool" where
  "is_str (PStr _) = True"
| "is_str _ = False"

fun str_of :: "pyval \<Rightarrow> string" where
  "str_of (PStr s) = s"
| "str_of _ = []"

lemma is_str_PStr: "is_str v \<longleftrightarrow> v = PStr (str_of v)"
  by (cases v) auto

fun is_list :: "pyval \<Rightarrow> bool" where
  "is_list (PList _) = True"
| "is_list _ = False"

fun list_of :: "pyval \<Rightarrow> pyval list" where
  "list_of (PList xs) = xs"
| "list_of _ = []"

fun is_dict :: "pyval \<Rightarrow> bool" where
  "is_dict (PDict _) = True"
| "is_dict _ = False"

fun dict_items :: "pyval \<Rightarrow> (pykey \<times> pyval) list" where
  "dict_items (PDict d) = d"
| "dict_items _ = []"

fun is_int :: "pyval \<Rightarrow> bool" where
  \<comment> \<open>\<open>type(v) is int\<close>\<close>
  "is_int (PInt _) = True"
| "is_int _ = False"

fun int_of :: "pyval \<Rightarrow> int" where
  "int_of (PInt i) = i"
| "int_of _ = 0"

fun is_bool :: "pyval \<Rightarrow> bool" where
  "is_bool (PBool _) = True"
| "is_bool _ = False"

fun bool_of :: "pyval \<Rightarrow> bool" where
  "bool_of (PBool b) = b"
| "bool_of _ = False"

text \<open>\<open>v == i\<close> for an \<open>int\<close> \<open>i\<close>: Python compares numbers by value.\<close>

fun equals_int :: "pyval \<Rightarrow> int \<Rightarrow> bool" where
  "equals_int (PInt j) i = (j = i)"
| "equals_int (PBool b) i = ((if b then 1 else 0) = i)"
| "equals_int (PFloat (Fin r)) i = (r = of_int i)"
| "equals_int _ i = False"

text \<open>\<open>d.get(k)\<close>, \<open>d.get(k, default)\<close>, \<open>d[k]\<close> and \<open>k in d\<close> on a document.\<close>

definition fget :: "pyval \<Rightarrow> string \<Rightarrow> pyval" where
  "fget d k = (case map_of (dict_items d) (KStr k) of None \<Rightarrow> PNone | Some v \<Rightarrow> v)"

definition fget_or :: "pyval \<Rightarrow> string \<Rightarrow> pyval \<Rightarrow> pyval" where
  "fget_or d k v0 = (case map_of (dict_items d) (KStr k) of None \<Rightarrow> v0 | Some v \<Rightarrow> v)"

definition fitem :: "pyval \<Rightarrow> string \<Rightarrow> pyval res" where
  "fitem d k = (case map_of (dict_items d) (KStr k) of None \<Rightarrow> raise KeyError k | Some v \<Rightarrow> Inr v)"

definition has_key :: "pyval \<Rightarrow> string \<Rightarrow> bool" where
  "has_key d k \<longleftrightarrow> map_of (dict_items d) (KStr k) \<noteq> None"

definition dict_keys :: "pyval \<Rightarrow> pykey set" where
  "dict_keys d = fst ` set (dict_items d)"

lemmas doc_simps = fget_def fget_or_def fitem_def has_key_def

section \<open>Strings\<close>

definition str_isspace :: "char \<Rightarrow> bool" where
  "str_isspace c \<longleftrightarrow> (let n = (of_char c :: nat) in
     9 \<le> n \<and> n \<le> 13 \<or> 28 \<le> n \<and> n \<le> 32 \<or> n = 133 \<or> n = 160)"

definition str_isalnum :: "char \<Rightarrow> bool" where
  "str_isalnum c \<longleftrightarrow> (let n = (of_char c :: nat) in
     48 \<le> n \<and> n \<le> 57 \<or> 65 \<le> n \<and> n \<le> 90 \<or> 97 \<le> n \<and> n \<le> 122 \<or>
     n \<in> {170, 178, 179, 181, 185, 186, 188, 189, 190} \<or> 192 \<le> n \<and> n \<noteq> 215 \<and> n \<noteq> 247)"

fun starts_with :: "string \<Rightarrow> string \<Rightarrow> bool" where
  "starts_with [] s = True"
| "starts_with (c # cs) [] = False"
| "starts_with (c # cs) (d # ds) = (c = d \<and> starts_with cs ds)"

fun contains :: "string \<Rightarrow> string \<Rightarrow> bool" where
  \<comment> \<open>\<open>p in s\<close>\<close>
  "contains p [] = (p = [])"
| "contains p (c # cs) = (starts_with p (c # cs) \<or> contains p cs)"

text \<open>\<open>not s.strip()\<close>: the string holds whitespace only.\<close>

definition blank :: "string \<Rightarrow> bool" where
  "blank s \<longleftrightarrow> list_all str_isspace s"

text \<open>
  \<open>hmac.compare_digest\<close> on two texts compares ASCII texts and raises \<open>TypeError\<close> on any other.
\<close>

definition is_ascii :: "string \<Rightarrow> bool" where
  "is_ascii s \<longleftrightarrow> list_all (\<lambda>c. (of_char c :: nat) < 128) s"

definition compare_digest :: "string \<Rightarrow> string \<Rightarrow> bool res" where
  "compare_digest a b =
     (if is_ascii a \<and> is_ascii b then Inr (a = b)
      else raise TypeError ''comparing strings with non-ASCII characters is not supported'')"

lemma compare_digest_Inr [ok_simps]:
  "compare_digest a b = Inr r \<longleftrightarrow> is_ascii a \<and> is_ascii b \<and> r = (a = b)"
  by (auto simp: compare_digest_def)

section \<open>Dictionaries\<close>

type_synonym ('k, 'v) dict = "('k \<times> 'v) list"

abbreviation dict_set :: "'k \<Rightarrow> 'v \<Rightarrow> ('k, 'v) dict \<Rightarrow> ('k, 'v) dict" where
  "dict_set \<equiv> AList.update"

abbreviation dict_pop :: "'k \<Rightarrow> ('k, 'v) dict \<Rightarrow> ('k, 'v) dict" where
  "dict_pop \<equiv> AList.delete"

definition fset :: "pyval \<Rightarrow> string \<Rightarrow> pyval \<Rightarrow> pyval" where
  \<comment> \<open>\<open>d[k] = v\<close> on a copy\<close>
  "fset d k v = PDict (dict_set (KStr k) v (dict_items d))"

text \<open>A dict comprehension evaluates its pairs in order; a later key overwrites an earlier one.\<close>

definition dict_of :: "('k \<times> 'v) list \<Rightarrow> ('k, 'v) dict" where
  "dict_of kvs = fold (\<lambda>(k, v) d. dict_set k v d) kvs []"

abbreviation keys_distinct :: "('k, 'v) dict \<Rightarrow> bool" where
  "keys_distinct d \<equiv> distinct (map fst d)"

lemma map_of_dict_set [simp, dict_simps]: "map_of (dict_set k v d) = (map_of d)(k \<mapsto> v)"
  by (simp add: update_conv')

lemma map_of_dict_pop [simp, dict_simps]: "map_of (dict_pop k d) = (map_of d)(k := None)"
  by (simp add: delete_conv')

lemma keys_distinct_set [simp]: "keys_distinct d \<Longrightarrow> keys_distinct (dict_set k v d)"
  by (simp add: distinct_update)

lemma keys_distinct_pop [simp]: "keys_distinct d \<Longrightarrow> keys_distinct (dict_pop k d)"
  by (simp add: distinct_delete)

lemma keys_distinct_filter [simp]: "keys_distinct d \<Longrightarrow> keys_distinct (filter P d)"
  by (simp add: distinct_map_filter)

lemma dict_keys_set [dict_simps]: "fst ` set (dict_set k v d) = insert k (fst ` set d)"
  by (simp add: dom_update)

lemma length_dict_set_new:
  "map_of d k = None \<Longrightarrow> dict_set k v d = d @ [(k, v)]"
  by (induction d) auto

lemma length_dict_set: "length (dict_set k v d) = (if map_of d k = None then Suc (length d) else length d)"
  by (induction d) auto

lemma dict_set_in_set: "keys_distinct d \<Longrightarrow> x \<in> set (dict_set k v d) \<longleftrightarrow> x = (k, v) \<or> x \<in> set d \<and> fst x \<noteq> k"
  by (induction d) (auto simp: rev_image_eqI)

lemma dict_pop_set: "set (dict_pop k d) = {x \<in> set d. fst x \<noteq> k}"
  by (auto simp: AList.delete_eq)

lemma length_dict_pop: "length (dict_pop k d) \<le> length d"
  by (rule length_delete_le)

lemma map_of_filter_key:
  "map_of (filter (\<lambda>x. P (fst x)) d) k = (if P k then map_of d k else None)"
  by (induction d) auto

lemma map_of_filter_distinct:
  "keys_distinct d \<Longrightarrow>
   map_of (filter P d) k = (case map_of d k of None \<Rightarrow> None | Some v \<Rightarrow> if P (k, v) then Some v else None)"
  by (induction d) (auto split: option.splits simp: map_of_eq_None_iff rev_image_eqI)

lemma dict_of_snoc: "dict_of (kvs @ [(k, v)]) = dict_set k v (dict_of kvs)"
  by (simp add: dict_of_def)

lemma dict_of_distinct: "keys_distinct kvs \<Longrightarrow> dict_of kvs = kvs"
proof (induction kvs rule: rev_induct)
  case (snoc kv kvs)
  obtain k v where [simp]: "kv = (k, v)" by (cases kv)
  from snoc.prems have "map_of kvs k = None"
    by (auto simp: map_of_eq_None_iff)
  with snoc show ?case
    by (simp add: dict_of_snoc length_dict_set_new)
qed (simp add: dict_of_def)

lemma map_of_dict_of: "map_of (dict_of kvs) k = map_of (rev kvs) k"
  by (induction kvs rule: rev_induct) (auto simp: dict_of_snoc, simp add: dict_of_def)

lemma keys_distinct_dict_of: "keys_distinct (dict_of kvs)"
  by (induction kvs rule: rev_induct) (auto simp: dict_of_snoc, simp add: dict_of_def)

lemma map_of_map_key:
  "map_of (map (\<lambda>x. (f x, x)) xs) k = find (\<lambda>x. f x = k) xs"
  by (induction xs) auto

section \<open>Lists\<close>

lemma find_Some_D: "find P xs = Some x \<Longrightarrow> x \<in> set xs \<and> P x"
  by (induction xs) (auto split: if_splits)

lemma find_None_D: "find P xs = None \<Longrightarrow> x \<in> set xs \<Longrightarrow> \<not> P x"
  by (auto simp: find_None_iff)

lemma find_filter_unique:
  "length (filter P xs) \<le> 1 \<Longrightarrow> x \<in> set xs \<Longrightarrow> P x \<Longrightarrow> find P xs = Some x"
  by (induction xs) (auto simp: filter_empty_conv Suc_le_eq split: if_splits)

lemma length_filter_le_1_unique:
  assumes "length (filter P xs) \<le> 1" "x \<in> set xs" "P x" "y \<in> set xs" "P y"
  shows "x = y"
  using assms find_filter_unique by (metis option.inject)

lemma length_filter_mono:
  "(\<And>x. x \<in> set xs \<Longrightarrow> P x \<Longrightarrow> Q x) \<Longrightarrow> length (filter P xs) \<le> length (filter Q xs)"
  by (induction xs) (auto simp: le_SucI)

end
