(* ===== verification/Identity.thy ===== *)
theory Identity
  imports Digest
begin

text \<open>
  \<open>identity/__init__.py\<close> and \<open>data/permissions.py\<close>: node identifiers, the permission vocabulary and
  the transport proofs that bind a TLS fingerprint to a node's root key. The Ed25519 check itself is
  third-party code; it is the parameter \<open>sig_ok\<close> (\<open>sig_ok key sig msg\<close>: the base64 texts decode and
  the signature verifies).
\<close>

section \<open>Node identifiers\<close>

datatype node_id = NodeId (nid_value: string)

definition nid_ok :: "node_id \<Rightarrow> bool" where
  "nid_ok n \<longleftrightarrow> nid_value n \<noteq> [] \<and> nid_value n \<noteq> ''local'' \<and> length (nid_value n) \<le> 128"

definition mk_node_id :: "string \<Rightarrow> node_id res" where
  "mk_node_id v =
     (if v = [] \<or> v = ''local'' \<or> length v > 128 then raise ValueError ''invalid node id''
      else Inr (NodeId v))"

lemma mk_node_id_Inr [ok_simps]: "mk_node_id v = Inr n \<longleftrightarrow> n = NodeId v \<and> nid_ok n"
  by (auto simp: mk_node_id_def nid_ok_def)

lemma mk_node_id_Inl: "mk_node_id v = Inl e \<longleftrightarrow> \<not> nid_ok (NodeId v) \<and> e = Exn ValueError ''invalid node id''"
  by (auto simp: mk_node_id_def nid_ok_def)

lemma mk_node_id_if:
  "mk_node_id v = (if nid_ok (NodeId v) then Inr (NodeId v) else raise ValueError ''invalid node id'')"
  by (auto simp: mk_node_id_def nid_ok_def)

lemma mk_node_id_value [simp]: "nid_ok n \<Longrightarrow> mk_node_id (nid_value n) = Inr n"
  by (cases n) (auto simp: mk_node_id_def nid_ok_def)

section \<open>Permissions\<close>

datatype node_capability = CAP_READ_STATE | CAP_REMOTE_MANAGEMENT

datatype node_permission =
  READ_STATE | REMOTE_MANAGEMENT | PROCESS_TERMINATION | PROCESS_FORCE_TERMINATION | CLEANUP

fun capability_value :: "node_capability \<Rightarrow> string" where
  "capability_value CAP_READ_STATE = ''read_state''"
| "capability_value CAP_REMOTE_MANAGEMENT = ''remote_management''"

fun permission_value :: "node_permission \<Rightarrow> string" where
  "permission_value READ_STATE = ''read_state''"
| "permission_value REMOTE_MANAGEMENT = ''remote_management''"
| "permission_value PROCESS_TERMINATION = ''process_termination''"
| "permission_value PROCESS_FORCE_TERMINATION = ''process_force_termination''"
| "permission_value CLEANUP = ''cleanup''"

definition all_permissions :: "node_permission list" where
  "all_permissions =
     [READ_STATE, REMOTE_MANAGEMENT, PROCESS_TERMINATION, PROCESS_FORCE_TERMINATION, CLEANUP]"

text \<open>\<open>NodePermission(value)\<close> and \<open>NodeCapability(value)\<close> look an enum member up by value.\<close>

definition mk_permission :: "string \<Rightarrow> node_permission res" where
  "mk_permission s = (case find (\<lambda>p. permission_value p = s) all_permissions of
     None \<Rightarrow> raise ValueError ''not a valid NodePermission'' | Some p \<Rightarrow> Inr p)"

definition mk_capability :: "string \<Rightarrow> node_capability res" where
  "mk_capability s = (case find (\<lambda>p. capability_value p = s) [CAP_READ_STATE, CAP_REMOTE_MANAGEMENT] of
     None \<Rightarrow> raise ValueError ''not a valid NodeCapability'' | Some p \<Rightarrow> Inr p)"

definition READ_PERMISSIONS :: "node_permission set" where
  "READ_PERMISSIONS = {READ_STATE}"

definition READ_CAPABILITIES :: "node_capability set" where
  "READ_CAPABILITIES = {CAP_READ_STATE}"

lemma mk_permission_value [simp]: "mk_permission (permission_value p) = Inr p"
  by (cases p) (simp_all add: mk_permission_def all_permissions_def)

lemma permission_value_inj [simp]: "permission_value p = permission_value q \<longleftrightarrow> p = q"
  by (cases p; cases q) simp_all

section \<open>Transport proofs\<close>

type_synonym sig_check = "string \<Rightarrow> string \<Rightarrow> string \<Rightarrow> bool"

fun show_nat :: "nat \<Rightarrow> string" where
  "show_nat n = (if n < 10 then [char_of (48 + n)] else show_nat (n div 10) @ [char_of (48 + n mod 10)])"

declare show_nat.simps [simp del]

definition py_str_int :: "int \<Rightarrow> string" where
  "py_str_int i = (if i < 0 then CHR ''-'' # show_nat (nat (- i)) else show_nat (nat i))"

text \<open>\<open>str(v)\<close>; \<open>pyrepr\<close> is \<open>str\<close> on floats, lists, dicts and foreign objects.\<close>

fun py_str :: "(pyval \<Rightarrow> string) \<Rightarrow> pyval \<Rightarrow> string" where
  "py_str pyrepr (PStr s) = s"
| "py_str pyrepr PNone = ''None''"
| "py_str pyrepr (PBool b) = (if b then ''True'' else ''False'')"
| "py_str pyrepr (PInt i) = py_str_int i"
| "py_str pyrepr v = pyrepr v"

definition proof_payload :: "node_id \<Rightarrow> int \<Rightarrow> string \<Rightarrow> string" where
  "proof_payload n g f =
     ''expra-connect/transport/v1'' @ [CHR 0x00] @ nid_value n @ [CHR 0x00] @ py_str_int g
       @ [CHR 0x00] @ f"

definition verify_transport_proof :: "sig_check \<Rightarrow> node_id \<Rightarrow> string \<Rightarrow> int \<Rightarrow> string \<Rightarrow> string \<Rightarrow> bool" where
  "verify_transport_proof sig_ok n rk g f prf \<longleftrightarrow>
     (if g < 1 \<or> f = [] then False else sig_ok rk prf (proof_payload n g f))"

text \<open>\<open>NodeIdentity.sign_transport_proof\<close>; the signing key is the parameter \<open>sign\<close>.\<close>

definition sign_transport_proof :: "(string \<Rightarrow> string) \<Rightarrow> node_id \<Rightarrow> int \<Rightarrow> string \<Rightarrow> string res" where
  "sign_transport_proof sign n g f =
     (if g < 1 \<or> f = [] then raise ValueError ''invalid transport proof input''
      else Inr (sign (proof_payload n g f)))"

definition node_identity_fingerprint :: "string \<Rightarrow> string" where
  "node_identity_fingerprint v =
     (let digest = sha256_hex (''system-analyzer-node:'' @ v)
      in concat (map (\<lambda>i. (if i = 0 then [] else '':'') @ take 4 (drop (4 * i) digest)) [0..<16]))"

section \<open>Decimal notation\<close>

definition digits_val :: "string \<Rightarrow> nat" where
  "digits_val s = foldl (\<lambda>a c. 10 * a + (of_char c - 48)) 0 s"

lemma digits_val_snoc [simp]: "digits_val (s @ [c]) = 10 * digits_val s + (of_char c - 48)"
  by (simp add: digits_val_def)

lemma digits_val_show_nat: "digits_val (show_nat n) = n"
proof (induction n rule: show_nat.induct)
  case (1 n)
  have "(of_char (char_of (48 + m) :: char) :: nat) = 48 + m" if "m < 10" for m :: nat
    using that by (simp add: of_char_of)
  with 1 show ?case
    by (cases "n < 10") (simp_all add: show_nat.simps [of n] digits_val_def)
qed

lemma show_nat_digits: "c \<in> set (show_nat n) \<Longrightarrow> 48 \<le> (of_char c :: nat) \<and> (of_char c :: nat) \<le> 57"
proof (induction n rule: show_nat.induct)
  case (1 n)
  have "(of_char (char_of (48 + m) :: char) :: nat) = 48 + m" if "m < 10" for m :: nat
    using that by (simp add: of_char_of)
  with 1 show ?case
    by (cases "n < 10") (auto simp add: show_nat.simps [of n])
qed

lemma show_nat_no_nul: "CHR 0x00 \<notin> set (show_nat n)"
  using show_nat_digits [of "CHR 0x00" n] by auto

lemma split_at_first:
  assumes "x \<notin> set a" "x \<notin> set b" "a @ x # c = b @ x # d"
  shows "a = b \<and> c = d"
  using assms
proof (induction a arbitrary: b)
  case Nil
  then show ?case by (cases b) auto
next
  case (Cons y a)
  then show ?case by (cases b) auto
qed

text \<open>
  The bytes a transport proof signs determine the node, the generation and the fingerprint:
  for node identifiers without a NUL character and generations from 1 on, two different bindings
  never share a payload, so a proof cannot be replayed for another binding.
\<close>

theorem proof_payload_binds:
  assumes "CHR 0x00 \<notin> set (nid_value n)" "CHR 0x00 \<notin> set (nid_value n')"
    and "1 \<le> g" "1 \<le> g'" "proof_payload n g f = proof_payload n' g' f'"
  shows "n = n' \<and> g = g' \<and> f = f'"
proof -
  from assms(5) have "nid_value n @ CHR 0x00 # py_str_int g @ CHR 0x00 # f
      = nid_value n' @ CHR 0x00 # py_str_int g' @ CHR 0x00 # f'"
    by (simp add: proof_payload_def)
  from split_at_first [OF assms(1,2) this]
  have n: "nid_value n = nid_value n'" and r: "py_str_int g @ CHR 0x00 # f = py_str_int g' @ CHR 0x00 # f'"
    by simp_all
  have "show_nat (nat g) @ CHR 0x00 # f = show_nat (nat g') @ CHR 0x00 # f'"
    using r assms(3,4) by (simp add: py_str_int_def)
  from split_at_first [OF show_nat_no_nul show_nat_no_nul this]
  have "show_nat (nat g) = show_nat (nat g')" "f = f'" by simp_all
  then have "nat g = nat g'" by (metis digits_val_show_nat)
  with n \<open>f = f'\<close> assms(3,4) show ?thesis by (simp add: node_id.expand)
qed

theorem proof_payload_binds_witness:
  "NodeId ''a'' = NodeId ''a'' \<and> (3::int) = 3 \<and> ''f'' = ''f''"
  by (rule proof_payload_binds [of "NodeId ''a''" "NodeId ''a''" 3 3 "''f''" "''f''"]) simp_all

end
