(* ===== verification/Interfaces.thy ===== *)
theory Interfaces
  imports Prelude
begin

text \<open>
  The contracts components offer to each other, as locales. Each is interpreted on the model's own
  operations in the theory of the component that provides them.

  \<^item> \<open>transition_system\<close>: operations that keep an invariant keep it along every run; with a
    measure (\<open>monotone_system\<close>) the measure never decreases along a run.
  \<^item> \<open>grant_table\<close>: a table of permissions in which granting one key and revoking one key touch no
    other key. The client lemma gives the abstract specification: after any sequence of calls a
    key is held exactly when the last call that named it was a grant.
  \<^item> \<open>durable_cell\<close>: a published state that changes only after the storage callback has accepted
    the new value.
  \<^item> \<open>once_table\<close>: a table that answers \<open>True\<close> for a key at most once while time stays within a
    window, whatever other calls come between.
\<close>

section \<open>Runs\<close>

locale transition_system =
  fixes step :: "'s \<Rightarrow> 'o \<Rightarrow> 's"
    and inv :: "'s \<Rightarrow> bool"
  assumes step_inv: "inv s \<Longrightarrow> inv (step s x)"
begin

lemma run_inv: "inv s \<Longrightarrow> inv (foldl step s xs)"
  by (induction xs arbitrary: s) (auto intro: step_inv)

end

locale monotone_system = transition_system step inv
  for step :: "'s \<Rightarrow> 'o \<Rightarrow> 's" and inv :: "'s \<Rightarrow> bool" +
  fixes rank :: "'s \<Rightarrow> 'm::order"
  assumes step_mono: "inv s \<Longrightarrow> rank s \<le> rank (step s x)"
begin

lemma run_mono: "inv s \<Longrightarrow> rank s \<le> rank (foldl step s xs)"
proof (induction xs arbitrary: s)
  case (Cons x xs)
  have "rank s \<le> rank (step s x)" using Cons.prems by (rule step_mono)
  also have "\<dots> \<le> rank (foldl step (step s x) xs)"
    using Cons.prems by (intro Cons.IH step_inv)
  finally show ?case by simp
qed simp

end

section \<open>Permission tables\<close>

datatype 'k grant_op = Grant 'k | Revoke 'k

fun grant_key :: "'k grant_op \<Rightarrow> 'k" where
  "grant_key (Grant k) = k"
| "grant_key (Revoke k) = k"

fun is_grant :: "'k grant_op \<Rightarrow> bool" where
  "is_grant (Grant _) = True"
| "is_grant (Revoke _) = False"

fun perform_grant :: "('k \<Rightarrow> 's \<Rightarrow> 's) \<Rightarrow> ('k \<Rightarrow> 's \<Rightarrow> 's) \<Rightarrow> 's \<Rightarrow> 'k grant_op \<Rightarrow> 's" where
  "perform_grant g r s (Grant k) = g k s"
| "perform_grant g r s (Revoke k) = r k s"

text \<open>The abstract answer: what the last call naming the key said, else the initial answer.\<close>

definition last_says :: "'k grant_op list \<Rightarrow> 'k \<Rightarrow> bool \<Rightarrow> bool" where
  "last_says xs k b = (case find (\<lambda>x. grant_key x = k) (rev xs) of None \<Rightarrow> b | Some x \<Rightarrow> is_grant x)"

lemma find_snoc: "find P (xs @ [x]) = (case find P xs of None \<Rightarrow> (if P x then Some x else None) | Some y \<Rightarrow> Some y)"
  by (induction xs) auto

lemma last_says_simps [simp]:
  "last_says [] k b = b"
  "last_says (x # xs) k b = last_says xs k (if grant_key x = k then is_grant x else b)"
  by (auto simp: last_says_def find_snoc split: option.splits)

locale grant_table =
  fixes grant :: "'k \<Rightarrow> 's \<Rightarrow> 's"
    and revoke :: "'k \<Rightarrow> 's \<Rightarrow> 's"
    and holds :: "'s \<Rightarrow> 'k \<Rightarrow> bool"
    and inv :: "'s \<Rightarrow> bool"
    and grantable :: "'s \<Rightarrow> 'k \<Rightarrow> bool"
  assumes holds_grant: "inv s \<Longrightarrow> grantable s k \<Longrightarrow> holds (grant k s) k' \<longleftrightarrow> k' = k \<or> holds s k'"
    and holds_revoke: "inv s \<Longrightarrow> holds (revoke k s) k' \<longleftrightarrow> k' \<noteq> k \<and> holds s k'"
    and inv_grant: "inv s \<Longrightarrow> grantable s k \<Longrightarrow> inv (grant k s)"
    and inv_revoke: "inv s \<Longrightarrow> inv (revoke k s)"
    and grantable_grant: "grantable s k' \<Longrightarrow> grantable (grant k s) k'"
    and grantable_revoke: "grantable s k' \<Longrightarrow> grantable (revoke k s) k'"
begin

abbreviation perform :: "'s \<Rightarrow> 'k grant_op \<Rightarrow> 's" where
  "perform \<equiv> perform_grant grant revoke"

lemma run_holds:
  assumes "inv s" "\<And>x. x \<in> set xs \<Longrightarrow> is_grant x \<Longrightarrow> grantable s (grant_key x)"
  shows "inv (foldl perform s xs) \<and> (holds (foldl perform s xs) k \<longleftrightarrow> last_says xs k (holds s k))"
  using assms
proof (induction xs arbitrary: s)
  case (Cons x xs)
  have gx: "is_grant x \<Longrightarrow> grantable s (grant_key x)"
    using Cons.prems(2) [of x] by simp
  have "inv (perform s x)"
    using Cons.prems(1) gx by (cases x) (auto intro: inv_grant inv_revoke)
  moreover have "grantable (perform s x) (grant_key y)" if "y \<in> set xs" "is_grant y" for y
    using Cons.prems(2) [of y] that by (cases x) (auto intro: grantable_grant grantable_revoke)
  moreover have "holds (perform s x) k \<longleftrightarrow> (if grant_key x = k then is_grant x else holds s k)"
    using Cons.prems(1) gx by (cases x) (auto simp: holds_grant holds_revoke)
  ultimately show ?case using Cons.IH [of "perform s x"] by simp
qed simp

end

section \<open>Storage before publication\<close>

locale durable_cell =
  fixes commit :: "('d \<Rightarrow> exn option) \<Rightarrow> 's \<Rightarrow> 'v \<Rightarrow> 's \<times> unit res"
    and published :: "'s \<Rightarrow> 'v"
    and document :: "'s \<Rightarrow> 'v \<Rightarrow> 'd"
  assumes commit_ok: "store (document s v) = None \<Longrightarrow>
      snd (commit store s v) = Inr () \<and> published (fst (commit store s v)) = v"
    and commit_fail: "store (document s v) = Some e \<Longrightarrow>
      fst (commit store s v) = s \<and> (\<exists>e'. snd (commit store s v) = Inl e')"
begin

lemma commit_atomic:
  "(\<exists>e. snd (commit store s v) = Inl e) \<and> fst (commit store s v) = s
   \<or> snd (commit store s v) = Inr () \<and> published (fst (commit store s v)) = v
     \<and> store (document s v) = None"
  using commit_ok [of store s v] commit_fail [of store s v]
  by (cases "store (document s v)") auto

end

section \<open>Once-only tables\<close>

definition once_run :: "('k \<Rightarrow> rat \<Rightarrow> 's \<Rightarrow> 's \<times> bool) \<Rightarrow> 's \<Rightarrow> ('k \<times> rat) list \<Rightarrow> 's" where
  "once_run check s ops = foldl (\<lambda>s (k, t). fst (check k t s)) s ops"

locale once_table =
  fixes check :: "'k \<Rightarrow> rat \<Rightarrow> 's \<Rightarrow> 's \<times> bool"
    and stamp :: "'s \<Rightarrow> 'k \<Rightarrow> rat option"
    and window :: "'s \<Rightarrow> rat"
    and inv :: "'s \<Rightarrow> bool"
  assumes check_inv: "inv s \<Longrightarrow> inv (fst (check k t s))"
    and check_window: "window (fst (check k t s)) = window s"
    and check_known: "inv s \<Longrightarrow> stamp s k = Some t0 \<Longrightarrow> t - t0 \<le> window s \<Longrightarrow> \<not> snd (check k t s)"
    and check_keeps: "inv s \<Longrightarrow> stamp s k = Some t0 \<Longrightarrow> t - t0 \<le> window s \<Longrightarrow>
          stamp (fst (check k' t s)) k = Some t0"
    and check_records: "inv s \<Longrightarrow> snd (check k t s) \<Longrightarrow> stamp (fst (check k t s)) k = Some t"
begin

abbreviation run :: "'s \<Rightarrow> ('k \<times> rat) list \<Rightarrow> 's" where
  "run \<equiv> once_run check"

lemma run_keeps:
  "inv s \<Longrightarrow> stamp s k = Some t0 \<Longrightarrow> \<forall>(k', t) \<in> set ops. t - t0 \<le> window s \<Longrightarrow>
   inv (run s ops) \<and> stamp (run s ops) k = Some t0 \<and> window (run s ops) = window s"
proof (induction ops arbitrary: s)
  case (Cons op ops)
  obtain k' t where [simp]: "op = (k', t)" by (cases op)
  from Cons.prems have "inv (fst (check k' t s))" "stamp (fst (check k' t s)) k = Some t0"
    by (auto intro: check_inv check_keeps)
  with Cons.IH [of "fst (check k' t s)"] Cons.prems show ?case
    by (simp add: once_run_def check_window)
qed (simp add: once_run_def)

lemma never_twice:
  assumes "inv s" "snd (check k t0 s)" "\<forall>(k', t) \<in> set ops. t - t0 \<le> window s" "t1 - t0 \<le> window s"
  shows "\<not> snd (check k t1 (run (fst (check k t0 s)) ops))"
proof -
  have i: "inv (fst (check k t0 s))" using assms(1) by (rule check_inv)
  from run_keeps [OF i check_records [OF assms(1,2)]] assms(3)
  have r: "inv (run (fst (check k t0 s)) ops)" "stamp (run (fst (check k t0 s)) ops) k = Some t0"
    "window (run (fst (check k t0 s)) ops) = window s"
    by (auto simp: check_window)
  show ?thesis using r(3) assms(4) by (intro check_known [OF r(1,2)]) simp
qed

end

end
