(* ===== verification/Roles.thy ===== *)
theory Roles
  imports Identity Interfaces
begin

text \<open>
  \<open>cluster/models.py\<close> and \<open>cluster/roles.py\<close>: the immutable role state of a cluster (who is
  Coordinator, Subcoordinator or Worker, who is paused or revoked, the Coordinator's lease, the
  delegated capability grants), the operations on it, and the lease and promotion decisions.

  \<open>dataclasses.replace\<close> runs \<open>__post_init__\<close> again, so every operation ends in \<open>ra_post_init\<close> or
  \<open>rs_post_init\<close>. Dataclass fields that \<open>__post_init__\<close> forces to be finite are rationals; the
  constructors take any float. \<open>new_fencing_token()\<close> is the argument \<open>tok\<close>.
\<close>

section \<open>Data\<close>

datatype cluster_role = WORKER | COORDINATOR | SUBCOORDINATOR

fun role_value :: "cluster_role \<Rightarrow> string" where
  "role_value WORKER = ''worker''"
| "role_value COORDINATOR = ''coordinator''"
| "role_value SUBCOORDINATOR = ''subcoordinator''"

record role_assignment =
  ra_roles :: "cluster_role set"
  ra_node_id :: "node_id option"
  ra_paused :: bool
  ra_revoked :: bool
  ra_job :: bool

definition ra_post_init :: "role_assignment \<Rightarrow> role_assignment res" where
  "ra_post_init a =
     (let r1 = (if COORDINATOR \<in> ra_roles a then ra_roles a \<union> {WORKER} else ra_roles a);
          r2 = (if r1 = {} then {WORKER} else r1)
      in if COORDINATOR \<in> r2 \<and> SUBCOORDINATOR \<in> r2
         then raise ValueError ''a node cannot be both Coordinator and Subcoordinator''
         else if ra_revoked a \<and> ra_paused a
         then raise ValueError ''a revoked node cannot also be paused''
         else Inr (a\<lparr>ra_roles := r2\<rparr>))"

definition mk_assignment :: "cluster_role set \<Rightarrow> node_id option \<Rightarrow> bool \<Rightarrow> bool \<Rightarrow> bool \<Rightarrow> role_assignment res" where
  "mk_assignment roles n paused revoked job =
     ra_post_init \<lparr>ra_roles = roles, ra_node_id = n, ra_paused = paused, ra_revoked = revoked, ra_job = job\<rparr>"

record coordinator_epoch =
  ce_epoch :: int
  ce_coordinator :: node_id
  ce_token :: string
  ce_issued :: rat
  ce_lease :: rat

definition mk_epoch :: "int \<Rightarrow> node_id \<Rightarrow> string \<Rightarrow> pyfloat \<Rightarrow> pyfloat \<Rightarrow> coordinator_epoch res" where
  "mk_epoch e c t issued lease =
     (case (issued, lease) of
        (Fin i, Fin l) \<Rightarrow>
          if e < 0 \<or> t = [] \<or> l < i then raise ValueError ''invalid coordinator epoch''
          else Inr \<lparr>ce_epoch = e, ce_coordinator = c, ce_token = t, ce_issued = i, ce_lease = l\<rparr>
      | _ \<Rightarrow> raise ValueError ''invalid coordinator epoch'')"

record capability_grant =
  cg_subject :: node_id
  cg_target :: node_id
  cg_permissions :: "node_permission set"
  cg_issued :: rat
  cg_expires :: rat

definition mk_grant ::
  "node_id \<Rightarrow> node_id \<Rightarrow> node_permission set \<Rightarrow> pyfloat \<Rightarrow> pyfloat \<Rightarrow> capability_grant res" where
  "mk_grant s t ps issued expires =
     (case (issued, expires) of
        (Fin i, Fin x) \<Rightarrow>
          if ps = {} then raise ValueError ''invalid capability grant''
          else if x \<le> i then raise ValueError ''capability grant must expire after issuance''
          else Inr \<lparr>cg_subject = s, cg_target = t, cg_permissions = ps, cg_issued = i, cg_expires = x\<rparr>
      | _ \<Rightarrow> raise ValueError ''invalid capability grant'')"

record role_change =
  rc_node_id :: node_id
  rc_assignment :: role_assignment
  rc_changed_at :: pyval
  rc_actor :: node_id

definition mk_role_change :: "node_id \<Rightarrow> role_assignment \<Rightarrow> pyval \<Rightarrow> node_id \<Rightarrow> role_change res" where
  "mk_role_change n a t actor =
     (if \<not> is_number t then raise ValueError ''invalid role change time''
      else rbind (py_float t) (\<lambda>f.
        if \<not> isfinite f then raise ValueError ''invalid role change time''
        else Inr \<lparr>rc_node_id = n, rc_assignment = a, rc_changed_at = t, rc_actor = actor\<rparr>))"

record role_state =
  assignments :: "role_assignment list"
  epoch :: "coordinator_epoch option"
  promotion_epochs :: "int set"
  capability_grants :: "capability_grant list"

record promotion_decision =
  pd_assignment :: role_assignment
  pd_epoch :: coordinator_epoch
  pd_assignments :: "role_assignment list"
  pd_grants :: "capability_grant list"

definition HEARTBEAT_TIMEOUT_SECONDS :: rat where
  "HEARTBEAT_TIMEOUT_SECONDS = 120"

section \<open>The role state\<close>

abbreviation bound :: "role_assignment \<Rightarrow> bool" where
  "bound a \<equiv> ra_node_id a \<noteq> None"

definition active_with :: "cluster_role \<Rightarrow> role_assignment \<Rightarrow> bool" where
  "active_with r a \<longleftrightarrow> \<not> ra_revoked a \<and> r \<in> ra_roles a"

definition grant_keys :: "capability_grant list \<Rightarrow> (node_id \<times> node_id) list" where
  "grant_keys gs = map (\<lambda>g. (cg_subject g, cg_target g)) gs"

definition rs_post_init :: "role_state \<Rightarrow> role_state res" where
  "rs_post_init s =
     (let as = filter bound (assignments s)
      in if \<not> distinct (map ra_node_id as)
         then raise ValueError ''invalid or duplicate role assignment''
         else if length (filter (active_with COORDINATOR) as) > 1
         then raise ValueError ''only one active Coordinator is allowed''
         else if length (filter (active_with SUBCOORDINATOR) as) > 1
         then raise ValueError ''only one active Subcoordinator is allowed''
         else if \<not> distinct (grant_keys (capability_grants s))
         then raise ValueError ''duplicate capability grant''
         else if \<exists>i \<in> promotion_epochs s. i < 0
         then raise ValueError ''invalid promotion epoch marker''
         else Inr s)"

text \<open>The lazily built dictionaries behind \<open>assignment_for\<close> and \<open>capability_grant\<close>.\<close>

fun bound_pairs :: "role_assignment list \<Rightarrow> (node_id \<times> role_assignment) list" where
  "bound_pairs [] = []"
| "bound_pairs (a # as) =
     (case ra_node_id a of None \<Rightarrow> bound_pairs as | Some n \<Rightarrow> (n, a) # bound_pairs as)"

definition assignment_index :: "role_assignment list \<Rightarrow> (node_id, role_assignment) dict" where
  "assignment_index as = dict_of (bound_pairs as)"

definition grant_index :: "capability_grant list \<Rightarrow> (node_id \<times> node_id, capability_grant) dict" where
  "grant_index gs = dict_of (map (\<lambda>g. ((cg_subject g, cg_target g), g)) gs)"

definition assignment_for :: "role_state \<Rightarrow> node_id \<Rightarrow> role_assignment option" where
  "assignment_for s n = map_of (assignment_index (assignments s)) n"

definition active_coordinator :: "role_state \<Rightarrow> role_assignment option" where
  "active_coordinator s = find (\<lambda>a. bound a \<and> active_with COORDINATOR a) (assignments s)"

definition capability_grant_for :: "role_state \<Rightarrow> node_id \<Rightarrow> node_id \<Rightarrow> pyval \<Rightarrow> capability_grant option" where
  "capability_grant_for s subject target now =
     (case map_of (grant_index (capability_grants s)) (subject, target) of
        None \<Rightarrow> None
      | Some g \<Rightarrow>
          if now = PNone then Some g
          else (case num_value now of
                  None \<Rightarrow> None
                | Some t \<Rightarrow> if t \<ge> cg_expires g then None else Some g))"

definition role_control :: "role_state \<Rightarrow> role_assignment \<Rightarrow> node_id res" where
  "role_control s actor =
     (case ra_node_id actor of
        None \<Rightarrow> raise RoleAuthorizationError ''only an active Coordinator may control peers''
      | Some n \<Rightarrow>
          (case assignment_for s n of
             None \<Rightarrow> raise RoleAuthorizationError ''only an active Coordinator may control peers''
           | Some c \<Rightarrow>
               if ra_revoked c \<or> ra_paused c \<or> COORDINATOR \<notin> ra_roles c
                  \<or> (case epoch s of None \<Rightarrow> False | Some e \<Rightarrow> ce_coordinator e \<noteq> n)
               then raise RoleAuthorizationError ''only an active Coordinator may control peers''
               else Inr n))"

definition set_assignment :: "role_assignment \<Rightarrow> role_assignment list \<Rightarrow> role_assignment list" where
  "set_assignment a' as = map (\<lambda>a. if ra_node_id a = ra_node_id a' then a' else a) as"

definition role_replace :: "role_state \<Rightarrow> role_assignment \<Rightarrow> role_state res" where
  "role_replace s a' = rs_post_init (s\<lparr>assignments := set_assignment a' (assignments s)\<rparr>)"

definition prune_capability_grants ::
  "role_assignment list \<Rightarrow> capability_grant list \<Rightarrow> capability_grant list" where
  "prune_capability_grants as gs =
     (let by_id = assignment_index as in
      filter (\<lambda>g. (case map_of by_id (cg_subject g) of None \<Rightarrow> False
                    | Some sub \<Rightarrow> \<not> ra_revoked sub \<and> SUBCOORDINATOR \<in> ra_roles sub)
                \<and> (case map_of by_id (cg_target g) of None \<Rightarrow> False
                    | Some t \<Rightarrow> \<not> ra_revoked t \<and> WORKER \<in> ra_roles t)) gs)"

definition role_assign ::
  "role_state \<Rightarrow> role_assignment \<Rightarrow> node_id \<Rightarrow> cluster_role set \<Rightarrow> pyval \<Rightarrow> (role_state \<times> role_change) res" where
  "role_assign s actor target roles now =
     rbind (role_control s actor) (\<lambda>actor_id.
     if target = actor_id
     then raise RoleAuthorizationError ''the active Coordinator cannot target itself''
     else if COORDINATOR \<in> roles
     then raise RoleAuthorizationError ''Coordinator ownership cannot be delegated''
     else let current = assignment_for s target in
     if (case current of None \<Rightarrow> False | Some c \<Rightarrow> ra_revoked c)
     then raise RoleAuthorizationError ''revoked node requires a new pairing invite''
     else if SUBCOORDINATOR \<in> roles
             \<and> (\<exists>a \<in> set (assignments s). ra_node_id a \<noteq> Some target \<and> active_with SUBCOORDINATOR a)
     then raise RoleAuthorizationError ''only one active Subcoordinator is allowed''
     else rbind (mk_assignment roles (Some target)
                   (case current of None \<Rightarrow> False | Some c \<Rightarrow> ra_paused c) False
                   (case current of None \<Rightarrow> False | Some c \<Rightarrow> ra_job c)) (\<lambda>a0.
     rbind (if WORKER \<notin> ra_roles a0 then ra_post_init (a0\<lparr>ra_job := False\<rparr>) else Inr a0) (\<lambda>a.
     let as0 = map (\<lambda>x. if ra_node_id x = Some target then a else x) (assignments s);
         as = (if current = None then as0 @ [a] else as0)
     in rbind (rs_post_init (s\<lparr>assignments := as,
                  capability_grants := prune_capability_grants as (capability_grants s)\<rparr>)) (\<lambda>s'.
        rbind (mk_role_change target a now actor_id) (\<lambda>c. Inr (s', c))))))"

definition role_pause :: "role_state \<Rightarrow> role_assignment \<Rightarrow> node_id \<Rightarrow> role_state res" where
  "role_pause s actor target =
     rbind (role_control s actor) (\<lambda>actor_id.
     if target = actor_id
     then raise RoleAuthorizationError ''the active Coordinator cannot target itself''
     else case assignment_for s target of
        None \<Rightarrow> raise RoleAuthorizationError ''unknown or revoked node''
      | Some c \<Rightarrow>
          if ra_revoked c then raise RoleAuthorizationError ''unknown or revoked node''
          else rbind (ra_post_init (c\<lparr>ra_paused := True\<rparr>)) (role_replace s))"

definition role_resume :: "role_state \<Rightarrow> role_assignment \<Rightarrow> node_id \<Rightarrow> role_state res" where
  "role_resume s actor target =
     rbind (role_control s actor) (\<lambda>_.
     case assignment_for s target of
        None \<Rightarrow> raise RoleAuthorizationError ''unknown or revoked node''
      | Some c \<Rightarrow>
          if ra_revoked c then raise RoleAuthorizationError ''unknown or revoked node''
          else rbind (ra_post_init (c\<lparr>ra_paused := False\<rparr>)) (role_replace s))"

definition role_revoke :: "role_state \<Rightarrow> role_assignment \<Rightarrow> node_id \<Rightarrow> role_state res" where
  "role_revoke s actor target =
     rbind (role_control s actor) (\<lambda>actor_id.
     if target = actor_id
     then raise RoleAuthorizationError ''the active Coordinator cannot target itself''
     else case assignment_for s target of
        None \<Rightarrow> raise RoleAuthorizationError ''unknown or revoked node''
      | Some c \<Rightarrow>
          if ra_revoked c then raise RoleAuthorizationError ''unknown or revoked node''
          else rbind (ra_post_init (c\<lparr>ra_revoked := True, ra_paused := False, ra_job := False\<rparr>)) (\<lambda>a.
               rbind (role_replace s a) (\<lambda>u.
               rs_post_init (u\<lparr>capability_grants :=
                 filter (\<lambda>g. target \<noteq> cg_subject g \<and> target \<noteq> cg_target g) (capability_grants u)\<rparr>))))"

definition clear_revocation :: "role_state \<Rightarrow> node_id \<Rightarrow> role_state res" where
  "clear_revocation s target =
     (case assignment_for s target of
        None \<Rightarrow> Inr s
      | Some c \<Rightarrow>
          if \<not> ra_revoked c then Inr s
          else rs_post_init (s\<lparr>assignments := filter (\<lambda>a. ra_node_id a \<noteq> Some target) (assignments s)\<rparr>))"

definition role_job :: "role_state \<Rightarrow> role_assignment \<Rightarrow> node_id \<Rightarrow> bool \<Rightarrow> role_state res" where
  "role_job s actor target active =
     rbind (role_control s actor) (\<lambda>_.
     case assignment_for s target of
        None \<Rightarrow> raise RoleAuthorizationError ''target has no active worker role''
      | Some c \<Rightarrow>
          if ra_revoked c \<or> WORKER \<notin> ra_roles c \<or> (active \<and> ra_paused c)
          then raise RoleAuthorizationError ''target has no active worker role''
          else rbind (ra_post_init (c\<lparr>ra_job := active\<rparr>)) (role_replace s))"

definition role_assign_job :: "role_state \<Rightarrow> role_assignment \<Rightarrow> node_id \<Rightarrow> role_state res" where
  "role_assign_job s actor target = role_job s actor target True"

definition role_remove_job :: "role_state \<Rightarrow> role_assignment \<Rightarrow> node_id \<Rightarrow> role_state res" where
  "role_remove_job s actor target = role_job s actor target False"

definition role_grant_capabilities ::
  "role_state \<Rightarrow> role_assignment \<Rightarrow> node_id \<Rightarrow> node_id \<Rightarrow> node_permission set \<Rightarrow> pyfloat \<Rightarrow> pyfloat
   \<Rightarrow> role_state res" where
  "role_grant_capabilities s actor subject target permissions now expires_at =
     rbind (role_control s actor) (\<lambda>_.
     if (case assignment_for s subject of None \<Rightarrow> True
         | Some sub \<Rightarrow> ra_revoked sub \<or> ra_paused sub \<or> SUBCOORDINATOR \<notin> ra_roles sub)
     then raise RoleAuthorizationError ''capability subject is not an active Subcoordinator''
     else if (case assignment_for s target of None \<Rightarrow> True
         | Some w \<Rightarrow> ra_revoked w \<or> ra_paused w \<or> WORKER \<notin> ra_roles w \<or> subject = target)
     then raise RoleAuthorizationError ''capability target is not an active Worker''
     else rbind (mk_grant subject target permissions now expires_at) (\<lambda>g.
       rs_post_init (s\<lparr>capability_grants :=
         filter (\<lambda>h. (cg_subject h, cg_target h) \<noteq> (subject, target)) (capability_grants s) @ [g]\<rparr>)))"

definition role_revoke_capabilities ::
  "role_state \<Rightarrow> role_assignment \<Rightarrow> node_id \<Rightarrow> node_id \<Rightarrow> role_state res" where
  "role_revoke_capabilities s actor subject target =
     rbind (role_control s actor) (\<lambda>_.
       rs_post_init (s\<lparr>capability_grants :=
         filter (\<lambda>h. (cg_subject h, cg_target h) \<noteq> (subject, target)) (capability_grants s)\<rparr>))"

definition role_allows :: "role_state \<Rightarrow> node_id \<Rightarrow> node_id \<Rightarrow> node_permission \<Rightarrow> pyval \<Rightarrow> bool" where
  "role_allows s subject target permission now =
     (if num_value now = None then False
      else case (assignment_for s subject, assignment_for s target) of
        (Some src, Some dst) \<Rightarrow>
          if ra_revoked src \<or> ra_paused src \<or> ra_revoked dst \<or> ra_paused dst then False
          else if subject = target then True
          else if COORDINATOR \<in> ra_roles src then WORKER \<in> ra_roles dst
          else SUBCOORDINATOR \<in> ra_roles src \<and> WORKER \<in> ra_roles dst
               \<and> (case capability_grant_for s subject target now of None \<Rightarrow> False
                   | Some g \<Rightarrow> permission \<in> cg_permissions g)
      | _ \<Rightarrow> False)"

section \<open>Leases and promotion\<close>

definition hash_invite :: "string \<Rightarrow> string" where
  "hash_invite token = sha256_hex token"

definition valid_time :: "pyval \<Rightarrow> string \<Rightarrow> rat res" where
  "valid_time v field =
     (case num_value v of None \<Rightarrow> raise FencingError (field @ '' is invalid'') | Some t \<Rightarrow> Inr t)"

definition renew_lease ::
  "coordinator_epoch \<Rightarrow> node_id \<Rightarrow> pyval \<Rightarrow> pyval \<Rightarrow> pyval \<Rightarrow> coordinator_epoch res" where
  "renew_lease e coordinator_id fencing_token now lease_seconds =
     (if ce_coordinator e \<noteq> coordinator_id \<or> \<not> is_str fencing_token
      then raise FencingError ''heartbeat fencing token is stale''
      else rbind (compare_digest (ce_token e) (str_of fencing_token)) (\<lambda>same.
        if \<not> same then raise FencingError ''heartbeat fencing token is stale''
        else rbind (valid_time now ''heartbeat time'') (\<lambda>current.
        rbind (valid_time lease_seconds ''lease duration'') (\<lambda>duration.
        if duration \<le> 0 then raise FencingError ''lease duration is invalid''
        else if current \<ge> ce_lease e then raise FencingError ''coordinator lease has expired''
        else mk_epoch (ce_epoch e) (ce_coordinator e) (ce_token e)
               (Fin (max (ce_issued e) current)) (Fin (max (ce_lease e) (current + duration)))))))"

definition can_promote :: "role_state \<Rightarrow> node_id \<Rightarrow> pyval \<Rightarrow> pyval \<Rightarrow> bool" where
  "can_promote s sub now authenticated \<longleftrightarrow>
     authenticated = PBool True
     \<and> (case epoch s of None \<Rightarrow> False
         | Some e \<Rightarrow>
             (case num_value now of None \<Rightarrow> False
              | Some t \<Rightarrow> t \<ge> ce_lease e
                  \<and> (case assignment_for s sub of None \<Rightarrow> False
                      | Some a \<Rightarrow> \<not> ra_revoked a \<and> \<not> ra_paused a \<and> SUBCOORDINATOR \<in> ra_roles a)
                  \<and> ce_epoch e \<notin> promotion_epochs s))"

definition find_standby :: "role_state \<Rightarrow> role_assignment option" where
  "find_standby s =
     find (\<lambda>a. bound a \<and> \<not> ra_revoked a \<and> \<not> ra_paused a \<and> SUBCOORDINATOR \<in> ra_roles a) (assignments s)"

definition promote_subcoordinator ::
  "role_state \<Rightarrow> pyval \<Rightarrow> pyval \<Rightarrow> string \<Rightarrow> promotion_decision res" where
  "promote_subcoordinator s now authenticated tok =
     (case epoch s of
        None \<Rightarrow> raise FencingError ''no coordinator epoch exists''
      | Some e \<Rightarrow>
     rbind (valid_time now ''promotion time'') (\<lambda>current.
     case Option.bind (find_standby s) ra_node_id of
        None \<Rightarrow> raise FencingError ''subcoordinator cannot promote''
      | Some n \<Rightarrow>
     if \<not> can_promote s n (PFloat (Fin current)) authenticated
     then raise FencingError ''subcoordinator cannot promote''
     else rbind (mk_epoch (ce_epoch e + 1) n tok (Fin current) (Fin (current + HEARTBEAT_TIMEOUT_SECONDS))) (\<lambda>e'.
     rbind (mk_assignment {COORDINATOR, WORKER} (Some n) False False False) (\<lambda>promoted.
     rbind (rmap (\<lambda>a. if ra_node_id a = Some n then Inr promoted
                      else ra_post_init (a\<lparr>ra_roles := {WORKER}\<rparr>)) (assignments s)) (\<lambda>as.
     Inr \<lparr>pd_assignment = promoted, pd_epoch = e', pd_assignments = as,
          pd_grants = prune_capability_grants as (capability_grants s)\<rparr>)))))"

definition rejoin_as_worker :: "role_state \<Rightarrow> node_id \<Rightarrow> pyval \<Rightarrow> role_state res" where
  "rejoin_as_worker s n current_epoch =
     (if \<not> is_int current_epoch \<or> int_of current_epoch < 0
      then raise FencingError ''returning node presented an invalid epoch''
      else if (case epoch s of None \<Rightarrow> False | Some e \<Rightarrow> int_of current_epoch \<noteq> ce_epoch e)
      then raise FencingError ''returning node presented a stale or unknown epoch''
      else case assignment_for s n of
        None \<Rightarrow> Inr s
      | Some a \<Rightarrow>
          if COORDINATOR \<notin> ra_roles a then Inr s
          else rbind (ra_post_init (a\<lparr>ra_roles := {WORKER}, ra_paused := False, ra_job := False\<rparr>))
                 (role_replace s))"

end
