(* ===== verification/RoleLaws.thy ===== *)
theory RoleLaws
  imports Roles
begin

text \<open>
  The laws of the role state: the dictionary indices agree with a linear search, every operation
  keeps the state well formed and its grants on the current topology, only the canonical active
  Coordinator controls, and a lease is either renewable or up for promotion, never both.
\<close>

section \<open>Well-formed states\<close>

definition ra_ok :: "role_assignment \<Rightarrow> bool" where
  "ra_ok a \<longleftrightarrow> ra_roles a \<noteq> {} \<and> (COORDINATOR \<in> ra_roles a \<longrightarrow> WORKER \<in> ra_roles a)
     \<and> \<not> (COORDINATOR \<in> ra_roles a \<and> SUBCOORDINATOR \<in> ra_roles a) \<and> \<not> (ra_revoked a \<and> ra_paused a)"

definition rs_ok :: "role_state \<Rightarrow> bool" where
  "rs_ok s \<longleftrightarrow> rs_post_init s = Inr s \<and> (\<forall>a \<in> set (assignments s). ra_ok a)"

text \<open>The linear search the dictionary index replaces.\<close>

abbreviation seek :: "node_id \<Rightarrow> role_assignment list \<Rightarrow> role_assignment option" where
  "seek n as \<equiv> find (\<lambda>a. ra_node_id a = Some n) as"

definition grant_ok :: "role_assignment list \<Rightarrow> capability_grant \<Rightarrow> bool" where
  "grant_ok as g \<longleftrightarrow>
     (\<exists>a. seek (cg_subject g) as = Some a \<and> active_with SUBCOORDINATOR a)
   \<and> (\<exists>b. seek (cg_target g) as = Some b \<and> active_with WORKER b)"

definition rs_inv :: "role_state \<Rightarrow> bool" where
  "rs_inv s \<longleftrightarrow> rs_ok s \<and> (\<forall>g \<in> set (capability_grants s). grant_ok (assignments s) g)"

lemma ra_post_init_ok: "ra_post_init a = Inr b \<Longrightarrow> ra_ok b"
  by (auto simp: ra_post_init_def ra_ok_def Let_def split: if_splits)

lemma ra_post_init_id [simp]: "ra_ok a \<Longrightarrow> ra_post_init a = Inr a"
  by (auto simp: ra_post_init_def ra_ok_def Let_def insert_absorb)

lemma ra_post_init_fields:
  "ra_post_init a = Inr b \<Longrightarrow>
   ra_node_id b = ra_node_id a \<and> ra_paused b = ra_paused a \<and> ra_revoked b = ra_revoked a \<and> ra_job b = ra_job a"
  by (auto simp: ra_post_init_def Let_def split: if_splits)

lemma ra_post_init_roles:
  "ra_post_init a = Inr b \<Longrightarrow> COORDINATOR \<notin> ra_roles a \<Longrightarrow>
   ra_roles b = (if ra_roles a = {} then {WORKER} else ra_roles a)"
  by (auto simp: ra_post_init_def Let_def split: if_splits)

definition ids_distinct :: "role_assignment list \<Rightarrow> bool" where
  "ids_distinct as \<longleftrightarrow> distinct (map ra_node_id (filter bound as))"

definition one_active :: "cluster_role \<Rightarrow> role_assignment list \<Rightarrow> bool" where
  "one_active r as \<longleftrightarrow> length (filter (active_with r) (filter bound as)) \<le> 1"

lemma rs_post_init_iff:
  "rs_post_init s = Inr s' \<longleftrightarrow> s' = s \<and> ids_distinct (assignments s)
     \<and> one_active COORDINATOR (assignments s) \<and> one_active SUBCOORDINATOR (assignments s)
     \<and> distinct (grant_keys (capability_grants s)) \<and> (\<forall>i \<in> promotion_epochs s. 0 \<le> i)"
  by (auto simp: rs_post_init_def ids_distinct_def one_active_def Let_def not_less not_le)

lemma rs_ok_iff:
  "rs_ok s \<longleftrightarrow> ids_distinct (assignments s) \<and> one_active COORDINATOR (assignments s)
     \<and> one_active SUBCOORDINATOR (assignments s) \<and> distinct (grant_keys (capability_grants s))
     \<and> (\<forall>i \<in> promotion_epochs s. 0 \<le> i) \<and> (\<forall>a \<in> set (assignments s). ra_ok a)"
  by (auto simp: rs_ok_def rs_post_init_iff)

section \<open>The indices\<close>

lemma map_of_bound_pairs: "map_of (bound_pairs as) n = seek n as"
  by (induction as) (auto split: option.splits)

lemma fst_bound_pairs: "map fst (bound_pairs as) = map (the \<circ> ra_node_id) (filter bound as)"
  by (induction as) (auto split: option.splits)

lemma ids_distinct_pairs: "ids_distinct as \<Longrightarrow> distinct (map fst (bound_pairs as))"
  unfolding ids_distinct_def fst_bound_pairs
  by (induction as) (auto simp: image_iff, force)

lemma assignment_index_seek: "ids_distinct as \<Longrightarrow> map_of (assignment_index as) n = seek n as"
  by (simp add: assignment_index_def dict_of_distinct ids_distinct_pairs map_of_bound_pairs)

lemma assignment_for_seek: "rs_ok s \<Longrightarrow> assignment_for s n = seek n (assignments s)"
  by (simp add: assignment_for_def assignment_index_seek rs_ok_iff)

lemma grant_index_seek:
  "distinct (grant_keys gs) \<Longrightarrow>
   map_of (grant_index gs) (a, b) = find (\<lambda>g. cg_subject g = a \<and> cg_target g = b) gs"
  unfolding grant_index_def
  by (subst dict_of_distinct) (simp_all add: comp_def grant_keys_def map_of_map_key)

lemma seek_Some: "seek n as = Some a \<Longrightarrow> a \<in> set as \<and> ra_node_id a = Some n"
  by (rule find_Some_D)

lemma seek_unique: "ids_distinct as \<Longrightarrow> a \<in> set as \<Longrightarrow> ra_node_id a = Some n \<Longrightarrow> seek n as = Some a"
  unfolding ids_distinct_def
  by (induction as) (auto simp: image_iff split: if_splits)

lemma seek_ids: "seek n as = None \<longleftrightarrow> Some n \<notin> set (map ra_node_id as)"
  by (auto simp: find_None_iff image_iff)

section \<open>Updating one assignment\<close>

lemma set_assignment_ids [simp]: "map ra_node_id (set_assignment a as) = map ra_node_id as"
  by (simp add: set_assignment_def)

lemma set_assignment_bound:
  "bound a \<Longrightarrow> filter bound (set_assignment a as) = set_assignment a (filter bound as)"
  by (induction as) (auto simp: set_assignment_def)

lemma ids_distinct_set: "bound a \<Longrightarrow> ids_distinct (set_assignment a as) \<longleftrightarrow> ids_distinct as"
  unfolding ids_distinct_def by (subst set_assignment_bound) simp_all

lemma seek_set:
  "ra_node_id a = Some n \<Longrightarrow>
   seek m (set_assignment a as) = (if m = n then map_option (\<lambda>_. a) (seek n as) else seek m as)"
  by (induction as) (auto simp: set_assignment_def)

lemma set_assignment_set:
  "x \<in> set (set_assignment a as) \<Longrightarrow> x = a \<or> x \<in> set as \<and> ra_node_id x \<noteq> ra_node_id a"
  by (auto simp: set_assignment_def)

text \<open>Replacing an assignment by one that is no more active does not add an active holder.\<close>

lemma one_active_set:
  assumes "one_active r as" "ids_distinct as" "seek n as = Some c" "ra_node_id a = Some n"
    and "active_with r a \<Longrightarrow> active_with r c"
  shows "one_active r (set_assignment a as)"
proof -
  let ?f = "\<lambda>x. if ra_node_id x = ra_node_id a then a else x"
  have eq: "filter bound (set_assignment a as) = map ?f (filter bound as)"
    using set_assignment_bound [of a as] assms(4) unfolding set_assignment_def by simp
  have "length (filter (active_with r) (map ?f (filter bound as)))
      = length (filter (active_with r \<circ> ?f) (filter bound as))"
    by (simp add: filter_map)
  also have "\<dots> \<le> length (filter (active_with r) (filter bound as))"
  proof (rule length_filter_mono)
    fix x assume "x \<in> set (filter bound as)" "(active_with r \<circ> ?f) x"
    with assms seek_unique [of as x n] show "active_with r x"
      by (cases "ra_node_id x = Some n") auto
  qed
  finally show ?thesis
    using assms(1) unfolding one_active_def eq by simp
qed

text \<open>If every active holder has the same node id there is at most one.\<close>

lemma one_active_single:
  assumes "ids_distinct as" "\<And>x. x \<in> set as \<Longrightarrow> bound x \<Longrightarrow> active_with r x \<Longrightarrow> ra_node_id x = Some n"
  shows "one_active r as"
proof -
  have "distinct (map ra_node_id (filter (active_with r) (filter bound as)))"
    using assms(1) unfolding ids_distinct_def by (rule distinct_map_filter)
  moreover have "set (map ra_node_id (filter (active_with r) (filter bound as))) \<subseteq> {Some n}"
    using assms(2) by auto
  ultimately have "length (map ra_node_id (filter (active_with r) (filter bound as))) \<le> card {Some n}"
    by (metis card_mono distinct_card finite.emptyI finite.insertI)
  then show ?thesis by (simp add: one_active_def)
qed

lemma ids_distinct_snoc:
  "ids_distinct (as @ [a]) \<longleftrightarrow> ids_distinct as \<and> (case ra_node_id a of None \<Rightarrow> True | Some n \<Rightarrow> seek n as = None)"
  by (auto simp: ids_distinct_def seek_ids image_iff split: option.splits)

lemma ids_distinct_filter: "ids_distinct as \<Longrightarrow> ids_distinct (filter P as)"
  unfolding ids_distinct_def
  by (induction as) (auto simp: image_iff, force)

lemma one_active_filter: "one_active r as \<Longrightarrow> one_active r (filter P as)"
proof -
  assume "one_active r as"
  moreover have "length (filter (active_with r) (filter bound (filter P as)))
      \<le> length (filter (active_with r) (filter bound as))"
    by (induction as) auto
  ultimately show ?thesis by (simp add: one_active_def)
qed

lemma seek_filter_other: "n \<noteq> m \<Longrightarrow> seek n (filter (\<lambda>a. ra_node_id a \<noteq> Some m) as) = seek n as"
  by (induction as) auto

lemma seek_snoc: "seek n (as @ [a]) = (case seek n as of None \<Rightarrow> (if ra_node_id a = Some n then Some a else None) | Some x \<Rightarrow> Some x)"
  by (rule find_snoc)

section \<open>Pruning\<close>

lemma prune_iff:
  "ids_distinct as \<Longrightarrow> set (prune_capability_grants as gs) = {g \<in> set gs. grant_ok as g}"
  by (auto simp: prune_capability_grants_def assignment_index_seek grant_ok_def active_with_def Let_def
      split: option.splits)

lemma grant_keys_filter: "distinct (grant_keys gs) \<Longrightarrow> distinct (grant_keys (filter P gs))"
  unfolding grant_keys_def by (rule distinct_map_filter)

lemma grant_keys_prune: "distinct (grant_keys gs) \<Longrightarrow> distinct (grant_keys (prune_capability_grants as gs))"
  unfolding prune_capability_grants_def Let_def by (rule grant_keys_filter)

section \<open>Control\<close>

lemma role_control_Inr:
  assumes "rs_ok s"
  shows "role_control s actor = Inr n \<longleftrightarrow> ra_node_id actor = Some n
     \<and> (\<exists>c. seek n (assignments s) = Some c \<and> active_with COORDINATOR c \<and> \<not> ra_paused c)
     \<and> (\<forall>e. epoch s = Some e \<longrightarrow> ce_coordinator e = n)"
  by (auto simp: role_control_def assignment_for_seek [OF assms] active_with_def split: option.splits)

lemma role_control_Inl: "role_control s actor = Inl e \<Longrightarrow> exn_cls e = RoleAuthorizationError"
  by (auto simp: role_control_def split: option.splits if_splits)

text \<open>Nobody but the acting Coordinator is an active Coordinator.\<close>

lemma coordinator_unique:
  assumes "rs_ok s" "seek n (assignments s) = Some c" "active_with COORDINATOR c"
    and "seek m (assignments s) = Some d" "active_with COORDINATOR d"
  shows "n = m"
proof -
  have "c = d"
    using assms by (intro length_filter_le_1_unique [of "active_with COORDINATOR" "filter bound (assignments s)"])
      (auto simp: rs_ok_iff one_active_def dest!: seek_Some)
  with assms show ?thesis by (auto dest!: seek_Some)
qed

section \<open>Every operation keeps the invariant\<close>

text \<open>An operation on a good state either refuses with an authorization error or returns a good state.\<close>

fun safe_result :: "role_state res \<Rightarrow> bool" where
  "safe_result (Inl e) \<longleftrightarrow> exn_cls e = RoleAuthorizationError"
| "safe_result (Inr s) \<longleftrightarrow> rs_inv s"

lemma rs_ok_set:
  assumes "rs_ok s" "seek n (assignments s) = Some c" "ra_node_id a = Some n" "ra_ok a"
    and "active_with COORDINATOR a \<Longrightarrow> active_with COORDINATOR c"
    and "active_with SUBCOORDINATOR a \<Longrightarrow> active_with SUBCOORDINATOR c"
  shows "role_replace s a = Inr (s\<lparr>assignments := set_assignment a (assignments s)\<rparr>)
    \<and> rs_ok (s\<lparr>assignments := set_assignment a (assignments s)\<rparr>)"
proof -
  let ?t = "s\<lparr>assignments := set_assignment a (assignments s)\<rparr>"
  have "rs_ok ?t"
    using assms one_active_set [OF _ _ assms(2,3)]
    by (auto simp: rs_ok_iff ids_distinct_set dest: set_assignment_set)
  then show ?thesis by (simp add: role_replace_def rs_ok_def)
qed

lemma grant_ok_set:
  assumes "grant_ok as g" "seek n as = Some c" "ra_node_id a = Some n"
    and "active_with SUBCOORDINATOR c \<Longrightarrow> active_with SUBCOORDINATOR a"
    and "active_with WORKER c \<Longrightarrow> active_with WORKER a"
  shows "grant_ok (set_assignment a as) g"
  using assms by (auto simp: grant_ok_def seek_set)

lemma seek_ra_ok: "rs_ok s \<Longrightarrow> seek n (assignments s) = Some c \<Longrightarrow> ra_ok c \<and> ra_node_id c = Some n"
  by (auto simp: rs_ok_iff dest: seek_Some)

text \<open>Updates that leave the roles and the revocation mark alone.\<close>

lemma role_replace_same_roles:
  assumes "rs_inv s" "seek n (assignments s) = Some c" "ra_node_id a = Some n" "ra_ok a"
    and "ra_roles a = ra_roles c" "ra_revoked a = ra_revoked c"
  shows "role_replace s a = Inr (s\<lparr>assignments := set_assignment a (assignments s)\<rparr>)
    \<and> rs_inv (s\<lparr>assignments := set_assignment a (assignments s)\<rparr>)"
  using assms rs_ok_set [OF _ assms(2-4)] grant_ok_set [OF _ assms(2,3)]
  by (auto simp: rs_inv_def active_with_def)

lemma touch_safe:
  assumes "rs_inv s" "seek n (assignments s) = Some c" "ra_node_id a = Some n" "ra_ok a"
    and "ra_roles a = ra_roles c" "ra_revoked a = ra_revoked c"
  shows "safe_result (role_replace s a)"
  using role_replace_same_roles [OF assms] by simp

lemma ra_ok_update [simp]:
  "ra_ok c \<Longrightarrow> \<not> ra_revoked c \<Longrightarrow> ra_ok (c\<lparr>ra_paused := b\<rparr>)"
  "ra_ok c \<Longrightarrow> ra_ok (c\<lparr>ra_paused := False\<rparr>)"
  "ra_ok (c\<lparr>ra_job := b\<rparr>) = ra_ok c"
  "ra_ok c \<Longrightarrow> ra_ok (c\<lparr>ra_revoked := r, ra_paused := False\<rparr>)"
  "ra_ok (c\<lparr>ra_roles := {WORKER}, ra_paused := False\<rparr>)"
  "ra_ok c \<Longrightarrow> ra_ok (c\<lparr>ra_roles := {WORKER}\<rparr>)"
  by (auto simp: ra_ok_def)

text \<open>The shape all single-member operations share: resolve the actor, then the target.\<close>

lemma controlled_safe:
  assumes "rs_inv s"
    and "\<And>n. role_control s actor = Inr n \<Longrightarrow> seek t (assignments s) = None \<Longrightarrow> safe_result (f n None)"
    and "\<And>n c. role_control s actor = Inr n \<Longrightarrow> seek t (assignments s) = Some c \<Longrightarrow>
           ra_ok c \<Longrightarrow> ra_node_id c = Some t \<Longrightarrow> safe_result (f n (Some c))"
  shows "safe_result (rbind (role_control s actor) (\<lambda>n. f n (assignment_for s t)))"
proof (cases "role_control s actor")
  case (Inl e)
  then show ?thesis using role_control_Inl by simp
next
  case (Inr n)
  have ok: "rs_ok s" using assms(1) by (simp add: rs_inv_def)
  show ?thesis
  proof (cases "seek t (assignments s)")
    case None
    then show ?thesis using assms(2) [OF Inr None] by (simp add: Inr assignment_for_seek [OF ok])
  next
    case (Some c)
    then show ?thesis
      using assms(3) [OF Inr Some] seek_ra_ok [OF ok Some] by (simp add: Inr assignment_for_seek [OF ok])
  qed
qed

lemma role_pause_safe: "rs_inv s \<Longrightarrow> safe_result (role_pause s actor t)"
  unfolding role_pause_def
  by (rule controlled_safe) (auto simp: raise_def intro: touch_safe)

lemma role_resume_safe: "rs_inv s \<Longrightarrow> safe_result (role_resume s actor t)"
  unfolding role_resume_def
  by (rule controlled_safe) (auto simp: raise_def intro: touch_safe)

lemma role_job_safe: "rs_inv s \<Longrightarrow> safe_result (role_job s actor t b)"
  unfolding role_job_def
  by (rule controlled_safe) (auto simp: raise_def intro: touch_safe)

text \<open>Revocation first leaves the roles of the others alone, then drops every grant naming the target.\<close>

lemma role_revoke_Inr:
  assumes "rs_inv s" "role_control s actor = Inr n" "t \<noteq> n"
    and "seek t (assignments s) = Some c" "\<not> ra_revoked c"
  defines "a \<equiv> c\<lparr>ra_revoked := True, ra_paused := False, ra_job := False\<rparr>"
  defines "s' \<equiv> s\<lparr>assignments := set_assignment a (assignments s),
        capability_grants := filter (\<lambda>g. t \<noteq> cg_subject g \<and> t \<noteq> cg_target g) (capability_grants s)\<rparr>"
  shows "role_revoke s actor t = Inr s' \<and> rs_inv s'"
proof -
  have ok: "rs_ok s" using assms(1) by (simp add: rs_inv_def)
  have c: "ra_ok c" "ra_node_id c = Some t" using seek_ra_ok [OF ok assms(4)] by auto
  have a: "ra_ok a" "ra_node_id a = Some t" "ra_revoked a" using c by (simp_all add: a_def)
  let ?u = "s\<lparr>assignments := set_assignment a (assignments s)\<rparr>"
  have u: "role_replace s a = Inr ?u \<and> rs_ok ?u"
    using a by (intro rs_ok_set [OF ok assms(4)]) (auto simp: active_with_def)
  have ok': "rs_ok s'" using u by (auto simp: rs_ok_iff s'_def grant_keys_filter)
  have "grant_ok (assignments s') g" if "g \<in> set (capability_grants s')" for g
    using that assms(1) a(2) by (auto simp: s'_def rs_inv_def grant_ok_def seek_set)
  with ok' have "rs_inv s'" by (simp add: rs_inv_def)
  moreover have "role_revoke s actor t = rs_post_init s'"
    using assms(2-5) u a(1) by (simp add: role_revoke_def assignment_for_seek [OF ok] s'_def a_def)
  ultimately show ?thesis using ok' by (simp add: rs_ok_def)
qed

lemma role_revoke_safe:
  assumes "rs_inv s"
  shows "safe_result (role_revoke s actor t)"
proof (cases "role_revoke s actor t")
  case (Inl e)
  have ok: "rs_ok s" using assms by (simp add: rs_inv_def)
  show ?thesis
  proof (cases "role_control s actor")
    case (Inl e')
    then show ?thesis using role_control_Inl by (simp add: role_revoke_def)
  next
    case (Inr n)
    show ?thesis
      using role_revoke_Inr [OF assms Inr] Inr
      by (cases "seek t (assignments s)")
        (auto simp: role_revoke_def assignment_for_seek [OF ok] raise_def split: if_splits)
  qed
next
  case (Inr s')
  have ok: "rs_ok s" using assms by (simp add: rs_inv_def)
  from Inr obtain n c where "role_control s actor = Inr n" "t \<noteq> n"
    "seek t (assignments s) = Some c" "\<not> ra_revoked c"
    by (auto simp: role_revoke_def ok_simps assignment_for_seek [OF ok] split: if_splits option.splits)
  from role_revoke_Inr [OF assms this] Inr show ?thesis by auto
qed

section \<open>Assigning a role\<close>

definition assigned :: "role_state \<Rightarrow> node_id \<Rightarrow> cluster_role set \<Rightarrow> role_assignment" where
  "assigned s t roles =
     (let r = (if roles = {} then {WORKER} else roles) in
      \<lparr>ra_roles = r, ra_node_id = Some t,
       ra_paused = (case assignment_for s t of None \<Rightarrow> False | Some c \<Rightarrow> ra_paused c),
       ra_revoked = False,
       ra_job = (case assignment_for s t of None \<Rightarrow> False | Some c \<Rightarrow> ra_job c \<and> WORKER \<in> r)\<rparr>)"

definition with_assigned :: "role_state \<Rightarrow> node_id \<Rightarrow> cluster_role set \<Rightarrow> role_assignment list" where
  "with_assigned s t roles =
     (let as = set_assignment (assigned s t roles) (assignments s)
      in if assignment_for s t = None then as @ [assigned s t roles] else as)"

definition assign_result :: "role_state \<Rightarrow> node_id \<Rightarrow> cluster_role set \<Rightarrow> role_state" where
  "assign_result s t roles = s\<lparr>assignments := with_assigned s t roles,
     capability_grants := prune_capability_grants (with_assigned s t roles) (capability_grants s)\<rparr>"

definition assign_allowed :: "role_state \<Rightarrow> node_id \<Rightarrow> node_id \<Rightarrow> cluster_role set \<Rightarrow> bool" where
  "assign_allowed s n t roles \<longleftrightarrow> t \<noteq> n \<and> COORDINATOR \<notin> roles
     \<and> (\<forall>c. assignment_for s t = Some c \<longrightarrow> \<not> ra_revoked c)
     \<and> (SUBCOORDINATOR \<in> roles \<longrightarrow>
          (\<forall>a \<in> set (assignments s). active_with SUBCOORDINATOR a \<longrightarrow> ra_node_id a = Some t))"

lemma assigned_ok: "COORDINATOR \<notin> roles \<Longrightarrow> ra_ok (assigned s t roles)"
  by (auto simp: assigned_def ra_ok_def Let_def)

lemma assigned_simps [simp]:
  "ra_node_id (assigned s t roles) = Some t" "ra_revoked (assigned s t roles) = False"
  "ra_roles (assigned s t roles) = (if roles = {} then {WORKER} else roles)"
  by (simp_all add: assigned_def Let_def)

lemma seek_with_assigned:
  "rs_ok s \<Longrightarrow> seek m (with_assigned s t roles) = (if m = t then Some (assigned s t roles) else seek m (assignments s))"
  by (auto simp: with_assigned_def Let_def assignment_for_seek seek_snoc seek_set split: option.splits)

lemma with_assigned_ids:
  assumes "rs_ok s"
  shows "ids_distinct (with_assigned s t roles)"
proof -
  have "ids_distinct (set_assignment (assigned s t roles) (assignments s))"
    using assms by (simp add: ids_distinct_set rs_ok_iff)
  then show ?thesis
    by (auto simp: with_assigned_def Let_def ids_distinct_snoc assignment_for_seek [OF assms] seek_set)
qed

lemma with_assigned_set:
  "x \<in> set (with_assigned s t roles) \<Longrightarrow> x = assigned s t roles \<or> x \<in> set (assignments s) \<and> ra_node_id x \<noteq> Some t"
  by (auto simp: with_assigned_def Let_def dest!: set_assignment_set split: if_splits)

lemma active_other:
  assumes "one_active r as" "x \<in> set as" "y \<in> set as" "bound x" "bound y" "active_with r x" "active_with r y"
  shows "x = y"
  using assms by (intro length_filter_le_1_unique [of "active_with r" "filter bound as"])
    (auto simp: one_active_def)

lemma assign_result_inv:
  assumes ok: "rs_ok s" and "role_control s actor = Inr n" "assign_allowed s n t roles"
  shows "rs_inv (assign_result s t roles)"
proof -
  let ?as = "with_assigned s t roles"
  from assms obtain c where c: "seek n (assignments s) = Some c" "active_with COORDINATOR c"
    by (auto simp: role_control_Inr)
  have "one_active COORDINATOR ?as"
  proof (rule one_active_single [OF with_assigned_ids [OF ok]])
    fix x assume "x \<in> set ?as" "bound x" "active_with COORDINATOR x"
    then have "x \<in> set (assignments s)"
      using assms(3) by (auto simp: active_with_def assign_allowed_def split: if_splits dest!: with_assigned_set)
    with \<open>bound x\<close> \<open>active_with COORDINATOR x\<close> c ok have "x = c"
      by (intro active_other [of COORDINATOR "assignments s"]) (auto simp: rs_ok_iff dest: seek_Some)
    with c show "ra_node_id x = Some n" by (auto dest: seek_Some)
  qed
  moreover have "one_active SUBCOORDINATOR ?as"
  proof (cases "SUBCOORDINATOR \<in> roles")
    case True
    with assms(3) show ?thesis
      by (intro one_active_single [OF with_assigned_ids [OF ok], where n = t])
        (auto simp: assign_allowed_def dest!: with_assigned_set)
  next
    case False
    then have na: "\<not> active_with SUBCOORDINATOR (assigned s t roles)"
      by (simp add: active_with_def)
    show ?thesis
    proof (cases "\<exists>x \<in> set ?as. bound x \<and> active_with SUBCOORDINATOR x")
      case True
      then obtain x where x: "x \<in> set ?as" "bound x" "active_with SUBCOORDINATOR x" by blast
      have "y = x" if "y \<in> set ?as" "bound y" "active_with SUBCOORDINATOR y" for y
        using that x na ok
        by (intro active_other [of SUBCOORDINATOR "assignments s"]) (auto simp: rs_ok_iff dest!: with_assigned_set)
      with x show ?thesis
        by (intro one_active_single [OF with_assigned_ids [OF ok], where n = "the (ra_node_id x)"]) auto
    next
      case False
      then show ?thesis by (auto simp: one_active_def filter_empty_conv)
    qed
  qed
  ultimately have "rs_ok (assign_result s t roles)"
    using ok assms(3) with_assigned_ids [OF ok]
    by (auto simp: rs_ok_iff assign_result_def grant_keys_prune assign_allowed_def
        dest!: with_assigned_set intro: assigned_ok)
  then show ?thesis
    by (simp add: rs_inv_def) (simp add: assign_result_def prune_iff with_assigned_ids ok)
qed

lemma mk_assigned:
  assumes "COORDINATOR \<notin> roles"
  shows "rbind (mk_assignment roles (Some t) (case assignment_for s t of None \<Rightarrow> False | Some c \<Rightarrow> ra_paused c)
            False (case assignment_for s t of None \<Rightarrow> False | Some c \<Rightarrow> ra_job c)) (\<lambda>a0.
         if WORKER \<notin> ra_roles a0 then ra_post_init (a0\<lparr>ra_job := False\<rparr>) else Inr a0)
       = Inr (assigned s t roles)"
  using assms
  by (auto simp: mk_assignment_def ra_post_init_def assigned_def Let_def split: option.splits)

lemma rbind_assoc: "rbind (rbind r f) g = rbind r (\<lambda>x. rbind (f x) g)"
  by (cases r) auto

text \<open>What \<open>assign\<close> does once the actor is accepted: every branch.\<close>

lemma role_assign_eq:
  assumes ok: "rs_ok s" and c: "role_control s actor = Inr n" and al: "assign_allowed s n t roles"
  shows "role_assign s actor t roles now =
    rbind (mk_role_change t (assigned s t roles) now n) (\<lambda>ch. Inr (assign_result s t roles, ch))"
proof -
  have r: "rs_post_init (assign_result s t roles) = Inr (assign_result s t roles)"
    using assign_result_inv [OF assms] by (simp add: rs_inv_def rs_ok_def)
  have eq: "s\<lparr>assignments := (if assignment_for s t = None
         then map (\<lambda>x. if ra_node_id x = Some t then assigned s t roles else x) (assignments s) @ [assigned s t roles]
         else map (\<lambda>x. if ra_node_id x = Some t then assigned s t roles else x) (assignments s)),
       capability_grants := prune_capability_grants (if assignment_for s t = None
         then map (\<lambda>x. if ra_node_id x = Some t then assigned s t roles else x) (assignments s) @ [assigned s t roles]
         else map (\<lambda>x. if ra_node_id x = Some t then assigned s t roles else x) (assignments s)) (capability_grants s)\<rparr>
     = assign_result s t roles"
    by (simp add: assign_result_def with_assigned_def set_assignment_def Let_def)
  have "\<not> (case assignment_for s t of None \<Rightarrow> False | Some c \<Rightarrow> ra_revoked c)"
    "\<not> (SUBCOORDINATOR \<in> roles \<and> (\<exists>a\<in>set (assignments s). ra_node_id a \<noteq> Some t \<and> active_with SUBCOORDINATOR a))"
    "t \<noteq> n" and nc: "COORDINATOR \<notin> roles"
    using al by (auto simp: assign_allowed_def split: option.splits)
  with c show ?thesis
    unfolding role_assign_def Let_def
    by (simp only: c rbind.simps if_False rbind_assoc [symmetric] mk_assigned [OF nc] eq r)
qed

lemma role_assign_refused:
  assumes "rs_ok s" "role_control s actor = Inr n" "\<not> assign_allowed s n t roles"
  shows "\<exists>m. role_assign s actor t roles now = Inl (Exn RoleAuthorizationError m)"
  using assms
  by (auto simp: role_assign_def assign_allowed_def Let_def raise_def split: option.splits)

section \<open>The remaining operations\<close>

lemma clear_revocation_inv:
  assumes "rs_inv s"
  shows "\<exists>s'. clear_revocation s t = Inr s' \<and> rs_inv s'"
proof -
  let ?s = "s\<lparr>assignments := filter (\<lambda>a. ra_node_id a \<noteq> Some t) (assignments s)\<rparr>"
  have ok: "rs_ok s" using assms by (simp add: rs_inv_def)
  then have ok': "rs_ok ?s" by (auto simp: rs_ok_iff ids_distinct_filter one_active_filter)
  show ?thesis
  proof (cases "seek t (assignments s)")
    case (Some c)
    have "grant_ok (assignments ?s) g" if "g \<in> set (capability_grants s)" "ra_revoked c" for g
    proof -
      from assms that have g: "grant_ok (assignments s) g" by (simp add: rs_inv_def)
      with Some that have "cg_subject g \<noteq> t" "cg_target g \<noteq> t"
        by (auto simp: grant_ok_def active_with_def)
      with g show ?thesis by (simp add: grant_ok_def seek_filter_other)
    qed
    with ok' have "ra_revoked c \<Longrightarrow> rs_inv ?s" by (simp add: rs_inv_def)
    with ok' assms Some show ?thesis
      by (auto simp: clear_revocation_def assignment_for_seek [OF ok] rs_ok_def)
  qed (use assms in \<open>simp add: clear_revocation_def assignment_for_seek [OF ok]\<close>)
qed

lemma role_revoke_capabilities_safe:
  assumes "rs_inv s"
  shows "safe_result (role_revoke_capabilities s actor a b)"
proof -
  let ?s = "s\<lparr>capability_grants := filter (\<lambda>h. (cg_subject h, cg_target h) \<noteq> (a, b)) (capability_grants s)\<rparr>"
  have "rs_inv ?s" using assms by (auto simp: rs_inv_def rs_ok_iff grant_keys_filter)
  then show ?thesis
    using role_control_Inl [of s actor]
    by (cases "role_control s actor") (auto simp: role_revoke_capabilities_def rs_inv_def rs_ok_def)
qed

definition grant_allowed :: "role_state \<Rightarrow> node_id \<Rightarrow> node_id \<Rightarrow> bool" where
  "grant_allowed s a b \<longleftrightarrow> a \<noteq> b
     \<and> (\<exists>x. seek a (assignments s) = Some x \<and> active_with SUBCOORDINATOR x \<and> \<not> ra_paused x)
     \<and> (\<exists>y. seek b (assignments s) = Some y \<and> active_with WORKER y \<and> \<not> ra_paused y)"

definition with_grant :: "role_state \<Rightarrow> capability_grant \<Rightarrow> role_state" where
  "with_grant s g = s\<lparr>capability_grants :=
     filter (\<lambda>h. (cg_subject h, cg_target h) \<noteq> (cg_subject g, cg_target g)) (capability_grants s) @ [g]\<rparr>"

lemma mk_grant_Inr:
  "mk_grant a b ps t0 t1 = Inr g \<longleftrightarrow> (\<exists>i x. t0 = Fin i \<and> t1 = Fin x \<and> ps \<noteq> {} \<and> i < x
     \<and> g = \<lparr>cg_subject = a, cg_target = b, cg_permissions = ps, cg_issued = i, cg_expires = x\<rparr>)"
  by (auto simp: mk_grant_def split: pyfloat.splits)

lemma mk_grant_keys: "mk_grant a b ps t0 t1 = Inr g \<Longrightarrow> cg_subject g = a \<and> cg_target g = b"
  by (auto simp: mk_grant_Inr)

lemma with_grant_inv:
  assumes "rs_inv s" "grant_allowed s (cg_subject g) (cg_target g)"
  shows "rs_inv (with_grant s g)"
  using assms
  by (auto simp: rs_inv_def rs_ok_iff with_grant_def grant_keys_def grant_ok_def grant_allowed_def
      distinct_map_filter)

lemma role_grant_capabilities_eq:
  assumes "rs_inv s" "role_control s actor = Inr n" "grant_allowed s a b"
  shows "role_grant_capabilities s actor a b ps t0 t1 = rbind (mk_grant a b ps t0 t1) (\<lambda>g. Inr (with_grant s g))"
proof -
  have ok: "rs_ok s" using assms by (simp add: rs_inv_def)
  have "rs_post_init (with_grant s g) = Inr (with_grant s g)" if "mk_grant a b ps t0 t1 = Inr g" for g
    using with_grant_inv [OF assms(1), of g] assms(3) mk_grant_keys [OF that]
    by (simp add: rs_inv_def rs_ok_def)
  with assms(2,3) show ?thesis
    by (cases "mk_grant a b ps t0 t1")
      (auto simp: role_grant_capabilities_def assignment_for_seek [OF ok] grant_allowed_def active_with_def
        with_grant_def dest: mk_grant_keys)
qed

lemma role_grant_capabilities_refused:
  assumes "rs_inv s" "role_control s actor = Inr n" "\<not> grant_allowed s a b"
  shows "\<exists>m. role_grant_capabilities s actor a b ps t0 t1 = Inl (Exn RoleAuthorizationError m)"
proof -
  have ok: "rs_ok s" using assms by (simp add: rs_inv_def)
  show ?thesis using assms(2,3)
    by (auto simp: role_grant_capabilities_def assignment_for_seek [OF ok] grant_allowed_def active_with_def
        raise_def split: option.splits)
qed

lemma role_grant_capabilities_inv:
  assumes "rs_inv s" "role_grant_capabilities s actor a b ps t0 t1 = Inr s'"
  shows "rs_inv s'"
proof -
  from assms(2) obtain n where n: "role_control s actor = Inr n"
    by (auto simp: role_grant_capabilities_def ok_simps)
  have al: "grant_allowed s a b"
    using role_grant_capabilities_refused [OF assms(1) n, of a b ps t0 t1] assms(2) by auto
  from role_grant_capabilities_eq [OF assms(1) n al, of ps t0 t1] assms(2)
  obtain g where "mk_grant a b ps t0 t1 = Inr g" "s' = with_grant s g" by (auto simp: ok_simps)
  with al mk_grant_keys show ?thesis using with_grant_inv [OF assms(1), of g] by auto
qed

lemma rejoin_as_worker_inv:
  assumes "rs_inv s"
  shows "(\<exists>m. rejoin_as_worker s n e = Inl (Exn FencingError m)) \<or> (\<exists>s'. rejoin_as_worker s n e = Inr s' \<and> rs_inv s')"
proof (cases "seek n (assignments s)")
  case (Some a)
  let ?a = "a\<lparr>ra_roles := {WORKER}, ra_paused := False, ra_job := False\<rparr>"
  let ?s = "s\<lparr>assignments := set_assignment ?a (assignments s)\<rparr>"
  have ok: "rs_ok s" using assms by (simp add: rs_inv_def)
  have a: "ra_ok a" "ra_node_id a = Some n" using seek_ra_ok [OF ok Some] by auto
  have r: "role_replace s ?a = Inr ?s \<and> rs_ok ?s"
    using a by (intro rs_ok_set [OF ok Some]) (auto simp: active_with_def)
  have "grant_ok (assignments ?s) g" if "COORDINATOR \<in> ra_roles a" "g \<in> set (capability_grants s)" for g
    using grant_ok_set [OF _ Some, of g ?a] that a assms
    by (auto simp: rs_inv_def active_with_def ra_ok_def)
  with r have "COORDINATOR \<in> ra_roles a \<Longrightarrow> rs_inv ?s" by (simp add: rs_inv_def)
  with r assms Some show ?thesis
    by (auto simp: rejoin_as_worker_def assignment_for_seek [OF ok] raise_def split: option.splits)
qed (use assms in \<open>auto simp: rejoin_as_worker_def assignment_for_seek rs_inv_def raise_def split: option.splits\<close>)

section \<open>Runs of role operations\<close>

datatype role_op =
    AssignRole role_assignment node_id "cluster_role set" pyval
  | PauseNode role_assignment node_id
  | ResumeNode role_assignment node_id
  | RevokeNode role_assignment node_id
  | ClearRevocation node_id
  | SetJob role_assignment node_id bool
  | GrantCaps role_assignment node_id node_id "node_permission set" pyfloat pyfloat
  | RevokeCaps role_assignment node_id node_id
  | Rejoin node_id pyval

fun role_exec :: "role_state \<Rightarrow> role_op \<Rightarrow> role_state res" where
  "role_exec s (AssignRole actor t roles now) = rbind (role_assign s actor t roles now) (\<lambda>(s', _). Inr s')"
| "role_exec s (PauseNode actor t) = role_pause s actor t"
| "role_exec s (ResumeNode actor t) = role_resume s actor t"
| "role_exec s (RevokeNode actor t) = role_revoke s actor t"
| "role_exec s (ClearRevocation t) = clear_revocation s t"
| "role_exec s (SetJob actor t b) = role_job s actor t b"
| "role_exec s (GrantCaps actor a b ps t0 t1) = role_grant_capabilities s actor a b ps t0 t1"
| "role_exec s (RevokeCaps actor a b) = role_revoke_capabilities s actor a b"
| "role_exec s (Rejoin n e) = rejoin_as_worker s n e"

text \<open>A caller that keeps the old state when an operation raises.\<close>

definition role_step :: "role_state \<Rightarrow> role_op \<Rightarrow> role_state" where
  "role_step s x = (case role_exec s x of Inl _ \<Rightarrow> s | Inr s' \<Rightarrow> s')"

lemma role_assign_inv: "rs_inv s \<Longrightarrow> role_assign s actor t roles now = Inr (s', ch) \<Longrightarrow> rs_inv s'"
proof -
  assume i: "rs_inv s" and r: "role_assign s actor t roles now = Inr (s', ch)"
  then obtain n where n: "role_control s actor = Inr n" by (auto simp: role_assign_def ok_simps)
  have ok: "rs_ok s" using i by (simp add: rs_inv_def)
  have al: "assign_allowed s n t roles"
    using role_assign_refused [OF ok n, of t roles now] r by auto
  with role_assign_eq [OF ok n al] r have "s' = assign_result s t roles" by (auto simp: ok_simps)
  with assign_result_inv [OF ok n al] show ?thesis by simp
qed

lemma safe_result_Inr: "safe_result r \<Longrightarrow> r = Inr s \<Longrightarrow> rs_inv s"
  by simp

lemma role_exec_inv: "rs_inv s \<Longrightarrow> role_exec s x = Inr s' \<Longrightarrow> rs_inv s'"
proof (cases x)
  case (ClearRevocation t)
  then show "rs_inv s \<Longrightarrow> role_exec s x = Inr s' \<Longrightarrow> rs_inv s'"
    using clear_revocation_inv [of s t] by auto
next
  case (Rejoin n e)
  then show "rs_inv s \<Longrightarrow> role_exec s x = Inr s' \<Longrightarrow> rs_inv s'"
    using rejoin_as_worker_inv [of s n e] by auto
qed (auto simp: ok_simps intro: role_assign_inv role_grant_capabilities_inv
      role_pause_safe [THEN safe_result_Inr] role_resume_safe [THEN safe_result_Inr]
      role_revoke_safe [THEN safe_result_Inr] role_job_safe [THEN safe_result_Inr]
      role_revoke_capabilities_safe [THEN safe_result_Inr])

interpretation role_runs: transition_system role_step rs_inv
  by unfold_locales (auto simp: role_step_def intro: role_exec_inv split: sum.splits)

section \<open>Properties\<close>

text \<open>
  C1. Starting from a well-formed role state whose grants match its topology, any sequence of role
  operations by any actors (assign, pause, resume, revoke, clear a revocation, start and stop jobs,
  grant and revoke capabilities, rejoin) leaves a well-formed state: node ids are unique, at most one
  unrevoked Coordinator and one unrevoked Subcoordinator exist, and every stored capability grant has
  an active Subcoordinator as subject and an active Worker as target.
\<close>

theorem role_run_invariant: "rs_inv s \<Longrightarrow> rs_inv (foldl role_step s ops)"
  by (rule role_runs.run_inv)

text \<open>The state a new cluster starts from, for the node \<open>a\<close>, and one with a standby and a worker.\<close>

definition demo_epoch :: coordinator_epoch where
  "demo_epoch = \<lparr>ce_epoch = 1, ce_coordinator = NodeId ''a'', ce_token = ''t0'', ce_issued = 0, ce_lease = 120\<rparr>"

definition demo_member :: "string \<Rightarrow> cluster_role set \<Rightarrow> role_assignment" where
  "demo_member n r = \<lparr>ra_roles = r, ra_node_id = Some (NodeId n), ra_paused = False, ra_revoked = False, ra_job = False\<rparr>"

definition demo_grant :: capability_grant where
  "demo_grant = \<lparr>cg_subject = NodeId ''b'', cg_target = NodeId ''c'', cg_permissions = {READ_STATE},
     cg_issued = 0, cg_expires = 50\<rparr>"

definition demo_state :: role_state where
  "demo_state = \<lparr>assignments = [demo_member ''a'' {COORDINATOR, WORKER}, demo_member ''b'' {SUBCOORDINATOR},
       demo_member ''c'' {WORKER}],
     epoch = Some demo_epoch, promotion_epochs = {}, capability_grants = [demo_grant]\<rparr>"

lemmas demo_defs = demo_state_def demo_epoch_def demo_member_def demo_grant_def

lemmas role_eval = role_assign_def role_control_def assignment_for_def assignment_index_def dict_of_def
  mk_assignment_def ra_post_init_def rs_post_init_def prune_capability_grants_def mk_role_change_def
  active_with_def grant_keys_def Let_def

lemma demo_state_inv: "rs_inv demo_state"
  by (simp add: rs_inv_def rs_ok_iff ids_distinct_def one_active_def grant_keys_def grant_ok_def
      active_with_def ra_ok_def demo_defs)

lemma demo_state_control: "role_control demo_state (demo_member ''a'' {}) = Inr (NodeId ''a'')"
  using demo_state_inv by (simp add: rs_inv_def role_control_Inr) (simp add: demo_defs active_with_def)

theorem role_run_invariant_witness:
  "rs_inv (foldl role_step demo_state [RevokeNode (demo_member ''a'' {}) (NodeId ''b'')])"
  by (rule role_run_invariant [OF demo_state_inv])

text \<open>
  \<open>assign\<close> on a well-formed state at a finite time either refuses with
  \<open>RoleAuthorizationError\<close> or succeeds; when it succeeds, the actor is the active Coordinator and is
  not the target, the target holds exactly the requested roles (a Worker when none were named), every
  other member and the epoch are untouched, and the change record names actor and target.
\<close>

theorem assign_behaviour:
  assumes "rs_inv s" "num_value now = Some \<tau>"
  shows "case role_assign s actor t roles now of
      Inl e \<Rightarrow> exn_cls e = RoleAuthorizationError
    | Inr (s', ch) \<Rightarrow>
        (\<exists>n c. ra_node_id actor = Some n \<and> n \<noteq> t \<and> assignment_for s n = Some c \<and> active_with COORDINATOR c
           \<and> \<not> ra_paused c \<and> rc_actor ch = n)
      \<and> assignment_for s' t = Some (rc_assignment ch) \<and> rc_node_id ch = t
      \<and> ra_roles (rc_assignment ch) = (if roles = {} then {WORKER} else roles)
      \<and> (\<forall>m. m \<noteq> t \<longrightarrow> assignment_for s' m = assignment_for s m) \<and> epoch s' = epoch s"
proof (cases "role_control s actor")
  case (Inl e)
  then show ?thesis using role_control_Inl by (simp add: role_assign_def)
next
  case (Inr n)
  have ok: "rs_ok s" using assms(1) by (simp add: rs_inv_def)
  show ?thesis
  proof (cases "assign_allowed s n t roles")
    case False
    then show ?thesis using role_assign_refused [OF ok Inr False, of now] by auto
  next
    case True
    have ok': "rs_ok (assign_result s t roles)"
      using assign_result_inv [OF ok Inr True] by (simp add: rs_inv_def)
    have "assignments (assign_result s t roles) = with_assigned s t roles" "epoch (assign_result s t roles) = epoch s"
      by (simp_all add: assign_result_def)
    moreover have "mk_role_change t (assigned s t roles) now n
        = Inr \<lparr>rc_node_id = t, rc_assignment = assigned s t roles, rc_changed_at = now, rc_actor = n\<rparr>"
      using num_value_is_number [OF assms(2)] by (simp add: mk_role_change_def)
    ultimately show ?thesis
      using role_assign_eq [OF ok Inr True, of now] role_control_Inr [OF ok, of actor n] Inr True
      by (auto simp: assignment_for_seek [OF ok'] assignment_for_seek [OF ok] seek_with_assigned [OF ok]
          assign_allowed_def)
  qed
qed

theorem assign_behaviour_witness:
  "case role_assign demo_state (demo_member ''a'' {}) (NodeId ''b'') {WORKER} (PInt 3) of
      Inl e \<Rightarrow> exn_cls e = RoleAuthorizationError
    | Inr (s', ch) \<Rightarrow>
        (\<exists>n c. ra_node_id (demo_member ''a'' {}) = Some n \<and> n \<noteq> NodeId ''b''
           \<and> assignment_for demo_state n = Some c \<and> active_with COORDINATOR c
           \<and> \<not> ra_paused c \<and> rc_actor ch = n)
      \<and> assignment_for s' (NodeId ''b'') = Some (rc_assignment ch) \<and> rc_node_id ch = NodeId ''b''
      \<and> ra_roles (rc_assignment ch) = (if {WORKER} = {} then {WORKER} else {WORKER})
      \<and> (\<forall>m. m \<noteq> NodeId ''b'' \<longrightarrow> assignment_for s' m = assignment_for demo_state m)
      \<and> epoch s' = epoch demo_state"
  by (rule assign_behaviour [OF demo_state_inv, of "PInt 3" 3]) (simp add: float_limit_def)

lemma role_allows_seek:
  assumes "rs_ok s"
  shows "role_allows s a b p now \<longleftrightarrow>
    (\<exists>\<tau> x y. num_value now = Some \<tau> \<and> seek a (assignments s) = Some x \<and> seek b (assignments s) = Some y
       \<and> \<not> ra_revoked x \<and> \<not> ra_paused x \<and> \<not> ra_revoked y \<and> \<not> ra_paused y
       \<and> (a = b \<or> WORKER \<in> ra_roles y \<and> (COORDINATOR \<in> ra_roles x
            \<or> SUBCOORDINATOR \<in> ra_roles x
              \<and> (\<exists>g \<in> set (capability_grants s). cg_subject g = a \<and> cg_target g = b
                    \<and> \<tau> < cg_expires g \<and> p \<in> cg_permissions g))))"
proof -
  have fg: "find (\<lambda>g. cg_subject g = a \<and> cg_target g = b) (capability_grants s) = Some g \<longleftrightarrow>
      g \<in> set (capability_grants s) \<and> cg_subject g = a \<and> cg_target g = b" for g
  proof
    assume g: "g \<in> set (capability_grants s) \<and> cg_subject g = a \<and> cg_target g = b"
    have "distinct (grant_keys (capability_grants s))" using assms by (simp add: rs_ok_iff)
    then have "map_of (map (\<lambda>g. ((cg_subject g, cg_target g), g)) (capability_grants s)) (a, b) = Some g"
      using g by (intro map_of_is_SomeI) (auto simp: grant_keys_def comp_def image_iff)
    then show "find (\<lambda>g. cg_subject g = a \<and> cg_target g = b) (capability_grants s) = Some g"
      by (simp add: map_of_map_key)
  qed (auto dest: find_Some_D)
  have ci: "\<not> (COORDINATOR \<in> ra_roles x \<and> SUBCOORDINATOR \<in> ra_roles x)" if "seek a (assignments s) = Some x" for x
    using seek_ra_ok [OF assms that] by (simp add: ra_ok_def)
  have gi: "map_of (grant_index (capability_grants s)) (a, b) =
      find (\<lambda>g. cg_subject g = a \<and> cg_target g = b) (capability_grants s)"
    using assms by (simp add: grant_index_seek rs_ok_iff)
  have ex: "(\<exists>g\<in>set (capability_grants s). cg_subject g = a \<and> cg_target g = b \<and> Q g) =
      (case find (\<lambda>g. cg_subject g = a \<and> cg_target g = b) (capability_grants s) of None \<Rightarrow> False | Some g \<Rightarrow> Q g)" for Q
  proof (cases "find (\<lambda>g. cg_subject g = a \<and> cg_target g = b) (capability_grants s)")
    case (Some g)
    then have "h \<in> set (capability_grants s) \<and> cg_subject h = a \<and> cg_target h = b \<longleftrightarrow> h = g" for h
      using fg [of h] by auto
    then have "(\<exists>h\<in>set (capability_grants s). cg_subject h = a \<and> cg_target h = b \<and> Q h) = Q g" by metis
    with Some show ?thesis by simp
  qed (auto dest: find_None_D)
  show ?thesis
  proof (cases "num_value now")
    case (Some \<tau>)
    then have "now \<noteq> PNone" by auto
    with Some show ?thesis
      unfolding ex using ci
      by (auto simp: role_allows_def assignment_for_seek [OF assms] capability_grant_for_def gi
          split: option.splits)
  qed (simp add: role_allows_def)
qed

text \<open>
  After a successful revocation nothing reaches or leaves the revoked node: at no time and for no
  permission does \<open>allows\<close> accept it as subject or as target, no capability grant names it, and the
  other members keep their assignments.
\<close>

theorem revoke_cuts_off:
  assumes "rs_inv s" "role_revoke s actor t = Inr s'"
  shows "\<not> role_allows s' t m p now \<and> \<not> role_allows s' m t p now
    \<and> (\<forall>g \<in> set (capability_grants s'). cg_subject g \<noteq> t \<and> cg_target g \<noteq> t)
    \<and> (m \<noteq> t \<longrightarrow> assignment_for s' m = assignment_for s m)"
proof -
  have ok: "rs_ok s" using assms by (simp add: rs_inv_def)
  from assms(2) obtain n c where n: "role_control s actor = Inr n" "t \<noteq> n"
      and c: "seek t (assignments s) = Some c" "\<not> ra_revoked c"
    by (auto simp: role_revoke_def ok_simps assignment_for_seek [OF ok] split: if_splits option.splits)
  let ?a = "c\<lparr>ra_revoked := True, ra_paused := False, ra_job := False\<rparr>"
  from role_revoke_Inr [OF assms(1) n c] assms(2)
  have s': "assignments s' = set_assignment ?a (assignments s)"
      "capability_grants s' = filter (\<lambda>g. t \<noteq> cg_subject g \<and> t \<noteq> cg_target g) (capability_grants s)"
    and "rs_inv s'"
    by auto
  then have ok': "rs_ok s'" by (simp add: rs_inv_def)
  have id: "ra_node_id ?a = Some t" using seek_ra_ok [OF ok c(1)] by simp
  have "seek t (assignments s') = Some ?a" unfolding s' by (subst seek_set [OF id]) (simp add: c)
  moreover have "m \<noteq> t \<Longrightarrow> seek m (assignments s') = seek m (assignments s)"
    unfolding s' by (subst seek_set [OF id]) simp
  ultimately show ?thesis
    by (auto simp: role_allows_seek [OF ok'] assignment_for_seek [OF ok] assignment_for_seek [OF ok'] s')
qed

theorem revoke_cuts_off_witness:
  "\<exists>s'. role_revoke demo_state (demo_member ''a'' {}) (NodeId ''b'') = Inr s'
     \<and> \<not> role_allows s' (NodeId ''b'') (NodeId ''c'') READ_STATE (PInt 3)"
proof -
  have "\<exists>s'. role_revoke demo_state (demo_member ''a'' {}) (NodeId ''b'') = Inr s'"
    using role_revoke_Inr [OF demo_state_inv demo_state_control, of "NodeId ''b''" "demo_member ''b'' {SUBCOORDINATOR}"]
    by (auto simp: demo_defs)
  then show ?thesis using revoke_cuts_off [OF demo_state_inv] by blast
qed

text \<open>
  A grant does not come back with the role it was given to: if a Subcoordinator is made a Worker and
  later a Subcoordinator again, no permission it held through a capability grant before is usable
  afterwards, at any time, against any other member.
\<close>

theorem no_grant_resurrection:
  assumes "rs_inv s" "role_assign s actor t {WORKER} now1 = Inr (s1, ch1)"
    and "role_assign s1 actor t {SUBCOORDINATOR} now2 = Inr (s2, ch2)" "m \<noteq> t"
  shows "\<not> role_allows s2 t m p now"
proof -
  have "\<exists>n. role_control x actor = Inr n \<and> assign_allowed x n t r \<and> y = assign_result x t r"
    if "rs_ok x" "role_assign x actor t r u = Inr (y, ch)" for x y r u ch
  proof -
    from that(2) obtain n where n: "role_control x actor = Inr n" by (auto simp: role_assign_def ok_simps)
    have al: "assign_allowed x n t r" using role_assign_refused [OF that(1) n, of t r u] that(2) by auto
    with n role_assign_eq [OF that(1) n al, of u] that(2) show ?thesis by (auto simp: ok_simps)
  qed
  note step = this
  have i1: "rs_inv s1" using assms(1,2) by (rule role_assign_inv)
  have i2: "rs_inv s2" using i1 assms(3) by (rule role_assign_inv)
  note oks = assms(1) [unfolded rs_inv_def, THEN conjunct1] i1 [unfolded rs_inv_def, THEN conjunct1]
    i2 [unfolded rs_inv_def, THEN conjunct1]
  from step [OF oks(1) assms(2)] have s1: "s1 = assign_result s t {WORKER}" by blast
  from step [OF oks(2) assms(3)] have s2: "s2 = assign_result s1 t {SUBCOORDINATOR}" by blast
  have "\<not> grant_ok (assignments s1) g" if "cg_subject g = t" for g
    using that by (simp add: s1 assign_result_def grant_ok_def seek_with_assigned [OF oks(1)] active_with_def)
  then have "cg_subject g \<noteq> t" if "g \<in> set (capability_grants s1)" for g
    using that i1 by (auto simp: rs_inv_def)
  then have "cg_subject g \<noteq> t" if "g \<in> set (capability_grants s2)" for g
    using that by (auto simp: s2 assign_result_def prune_iff with_assigned_ids [OF oks(2)])
  moreover have "seek t (assignments s2) = Some (assigned s1 t {SUBCOORDINATOR})"
    by (simp add: s2 assign_result_def seek_with_assigned [OF oks(2)])
  ultimately show ?thesis using assms(4) by (auto simp: role_allows_seek [OF oks(3)])
qed

theorem no_grant_resurrection_witness:
  "\<exists>s1 ch1 s2 ch2. role_assign demo_state (demo_member ''a'' {}) (NodeId ''b'') {WORKER} (PInt 1) = Inr (s1, ch1)
     \<and> role_assign s1 (demo_member ''a'' {}) (NodeId ''b'') {SUBCOORDINATOR} (PInt 2) = Inr (s2, ch2)
     \<and> \<not> role_allows s2 (NodeId ''b'') (NodeId ''c'') READ_STATE (PInt 3)"
proof -
  have "\<exists>s1 ch1 s2 ch2. role_assign demo_state (demo_member ''a'' {}) (NodeId ''b'') {WORKER} (PInt 1) = Inr (s1, ch1)
     \<and> role_assign s1 (demo_member ''a'' {}) (NodeId ''b'') {SUBCOORDINATOR} (PInt 2) = Inr (s2, ch2)"
    by (simp add: role_eval demo_defs float_limit_def)
  then show ?thesis using no_grant_resurrection [OF demo_state_inv] by fastforce
qed

text \<open>
  \<open>allows\<close> decides exactly the documented rule: at a finite time, both ends are members that are
  neither revoked nor paused, and either they are the same member, or the target is a Worker and the
  subject is the Coordinator, or a Subcoordinator holding an unexpired capability grant for that
  target that lists the permission.
\<close>

theorem allows_rule:
  assumes "rs_inv s" "num_value now = Some \<tau>"
  shows "role_allows s a b p now \<longleftrightarrow>
    (\<exists>x y. assignment_for s a = Some x \<and> assignment_for s b = Some y
       \<and> \<not> ra_revoked x \<and> \<not> ra_paused x \<and> \<not> ra_revoked y \<and> \<not> ra_paused y
       \<and> (a = b \<or> WORKER \<in> ra_roles y \<and> (COORDINATOR \<in> ra_roles x
            \<or> SUBCOORDINATOR \<in> ra_roles x
              \<and> (\<exists>g \<in> set (capability_grants s). cg_subject g = a \<and> cg_target g = b
                    \<and> \<tau> < cg_expires g \<and> p \<in> cg_permissions g))))"
proof -
  have ok: "rs_ok s" using assms(1) by (simp add: rs_inv_def)
  show ?thesis unfolding role_allows_seek [OF ok] assignment_for_seek [OF ok] assms(2) by auto
qed

theorem allows_rule_witness:
  "role_allows demo_state (NodeId ''b'') (NodeId ''c'') READ_STATE (PInt 49)
   \<and> \<not> role_allows demo_state (NodeId ''b'') (NodeId ''c'') READ_STATE (PInt 50)
   \<and> \<not> role_allows demo_state (NodeId ''b'') (NodeId ''c'') CLEANUP (PInt 49)"
proof -
  have t: "num_value (PInt 49) = Some 49" "num_value (PInt 50) = Some 50" by (simp_all add: float_limit_def)
  show ?thesis
    unfolding allows_rule [OF demo_state_inv t(1)] allows_rule [OF demo_state_inv t(2)]
    by (simp add: role_eval demo_defs)
qed

end
