(* ===== verification/Failover.thy ===== *)
theory Failover
  imports RoleLaws
begin

text \<open>
  \<open>cluster/failover.py\<close>: the durable orchestration around the pure role decisions. A candidate state is
  handed to the \<open>persist\<close> callback before it is published; an exception of the callback leaves the
  published state alone. The callback is the argument \<open>store\<close>, answering the exception it raises, if
  any; a coordinator created without a callback is the case \<open>\<lambda>_. None\<close>. Methods hold the instance lock
  from the first to the last statement, so a method is one step.
\<close>

section \<open>Operations\<close>

record failover_coordinator =
  fo_state :: role_state

type_synonym role_store = "role_state \<Rightarrow> exn option"

definition fo_commit ::
  "role_store \<Rightarrow> failover_coordinator \<Rightarrow> role_state \<Rightarrow> failover_coordinator \<times> unit res" where
  "fo_commit store fo candidate =
     (case store candidate of
        Some e \<Rightarrow> (fo, Inl e)
      | None \<Rightarrow> (fo\<lparr>fo_state := candidate\<rparr>, Inr ()))"

definition fo_finish ::
  "role_store \<Rightarrow> failover_coordinator \<Rightarrow> role_state \<Rightarrow> 'a \<Rightarrow> failover_coordinator \<times> 'a res" where
  "fo_finish store fo candidate answer =
     (case fo_commit store fo candidate of (fo', r) \<Rightarrow> (fo', rbind r (\<lambda>_. Inr answer)))"

definition fo_heartbeat ::
  "role_store \<Rightarrow> failover_coordinator \<Rightarrow> node_id \<Rightarrow> pyval \<Rightarrow> pyval \<Rightarrow> failover_coordinator \<times> bool res" where
  "fo_heartbeat store fo coordinator_id fencing_token now =
     (case epoch (fo_state fo) of
        None \<Rightarrow> (fo, Inr False)
      | Some e \<Rightarrow>
          (case rbind (renew_lease e coordinator_id fencing_token now (PFloat (Fin HEARTBEAT_TIMEOUT_SECONDS)))
                  (\<lambda>e'. rs_post_init ((fo_state fo)\<lparr>epoch := Some e'\<rparr>)) of
             Inl x \<Rightarrow> (fo, if isa x FencingError then Inr False else Inl x)
           | Inr candidate \<Rightarrow> fo_finish store fo candidate True))"

definition fo_promote_if_due ::
  "role_store \<Rightarrow> failover_coordinator \<Rightarrow> pyval \<Rightarrow> string \<Rightarrow> failover_coordinator \<times> bool res" where
  "fo_promote_if_due store fo now tok =
     (let s = fo_state fo in
      case promote_subcoordinator s now (PBool True) tok of
        Inl x \<Rightarrow> (fo, if isa x FencingError then Inr False else Inl x)
      | Inr d \<Rightarrow>
          (case rs_post_init (s\<lparr>assignments := pd_assignments d, epoch := Some (pd_epoch d),
                  promotion_epochs := promotion_epochs s \<union> {ce_epoch (pd_epoch d) - 1},
                  capability_grants := pd_grants d\<rparr>) of
             Inl x \<Rightarrow> (fo, Inl x)
           | Inr candidate \<Rightarrow> fo_finish store fo candidate True))"

definition fo_rejoin ::
  "role_store \<Rightarrow> failover_coordinator \<Rightarrow> node_id \<Rightarrow> pyval \<Rightarrow> failover_coordinator \<times> unit res" where
  "fo_rejoin store fo n current_epoch =
     (case rejoin_as_worker (fo_state fo) n current_epoch of
        Inl x \<Rightarrow> (fo, Inl x)
      | Inr candidate \<Rightarrow> fo_commit store fo candidate)"

definition fo_assign_role ::
  "role_store \<Rightarrow> failover_coordinator \<Rightarrow> role_assignment \<Rightarrow> node_id \<Rightarrow> cluster_role set \<Rightarrow> pyval
   \<Rightarrow> failover_coordinator \<times> role_change res" where
  "fo_assign_role store fo actor target roles now =
     (case role_assign (fo_state fo) actor target roles now of
        Inl x \<Rightarrow> (fo, Inl x)
      | Inr (candidate, change) \<Rightarrow> fo_finish store fo candidate change)"

definition fo_revoke_member ::
  "role_store \<Rightarrow> failover_coordinator \<Rightarrow> role_assignment \<Rightarrow> node_id \<Rightarrow> failover_coordinator \<times> unit res" where
  "fo_revoke_member store fo actor target =
     (case role_revoke (fo_state fo) actor target of
        Inl x \<Rightarrow> (fo, Inl x)
      | Inr candidate \<Rightarrow> fo_commit store fo candidate)"

interpretation fo_cell: durable_cell fo_commit fo_state "\<lambda>_ s. s"
  by unfold_locales (auto simp: fo_commit_def)

lemma fo_finish_cases:
  "fo_finish store fo c a = (fo', r) \<Longrightarrow>
     (\<exists>e. r = Inl e) \<and> fo' = fo \<or> r = Inr a \<and> fo_state fo' = c \<and> store c = None"
  using fo_cell.commit_atomic [of store fo c]
  by (cases "fo_commit store fo c") (auto simp: fo_finish_def)

section \<open>Leases\<close>

definition ce_ok :: "coordinator_epoch \<Rightarrow> bool" where
  "ce_ok e \<longleftrightarrow> 0 \<le> ce_epoch e \<and> ce_token e \<noteq> [] \<and> ce_issued e \<le> ce_lease e"

lemma mk_epoch_Inr:
  "mk_epoch n c t i l = Inr e \<longleftrightarrow> (\<exists>a b. i = Fin a \<and> l = Fin b \<and> 0 \<le> n \<and> t \<noteq> [] \<and> a \<le> b
     \<and> e = \<lparr>ce_epoch = n, ce_coordinator = c, ce_token = t, ce_issued = a, ce_lease = b\<rparr>)"
  by (auto simp: mk_epoch_def split: pyfloat.splits)

lemma mk_epoch_ok: "mk_epoch n c t i l = Inr e \<Longrightarrow> ce_ok e"
  by (auto simp: mk_epoch_Inr ce_ok_def)

lemma valid_time_Inr [ok_simps]: "valid_time v f = Inr t \<longleftrightarrow> num_value v = Some t"
  by (auto simp: valid_time_def split: option.splits)

text \<open>A renewal needs the holder, its token and a lease that is still running; it only extends.\<close>

lemma renew_lease_Inr:
  "renew_lease e c tok now d = Inr e' \<Longrightarrow>
   \<exists>t dur. ce_coordinator e = c \<and> tok = PStr (ce_token e) \<and> num_value now = Some t \<and> t < ce_lease e
     \<and> num_value d = Some dur \<and> 0 < dur
     \<and> e' = e\<lparr>ce_issued := max (ce_issued e) t, ce_lease := max (ce_lease e) (t + dur)\<rparr> \<and> ce_ok e'"
proof -
  assume r: "renew_lease e c tok now d = Inr e'"
  then have "is_str tok" "str_of tok = ce_token e" by (auto simp: renew_lease_def ok_simps split: if_splits)
  then have "tok = PStr (ce_token e)" by (cases tok) auto
  with r show ?thesis
    by (cases e) (auto simp: renew_lease_def ok_simps mk_epoch_Inr ce_ok_def split: if_splits)
qed

section \<open>Promotion\<close>

definition promoted :: "node_id \<Rightarrow> role_assignment" where
  "promoted n = \<lparr>ra_roles = {COORDINATOR, WORKER}, ra_node_id = Some n, ra_paused = False, ra_revoked = False,
     ra_job = False\<rparr>"

definition after_promotion :: "node_id \<Rightarrow> role_assignment list \<Rightarrow> role_assignment list" where
  "after_promotion n as = map (\<lambda>a. if ra_node_id a = Some n then promoted n else a\<lparr>ra_roles := {WORKER}\<rparr>) as"

lemma promoted_simps [simp]:
  "ra_roles (promoted n) = {COORDINATOR, WORKER}" "ra_node_id (promoted n) = Some n"
  "ra_paused (promoted n) = False" "ra_revoked (promoted n) = False" "ra_job (promoted n) = False"
  "ra_ok (promoted n)"
  by (simp_all add: promoted_def ra_ok_def)

lemma mk_promoted: "mk_assignment {COORDINATOR, WORKER} (Some n) False False False = Inr (promoted n)"
  by (simp add: mk_assignment_def ra_post_init_def promoted_def Let_def insert_absorb)

lemma after_promotion_ids [simp]: "map ra_node_id (after_promotion n as) = map ra_node_id as"
  by (simp add: after_promotion_def)

lemma after_promotion_distinct: "ids_distinct (after_promotion n as) = ids_distinct as"
proof -
  have "map ra_node_id (filter bound as) = filter (\<lambda>i. i \<noteq> None) (map ra_node_id as)" for as
    by (induction as) auto
  then show ?thesis by (simp add: ids_distinct_def)
qed

lemma after_promotion_active:
  "x \<in> set (after_promotion n as) \<Longrightarrow> active_with COORDINATOR x \<Longrightarrow> x = promoted n"
  "x \<in> set (after_promotion n as) \<Longrightarrow> \<not> active_with SUBCOORDINATOR x"
  by (auto simp: after_promotion_def active_with_def split: if_splits)

lemma seek_after_promotion:
  "seek m (after_promotion n as) = map_option (\<lambda>a. if m = n then promoted n else a\<lparr>ra_roles := {WORKER}\<rparr>) (seek m as)"
  by (induction as) (auto simp: after_promotion_def)

lemma after_promotion_prune:
  assumes "ids_distinct as"
  shows "prune_capability_grants (after_promotion n as) gs = []"
proof -
  have "set (prune_capability_grants (after_promotion n as) gs) = {}"
    using assms after_promotion_active(2) [of _ n as]
    by (auto simp: prune_iff after_promotion_distinct grant_ok_def dest!: seek_Some)
  then show ?thesis by simp
qed

definition next_epoch :: "coordinator_epoch \<Rightarrow> node_id \<Rightarrow> string \<Rightarrow> rat \<Rightarrow> coordinator_epoch" where
  "next_epoch e n tok t = \<lparr>ce_epoch = ce_epoch e + 1, ce_coordinator = n, ce_token = tok, ce_issued = t,
     ce_lease = t + HEARTBEAT_TIMEOUT_SECONDS\<rparr>"

definition due :: "role_state \<Rightarrow> coordinator_epoch \<Rightarrow> rat \<Rightarrow> bool" where
  "due s e t \<longleftrightarrow> epoch s = Some e \<and> ce_lease e \<le> t \<and> ce_epoch e \<notin> promotion_epochs s"

lemma standby_Some:
  assumes "rs_ok s"
  shows "Option.bind (find_standby s) ra_node_id = Some n \<longleftrightarrow>
    (\<exists>a. seek n (assignments s) = Some a \<and> active_with SUBCOORDINATOR a \<and> \<not> ra_paused a)"
proof
  assume "Option.bind (find_standby s) ra_node_id = Some n"
  then obtain a where "a \<in> set (assignments s)" "ra_node_id a = Some n" "active_with SUBCOORDINATOR a" "\<not> ra_paused a"
    by (auto simp: find_standby_def active_with_def bind_eq_Some_conv dest: find_Some_D)
  with assms show "\<exists>a. seek n (assignments s) = Some a \<and> active_with SUBCOORDINATOR a \<and> \<not> ra_paused a"
    by (auto simp: rs_ok_iff seek_unique)
next
  assume "\<exists>a. seek n (assignments s) = Some a \<and> active_with SUBCOORDINATOR a \<and> \<not> ra_paused a"
  then obtain a where a: "seek n (assignments s) = Some a" "active_with SUBCOORDINATOR a" "\<not> ra_paused a" by blast
  then have m: "a \<in> set (assignments s)" "ra_node_id a = Some n" by (auto dest: seek_Some)
  have "find_standby s \<noteq> None"
    unfolding find_standby_def find_None_iff using a m by (auto simp: active_with_def)
  then obtain b where b: "find_standby s = Some b" by blast
  then have "b = a"
    using assms a m by (intro active_other [of SUBCOORDINATOR "assignments s"])
      (auto simp: rs_ok_iff find_standby_def active_with_def dest!: find_Some_D)
  with b m show "Option.bind (find_standby s) ra_node_id = Some n" by simp
qed

lemma promote_eq:
  assumes ok: "rs_ok s" and t: "num_value now = Some t" and d: "due s e t" and e: "ce_ok e" and "tok \<noteq> []"
    and n: "seek n (assignments s) = Some a" "active_with SUBCOORDINATOR a" "\<not> ra_paused a"
  shows "promote_subcoordinator s now (PBool True) tok = Inr \<lparr>pd_assignment = promoted n,
    pd_epoch = next_epoch e n tok t, pd_assignments = after_promotion n (assignments s), pd_grants = []\<rparr>"
proof -
  have sb: "Option.bind (find_standby s) ra_node_id = Some n" using n by (auto simp: standby_Some [OF ok])
  have c: "can_promote s n (PFloat (Fin t)) (PBool True)"
    using d n by (simp add: can_promote_def due_def assignment_for_seek [OF ok] active_with_def)
  have m: "mk_epoch (ce_epoch e + 1) n tok (Fin t) (Fin (t + HEARTBEAT_TIMEOUT_SECONDS)) = Inr (next_epoch e n tok t)"
    using e \<open>tok \<noteq> []\<close> by (simp add: mk_epoch_Inr next_epoch_def ce_ok_def HEARTBEAT_TIMEOUT_SECONDS_def)
  have r: "rmap (\<lambda>a. if ra_node_id a = Some n then Inr (promoted n) else ra_post_init (a\<lparr>ra_roles := {WORKER}\<rparr>))
      (assignments s) = Inr (after_promotion n (assignments s))"
    unfolding after_promotion_def using ok by (intro rmap_id) (auto simp: rs_ok_iff)
  have v: "valid_time now ''promotion time'' = Inr t" using t by (simp add: valid_time_def)
  have g: "prune_capability_grants (after_promotion n (assignments s)) (capability_grants s) = []"
    using ok by (simp add: after_promotion_prune rs_ok_iff)
  from d have "epoch s = Some e" by (simp add: due_def)
  then show ?thesis
    using sb c m r v g by (simp add: promote_subcoordinator_def mk_promoted)
qed

lemma promote_only_if:
  assumes ok: "rs_ok s" and p: "promote_subcoordinator s now (PBool True) tok = Inr d"
  shows "\<exists>t e n a. num_value now = Some t \<and> due s e t \<and> seek n (assignments s) = Some a
    \<and> active_with SUBCOORDINATOR a \<and> \<not> ra_paused a \<and> tok \<noteq> []"
proof -
  from p obtain e where e: "epoch s = Some e" by (auto simp: promote_subcoordinator_def split: option.splits)
  from p e obtain t where t: "num_value now = Some t" by (auto simp: promote_subcoordinator_def ok_simps)
  from p e t obtain n where n: "Option.bind (find_standby s) ra_node_id = Some n"
    by (cases "Option.bind (find_standby s) ra_node_id") (auto simp: promote_subcoordinator_def valid_time_def)
  from p e t n have c: "can_promote s n (PFloat (Fin t)) (PBool True)" and "tok \<noteq> []"
    by (auto simp: promote_subcoordinator_def valid_time_def ok_simps mk_epoch_Inr split: if_splits)
  with e t n show ?thesis
    unfolding standby_Some [OF ok] by (auto simp: can_promote_def due_def)
qed

lemma promote_Inl: "promote_subcoordinator s now au tok = Inl x \<Longrightarrow> rs_ok s \<Longrightarrow> tok \<noteq> [] \<Longrightarrow>
  (\<forall>e. epoch s = Some e \<longrightarrow> ce_ok e) \<Longrightarrow> exn_cls x = FencingError"
proof -
  assume p: "promote_subcoordinator s now au tok = Inl x" and ok: "rs_ok s" and tok: "tok \<noteq> []"
    and ep: "\<forall>e. epoch s = Some e \<longrightarrow> ce_ok e"
  have r: "rmap (\<lambda>a. if ra_node_id a = Some n then Inr (promoted n) else ra_post_init (a\<lparr>ra_roles := {WORKER}\<rparr>))
      (assignments s) = Inr (after_promotion n (assignments s))" for n
    unfolding after_promotion_def using ok by (intro rmap_id) (auto simp: rs_ok_iff)
  have m: "ce_ok e \<Longrightarrow> mk_epoch (ce_epoch e + 1) n tok (Fin t) (Fin (t + HEARTBEAT_TIMEOUT_SECONDS)) = Inr (next_epoch e n tok t)" for e n t
    using tok by (simp add: mk_epoch_Inr next_epoch_def ce_ok_def HEARTBEAT_TIMEOUT_SECONDS_def)
  show ?thesis using p ep
    by (auto simp: promote_subcoordinator_def ok_simps mk_promoted r m valid_time_def
        split: option.splits if_splits)
qed

section \<open>Runs\<close>

datatype fo_op =
    Heartbeat node_id pyval pyval
  | PromoteIfDue pyval string
  | FoRejoin node_id pyval
  | FoAssign role_assignment node_id "cluster_role set" pyval
  | FoRevoke role_assignment node_id

text \<open>A step is an operation together with what storage answers during it.\<close>

fun fo_step :: "failover_coordinator \<Rightarrow> role_store \<times> fo_op \<Rightarrow> failover_coordinator" where
  "fo_step fo (store, Heartbeat c tok now) = fst (fo_heartbeat store fo c tok now)"
| "fo_step fo (store, PromoteIfDue now tok) = fst (fo_promote_if_due store fo now tok)"
| "fo_step fo (store, FoRejoin n e) = fst (fo_rejoin store fo n e)"
| "fo_step fo (store, FoAssign actor t roles now) = fst (fo_assign_role store fo actor t roles now)"
| "fo_step fo (store, FoRevoke actor t) = fst (fo_revoke_member store fo actor t)"

definition epoch_ok :: "role_state \<Rightarrow> bool" where
  "epoch_ok s \<longleftrightarrow> (\<forall>e. epoch s = Some e \<longrightarrow> ce_ok e \<and> (\<forall>i \<in> promotion_epochs s. i < ce_epoch e))"

definition fo_inv :: "failover_coordinator \<Rightarrow> bool" where
  "fo_inv fo \<longleftrightarrow> rs_inv (fo_state fo) \<and> epoch_ok (fo_state fo)"

text \<open>Epoch number first, lease expiry second.\<close>

definition lease_rank :: "role_state \<Rightarrow> int \<times> rat" where
  "lease_rank s = (case epoch s of None \<Rightarrow> (-1, 0) | Some e \<Rightarrow> (ce_epoch e, ce_lease e))"

text \<open>What a published successor may be.\<close>

definition good_succ :: "role_state \<Rightarrow> role_state \<Rightarrow> bool" where
  "good_succ s s' \<longleftrightarrow> rs_inv s' \<and> epoch_ok s' \<and> lease_rank s \<le> lease_rank s'"

lemma good_succ_same_epoch:
  "rs_inv s' \<Longrightarrow> epoch_ok s \<Longrightarrow> epoch s' = epoch s \<Longrightarrow> promotion_epochs s' = promotion_epochs s \<Longrightarrow> good_succ s s'"
  by (simp add: good_succ_def epoch_ok_def lease_rank_def)

lemma role_assign_epoch:
  "role_assign s actor t roles now = Inr (s', ch) \<Longrightarrow> epoch s' = epoch s \<and> promotion_epochs s' = promotion_epochs s"
  by (auto simp: role_assign_def ok_simps rs_post_init_iff Let_def split: if_splits)

lemma role_revoke_epoch:
  "role_revoke s actor t = Inr s' \<Longrightarrow> epoch s' = epoch s \<and> promotion_epochs s' = promotion_epochs s"
  by (auto simp: role_revoke_def role_replace_def ok_simps rs_post_init_iff split: if_splits option.splits)

lemma rejoin_epoch:
  "rejoin_as_worker s n e = Inr s' \<Longrightarrow> epoch s' = epoch s \<and> promotion_epochs s' = promotion_epochs s"
  by (auto simp: rejoin_as_worker_def role_replace_def ok_simps rs_post_init_iff split: if_splits option.splits)

lemma renew_candidate:
  assumes "rs_inv s" "epoch_ok s" "epoch s = Some e" "renew_lease e c tok now d = Inr e'"
  shows "rs_post_init (s\<lparr>epoch := Some e'\<rparr>) = Inr (s\<lparr>epoch := Some e'\<rparr>) \<and> good_succ s (s\<lparr>epoch := Some e'\<rparr>)"
proof -
  from renew_lease_Inr [OF assms(4)] have e': "ce_ok e'" "ce_epoch e' = ce_epoch e" "ce_lease e \<le> ce_lease e'"
    by auto
  have "rs_ok (s\<lparr>epoch := Some e'\<rparr>)" "rs_inv (s\<lparr>epoch := Some e'\<rparr>)"
    using assms(1) by (auto simp: rs_inv_def rs_ok_iff)
  with e' assms(2,3) show ?thesis
    by (auto simp: good_succ_def epoch_ok_def lease_rank_def rs_ok_def)
qed

definition promotion_result :: "role_state \<Rightarrow> coordinator_epoch \<Rightarrow> node_id \<Rightarrow> string \<Rightarrow> rat \<Rightarrow> role_state" where
  "promotion_result s e n tok t = s\<lparr>assignments := after_promotion n (assignments s),
     epoch := Some (next_epoch e n tok t), promotion_epochs := promotion_epochs s \<union> {ce_epoch e},
     capability_grants := []\<rparr>"

lemma promotion_result_good:
  assumes "rs_inv s" "epoch_ok s" "due s e t" "tok \<noteq> []"
  shows "good_succ s (promotion_result s e n tok t)"
proof -
  have ok: "rs_ok s" and e: "ce_ok e" and ep: "epoch s = Some e" using assms by (auto simp: rs_inv_def epoch_ok_def due_def)
  have one: "one_active COORDINATOR (after_promotion n (assignments s))"
    "one_active SUBCOORDINATOR (after_promotion n (assignments s))"
    using ok by (auto intro!: one_active_single [where n = n] simp: after_promotion_distinct rs_ok_iff
        dest: after_promotion_active)
  have "ra_ok x" if "x \<in> set (after_promotion n (assignments s))" for x
    using that ok by (auto simp: after_promotion_def rs_ok_iff)
  then have "rs_inv (promotion_result s e n tok t)"
    using ok e one
    by (auto simp: rs_inv_def rs_ok_iff promotion_result_def after_promotion_distinct grant_keys_def ce_ok_def)
  moreover have "epoch_ok (promotion_result s e n tok t)"
    using assms e by (auto simp: epoch_ok_def promotion_result_def next_epoch_def ce_ok_def due_def
        HEARTBEAT_TIMEOUT_SECONDS_def)
  ultimately show ?thesis
    using ep by (auto simp: good_succ_def lease_rank_def promotion_result_def next_epoch_def)
qed

text \<open>Both ways a promotion call can end.\<close>

lemma fo_promote_cases:
  assumes "fo_inv fo"
  obtains (kept) r where "fo_promote_if_due store fo now tok = (fo, r)" "r \<noteq> Inr True"
  | (promoted) e n a t where "num_value now = Some t" "due (fo_state fo) e t" "tok \<noteq> []"
      "seek n (assignments (fo_state fo)) = Some a" "active_with SUBCOORDINATOR a" "\<not> ra_paused a"
      "fo_promote_if_due store fo now tok = (fo\<lparr>fo_state := promotion_result (fo_state fo) e n tok t\<rparr>, Inr True)"
      "store (promotion_result (fo_state fo) e n tok t) = None"
proof (cases "promote_subcoordinator (fo_state fo) now (PBool True) tok")
  case (Inl x)
  then show ?thesis using kept by (simp add: fo_promote_if_due_def)
next
  case (Inr d)
  let ?s = "fo_state fo"
  have i: "rs_inv ?s" "rs_ok ?s" "epoch_ok ?s" using assms by (auto simp: fo_inv_def rs_inv_def)
  from promote_only_if [OF i(2) Inr] obtain t e n a where h: "num_value now = Some t" "due ?s e t"
    "tok \<noteq> []" "seek n (assignments ?s) = Some a" "active_with SUBCOORDINATOR a" "\<not> ra_paused a" by blast
  have e: "ce_ok e" using h(2) i(3) by (auto simp: due_def epoch_ok_def)
  let ?r = "promotion_result ?s e n tok t"
  have ri: "rs_post_init ?r = Inr ?r"
    using promotion_result_good [OF i(1,3) h(2,3), of n] by (simp add: good_succ_def rs_inv_def rs_ok_def)
  have eq: "fo_promote_if_due store fo now tok = fo_finish store fo ?r True"
    using promote_eq [OF i(2) h(1,2) e h(3-6)] ri
    by (simp add: fo_promote_if_due_def promotion_result_def next_epoch_def Let_def)
  show ?thesis
  proof (cases "store ?r")
    case None
    then show ?thesis using promoted [OF h] eq by (simp add: fo_finish_def fo_commit_def)
  next
    case (Some x)
    then show ?thesis using kept eq by (simp add: fo_finish_def fo_commit_def)
  qed
qed

lemma fo_heartbeat_cases:
  assumes "fo_inv fo"
  obtains (kept) r where "fo_heartbeat store fo c tok now = (fo, r)" "r \<noteq> Inr True"
  | (renewed) e t where "epoch (fo_state fo) = Some e" "num_value now = Some t" "t < ce_lease e"
      "ce_coordinator e = c" "tok = PStr (ce_token e)"
      "fo_heartbeat store fo c tok now = (fo\<lparr>fo_state := (fo_state fo)\<lparr>epoch := Some (e\<lparr>
         ce_issued := max (ce_issued e) t, ce_lease := max (ce_lease e) (t + HEARTBEAT_TIMEOUT_SECONDS)\<rparr>)\<rparr>\<rparr>, Inr True)"
      "store ((fo_state fo)\<lparr>epoch := Some (e\<lparr>ce_issued := max (ce_issued e) t,
         ce_lease := max (ce_lease e) (t + HEARTBEAT_TIMEOUT_SECONDS)\<rparr>)\<rparr>) = None"
      "good_succ (fo_state fo) ((fo_state fo)\<lparr>epoch := Some (e\<lparr>ce_issued := max (ce_issued e) t,
         ce_lease := max (ce_lease e) (t + HEARTBEAT_TIMEOUT_SECONDS)\<rparr>)\<rparr>)"
proof (cases "epoch (fo_state fo)")
  case None
  then show ?thesis using kept by (simp add: fo_heartbeat_def)
next
  case (Some e)
  let ?d = "PFloat (Fin HEARTBEAT_TIMEOUT_SECONDS)"
  show ?thesis
  proof (cases "renew_lease e c tok now ?d")
    case (Inl x)
    then show ?thesis using kept Some by (simp add: fo_heartbeat_def)
  next
    case (Inr e')
    from renew_lease_Inr [OF Inr] obtain t where t: "ce_coordinator e = c" "tok = PStr (ce_token e)"
      "num_value now = Some t" "t < ce_lease e"
      and e': "e' = e\<lparr>ce_issued := max (ce_issued e) t, ce_lease := max (ce_lease e) (t + HEARTBEAT_TIMEOUT_SECONDS)\<rparr>"
      by auto
    have rc: "rs_post_init ((fo_state fo)\<lparr>epoch := Some e'\<rparr>) = Inr ((fo_state fo)\<lparr>epoch := Some e'\<rparr>)
        \<and> good_succ (fo_state fo) ((fo_state fo)\<lparr>epoch := Some e'\<rparr>)"
      using assms by (intro renew_candidate [OF _ _ Some Inr]) (auto simp: fo_inv_def)
    then have eq: "fo_heartbeat store fo c tok now = fo_finish store fo ((fo_state fo)\<lparr>epoch := Some e'\<rparr>) True"
      using Some Inr by (simp add: fo_heartbeat_def)
    show ?thesis
    proof (cases "store ((fo_state fo)\<lparr>epoch := Some e'\<rparr>)")
      case None
      show ?thesis
        by (rule renewed [OF Some t(3,4,1,2)])
          (use eq None rc in \<open>simp_all add: fo_finish_def fo_commit_def flip: e'\<close>)
    next
      case (Some x)
      then show ?thesis using kept eq by (simp add: fo_finish_def fo_commit_def)
    qed
  qed
qed

lemma fo_commit_fst: "fst (fo_commit store fo c) = fo \<or> fst (fo_commit store fo c) = fo\<lparr>fo_state := c\<rparr> \<and> store c = None"
  by (auto simp: fo_commit_def split: option.splits)

lemma fo_finish_fst: "fst (fo_finish store fo c a) = fst (fo_commit store fo c)"
  by (simp add: fo_finish_def split: prod.splits)

text \<open>Every step either leaves the published state or publishes a good successor that storage accepted.\<close>

lemma fo_step_cases:
  assumes "fo_inv fo"
  shows "fo_step fo x = fo
    \<or> good_succ (fo_state fo) (fo_state (fo_step fo x)) \<and> fst x (fo_state (fo_step fo x)) = None"
proof -
  obtain store opn where [simp]: "x = (store, opn)" by (cases x)
  let ?s = "fo_state fo"
  have i: "rs_inv ?s" "epoch_ok ?s" using assms(1) by (auto simp: fo_inv_def)
  have pub: "fst (fo_commit store fo c) = fo \<or> good_succ ?s (fo_state (fst (fo_commit store fo c)))
      \<and> store (fo_state (fst (fo_commit store fo c))) = None" if "good_succ ?s c" for c
    using fo_commit_fst [of store fo c] that by auto
  show ?thesis
  proof (cases opn)
    case (Heartbeat c tok now)
    then show ?thesis
      by (cases rule: fo_heartbeat_cases [OF assms(1), of store c tok now]) auto
  next
    case (PromoteIfDue now tok)
    then show ?thesis
      using promotion_result_good [OF i]
      by (cases rule: fo_promote_cases [OF assms(1), of store now tok]) auto
  next
    case (FoRejoin n e)
    have "good_succ ?s c" if "rejoin_as_worker ?s n e = Inr c" for c
      using rejoin_as_worker_inv [OF i(1), of n e] rejoin_epoch [OF that] that i
      by (auto intro: good_succ_same_epoch)
    with FoRejoin pub show ?thesis by (auto simp: fo_rejoin_def split: sum.splits)
  next
    case (FoAssign actor t roles now)
    have "good_succ ?s c" if "role_assign ?s actor t roles now = Inr (c, ch)" for c ch
      using role_assign_inv [OF i(1) that] role_assign_epoch [OF that] i by (auto intro: good_succ_same_epoch)
    with FoAssign pub show ?thesis by (auto simp: fo_assign_role_def fo_finish_fst split: sum.splits)
  next
    case (FoRevoke actor t)
    have "good_succ ?s c" if "role_revoke ?s actor t = Inr c" for c
      using safe_result_Inr [OF role_revoke_safe [OF i(1)] that] role_revoke_epoch [OF that] i
      by (auto intro: good_succ_same_epoch)
    with FoRevoke pub show ?thesis by (auto simp: fo_revoke_member_def split: sum.splits)
  qed
qed

interpretation fo_runs: monotone_system fo_step fo_inv "\<lambda>fo. lease_rank (fo_state fo)"
proof unfold_locales
  fix fo x assume i: "fo_inv fo"
  from fo_step_cases [OF i, of x] i show "fo_inv (fo_step fo x)"
    by (auto simp: good_succ_def fo_inv_def)
  from fo_step_cases [OF i, of x] show "lease_rank (fo_state fo) \<le> lease_rank (fo_state (fo_step fo x))"
    by (auto simp: good_succ_def)
qed

section \<open>Properties\<close>

text \<open>
  C11. Along every sequence of heartbeats, promotions, rejoins, assignments and revocations, whatever storage
  answers, the published role state stays well formed and the pair (epoch number, lease expiry) never
  goes back lexicographically: a lease is never shortened and a superseded epoch never returns.
\<close>

theorem failover_run_monotone:
  assumes "fo_inv fo"
  shows "fo_inv (foldl fo_step fo ops)
    \<and> lease_rank (fo_state fo) \<le> lease_rank (fo_state (foldl fo_step fo ops))"
  using fo_runs.run_inv [OF assms] fo_runs.run_mono [OF assms] by blast

definition demo_fo :: failover_coordinator where
  "demo_fo = \<lparr>fo_state = demo_state\<rparr>"

lemma demo_fo_inv: "fo_inv demo_fo"
  using demo_state_inv by (auto simp: fo_inv_def demo_fo_def epoch_ok_def ce_ok_def demo_state_def demo_epoch_def)

theorem failover_run_monotone_witness:
  "fo_inv (foldl fo_step demo_fo [(\<lambda>_. None, PromoteIfDue (PInt 130) ''t1'')])
   \<and> lease_rank (fo_state demo_fo) \<le> lease_rank (fo_state (foldl fo_step demo_fo [(\<lambda>_. None, PromoteIfDue (PInt 130) ''t1'')]))"
  by (rule failover_run_monotone [OF demo_fo_inv])

text \<open>
  Storage comes before publication in every operation: a step either leaves the published state as
  it was, or the state it publishes is one that storage accepted in that step. So after a storage
  failure, whatever it raises, the old state is still the published one.
\<close>

theorem failover_store_first:
  assumes "fo_inv fo"
  shows "fo_step fo (store, x) = fo \<or> store (fo_state (fo_step fo (store, x))) = None"
  using fo_step_cases [OF assms, of "(store, x)"] by auto

theorem failover_store_first_witness:
  "fo_step demo_fo (\<lambda>_. Some (Exn OSError ''disk''), PromoteIfDue (PInt 130) ''t1'') = demo_fo"
  using failover_store_first [OF demo_fo_inv, of "\<lambda>_. Some (Exn OSError ''disk'')" "PromoteIfDue (PInt 130) ''t1''"]
  by simp

text \<open>
  The lease boundary belongs to one side only: at one time reading, no state accepts both a heartbeat
  (by whoever, with whatever token) and a promotion.
\<close>

theorem renew_xor_promote:
  assumes "fo_inv fo" "snd (fo_heartbeat store fo c tok now) = Inr True"
  shows "snd (fo_promote_if_due store' fo now tok') \<noteq> Inr True"
proof (cases rule: fo_heartbeat_cases [OF assms(1), of store c tok now, case_names kept renewed])
  case (renewed e t)
  then show ?thesis
    by (cases rule: fo_promote_cases [OF assms(1), of store' now tok']) (auto simp: due_def)
qed (use assms(2) in auto)

lemma demo_heartbeat:
  "snd (fo_heartbeat (\<lambda>_. None) demo_fo (NodeId ''a'') (PStr ''t0'') (PInt 100)) = Inr True"
  by (simp add: fo_heartbeat_def demo_fo_def demo_defs renew_lease_def compare_digest_def is_ascii_def valid_time_def
      mk_epoch_def float_limit_def HEARTBEAT_TIMEOUT_SECONDS_def role_eval fo_finish_def fo_commit_def)

theorem renew_xor_promote_witness:
  "snd (fo_promote_if_due (\<lambda>_. None) demo_fo (PInt 100) ''t1'') \<noteq> Inr True"
  by (rule renew_xor_promote [OF demo_fo_inv demo_heartbeat])

text \<open>
  C22. A successful promotion hands the cluster over completely: the epoch number grows by one; the new
  holder was an active unpaused Subcoordinator and is now the only active Coordinator; no delegated
  capability survives; nobody else passes the control check; a heartbeat by another node or with
  another token is refused; and no second promotion succeeds before the new lease ends.
\<close>

theorem promotion_hands_over:
  assumes "fo_inv fo" "fo_promote_if_due store fo now tok = (fo', Inr True)"
  shows "\<exists>e n a t. epoch (fo_state fo) = Some e \<and> num_value now = Some t \<and> ce_lease e \<le> t
    \<and> assignment_for (fo_state fo) n = Some a \<and> active_with SUBCOORDINATOR a \<and> \<not> ra_paused a
    \<and> epoch (fo_state fo') = Some \<lparr>ce_epoch = ce_epoch e + 1, ce_coordinator = n, ce_token = tok, ce_issued = t,
         ce_lease = t + 120\<rparr>
    \<and> (\<forall>m. (\<exists>c. assignment_for (fo_state fo') m = Some c \<and> active_with COORDINATOR c) \<longleftrightarrow> m = n)
    \<and> capability_grants (fo_state fo') = []
    \<and> (\<forall>actor. ra_node_id actor \<noteq> Some n \<longrightarrow> (\<exists>x. role_control (fo_state fo') actor = Inl x))
    \<and> (\<forall>store' c tk u. c \<noteq> n \<or> tk \<noteq> PStr tok \<longrightarrow> snd (fo_heartbeat store' fo' c tk u) \<noteq> Inr True)
    \<and> (\<forall>store' u \<tau> tk. num_value u = Some \<tau> \<longrightarrow> \<tau> < t + 120 \<longrightarrow> snd (fo_promote_if_due store' fo' u tk) \<noteq> Inr True)"
proof -
  let ?s = "fo_state fo"
  have i: "rs_inv ?s" "epoch_ok ?s" "rs_ok ?s" using assms(1) by (auto simp: fo_inv_def rs_inv_def)
  from assms(2) obtain e n a t where h: "num_value now = Some t" "due ?s e t" "tok \<noteq> []"
      "seek n (assignments ?s) = Some a" "active_with SUBCOORDINATOR a" "\<not> ra_paused a"
      and fo': "fo' = fo\<lparr>fo_state := promotion_result ?s e n tok t\<rparr>"
    by (cases rule: fo_promote_cases [OF assms(1), of store now tok]) auto
  have g: "fo_inv fo'" using promotion_result_good [OF i(1,2) h(2,3), of n] fo' by (simp add: good_succ_def fo_inv_def)
  have ok': "rs_ok (fo_state fo')" using g by (simp add: fo_inv_def rs_inv_def)
  have s': "assignments (fo_state fo') = after_promotion n (assignments ?s)" "capability_grants (fo_state fo') = []"
    "epoch (fo_state fo') = Some (next_epoch e n tok t)"
    by (simp_all add: fo' promotion_result_def)
  have only: "(\<exists>c. assignment_for (fo_state fo') m = Some c \<and> active_with COORDINATOR c) \<longleftrightarrow> m = n" for m
    using h(4) by (auto simp: assignment_for_seek [OF ok'] s' seek_after_promotion active_with_def split: if_splits)
  have ctl: "\<exists>x. role_control (fo_state fo') actor = Inl x" if "ra_node_id actor \<noteq> Some n" for actor
  proof (cases "role_control (fo_state fo') actor")
    case (Inr m)
    then have "ra_node_id actor = Some m" "\<forall>e'. epoch (fo_state fo') = Some e' \<longrightarrow> ce_coordinator e' = m"
      unfolding role_control_Inr [OF ok'] by blast+
    with that s'(3) show ?thesis by (simp add: next_epoch_def)
  qed simp
  have hb: "snd (fo_heartbeat store' fo' c tk u) \<noteq> Inr True" if "c \<noteq> n \<or> tk \<noteq> PStr tok" for store' c tk u
    using that s' by (cases rule: fo_heartbeat_cases [OF g, of store' c tk u]) (auto simp: next_epoch_def)
  have pr: "snd (fo_promote_if_due store' fo' u tk) \<noteq> Inr True" if "num_value u = Some \<tau>" "\<tau> < t + 120" for store' u \<tau> tk
    using that s' by (cases rule: fo_promote_cases [OF g, of store' u tk])
      (auto simp: next_epoch_def due_def HEARTBEAT_TIMEOUT_SECONDS_def)
  have old: "epoch ?s = Some e" "ce_lease e \<le> t" using h(2) by (auto simp: due_def)
  have new: "epoch (fo_state fo') = Some \<lparr>ce_epoch = ce_epoch e + 1, ce_coordinator = n, ce_token = tok,
      ce_issued = t, ce_lease = t + 120\<rparr>"
    using s'(3) by (simp add: next_epoch_def HEARTBEAT_TIMEOUT_SECONDS_def)
  have sub: "assignment_for ?s n = Some a" using h(4) by (simp add: assignment_for_seek [OF i(3)])
  show ?thesis
    by (rule exI [of _ e], rule exI [of _ n], rule exI [of _ a], rule exI [of _ t],
        intro conjI allI impI, (rule old h(1) sub h(5,6) new only s'(2))+)
      (erule ctl, erule hb, erule pr)
qed

text \<open>
  Failover is live: when the lease has run out, an active unpaused Subcoordinator exists and storage
  accepts the result, the promotion succeeds with that node as the holder, and the new holder can renew
  with its token for as long as the new lease runs.
\<close>

theorem promotion_live:
  assumes "fo_inv fo" "epoch (fo_state fo) = Some e" "num_value now = Some t" "ce_lease e \<le> t"
    and "assignment_for (fo_state fo) n = Some a" "active_with SUBCOORDINATOR a" "\<not> ra_paused a"
    and "tok \<noteq> []" "is_ascii tok" "num_value now' = Some t'" "t' < t + 120"
  shows "\<exists>fo'. fo_promote_if_due (\<lambda>_. None) fo now tok = (fo', Inr True)
    \<and> snd (fo_heartbeat (\<lambda>_. None) fo' n (PStr tok) now') = Inr True"
proof -
  let ?s = "fo_state fo"
  have i: "rs_inv ?s" "epoch_ok ?s" "rs_ok ?s" using assms(1) by (auto simp: fo_inv_def rs_inv_def)
  have d: "due ?s e t" and e: "ce_ok e" using assms(2,4) i(2) by (auto simp: due_def epoch_ok_def)
  let ?r = "promotion_result ?s e n tok t"
  have g: "good_succ ?s ?r" by (rule promotion_result_good [OF i(1,2) d assms(8)])
  then have ri: "rs_post_init ?r = Inr ?r" "rs_inv ?r" "epoch_ok ?r" by (auto simp: good_succ_def rs_inv_def rs_ok_def)
  have p: "fo_promote_if_due (\<lambda>_. None) fo now tok = (fo\<lparr>fo_state := ?r\<rparr>, Inr True)"
    using promote_eq [OF i(3) assms(3) d e assms(8), of n a] assms(5-7) ri
    by (simp add: fo_promote_if_due_def promotion_result_def next_epoch_def Let_def assignment_for_seek [OF i(3)]
        fo_finish_def fo_commit_def)
  let ?e' = "next_epoch e n tok t"
  have "\<exists>e''. renew_lease ?e' n (PStr tok) now' (PFloat (Fin HEARTBEAT_TIMEOUT_SECONDS)) = Inr e''"
    using assms(8-11) e
    by (auto simp: renew_lease_def next_epoch_def compare_digest_def valid_time_def HEARTBEAT_TIMEOUT_SECONDS_def
        ce_ok_def mk_epoch_def)
  then obtain e'' where r: "renew_lease ?e' n (PStr tok) now' (PFloat (Fin HEARTBEAT_TIMEOUT_SECONDS)) = Inr e''" ..
  have er: "epoch ?r = Some ?e'" by (simp add: promotion_result_def)
  have "snd (fo_heartbeat (\<lambda>_. None) (fo\<lparr>fo_state := ?r\<rparr>) n (PStr tok) now') = Inr True"
    using renew_candidate [OF ri(2,3) er r] er r by (simp add: fo_heartbeat_def fo_finish_def fo_commit_def)
  with p show ?thesis by blast
qed

theorem promotion_live_witness:
  "\<exists>fo'. fo_promote_if_due (\<lambda>_. None) demo_fo (PInt 130) ''t1'' = (fo', Inr True)
    \<and> snd (fo_heartbeat (\<lambda>_. None) fo' (NodeId ''b'') (PStr ''t1'') (PInt 249)) = Inr True"
  by (rule promotion_live [OF demo_fo_inv, of demo_epoch _ 130 _ "demo_member ''b'' {SUBCOORDINATOR}" _ _ 249])
    (simp_all add: demo_fo_def demo_defs float_limit_def is_ascii_def role_eval)

lemma demo_promotion: "\<exists>fo'. fo_promote_if_due (\<lambda>_. None) demo_fo (PInt 130) ''t1'' = (fo', Inr True)"
  by (simp add: fo_promote_if_due_def promote_subcoordinator_def demo_fo_def demo_defs find_standby_def can_promote_def
      valid_time_def mk_epoch_def float_limit_def HEARTBEAT_TIMEOUT_SECONDS_def role_eval fo_finish_def fo_commit_def)

theorem promotion_hands_over_witness:
  "\<exists>fo'. fo_promote_if_due (\<lambda>_. None) demo_fo (PInt 130) ''t1'' = (fo', Inr True)
     \<and> capability_grants (fo_state fo') = []"
  using demo_promotion promotion_hands_over [OF demo_fo_inv] by blast

end
