(* ===== verification/RoleCodec.thy ===== *)
theory RoleCodec
  imports Failover
begin

text \<open>
  \<open>cluster/state.py\<close>: the strict document form of the role state. A document is a \<open>pyval\<close>; every
  malformed field is one raise of the source. The round trip says what survives a save and a load: all
  of the state but the running-job flags, which the loader resets, and the entries without a node id,
  which the writer drops.
\<close>

section \<open>Documents\<close>

definition pdict :: "(string \<times> pyval) list \<Rightarrow> pyval" where
  "pdict kvs = PDict (map (\<lambda>(k, v). (KStr k, v)) kvs)"

lemma map_of_pdict [simp]: "map_of (map (\<lambda>(k, v). (KStr k, v)) kvs) (KStr k) = map_of kvs k"
  by (induction kvs) auto

lemma pdict_simps [simp]:
  "is_dict (pdict kvs)"
  "fget (pdict kvs) k = (case map_of kvs k of None \<Rightarrow> PNone | Some v \<Rightarrow> v)"
  "fget_or (pdict kvs) k d = (case map_of kvs k of None \<Rightarrow> d | Some v \<Rightarrow> v)"
  "fitem (pdict kvs) k = (case map_of kvs k of None \<Rightarrow> raise KeyError k | Some v \<Rightarrow> Inr v)"
  "has_key (pdict kvs) k = (map_of kvs k \<noteq> None)"
  "pdict kvs \<noteq> PNone" "\<not> is_int (pdict kvs)"
  by (simp_all add: pdict_def doc_simps)

section \<open>Writing\<close>

definition role_names :: "cluster_role set \<Rightarrow> string list" where
  "role_names roles =
     (if card roles = 1 then [the_elem (role_value ` roles)] else sorted_list_of_set (role_value ` roles))"

definition permission_names :: "node_permission set \<Rightarrow> string list" where
  "permission_names ps =
     (if card ps = 1 then [the_elem (permission_value ` ps)] else sorted_list_of_set (permission_value ` ps))"

definition ra_to_dict :: "bool \<Rightarrow> role_assignment \<Rightarrow> pyval" where
  "ra_to_dict include_legacy_role a =
     (let roles = role_names (ra_roles a) in
      pdict ([(''node_id'', PStr (nid_value (the (ra_node_id a)))), (''roles'', PList (map PStr roles)),
              (''paused'', PBool (ra_paused a)), (''revoked'', PBool (ra_revoked a)),
              (''has_active_job'', PBool (ra_job a))]
             @ (if include_legacy_role then [(''role'', PStr (hd roles))] else [])))"

definition epoch_to_dict :: "coordinator_epoch \<Rightarrow> pyval" where
  "epoch_to_dict e = pdict
     [(''epoch'', PInt (ce_epoch e)), (''coordinator_id'', PStr (nid_value (ce_coordinator e))),
      (''fencing_token'', PStr (ce_token e)), (''issued_at'', PFloat (Fin (ce_issued e))),
      (''lease_expires_at'', PFloat (Fin (ce_lease e)))]"

definition grant_to_dict :: "capability_grant \<Rightarrow> pyval" where
  "grant_to_dict g = pdict
     [(''subject'', PStr (nid_value (cg_subject g))), (''target'', PStr (nid_value (cg_target g))),
      (''permissions'', PList (map PStr (permission_names (cg_permissions g)))),
      (''issued_at'', PFloat (Fin (cg_issued g))), (''expires_at'', PFloat (Fin (cg_expires g)))]"

definition role_state_items :: "role_state \<Rightarrow> bool \<Rightarrow> (string \<times> pyval) list" where
  "role_state_items s include_legacy_role =
     [(''assignments'', PList (map (ra_to_dict include_legacy_role) (filter bound (assignments s)))),
      (''epoch'', case epoch s of None \<Rightarrow> PNone | Some e \<Rightarrow> epoch_to_dict e),
      (''promotion_epochs'', PList (map PInt (sorted_list_of_set (promotion_epochs s)))),
      (''capability_grants'', PList (map grant_to_dict (capability_grants s)))]"

definition role_state_to_dict :: "role_state \<Rightarrow> bool \<Rightarrow> pyval" where
  "role_state_to_dict s include_legacy_role = pdict (role_state_items s include_legacy_role)"

section \<open>Reading\<close>

definition mk_role :: "string \<Rightarrow> cluster_role res" where
  "mk_role s = (case find (\<lambda>r. role_value r = s) [WORKER, COORDINATOR, SUBCOORDINATOR] of
     None \<Rightarrow> raise ValueError ''not a valid ClusterRole'' | Some r \<Rightarrow> Inr r)"

definition finite_number :: "pyval \<Rightarrow> string \<Rightarrow> rat res" where
  "finite_number v field =
     (if \<not> is_number v then raise ValueError (field @ '' is malformed'')
      else rbind (py_float v) (\<lambda>f. case f of
             Fin r \<Rightarrow> Inr r
           | _ \<Rightarrow> raise ValueError (field @ '' is malformed'')))"

definition bool_field :: "pyval \<Rightarrow> string \<Rightarrow> unit res" where
  "bool_field raw k = ensure (has_key raw k \<longrightarrow> is_bool (fget raw k)) ValueError ''role assignment boolean is malformed''"

definition ra_from_dict :: "pyval \<Rightarrow> role_assignment res" where
  "ra_from_dict raw =
     (if \<not> is_dict raw then raise TypeError ''role assignment is malformed''
      else let roles0 = fget raw ''roles'';
               roles = (if roles0 = PNone \<and> is_str (fget raw ''role'') then PList [fget raw ''role''] else roles0)
      in if \<not> is_str (fget raw ''node_id'') \<or> \<not> is_list roles \<or> \<not> list_all is_str (list_of roles)
      then raise ValueError ''role assignment is malformed''
      else rbind (bool_field raw ''paused'') (\<lambda>_. rbind (bool_field raw ''revoked'') (\<lambda>_.
           rbind (bool_field raw ''has_active_job'') (\<lambda>_.
           rbind (rmap (\<lambda>v. mk_role (str_of v)) (list_of roles)) (\<lambda>rs.
           rbind (mk_node_id (str_of (fget raw ''node_id''))) (\<lambda>n.
           mk_assignment (set rs) (Some n) (bool_of (fget_or raw ''paused'' (PBool False)))
             (bool_of (fget_or raw ''revoked'' (PBool False))) False))))))"

definition epoch_from_dict :: "pyval \<Rightarrow> coordinator_epoch option res" where
  "epoch_from_dict raw =
     (if raw = PNone then Inr None
      else if \<not> is_dict raw \<or> \<not> is_int (fget raw ''epoch'') \<or> int_of (fget raw ''epoch'') < 0
      then raise ValueError ''epoch is malformed''
      else if \<not> is_str (fget raw ''coordinator_id'') \<or> \<not> is_str (fget raw ''fencing_token'')
              \<or> str_of (fget raw ''fencing_token'') = []
      then raise ValueError ''epoch is malformed''
      else rbind (mk_node_id (str_of (fget raw ''coordinator_id''))) (\<lambda>c.
           rbind (finite_number (fget raw ''issued_at'') ''epoch issued_at'') (\<lambda>i.
           rbind (finite_number (fget raw ''lease_expires_at'') ''epoch lease_expires_at'') (\<lambda>l.
           rbind (mk_epoch (int_of (fget raw ''epoch'')) c (str_of (fget raw ''fencing_token'')) (Fin i) (Fin l))
             (\<lambda>e. Inr (Some e))))))"

definition grant_from_dict :: "pyval \<Rightarrow> capability_grant res" where
  "grant_from_dict raw =
     (if \<not> is_dict raw \<or> \<not> is_str (fget raw ''subject'') \<or> \<not> is_str (fget raw ''target'')
         \<or> \<not> is_list (fget raw ''permissions'') \<or> \<not> list_all is_str (list_of (fget raw ''permissions''))
      then raise ValueError ''capability grant is malformed''
      else rbind (mk_node_id (str_of (fget raw ''subject''))) (\<lambda>a.
           rbind (mk_node_id (str_of (fget raw ''target''))) (\<lambda>b.
           rbind (rmap (\<lambda>v. mk_permission (str_of v)) (list_of (fget raw ''permissions''))) (\<lambda>ps.
           rbind (finite_number (fget raw ''issued_at'') ''grant issued_at'') (\<lambda>i.
           rbind (finite_number (fget raw ''expires_at'') ''grant expires_at'') (\<lambda>x.
           mk_grant a b (set ps) (Fin i) (Fin x)))))))"

definition role_state_from_dict :: "pyval \<Rightarrow> role_state res" where
  "role_state_from_dict v =
     (if \<not> is_dict v \<or> \<not> is_list (fget_or v ''assignments'' (PList []))
      then raise TypeError ''role state is malformed''
      else rbind (fitem v ''assignments'') (\<lambda>raw.
           rbind (rmap ra_from_dict (list_of raw)) (\<lambda>as.
           rbind (epoch_from_dict (fget v ''epoch'')) (\<lambda>e.
           let promos = fget_or v ''promotion_epochs'' (PList []);
               grants = fget_or v ''capability_grants'' (PList [])
           in if \<not> is_list promos \<or> \<not> list_all (\<lambda>i. is_int i \<and> 0 \<le> int_of i) (list_of promos)
           then raise ValueError ''promotion epochs are malformed''
           else if \<not> is_list grants then raise TypeError ''capability grants are malformed''
           else rbind (rmap grant_from_dict (list_of grants)) (\<lambda>gs.
                rs_post_init \<lparr>assignments = as, epoch = e, promotion_epochs = set (map int_of (list_of promos)),
                  capability_grants = gs\<rparr>)))))"

section \<open>Round trips\<close>

lemma finite_cluster_role [simp]: "finite (r :: cluster_role set)"
proof -
  have "(UNIV :: cluster_role set) = {WORKER, COORDINATOR, SUBCOORDINATOR}"
    using cluster_role.exhaust by auto
  then show ?thesis by (metis finite.emptyI finite.insertI finite_subset top_greatest)
qed

lemma finite_permission [simp]: "finite (r :: node_permission set)"
proof -
  have "(UNIV :: node_permission set) = set all_permissions"
    using node_permission.exhaust by (auto simp: all_permissions_def)
  then show ?thesis by (metis List.finite_set finite_subset top_greatest)
qed

lemma single_or_sorted:
  "finite A \<Longrightarrow> set (if card A = 1 then [the_elem (f ` A)] else sorted_list_of_set (f ` A)) = f ` A"
  by (auto simp: card_1_singleton_iff)

lemma set_role_names [simp]: "set (role_names r) = role_value ` r"
  unfolding role_names_def by (rule single_or_sorted) simp

lemma set_permission_names [simp]: "set (permission_names r) = permission_value ` r"
  unfolding permission_names_def by (rule single_or_sorted) simp

lemma mk_role_value [simp]: "mk_role (role_value r) = Inr r"
  by (cases r) (simp_all add: mk_role_def)

text \<open>Reading back the names of a set of enum members.\<close>

lemma rmap_names:
  assumes "set ns = f ` A" "\<And>x. g (f x) = Inr x"
  shows "\<exists>xs. rmap (\<lambda>v. g (str_of v)) (map PStr ns) = Inr xs \<and> set xs = A"
proof -
  let ?inv = "\<lambda>v. case g (str_of v) of Inr x \<Rightarrow> x | Inl _ \<Rightarrow> undefined"
  have "rmap (\<lambda>v. g (str_of v)) (map PStr ns) = Inr (map ?inv (map PStr ns))"
    using assms by (intro rmap_id) auto
  moreover have "set (map ?inv (map PStr ns)) = A"
    using assms by (auto simp: image_image)
  ultimately show ?thesis by blast
qed

lemma finite_number_float [simp]: "finite_number (PFloat (Fin r)) f = Inr r"
  by (simp add: finite_number_def)

lemma ra_roundtrip:
  assumes "ra_ok a" "ra_node_id a = Some n" "nid_ok n"
  shows "ra_from_dict (ra_to_dict legacy a) = Inr (a\<lparr>ra_job := False\<rparr>)"
proof -
  obtain rs where rs: "rmap (\<lambda>v. mk_role (str_of v)) (map PStr (role_names (ra_roles a))) = Inr rs"
    "set rs = ra_roles a"
    using rmap_names [of "role_names (ra_roles a)" role_value "ra_roles a" mk_role] by auto
  have "\<lparr>ra_roles = ra_roles a, ra_node_id = Some n, ra_paused = ra_paused a, ra_revoked = ra_revoked a,
      ra_job = False\<rparr> = a\<lparr>ra_job := False\<rparr>"
    using assms by (cases a) simp
  then have "mk_assignment (ra_roles a) (Some n) (ra_paused a) (ra_revoked a) False = Inr (a\<lparr>ra_job := False\<rparr>)"
    unfolding mk_assignment_def using assms(1) by simp
  with rs assms show ?thesis
    by (simp add: ra_from_dict_def ra_to_dict_def Let_def bool_field_def list_all_iff)
qed

lemma epoch_roundtrip:
  assumes "ce_ok e" "nid_ok (ce_coordinator e)"
  shows "epoch_from_dict (epoch_to_dict e) = Inr (Some e)"
proof -
  have "mk_epoch (ce_epoch e) (ce_coordinator e) (ce_token e) (Fin (ce_issued e)) (Fin (ce_lease e)) = Inr e"
    using assms by (cases e) (simp add: mk_epoch_Inr ce_ok_def)
  with assms show ?thesis
    by (simp add: epoch_from_dict_def epoch_to_dict_def ce_ok_def)
qed

definition cg_ok :: "capability_grant \<Rightarrow> bool" where
  "cg_ok g \<longleftrightarrow> nid_ok (cg_subject g) \<and> nid_ok (cg_target g) \<and> cg_permissions g \<noteq> {} \<and> cg_issued g < cg_expires g"

lemma grant_roundtrip: "cg_ok g \<Longrightarrow> grant_from_dict (grant_to_dict g) = Inr g"
proof -
  assume g: "cg_ok g"
  obtain ps where ps: "rmap (\<lambda>v. mk_permission (str_of v)) (map PStr (permission_names (cg_permissions g))) = Inr ps"
    "set ps = cg_permissions g"
    using rmap_names [of "permission_names (cg_permissions g)" permission_value "cg_permissions g" mk_permission]
    by auto
  have "mk_grant (cg_subject g) (cg_target g) (cg_permissions g) (Fin (cg_issued g)) (Fin (cg_expires g)) = Inr g"
    using g by (cases g) (simp add: mk_grant_Inr cg_ok_def)
  with ps g show ?thesis
    by (simp add: grant_from_dict_def grant_to_dict_def cg_ok_def list_all_iff)
qed

text \<open>What is kept: the bound assignments with the job flag cleared.\<close>

definition stored_form :: "role_state \<Rightarrow> role_state" where
  "stored_form s = s\<lparr>assignments := map (\<lambda>a. a\<lparr>ra_job := False\<rparr>) (filter bound (assignments s))\<rparr>"

definition storable :: "role_state \<Rightarrow> bool" where
  "storable s \<longleftrightarrow> rs_ok s \<and> finite (promotion_epochs s)
     \<and> (\<forall>a \<in> set (assignments s). \<forall>n. ra_node_id a = Some n \<longrightarrow> nid_ok n)
     \<and> (\<forall>e. epoch s = Some e \<longrightarrow> ce_ok e \<and> nid_ok (ce_coordinator e))
     \<and> (\<forall>g \<in> set (capability_grants s). cg_ok g)"

lemma stored_form_ok:
  assumes "rs_ok s"
  shows "rs_ok (stored_form s)"
proof -
  let ?c = "\<lambda>a :: role_assignment. a\<lparr>ra_job := False\<rparr>"
  have b: "filter bound (map ?c (filter bound as)) = map ?c (filter bound as)" for as :: "role_assignment list"
    by (induction as) auto
  have "filter (active_with r) (map ?c xs) = map ?c (filter (active_with r) xs)" for r xs
    by (induction xs) (auto simp: active_with_def)
  with assms show ?thesis
    by (auto simp: rs_ok_iff stored_form_def ids_distinct_def one_active_def b comp_def)
qed

lemma role_state_roundtrip:
  assumes "storable s"
  shows "role_state_from_dict (pdict (role_state_items s legacy @ rest)) = Inr (stored_form s)"
proof -
  have as: "rmap (\<lambda>a. ra_from_dict (ra_to_dict legacy a)) (filter bound (assignments s))
      = Inr (map (\<lambda>a. a\<lparr>ra_job := False\<rparr>) (filter bound (assignments s)))"
    using assms by (intro rmap_id) (auto simp: storable_def rs_ok_iff intro!: ra_roundtrip)
  have gs: "rmap (\<lambda>g. grant_from_dict (grant_to_dict g)) (capability_grants s) = Inr (map (\<lambda>g. g) (capability_grants s))"
    using assms by (intro rmap_id) (auto simp: storable_def grant_roundtrip)
  have e: "epoch_from_dict (case epoch s of None \<Rightarrow> PNone | Some e \<Rightarrow> epoch_to_dict e) = Inr (epoch s)"
    using assms by (auto simp: storable_def epoch_roundtrip epoch_from_dict_def [of PNone] split: option.splits)
  have p: "set (sorted_list_of_set (promotion_epochs s)) = promotion_epochs s"
    "list_all (\<lambda>i. is_int i \<and> 0 \<le> int_of i) (map PInt (sorted_list_of_set (promotion_epochs s)))"
    using assms by (auto simp: storable_def list_all_iff rs_ok_iff)
  have r: "\<lparr>assignments = map (\<lambda>a. a\<lparr>ra_job := False\<rparr>) (filter bound (assignments s)), epoch = epoch s,
      promotion_epochs = promotion_epochs s, capability_grants = capability_grants s\<rparr> = stored_form s"
    by (simp add: stored_form_def)
  have "rs_post_init (stored_form s) = Inr (stored_form s)"
    using stored_form_ok assms by (simp add: storable_def rs_ok_def)
  then show ?thesis
    using as gs e p r
    by (simp add: role_state_from_dict_def role_state_items_def Let_def rmap_map comp_def)
qed

text \<open>
  The role state survives a save and a load: reading back what \<open>role_state_to_dict\<close> wrote, with or
  without the legacy field, gives the same members with the same roles and marks, the same epoch with
  its lease and token, the same promotion markers and the same grants; only the running-job flags are
  cleared.
\<close>

theorem role_state_save_load:
  assumes "storable s"
  shows "role_state_from_dict (role_state_to_dict s legacy) = Inr (stored_form s)
    \<and> rs_ok (stored_form s) \<and> epoch (stored_form s) = epoch s
    \<and> promotion_epochs (stored_form s) = promotion_epochs s \<and> capability_grants (stored_form s) = capability_grants s
    \<and> assignment_for (stored_form s) n = map_option (\<lambda>a. a\<lparr>ra_job := False\<rparr>) (assignment_for s n)"
proof -
  have ok: "rs_ok s" using assms by (simp add: storable_def)
  have "seek n (map (\<lambda>a. a\<lparr>ra_job := False\<rparr>) (filter bound as)) = map_option (\<lambda>a. a\<lparr>ra_job := False\<rparr>) (seek n as)" for as
    by (induction as) auto
  then show ?thesis
    using role_state_roundtrip [OF assms, of legacy "[]"] stored_form_ok [OF ok]
    by (simp add: role_state_to_dict_def assignment_for_seek [OF ok] assignment_for_seek [OF stored_form_ok [OF ok]])
      (simp add: stored_form_def)
qed

lemma demo_storable: "storable demo_state"
  using demo_state_inv
  by (auto simp: storable_def rs_inv_def demo_defs nid_ok_def ce_ok_def cg_ok_def)

theorem role_state_save_load_witness:
  "role_state_from_dict (role_state_to_dict demo_state True) = Inr (stored_form demo_state)"
  using role_state_save_load [OF demo_storable] by blast

end
