(* ===== verification/ClusterOps.thy ===== *)
theory ClusterOps
  imports RoleCodec
begin

text \<open>
  \<open>cluster/invites.py\<close>, \<open>cluster/operations.py\<close> and \<open>cluster/persistence.py\<close>: one-time invites, the
  persisted cluster aggregate (\<open>ClusterState\<close>) with its strict document form, and the mutable facade
  (\<open>Cluster\<close>) that admits, assigns and revokes members.

  A method that may raise after it has changed the object returns the object beside the result. Clock
  readings, the random tokens and the pairing predicate are arguments. The text layer of an invite
  (JSON and base64) is outside the model: \<open>invite_payload\<close> and \<open>decode_invite_payload\<close> work on the
  document.
\<close>

section \<open>Invites\<close>

record invite_record =
  iv_hash :: string
  iv_target :: string
  iv_expires :: rat
  iv_token :: string
  iv_cluster :: string
  iv_coordinator :: string
  iv_epoch :: int
  iv_fence :: string

definition mk_invite ::
  "string \<Rightarrow> string \<Rightarrow> pyfloat \<Rightarrow> string \<Rightarrow> string \<Rightarrow> string \<Rightarrow> int \<Rightarrow> string \<Rightarrow> invite_record res" where
  "mk_invite h target expires token cid coord ep fence =
     (case expires of
        Fin x \<Rightarrow>
          if h = [] then raise ValueError ''invalid invite''
          else Inr \<lparr>iv_hash = h, iv_target = target, iv_expires = x, iv_token = token, iv_cluster = cid,
                    iv_coordinator = coord, iv_epoch = ep, iv_fence = fence\<rparr>
      | _ \<Rightarrow> raise ValueError ''invalid invite'')"

definition invite_target_id :: "invite_record \<Rightarrow> node_id res" where
  "invite_target_id i = mk_node_id (iv_target i)"

definition invite_to_dict :: "invite_record \<Rightarrow> pyval" where
  "invite_to_dict i = pdict
     [(''token_hash'', PStr (iv_hash i)), (''target_node_id'', PStr (iv_target i)),
      (''expires_at'', PFloat (Fin (iv_expires i))), (''cluster_id'', PStr (iv_cluster i)),
      (''coordinator_id'', PStr (iv_coordinator i)), (''epoch'', PInt (iv_epoch i)),
      (''fencing_token'', PStr (iv_fence i))]"

definition create_invite ::
  "string \<Rightarrow> string \<Rightarrow> coordinator_epoch \<Rightarrow> rat \<Rightarrow> pyfloat \<Rightarrow> string \<Rightarrow> invite_record res" where
  "create_invite cid target e now ttl tok =
     (case ttl of
        Fin d \<Rightarrow>
          if d \<le> 0 then raise ValueError ''invite TTL must be positive''
          else mk_invite (hash_invite tok) target (Fin (now + d)) tok cid (nid_value (ce_coordinator e))
                 (ce_epoch e) (ce_token e)
      | _ \<Rightarrow> raise ValueError ''invite TTL must be positive'')"

definition invite_payload :: "invite_record \<Rightarrow> pyval" where
  "invite_payload i = pdict
     [(''token'', PStr (iv_token i)), (''cluster_id'', PStr (iv_cluster i)),
      (''coordinator_id'', PStr (iv_coordinator i)), (''epoch'', PInt (iv_epoch i)),
      (''fencing_token'', PStr (iv_fence i)), (''target_node_id'', PStr (iv_target i)),
      (''expires_at'', PFloat (Fin (iv_expires i)))]"

text \<open>The body of the \<open>try\<close> in \<open>decode_invite_blob\<close>, then its \<open>except\<close> clause.\<close>

definition decode_invite_fields :: "pyval \<Rightarrow> invite_record res" where
  "decode_invite_fields v =
     (if \<not> is_dict v then raise TypeError ''invite payload is not an object''
      else rbind (rmap (fitem v) [''token'', ''cluster_id'', ''coordinator_id'', ''fencing_token'', ''target_node_id''])
        (\<lambda>fs. rbind (fitem v ''epoch'') (\<lambda>ep. rbind (fitem v ''expires_at'') (\<lambda>expiry.
        if \<not> list_all (\<lambda>x. is_str x \<and> str_of x \<noteq> []) fs \<or> \<not> is_int ep \<or> int_of ep < 0 \<or> \<not> is_number expiry
        then raise ValueError []
        else rbind (py_float expiry) (\<lambda>f.
          if \<not> isfinite f then raise ValueError []
          else mk_invite (hash_invite (str_of (fs ! 0))) (str_of (fs ! 4)) f (str_of (fs ! 0)) (str_of (fs ! 1))
                 (str_of (fs ! 2)) (int_of ep) (str_of (fs ! 3)))))))"

definition decode_invite_payload :: "pyval \<Rightarrow> invite_record res" where
  "decode_invite_payload v =
     (case decode_invite_fields v of
        Inr i \<Rightarrow> Inr i
      | Inl e \<Rightarrow>
          if isa e KeyError \<or> isa e TypeError \<or> isa e ValueError
          then raise ClusterDataError ''invite is not a valid pairing invite''
          else Inl e)"

section \<open>The persisted aggregate\<close>

record cluster_state =
  cs_local :: string
  cs_cluster_id :: string
  cs_assignments :: "role_assignment list"
  cs_epoch :: "coordinator_epoch option"
  cs_invites :: "invite_record list"
  cs_admissions :: "invite_record list"
  cs_used :: "string set"
  cs_promotions :: "int set"
  cs_grants :: "capability_grant list"

text \<open>\<open>drawn\<close> is the random id that \<open>local_node_id or secrets.token_hex(16)\<close> falls back to.\<close>

definition cs_create_local :: "string option \<Rightarrow> string \<Rightarrow> rat \<Rightarrow> string \<Rightarrow> string \<Rightarrow> cluster_state res" where
  "cs_create_local local_id drawn now cid tok =
     (let node = (case local_id of None \<Rightarrow> drawn | Some n \<Rightarrow> if n = [] then drawn else n) in
     rbind (mk_node_id node) (\<lambda>n.
     rbind (mk_assignment {COORDINATOR, WORKER} (Some n) False False False) (\<lambda>a.
     rbind (mk_epoch 1 n tok (Fin now) (Fin (now + 120))) (\<lambda>e.
     Inr \<lparr>cs_local = node, cs_cluster_id = cid, cs_assignments = [a], cs_epoch = Some e, cs_invites = [],
          cs_admissions = [], cs_used = {}, cs_promotions = {}, cs_grants = []\<rparr>))))"

text \<open>The default of \<open>next\<close> is evaluated first, so an unusable local id raises here.\<close>

definition cs_local_assignment :: "cluster_state \<Rightarrow> role_assignment res" where
  "cs_local_assignment cs =
     rbind (mk_node_id (cs_local cs)) (\<lambda>n.
     rbind (mk_assignment {WORKER} (Some n) False False False) (\<lambda>dflt.
     Inr (case find (\<lambda>a. ra_node_id a = Some (NodeId (cs_local cs))) (cs_assignments cs) of
            None \<Rightarrow> dflt | Some a \<Rightarrow> a)))"

definition cs_is_active_coordinator :: "cluster_state \<Rightarrow> bool res" where
  "cs_is_active_coordinator cs =
     (case cs_epoch cs of
        None \<Rightarrow> Inr False
      | Some e \<Rightarrow>
          if nid_value (ce_coordinator e) \<noteq> cs_local cs then Inr False
          else rbind (cs_local_assignment cs) (\<lambda>a.
            Inr (\<not> ra_paused a \<and> \<not> ra_revoked a \<and> COORDINATOR \<in> ra_roles a)))"

definition cs_guard :: "cluster_state \<Rightarrow> string \<Rightarrow> coordinator_epoch res" where
  "cs_guard cs msg =
     rbind (cs_local_assignment cs) (\<lambda>a.
     case cs_epoch cs of
       None \<Rightarrow> raise PermissionError msg
     | Some e \<Rightarrow>
         if ra_revoked a \<or> ra_paused a \<or> COORDINATOR \<notin> ra_roles a \<or> nid_value (ce_coordinator e) \<noteq> cs_local cs
         then raise PermissionError msg else Inr e)"

definition cs_create_invite ::
  "cluster_state \<Rightarrow> string \<Rightarrow> rat \<Rightarrow> pyfloat \<Rightarrow> string \<Rightarrow> cluster_state \<times> invite_record res" where
  "cs_create_invite cs target now ttl tok =
     (case rbind (cs_guard cs ''only an active local Coordinator may create invites'')
             (\<lambda>e. create_invite (cs_cluster_id cs) target e now ttl tok) of
        Inl x \<Rightarrow> (cs, Inl x)
      | Inr i \<Rightarrow> (cs\<lparr>cs_invites := cs_invites cs @ [i]\<rparr>, Inr i))"

definition cs_consume_invite ::
  "cluster_state \<Rightarrow> string \<Rightarrow> rat \<Rightarrow> cluster_state \<times> invite_record res" where
  "cs_consume_invite cs token now =
     (case cs_guard cs ''only an active local Coordinator may consume invites'' of
        Inl x \<Rightarrow> (cs, Inl x)
      | Inr _ \<Rightarrow>
          let digest = hash_invite token in
          (case find (\<lambda>i. iv_hash i = digest) (cs_invites cs) of
             Some i \<Rightarrow>
               let cs' = cs\<lparr>cs_invites := filter (\<lambda>x. x \<noteq> i) (cs_invites cs), cs_used := cs_used cs \<union> {digest}\<rparr>
               in if now \<ge> iv_expires i then (cs', raise ValueError ''pairing invite has expired'')
                  else (cs', Inr i)
           | None \<Rightarrow>
               (cs, if digest \<in> cs_used cs then raise ValueError ''pairing invite is expired or already consumed''
                    else raise ValueError ''pairing invite is unknown or expired'')))"

definition cs_to_dict :: "cluster_state \<Rightarrow> pyval res" where
  "cs_to_dict cs =
     rbind (rs_post_init \<lparr>assignments = cs_assignments cs, epoch = cs_epoch cs, promotion_epochs = cs_promotions cs,
              capability_grants = cs_grants cs\<rparr>) (\<lambda>s.
     Inr (pdict (role_state_items s True @
       [(''schema_version'', PInt 2), (''cluster_id'', PStr (cs_cluster_id cs)),
        (''local_node_id'', PStr (cs_local cs)), (''local_id'', PStr (cs_local cs)),
        (''active_invites'', PList (map invite_to_dict (cs_invites cs))),
        (''join_admissions'', PList (map invite_to_dict (cs_admissions cs))),
        (''used_invites'', PList (map PStr (sorted_list_of_set (cs_used cs))))])))"

definition is_two :: "pyval \<Rightarrow> bool" where
  \<comment> \<open>\<open>v == 2\<close>\<close>
  "is_two v \<longleftrightarrow> v = PInt 2 \<or> v = PFloat (Fin 2)"

definition parse_invite :: "string \<Rightarrow> pyval \<Rightarrow> invite_record res" where
  "parse_invite field item =
     (if \<not> is_dict item then raise ClusterDataError (butlast field @ '' is malformed'')
      else let expiry = fget item ''expires_at''; ep = fget item ''epoch'';
               str_field = (\<lambda>k. fget_or item k (PStr []))
      in if \<not> is_str (fget item ''token_hash'') \<or> str_of (fget item ''token_hash'') = []
            \<or> \<not> is_str (str_field ''target_node_id'') \<or> \<not> is_str (str_field ''cluster_id'')
            \<or> \<not> is_str (str_field ''coordinator_id'') \<or> \<not> is_str (str_field ''fencing_token'')
            \<or> \<not> is_int ep \<or> int_of ep < 0 \<or> \<not> is_number expiry
      then raise ClusterDataError (butlast field @ '' is malformed'')
      else rbind (py_float expiry) (\<lambda>f.
        if \<not> isfinite f then raise ClusterDataError (butlast field @ '' is malformed'')
        else mk_invite (str_of (fget item ''token_hash'')) (str_of (str_field ''target_node_id'')) f []
               (str_of (str_field ''cluster_id'')) (str_of (str_field ''coordinator_id'')) (int_of ep)
               (str_of (str_field ''fencing_token''))))"

definition parse_invites :: "pyval \<Rightarrow> string \<Rightarrow> invite_record list res" where
  "parse_invites raw field =
     (if \<not> is_list raw then raise ClusterDataError (field @ '' are malformed'')
      else rmap (parse_invite field) (list_of raw))"

definition is_digest :: "string \<Rightarrow> bool" where
  "is_digest s \<longleftrightarrow> length s = 64 \<and> list_all (\<lambda>c. c \<in> set ''0123456789abcdef'') s"

definition cs_raw :: "pyval \<Rightarrow> pyval" where
  "cs_raw v =
     (let raw = (if \<not> has_key v ''assignments'' \<and> has_key v ''role_assignments''
                 then fset v ''assignments'' (fget v ''role_assignments'') else v)
      in if is_int (fget raw ''epoch'')
         then fset raw ''epoch'' (pdict [(''epoch'', fget raw ''epoch''), (''coordinator_id'', fget raw ''coordinator_id''),
                (''fencing_token'', fget raw ''fencing_token''), (''issued_at'', PFloat (Fin 0)),
                (''lease_expires_at'', PFloat (Fin 0))])
         else raw)"

definition cs_from_dict :: "pyval \<Rightarrow> cluster_state res" where
  "cs_from_dict v =
     (if \<not> is_dict v \<or> \<not> is_two (fget_or v ''schema_version'' (PInt 2))
      then raise ClusterDataError ''cluster state is malformed''
      else rbind (role_state_from_dict (cs_raw v)) (\<lambda>rs.
      let loc = fget_or v ''local_node_id'' (fget_or v ''local_id'' (PStr ''local''));
          cid = fget_or v ''cluster_id'' (PStr ''local-cluster'')
      in if \<not> is_str loc \<or> str_of loc = [] \<or> \<not> is_str cid \<or> str_of cid = []
      then raise ClusterDataError ''cluster identity is malformed''
      else rbind (parse_invites (fget_or v ''active_invites'' (PList [])) ''active invites'') (\<lambda>invites.
           rbind (parse_invites (fget_or v ''join_admissions'' (PList [])) ''join admissions'') (\<lambda>admissions.
           let used = fget_or v ''used_invites'' (PList [])
           in if \<not> is_list used \<or> \<not> list_all (\<lambda>x. is_str x \<and> str_of x \<noteq> []) (list_of used)
           then raise ClusterDataError ''used invites are malformed''
           else Inr \<lparr>cs_local = str_of loc, cs_cluster_id = str_of cid, cs_assignments = assignments rs,
                  cs_epoch = epoch rs, cs_invites = invites, cs_admissions = admissions,
                  cs_used = (\<lambda>x. if is_digest (str_of x) then str_of x else sha256_hex (str_of x)) ` set (list_of used),
                  cs_promotions = promotion_epochs rs, cs_grants = capability_grants rs\<rparr>))))"

text \<open>\<open>ClusterStore.load\<close>: what the file held, or the \<open>StateDataError\<close> of the YAML layer.\<close>

definition cluster_store_load :: "pyval res \<Rightarrow> cluster_state res" where
  "cluster_store_load contents =
     (case contents of
        Inl e \<Rightarrow> if isa e StateDataError then raise ClusterDataError ''persisted cluster state is invalid'' else Inl e
      | Inr v \<Rightarrow>
          (case cs_from_dict v of
             Inr cs \<Rightarrow> Inr cs
           | Inl e \<Rightarrow>
               if isa e KeyError \<or> isa e TypeError \<or> isa e ValueError \<or> isa e OverflowError
               then raise ClusterDataError ''persisted cluster state is invalid'' else Inl e))"

section \<open>The mutable facade\<close>

record cluster =
  cl_local :: node_id
  cl_id :: string
  cl_epoch :: coordinator_epoch
  cl_assignments :: "(node_id, role_assignment) dict"
  cl_online :: "(node_id, bool) dict"
  cl_invites :: "(string, invite_record) dict"
  cl_admissions :: "(string, invite_record) dict"
  cl_used :: "string set"
  cl_promotions :: "int set"
  cl_grants :: "capability_grant list"

text \<open>A node id is never empty, so the aggregate draws none of its own.\<close>

definition cluster_new :: "node_id \<Rightarrow> rat \<Rightarrow> string \<Rightarrow> string \<Rightarrow> cluster res" where
  "cluster_new local_id now cid tok =
     rbind (cs_create_local (Some (nid_value local_id)) [] now cid tok) (\<lambda>cs.
     case cs_epoch cs of
       None \<Rightarrow> raise ValueError ''local cluster has no coordinator epoch''
     | Some e \<Rightarrow> rbind (cs_local_assignment cs) (\<lambda>a.
         Inr \<lparr>cl_local = local_id, cl_id = cs_cluster_id cs, cl_epoch = e, cl_assignments = [(local_id, a)],
              cl_online = [(local_id, True)], cl_invites = [], cl_admissions = [], cl_used = cs_used cs,
              cl_promotions = cs_promotions cs, cl_grants = cs_grants cs\<rparr>))"

definition cl_is_active_coordinator :: "cluster \<Rightarrow> bool" where
  "cl_is_active_coordinator c \<longleftrightarrow>
     (case map_of (cl_assignments c) (cl_local c) of
        None \<Rightarrow> False
      | Some a \<Rightarrow> \<not> ra_paused a \<and> \<not> ra_revoked a \<and> COORDINATOR \<in> ra_roles a
                  \<and> ce_coordinator (cl_epoch c) = cl_local c)"

definition cl_local_role :: "cluster \<Rightarrow> cluster_role res" where
  "cl_local_role c =
     (case map_of (cl_assignments c) (cl_local c) of
        None \<Rightarrow> raise ValueError ''local node has no active role''
      | Some a \<Rightarrow>
          if ra_revoked a then raise ValueError ''local node has no active role''
          else Inr (if COORDINATOR \<in> ra_roles a then COORDINATOR else WORKER))"

definition worker_assignment :: "node_id \<Rightarrow> role_assignment" where
  "worker_assignment n = \<lparr>ra_roles = {WORKER}, ra_node_id = Some n, ra_paused = False, ra_revoked = False, ra_job = False\<rparr>"

definition cl_local_assignment :: "cluster \<Rightarrow> role_assignment" where
  "cl_local_assignment c =
     (case map_of (cl_assignments c) (cl_local c) of None \<Rightarrow> worker_assignment (cl_local c) | Some a \<Rightarrow> a)"

definition cl_role_state :: "cluster \<Rightarrow> role_state res" where
  "cl_role_state c = rs_post_init \<lparr>assignments = map snd (cl_assignments c), epoch = Some (cl_epoch c),
     promotion_epochs = cl_promotions c, capability_grants = cl_grants c\<rparr>"

definition cl_apply_role_state :: "cluster \<Rightarrow> role_state \<Rightarrow> cluster" where
  "cl_apply_role_state c s =
     c\<lparr>cl_assignments := assignment_index (assignments s), cl_grants := capability_grants s\<rparr>"

definition cl_create_invite ::
  "cluster \<Rightarrow> node_id \<Rightarrow> rat \<Rightarrow> string \<Rightarrow> cluster \<times> invite_record res" where
  "cl_create_invite c target now tok =
     (if \<not> cl_is_active_coordinator c
      then (c, raise PermissionError ''only an active local Coordinator may create invites'')
      else case create_invite (cl_id c) (nid_value target) (cl_epoch c) now (Fin 300) tok of
        Inl x \<Rightarrow> (c, Inl x)
      | Inr i \<Rightarrow> (c\<lparr>cl_invites := dict_set (iv_token i) i (cl_invites c)\<rparr>, Inr i))"

definition cl_restore_invites :: "cluster \<Rightarrow> invite_record list \<Rightarrow> cluster" where
  "cl_restore_invites c is = c\<lparr>cl_invites := fold (\<lambda>i d. dict_set (iv_hash i) i d) is (cl_invites c)\<rparr>"

definition cl_set_default_online :: "node_id \<Rightarrow> cluster \<Rightarrow> cluster" where
  "cl_set_default_online n c =
     (if map_of (cl_online c) n = None then c\<lparr>cl_online := dict_set n True (cl_online c)\<rparr> else c)"

definition cl_assign :: "cluster \<Rightarrow> node_id \<Rightarrow> cluster_role \<Rightarrow> rat \<Rightarrow> cluster \<times> unit res" where
  "cl_assign c n role clock =
     (if \<not> cl_is_active_coordinator c
      then (c, raise PermissionError ''only an active local Coordinator may assign roles'')
      else case rbind (cl_role_state c)
                  (\<lambda>s. role_assign s (cl_local_assignment c) n {role} (PFloat (Fin clock))) of
        Inl x \<Rightarrow> (c, Inl x)
      | Inr (s', _) \<Rightarrow> (cl_set_default_online n (cl_apply_role_state c s'), Inr ()))"

definition cl_consume_invite ::
  "cluster \<Rightarrow> string \<Rightarrow> node_id \<Rightarrow> rat \<Rightarrow> rat \<Rightarrow> bool \<Rightarrow> cluster \<times> invite_record res" where
  "cl_consume_invite c token target now clock allow_retry =
     (if \<not> cl_is_active_coordinator c
      then (c, raise PermissionError ''only an active local Coordinator may consume invites'')
      else
        let digest = hash_invite token;
            invite = (case map_of (cl_invites c) token of Some i \<Rightarrow> Some i | None \<Rightarrow> map_of (cl_invites c) digest)
        in case map_of (cl_admissions c) digest of
          Some admission \<Rightarrow>
            if allow_retry then
              (c, rbind (invite_target_id admission) (\<lambda>t.
                    if t \<noteq> target then raise ValueError ''invite target mismatch'' else Inr admission))
            else (c, raise ValueError ''invite is expired or already consumed'')
        | None \<Rightarrow>
            (case invite of
               None \<Rightarrow> (c, raise ValueError ''invite is expired or already consumed'')
             | Some i \<Rightarrow>
                 if digest \<in> cl_used c \<or> now \<ge> iv_expires i
                 then (c, raise ValueError ''invite is expired or already consumed'')
                 else case invite_target_id i of
                   Inl x \<Rightarrow> (c, Inl x)
                 | Inr t \<Rightarrow>
                     if t \<noteq> target \<or> iv_cluster i \<noteq> cl_id c \<or> iv_epoch i \<noteq> ce_epoch (cl_epoch c)
                     then (c, raise ValueError ''invite target or cluster mismatch'')
                     else let c1 = c\<lparr>cl_invites := dict_pop digest (dict_pop token (cl_invites c)),
                                     cl_used := cl_used c \<union> {digest}\<rparr>
                       in case cl_assign c1 target WORKER clock of
                         (c2, Inl x) \<Rightarrow> (c2, Inl x)
                       | (c2, Inr _) \<Rightarrow>
                           (c2\<lparr>cl_admissions := dict_set digest (i\<lparr>iv_token := []\<rparr>) (cl_admissions c2)\<rparr>, Inr i)))"

definition cl_is_member :: "cluster \<Rightarrow> node_id \<Rightarrow> bool" where
  "cl_is_member c n \<longleftrightarrow> (case map_of (cl_assignments c) n of None \<Rightarrow> False | Some a \<Rightarrow> \<not> ra_revoked a)"

text \<open>\<open>join\<close> works on two cluster objects; the first component of the result is (self, coordinator).\<close>

definition cl_join ::
  "cluster \<Rightarrow> cluster \<Rightarrow> invite_record \<Rightarrow> (node_id \<Rightarrow> bool) \<Rightarrow> rat \<Rightarrow> rat \<Rightarrow> (cluster \<times> cluster) \<times> unit res" where
  "cl_join self coord invite can_join_cluster now clock =
     (if \<not> can_join_cluster (cl_local coord)
      then ((self, coord), raise PermissionError ''cluster Join requires an authenticated Pair'')
      else if ra_revoked (cl_local_assignment self) \<or> ra_paused (cl_local_assignment self)
      then ((self, coord), raise PermissionError ''paused or revoked local membership cannot join'')
      else if cl_id self = cl_id coord \<and> cl_is_member self (cl_local self)
      then ((self, coord), raise ValueError ''local node has already joined this cluster'')
      else case cl_consume_invite coord (iv_token invite) (cl_local self) now clock True of
        (coord', Inl x) \<Rightarrow> ((self, coord'), Inl x)
      | (coord', Inr _) \<Rightarrow>
          ((self\<lparr>cl_id := cl_id coord', cl_epoch := cl_epoch coord',
                 cl_assignments := dict_of [(cl_local self, worker_assignment (cl_local self)),
                                            (cl_local coord', promoted (cl_local coord'))],
                 cl_online := dict_set (cl_local coord') True (cl_online self)\<rparr>, coord'), Inr ()))"

definition cl_to_state :: "cluster \<Rightarrow> cluster_state" where
  "cl_to_state c = \<lparr>cs_local = nid_value (cl_local c), cs_cluster_id = cl_id c,
     cs_assignments = map snd (cl_assignments c), cs_epoch = Some (cl_epoch c),
     cs_invites = map snd (cl_invites c), cs_admissions = map snd (cl_admissions c), cs_used = cl_used c,
     cs_promotions = cl_promotions c, cs_grants = cl_grants c\<rparr>"

definition cl_to_dict :: "cluster \<Rightarrow> pyval res" where
  "cl_to_dict c = cs_to_dict (cl_to_state c)"

text \<open>\<open>Cluster(local_id)\<close> inside \<open>from_state\<close> draws a fresh id and token, which are overwritten.\<close>

definition cl_from_state :: "node_id \<Rightarrow> cluster_state \<Rightarrow> rat \<Rightarrow> string \<Rightarrow> string \<Rightarrow> cluster res" where
  "cl_from_state local_id cs now cid tok =
     (if cs_local cs \<noteq> nid_value local_id \<or> Some local_id \<notin> ra_node_id ` set (cs_assignments cs)
      then raise ValueError ''persisted cluster belongs to another local node''
      else case cs_epoch cs of
        None \<Rightarrow> raise ValueError ''persisted cluster has no coordinator epoch''
      | Some e \<Rightarrow>
          rbind (cluster_new local_id now cid tok) (\<lambda>r.
          Inr ((cl_restore_invites (r\<lparr>cl_id := cs_cluster_id cs, cl_epoch := e,
                  cl_assignments := assignment_index (cs_assignments cs), cl_used := cs_used cs,
                  cl_promotions := cs_promotions cs, cl_grants := cs_grants cs\<rparr>) (cs_invites cs))
               \<lparr>cl_admissions := dict_of (map (\<lambda>i. (iv_hash i, i)) (cs_admissions cs))\<rparr>)))"

definition cl_set_online :: "cluster \<Rightarrow> node_id \<Rightarrow> bool \<Rightarrow> cluster" where
  "cl_set_online c n b = c\<lparr>cl_online := dict_set n b (cl_online c)\<rparr>"

definition cl_online_of :: "cluster \<Rightarrow> node_id \<Rightarrow> bool" where
  "cl_online_of c n = (case map_of (cl_online c) n of None \<Rightarrow> False | Some b \<Rightarrow> b)"

definition cl_revoke :: "cluster \<Rightarrow> node_id \<Rightarrow> cluster \<times> unit res" where
  "cl_revoke c n =
     (if \<not> cl_is_active_coordinator c
      then (c, raise PermissionError ''only an active local Coordinator may revoke roles'')
      else case map_of (cl_assignments c) n of
        None \<Rightarrow> (c, Inr ())
      | Some a \<Rightarrow>
          if ra_revoked a then (c, Inr ())
          else case rbind (cl_role_state c) (\<lambda>s. role_revoke s (cl_local_assignment c) n) of
            Inl x \<Rightarrow> (c, Inl x)
          | Inr s' \<Rightarrow> (cl_apply_role_state c s', Inr ()))"

definition cl_authorize :: "cluster \<Rightarrow> string \<Rightarrow> int \<Rightarrow> string \<Rightarrow> unit res" where
  "cl_authorize c cid ep fencing_token =
     (if cid \<noteq> cl_id c \<or> ep \<noteq> ce_epoch (cl_epoch c)
      then raise PermissionError ''stale coordinator authority''
      else rbind (compare_digest fencing_token (ce_token (cl_epoch c))) (\<lambda>same.
        ensure same PermissionError ''stale coordinator authority''))"

end
