(* ===== verification/ClusterLaws.thy ===== *)
theory ClusterLaws
  imports ClusterOps
begin

text \<open>
  The laws of the cluster facade: every operation keeps the member table consistent with the role state
  it stands for, an invite admits once and only its target, and a join binds both sides to one fence.
\<close>

section \<open>The role state behind the member table\<close>

definition cl_rs :: "cluster \<Rightarrow> role_state" where
  "cl_rs c = \<lparr>assignments = map snd (cl_assignments c), epoch = Some (cl_epoch c),
     promotion_epochs = cl_promotions c, capability_grants = cl_grants c\<rparr>"

definition table_ok :: "(node_id, role_assignment) dict \<Rightarrow> bool" where
  "table_ok d \<longleftrightarrow> keys_distinct d \<and> (\<forall>(n, a) \<in> set d. ra_node_id a = Some n)"

definition cl_inv :: "cluster \<Rightarrow> bool" where
  "cl_inv c \<longleftrightarrow> table_ok (cl_assignments c) \<and> rs_inv (cl_rs c) \<and> fst ` set (cl_admissions c) \<subseteq> cl_used c"

lemma table_bound_pairs: "table_ok d \<Longrightarrow> bound_pairs (map snd d) = d"
  by (induction d) (auto simp: table_ok_def)

lemma cl_role_state_Inr: "cl_inv c \<Longrightarrow> cl_role_state c = Inr (cl_rs c)"
  by (simp add: cl_role_state_def cl_inv_def rs_inv_def rs_ok_def flip: cl_rs_def)

lemma cl_assignment_for: "cl_inv c \<Longrightarrow> assignment_for (cl_rs c) n = map_of (cl_assignments c) n"
  by (simp add: cl_inv_def rs_inv_def assignment_for_seek flip: map_of_bound_pairs)
     (simp add: cl_rs_def table_bound_pairs)

lemma snd_bound_pairs: "map snd (bound_pairs as) = filter bound as"
  by (induction as) (auto split: option.splits)

lemma bound_pairs_ids: "(n, a) \<in> set (bound_pairs as) \<Longrightarrow> ra_node_id a = Some n"
  by (induction as) (auto split: option.splits)

lemma table_ok_index: "ids_distinct as \<Longrightarrow> table_ok (assignment_index as)"
  by (auto simp: table_ok_def assignment_index_def dict_of_distinct ids_distinct_pairs dest: bound_pairs_ids)

text \<open>Publishing a role state with bound members only.\<close>

lemma cl_apply:
  assumes "rs_inv s" "\<forall>a \<in> set (assignments s). bound a" "epoch s = Some (cl_epoch c)"
    and "promotion_epochs s = cl_promotions c"
  shows "cl_rs (cl_apply_role_state c s) = s"
    and "fst ` set (cl_admissions c) \<subseteq> cl_used c \<Longrightarrow> cl_inv (cl_apply_role_state c s)"
proof -
  have d: "ids_distinct (assignments s)" using assms(1) by (simp add: rs_inv_def rs_ok_iff)
  have "map snd (assignment_index (assignments s)) = assignments s"
    using assms(2) by (simp add: assignment_index_def dict_of_distinct ids_distinct_pairs d snd_bound_pairs)
  then show r: "cl_rs (cl_apply_role_state c s) = s"
    using assms(3,4) by (simp add: cl_rs_def cl_apply_role_state_def)
  show "cl_inv (cl_apply_role_state c s)" if "fst ` set (cl_admissions c) \<subseteq> cl_used c"
    using that assms(1) d by (simp add: cl_inv_def r table_ok_index) (simp add: cl_apply_role_state_def table_ok_index)
qed

lemma cl_rs_bound: "cl_inv c \<Longrightarrow> a \<in> set (assignments (cl_rs c)) \<Longrightarrow> bound a"
  by (auto simp: cl_inv_def table_ok_def cl_rs_def)

lemma role_assign_bound:
  assumes "rs_inv s" "role_assign s actor t roles now = Inr (s', ch)" "\<forall>a \<in> set (assignments s). bound a"
  shows "\<forall>a \<in> set (assignments s'). bound a"
proof -
  have ok: "rs_ok s" using assms(1) by (simp add: rs_inv_def)
  from assms(2) obtain n where n: "role_control s actor = Inr n" by (auto simp: role_assign_def ok_simps)
  have al: "assign_allowed s n t roles" using role_assign_refused [OF ok n, of t roles now] assms(2) by auto
  with role_assign_eq [OF ok n al] assms(2) have "s' = assign_result s t roles" by (auto simp: ok_simps)
  with assms(3) show ?thesis by (auto simp: assign_result_def dest!: with_assigned_set)
qed

lemma role_revoke_bound:
  assumes "rs_inv s" "role_revoke s actor t = Inr s'" "\<forall>a \<in> set (assignments s). bound a"
  shows "\<forall>a \<in> set (assignments s'). bound a"
proof -
  have ok: "rs_ok s" using assms by (simp add: rs_inv_def)
  from assms(2) obtain n c where n: "role_control s actor = Inr n" "t \<noteq> n"
      and c: "seek t (assignments s) = Some c" "\<not> ra_revoked c"
    by (auto simp: role_revoke_def ok_simps assignment_for_seek [OF ok] split: if_splits option.splits)
  let ?a = "c\<lparr>ra_revoked := True, ra_paused := False, ra_job := False\<rparr>"
  from role_revoke_Inr [OF assms(1) n c] assms(2) have "assignments s' = set_assignment ?a (assignments s)" by auto
  moreover have "bound ?a" using seek_ra_ok [OF ok c(1)] by simp
  ultimately show ?thesis using assms(3) by (auto dest!: set_assignment_set)
qed

section \<open>Assigning and revoking\<close>

lemma cl_assign_cases:
  assumes "cl_inv c"
  obtains (refused) x where "cl_assign c n r clock = (c, Inl x)"
  | (assigned) s' ch where "cl_assign c n r clock = (cl_set_default_online n (cl_apply_role_state c s'), Inr ())"
      "role_assign (cl_rs c) (cl_local_assignment c) n {r} (PFloat (Fin clock)) = Inr (s', ch)"
      "cl_rs (cl_set_default_online n (cl_apply_role_state c s')) = s'"
      "cl_inv (cl_set_default_online n (cl_apply_role_state c s'))"
proof (cases "cl_is_active_coordinator c")
  case True
  show ?thesis
  proof (cases "role_assign (cl_rs c) (cl_local_assignment c) n {r} (PFloat (Fin clock))")
    case (Inl x)
    then show ?thesis using refused True by (simp add: cl_assign_def cl_role_state_Inr [OF assms])
  next
    case (Inr p)
    obtain s' ch where p: "p = (s', ch)" by (cases p)
    have i: "rs_inv (cl_rs c)" using assms by (simp add: cl_inv_def)
    note r = Inr [unfolded p]
    have s': "rs_inv s'" "\<forall>a \<in> set (assignments s'). bound a" "epoch s' = Some (cl_epoch c)"
      "promotion_epochs s' = cl_promotions c"
      using role_assign_inv [OF i r] role_assign_bound [OF i r] role_assign_epoch [OF r] cl_rs_bound [OF assms]
      by (auto simp: cl_rs_def)
    have "cl_rs (cl_set_default_online n (cl_apply_role_state c s')) = cl_rs (cl_apply_role_state c s')"
      "cl_inv (cl_set_default_online n (cl_apply_role_state c s')) = cl_inv (cl_apply_role_state c s')"
      by (simp_all add: cl_set_default_online_def cl_rs_def cl_inv_def)
    then show ?thesis
      using assigned [OF _ r] cl_apply [OF s'] True r assms
      by (simp add: cl_assign_def cl_role_state_Inr [OF assms] cl_inv_def)
  qed
qed (use refused in \<open>simp add: cl_assign_def raise_def\<close>)

lemma cl_revoke_cases:
  assumes "cl_inv c"
  obtains (kept) r where "cl_revoke c n = (c, r)"
  | (revoked) s' where "cl_revoke c n = (cl_apply_role_state c s', Inr ())"
      "role_revoke (cl_rs c) (cl_local_assignment c) n = Inr s'"
      "cl_rs (cl_apply_role_state c s') = s'" "cl_inv (cl_apply_role_state c s')"
proof (cases "role_revoke (cl_rs c) (cl_local_assignment c) n")
  case (Inl x)
  then have "\<exists>r. cl_revoke c n = (c, r)"
    by (auto simp: cl_revoke_def cl_role_state_Inr [OF assms] split: option.splits)
  then show ?thesis using kept by blast
next
  case (Inr s')
  have i: "rs_inv (cl_rs c)" using assms by (simp add: cl_inv_def)
  have s': "rs_inv s'" "\<forall>a \<in> set (assignments s'). bound a" "epoch s' = Some (cl_epoch c)"
      "promotion_epochs s' = cl_promotions c"
    using safe_result_Inr [OF role_revoke_safe [OF i] Inr] role_revoke_bound [OF i Inr] role_revoke_epoch [OF Inr]
      cl_rs_bound [OF assms]
    by (auto simp: cl_rs_def)
  have "fst ` set (cl_admissions c) \<subseteq> cl_used c" using assms by (simp add: cl_inv_def)
  note ap = cl_apply(1) [OF s'] cl_apply(2) [OF s' this]
  show ?thesis
  proof (cases "cl_revoke c n = (cl_apply_role_state c s', Inr ())")
    case True
    then show ?thesis using revoked [OF _ Inr] ap by blast
  next
    case False
    with Inr have "\<exists>r. cl_revoke c n = (c, r)"
      by (auto simp: cl_revoke_def cl_role_state_Inr [OF assms] split: option.splits if_splits)
    then show ?thesis using kept by blast
  qed
qed

section \<open>Consuming an invite\<close>

definition cl_lookup :: "cluster \<Rightarrow> string \<Rightarrow> invite_record option" where
  "cl_lookup c token =
     (case map_of (cl_invites c) token of Some i \<Rightarrow> Some i | None \<Rightarrow> map_of (cl_invites c) (hash_invite token))"

definition cl_burn :: "cluster \<Rightarrow> string \<Rightarrow> cluster" where
  "cl_burn c token = c\<lparr>cl_invites := dict_pop (hash_invite token) (dict_pop token (cl_invites c)),
     cl_used := cl_used c \<union> {hash_invite token}\<rparr>"

text \<open>The conditions under which an invite is good for a target.\<close>

definition invite_good :: "cluster \<Rightarrow> string \<Rightarrow> node_id \<Rightarrow> rat \<Rightarrow> invite_record \<Rightarrow> bool" where
  "invite_good c token t now i \<longleftrightarrow> cl_is_active_coordinator c \<and> cl_lookup c token = Some i
     \<and> map_of (cl_admissions c) (hash_invite token) = None \<and> hash_invite token \<notin> cl_used c
     \<and> now < iv_expires i \<and> NodeId (iv_target i) = t \<and> nid_ok t
     \<and> iv_cluster i = cl_id c \<and> iv_epoch i = ce_epoch (cl_epoch c)"

lemma cl_burn_simps [simp]:
  "cl_rs (cl_burn c token) = cl_rs c" "cl_assignments (cl_burn c token) = cl_assignments c"
  "cl_admissions (cl_burn c token) = cl_admissions c" "cl_used (cl_burn c token) = insert (hash_invite token) (cl_used c)"
  "cl_local_assignment (cl_burn c token) = cl_local_assignment c" "cl_local (cl_burn c token) = cl_local c"
  "cl_inv c \<Longrightarrow> cl_inv (cl_burn c token)"
  by (auto simp: cl_burn_def cl_rs_def cl_local_assignment_def cl_inv_def split: option.splits)

lemma cl_burn_active [simp]: "cl_is_active_coordinator (cl_burn c token) = cl_is_active_coordinator c"
  by (auto simp: cl_is_active_coordinator_def cl_burn_def split: option.splits)

lemma cl_consume_good:
  "invite_good c token t now i \<Longrightarrow> cl_consume_invite c token t now clock retry =
     (case cl_assign (cl_burn c token) t WORKER clock of
        (c2, Inl x) \<Rightarrow> (c2, Inl x)
      | (c2, Inr _) \<Rightarrow> (c2\<lparr>cl_admissions := dict_set (hash_invite token) (i\<lparr>iv_token := []\<rparr>) (cl_admissions c2)\<rparr>, Inr i))"
  by (auto simp: cl_consume_invite_def invite_good_def cl_lookup_def invite_target_id_def mk_node_id_def nid_ok_def
      cl_burn_def Let_def split: option.splits)

lemma cl_consume_bad:
  assumes "\<not> (\<exists>i. invite_good c token t now i)"
  shows "(\<exists>x. cl_consume_invite c token t now clock retry = (c, Inl x))
    \<or> retry \<and> cl_is_active_coordinator c
      \<and> (\<exists>a. map_of (cl_admissions c) (hash_invite token) = Some a \<and> NodeId (iv_target a) = t
           \<and> cl_consume_invite c token t now clock retry = (c, Inr a))"
proof (cases "map_of (cl_admissions c) (hash_invite token)")
  case (Some a)
  then show ?thesis
    by (auto simp: cl_consume_invite_def Let_def invite_target_id_def raise_def mk_node_id_if)
next
  case None
  show ?thesis
  proof (cases "cl_lookup c token")
    case (Some i)
    with None assms show ?thesis
      by (auto simp: cl_consume_invite_def Let_def invite_target_id_def raise_def mk_node_id_if cl_lookup_def
          invite_good_def split: option.splits)
  qed (use None in \<open>auto simp: cl_consume_invite_def Let_def cl_lookup_def raise_def split: option.splits\<close>)
qed

section \<open>Runs\<close>

datatype cl_op =
    CreateInvite node_id rat string
  | AssignMember node_id cluster_role rat
  | ConsumeInvite string node_id rat rat bool
  | RevokeMember node_id
  | SetOnline node_id bool

fun cl_step :: "cluster \<Rightarrow> cl_op \<Rightarrow> cluster" where
  "cl_step c (CreateInvite t now tok) = fst (cl_create_invite c t now tok)"
| "cl_step c (AssignMember n r clock) = fst (cl_assign c n r clock)"
| "cl_step c (ConsumeInvite tok t now clock retry) = fst (cl_consume_invite c tok t now clock retry)"
| "cl_step c (RevokeMember n) = fst (cl_revoke c n)"
| "cl_step c (SetOnline n b) = cl_set_online c n b"

text \<open>What a step may change: the member table through the role operations, invites and admissions.\<close>

definition mark_revoked :: "cluster \<Rightarrow> node_id \<Rightarrow> bool" where
  "mark_revoked c n \<longleftrightarrow> (\<exists>a. map_of (cl_assignments c) n = Some a \<and> ra_revoked a)"

definition cl_ext :: "cluster \<Rightarrow> cluster \<Rightarrow> bool" where
  "cl_ext c c' \<longleftrightarrow> cl_inv c' \<and> cl_used c \<subseteq> cl_used c'
     \<and> (\<forall>d \<in> cl_used c. map_of (cl_admissions c') d = map_of (cl_admissions c) d)
     \<and> (\<forall>n. mark_revoked c n \<longrightarrow> mark_revoked c' n)"

lemma cl_ext_refl [simp]: "cl_inv c \<Longrightarrow> cl_ext c c"
  by (simp add: cl_ext_def)

lemma cl_assign_revoked:
  assumes "cl_inv c" "role_assign (cl_rs c) actor t roles now = Inr (s', ch)" "cl_rs c' = s'" "cl_inv c'" "mark_revoked c n"
  shows "mark_revoked c' n"
proof -
  let ?s = "cl_rs c"
  have ok: "rs_ok ?s" "rs_ok s'" using assms(1,3,4) by (auto simp: cl_inv_def rs_inv_def)
  from assms(2) obtain m where m: "role_control ?s actor = Inr m" by (auto simp: role_assign_def ok_simps)
  have al: "assign_allowed ?s m t roles" using role_assign_refused [OF ok(1) m, of t roles now] assms(2) by auto
  with role_assign_eq [OF ok(1) m al] assms(2) have s': "s' = assign_result ?s t roles" by (auto simp: ok_simps)
  from assms(5) have "n \<noteq> t" using al by (auto simp: mark_revoked_def assign_allowed_def cl_assignment_for [OF assms(1)])
  then have "assignment_for s' n = assignment_for ?s n"
    unfolding assignment_for_seek [OF ok(1)] assignment_for_seek [OF ok(2)]
    by (simp add: s' assign_result_def seek_with_assigned [OF ok(1)])
  with assms show ?thesis by (auto simp: mark_revoked_def simp flip: cl_assignment_for)
qed

lemma cl_assign_ext: "cl_inv c \<Longrightarrow> cl_ext c (fst (cl_assign c n r clock))"
proof -
  assume i: "cl_inv c"
  then show ?thesis
  proof (cases rule: cl_assign_cases [OF i, of n r clock, case_names refused assigned])
    case (assigned s' ch)
    then show ?thesis
      using cl_assign_revoked [OF i assigned(2,3,4)]
      by (auto simp: cl_ext_def) (auto simp: cl_apply_role_state_def cl_set_default_online_def)
  qed simp
qed

lemma cl_revoke_ext: "cl_inv c \<Longrightarrow> cl_ext c (fst (cl_revoke c n))"
proof -
  assume i: "cl_inv c"
  then show ?thesis
  proof (cases rule: cl_revoke_cases [OF i, of n, case_names kept revoked])
    case (revoked s')
    have "mark_revoked (cl_apply_role_state c s') m" if "mark_revoked c m" for m
    proof -
      have ri: "rs_inv (cl_rs c)" using i by (simp add: cl_inv_def)
      have ok: "rs_ok (cl_rs c)" "rs_ok s'" using ri revoked(3,4) by (auto simp: cl_inv_def rs_inv_def)
      from revoked(2) obtain k a where k: "role_control (cl_rs c) (cl_local_assignment c) = Inr k" "n \<noteq> k"
          and a: "seek n (assignments (cl_rs c)) = Some a" "\<not> ra_revoked a"
        by (auto simp: role_revoke_def ok_simps assignment_for_seek [OF ok(1)] split: if_splits option.splits)
      let ?a = "a\<lparr>ra_revoked := True, ra_paused := False, ra_job := False\<rparr>"
      have "assignments s' = set_assignment ?a (assignments (cl_rs c))"
        using role_revoke_Inr [OF ri k a] revoked(2) by auto
      then have "seek m (assignments s') = (if m = n then Some ?a else seek m (assignments (cl_rs c)))"
        using seek_ra_ok [OF ok(1) a(1)] a(1) by (simp add: seek_set [where n = n])
      then have "map_of (cl_assignments (cl_apply_role_state c s')) m
          = (if m = n then Some ?a else map_of (cl_assignments c) m)"
        using cl_assignment_for [OF i, of m] cl_assignment_for [OF revoked(4), of m] revoked(3)
        by (auto simp: assignment_for_seek [OF ok(1)] assignment_for_seek [OF ok(2)] split: if_splits)
      with that show ?thesis by (auto simp: mark_revoked_def)
    qed
    with revoked show ?thesis by (auto simp: cl_ext_def) (auto simp: cl_apply_role_state_def)
  qed simp
qed

lemma cl_burn_ext: "cl_inv c \<Longrightarrow> cl_ext c (cl_burn c tok)"
  by (auto simp: cl_ext_def mark_revoked_def)

lemma cl_ext_trans: "cl_ext a b \<Longrightarrow> cl_ext b c \<Longrightarrow> cl_ext a c"
  unfolding cl_ext_def by (metis subset_iff)

lemma cl_consume_ext:
  assumes i: "cl_inv c"
  shows "cl_ext c (fst (cl_consume_invite c tok t now clock retry))"
proof (cases "\<exists>v. invite_good c tok t now v")
  case True
  then obtain v where v: "invite_good c tok t now v" ..
  have b: "cl_inv (cl_burn c tok)" using i by simp
  obtain c2 r where r: "cl_assign (cl_burn c tok) t WORKER clock = (c2, r)" by (cases "cl_assign (cl_burn c tok) t WORKER clock")
  have e: "cl_ext (cl_burn c tok) c2" using cl_assign_ext [OF b, of t WORKER clock] r by simp
  have "cl_ext c c2" by (rule cl_ext_trans [OF cl_burn_ext [OF i] e])
  moreover have "hash_invite tok \<in> cl_used c2" "hash_invite tok \<notin> cl_used c"
    using e v by (auto simp: cl_ext_def invite_good_def)
  ultimately have "cl_ext c (c2\<lparr>cl_admissions := dict_set (hash_invite tok) w (cl_admissions c2)\<rparr>)" for w
    by (auto simp: cl_ext_def cl_inv_def mark_revoked_def dict_simps cl_rs_def)
  with \<open>cl_ext c c2\<close> show ?thesis
    unfolding cl_consume_good [OF v] r by (cases r) auto
next
  case False
  from cl_consume_bad [OF False, of clock retry] i show ?thesis by auto
qed

lemma cl_step_ext: "cl_inv c \<Longrightarrow> cl_ext c (cl_step c x)"
proof (cases x)
  case (CreateInvite t now tok)
  then show "cl_inv c \<Longrightarrow> cl_ext c (cl_step c x)"
    by (auto simp: cl_create_invite_def cl_ext_def cl_inv_def mark_revoked_def cl_rs_def split: sum.splits)
next
  case (SetOnline n b)
  then show "cl_inv c \<Longrightarrow> cl_ext c (cl_step c x)"
    by (auto simp: cl_set_online_def cl_ext_def cl_inv_def mark_revoked_def cl_rs_def)
qed (auto intro: cl_assign_ext cl_revoke_ext cl_consume_ext)

interpretation cl_runs: monotone_system cl_step cl_inv cl_used
proof unfold_locales
  fix c x assume "cl_inv c"
  from cl_step_ext [OF this, of x] show "cl_inv (cl_step c x)" "cl_used c \<le> cl_used (cl_step c x)"
    by (auto simp: cl_ext_def)
qed

interpretation cl_admission_runs: transition_system cl_step
  "\<lambda>c. cl_inv c \<and> d \<in> cl_used c \<and> map_of (cl_admissions c) d = m" for d m
proof unfold_locales
  fix c x assume "cl_inv c \<and> d \<in> cl_used c \<and> map_of (cl_admissions c) d = m"
  with cl_step_ext [of c x] show "cl_inv (cl_step c x) \<and> d \<in> cl_used (cl_step c x) \<and> map_of (cl_admissions (cl_step c x)) d = m"
    by (auto simp: cl_ext_def)
qed

section \<open>Admission\<close>

lemma cl_control:
  assumes "cl_inv c" "cl_is_active_coordinator c"
  shows "role_control (cl_rs c) (cl_local_assignment c) = Inr (cl_local c)"
proof -
  from assms(2) obtain a where a: "map_of (cl_assignments c) (cl_local c) = Some a" "\<not> ra_paused a" "\<not> ra_revoked a"
      "COORDINATOR \<in> ra_roles a" "ce_coordinator (cl_epoch c) = cl_local c"
    by (auto simp: cl_is_active_coordinator_def split: option.splits)
  have "ra_node_id a = Some (cl_local c)"
    using map_of_SomeD [OF a(1)] assms(1) by (auto simp: cl_inv_def table_ok_def)
  with a cl_assignment_for [OF assms(1), of "cl_local c"] show ?thesis
    by (simp add: role_control_def cl_local_assignment_def) (simp add: cl_rs_def)
qed

lemma cl_assign_worker:
  assumes i: "cl_inv c" and act: "cl_is_active_coordinator c"
  shows "if t = cl_local c \<or> mark_revoked c t then \<exists>x. cl_assign c t WORKER clock = (c, Inl x)
    else \<exists>c'. cl_assign c t WORKER clock = (c', Inr ())
      \<and> (\<exists>a. map_of (cl_assignments c') t = Some a \<and> ra_roles a = {WORKER} \<and> \<not> ra_revoked a)
      \<and> (\<forall>m. m \<noteq> t \<longrightarrow> map_of (cl_assignments c') m = map_of (cl_assignments c) m)
      \<and> cl_admissions c' = cl_admissions c \<and> cl_local c' = cl_local c \<and> cl_id c' = cl_id c \<and> cl_epoch c' = cl_epoch c"
proof -
  let ?s = "cl_rs c" and ?n = "cl_local c"
  have ri: "rs_inv ?s" and ok: "rs_ok ?s" using i by (auto simp: cl_inv_def rs_inv_def)
  note ctl = cl_control [OF i act]
  have al: "assign_allowed ?s ?n t {WORKER} \<longleftrightarrow> \<not> (t = ?n \<or> mark_revoked c t)"
    by (auto simp: assign_allowed_def mark_revoked_def cl_assignment_for [OF i])
  show ?thesis
  proof (cases "assign_allowed ?s ?n t {WORKER}")
    case False
    from role_assign_refused [OF ok ctl False, of "PFloat (Fin clock)"]
    show ?thesis using False al act by (auto simp: cl_assign_def cl_role_state_Inr [OF i])
  next
    case True
    have "mk_role_change t (assigned ?s t {WORKER}) (PFloat (Fin clock)) ?n
        = Inr \<lparr>rc_node_id = t, rc_assignment = assigned ?s t {WORKER}, rc_changed_at = PFloat (Fin clock), rc_actor = ?n\<rparr>"
      by (simp add: mk_role_change_def)
    then have eq: "role_assign ?s (cl_local_assignment c) t {WORKER} (PFloat (Fin clock)) = Inr (assign_result ?s t {WORKER},
        \<lparr>rc_node_id = t, rc_assignment = assigned ?s t {WORKER}, rc_changed_at = PFloat (Fin clock), rc_actor = ?n\<rparr>)"
      using role_assign_eq [OF ok ctl True] by simp
    let ?c' = "cl_set_default_online t (cl_apply_role_state c (assign_result ?s t {WORKER}))"
    have r: "cl_assign c t WORKER clock = (?c', Inr ())"
      using eq act by (simp add: cl_assign_def cl_role_state_Inr [OF i])
    then have c': "cl_rs ?c' = assign_result ?s t {WORKER}" "cl_inv ?c'"
      using eq by (cases rule: cl_assign_cases [OF i, of t WORKER clock]; auto)+
    then have ok': "rs_ok (cl_rs ?c')" by (simp add: cl_inv_def rs_inv_def)
    have as': "assignments (cl_rs ?c') = with_assigned ?s t {WORKER}"
      unfolding c'(1) by (simp add: assign_result_def)
    have look: "map_of (cl_assignments ?c') m = (if m = t then Some (assigned ?s t {WORKER}) else map_of (cl_assignments c) m)" for m
      unfolding cl_assignment_for [OF c'(2), symmetric] cl_assignment_for [OF i, symmetric]
        assignment_for_seek [OF ok'] assignment_for_seek [OF ok] as'
      by (rule seek_with_assigned [OF ok])
    have "cl_admissions ?c' = cl_admissions c \<and> cl_local ?c' = cl_local c \<and> cl_id ?c' = cl_id c \<and> cl_epoch ?c' = cl_epoch c"
      by (simp add: cl_set_default_online_def cl_apply_role_state_def)
    with r look True al show ?thesis by auto
  qed
qed

section \<open>Properties\<close>

lemma cluster_new_Inr:
  assumes "nid_ok n" "tok \<noteq> []"
  shows "cluster_new n now cid tok = Inr \<lparr>cl_local = n, cl_id = cid,
     cl_epoch = \<lparr>ce_epoch = 1, ce_coordinator = n, ce_token = tok, ce_issued = now, ce_lease = now + 120\<rparr>,
     cl_assignments = [(n, promoted n)], cl_online = [(n, True)], cl_invites = [], cl_admissions = [], cl_used = {},
     cl_promotions = {}, cl_grants = []\<rparr>"
proof -
  have "mk_assignment {WORKER} (Some n) False False False = Inr (worker_assignment n)"
    by (simp add: mk_assignment_def ra_post_init_def worker_assignment_def Let_def)
  with assms show ?thesis
    by (simp add: cluster_new_def cs_create_local_def mk_promoted cs_local_assignment_def mk_epoch_def nid_ok_def)
qed

lemma cluster_new_D:
  assumes "cluster_new n now cid tok = Inr c"
  shows "nid_ok n \<and> tok \<noteq> []"
proof (rule ccontr)
  assume n: "\<not> (nid_ok n \<and> tok \<noteq> [])"
  have "NodeId (nid_value n) = n" by (cases n) simp
  with assms n show False
    by (auto simp: cluster_new_def cs_create_local_def Let_def mk_promoted ok_simps mk_epoch_Inr split: option.splits)
qed

lemma cluster_new_inv: "cluster_new n now cid tok = Inr c \<Longrightarrow> cl_inv c"
  using cluster_new_D [of n now cid tok c] cluster_new_Inr [of n tok now cid]
  by (auto simp: cl_inv_def table_ok_def rs_inv_def rs_ok_iff cl_rs_def ids_distinct_def one_active_def grant_keys_def)

definition demo_cluster :: cluster where
  "demo_cluster = \<lparr>cl_local = NodeId ''a'', cl_id = ''k'',
     cl_epoch = \<lparr>ce_epoch = 1, ce_coordinator = NodeId ''a'', ce_token = ''t0'', ce_issued = 0, ce_lease = 0 + 120\<rparr>,
     cl_assignments = [(NodeId ''a'', promoted (NodeId ''a''))], cl_online = [(NodeId ''a'', True)], cl_invites = [],
     cl_admissions = [], cl_used = {}, cl_promotions = {}, cl_grants = []\<rparr>"

lemma demo_cluster_new: "cluster_new (NodeId ''a'') 0 ''k'' ''t0'' = Inr demo_cluster"
  by (subst cluster_new_Inr) (simp_all add: nid_ok_def demo_cluster_def)

lemmas demo_cluster_inv = cluster_new_inv [OF demo_cluster_new]

text \<open>
  C23. Admission by invite is exact. For a token without a recorded admission, \<open>consume_invite\<close> succeeds
  exactly when the local node is the active Coordinator, the invite is known, unused and unexpired, names
  this target, this cluster and this epoch, and the target is neither the Coordinator itself nor revoked.
  On success the target is an active Worker and every other member is untouched; on failure no member
  changes.
\<close>

theorem admission_exact:
  assumes "cl_inv c" "map_of (cl_admissions c) (hash_invite token) = None"
    and "cl_consume_invite c token t now clock retry = (c', r)"
  shows "((\<exists>i. r = Inr i) \<longleftrightarrow> (\<exists>i. invite_good c token t now i) \<and> t \<noteq> cl_local c \<and> \<not> mark_revoked c t)
    \<and> (\<forall>m. m \<noteq> t \<longrightarrow> map_of (cl_assignments c') m = map_of (cl_assignments c) m)
    \<and> (case r of
         Inl _ \<Rightarrow> cl_assignments c' = cl_assignments c
       | Inr i \<Rightarrow> \<exists>a. map_of (cl_assignments c') t = Some a \<and> ra_roles a = {WORKER} \<and> \<not> ra_revoked a)"
proof (cases "\<exists>i. invite_good c token t now i")
  case False
  with cl_consume_bad [OF False, of clock retry] assms show ?thesis by auto
next
  case True
  then obtain i where g: "invite_good c token t now i" ..
  have b: "cl_inv (cl_burn c token)" using assms(1) by simp
  have act: "cl_is_active_coordinator (cl_burn c token)"
    using g by (simp add: invite_good_def)
  have mr: "mark_revoked (cl_burn c token) t = mark_revoked c t" by (simp add: mark_revoked_def)
  show ?thesis
    using cl_assign_worker [OF b act, of t clock] assms(3) True
    unfolding cl_consume_good [OF g] mr
    by (auto split: if_splits)
qed

lemma demo_invited:
  "\<exists>i. cl_create_invite demo_cluster (NodeId ''b'') 0 ''x''
      = (demo_cluster\<lparr>cl_invites := [(''x'', i)]\<rparr>, Inr i) \<and> iv_target i = ''b'' \<and> iv_cluster i = ''k''
        \<and> iv_epoch i = 1 \<and> iv_expires i = 300"
  by (simp add: cl_create_invite_def cl_is_active_coordinator_def create_invite_def mk_invite_def hash_invite_def
      demo_cluster_def)

theorem admission_exact_witness:
  "\<exists>c i c'. cl_create_invite demo_cluster (NodeId ''b'') 0 ''x'' = (c, Inr i)
     \<and> cl_consume_invite c ''x'' (NodeId ''b'') 1 1 False = (c', Inr i)
     \<and> (\<exists>a. map_of (cl_assignments c') (NodeId ''b'') = Some a \<and> ra_roles a = {WORKER} \<and> \<not> ra_revoked a)"
proof -
  obtain i where i: "cl_create_invite demo_cluster (NodeId ''b'') 0 ''x'' = (demo_cluster\<lparr>cl_invites := [(''x'', i)]\<rparr>, Inr i)"
    "iv_target i = ''b''" "iv_cluster i = ''k''" "iv_epoch i = 1" "iv_expires i = 300"
    using demo_invited by blast
  let ?c = "demo_cluster\<lparr>cl_invites := [(''x'', i)]\<rparr>"
  have inv: "cl_inv ?c" using demo_cluster_inv by (simp add: cl_inv_def cl_rs_def)
  have adm: "map_of (cl_admissions ?c) (hash_invite ''x'') = None" by (simp add: demo_cluster_def)
  have good: "invite_good ?c ''x'' (NodeId ''b'') 1 i"
    using i by (simp add: invite_good_def cl_is_active_coordinator_def cl_lookup_def demo_cluster_def nid_ok_def)
  obtain c' r where r: "cl_consume_invite ?c ''x'' (NodeId ''b'') 1 1 False = (c', r)"
    by (cases "cl_consume_invite ?c ''x'' (NodeId ''b'') 1 1 False")
  have "NodeId ''b'' \<noteq> cl_local ?c" "\<not> mark_revoked ?c (NodeId ''b'')" by (simp_all add: demo_cluster_def mark_revoked_def)
  with admission_exact [OF inv adm r] good obtain i' where "r = Inr i'"
     "\<exists>a. map_of (cl_assignments c') (NodeId ''b'') = Some a \<and> ra_roles a = {WORKER} \<and> \<not> ra_revoked a" by auto
  moreover have "i' = i" using r \<open>r = Inr i'\<close> unfolding cl_consume_good [OF good] by (auto split: prod.splits sum.splits)
  ultimately show ?thesis using i(1) r by blast
qed

text \<open>
  C24. An invite admits once. After a successful admission, whatever operations follow, the same token (or
  any token with the same hash) is refused; with \<open>allow_retry\<close> it is answered again only for the node it
  admitted.
\<close>

theorem invite_admits_once:
  assumes "cl_inv c" "map_of (cl_admissions c) (hash_invite token) = None"
    and "cl_consume_invite c token t now clock retry = (c1, Inr i)" "hash_invite token' = hash_invite token"
  shows "(\<exists>x. snd (cl_consume_invite (foldl cl_step c1 ops) token' t' now' clock' False) = Inl x)
    \<and> (t' \<noteq> t \<longrightarrow> (\<exists>x. snd (cl_consume_invite (foldl cl_step c1 ops) token' t' now' clock' True) = Inl x))"
proof -
  let ?d = "hash_invite token"
  have g: "invite_good c token t now i"
  proof -
    obtain v where v: "invite_good c token t now v" using cl_consume_bad [of c token t now clock retry] assms(2,3) by auto
    with assms(3) show ?thesis
      unfolding cl_consume_good [OF v] by (auto split: prod.splits sum.splits)
  qed
  have e: "cl_ext c c1" using cl_consume_ext [OF assms(1), of token t now clock retry] assms(3) by simp
  have a: "map_of (cl_admissions c1) ?d = Some (i\<lparr>iv_token := []\<rparr>)"
    using assms(3) unfolding cl_consume_good [OF g] by (auto split: prod.splits sum.splits)
  then have u: "cl_inv c1 \<and> ?d \<in> cl_used c1" using e map_of_SomeD [OF a] by (force simp: cl_ext_def cl_inv_def)
  let ?c = "foldl cl_step c1 ops"
  have r: "map_of (cl_admissions ?c) ?d = Some (i\<lparr>iv_token := []\<rparr>)"
    using cl_admission_runs.run_inv [of c1 ?d "Some (i\<lparr>iv_token := []\<rparr>)" ops] a u by simp
  then have ng: "\<not> (\<exists>v. invite_good ?c token' t' now' v)" using assms(4) by (simp add: invite_good_def)
  have "NodeId (iv_target i) = t" using g by (simp add: invite_good_def)
  with cl_consume_bad [OF ng, of clock' False] cl_consume_bad [OF ng, of clock' True] r assms(4)
  show ?thesis by auto
qed

theorem invite_admits_once_witness:
  "\<exists>c i c1. cl_create_invite demo_cluster (NodeId ''b'') 0 ''x'' = (c, Inr i)
     \<and> cl_consume_invite c ''x'' (NodeId ''b'') 1 1 False = (c1, Inr i)
     \<and> (\<exists>x. snd (cl_consume_invite (foldl cl_step c1 [RevokeMember (NodeId ''b'')]) ''x'' (NodeId ''b'') 2 2 False) = Inl x)"
proof -
  obtain i where i: "cl_create_invite demo_cluster (NodeId ''b'') 0 ''x'' = (demo_cluster\<lparr>cl_invites := [(''x'', i)]\<rparr>, Inr i)"
    "iv_target i = ''b''" "iv_cluster i = ''k''" "iv_epoch i = 1" "iv_expires i = 300"
    using demo_invited by blast
  let ?c = "demo_cluster\<lparr>cl_invites := [(''x'', i)]\<rparr>"
  have inv: "cl_inv ?c" using demo_cluster_inv by (simp add: cl_inv_def cl_rs_def)
  have adm: "map_of (cl_admissions ?c) (hash_invite ''x'') = None" by (simp add: demo_cluster_def)
  have good: "invite_good ?c ''x'' (NodeId ''b'') 1 i"
    using i by (simp add: invite_good_def cl_is_active_coordinator_def cl_lookup_def demo_cluster_def nid_ok_def)
  have act: "cl_is_active_coordinator (cl_burn ?c ''x'')"
    using good by (simp add: invite_good_def)
  have "\<exists>c1. cl_consume_invite ?c ''x'' (NodeId ''b'') 1 1 False = (c1, Inr i)"
    using cl_assign_worker [of "cl_burn ?c ''x''" "NodeId ''b''" 1] inv act
    unfolding cl_consume_good [OF good] by (auto simp: mark_revoked_def demo_cluster_def)
  with invite_admits_once [OF inv adm, of "NodeId ''b''" 1 1 False _ i "''x''"] i(1) show ?thesis by blast
qed

text \<open>
  A completed \<open>join\<close> puts both sides under one authority: the joining node is an active Worker in the
  Coordinator's cluster, the Coordinator lists it as an active Worker, both hold the same cluster id, epoch
  and fencing token, and every authority triple is accepted by one side exactly when the other accepts it.
  A join that raises leaves the joining side as it was.
\<close>

theorem join_binds:
  assumes "cl_inv coord" "map_of (cl_admissions coord) (hash_invite (iv_token i)) = None"
    and "cl_join self coord i pairing now clock = ((self', coord'), r)"
  shows "case r of
      Inl _ \<Rightarrow> self' = self
    | Inr _ \<Rightarrow> pairing (cl_local coord) \<and> cl_local self \<noteq> cl_local coord
        \<and> cl_is_member self' (cl_local self) \<and> cl_is_member coord' (cl_local self)
        \<and> map_of (cl_assignments self') (cl_local coord) = Some (promoted (cl_local coord))
        \<and> cl_id self' = cl_id coord \<and> cl_epoch self' = cl_epoch coord
        \<and> (\<forall>cid e tok. cl_authorize self' cid e tok = cl_authorize coord' cid e tok)"
proof (cases r)
  case (Inl x)
  with assms(3) show ?thesis by (auto simp: cl_join_def split: if_splits prod.splits sum.splits)
next
  case (Inr u)
  let ?t = "cl_local self"
  from assms(3) Inr obtain v where v: "cl_consume_invite coord (iv_token i) ?t now clock True = (coord', Inr v)"
    and p: "pairing (cl_local coord)"
    and s': "self' = self\<lparr>cl_id := cl_id coord', cl_epoch := cl_epoch coord',
                 cl_assignments := dict_of [(?t, worker_assignment ?t), (cl_local coord', promoted (cl_local coord'))],
                 cl_online := dict_set (cl_local coord') True (cl_online self)\<rparr>"
    by (auto simp: cl_join_def split: if_splits prod.splits sum.splits)
  obtain w where g: "invite_good coord (iv_token i) ?t now w"
    using cl_consume_bad [of coord "iv_token i" ?t now clock True] v assms(2) by auto
  have act: "cl_is_active_coordinator (cl_burn coord (iv_token i))" using g by (simp add: invite_good_def)
  have b: "cl_inv (cl_burn coord (iv_token i))" using assms(1) by simp
  have same: "cl_id (cl_burn coord (iv_token i)) = cl_id coord" "cl_epoch (cl_burn coord (iv_token i)) = cl_epoch coord"
    by (simp_all add: cl_burn_def)
  have nt: "?t \<noteq> cl_local coord" "cl_is_member coord' ?t" "cl_local coord' = cl_local coord" "cl_id coord' = cl_id coord"
      "cl_epoch coord' = cl_epoch coord"
    using cl_assign_worker [OF b act, of ?t clock] v unfolding cl_consume_good [OF g]
    by (auto simp: same cl_is_member_def split: if_splits)
  moreover have "map_of (cl_assignments self') (cl_local coord) = Some (promoted (cl_local coord))"
    "map_of (cl_assignments self') ?t = Some (worker_assignment ?t)"
    using nt by (simp_all add: s' dict_of_def)
  ultimately show ?thesis using p Inr s'
    by (auto simp: cl_is_member_def worker_assignment_def cl_authorize_def)
qed

definition demo_joiner :: cluster where
  "demo_joiner = demo_cluster\<lparr>cl_local := NodeId ''b'', cl_id := ''own'',
     cl_assignments := [(NodeId ''b'', promoted (NodeId ''b''))]\<rparr>"

theorem join_binds_witness:
  "\<exists>c i self' coord'. cl_create_invite demo_cluster (NodeId ''b'') 0 ''x'' = (c, Inr i)
     \<and> cl_join demo_joiner c i (\<lambda>_. True) 1 1 = ((self', coord'), Inr ()) \<and> cl_is_member coord' (NodeId ''b'')"
proof -
  obtain i where i: "cl_create_invite demo_cluster (NodeId ''b'') 0 ''x'' = (demo_cluster\<lparr>cl_invites := [(''x'', i)]\<rparr>, Inr i)"
    "iv_target i = ''b''" "iv_cluster i = ''k''" "iv_epoch i = 1" "iv_expires i = 300"
    using demo_invited by blast
  have tok: "iv_token i = ''x''"
    using i(1) by (auto simp: cl_create_invite_def cl_is_active_coordinator_def create_invite_def mk_invite_def
        hash_invite_def demo_cluster_def)
  let ?c = "demo_cluster\<lparr>cl_invites := [(''x'', i)]\<rparr>"
  have inv: "cl_inv ?c" using demo_cluster_inv by (simp add: cl_inv_def cl_rs_def)
  have adm: "map_of (cl_admissions ?c) (hash_invite (iv_token i)) = None" by (simp add: demo_cluster_def)
  have good: "invite_good ?c ''x'' (NodeId ''b'') 1 i"
    using i by (simp add: invite_good_def cl_is_active_coordinator_def cl_lookup_def demo_cluster_def nid_ok_def)
  have act: "cl_is_active_coordinator (cl_burn ?c ''x'')" using good by (simp add: invite_good_def)
  have "\<exists>c1. cl_consume_invite ?c ''x'' (NodeId ''b'') 1 1 True = (c1, Inr i)"
    using cl_assign_worker [of "cl_burn ?c ''x''" "NodeId ''b''" 1] inv act
    unfolding cl_consume_good [OF good] by (auto simp: mark_revoked_def demo_cluster_def)
  then obtain self' coord' where j: "cl_join demo_joiner ?c i (\<lambda>_. True) 1 1 = ((self', coord'), Inr ())"
    by (auto simp: cl_join_def tok demo_joiner_def demo_cluster_def cl_local_assignment_def)
  from join_binds [OF inv adm j] have "cl_is_member coord' (NodeId ''b'')" by (simp add: demo_joiner_def)
  with i(1) j show ?thesis by blast
qed

text \<open>
  A recorded admission is answered again without a look at the member table, so the retry of a node that
  has been revoked in the meantime still succeeds.
\<close>

lemma retry_ignores_revocation:
  assumes "cl_is_active_coordinator c" "map_of (cl_admissions c) (hash_invite token) = Some a" "iv_target a = nid_value t"
    and "nid_ok t"
  shows "cl_consume_invite c token t now clock True = (c, Inr a)"
  using assms by (simp add: cl_consume_invite_def invite_target_id_def Let_def)

end
