(* ===== verification/ClusterRestart.thy ===== *)
theory ClusterRestart
  imports ClusterLaws
begin

text \<open>
  Saving and loading the cluster aggregate: the strict document form reads back as what was written, and
  a cluster object rebuilt from it keeps members, authority, markers, grants and outstanding invites.
\<close>

section \<open>The aggregate\<close>

definition cs_rs :: "cluster_state \<Rightarrow> role_state" where
  "cs_rs cs = \<lparr>assignments = cs_assignments cs, epoch = cs_epoch cs, promotion_epochs = cs_promotions cs,
     capability_grants = cs_grants cs\<rparr>"

definition invite_storable :: "invite_record \<Rightarrow> bool" where
  "invite_storable i \<longleftrightarrow> iv_hash i \<noteq> [] \<and> 0 \<le> iv_epoch i"

definition cs_storable :: "cluster_state \<Rightarrow> bool" where
  "cs_storable cs \<longleftrightarrow> storable (cs_rs cs) \<and> cs_local cs \<noteq> [] \<and> cs_cluster_id cs \<noteq> []
     \<and> list_all invite_storable (cs_invites cs) \<and> list_all invite_storable (cs_admissions cs)
     \<and> finite (cs_used cs) \<and> (\<forall>d \<in> cs_used cs. is_digest d)"

definition cs_stored_form :: "cluster_state \<Rightarrow> cluster_state" where
  "cs_stored_form cs = cs\<lparr>cs_assignments := assignments (stored_form (cs_rs cs)),
     cs_invites := map (\<lambda>i. i\<lparr>iv_token := []\<rparr>) (cs_invites cs),
     cs_admissions := map (\<lambda>i. i\<lparr>iv_token := []\<rparr>) (cs_admissions cs)\<rparr>"

lemma is_digest_sha256 [simp]: "is_digest (sha256_hex s)"
  using sha256_hex_alphabet [of s] by (auto simp: is_digest_def list_all_iff subset_iff)

lemma parse_invite_roundtrip:
  "invite_storable i \<Longrightarrow> parse_invite f (invite_to_dict i) = Inr (i\<lparr>iv_token := []\<rparr>)"
  by (cases i) (simp add: parse_invite_def invite_to_dict_def Let_def mk_invite_def invite_storable_def)

lemma parse_invites_roundtrip:
  assumes "list_all invite_storable is"
  shows "parse_invites (PList (map invite_to_dict is)) f = Inr (map (\<lambda>i. i\<lparr>iv_token := []\<rparr>) is)"
proof -
  have "rmap (\<lambda>i. parse_invite f (invite_to_dict i)) is = Inr (map (\<lambda>i. i\<lparr>iv_token := []\<rparr>) is)"
    using assms by (intro rmap_id) (auto simp: list_all_iff parse_invite_roundtrip)
  then show ?thesis by (simp add: parse_invites_def rmap_map)
qed

lemma cs_raw_id:
  assumes "map_of kvs ''assignments'' = Some a" "map_of kvs ''epoch'' = Some e" "\<not> is_int e"
  shows "cs_raw (pdict kvs) = pdict kvs"
  using assms by (simp add: cs_raw_def Let_def)

lemma is_int_epoch_doc [simp]: "\<not> is_int (case eo of None \<Rightarrow> PNone | Some e \<Rightarrow> epoch_to_dict e)"
  by (cases eo) (simp_all add: epoch_to_dict_def)

lemma image_digests:
  assumes "\<forall>d \<in> U. is_digest d"
  shows "(\<lambda>x. if is_digest (str_of x) then str_of x else sha256_hex (str_of x)) ` PStr ` U = U"
proof -
  have "(\<lambda>x. if is_digest (str_of x) then str_of x else sha256_hex (str_of x)) ` PStr ` U = (\<lambda>d. d) ` U"
    unfolding image_image using assms by (intro image_cong) auto
  then show ?thesis by simp
qed

lemma cs_roundtrip:
  assumes "cs_storable cs"
  shows "\<exists>d. cs_to_dict cs = Inr d \<and> cs_from_dict d = Inr (cs_stored_form cs)"
proof -
  let ?s = "cs_rs cs"
  have st: "storable ?s" and ok: "rs_ok ?s" using assms by (auto simp: cs_storable_def storable_def)
  let ?more = "[(''schema_version'', PInt 2), (''cluster_id'', PStr (cs_cluster_id cs)),
        (''local_node_id'', PStr (cs_local cs)), (''local_id'', PStr (cs_local cs)),
        (''active_invites'', PList (map invite_to_dict (cs_invites cs))),
        (''join_admissions'', PList (map invite_to_dict (cs_admissions cs))),
        (''used_invites'', PList (map PStr (sorted_list_of_set (cs_used cs))))]"
  let ?kvs = "role_state_items ?s True @ ?more"
  have w: "cs_to_dict cs = Inr (pdict ?kvs)"
    using ok by (simp add: cs_to_dict_def rs_ok_def flip: cs_rs_def)
  have raw: "cs_raw (pdict ?kvs) = pdict ?kvs"
    by (rule cs_raw_id [where e = "case epoch ?s of None \<Rightarrow> PNone | Some e \<Rightarrow> epoch_to_dict e"])
      (simp_all add: role_state_items_def)
  note rt = role_state_roundtrip [OF st, of True ?more]
  have look: "is_dict (pdict ?kvs)" "fget_or (pdict ?kvs) ''schema_version'' w = PInt 2"
    "fget_or (pdict ?kvs) ''local_node_id'' w = PStr (cs_local cs)"
    "fget_or (pdict ?kvs) ''cluster_id'' w = PStr (cs_cluster_id cs)"
    "fget_or (pdict ?kvs) ''active_invites'' w = PList (map invite_to_dict (cs_invites cs))"
    "fget_or (pdict ?kvs) ''join_admissions'' w = PList (map invite_to_dict (cs_admissions cs))"
    "fget_or (pdict ?kvs) ''used_invites'' w = PList (map PStr (sorted_list_of_set (cs_used cs)))" for w
    by (simp_all add: role_state_items_def)
  have inv: "parse_invites (PList (map invite_to_dict (cs_invites cs))) ''active invites'' = Inr (map (\<lambda>i. i\<lparr>iv_token := []\<rparr>) (cs_invites cs))"
    "parse_invites (PList (map invite_to_dict (cs_admissions cs))) ''join admissions'' = Inr (map (\<lambda>i. i\<lparr>iv_token := []\<rparr>) (cs_admissions cs))"
    using assms by (auto simp: cs_storable_def intro!: parse_invites_roundtrip)
  have dig: "\<forall>d \<in> cs_used cs. is_digest d" "set (sorted_list_of_set (cs_used cs)) = cs_used cs"
    using assms by (simp_all add: cs_storable_def)
  then have used: "(\<lambda>x. if is_digest (str_of x) then str_of x else sha256_hex (str_of x)) `
      set (map PStr (sorted_list_of_set (cs_used cs))) = cs_used cs"
    using image_digests [OF dig(1)] by (simp only: set_map)
  have ne: "list_all (\<lambda>x. is_str x \<and> str_of x \<noteq> []) (map PStr (sorted_list_of_set (cs_used cs)))"
    using dig by (force simp: list_all_iff is_digest_def)
  have rec: "\<lparr>cs_local = cs_local cs, cs_cluster_id = cs_cluster_id cs, cs_assignments = assignments (stored_form ?s),
      cs_epoch = epoch (stored_form ?s), cs_invites = map (\<lambda>i. i\<lparr>iv_token := []\<rparr>) (cs_invites cs),
      cs_admissions = map (\<lambda>i. i\<lparr>iv_token := []\<rparr>) (cs_admissions cs), cs_used = cs_used cs,
      cs_promotions = promotion_epochs (stored_form ?s), cs_grants = capability_grants (stored_form ?s)\<rparr> = cs_stored_form cs"
    by (simp add: cs_stored_form_def) (simp add: stored_form_def cs_rs_def)
  have nz: "cs_local cs \<noteq> []" "cs_cluster_id cs \<noteq> []" using assms by (simp_all add: cs_storable_def)
  have "cs_from_dict (pdict ?kvs) = Inr (cs_stored_form cs)"
    unfolding cs_from_dict_def raw rt look Let_def rbind.simps str_of.simps list_of.simps inv used
    using ne nz by (simp add: is_two_def rec)
  with w show ?thesis by blast
qed

section \<open>Restart\<close>

text \<open>
  Invites are filed under their token or, after a load, under its hash; admissions under the hash.
\<close>

definition invites_ok :: "cluster \<Rightarrow> bool" where
  "invites_ok c \<longleftrightarrow>
     (\<forall>(k, i) \<in> set (cl_invites c). iv_hash i = (if is_digest k then k else hash_invite k))
   \<and> distinct (map (iv_hash \<circ> snd) (cl_invites c)) \<and> (\<forall>(k, i) \<in> set (cl_admissions c). iv_hash i = k)"

definition restored :: "cluster \<Rightarrow> cluster" where
  "restored c = c\<lparr>cl_assignments := map (\<lambda>(n, a). (n, a\<lparr>ra_job := False\<rparr>)) (cl_assignments c),
     cl_online := [(cl_local c, True)],
     cl_invites := map (\<lambda>(k, i). (iv_hash i, i\<lparr>iv_token := []\<rparr>)) (cl_invites c),
     cl_admissions := dict_of (map (\<lambda>(k, i). (iv_hash i, i\<lparr>iv_token := []\<rparr>)) (cl_admissions c))\<rparr>"

lemma fold_dict_of: "fold (\<lambda>i d. dict_set (f i) i d) is [] = dict_of (map (\<lambda>i. (f i, i)) is)"
  by (simp add: dict_of_def fold_map comp_def)

lemma index_stored:
  assumes "table_ok d" "ids_distinct (map snd d)"
  shows "assignment_index (map (\<lambda>a. a\<lparr>ra_job := False\<rparr>) (filter bound (map snd d)))
    = map (\<lambda>(n, a). (n, a\<lparr>ra_job := False\<rparr>)) d"
proof -
  have "bound_pairs (map (\<lambda>a. a\<lparr>ra_job := False\<rparr>) (filter bound (map snd d))) = map (\<lambda>(n, a). (n, a\<lparr>ra_job := False\<rparr>)) d"
    using assms(1) by (induction d) (auto simp: table_ok_def)
  moreover have "keys_distinct (map (\<lambda>(n, a). (n, a\<lparr>ra_job := False\<rparr>)) d)"
    using assms(1) by (simp add: table_ok_def comp_def case_prod_unfold)
  ultimately show ?thesis by (simp add: assignment_index_def dict_of_distinct)
qed

lemma from_state_restored:
  assumes i: "cl_inv c" and "nid_ok (cl_local c)" "map_of (cl_assignments c) (cl_local c) \<noteq> None" "invites_ok c" "tok \<noteq> []"
  shows "cl_from_state (cl_local c) (cs_stored_form (cl_to_state c)) now cid tok = Inr (restored c)"
proof -
  let ?cs = "cs_stored_form (cl_to_state c)"
  have t: "table_ok (cl_assignments c)" and d: "ids_distinct (map snd (cl_assignments c))"
    using i by (auto simp: cl_inv_def rs_inv_def rs_ok_iff cl_rs_def)
  have as: "cs_assignments ?cs = map (\<lambda>a. a\<lparr>ra_job := False\<rparr>) (filter bound (map snd (cl_assignments c)))"
    by (simp add: cs_stored_form_def stored_form_def cs_rs_def cl_to_state_def)
  obtain a where a: "(cl_local c, a) \<in> set (cl_assignments c)" using assms(3) by (auto dest: map_of_SomeD)
  then have "ra_node_id a = Some (cl_local c)" using t by (auto simp: table_ok_def)
  then have mem: "Some (cl_local c) \<in> ra_node_id ` set (cs_assignments ?cs)"
    using a unfolding as by (force simp: image_iff)
  have iv: "dict_of (map (\<lambda>i. (iv_hash i, i)) (map (\<lambda>i. i\<lparr>iv_token := []\<rparr>) (map snd (cl_invites c))))
      = map (\<lambda>(k, i). (iv_hash i, i\<lparr>iv_token := []\<rparr>)) (cl_invites c)"
    using assms(4) by (subst dict_of_distinct) (auto simp: invites_ok_def comp_def case_prod_unfold)
  have cs: "cs_local ?cs = nid_value (cl_local c)" "cs_cluster_id ?cs = cl_id c" "cs_epoch ?cs = Some (cl_epoch c)"
    "cs_used ?cs = cl_used c" "cs_promotions ?cs = cl_promotions c" "cs_grants ?cs = cl_grants c"
    "cs_invites ?cs = map (\<lambda>i. i\<lparr>iv_token := []\<rparr>) (map snd (cl_invites c))"
    "cs_admissions ?cs = map (\<lambda>i. i\<lparr>iv_token := []\<rparr>) (map snd (cl_admissions c))"
    by (simp_all add: cs_stored_form_def cl_to_state_def)
  have ad: "map (\<lambda>i. (iv_hash i, i)) (map (\<lambda>i. i\<lparr>iv_token := []\<rparr>) (map snd (cl_admissions c)))
      = map (\<lambda>(k, i). (iv_hash i, i\<lparr>iv_token := []\<rparr>)) (cl_admissions c)"
    by (simp add: comp_def case_prod_unfold)
  have ix: "assignment_index (cs_assignments ?cs) = map (\<lambda>(n, a). (n, a\<lparr>ra_job := False\<rparr>)) (cl_assignments c)"
    unfolding as by (rule index_stored [OF t d])
  have "\<not> (cs_local ?cs \<noteq> nid_value (cl_local c) \<or> Some (cl_local c) \<notin> ra_node_id ` set (cs_assignments ?cs))"
    using mem cs(1) by blast
  then show ?thesis
    unfolding cl_from_state_def cs(2-) option.case cluster_new_Inr [OF assms(2,5)] rbind.simps cl_restore_invites_def ix
    by (simp only: if_False cluster.simps fold_dict_of iv ad) (simp add: restored_def)
qed

lemma restored_good:
  assumes "cl_inv c" "invites_ok c" "\<not> is_digest token" "invite_good c token t now i"
  shows "invite_good (restored c) token t now (i\<lparr>iv_token := []\<rparr>)"
proof -
  let ?h = "hash_invite token"
  have dig: "is_digest (iv_hash j)" if "(k, j) \<in> set (cl_invites c)" for k j
    using assms(2) that by (auto simp: invites_ok_def hash_invite_def split: if_splits)
  have none: "map_of (cl_invites (restored c)) token = None"
    using dig assms(3) by (auto simp: restored_def map_of_eq_None_iff)
  have "\<exists>k. (k, i) \<in> set (cl_invites c) \<and> (k = token \<or> k = ?h)"
    using assms(4) by (auto simp: invite_good_def cl_lookup_def split: option.splits dest: map_of_SomeD)
  then obtain k where k: "(k, i) \<in> set (cl_invites c)" "k = token \<or> k = ?h" by blast
  have hi: "iv_hash i = ?h"
    using k assms(2,3) by (auto simp: invites_ok_def hash_invite_def split: if_splits)
  have "map_of (cl_invites (restored c)) ?h = Some (i\<lparr>iv_token := []\<rparr>)"
  proof (rule map_of_is_SomeI)
    show "keys_distinct (cl_invites (restored c))"
      using assms(2) by (simp add: restored_def invites_ok_def comp_def case_prod_unfold)
    have "(\<lambda>(k, i). (iv_hash i, i\<lparr>iv_token := []\<rparr>)) (k, i) \<in> set (cl_invites (restored c))"
      unfolding restored_def using k(1) by (simp del: split_paired_Ex add: rev_image_eqI)
    then show "(?h, i\<lparr>iv_token := []\<rparr>) \<in> set (cl_invites (restored c))" by (simp add: hi)
  qed
  moreover have "map_of (cl_admissions (restored c)) ?h = None"
  proof -
    have "map_of (cl_admissions c) ?h = None" using assms(4) by (simp add: invite_good_def)
    then have "?h \<notin> fst ` set (cl_admissions c)" by (simp add: map_of_eq_None_iff)
    moreover have "fst ` set (map (\<lambda>(k, i). (iv_hash i, i\<lparr>iv_token := []\<rparr>)) (cl_admissions c)) = fst ` set (cl_admissions c)"
      using assms(2) unfolding set_map image_image
      by (intro image_cong) (auto simp: invites_ok_def)
    ultimately have "map_of (rev (map (\<lambda>(k, i). (iv_hash i, i\<lparr>iv_token := []\<rparr>)) (cl_admissions c))) ?h = None"
      by (simp only: map_of_eq_None_iff set_rev not_False_eq_True)
    moreover have "cl_admissions (restored c) = dict_of (map (\<lambda>(k, i). (iv_hash i, i\<lparr>iv_token := []\<rparr>)) (cl_admissions c))"
      by (simp add: restored_def)
    ultimately show ?thesis by (simp only: map_of_dict_of)
  qed
  moreover have "cl_is_active_coordinator (restored c)"
  proof -
    have "map_of (map (\<lambda>(n, a). (n, a\<lparr>ra_job := False\<rparr>)) d) m = map_option (\<lambda>a. a\<lparr>ra_job := False\<rparr>) (map_of d m)"
      for d :: "(node_id \<times> role_assignment) list" and m
      by (induction d) auto
    with assms(4) show ?thesis
      by (auto simp: invite_good_def cl_is_active_coordinator_def restored_def split: option.splits)
  qed
  ultimately show ?thesis using assms(4) none
    by (simp add: invite_good_def cl_lookup_def) (simp add: restored_def)
qed

text \<open>
  A restart keeps the cluster: writing a consistent cluster object and rebuilding it from the document
  succeeds and gives the same cluster id, epoch, lease and token, used invites, promotion markers and
  grants, the same members with only the job flags cleared, and every outstanding invite token that was
  good before is good afterwards, although the document does not hold the tokens.
\<close>

theorem cluster_restart:
  assumes "cl_inv c" "cs_storable (cl_to_state c)" "nid_ok (cl_local c)" "map_of (cl_assignments c) (cl_local c) \<noteq> None"
    and "invites_ok c" "tok \<noteq> []"
  shows "\<exists>d cs c'. cl_to_dict c = Inr d \<and> cs_from_dict d = Inr cs \<and> cl_from_state (cl_local c) cs now cid tok = Inr c'
    \<and> cl_id c' = cl_id c \<and> cl_epoch c' = cl_epoch c \<and> cl_used c' = cl_used c \<and> cl_promotions c' = cl_promotions c
    \<and> cl_grants c' = cl_grants c
    \<and> cl_assignments c' = map (\<lambda>(n, a). (n, a\<lparr>ra_job := False\<rparr>)) (cl_assignments c)
    \<and> (\<forall>token t u i. \<not> is_digest token \<longrightarrow> invite_good c token t u i \<longrightarrow>
         invite_good c' token t u (i\<lparr>iv_token := []\<rparr>))"
proof -
  obtain d where d: "cs_to_dict (cl_to_state c) = Inr d" "cs_from_dict d = Inr (cs_stored_form (cl_to_state c))"
    using cs_roundtrip [OF assms(2)] by blast
  note r = from_state_restored [OF assms(1,3-6), of now cid]
  show ?thesis
    by (rule exI [of _ d], rule exI [of _ "cs_stored_form (cl_to_state c)"], rule exI [of _ "restored c"])
      (use d r restored_good [OF assms(1,5)] in \<open>simp add: cl_to_dict_def; simp add: restored_def\<close>)
qed

definition demo_invite :: invite_record where
  "demo_invite = \<lparr>iv_hash = hash_invite ''x'', iv_target = ''b'', iv_expires = 300, iv_token = ''x'', iv_cluster = ''k'',
     iv_coordinator = ''a'', iv_epoch = 1, iv_fence = ''t0''\<rparr>"

definition demo_inviting :: cluster where
  "demo_inviting = demo_cluster\<lparr>cl_invites := [(''x'', demo_invite)]\<rparr>"

lemma demo_inviting_ok:
  "cl_inv demo_inviting" "cs_storable (cl_to_state demo_inviting)" "nid_ok (cl_local demo_inviting)"
  "map_of (cl_assignments demo_inviting) (cl_local demo_inviting) \<noteq> None" "invites_ok demo_inviting"
  "invite_good demo_inviting ''x'' (NodeId ''b'') 1 demo_invite"
proof -
  show i: "cl_inv demo_inviting" using demo_cluster_inv by (simp add: demo_inviting_def cl_inv_def cl_rs_def)
  have "rs_ok (cs_rs (cl_to_state demo_inviting))"
    using i by (simp add: cl_inv_def rs_inv_def cl_rs_def cs_rs_def cl_to_state_def)
  then show "cs_storable (cl_to_state demo_inviting)"
    by (simp add: cs_storable_def storable_def)
      (simp add: cs_rs_def cl_to_state_def demo_inviting_def demo_cluster_def demo_invite_def invite_storable_def nid_ok_def
        ce_ok_def hash_invite_def)
qed (simp_all add: demo_inviting_def demo_cluster_def demo_invite_def nid_ok_def invites_ok_def is_digest_def
      invite_good_def cl_is_active_coordinator_def cl_lookup_def)

theorem cluster_restart_witness:
  "\<exists>d cs c'. cl_to_dict demo_inviting = Inr d \<and> cs_from_dict d = Inr cs
     \<and> cl_from_state (cl_local demo_inviting) cs 5 ''z'' ''t9'' = Inr c'
     \<and> invite_good c' ''x'' (NodeId ''b'') 1 (demo_invite\<lparr>iv_token := []\<rparr>)"
proof -
  have "\<not> is_digest ''x''" by (simp add: is_digest_def)
  with cluster_restart [OF demo_inviting_ok(1-5), of "''t9''" 5 "''z''"] demo_inviting_ok(6) show ?thesis by blast
qed

text \<open>
  The lookup tries the presented text itself before its hash, and a reloaded invite is filed under its
  hash: the stored hash is accepted in place of the token.
\<close>

lemma stored_hash_admits:
  assumes "cl_is_active_coordinator c" "hash_invite (iv_hash i) \<notin> cl_used c"
    and "map_of (cl_admissions c) (hash_invite (iv_hash i)) = None"
    and "now < iv_expires i" "NodeId (iv_target i) = t" "nid_ok t" "iv_cluster i = cl_id c"
    and "iv_epoch i = ce_epoch (cl_epoch c)"
  shows "invite_good (cl_restore_invites c [i]) (iv_hash i) t now i"
proof -
  have "cl_is_active_coordinator (cl_restore_invites c [i]) = cl_is_active_coordinator c"
    by (auto simp: cl_is_active_coordinator_def cl_restore_invites_def split: option.splits)
  with assms show ?thesis
    by (simp add: invite_good_def cl_lookup_def) (simp add: cl_restore_invites_def)
qed

section \<open>Strict loading\<close>

text \<open>Errors that \<open>ClusterStore.load\<close> turns into \<open>ClusterDataError\<close>.\<close>

definition load_error :: "exn \<Rightarrow> bool" where
  "load_error e \<longleftrightarrow> isa e KeyError \<or> isa e TypeError \<or> isa e ValueError \<or> isa e OverflowError"

definition strict :: "'a res \<Rightarrow> bool" where
  "strict r \<longleftrightarrow> (\<forall>e. r = Inl e \<longrightarrow> load_error e)"

lemma strict_simps [simp]:
  "strict (Inr x)" "strict (raise ValueError m)" "strict (raise TypeError m)" "strict (raise KeyError m)"
  "strict (raise OverflowError m)" "strict (raise ClusterDataError m)"
  by (simp_all add: strict_def load_error_def)

lemma strict_rbind: "strict r \<Longrightarrow> (\<And>x. strict (f x)) \<Longrightarrow> strict (rbind r f)"
  by (cases r) (auto simp: strict_def)

lemma strict_rmap: "(\<And>x. strict (f x)) \<Longrightarrow> strict (rmap f xs)"
  by (auto simp: strict_def dest: rmap_Inl)

lemma strict_makers [simp]:
  "strict (mk_node_id x1)" "strict (mk_role x2)" "strict (mk_permission x3)" "strict (mk_epoch a1 a2 a3 a4 a5)"
  "strict (mk_grant b1 b2 b3 b4 b5)" "strict (mk_assignment c1 c2 c3 c4 c5)" "strict (rs_post_init s)"
  "strict (fitem d1 d2)" "strict (py_float w)" "strict (bool_field e1 e2)" "strict (mk_invite f1 f2 f3 f4 f5 f6 f7 f8)"
  by (auto simp: mk_node_id_def mk_role_def mk_permission_def mk_epoch_def mk_grant_def mk_assignment_def ra_post_init_def
      rs_post_init_def fitem_def bool_field_def ensure_def mk_invite_def Let_def split: option.splits pyfloat.splits)
    (cases w; simp split: option.split)

lemma strict_finite_number [simp]: "strict (finite_number v f)"
  by (auto simp: finite_number_def intro!: strict_rbind split: pyfloat.splits)

lemma strict_from_dict [simp]:
  "strict (ra_from_dict v)" "strict (epoch_from_dict v)" "strict (grant_from_dict v)" "strict (parse_invite f v)"
  by (auto simp: ra_from_dict_def epoch_from_dict_def grant_from_dict_def parse_invite_def Let_def
      intro!: strict_rbind strict_rmap)

lemma strict_role_state [simp]: "strict (role_state_from_dict v)"
  by (auto simp: role_state_from_dict_def Let_def intro!: strict_rbind strict_rmap)

lemma strict_cs_from_dict: "strict (cs_from_dict v)"
  by (auto simp: cs_from_dict_def parse_invites_def Let_def intro!: strict_rbind strict_rmap)

lemma role_state_from_dict_ok:
  assumes "role_state_from_dict v = Inr s"
  shows "rs_ok s"
proof -
  have ra: "ra_ok a" if "ra_from_dict w = Inr a" for w a
    using that by (auto simp: ra_from_dict_def ok_simps mk_assignment_def Let_def dest: ra_post_init_ok split: if_splits)
  from assms obtain ws as where as: "rmap ra_from_dict ws = Inr as" "assignments s = as"
    by (auto simp: role_state_from_dict_def ok_simps rs_post_init_iff Let_def split: if_splits)
  then have "\<forall>a \<in> set (assignments s). ra_ok a" using ra by (auto dest: rmap_Inr_set)
  moreover have "rs_post_init s = Inr s"
    using assms by (auto simp: role_state_from_dict_def ok_simps rs_post_init_iff Let_def split: if_splits)
  ultimately show ?thesis by (simp add: rs_ok_def)
qed

lemma cs_from_dict_ok:
  assumes "cs_from_dict v = Inr cs"
  shows "rs_ok (cs_rs cs) \<and> cs_local cs \<noteq> [] \<and> cs_cluster_id cs \<noteq> [] \<and> (\<forall>d \<in> cs_used cs. is_digest d)"
proof -
  from assms obtain rs where rs: "role_state_from_dict (cs_raw v) = Inr rs" "cs_rs cs = rs"
    by (auto simp: cs_from_dict_def ok_simps Let_def cs_rs_def split: if_splits)
  moreover have "cs_local cs \<noteq> []" "cs_cluster_id cs \<noteq> []"
    using assms by (auto simp: cs_from_dict_def ok_simps Let_def split: if_splits)
  moreover have "\<forall>d \<in> cs_used cs. is_digest d"
    using assms unfolding cs_from_dict_def by (auto simp: ok_simps Let_def split: if_splits)
  ultimately show ?thesis using role_state_from_dict_ok by simp
qed

text \<open>
  Loading never lets a malformed document through as anything but \<open>ClusterDataError\<close>: whatever the
  YAML layer hands over, \<open>ClusterStore.load\<close> either rejects it with that error or returns an aggregate
  whose role state is well formed, whose identity fields are not empty and whose used invites are digests.
\<close>

theorem store_load_strict:
  "case cluster_store_load (Inr v) of
     Inl e \<Rightarrow> exn_cls e = ClusterDataError
   | Inr cs \<Rightarrow> rs_ok (cs_rs cs) \<and> cs_local cs \<noteq> [] \<and> cs_cluster_id cs \<noteq> [] \<and> cs_used cs \<subseteq> Collect is_digest"
proof (cases "cs_from_dict v")
  case (Inl e)
  then have "load_error e" using strict_cs_from_dict [of v] by (simp add: strict_def)
  then show ?thesis using Inl by (simp add: cluster_store_load_def load_error_def raise_def)
next
  case (Inr cs)
  then show ?thesis using cs_from_dict_ok [OF Inr] by (auto simp: cluster_store_load_def)
qed

text \<open>
  The copyable form of an invite carries everything: for an invite the Coordinator creates with
  non-empty names, decoding the encoded payload gives back the same record, hash included.
\<close>

theorem invite_payload_roundtrip:
  assumes "create_invite cid target e now ttl tok = Inr i" "ce_ok e" "nid_ok (ce_coordinator e)"
    and "cid \<noteq> []" "target \<noteq> []" "tok \<noteq> []"
  shows "decode_invite_payload (invite_payload i) = Inr i"
  using assms
  by (auto simp: create_invite_def mk_invite_def decode_invite_payload_def decode_invite_fields_def invite_payload_def
      ce_ok_def nid_ok_def hash_invite_def split: pyfloat.splits if_splits)

theorem invite_payload_roundtrip_witness:
  "\<exists>i. create_invite ''k'' ''b'' demo_epoch 0 (Fin 300) ''x'' = Inr i \<and> decode_invite_payload (invite_payload i) = Inr i"
proof -
  have "\<exists>i. create_invite ''k'' ''b'' demo_epoch 0 (Fin 300) ''x'' = Inr i"
    by (simp add: create_invite_def mk_invite_def hash_invite_def)
  then obtain i where i: "create_invite ''k'' ''b'' demo_epoch 0 (Fin 300) ''x'' = Inr i" ..
  have "decode_invite_payload (invite_payload i) = Inr i"
    by (rule invite_payload_roundtrip [OF i]) (simp_all add: demo_epoch_def ce_ok_def nid_ok_def)
  with i show ?thesis by blast
qed

text \<open>
  An expiry too large for a float escapes the decoder as \<open>OverflowError\<close>, which its \<open>except\<close> clause does
  not name.
\<close>

lemma decode_invite_overflow:
  "decode_invite_payload (pdict [(''token'', PStr ''x''), (''cluster_id'', PStr ''k''), (''coordinator_id'', PStr ''a''),
     (''epoch'', PInt 1), (''fencing_token'', PStr ''t''), (''target_node_id'', PStr ''b''), (''expires_at'', PInt (10 ^ 400))])
   = raise OverflowError ''int too large to convert to float''"
  by (simp add: decode_invite_payload_def decode_invite_fields_def float_limit_def raise_def)

end
