(* ===== verification/Pairing.thy ===== *)
theory Pairing
  imports Identity Interfaces
begin

text \<open>
  \<open>pairing/manager.py\<close>: pending pairing transactions, the two directions of a relationship (outbound trust
  and inbound grants) and the check of fresh candidate material against stored trust.

  The five optional fields that \<open>PendingPairing\<close>, \<open>TrustedPeer\<close> and \<open>PeerGrant\<close> share (identity and
  transport fingerprints, root key, generation, proof) are one record, \<open>binding\<close>. A member of the enumeration
  \<open>NodePermission\<close> is equal to its text but is printed differently, so \<open>pg_members\<close> and \<open>tp_members\<close> say whether a
  permission set was built from members. The clock reading a
  method takes, the fresh transaction id and the fresh secret are arguments; Ed25519 is \<open>sig_ok\<close>.
\<close>

section \<open>Data\<close>

record binding =
  bd_identity :: "string option"
  bd_transport :: "string option"
  bd_root :: "string option"
  bd_generation :: "int option"
  bd_proof :: "string option"

record pending_pairing =
  pp_id :: string
  pp_peer :: node_id
  pp_secret :: string
  pp_expires :: rat
  pp_binding :: binding
  pp_direction :: string
  pp_intent :: string

record trusted_peer =
  tp_peer :: node_id
  tp_secret :: string
  tp_permissions :: "string set"
  tp_binding :: binding
  tp_members :: bool

record peer_grant =
  pg_caller :: node_id
  pg_secret :: string
  pg_permissions :: "string set"
  pg_binding :: binding
  pg_members :: bool

datatype relationship_state =
    UNPAIRED | OUTBOUND_TRUSTED | INBOUND_GRANTED | BIDIRECTIONAL | PENDING_OUTBOUND | PENDING_INBOUND
  | REPAIR_REQUIRED | IDENTITY_CONFLICT

record pairing_manager =
  pm_local :: node_id
  pm_ttl :: rat
  pm_pending :: "(string, pending_pairing) dict"
  pm_trusted :: "(node_id, trusted_peer) dict"
  pm_grants :: "(node_id, peer_grant) dict"
  pm_broken :: "(node_id, bool) dict"

definition READ_ONLY_PERMISSIONS :: "string set" where
  "READ_ONLY_PERMISSIONS = {''ping'', ''read_state''}"

definition DIRECTIONS :: "string set" where
  "DIRECTIONS = {''outbound'', ''inbound''}"

definition INTENTS :: "string set" where
  "INTENTS = {''pair'', ''repair''}"

definition mk_pending ::
  "string \<Rightarrow> node_id \<Rightarrow> string \<Rightarrow> rat \<Rightarrow> binding \<Rightarrow> string \<Rightarrow> string \<Rightarrow> pending_pairing res" where
  "mk_pending i p s x b d n =
     (if d \<notin> DIRECTIONS then raise ValueError ''pairing direction is invalid''
      else if n \<notin> INTENTS then raise ValueError ''pairing intent is invalid''
      else Inr \<lparr>pp_id = i, pp_peer = p, pp_secret = s, pp_expires = x, pp_binding = b, pp_direction = d, pp_intent = n\<rparr>)"

section \<open>Transport continuity\<close>

fun truthy :: "string option \<Rightarrow> bool" where
  "truthy None = False"
| "truthy (Some s) = (s \<noteq> [])"

definition or_empty :: "string option \<Rightarrow> string" where
  "or_empty o1 = (case o1 of None \<Rightarrow> [] | Some s \<Rightarrow> s)"

definition grant_root_continuous ::
  "sig_check \<Rightarrow> peer_grant \<Rightarrow> string option \<Rightarrow> int option \<Rightarrow> string \<Rightarrow> string option \<Rightarrow> bool" where
  "grant_root_continuous sig_ok g root_key generation fingerprint prf =
     (let b = pg_binding g in
      if \<not> truthy (bd_root b) then False
      else if root_key \<noteq> bd_root b then False
      else if generation = None \<or> \<not> truthy prf then False
      else verify_transport_proof sig_ok (pg_caller g) (or_empty (bd_root b)) (the generation) fingerprint (or_empty prf))"

text \<open>The argument \<open>peer\<close> is \<open>peer_id\<close> of a trusted peer or \<open>caller_id\<close> of a grant.\<close>

definition candidate_transport_generation_allowed ::
  "sig_check \<Rightarrow> node_id \<Rightarrow> binding \<Rightarrow> string option \<Rightarrow> int option \<Rightarrow> string option \<Rightarrow> bool" where
  "candidate_transport_generation_allowed sig_ok peer b fingerprint generation prf =
     (if bd_transport b = None \<or> fingerprint = bd_transport b then True
      else truthy (bd_root b)
        \<and> (case generation of
             None \<Rightarrow> False
           | Some g \<Rightarrow>
               (case bd_generation b of None \<Rightarrow> True | Some g0 \<Rightarrow> g > g0)
               \<and> truthy prf
               \<and> verify_transport_proof sig_ok peer (or_empty (bd_root b)) g (or_empty fingerprint) (or_empty prf)))"

section \<open>Transactions\<close>

definition find_pending :: "pairing_manager \<Rightarrow> node_id \<Rightarrow> string \<Rightarrow> rat \<Rightarrow> pending_pairing option" where
  "find_pending m peer secret current =
     find (\<lambda>t. pp_peer t = peer \<and> pp_secret t = secret \<and> pp_expires t > current) (map snd (pm_pending m))"

definition find_pending_for ::
  "pairing_manager \<Rightarrow> node_id \<Rightarrow> string option \<Rightarrow> rat \<Rightarrow> pending_pairing option" where
  "find_pending_for m peer direction current =
     find (\<lambda>t. pp_peer t = peer \<and> pp_expires t > current \<and> (direction = None \<or> direction = Some (pp_direction t)))
       (map snd (pm_pending m))"

definition active :: "pairing_manager \<Rightarrow> string \<Rightarrow> rat \<Rightarrow> pending_pairing res" where
  "active m tx current =
     (case map_of (pm_pending m) tx of
        None \<Rightarrow> raise ValueError ''pairing transaction is missing or expired''
      | Some t \<Rightarrow>
          if pp_expires t \<le> current then raise ValueError ''pairing transaction is missing or expired'' else Inr t)"

definition pm_begin ::
  "pairing_manager \<Rightarrow> node_id \<Rightarrow> string option \<Rightarrow> binding \<Rightarrow> string \<Rightarrow> string \<Rightarrow> rat \<Rightarrow> string \<Rightarrow> string
   \<Rightarrow> pairing_manager \<times> pending_pairing res" where
  "pm_begin m peer secret b direction intent now fresh_id fresh_secret =
     (if direction \<notin> DIRECTIONS then (m, raise ValueError ''pairing direction is invalid'')
      else if intent \<notin> INTENTS then (m, raise ValueError ''pairing intent is invalid'')
      else
        let replay = (case secret of None \<Rightarrow> None | Some s \<Rightarrow> find_pending m peer s now)
        in if (case replay of None \<Rightarrow> False | Some t \<Rightarrow> pp_direction t = direction \<and> pp_intent t = intent)
           then (m, Inr (the replay))
           else if find_pending_for m peer (Some direction) now \<noteq> None
           then (m, raise PairingBusy ''a pairing transaction is already active for this peer'')
           else (case mk_pending fresh_id peer (if truthy secret then or_empty secret else fresh_secret)
                        (now + pm_ttl m) b direction intent of
                   Inl x \<Rightarrow> (m, Inl x)
                 | Inr u \<Rightarrow> (m\<lparr>pm_pending := dict_set (pp_id u) u (pm_pending m)\<rparr>, Inr u)))"

definition pm_approve :: "pairing_manager \<Rightarrow> string \<Rightarrow> string set \<Rightarrow> rat \<Rightarrow> pairing_manager \<times> peer_grant res" where
  "pm_approve m tx permissions now =
     (case active m tx now of
        Inl x \<Rightarrow> (m, Inl x)
      | Inr t \<Rightarrow>
          if \<not> permissions \<subseteq> READ_ONLY_PERMISSIONS then (m, raise ValueError ''pairing permissions are read-only'')
          else let g = \<lparr>pg_caller = pp_peer t, pg_secret = pp_secret t, pg_permissions = permissions,
                        pg_binding = pp_binding t, pg_members = False\<rparr>
            in (m\<lparr>pm_grants := dict_set (pp_peer t) g (pm_grants m)\<rparr>, Inr g))"

definition pm_receive_request ::
  "pairing_manager \<Rightarrow> node_id \<Rightarrow> pending_pairing \<Rightarrow> rat \<Rightarrow> pairing_manager \<times> pending_pairing res" where
  "pm_receive_request m caller t now =
     (if pp_expires t \<le> now then (m, raise ValueError ''pairing transaction is expired'')
      else case mk_pending (pp_id t) caller (pp_secret t) (pp_expires t) (pp_binding t) ''inbound'' (pp_intent t) of
        Inl x \<Rightarrow> (m, Inl x)
      | Inr u \<Rightarrow> (m\<lparr>pm_pending := dict_set (pp_id u) u (pm_pending m)\<rparr>, Inr u))"

definition pm_trust :: "pairing_manager \<Rightarrow> string \<Rightarrow> trusted_peer \<Rightarrow> pairing_manager" where
  \<comment> \<open>the common end of \<open>confirm\<close> and \<open>accept_grant\<close>\<close>
  "pm_trust m tx p = m\<lparr>pm_trusted := dict_set (tp_peer p) p (pm_trusted m),
     pm_broken := dict_pop (tp_peer p) (pm_broken m), pm_pending := dict_pop tx (pm_pending m)\<rparr>"

definition pm_confirm :: "pairing_manager \<Rightarrow> string \<Rightarrow> rat \<Rightarrow> pairing_manager \<times> trusted_peer res" where
  "pm_confirm m tx now =
     (case active m tx now of
        Inl x \<Rightarrow> (m, Inl x)
      | Inr t \<Rightarrow>
          (case map_of (pm_grants m) (pp_peer t) of
             None \<Rightarrow> (m, raise ValueError ''pairing was not approved'')
           | Some g \<Rightarrow>
               let p = \<lparr>tp_peer = pp_peer t, tp_secret = pp_secret t, tp_permissions = pg_permissions g,
                        tp_binding = pg_binding g, tp_members = pg_members g\<rparr>
               in (pm_trust m tx p, Inr p)))"

definition pm_accept_grant ::
  "pairing_manager \<Rightarrow> string \<Rightarrow> node_id \<Rightarrow> peer_grant \<Rightarrow> binding \<Rightarrow> rat \<Rightarrow> pairing_manager \<times> trusted_peer res" where
  "pm_accept_grant m tx peer g peer_binding now =
     (case active m tx now of
        Inl x \<Rightarrow> (m, Inl x)
      | Inr t \<Rightarrow>
          if pp_peer t \<noteq> peer \<or> pg_caller g \<noteq> pm_local m
          then (m, raise ValueError ''pairing grant binding mismatch'')
          else if pg_binding g \<noteq> pp_binding t
          then (m, raise ValueError ''pairing fingerprint binding mismatch'')
          else let p = \<lparr>tp_peer = peer, tp_secret = pp_secret t, tp_permissions = pg_permissions g,
                        tp_binding = peer_binding, tp_members = pg_members g\<rparr>
            in (pm_trust m tx p, Inr p))"

definition pm_abort :: "pairing_manager \<Rightarrow> string \<Rightarrow> pairing_manager" where
  "pm_abort m tx = m\<lparr>pm_pending := dict_pop tx (pm_pending m)\<rparr>"

definition pm_prune_expired :: "pairing_manager \<Rightarrow> rat \<Rightarrow> pairing_manager \<times> nat" where
  "pm_prune_expired m current =
     (let expired = filter (\<lambda>(k, t). pp_expires t \<le> current) (pm_pending m)
      in (m\<lparr>pm_pending := fold (\<lambda>(k, t) d. dict_pop k d) expired (pm_pending m)\<rparr>, length expired))"

section \<open>Relationships\<close>

definition pm_revoke :: "pairing_manager \<Rightarrow> node_id \<Rightarrow> pairing_manager" where
  "pm_revoke m peer = m\<lparr>pm_trusted := dict_pop peer (pm_trusted m), pm_grants := dict_pop peer (pm_grants m),
     pm_broken := dict_pop peer (pm_broken m),
     pm_pending := filter (\<lambda>(k, t). pp_peer t \<noteq> peer) (pm_pending m)\<rparr>"

definition pm_revoke_trusted :: "node_id \<Rightarrow> pairing_manager \<Rightarrow> pairing_manager" where
  "pm_revoke_trusted peer m = m\<lparr>pm_trusted := dict_pop peer (pm_trusted m), pm_broken := dict_pop peer (pm_broken m),
     pm_pending := filter (\<lambda>(k, t). \<not> (pp_peer t = peer \<and> pp_direction t = ''outbound'')) (pm_pending m)\<rparr>"

definition pm_revoke_grant :: "node_id \<Rightarrow> pairing_manager \<Rightarrow> pairing_manager" where
  "pm_revoke_grant peer m = m\<lparr>pm_grants := dict_pop peer (pm_grants m),
     pm_pending := filter (\<lambda>(k, t). \<not> (pp_peer t = peer \<and> pp_direction t = ''inbound'')) (pm_pending m)\<rparr>"

definition pm_is_auth_broken :: "pairing_manager \<Rightarrow> node_id \<Rightarrow> bool" where
  "pm_is_auth_broken m peer \<longleftrightarrow> map_of (pm_broken m) peer = Some True"

definition pm_relationship :: "pairing_manager \<Rightarrow> node_id \<Rightarrow> rat \<Rightarrow> relationship_state" where
  "pm_relationship m peer now =
     (let outbound = (map_of (pm_trusted m) peer \<noteq> None); inbound = (map_of (pm_grants m) peer \<noteq> None)
      in if outbound \<and> pm_is_auth_broken m peer then REPAIR_REQUIRED
         else if outbound \<and> inbound then BIDIRECTIONAL
         else if outbound then OUTBOUND_TRUSTED
         else if inbound then INBOUND_GRANTED
         else case find_pending_for m peer None now of
           Some t \<Rightarrow> if pp_direction t = ''outbound'' then PENDING_OUTBOUND else PENDING_INBOUND
         | None \<Rightarrow> UNPAIRED)"

definition pm_classify_trusted_candidate ::
  "sig_check \<Rightarrow> pairing_manager \<Rightarrow> node_id \<Rightarrow> string option \<Rightarrow> string option \<Rightarrow> int option \<Rightarrow> string option \<Rightarrow> rat
   \<Rightarrow> relationship_state" where
  "pm_classify_trusted_candidate sig_ok m peer root_key fingerprint generation prf now =
     (case map_of (pm_trusted m) peer of
        None \<Rightarrow> pm_relationship m peer now
      | Some p \<Rightarrow>
          let b = tp_binding p in
          if \<not> truthy (bd_root b) then IDENTITY_CONFLICT
          else if root_key \<noteq> bd_root b then IDENTITY_CONFLICT
          else let proven = (case generation of None \<Rightarrow> False
                   | Some g \<Rightarrow> truthy prf \<and> truthy fingerprint
                       \<and> verify_transport_proof sig_ok peer (or_empty (bd_root b)) g (or_empty fingerprint) (or_empty prf))
          in if fingerprint = bd_transport b
             then (if pm_is_auth_broken m peer then REPAIR_REQUIRED else OUTBOUND_TRUSTED)
             else let rotation = (proven \<and> (case bd_generation b of None \<Rightarrow> True
                         | Some g0 \<Rightarrow> (case generation of None \<Rightarrow> False | Some g \<Rightarrow> g > g0)))
             in if rotation then (if pm_is_auth_broken m peer then REPAIR_REQUIRED else OUTBOUND_TRUSTED)
                else if proven then REPAIR_REQUIRED
                else IDENTITY_CONFLICT)"

definition pm_mark_auth_failure :: "pairing_manager \<Rightarrow> node_id \<Rightarrow> pairing_manager" where
  "pm_mark_auth_failure m peer =
     (if map_of (pm_trusted m) peer \<noteq> None then m\<lparr>pm_broken := dict_set peer True (pm_broken m)\<rparr> else m)"

definition pm_mark_auth_ok :: "pairing_manager \<Rightarrow> node_id \<Rightarrow> pairing_manager" where
  "pm_mark_auth_ok m peer = m\<lparr>pm_broken := dict_pop peer (pm_broken m)\<rparr>"

definition pm_has_outbound_trust :: "pairing_manager \<Rightarrow> node_id \<Rightarrow> bool" where
  "pm_has_outbound_trust m peer \<longleftrightarrow> map_of (pm_trusted m) peer \<noteq> None"

definition pm_has_valid_relationship :: "pairing_manager \<Rightarrow> node_id \<Rightarrow> bool" where
  "pm_has_valid_relationship m peer \<longleftrightarrow>
     map_of (pm_trusted m) peer \<noteq> None \<or> (\<exists>g \<in> snd ` set (pm_grants m). pg_caller g = peer)"

definition pm_can_join_cluster :: "pairing_manager \<Rightarrow> node_id \<Rightarrow> bool" where
  "pm_can_join_cluster m peer = pm_has_valid_relationship m peer"

definition pm_restore_trusted ::
  "pairing_manager \<Rightarrow> node_id \<Rightarrow> trusted_peer option \<Rightarrow> bool \<Rightarrow> pairing_manager" where
  "pm_restore_trusted m peer trusted auth_broken =
     (case trusted of
        None \<Rightarrow> pm_revoke_trusted peer m
      | Some p \<Rightarrow> m\<lparr>pm_trusted := dict_set peer p (pm_trusted m),
          pm_broken := (if auth_broken then dict_set peer True (pm_broken m) else dict_pop peer (pm_broken m))\<rparr>)"

record pairing_snapshot =
  sn_trusted :: "(node_id, trusted_peer) dict"
  sn_grants :: "(node_id, peer_grant) dict"
  sn_pending :: "(string, pending_pairing) dict"
  sn_broken :: "(node_id, bool) dict"

definition pm_snapshot :: "pairing_manager \<Rightarrow> pairing_snapshot" where
  "pm_snapshot m = \<lparr>sn_trusted = pm_trusted m, sn_grants = pm_grants m, sn_pending = pm_pending m, sn_broken = pm_broken m\<rparr>"

definition pm_restore_snapshot :: "pairing_manager \<Rightarrow> pairing_snapshot \<Rightarrow> pairing_manager" where
  "pm_restore_snapshot m sn = m\<lparr>pm_trusted := sn_trusted sn, pm_grants := sn_grants sn, pm_pending := sn_pending sn,
     pm_broken := sn_broken sn\<rparr>"

definition pm_can_call :: "pairing_manager \<Rightarrow> node_id \<Rightarrow> string \<Rightarrow> bool" where
  "pm_can_call m peer permission =
     (case map_of (pm_trusted m) peer of None \<Rightarrow> False | Some p \<Rightarrow> permission \<in> tp_permissions p)"

end
