(* ===== verification/PairingLaws.thy ===== *)
theory PairingLaws
  imports Pairing
begin

text \<open>
  The laws of the pairing manager: the four tables stay consistent, the two directions of a relationship
  are independent, a transaction is spent once and only before it expires, and stored trust is only
  extended to candidates that keep the stored root.
\<close>

section \<open>Consistency\<close>

definition pm_inv :: "pairing_manager \<Rightarrow> bool" where
  "pm_inv m \<longleftrightarrow> keys_distinct (pm_pending m) \<and> keys_distinct (pm_trusted m) \<and> keys_distinct (pm_grants m)
     \<and> keys_distinct (pm_broken m)
     \<and> (\<forall>(k, t) \<in> set (pm_pending m). pp_id t = k \<and> pp_direction t \<in> DIRECTIONS \<and> pp_intent t \<in> INTENTS)
     \<and> (\<forall>(k, p) \<in> set (pm_trusted m). tp_peer p = k) \<and> (\<forall>(k, g) \<in> set (pm_grants m). pg_caller g = k)
     \<and> fst ` set (pm_broken m) \<subseteq> fst ` set (pm_trusted m)"

datatype pm_op =
    Begin node_id "string option" binding string string rat string string
  | Approve string "string set" rat
  | ReceiveRequest node_id pending_pairing rat
  | Confirm string rat
  | AcceptGrant string node_id peer_grant binding rat
  | Abort string
  | PruneExpired rat
  | RevokeBoth node_id
  | RevokeTrusted node_id
  | RevokeGrant node_id
  | MarkFailure node_id
  | MarkOk node_id

fun pm_step :: "pairing_manager \<Rightarrow> pm_op \<Rightarrow> pairing_manager" where
  "pm_step m (Begin p s b d n now i f) = fst (pm_begin m p s b d n now i f)"
| "pm_step m (Approve tx ps now) = fst (pm_approve m tx ps now)"
| "pm_step m (ReceiveRequest c t now) = fst (pm_receive_request m c t now)"
| "pm_step m (Confirm tx now) = fst (pm_confirm m tx now)"
| "pm_step m (AcceptGrant tx p g b now) = fst (pm_accept_grant m tx p g b now)"
| "pm_step m (Abort tx) = pm_abort m tx"
| "pm_step m (PruneExpired now) = fst (pm_prune_expired m now)"
| "pm_step m (RevokeBoth p) = pm_revoke m p"
| "pm_step m (RevokeTrusted p) = pm_revoke_trusted p m"
| "pm_step m (RevokeGrant p) = pm_revoke_grant p m"
| "pm_step m (MarkFailure p) = pm_mark_auth_failure m p"
| "pm_step m (MarkOk p) = pm_mark_auth_ok m p"

lemma set_dict_set_sub: "x \<in> set (dict_set k v d) \<Longrightarrow> x = (k, v) \<or> x \<in> set d"
  by (induction d) (auto split: if_splits)

lemma mk_pending_Inr:
  "mk_pending i p s x b d n = Inr u \<longleftrightarrow> d \<in> DIRECTIONS \<and> n \<in> INTENTS
     \<and> u = \<lparr>pp_id = i, pp_peer = p, pp_secret = s, pp_expires = x, pp_binding = b, pp_direction = d, pp_intent = n\<rparr>"
  by (auto simp: mk_pending_def)

lemma active_Inr: "active m tx now = Inr t \<longleftrightarrow> map_of (pm_pending m) tx = Some t \<and> now < pp_expires t"
  by (auto simp: active_def split: option.splits)

lemma prune_fold: "fold (\<lambda>(k, t) d. dict_pop k d) xs d = filter (\<lambda>x. fst x \<notin> fst ` set xs) d"
proof (induction xs arbitrary: d)
  case (Cons x xs)
  then show ?case by (cases x) (auto simp: AList.delete_eq intro!: filter_cong)
qed simp

lemma pm_prune_eq:
  assumes "keys_distinct (pm_pending m)"
  shows "pm_pending (fst (pm_prune_expired m now)) = filter (\<lambda>(k, t). now < pp_expires t) (pm_pending m)"
proof -
  let ?e = "filter (\<lambda>(k, t). pp_expires t \<le> now) (pm_pending m)"
  have "fst x \<notin> fst ` set ?e \<longleftrightarrow> (case x of (k, t) \<Rightarrow> now < pp_expires t)" if "x \<in> set (pm_pending m)" for x
  proof -
    have "y = x" if "y \<in> set (pm_pending m)" "fst y = fst x" for y
      using that \<open>x \<in> set (pm_pending m)\<close> assms by (metis eq_key_imp_eq_value prod.collapse)
    then have "(\<exists>y \<in> set (pm_pending m). fst y = fst x \<and> pp_expires (snd y) \<le> now) \<longleftrightarrow> pp_expires (snd x) \<le> now"
      using that by blast
    then show ?thesis by (fastforce simp: image_iff case_prod_unfold not_less)
  qed
  then show ?thesis by (auto simp: pm_prune_expired_def Let_def prune_fold intro!: filter_cong)
qed

lemma pm_trust_inv:
  assumes "pm_inv m"
  shows "pm_inv (pm_trust m tx p)"
  using assms unfolding pm_inv_def pm_trust_def
  by (auto simp: dict_pop_set dict_simps dest!: set_dict_set_sub)

lemma pm_add_pending_inv:
  "pm_inv m \<Longrightarrow> pp_id u = k \<Longrightarrow> pp_direction u \<in> DIRECTIONS \<Longrightarrow> pp_intent u \<in> INTENTS \<Longrightarrow>
   pm_inv (m\<lparr>pm_pending := dict_set k u (pm_pending m)\<rparr>)"
  unfolding pm_inv_def by (auto dest!: set_dict_set_sub)

definition begin_result :: "pairing_manager \<Rightarrow> node_id \<Rightarrow> string option \<Rightarrow> string \<Rightarrow> string \<Rightarrow> rat \<Rightarrow> string
    \<Rightarrow> pending_pairing \<Rightarrow> bool" where
  "begin_result m p s d n now i u \<longleftrightarrow> pp_peer u = p \<and> pp_direction u = d \<and> pp_intent u = n \<and> pp_id u = i
     \<and> pp_expires u = now + pm_ttl m \<and> d \<in> DIRECTIONS \<and> n \<in> INTENTS \<and> find_pending_for m p (Some d) now = None"

lemma pm_begin_cases:
  obtains (refused) e where "pm_begin m p s b d n now i f = (m, Inl e)"
  | (replayed) u where "pm_begin m p s b d n now i f = (m, Inr u)" "u \<in> snd ` set (pm_pending m)" "pp_peer u = p"
      "pp_direction u = d" "pp_intent u = n" "s = Some (pp_secret u)" "now < pp_expires u"
  | (new) u where "pm_begin m p s b d n now i f = (m\<lparr>pm_pending := dict_set i u (pm_pending m)\<rparr>, Inr u)"
      "begin_result m p s d n now i u"
proof (cases "d \<in> DIRECTIONS \<and> n \<in> INTENTS")
  case False
  then have "\<exists>e. pm_begin m p s b d n now i f = (m, Inl e)" by (auto simp: pm_begin_def raise_def)
  then show ?thesis using refused by blast
next
  case True
  let ?replay = "case s of None \<Rightarrow> None | Some x \<Rightarrow> find_pending m p x now"
  show ?thesis
  proof (cases "\<exists>t. ?replay = Some t \<and> pp_direction t = d \<and> pp_intent t = n")
    case rp: True
    then obtain t where t: "?replay = Some t" "pp_direction t = d" "pp_intent t = n" by blast
    then obtain x where x: "s = Some x" "find_pending m p x now = Some t" by (auto split: option.splits)
    from find_Some_D [OF x(2) [unfolded find_pending_def]] x(1) t True show ?thesis
      by (intro replayed [of t]) (auto simp: pm_begin_def Let_def)
  next
    case nr: False
    then have eq: "pm_begin m p s b d n now i f = (if find_pending_for m p (Some d) now \<noteq> None
           then (m, raise PairingBusy ''a pairing transaction is already active for this peer'')
           else (case mk_pending i p (if truthy s then or_empty s else f) (now + pm_ttl m) b d n of
                   Inl x \<Rightarrow> (m, Inl x)
                 | Inr u \<Rightarrow> (m\<lparr>pm_pending := dict_set (pp_id u) u (pm_pending m)\<rparr>, Inr u)))"
      using True by (auto simp: pm_begin_def Let_def split: option.splits)
    show ?thesis
    proof (cases "find_pending_for m p (Some d) now")
      case None
      let ?u = "\<lparr>pp_id = i, pp_peer = p, pp_secret = (if truthy s then or_empty s else f), pp_expires = now + pm_ttl m,
        pp_binding = b, pp_direction = d, pp_intent = n\<rparr>"
      have "pm_begin m p s b d n now i f = (m\<lparr>pm_pending := dict_set i ?u (pm_pending m)\<rparr>, Inr ?u)"
        using eq None True by (simp add: mk_pending_def)
      then show ?thesis by (rule new) (use None True in \<open>simp add: begin_result_def\<close>)
    next
      case (Some v)
      then show ?thesis using eq refused by (simp add: raise_def)
    qed
  qed
qed

lemma pm_step_inv: "pm_inv m \<Longrightarrow> pm_inv (pm_step m x)"
proof (cases x)
  case (Begin p s b d n now i f)
  then show "pm_inv m \<Longrightarrow> pm_inv (pm_step m x)"
    by (cases rule: pm_begin_cases [of m p s b d n now i f]) (auto simp: begin_result_def intro!: pm_add_pending_inv)
next
  case (Approve tx ps now)
  then show "pm_inv m \<Longrightarrow> pm_inv (pm_step m x)"
    unfolding pm_inv_def by (auto simp: pm_approve_def Let_def split: sum.splits dest!: set_dict_set_sub)
next
  case (ReceiveRequest c t now)
  then show "pm_inv m \<Longrightarrow> pm_inv (pm_step m x)"
    by (auto simp: pm_receive_request_def mk_pending_Inr split: sum.splits intro!: pm_add_pending_inv)
next
  case (Confirm tx now)
  then show "pm_inv m \<Longrightarrow> pm_inv (pm_step m x)"
    by (auto simp: pm_confirm_def Let_def split: sum.splits option.splits intro!: pm_trust_inv)
next
  case (AcceptGrant tx p g b now)
  then show "pm_inv m \<Longrightarrow> pm_inv (pm_step m x)"
    by (auto simp: pm_accept_grant_def Let_def split: sum.splits intro!: pm_trust_inv)
next
  case (PruneExpired now)
  assume i: "pm_inv m"
  let ?m = "fst (pm_prune_expired m now)"
  have "pm_pending ?m = filter (\<lambda>(k, t). now < pp_expires t) (pm_pending m)"
    using i by (intro pm_prune_eq) (simp add: pm_inv_def)
  moreover have "pm_trusted ?m = pm_trusted m" "pm_grants ?m = pm_grants m" "pm_broken ?m = pm_broken m"
    by (simp_all add: pm_prune_expired_def Let_def)
  ultimately show "pm_inv (pm_step m x)" using i PruneExpired by (auto simp: pm_inv_def)
next
  case (MarkFailure p)
  then show "pm_inv m \<Longrightarrow> pm_inv (pm_step m x)"
    unfolding pm_inv_def by (auto simp: pm_mark_auth_failure_def dict_simps dest: map_of_SomeD intro: rev_image_eqI)
qed (auto simp: pm_inv_def pm_abort_def pm_revoke_def pm_revoke_trusted_def pm_revoke_grant_def pm_mark_auth_ok_def
      dict_pop_set)

interpretation pm_runs: transition_system pm_step pm_inv
  by unfold_locales (rule pm_step_inv)

section \<open>Read-only grants\<close>

definition pm_new :: "node_id \<Rightarrow> rat \<Rightarrow> pairing_manager" where
  "pm_new n ttl = \<lparr>pm_local = n, pm_ttl = ttl, pm_pending = [], pm_trusted = [], pm_grants = [], pm_broken = []\<rparr>"

definition granted :: "pairing_manager \<Rightarrow> string set" where
  "granted m = \<Union> (pg_permissions ` snd ` set (pm_grants m))"

lemma pm_begin_keeps [simp]:
  "pm_trusted (fst (pm_begin m p s b d n now i f)) = pm_trusted m"
  "pm_grants (fst (pm_begin m p s b d n now i f)) = pm_grants m"
  "pm_broken (fst (pm_begin m p s b d n now i f)) = pm_broken m"
  by (cases rule: pm_begin_cases [of m p s b d n now i f]; simp)+

lemma pm_receive_keeps [simp]:
  "pm_trusted (fst (pm_receive_request m c t now)) = pm_trusted m"
  "pm_grants (fst (pm_receive_request m c t now)) = pm_grants m"
  "pm_broken (fst (pm_receive_request m c t now)) = pm_broken m"
  by (auto simp: pm_receive_request_def split: sum.splits)

lemma pm_approve_keeps [simp]:
  "pm_trusted (fst (pm_approve m tx ps now)) = pm_trusted m" "pm_broken (fst (pm_approve m tx ps now)) = pm_broken m"
  "pm_pending (fst (pm_approve m tx ps now)) = pm_pending m"
  by (auto simp: pm_approve_def Let_def split: sum.splits)

lemma pm_confirm_keeps [simp]: "pm_grants (fst (pm_confirm m tx now)) = pm_grants m"
  by (auto simp: pm_confirm_def pm_trust_def Let_def split: sum.splits option.splits)

lemma pm_accept_keeps [simp]: "pm_grants (fst (pm_accept_grant m tx p g b now)) = pm_grants m"
  by (auto simp: pm_accept_grant_def pm_trust_def Let_def split: sum.splits)

lemma pm_prune_keeps [simp]:
  "pm_trusted (fst (pm_prune_expired m now)) = pm_trusted m" "pm_grants (fst (pm_prune_expired m now)) = pm_grants m"
  "pm_broken (fst (pm_prune_expired m now)) = pm_broken m"
  by (simp_all add: pm_prune_expired_def Let_def)

lemma granted_add: "granted (m\<lparr>pm_grants := dict_set k g (pm_grants m)\<rparr>) \<subseteq> pg_permissions g \<union> granted m"
  by (auto simp: granted_def dest!: set_dict_set_sub)

lemma granted_step:
  assumes "granted m \<subseteq> READ_ONLY_PERMISSIONS"
  shows "granted (pm_step m x) \<subseteq> READ_ONLY_PERMISSIONS"
proof (cases x)
  case (Approve tx ps now)
  then show ?thesis
    using assms by (auto simp: pm_approve_def Let_def split: sum.splits dest!: granted_add [THEN subsetD])
qed (use assms in \<open>auto simp: granted_def pm_abort_def pm_revoke_def pm_revoke_trusted_def pm_revoke_grant_def
      pm_mark_auth_ok_def pm_mark_auth_failure_def dict_pop_set\<close>)

interpretation pm_read_runs: transition_system pm_step "\<lambda>m. granted m \<subseteq> READ_ONLY_PERMISSIONS"
  by unfold_locales (rule granted_step)

section \<open>Properties\<close>

text \<open>
  Whatever requests, approvals, confirmations, revocations and authentication marks a new manager goes
  through, its tables stay consistent (each entry filed under its own id, authentication marks only for
  trusted peers) and pairing never hands a caller more than the read-only permissions.
\<close>

theorem pairing_only_reads:
  "pm_inv (foldl pm_step (pm_new n ttl) ops) \<and> granted (foldl pm_step (pm_new n ttl) ops) \<subseteq> READ_ONLY_PERMISSIONS"
  by (intro conjI pm_runs.run_inv pm_read_runs.run_inv) (simp_all add: pm_new_def pm_inv_def granted_def)

fun inbound_op :: "pm_op \<Rightarrow> bool" where
  "inbound_op (Approve _ _ _) = True"
| "inbound_op (ReceiveRequest _ _ _) = True"
| "inbound_op (RevokeGrant _) = True"
| "inbound_op _ = False"

fun outbound_op :: "pm_op \<Rightarrow> bool" where
  "outbound_op (Begin _ _ _ _ _ _ _ _) = True"
| "outbound_op (Confirm _ _) = True"
| "outbound_op (AcceptGrant _ _ _ _ _) = True"
| "outbound_op (RevokeTrusted _) = True"
| "outbound_op (MarkFailure _) = True"
| "outbound_op (MarkOk _) = True"
| "outbound_op _ = False"

lemma inbound_keeps: "inbound_op x \<Longrightarrow> pm_trusted (pm_step m x) = pm_trusted m \<and> pm_broken (pm_step m x) = pm_broken m"
  by (cases x) (auto simp: pm_revoke_grant_def)

lemma outbound_keeps: "outbound_op x \<Longrightarrow> pm_grants (pm_step m x) = pm_grants m"
  by (cases x) (auto simp: pm_revoke_trusted_def pm_mark_auth_ok_def pm_mark_auth_failure_def)

text \<open>
  The two directions are independent: no sequence of inbound operations (requests, approvals, grant
  revocations) changes what this node may call or its authentication marks, and no sequence of outbound
  operations changes what callers may do here.
\<close>

theorem directions_independent:
  "(list_all inbound_op ops \<longrightarrow> pm_trusted (foldl pm_step m ops) = pm_trusted m
      \<and> pm_broken (foldl pm_step m ops) = pm_broken m)
   \<and> (list_all outbound_op ops \<longrightarrow> pm_grants (foldl pm_step m ops) = pm_grants m)"
  by (induction ops arbitrary: m) (auto simp: inbound_keeps outbound_keeps)

theorem directions_independent_witness:
  "pm_trusted (foldl pm_step (pm_new (NodeId ''a'') 300) [RevokeGrant (NodeId ''b'')]) = []
   \<and> pm_grants (foldl pm_step (pm_new (NodeId ''a'') 300) [RevokeTrusted (NodeId ''b'')]) = []"
  using directions_independent [of "[RevokeGrant (NodeId ''b'')]" "pm_new (NodeId ''a'') 300"]
    directions_independent [of "[RevokeTrusted (NodeId ''b'')]" "pm_new (NodeId ''a'') 300"]
  by (simp add: pm_new_def)

fun creates :: "string \<Rightarrow> pm_op \<Rightarrow> bool" where
  "creates tx (Begin _ _ _ _ _ _ i _) = (i = tx)"
| "creates tx (ReceiveRequest _ t _) = (pp_id t = tx)"
| "creates tx _ = False"

lemma pm_pending_gone:
  assumes "pm_inv m" "map_of (pm_pending m) tx = None" "\<not> creates tx x"
  shows "map_of (pm_pending (pm_step m x)) tx = None"
proof (cases x)
  case (Begin p s b d n now i f)
  then show ?thesis using assms
    by (cases rule: pm_begin_cases [of m p s b d n now i f]) auto
next
  case (PruneExpired now)
  have "keys_distinct (pm_pending m)" using assms(1) by (simp add: pm_inv_def)
  then show ?thesis using assms(2) PruneExpired by (simp add: pm_prune_eq map_of_filter_distinct)
next
  case (ReceiveRequest c t now)
  then show ?thesis using assms(2,3)
    by (auto simp: pm_receive_request_def mk_pending_Inr split: sum.splits)
next
  case (RevokeBoth p)
  have "keys_distinct (pm_pending m)" using assms(1) by (simp add: pm_inv_def)
  then show ?thesis using assms(2) RevokeBoth by (simp add: pm_revoke_def map_of_filter_distinct)
next
  case (RevokeTrusted p)
  have "keys_distinct (pm_pending m)" using assms(1) by (simp add: pm_inv_def)
  then show ?thesis using assms(2) RevokeTrusted by (simp add: pm_revoke_trusted_def map_of_filter_distinct)
next
  case (RevokeGrant p)
  have "keys_distinct (pm_pending m)" using assms(1) by (simp add: pm_inv_def)
  then show ?thesis using assms(2) RevokeGrant by (simp add: pm_revoke_grant_def map_of_filter_distinct)
qed (use assms(2) in \<open>auto simp: pm_confirm_def pm_accept_grant_def pm_trust_def pm_abort_def pm_mark_auth_ok_def
      pm_mark_auth_failure_def Let_def split: sum.splits option.splits\<close>)

lemma pm_run_gone:
  "pm_inv m \<Longrightarrow> map_of (pm_pending m) tx = None \<Longrightarrow> list_all (\<lambda>x. \<not> creates tx x) ops \<Longrightarrow>
   map_of (pm_pending (foldl pm_step m ops)) tx = None"
  by (induction ops arbitrary: m) (auto simp: pm_pending_gone pm_step_inv)

text \<open>
  A transaction is spent once: after a grant for it was accepted, no sequence of operations that does
  not create a transaction with the same id lets it be approved, confirmed or accepted again; each such
  attempt raises and changes nothing.
\<close>

theorem transaction_spent_once:
  assumes "pm_inv m" "pm_accept_grant m tx p g b now = (m1, Inr t)" "list_all (\<lambda>x. \<not> creates tx x) ops"
    and "m2 = foldl pm_step m1 ops"
  shows "(\<exists>e. pm_accept_grant m2 tx p' g' b' now' = (m2, Inl e)) \<and> (\<exists>e. pm_confirm m2 tx now' = (m2, Inl e))
    \<and> (\<exists>e. pm_approve m2 tx ps now' = (m2, Inl e))"
proof -
  have "pm_inv m1" using pm_step_inv [OF assms(1), of "AcceptGrant tx p g b now"] assms(2) by simp
  moreover have "map_of (pm_pending m1) tx = None"
    using assms(2) by (auto simp: pm_accept_grant_def pm_trust_def Let_def split: sum.splits if_splits)
  ultimately have "map_of (pm_pending m2) tx = None" unfolding assms(4) using assms(3) by (rule pm_run_gone)
  then show ?thesis by (simp add: pm_accept_grant_def pm_confirm_def pm_approve_def active_def raise_def)
qed

definition no_binding :: binding where
  "no_binding = \<lparr>bd_identity = None, bd_transport = None, bd_root = None, bd_generation = None, bd_proof = None\<rparr>"

definition demo_pm :: pairing_manager where
  "demo_pm = (pm_new (NodeId ''a'') 300)\<lparr>pm_pending := [(''tx'', \<lparr>pp_id = ''tx'', pp_peer = NodeId ''b'', pp_secret = ''s'',
     pp_expires = 300, pp_binding = no_binding, pp_direction = ''outbound'', pp_intent = ''pair''\<rparr>)]\<rparr>"

definition demo_peer_grant :: peer_grant where
  "demo_peer_grant = \<lparr>pg_caller = NodeId ''a'', pg_secret = ''s'', pg_permissions = {''read_state''}, pg_binding = no_binding, pg_members = False\<rparr>"

lemma demo_pm_inv: "pm_inv demo_pm"
  by (simp add: demo_pm_def pm_new_def pm_inv_def DIRECTIONS_def INTENTS_def)

lemma demo_pm_accept:
  "\<exists>m1 t. pm_accept_grant demo_pm ''tx'' (NodeId ''b'') demo_peer_grant no_binding 1 = (m1, Inr t)"
  by (simp add: demo_pm_def pm_new_def pm_accept_grant_def active_def demo_peer_grant_def Let_def)

theorem transaction_spent_once_witness:
  "\<exists>m1 t. pm_accept_grant demo_pm ''tx'' (NodeId ''b'') demo_peer_grant no_binding 1 = (m1, Inr t)
     \<and> (\<exists>e. pm_confirm m1 ''tx'' 2 = (m1, Inl e))"
proof -
  obtain m1 t where a: "pm_accept_grant demo_pm ''tx'' (NodeId ''b'') demo_peer_grant no_binding 1 = (m1, Inr t)"
    using demo_pm_accept by blast
  from transaction_spent_once [OF demo_pm_inv a, of "[]" m1] show ?thesis using a by auto
qed

text \<open>
  Outbound trust comes only from the peer the transaction names: an accepted grant belongs to an
  unexpired transaction with that peer, is addressed to this node and repeats the exact binding this node
  sent; the new trust entry holds the transaction's secret and the granted permissions, the peer can be
  called for exactly those, every other peer's trust is untouched, and an earlier authentication failure
  is forgotten.
\<close>

theorem accept_grant_sound:
  assumes "pm_accept_grant m tx p g b now = (m', Inr t)"
  shows "(\<exists>u. map_of (pm_pending m) tx = Some u \<and> now < pp_expires u \<and> pp_peer u = p \<and> tp_secret t = pp_secret u
            \<and> pg_binding g = pp_binding u)
    \<and> pg_caller g = pm_local m \<and> map_of (pm_trusted m') p = Some t \<and> tp_binding t = b
    \<and> (\<forall>q. pm_can_call m' p q \<longleftrightarrow> q \<in> pg_permissions g)
    \<and> (\<forall>q. q \<noteq> p \<longrightarrow> map_of (pm_trusted m') q = map_of (pm_trusted m) q) \<and> \<not> pm_is_auth_broken m' p"
  using assms
  by (auto simp: pm_accept_grant_def pm_trust_def pm_can_call_def pm_is_auth_broken_def active_Inr Let_def
      split: sum.splits if_splits)

theorem accept_grant_sound_witness:
  "\<exists>m' t. pm_accept_grant demo_pm ''tx'' (NodeId ''b'') demo_peer_grant no_binding 1 = (m', Inr t)
     \<and> pm_can_call m' (NodeId ''b'') ''read_state'' \<and> \<not> pm_can_call m' (NodeId ''b'') ''cleanup''"
proof -
  obtain m' t where a: "pm_accept_grant demo_pm ''tx'' (NodeId ''b'') demo_peer_grant no_binding 1 = (m', Inr t)"
    using demo_pm_accept by blast
  from accept_grant_sound [OF a] show ?thesis using a by (auto simp: demo_peer_grant_def)
qed

text \<open>
  C27. Stored trust is only extended to a candidate that keeps the stored root: classified as trusted, an
  already trusted peer presented the stored root key, and either the stored transport fingerprint or
  another one with a valid proof by that root for a strictly newer generation. Another root, or another
  fingerprint without a valid proof, is always an identity conflict; a valid proof for a stale generation
  asks for repair.
\<close>

theorem classify_sound:
  assumes "map_of (pm_trusted m) p = Some t" "c = pm_classify_trusted_candidate sig_ok m p rk fp gen prf now"
    and "valid = (\<exists>g r f. gen = Some g \<and> bd_root (tp_binding t) = Some r \<and> fp = Some f
           \<and> sig_ok r (or_empty prf) (proof_payload p g f) \<and> 1 \<le> g \<and> f \<noteq> [] \<and> truthy prf)"
  shows "(c = OUTBOUND_TRUSTED \<longrightarrow> rk = bd_root (tp_binding t) \<and> truthy rk \<and> \<not> pm_is_auth_broken m p
            \<and> (fp = bd_transport (tp_binding t)
               \<or> valid \<and> (\<forall>g0. bd_generation (tp_binding t) = Some g0 \<longrightarrow> g0 < the gen)))
    \<and> (rk \<noteq> bd_root (tp_binding t) \<longrightarrow> c = IDENTITY_CONFLICT)
    \<and> (fp \<noteq> bd_transport (tp_binding t) \<longrightarrow> \<not> valid \<longrightarrow> c = IDENTITY_CONFLICT)
    \<and> (fp \<noteq> bd_transport (tp_binding t) \<longrightarrow> valid \<longrightarrow> rk = bd_root (tp_binding t) \<longrightarrow> truthy rk \<longrightarrow>
         bd_generation (tp_binding t) = Some g0 \<longrightarrow> the gen \<le> g0 \<longrightarrow> c = REPAIR_REQUIRED)"
proof -
  have v: "(case gen of None \<Rightarrow> False
       | Some g \<Rightarrow> truthy prf \<and> truthy fp \<and> verify_transport_proof sig_ok p (or_empty (bd_root (tp_binding t))) g (or_empty fp) (or_empty prf))
     \<longleftrightarrow> valid" if "truthy (bd_root (tp_binding t))"
    using that unfolding assms(3)
    by (cases gen; cases fp; cases "bd_root (tp_binding t)") (auto simp: verify_transport_proof_def or_empty_def)
  show ?thesis
  proof (cases "truthy (bd_root (tp_binding t))")
    case False
    then show ?thesis using assms(1,2) by (auto simp: pm_classify_trusted_candidate_def Let_def)
  next
    case True
    have "gen \<noteq> None" if valid using that assms(3) by auto
    then show ?thesis
      unfolding assms(2) pm_classify_trusted_candidate_def assms(1) option.case Let_def v [OF True]
      using True by (auto split: option.splits)
  qed
qed

definition demo_trusting :: pairing_manager where
  "demo_trusting = (pm_new (NodeId ''a'') 300)\<lparr>pm_trusted := [(NodeId ''b'', \<lparr>tp_peer = NodeId ''b'', tp_secret = ''s'',
     tp_permissions = {''read_state''}, tp_binding = \<lparr>bd_identity = None, bd_transport = Some ''f1'', bd_root = Some ''r'',
       bd_generation = Some 3, bd_proof = None\<rparr>, tp_members = False\<rparr>)]\<rparr>"

theorem classify_sound_witness:
  "pm_classify_trusted_candidate (\<lambda>k s m. s = ''good'') demo_trusting (NodeId ''b'') (Some ''r'') (Some ''f2'') (Some 4)
     (Some ''bad'') 0 = IDENTITY_CONFLICT
   \<and> pm_classify_trusted_candidate (\<lambda>k s m. s = ''good'') demo_trusting (NodeId ''b'') (Some ''r'') (Some ''f2'') (Some 3)
     (Some ''good'') 0 = REPAIR_REQUIRED"
proof -
  obtain t where t: "map_of (pm_trusted demo_trusting) (NodeId ''b'') = Some t" "bd_transport (tp_binding t) = Some ''f1''"
    "bd_root (tp_binding t) = Some ''r''" "bd_generation (tp_binding t) = Some 3"
    by (simp add: demo_trusting_def)
  note c = classify_sound [OF t(1) refl refl]
  from c [of "\<lambda>k s m. s = ''good''" "Some ''r''" "Some ''f2''" "Some 4" "Some ''bad''" 0]
    c [of "\<lambda>k s m. s = ''good''" "Some ''r''" "Some ''f2''" "Some 3" "Some ''good''" 0 3] t
  show ?thesis by (simp add: or_empty_def)
qed

text \<open>
  A candidate without a fingerprint matches stored trust without a fingerprint: the root text alone makes
  it trusted, with no proof at all.
\<close>

lemma classify_without_proof:
  assumes "map_of (pm_trusted m) p = Some t" "bd_root (tp_binding t) = Some r" "r \<noteq> []" "bd_transport (tp_binding t) = None"
    and "\<not> pm_is_auth_broken m p"
  shows "pm_classify_trusted_candidate sig_ok m p (Some r) None None None now = OUTBOUND_TRUSTED"
  using assms by (simp add: pm_classify_trusted_candidate_def Let_def)

text \<open>
  \<open>begin\<close> never opens a second active transaction for a peer in one direction: when it returns a new
  transaction, no active one existed for that peer and direction, and afterwards the new one is the only
  one; it is not yet expired as long as the time to live is positive. Otherwise it returns the pending
  transaction with the same secret, direction and intent, or raises, and changes nothing.
\<close>

theorem begin_exclusive:
  assumes "pm_inv m" "pm_begin m p s b d n now i f = (m', r)"
  shows "m' = m \<and> ((\<exists>e. r = Inl e) \<or> (\<exists>u. r = Inr u \<and> u \<in> snd ` set (pm_pending m) \<and> pp_peer u = p
            \<and> pp_direction u = d \<and> pp_intent u = n \<and> s = Some (pp_secret u) \<and> now < pp_expires u))
    \<or> (\<exists>u. r = Inr u \<and> map_of (pm_pending m') i = Some u \<and> pp_peer u = p \<and> pp_direction u = d
         \<and> pp_expires u = now + pm_ttl m
         \<and> {v \<in> snd ` set (pm_pending m'). pp_peer v = p \<and> pp_direction v = d \<and> now < pp_expires v} \<subseteq> {u})"
proof (cases rule: pm_begin_cases [of m p s b d n now i f, case_names refused replayed new])
  case (new u)
  then have m': "m' = m\<lparr>pm_pending := dict_set i u (pm_pending m)\<rparr>" "r = Inr u" using assms(2) by auto
  have nf: "\<forall>t \<in> snd ` set (pm_pending m). \<not> (pp_peer t = p \<and> now < pp_expires t \<and> d = pp_direction t)"
    using new(2) by (simp add: begin_result_def find_pending_for_def find_None_iff)
  have "v = u" if "v \<in> snd ` set (pm_pending m')" "pp_peer v = p" "pp_direction v = d" "now < pp_expires v" for v
  proof (rule ccontr)
    assume "v \<noteq> u"
    with that(1) have "v \<in> snd ` set (pm_pending m)" by (auto simp: m' dest!: set_dict_set_sub)
    with that nf show False by blast
  qed
  then have "{v \<in> snd ` set (pm_pending m'). pp_peer v = p \<and> pp_direction v = d \<and> now < pp_expires v} \<subseteq> {u}"
    by blast
  with m' new(2) show ?thesis by (intro disjI2 exI [of _ u]) (simp add: begin_result_def)
qed (use assms(2) in auto)

theorem begin_exclusive_witness:
  "\<exists>m' u. pm_begin (pm_new (NodeId ''a'') 300) (NodeId ''b'') None no_binding ''outbound'' ''pair'' 5 ''t1'' ''s'' = (m', Inr u)
     \<and> map_of (pm_pending m') ''t1'' = Some u"
proof -
  have i: "pm_inv (pm_new (NodeId ''a'') 300)" by (simp add: pm_new_def pm_inv_def)
  have "\<exists>m' u. pm_begin (pm_new (NodeId ''a'') 300) (NodeId ''b'') None no_binding ''outbound'' ''pair'' 5 ''t1'' ''s'' = (m', Inr u)"
    by (simp add: pm_begin_def pm_new_def DIRECTIONS_def INTENTS_def find_pending_for_def mk_pending_def)
  then obtain m' u where b: "pm_begin (pm_new (NodeId ''a'') 300) (NodeId ''b'') None no_binding ''outbound'' ''pair'' 5 ''t1'' ''s'' = (m', Inr u)"
    by blast
  from begin_exclusive [OF i b] show ?thesis using b by (auto simp: pm_new_def)
qed

text \<open>
  \<open>revoke\<close> severs a peer completely and nobody else: afterwards the peer is unpaired at every time, can
  neither be called nor vouch for a cluster join, and none of its transactions is left; every other peer's
  trust, grant and pending transactions are as before.
\<close>

theorem revoke_severs:
  assumes "pm_inv m"
  shows "pm_relationship (pm_revoke m p) p now = UNPAIRED \<and> \<not> pm_can_join_cluster (pm_revoke m p) p
    \<and> \<not> pm_can_call (pm_revoke m p) p q
    \<and> (k \<noteq> p \<longrightarrow> pm_relationship (pm_revoke m p) k now = pm_relationship m k now
         \<and> pm_can_join_cluster (pm_revoke m p) k = pm_can_join_cluster m k
         \<and> pm_can_call (pm_revoke m p) k q = pm_can_call m k q)"
proof -
  have f: "find_pending_for (pm_revoke m p) k None now = (if k = p then None else find_pending_for m k None now)" for k
  proof -
    have "find (\<lambda>t. pp_peer t = k \<and> now < pp_expires t) (map snd (filter (\<lambda>(j, t). pp_peer t \<noteq> p) d))
        = (if k = p then None else find (\<lambda>t. pp_peer t = k \<and> now < pp_expires t) (map snd d))"
      for d :: "(string \<times> pending_pairing) list"
      by (cases "k = p"; induction d) (simp_all add: case_prod_unfold)
    then show ?thesis by (simp add: find_pending_for_def pm_revoke_def)
  qed
  have look: "map_of (pm_trusted (pm_revoke m p)) k = (if k = p then None else map_of (pm_trusted m) k)"
    "map_of (pm_grants (pm_revoke m p)) k = (if k = p then None else map_of (pm_grants m) k)"
    "pm_is_auth_broken (pm_revoke m p) k = (k \<noteq> p \<and> pm_is_auth_broken m k)" for k
    by (auto simp: pm_revoke_def pm_is_auth_broken_def)
  have own: "\<forall>x \<in> set (pm_grants m). pg_caller (snd x) = fst x" using assms by (auto simp: pm_inv_def)
  have gr: "(\<exists>g \<in> snd ` set (pm_grants (pm_revoke m p)). pg_caller g = k) \<longleftrightarrow> k \<noteq> p \<and> (\<exists>g \<in> snd ` set (pm_grants m). pg_caller g = k)" for k
    unfolding pm_revoke_def bex_simps using own by (simp add: dict_pop_set) force
  have "pm_relationship (pm_revoke m p) k now = (if k = p then UNPAIRED else pm_relationship m k now)" for k
    by (simp add: pm_relationship_def f look Let_def)
  moreover have "pm_can_join_cluster (pm_revoke m p) k = (k \<noteq> p \<and> pm_can_join_cluster m k)" for k
    unfolding pm_can_join_cluster_def pm_has_valid_relationship_def gr look by simp
  moreover have "pm_can_call (pm_revoke m p) k q = (k \<noteq> p \<and> pm_can_call m k q)" for k
    by (simp add: pm_can_call_def look)
  ultimately show ?thesis by simp
qed

theorem revoke_severs_witness:
  "pm_relationship (pm_revoke demo_trusting (NodeId ''b'')) (NodeId ''b'') 0 = UNPAIRED"
proof -
  have "pm_inv demo_trusting" by (simp add: demo_trusting_def pm_new_def pm_inv_def)
  from revoke_severs [OF this] show ?thesis by blast
qed

end
