(* ===== verification/Replay.thy ===== *)
theory Replay
  imports Interfaces
begin

text \<open>
  \<open>ReplayCache\<close> of \<open>remote/wire_protocol.py\<close>. A \<open>heapq\<close> heap is the sorted list of its entries: the code
  only looks at the smallest entry, removes it and pushes. Under the invariant below a popped key is always
  in the dictionary, so \<open>del\<close> never raises \<open>KeyError\<close>. Each method runs under the cache's lock.
\<close>

section \<open>A dictionary with an expiry heap\<close>

fun prune_heap :: "rat \<Rightarrow> rat \<Rightarrow> (rat \<times> 'k) list \<Rightarrow> ('k, rat) dict \<Rightarrow> (rat \<times> 'k) list \<times> ('k, rat) dict" where
  "prune_heap now ttl [] d = ([], d)"
| "prune_heap now ttl ((t, k) # h) d =
     (if now - t > ttl then prune_heap now ttl h (dict_pop k d) else ((t, k) # h, d))"

definition heap_ok :: "(rat \<times> 'k::linorder) list \<Rightarrow> ('k, rat) dict \<Rightarrow> bool" where
  "heap_ok h d \<longleftrightarrow> sorted h \<and> distinct (map snd h) \<and> keys_distinct d \<and> set h = (\<lambda>(k, t). (t, k)) ` set d"

lemma heap_ok_empty [simp]: "heap_ok [] []"
  by (simp add: heap_ok_def)

lemma heap_ok_mem: "heap_ok h d \<Longrightarrow> (t, k) \<in> set h \<longleftrightarrow> map_of d k = Some t"
  by (auto simp: heap_ok_def map_of_eq_Some_iff)

lemma heap_ok_pop:
  assumes "heap_ok ((t, k) # h) d"
  shows "heap_ok h (dict_pop k d)" "map_of d k = Some t"
proof -
  show "map_of d k = Some t" using heap_ok_mem [OF assms, of t k] by simp
  have k: "k \<notin> snd ` set h" using assms by (simp add: heap_ok_def)
  have "(u, j) \<in> set h \<longleftrightarrow> (u, j) \<in> (\<lambda>(k, t). (t, k)) ` set (dict_pop k d)" for u j
  proof -
    have "(u, j) \<in> set ((t, k) # h) \<longleftrightarrow> (u, j) \<in> (\<lambda>(k, t). (t, k)) ` set d" using assms by (simp add: heap_ok_def)
    then show ?thesis using k by (force simp: dict_pop_set)
  qed
  then show "heap_ok h (dict_pop k d)"
    using assms by (auto simp: heap_ok_def)
qed

lemma prune_heap_spec:
  assumes "heap_ok h d" "prune_heap now ttl h d = (h', d')"
  shows "heap_ok h' d' \<and> map_of d' k = (case map_of d k of None \<Rightarrow> None | Some t \<Rightarrow> if now - t > ttl then None else Some t)
    \<and> length d' \<le> length d"
  using assms
proof (induction h arbitrary: d)
  case Nil
  then have "d = []" by (auto simp: heap_ok_def)
  with Nil show ?case by simp
next
  case (Cons x h)
  obtain t j where x: "x = (t, j)" by (cases x)
  note pop = heap_ok_pop [OF Cons.prems(1) [unfolded x]]
  show ?case
  proof (cases "now - t > ttl")
    case True
    with Cons.prems(2) x have "prune_heap now ttl h (dict_pop j d) = (h', d')" by simp
    from Cons.IH [OF pop(1) this] pop(2) True show ?thesis
      using length_dict_pop [of j d] by (auto split: option.splits if_splits)
  next
    case False
    have "t \<le> u" if "map_of d k = Some u" for u
    proof -
      have "(u, k) \<in> set (x # h)" using that heap_ok_mem [OF Cons.prems(1)] by simp
      then show ?thesis using Cons.prems(1) x by (auto simp: heap_ok_def less_eq_prod_def)
    qed
    with False have "now - u \<le> ttl" if "map_of d k = Some u" for u using that by force
    with False Cons.prems x show ?thesis by (auto split: option.splits)
  qed
qed

lemma heap_ok_push:
  assumes "heap_ok h d" "map_of d k = None"
  shows "heap_ok (insort (t, k) h) (dict_set k t d)"
proof -
  have "k \<notin> snd ` set h" using assms heap_ok_mem [OF assms(1), of _ k] by auto
  moreover have "distinct (map snd h)" using assms by (simp add: heap_ok_def)
  ultimately have "distinct (map snd (insort (t, k) h))"
    by (induction h) (auto simp: set_insort_key)
  then show ?thesis
    using assms by (auto simp: heap_ok_def sorted_insort set_insort_key length_dict_set_new)
qed

section \<open>The cache\<close>

type_synonym seen_key = "string \<times> string \<times> string"
type_synonym request_key = "string \<times> string"

record replay_cache =
  rp_ttl :: rat
  rp_max :: nat
  rp_seen :: "(seen_key, rat) dict"
  rp_ids :: "(request_key, rat) dict"
  rp_seen_heap :: "(rat \<times> seen_key) list"
  rp_ids_heap :: "(rat \<times> request_key) list"

definition replay_new :: "rat \<Rightarrow> nat \<Rightarrow> replay_cache" where
  "replay_new ttl mx = \<lparr>rp_ttl = ttl, rp_max = mx, rp_seen = [], rp_ids = [], rp_seen_heap = [], rp_ids_heap = []\<rparr>"

definition replay_prune :: "rat \<Rightarrow> replay_cache \<Rightarrow> replay_cache" where
  "replay_prune now c =
     (case prune_heap now (rp_ttl c) (rp_seen_heap c) (rp_seen c) of (h, d) \<Rightarrow>
      case prune_heap now (rp_ttl c) (rp_ids_heap c) (rp_ids c) of (h2, d2) \<Rightarrow>
      c\<lparr>rp_seen := d, rp_seen_heap := h, rp_ids := d2, rp_ids_heap := h2\<rparr>)"

definition check_and_record :: "seen_key \<Rightarrow> rat \<Rightarrow> replay_cache \<Rightarrow> replay_cache \<times> bool" where
  "check_and_record key seen_at c0 =
     (let c = replay_prune seen_at c0 in
      if map_of (rp_seen c) key \<noteq> None then (c, False)
      else if length (rp_seen c) \<ge> rp_max c then (c, False)
      else (c\<lparr>rp_seen := dict_set key seen_at (rp_seen c), rp_seen_heap := insort (seen_at, key) (rp_seen_heap c)\<rparr>, True))"

definition check_and_record_request_id :: "request_key \<Rightarrow> rat \<Rightarrow> replay_cache \<Rightarrow> replay_cache \<times> bool" where
  "check_and_record_request_id key seen_at c0 =
     (let c = replay_prune seen_at c0 in
      if map_of (rp_ids c) key \<noteq> None then (c, False)
      else if length (rp_ids c) \<ge> rp_max c then (c, False)
      else (c\<lparr>rp_ids := dict_set key seen_at (rp_ids c), rp_ids_heap := insort (seen_at, key) (rp_ids_heap c)\<rparr>, True))"

definition replay_inv :: "replay_cache \<Rightarrow> bool" where
  "replay_inv c \<longleftrightarrow> heap_ok (rp_seen_heap c) (rp_seen c) \<and> heap_ok (rp_ids_heap c) (rp_ids c)
     \<and> length (rp_seen c) \<le> rp_max c \<and> length (rp_ids c) \<le> rp_max c"

lemma replay_prune_spec:
  assumes "replay_inv c"
  shows "replay_inv (replay_prune now c) \<and> rp_ttl (replay_prune now c) = rp_ttl c \<and> rp_max (replay_prune now c) = rp_max c
    \<and> map_of (rp_seen (replay_prune now c)) k =
        (case map_of (rp_seen c) k of None \<Rightarrow> None | Some t \<Rightarrow> if now - t > rp_ttl c then None else Some t)
    \<and> map_of (rp_ids (replay_prune now c)) j =
        (case map_of (rp_ids c) j of None \<Rightarrow> None | Some t \<Rightarrow> if now - t > rp_ttl c then None else Some t)"
proof -
  obtain h d where p: "prune_heap now (rp_ttl c) (rp_seen_heap c) (rp_seen c) = (h, d)"
    by (cases "prune_heap now (rp_ttl c) (rp_seen_heap c) (rp_seen c)")
  obtain h2 d2 where q: "prune_heap now (rp_ttl c) (rp_ids_heap c) (rp_ids c) = (h2, d2)"
    by (cases "prune_heap now (rp_ttl c) (rp_ids_heap c) (rp_ids c)")
  show ?thesis
    using prune_heap_spec [OF _ p, of k] prune_heap_spec [OF _ q, of j] assms
    by (auto simp: replay_prune_def p q replay_inv_def)
qed

lemma replay_prune_params [simp]: "rp_ttl (replay_prune now c) = rp_ttl c" "rp_max (replay_prune now c) = rp_max c"
  by (simp_all add: replay_prune_def split: prod.splits)

interpretation seen_once: once_table check_and_record "\<lambda>c k. map_of (rp_seen c) k" rp_ttl replay_inv
proof unfold_locales
  fix c k t assume i: "replay_inv c"
  note p = replay_prune_spec [OF i, of t]
  show "replay_inv (fst (check_and_record k t c))"
    using p by (auto simp: check_and_record_def Let_def replay_inv_def heap_ok_push length_dict_set)
  show "map_of (rp_seen (fst (check_and_record k t c))) k = Some t" if "snd (check_and_record k t c)"
    using that by (auto simp: check_and_record_def Let_def split: if_splits)
next
  fix c k t t0 assume i: "replay_inv c" and s: "map_of (rp_seen c) k = Some t0" "t - t0 \<le> rp_ttl c"
  note p = replay_prune_spec [OF i, of t k]
  show "\<not> snd (check_and_record k t c)"
    using p s by (auto simp: check_and_record_def Let_def)
  show "map_of (rp_seen (fst (check_and_record k' t c))) k = Some t0" for k'
    using p s by (auto simp: check_and_record_def Let_def)
qed (simp add: check_and_record_def Let_def)

interpretation id_once: once_table check_and_record_request_id "\<lambda>c k. map_of (rp_ids c) k" rp_ttl replay_inv
proof unfold_locales
  fix c k t assume i: "replay_inv c"
  note p = replay_prune_spec [OF i, of t]
  show "replay_inv (fst (check_and_record_request_id k t c))"
    using p by (auto simp: check_and_record_request_id_def Let_def replay_inv_def heap_ok_push length_dict_set)
  show "map_of (rp_ids (fst (check_and_record_request_id k t c))) k = Some t" if "snd (check_and_record_request_id k t c)"
    using that by (auto simp: check_and_record_request_id_def Let_def split: if_splits)
next
  fix c k t t0 assume i: "replay_inv c" and s: "map_of (rp_ids c) k = Some t0" "t - t0 \<le> rp_ttl c"
  note p = replay_prune_spec [OF i, of t _ k]
  show "\<not> snd (check_and_record_request_id k t c)"
    using p s by (auto simp: check_and_record_request_id_def Let_def)
  show "map_of (rp_ids (fst (check_and_record_request_id k' t c))) k = Some t0" for k'
    using p s by (auto simp: check_and_record_request_id_def Let_def)
qed (simp add: check_and_record_request_id_def Let_def)

section \<open>Properties\<close>

text \<open>
  A request is accepted once per window: after \<open>check_and_record\<close> accepted a (node, request, nonce)
  triple, it refuses the same triple whatever other requests come in between and in whatever order their
  times come, as long as no reading is more than the time to live after the acceptance; and the cache
  never holds more than its maximum number of entries. So eviction never lets a replay through inside the
  window: a full cache refuses new requests instead.
\<close>

theorem replay_never_twice:
  assumes "replay_inv c" "snd (check_and_record k t0 c)" "\<forall>(k', t) \<in> set ops. t - t0 \<le> rp_ttl c" "t1 - t0 \<le> rp_ttl c"
  shows "\<not> snd (check_and_record k t1 (once_run check_and_record (fst (check_and_record k t0 c)) ops))
    \<and> length (rp_seen (once_run check_and_record (fst (check_and_record k t0 c)) ops)) \<le> rp_max c"
proof -
  let ?c = "fst (check_and_record k t0 c)"
  have i: "replay_inv ?c" using assms(1) by (rule seen_once.check_inv)
  have w: "rp_ttl ?c = rp_ttl c" by (simp add: check_and_record_def Let_def)
  have "replay_inv (once_run check_and_record ?c ops)"
    using seen_once.run_keeps [OF i seen_once.check_records [OF assms(1,2)], of ops] assms(3) w by simp
  moreover have "rp_max (once_run check_and_record c' ops) = rp_max c'" for c'
    by (induction ops arbitrary: c') (auto simp: once_run_def check_and_record_def Let_def)
  moreover have "rp_max ?c = rp_max c" by (simp add: check_and_record_def Let_def)
  ultimately show ?thesis using seen_once.never_twice [OF assms] by (simp add: replay_inv_def)
qed

lemma replay_new_inv: "replay_inv (replay_new ttl mx)"
  by (simp add: replay_inv_def replay_new_def)

theorem replay_never_twice_witness:
  "\<not> snd (check_and_record (''a'', ''r'', ''n'') 300 (once_run check_and_record
     (fst (check_and_record (''a'', ''r'', ''n'') 0 (replay_new 300 4096))) [((''a'', ''q'', ''m''), 7)]))"
  using replay_never_twice [OF replay_new_inv, of "(''a'', ''r'', ''n'')" 0 300 4096 "[((''a'', ''q'', ''m''), 7)]" 300]
  by (simp add: check_and_record_def replay_prune_def replay_new_def Let_def)

end
