(* ===== verification/Sharing.thy ===== *)
theory Sharing
  imports Identity Interfaces
begin

text \<open>
  \<open>sharing/capabilities.py\<close>: target-owned capability handlers and the per-peer grants to call them. Every
  grant carries a generation number; a request reads it, runs the handler with the lock released and
  publishes the result only if the very same grant is still in place. A handler is an opaque token
  (equality is object identity); what it answers is an argument, and so is everything other threads do
  to the share while it runs.
\<close>

section \<open>Operations\<close>

definition MAX_CAPABILITY_ID_LENGTH :: nat where
  "MAX_CAPABILITY_ID_LENGTH = 128"

definition validate_capability_id :: "pyval \<Rightarrow> unit res" where
  "validate_capability_id c =
     (if \<not> is_str c then raise TypeError ''capability must be a string''
      else if blank (str_of c) \<or> length (str_of c) > MAX_CAPABILITY_ID_LENGTH
      then raise ValueError ''invalid capability'' else Inr ())"

definition is_valid_capability_id :: "pyval \<Rightarrow> bool" where
  "is_valid_capability_id c = (case validate_capability_id c of Inl _ \<Rightarrow> False | Inr _ \<Rightarrow> True)"

record share =
  sh_handlers :: "(string, nat) dict"
  sh_allowed :: "(node_id, string set) dict"
  sh_generations :: "(node_id \<times> string, nat) dict"
  sh_next :: nat

definition share_new :: share where
  "share_new = \<lparr>sh_handlers = [], sh_allowed = [], sh_generations = [], sh_next = 0\<rparr>"

definition sh_register :: "share \<Rightarrow> string \<Rightarrow> nat \<Rightarrow> share \<times> unit res" where
  "sh_register s cap h =
     (case validate_capability_id (PStr cap) of
        Inl x \<Rightarrow> (s, Inl x)
      | Inr _ \<Rightarrow>
          if map_of (sh_handlers s) cap \<noteq> None then (s, raise ValueError ''invalid or duplicate capability'')
          else (s\<lparr>sh_handlers := dict_set cap h (sh_handlers s)\<rparr>, Inr ()))"

definition allowed_set :: "share \<Rightarrow> node_id \<Rightarrow> string set" where
  "allowed_set s p = (case map_of (sh_allowed s) p of None \<Rightarrow> {} | Some a \<Rightarrow> a)"

definition sh_allow :: "share \<Rightarrow> node_id \<Rightarrow> string \<Rightarrow> share \<times> unit res" where
  "sh_allow s p cap =
     (case validate_capability_id (PStr cap) of
        Inl x \<Rightarrow> (s, Inl x)
      | Inr _ \<Rightarrow>
          if map_of (sh_handlers s) cap = None then (s, raise ValueError ''unknown capability'')
          else let a = allowed_set s p in
            if cap \<in> a then (s\<lparr>sh_allowed := dict_set p a (sh_allowed s)\<rparr>, Inr ())
            else (s\<lparr>sh_allowed := dict_set p (insert cap a) (sh_allowed s), sh_next := sh_next s + 1,
                    sh_generations := dict_set (p, cap) (sh_next s + 1) (sh_generations s)\<rparr>, Inr ()))"

definition sh_revoke :: "share \<Rightarrow> node_id \<Rightarrow> string \<Rightarrow> share \<times> unit res" where
  "sh_revoke s p cap =
     (case validate_capability_id (PStr cap) of
        Inl x \<Rightarrow> (s, Inl x)
      | Inr _ \<Rightarrow>
          (case map_of (sh_allowed s) p of
             None \<Rightarrow> (s, Inr ())
           | Some a \<Rightarrow>
               (s\<lparr>sh_allowed := (if a - {cap} = {} then dict_pop p (sh_allowed s)
                                 else dict_set p (a - {cap}) (sh_allowed s)),
                  sh_generations := dict_pop (p, cap) (sh_generations s)\<rparr>, Inr ())))"

definition sh_revoke_peer :: "share \<Rightarrow> node_id \<Rightarrow> share" where
  "sh_revoke_peer s p =
     (case map_of (sh_allowed s) p of
        None \<Rightarrow> s
      | Some a \<Rightarrow> s\<lparr>sh_allowed := dict_pop p (sh_allowed s),
          sh_generations := filter (\<lambda>((q, c), g). \<not> (q = p \<and> c \<in> a)) (sh_generations s)\<rparr>)"

definition sh_clear_grants :: "share \<Rightarrow> share" where
  "sh_clear_grants s = s\<lparr>sh_allowed := [], sh_generations := []\<rparr>"

text \<open>The two locked sections of \<open>request\<close>.\<close>

definition sh_request_begin :: "share \<Rightarrow> node_id \<Rightarrow> string \<Rightarrow> (nat \<times> nat) res" where
  "sh_request_begin s p cap =
     rbind (validate_capability_id (PStr cap)) (\<lambda>_.
     case (map_of (sh_handlers s) cap, map_of (sh_allowed s) p, map_of (sh_generations s) (p, cap)) of
       (Some h, Some a, Some g) \<Rightarrow>
         if cap \<in> a then Inr (h, g) else raise PermissionError ''capability is not authorized''
     | _ \<Rightarrow> raise PermissionError ''capability is not authorized'')"

definition sh_request_end :: "share \<Rightarrow> node_id \<Rightarrow> string \<Rightarrow> nat \<Rightarrow> nat \<Rightarrow> 'r \<Rightarrow> 'r res" where
  "sh_request_end s p cap h g result =
     (if (case map_of (sh_allowed s) p of None \<Rightarrow> False | Some a \<Rightarrow> cap \<in> a)
         \<and> map_of (sh_generations s) (p, cap) = Some g \<and> map_of (sh_handlers s) cap = Some h
      then Inr result
      else raise PermissionError ''capability authorization changed during request'')"

text \<open>\<open>meanwhile\<close> is what happens to the share while the handler runs, \<open>answer\<close> what the handler does.\<close>

definition sh_request :: "share \<Rightarrow> node_id \<Rightarrow> string \<Rightarrow> (share \<Rightarrow> share) \<Rightarrow> (nat \<Rightarrow> 'r res) \<Rightarrow> share \<times> 'r res" where
  "sh_request s p cap meanwhile answer =
     (case sh_request_begin s p cap of
        Inl x \<Rightarrow> (s, Inl x)
      | Inr (h, g) \<Rightarrow>
          (case answer h of
             Inl e \<Rightarrow> (meanwhile s, if isa e Exception then raise CapabilityHandlerError ''capability handler failed'' else Inl e)
           | Inr r \<Rightarrow> (meanwhile s, sh_request_end (meanwhile s) p cap h g r)))"

section \<open>Invariant\<close>

definition share_inv :: "share \<Rightarrow> bool" where
  "share_inv s \<longleftrightarrow> keys_distinct (sh_handlers s) \<and> keys_distinct (sh_allowed s) \<and> keys_distinct (sh_generations s)
     \<and> (\<forall>p c. map_of (sh_generations s) (p, c) \<noteq> None \<longleftrightarrow> c \<in> allowed_set s p)
     \<and> (\<forall>p c. c \<in> allowed_set s p \<longrightarrow> map_of (sh_handlers s) c \<noteq> None)
     \<and> (\<forall>k g. map_of (sh_generations s) k = Some g \<longrightarrow> g \<le> sh_next s)
     \<and> (\<forall>c. map_of (sh_handlers s) c \<noteq> None \<longrightarrow> validate_capability_id (PStr c) = Inr ())"

datatype share_op =
    ShRegister string nat
  | ShAllow node_id string
  | ShRevoke node_id string
  | ShRevokePeer node_id
  | ShClear

fun share_step :: "share \<Rightarrow> share_op \<Rightarrow> share" where
  "share_step s (ShRegister c h) = fst (sh_register s c h)"
| "share_step s (ShAllow p c) = fst (sh_allow s p c)"
| "share_step s (ShRevoke p c) = fst (sh_revoke s p c)"
| "share_step s (ShRevokePeer p) = sh_revoke_peer s p"
| "share_step s ShClear = sh_clear_grants s"

lemma allowed_set_simps [simp]:
  "allowed_set (s\<lparr>sh_handlers := x\<rparr>) p = allowed_set s p" "allowed_set (s\<lparr>sh_next := y\<rparr>) p = allowed_set s p"
  "allowed_set (s\<lparr>sh_generations := z\<rparr>) p = allowed_set s p"
  "allowed_set (s\<lparr>sh_allowed := dict_set q a (sh_allowed s)\<rparr>) p = (if p = q then a else allowed_set s p)"
  "allowed_set (s\<lparr>sh_allowed := dict_pop q (sh_allowed s)\<rparr>) p = (if p = q then {} else allowed_set s p)"
  "allowed_set (s\<lparr>sh_allowed := []\<rparr>) p = {}"
  by (simp_all add: allowed_set_def)

text \<open>What each operation does to the grants, the generations and the handlers.\<close>

lemma share_allow_effect:
  assumes "share_inv s"
  shows "allowed_set (fst (sh_allow s p c)) q =
      (if q = p \<and> map_of (sh_handlers s) c \<noteq> None then insert c (allowed_set s q) else allowed_set s q)"
    and "map_of (sh_generations (fst (sh_allow s p c))) k =
      (if k = (p, c) \<and> map_of (sh_handlers s) c \<noteq> None \<and> c \<notin> allowed_set s p then Some (sh_next s + 1)
       else map_of (sh_generations s) k)"
    and "sh_handlers (fst (sh_allow s p c)) = sh_handlers s"
    and "sh_next s \<le> sh_next (fst (sh_allow s p c))"
proof -
  have v: "map_of (sh_handlers s) c \<noteq> None \<Longrightarrow> validate_capability_id (PStr c) = Inr ()"
    using assms by (simp add: share_inv_def)
  show "allowed_set (fst (sh_allow s p c)) q =
      (if q = p \<and> map_of (sh_handlers s) c \<noteq> None then insert c (allowed_set s q) else allowed_set s q)"
    using v by (auto simp: sh_allow_def Let_def split: sum.splits)
  show "map_of (sh_generations (fst (sh_allow s p c))) k =
      (if k = (p, c) \<and> map_of (sh_handlers s) c \<noteq> None \<and> c \<notin> allowed_set s p then Some (sh_next s + 1)
       else map_of (sh_generations s) k)"
    using v by (auto simp: sh_allow_def Let_def split: sum.splits)
qed (auto simp: sh_allow_def Let_def split: sum.splits)

lemma share_revoke_effect:
  assumes "share_inv s"
  shows "allowed_set (fst (sh_revoke s p c)) q = (if q = p then allowed_set s q - {c} else allowed_set s q)"
    and "map_of (sh_generations (fst (sh_revoke s p c))) k = (if k = (p, c) then None else map_of (sh_generations s) k)"
    and "sh_handlers (fst (sh_revoke s p c)) = sh_handlers s" "sh_next (fst (sh_revoke s p c)) = sh_next s"
proof -
  have bad: "c \<notin> allowed_set s p" if "validate_capability_id (PStr c) = Inl e" for e
    using that assms unfolding share_inv_def by (metis sum.distinct(1))
  have none: "map_of (sh_generations s) (p, c) = None" if "c \<notin> allowed_set s p"
    using that assms unfolding share_inv_def by (metis not_None_eq)
  have a: "map_of (sh_allowed s) p = None \<Longrightarrow> allowed_set s p = {}" by (simp add: allowed_set_def)
  show "allowed_set (fst (sh_revoke s p c)) q = (if q = p then allowed_set s q - {c} else allowed_set s q)"
    using bad a by (auto simp: sh_revoke_def split: sum.splits option.splits) (auto simp: allowed_set_def)
  show "map_of (sh_generations (fst (sh_revoke s p c))) k = (if k = (p, c) then None else map_of (sh_generations s) k)"
    using bad none a by (auto simp: sh_revoke_def split: sum.splits option.splits)
qed (auto simp: sh_revoke_def split: sum.splits option.splits)

lemma share_revoke_peer_effect:
  assumes "share_inv s"
  shows "allowed_set (sh_revoke_peer s p) q = (if q = p then {} else allowed_set s q)"
    and "map_of (sh_generations (sh_revoke_peer s p)) k = (if fst k = p then None else map_of (sh_generations s) k)"
    and "sh_handlers (sh_revoke_peer s p) = sh_handlers s" "sh_next (sh_revoke_peer s p) = sh_next s"
proof -
  have g: "map_of (sh_generations s) (p, c) = None" if "c \<notin> allowed_set s p" for c
    using that assms unfolding share_inv_def by (metis not_None_eq)
  show "allowed_set (sh_revoke_peer s p) q = (if q = p then {} else allowed_set s q)"
    by (auto simp: sh_revoke_peer_def split: option.splits) (auto simp: allowed_set_def)
  have f: "map_of (filter (\<lambda>((q, c), g). q = p \<longrightarrow> c \<notin> a) (sh_generations s)) k
      = (if fst k = p \<and> snd k \<in> a then None else map_of (sh_generations s) k)" for a k
    using map_of_filter_key [of "\<lambda>k. \<not> (fst k = p \<and> snd k \<in> a)" "sh_generations s" k]
    by (auto simp: case_prod_unfold)
  show "map_of (sh_generations (sh_revoke_peer s p)) k = (if fst k = p then None else map_of (sh_generations s) k)"
    using g [of "snd k"] by (cases k) (auto simp: sh_revoke_peer_def f allowed_set_def split: option.splits)
qed (auto simp: sh_revoke_peer_def split: option.splits)

lemma share_keys:
  assumes "share_inv s"
  shows "keys_distinct (sh_handlers (share_step s x)) \<and> keys_distinct (sh_allowed (share_step s x))
    \<and> keys_distinct (sh_generations (share_step s x))"
  using assms by (cases x) (auto simp: share_inv_def sh_register_def sh_allow_def sh_revoke_def sh_revoke_peer_def
      sh_clear_grants_def Let_def split: sum.splits option.splits)

lemma share_step_inv:
  assumes "share_inv s"
  shows "share_inv (share_step s x)"
proof (cases x)
  case (ShRegister c h)
  then show ?thesis
    using assms by (auto simp: share_inv_def sh_register_def simp del: map_of_eq_Some_iff split: sum.splits)
next
  case (ShAllow p c)
  let ?t = "fst (sh_allow s p c)"
  note e = share_allow_effect [OF assms, of p c]
  have dom: "map_of (sh_generations s) (q, d) \<noteq> None \<longleftrightarrow> d \<in> allowed_set s q"
    and reg: "d \<in> allowed_set s q \<Longrightarrow> map_of (sh_handlers s) d \<noteq> None"
    and le: "map_of (sh_generations s) k = Some g \<Longrightarrow> g \<le> sh_next s"
    and val: "map_of (sh_handlers s) d \<noteq> None \<Longrightarrow> validate_capability_id (PStr d) = Inr ()" for q d k g
    using assms unfolding share_inv_def by blast+
  have nx: "sh_next ?t = sh_next s + 1" if "map_of (sh_handlers s) c \<noteq> None" "c \<notin> allowed_set s p"
    using that val [of c] by (auto simp: sh_allow_def Let_def)
  have "map_of (sh_generations ?t) (q, d) \<noteq> None \<longleftrightarrow> d \<in> allowed_set ?t q" for q d
    unfolding e(1,2) using dom [of q d] by auto
  moreover have "map_of (sh_handlers ?t) d \<noteq> None" if "d \<in> allowed_set ?t q" for q d
    using that reg [of d q] unfolding e(1,3) by (auto split: if_splits)
  moreover have "g \<le> sh_next ?t" if "map_of (sh_generations ?t) k = Some g" for k g
    using that nx e(4) le [of k g] unfolding e(2) by (auto split: if_splits)
  moreover have "validate_capability_id (PStr d) = Inr ()" if "map_of (sh_handlers ?t) d \<noteq> None" for d
    using that unfolding e(3) by (rule val)
  ultimately show ?thesis
    using share_keys [OF assms, of x] ShAllow unfolding share_inv_def by simp
next
  case (ShRevoke p c)
  show ?thesis
    using assms share_keys [OF assms, of x] ShRevoke unfolding share_inv_def
    by (auto simp: share_revoke_effect [OF assms] simp del: map_of_eq_Some_iff)
next
  case (ShRevokePeer p)
  show ?thesis
    using assms share_keys [OF assms, of x] ShRevokePeer unfolding share_inv_def
    by (auto simp: share_revoke_peer_effect [OF assms] simp del: map_of_eq_Some_iff)
next
  case ShClear
  then show ?thesis using assms by (auto simp: share_inv_def sh_clear_grants_def)
qed

interpretation share_runs: transition_system share_step share_inv
  by unfold_locales (rule share_step_inv)

definition sh_holds :: "share \<Rightarrow> node_id \<times> string \<Rightarrow> bool" where
  "sh_holds s k \<longleftrightarrow> (\<exists>hg. sh_request_begin s (fst k) (snd k) = Inr hg)"

lemma sh_holds_iff: "share_inv s \<Longrightarrow> sh_holds s (p, c) \<longleftrightarrow> c \<in> allowed_set s p"
proof -
  assume i: "share_inv s"
  show ?thesis
  proof (cases "c \<in> allowed_set s p")
    case True
    then obtain a where a: "map_of (sh_allowed s) p = Some a" "c \<in> a" by (auto simp: allowed_set_def split: option.splits)
    from True i obtain g h where "map_of (sh_generations s) (p, c) = Some g" "map_of (sh_handlers s) c = Some h"
      unfolding share_inv_def by blast
    moreover from this i have "validate_capability_id (PStr c) = Inr ()" unfolding share_inv_def by blast
    ultimately show ?thesis using a True by (simp add: sh_holds_def sh_request_begin_def)
  next
    case False
    then show ?thesis
      by (auto simp: sh_holds_def sh_request_begin_def allowed_set_def ok_simps split: option.splits if_splits)
  qed
qed

interpretation share_table: grant_table "\<lambda>(p, c) s. fst (sh_allow s p c)" "\<lambda>(p, c) s. fst (sh_revoke s p c)" sh_holds
  share_inv "\<lambda>s (p, c). map_of (sh_handlers s) c \<noteq> None"
proof unfold_locales
  fix s :: share and k k' :: "node_id \<times> string" assume i: "share_inv s"
  obtain p c q d where k: "k = (p, c)" "k' = (q, d)" by (cases k; cases k')
  have ir: "share_inv (fst (sh_revoke s p c))" using share_step_inv [OF i, of "ShRevoke p c"] by simp
  have ia: "share_inv (fst (sh_allow s p c))" using share_step_inv [OF i, of "ShAllow p c"] by simp
  show "share_inv ((case k of (p, c) \<Rightarrow> \<lambda>s. fst (sh_revoke s p c)) s)" using ir k by simp
  show "sh_holds ((case k of (p, c) \<Rightarrow> \<lambda>s. fst (sh_revoke s p c)) s) k' \<longleftrightarrow> k' \<noteq> k \<and> sh_holds s k'"
    using ir i k by (auto simp: sh_holds_iff share_revoke_effect [OF i])
  assume g: "case k of (p, c) \<Rightarrow> map_of (sh_handlers s) c \<noteq> None"
  show "share_inv ((case k of (p, c) \<Rightarrow> \<lambda>s. fst (sh_allow s p c)) s)" using ia k by simp
  show "sh_holds ((case k of (p, c) \<Rightarrow> \<lambda>s. fst (sh_allow s p c)) s) k' \<longleftrightarrow> k' = k \<or> sh_holds s k'"
    using ia i k g by (auto simp: sh_holds_iff share_allow_effect [OF i])
next
  fix s :: share and k k' :: "node_id \<times> string" assume "case k' of (p, c) \<Rightarrow> map_of (sh_handlers s) c \<noteq> None"
  then show "case k' of (p, c) \<Rightarrow> map_of (sh_handlers ((case k of (p, c) \<Rightarrow> \<lambda>s. fst (sh_allow s p c)) s)) c \<noteq> None"
    "case k' of (p, c) \<Rightarrow> map_of (sh_handlers ((case k of (p, c) \<Rightarrow> \<lambda>s. fst (sh_revoke s p c)) s)) c \<noteq> None"
    by (cases k; cases k'; auto simp: sh_allow_def sh_revoke_def Let_def split: sum.splits option.splits)+
qed

section \<open>Properties\<close>

text \<open>
  The share implements the permission table it promises: after any sequence of \<open>allow\<close> and \<open>revoke\<close>
  calls for registered capabilities, a peer's request passes the authorization check exactly when the last
  call that named this peer and capability was an \<open>allow\<close> (or it was allowed before and never named).
\<close>

theorem share_last_word:
  assumes "share_inv s" "\<forall>x \<in> set ops. is_grant x \<longrightarrow> map_of (sh_handlers s) (snd (grant_key x)) \<noteq> None"
  shows "sh_holds (foldl (perform_grant (\<lambda>(p, c) s. fst (sh_allow s p c)) (\<lambda>(p, c) s. fst (sh_revoke s p c))) s ops) k
    \<longleftrightarrow> last_says ops k (sh_holds s k)"
proof -
  have "case grant_key x of (p, c) \<Rightarrow> map_of (sh_handlers s) c \<noteq> None" if "x \<in> set ops" "is_grant x" for x
    using assms(2) that by (auto simp: case_prod_unfold)
  from share_table.run_holds [OF assms(1) this] show ?thesis by blast
qed

definition demo_share :: share where
  "demo_share = share_new\<lparr>sh_handlers := [(''cap'', 7)]\<rparr>"

lemma demo_share_inv: "share_inv demo_share"
  by (simp add: share_inv_def demo_share_def share_new_def allowed_set_def validate_capability_id_def blank_def
      str_isspace_def MAX_CAPABILITY_ID_LENGTH_def)

theorem share_last_word_witness:
  "\<not> sh_holds (foldl (perform_grant (\<lambda>(p, c) s. fst (sh_allow s p c)) (\<lambda>(p, c) s. fst (sh_revoke s p c))) demo_share
     [Grant (NodeId ''b'', ''cap''), Revoke (NodeId ''b'', ''cap'')]) (NodeId ''b'', ''cap'')"
proof -
  have "\<forall>x \<in> set [Grant (NodeId ''b'', ''cap''), Revoke (NodeId ''b'', ''cap'')]. is_grant x \<longrightarrow>
      map_of (sh_handlers demo_share) (snd (grant_key x)) \<noteq> None"
    by (simp add: demo_share_def)
  from share_last_word [OF demo_share_inv this, of "(NodeId ''b'', ''cap'')"] show ?thesis by (simp del: foldl.simps)
qed

text \<open>A generation once gone never comes back.\<close>

lemma generation_gone_step:
  assumes "share_inv s \<and> g \<le> sh_next s \<and> map_of (sh_generations s) k \<noteq> Some g"
  shows "share_inv (share_step s x) \<and> g \<le> sh_next (share_step s x) \<and> map_of (sh_generations (share_step s x)) k \<noteq> Some g"
proof -
  have i: "share_inv s" using assms by blast
  note inv = share_step_inv [OF i, of x]
  show ?thesis
  proof (cases x)
    case (ShAllow p c)
    then show ?thesis
      using assms inv share_allow_effect(2,4) [OF i, of p c] by auto
  qed (use assms inv share_revoke_effect [OF i] share_revoke_peer_effect [OF i] in
      \<open>auto simp: sh_register_def sh_clear_grants_def split: sum.splits\<close>)
qed

interpretation gone_runs: transition_system share_step
  "\<lambda>s. share_inv s \<and> g \<le> sh_next s \<and> map_of (sh_generations s) k \<noteq> Some g" for g k
  by unfold_locales (rule generation_gone_step)

fun removes :: "node_id \<Rightarrow> string \<Rightarrow> share_op \<Rightarrow> bool" where
  "removes p c (ShRevoke q d) = (q = p \<and> d = c)"
| "removes p c (ShRevokePeer q) = (q = p)"
| "removes p c ShClear = True"
| "removes p c _ = False"

lemma kept_step:
  assumes "share_inv s" "map_of (sh_generations s) (p, c) = Some g" "map_of (sh_handlers s) c = Some h" "\<not> removes p c x"
  shows "map_of (sh_generations (share_step s x)) (p, c) = Some g \<and> map_of (sh_handlers (share_step s x)) c = Some h"
proof (cases x)
  case (ShAllow q d)
  have "c \<in> allowed_set s p" using assms(1,2) unfolding share_inv_def by blast
  then show ?thesis using assms ShAllow share_allow_effect [OF assms(1), of q d] by auto
next
  case (ShRegister d j)
  then show ?thesis using assms by (auto simp: sh_register_def split: sum.splits)
qed (use assms share_revoke_effect [OF assms(1)] share_revoke_peer_effect [OF assms(1)] in auto)

lemma kept_run:
  "share_inv s \<Longrightarrow> map_of (sh_generations s) (p, c) = Some g \<Longrightarrow> map_of (sh_handlers s) c = Some h \<Longrightarrow>
   list_all (\<lambda>x. \<not> removes p c x) ops \<Longrightarrow>
   map_of (sh_generations (foldl share_step s ops)) (p, c) = Some g
   \<and> map_of (sh_handlers (foldl share_step s ops)) c = Some h"
  by (induction ops arbitrary: s) (auto simp: kept_step share_step_inv)

lemma request_begin_Inr:
  assumes "share_inv s"
  shows "sh_request_begin s p c = Inr (h, g) \<longleftrightarrow>
    map_of (sh_handlers s) c = Some h \<and> map_of (sh_generations s) (p, c) = Some g"
proof
  assume r: "map_of (sh_handlers s) c = Some h \<and> map_of (sh_generations s) (p, c) = Some g"
  then have "c \<in> allowed_set s p" "validate_capability_id (PStr c) = Inr ()" using assms unfolding share_inv_def by blast+
  then show "sh_request_begin s p c = Inr (h, g)"
    using r by (auto simp: sh_request_begin_def allowed_set_def split: option.splits)
qed (auto simp: sh_request_begin_def ok_simps split: option.splits if_splits)

text \<open>
  C28. No answer leaks past a revocation. While the handler runs, any number of other operations may come
  in. If a result is published, the peer was authorized when the request came and after each of those
  operations, so a grant that was withdrawn and given again in the meantime does not count; and if none of
  them withdraws this grant, the result is published.
\<close>

theorem request_no_aba:
  assumes "share_inv s"
  shows "(snd (sh_request s p c (\<lambda>s. foldl share_step s ops) (\<lambda>h. Inr (answer h))) = Inr r \<longrightarrow>
           (\<forall>n. sh_holds (foldl share_step s (take n ops)) (p, c)))
    \<and> (sh_holds s (p, c) \<longrightarrow> list_all (\<lambda>x. \<not> removes p c x) ops \<longrightarrow>
         (\<exists>h. snd (sh_request s p c (\<lambda>s. foldl share_step s ops) (\<lambda>h. Inr (answer h))) = Inr (answer h)))"
proof (intro conjI impI allI)
  let ?u = "foldl share_step s ops"
  fix n assume "snd (sh_request s p c (\<lambda>s. foldl share_step s ops) (\<lambda>h. Inr (answer h))) = Inr r"
  then obtain h g where b: "sh_request_begin s p c = Inr (h, g)" and e: "map_of (sh_generations ?u) (p, c) = Some g"
    by (auto simp: sh_request_def sh_request_end_def split: sum.splits if_splits)
  let ?t = "foldl share_step s (take n ops)"
  have i: "share_inv ?t" by (rule share_runs.run_inv [OF assms])
  have g: "g \<le> sh_next s" using b assms unfolding request_begin_Inr [OF assms] share_inv_def by blast
  have mono: "sh_next u \<le> sh_next (foldl share_step u xs)" if "share_inv u" for u xs
    using that
  proof (induction xs arbitrary: u)
    case (Cons x xs)
    have "sh_next u \<le> sh_next (share_step u x)"
      using share_allow_effect(4) [OF Cons.prems] share_revoke_effect(4) [OF Cons.prems] share_revoke_peer_effect(4) [OF Cons.prems]
      by (cases x) (auto simp: sh_register_def sh_clear_grants_def split: sum.splits)
    also have "\<dots> \<le> sh_next (foldl share_step (share_step u x) xs)" using Cons share_step_inv by blast
    finally show ?case by simp
  qed simp
  have "map_of (sh_generations ?t) (p, c) = Some g"
  proof (rule ccontr)
    assume "map_of (sh_generations ?t) (p, c) \<noteq> Some g"
    then have "map_of (sh_generations (foldl share_step ?t (drop n ops))) (p, c) \<noteq> Some g"
      using gone_runs.run_inv [of ?t g "(p, c)" "drop n ops"] i g mono [OF assms, of "take n ops"] by simp
    moreover have "foldl share_step ?t (drop n ops) = ?u" by (simp flip: foldl_append)
    ultimately show False using e by simp
  qed
  then show "sh_holds ?t (p, c)" using i unfolding sh_holds_iff [OF i] share_inv_def by blast
next
  let ?u = "foldl share_step s ops"
  assume "sh_holds s (p, c)" and k: "list_all (\<lambda>x. \<not> removes p c x) ops"
  then obtain h g where b: "sh_request_begin s p c = Inr (h, g)" by (auto simp: sh_holds_def)
  then have "map_of (sh_generations ?u) (p, c) = Some g" "map_of (sh_handlers ?u) c = Some h"
    using kept_run [OF assms _ _ k] unfolding request_begin_Inr [OF assms] by blast+
  moreover have "share_inv ?u" by (rule share_runs.run_inv [OF assms])
  ultimately have "sh_request_begin ?u p c = Inr (h, g)" by (simp add: request_begin_Inr)
  then have "sh_request_end ?u p c h g (answer h) = Inr (answer h)"
    by (auto simp: sh_request_begin_def sh_request_end_def ok_simps split: option.splits if_splits)
  with b show "\<exists>h. snd (sh_request s p c (\<lambda>s. foldl share_step s ops) (\<lambda>h. Inr (answer h))) = Inr (answer h)"
    by (auto simp: sh_request_def)
qed

theorem request_no_aba_witness:
  "snd (sh_request (fst (sh_allow demo_share (NodeId ''b'') ''cap'')) (NodeId ''b'') ''cap''
     (\<lambda>s. foldl share_step s [ShRevoke (NodeId ''b'') ''cap'', ShAllow (NodeId ''b'') ''cap'']) (\<lambda>h. Inr h)) \<noteq> Inr 7"
proof
  let ?s = "fst (sh_allow demo_share (NodeId ''b'') ''cap'')"
  let ?ops = "[ShRevoke (NodeId ''b'') ''cap'', ShAllow (NodeId ''b'') ''cap'']"
  assume a: "snd (sh_request ?s (NodeId ''b'') ''cap'' (\<lambda>s. foldl share_step s ?ops) (\<lambda>h. Inr h)) = Inr 7"
  have i: "share_inv ?s" using share_step_inv [OF demo_share_inv, of "ShAllow (NodeId ''b'') ''cap''"] by simp
  from request_no_aba [OF i, of "NodeId ''b''" "''cap''" ?ops "\<lambda>h. h" 7] a
  have "sh_holds (foldl share_step ?s (take 1 ?ops)) (NodeId ''b'', ''cap'')" by blast
  moreover have "share_inv (foldl share_step ?s (take 1 ?ops))" by (rule share_runs.run_inv [OF i])
  ultimately show False using share_revoke_effect(1) [OF i] by (simp add: sh_holds_iff)
qed

end
