(* ===== verification/Surfaces.thy ===== *)
theory Surfaces
  imports Identity Interfaces
begin

text \<open>
  \<open>surfaces/protocol.py\<close> and \<open>surfaces/registry.py\<close>: the wire check of surface parameters, with the iterative
  JSON-safety walk, and the registry of surfaces with its peer and cluster grants. Handlers are opaque
  tokens; their answers are arguments. A value is a finite tree, so the walk's test for a container inside
  itself cannot fire and only its marker entries on the stack are kept.
\<close>

section \<open>JSON safety\<close>

definition MAX_SURFACE_ID_LENGTH :: nat where
  "MAX_SURFACE_ID_LENGTH = 128"

definition MAX_SURFACE_PARAM_DEPTH :: nat where
  "MAX_SURFACE_PARAM_DEPTH = 32"

fun key_is_str :: "pykey \<Rightarrow> bool" where
  "key_is_str (KStr _) = True"
| "key_is_str (KOther _) = False"

text \<open>The stack holds (value, depth, exiting); its top is the head of the list.\<close>

function json_loop :: "(pyval \<times> nat \<times> bool) list \<Rightarrow> bool" where
  "json_loop [] = True"
| "json_loop ((current, depth, exiting) # stack) =
     (if exiting then json_loop stack
      else if depth > MAX_SURFACE_PARAM_DEPTH then False
      else case current of
        PNone \<Rightarrow> json_loop stack
      | PStr _ \<Rightarrow> json_loop stack
      | PBool _ \<Rightarrow> json_loop stack
      | PInt _ \<Rightarrow> json_loop stack
      | PFloat f \<Rightarrow> (if \<not> isfinite f then False else json_loop stack)
      | POther _ \<Rightarrow> False
      | PDict kvs \<Rightarrow>
          if \<exists>k \<in> fst ` set kvs. \<not> key_is_str k then False
          else json_loop (map (\<lambda>x. (snd x, depth + 1, False)) kvs @ (current, depth, True) # stack)
      | PList xs \<Rightarrow> json_loop (map (\<lambda>x. (x, depth + 1, False)) xs @ (current, depth, True) # stack))"
  by pat_completeness auto

definition frame_size :: "pyval \<times> nat \<times> bool \<Rightarrow> nat" where
  "frame_size f = (case f of (v, d, e) \<Rightarrow> if e then 1 else 2 * size v + 2)"

lemma frames_list:
  "sum_list (map (\<lambda>x. frame_size (x, d, False)) xs) = 2 * size_list size xs"
  by (induction xs) (simp_all add: frame_size_def)

lemma frames_dict:
  "sum_list (map (\<lambda>x. frame_size (snd x, d, False)) kvs) \<le> 2 * size_list (size_prod (\<lambda>_. 0) size) kvs"
  by (induction kvs) (auto simp: frame_size_def)

termination json_loop
proof (relation "measure (\<lambda>st. sum_list (map frame_size st))", goal_cases)
  case (9 current depth exiting stack kvs)
  then show ?case
    using frames_dict [of "depth + 1" kvs] by (simp add: frame_size_def comp_def)
next
  case (8 current depth exiting stack xs)
  then show ?case
    using frames_list [of "depth + 1" xs] by (simp add: frame_size_def comp_def)
qed (auto simp: frame_size_def)

definition json_safe :: "pyval \<Rightarrow> bool" where
  "json_safe v = json_loop [(v, 0, False)]"

text \<open>What it decides, by structural recursion.\<close>

fun json_ok :: "nat \<Rightarrow> pyval \<Rightarrow> bool" where
  "json_ok d (PFloat f) = (d \<le> MAX_SURFACE_PARAM_DEPTH \<and> isfinite f)"
| "json_ok d (PList xs) = (d \<le> MAX_SURFACE_PARAM_DEPTH \<and> list_all (\<lambda>x. json_ok (d + 1) x) xs)"
| "json_ok d (PDict kvs) = (d \<le> MAX_SURFACE_PARAM_DEPTH \<and> list_all (\<lambda>x. key_is_str (fst x) \<and> json_ok (d + 1) (snd x)) kvs)"
| "json_ok d (POther _) = False"
| "json_ok d _ = (d \<le> MAX_SURFACE_PARAM_DEPTH)"

lemma json_loop_ok: "json_loop st = list_all (\<lambda>(v, d, e). e \<or> json_ok d v) st"
proof (induction st rule: json_loop.induct)
  case (2 current depth exiting stack)
  show ?case
  proof (cases "exiting \<or> depth > MAX_SURFACE_PARAM_DEPTH")
    case True
    then show ?thesis using 2(1) by (cases current) (auto simp: MAX_SURFACE_PARAM_DEPTH_def)
  next
    case False
    then have c: "\<not> exiting" "\<not> MAX_SURFACE_PARAM_DEPTH < depth" by auto
    show ?thesis
    proof (cases current)
      case (PList xs)
      have "json_loop (map (\<lambda>x. (x, depth + 1, False)) xs @ (current, depth, True) # stack)
          \<longleftrightarrow> list_all (\<lambda>x. json_ok (depth + 1) x) xs \<and> list_all (\<lambda>(v, d, e). e \<or> json_ok d v) stack"
        unfolding 2(7) [OF c PList] by (simp add: list.pred_map comp_def)
      then show ?thesis using c PList by simp
    next
      case (PDict kvs)
      show ?thesis
      proof (cases "\<exists>k \<in> fst ` set kvs. \<not> key_is_str k")
        case True
        then show ?thesis using c PDict by (auto simp: list_all_iff)
      next
        case keys: False
        have "json_loop (map (\<lambda>x. (snd x, depth + 1, False)) kvs @ (current, depth, True) # stack)
            \<longleftrightarrow> list_all (\<lambda>x. json_ok (depth + 1) (snd x)) kvs \<and> list_all (\<lambda>(v, d, e). e \<or> json_ok d v) stack"
          unfolding 2(8) [OF c PDict keys] by (simp add: list.pred_map comp_def)
        moreover have "list_all (\<lambda>x. key_is_str (fst x) \<and> json_ok (depth + 1) (snd x)) kvs
            \<longleftrightarrow> list_all (\<lambda>x. json_ok (depth + 1) (snd x)) kvs"
          using keys by (auto simp: list_all_iff)
        ultimately show ?thesis using c PDict keys by simp
      qed
    qed (use c 2 in auto)
  qed
qed simp

section \<open>Wire parameters\<close>

definition SURFACE_OPERATIONS :: "string set" where
  "SURFACE_OPERATIONS = {''surface_read'', ''surface_review'', ''surface_action''}"

definition surface_text_ok :: "pyval \<Rightarrow> bool" where
  "surface_text_ok v \<longleftrightarrow> is_str v \<and> \<not> blank (str_of v) \<and> length (str_of v) \<le> MAX_SURFACE_ID_LENGTH"

text \<open>
  \<open>dumps_ok\<close> says whether \<open>json.dumps(..., allow_nan=False)\<close> returns; \<open>err\<close> is \<open>error_type\<close>.
\<close>

definition validate_surface_operation_params ::
  "(pyval \<Rightarrow> bool) \<Rightarrow> exn_class \<Rightarrow> string \<Rightarrow> pyval \<Rightarrow> unit res" where
  "validate_surface_operation_params dumps_ok err op1 params =
     (if op1 \<notin> SURFACE_OPERATIONS then raise err (''unknown surface operation: '' @ op1)
      else if \<not> is_dict params then raise err ''surface operation parameters must be an object''
      else let required = {''surface_id''} \<union> (if op1 = ''surface_action'' then {''action''} else {});
               allowed = required \<union> {''params''}
      in if \<not> dict_keys params \<subseteq> KStr ` allowed \<or> \<not> KStr ` required \<subseteq> dict_keys params
      then raise err (op1 @ '' has unexpected or missing parameters'')
      else if has_key params ''surface_id'' \<and> \<not> surface_text_ok (fget params ''surface_id'')
      then raise err (op1 @ '' surface_id is invalid'')
      else if has_key params ''action'' \<and> \<not> surface_text_ok (fget params ''action'')
      then raise err (op1 @ '' action is invalid'')
      else let section = fget_or params ''params'' (PDict [])
      in if \<not> is_dict section \<or> \<not> json_safe section \<or> \<not> dumps_ok section
      then raise err (op1 @ '' params must be JSON-safe'')
      else Inr ())"

section \<open>The registry\<close>

datatype surface_access = SURF_READ | SURF_REVIEW | SURF_ACTION

definition mk_access :: "string \<Rightarrow> surface_access res" where
  "mk_access s =
     (if s = ''read'' then Inr SURF_READ else if s = ''review'' then Inr SURF_REVIEW
      else if s = ''action'' then Inr SURF_ACTION else raise ValueError ''invalid surface access'')"

text \<open>An authorization source is a peer or any other hashable object.\<close>

datatype surface_source = PeerSource node_id | OtherSource nat

record surface_def =
  sd_id :: string
  sd_read :: nat
  sd_review :: "nat option"
  sd_actions :: "(string, nat) dict"

record surface_grant =
  sg_source :: surface_source
  sg_surface :: string
  sg_access :: surface_access
  sg_expires :: "rat option"
  sg_cluster :: bool

record surface_registry =
  sr_defs :: "(string, surface_def) dict"
  sr_peer :: "(node_id \<times> string \<times> surface_access, surface_grant) dict"
  sr_cluster :: "(surface_source \<times> string \<times> surface_access, surface_grant) dict"

definition surface_validate_id :: "string \<Rightarrow> string \<Rightarrow> unit res" where
  "surface_validate_id v kind =
     ensure (\<not> blank v \<and> length v \<le> MAX_SURFACE_ID_LENGTH) ValueError (''invalid '' @ kind @ '' id'')"

fun surface_actions :: "(string \<times> nat) list \<Rightarrow> (string, nat) dict \<Rightarrow> (string, nat) dict res" where
  "surface_actions [] acc = Inr acc"
| "surface_actions ((a, h) # rest) acc =
     rbind (surface_validate_id a ''action'') (\<lambda>_.
     if map_of acc a \<noteq> None then raise ValueError ''duplicate surface action''
     else surface_actions rest (dict_set a h acc))"

definition sr_register ::
  "surface_registry \<Rightarrow> string \<Rightarrow> nat \<Rightarrow> nat option \<Rightarrow> (string \<times> nat) list \<Rightarrow> surface_registry \<times> surface_def res" where
  "sr_register s sid rd rv actions =
     (case rbind (surface_validate_id sid ''surface'') (\<lambda>_.
             if map_of (sr_defs s) sid \<noteq> None then raise ValueError ''duplicate surface''
             else surface_actions actions []) of
        Inl x \<Rightarrow> (s, Inl x)
      | Inr acts \<Rightarrow>
          let d = \<lparr>sd_id = sid, sd_read = rd, sd_review = rv, sd_actions = acts\<rparr>
          in (s\<lparr>sr_defs := dict_set sid d (sr_defs s)\<rparr>, Inr d))"

definition surface_expiry :: "pyval \<Rightarrow> rat option res" where
  "surface_expiry v =
     (if v = PNone then Inr None
      else if \<not> is_number v then raise TypeError ''expiry must be numeric''
      else rbind (py_float v) (\<lambda>f. case f of Fin r \<Rightarrow> Inr (Some r) | _ \<Rightarrow> raise ValueError ''expiry must be finite''))"

definition sr_new_grant ::
  "surface_registry \<Rightarrow> surface_source \<Rightarrow> string \<Rightarrow> string \<Rightarrow> pyval \<Rightarrow> bool \<Rightarrow> surface_grant res" where
  "sr_new_grant s src sid access expires_at cluster =
     (if map_of (sr_defs s) sid = None then raise ValueError ''unknown surface''
      else rbind (surface_validate_id sid ''surface'') (\<lambda>_.
           rbind (surface_expiry expires_at) (\<lambda>x.
           rbind (mk_access access) (\<lambda>a.
           Inr \<lparr>sg_source = src, sg_surface = sid, sg_access = a, sg_expires = x, sg_cluster = cluster\<rparr>))))"

definition sr_grant_peer ::
  "surface_registry \<Rightarrow> node_id \<Rightarrow> string \<Rightarrow> string \<Rightarrow> pyval \<Rightarrow> surface_registry \<times> surface_grant res" where
  "sr_grant_peer s p sid access expires_at =
     (case sr_new_grant s (PeerSource p) sid access expires_at False of
        Inl x \<Rightarrow> (s, Inl x)
      | Inr g \<Rightarrow> (s\<lparr>sr_peer := dict_set (p, sid, sg_access g) g (sr_peer s)\<rparr>, Inr g))"

definition sr_grant_cluster ::
  "surface_registry \<Rightarrow> surface_source \<Rightarrow> string \<Rightarrow> string \<Rightarrow> pyval \<Rightarrow> surface_registry \<times> surface_grant res" where
  "sr_grant_cluster s src sid access expires_at =
     (case sr_new_grant s src sid access expires_at True of
        Inl x \<Rightarrow> (s, Inl x)
      | Inr g \<Rightarrow> (s\<lparr>sr_cluster := dict_set (src, sid, sg_access g) g (sr_cluster s)\<rparr>, Inr g))"

definition sr_revoke_peer :: "surface_registry \<Rightarrow> node_id \<Rightarrow> string \<Rightarrow> string option \<Rightarrow> surface_registry \<times> unit res" where
  "sr_revoke_peer s p sid access =
     (case access of
        None \<Rightarrow> (s\<lparr>sr_peer := filter (\<lambda>(k, g). \<not> (fst k = p \<and> fst (snd k) = sid)) (sr_peer s)\<rparr>, Inr ())
      | Some a \<Rightarrow>
          (case mk_access a of
             Inl x \<Rightarrow> (s, Inl x)
           | Inr acc \<Rightarrow> (s\<lparr>sr_peer := dict_pop (p, sid, acc) (sr_peer s)\<rparr>, Inr ())))"

definition sr_stop_peer :: "surface_registry \<Rightarrow> node_id \<Rightarrow> string \<Rightarrow> surface_registry \<times> unit res" where
  "sr_stop_peer s p sid = sr_revoke_peer s p sid None"

definition sr_revoke_source :: "surface_registry \<Rightarrow> surface_source \<Rightarrow> surface_registry" where
  "sr_revoke_source s src =
     s\<lparr>sr_peer := filter (\<lambda>(k, g). PeerSource (fst k) \<noteq> src) (sr_peer s),
       sr_cluster := filter (\<lambda>(k, g). fst k \<noteq> src) (sr_cluster s)\<rparr>"

definition sr_clear_grants :: "surface_registry \<Rightarrow> surface_registry" where
  "sr_clear_grants s = s\<lparr>sr_peer := [], sr_cluster := []\<rparr>"

definition grant_valid :: "surface_grant option \<Rightarrow> rat \<Rightarrow> bool" where
  "grant_valid g now =
     (case g of None \<Rightarrow> False | Some x \<Rightarrow> (case sg_expires x of None \<Rightarrow> True | Some e \<Rightarrow> e \<ge> now))"

definition surface_handler :: "surface_def \<Rightarrow> surface_access \<Rightarrow> string option \<Rightarrow> nat res" where
  "surface_handler d acc action =
     (case acc of
        SURF_READ \<Rightarrow> Inr (sd_read d)
      | SURF_REVIEW \<Rightarrow> (case sd_review d of None \<Rightarrow> raise PermissionError ''surface review is not available'' | Some h \<Rightarrow> Inr h)
      | SURF_ACTION \<Rightarrow>
          (case action of
             None \<Rightarrow> raise ValueError ''surface action is required''
           | Some a \<Rightarrow> (case map_of (sd_actions d) a of None \<Rightarrow> raise ValueError ''unknown surface action'' | Some h \<Rightarrow> Inr h)))"

definition sr_authorized_handler ::
  "surface_registry \<Rightarrow> node_id \<Rightarrow> string \<Rightarrow> string \<Rightarrow> string option \<Rightarrow> surface_source list \<Rightarrow> rat \<Rightarrow> nat res" where
  "sr_authorized_handler s p sid access action cluster_sources now =
     rbind (mk_access access) (\<lambda>acc.
     let g0 = map_of (sr_peer s) (p, sid, acc);
         g = (if grant_valid g0 now then g0
              else Option.bind
                (find (\<lambda>src. grant_valid (map_of (sr_cluster s) (src, sid, acc)) now) cluster_sources)
                (\<lambda>src. map_of (sr_cluster s) (src, sid, acc)))
     in if g = None then raise PermissionError ''surface access is not authorized''
        else case map_of (sr_defs s) sid of
          None \<Rightarrow> raise ValueError ''unknown surface''
        | Some d \<Rightarrow> surface_handler d acc action)"

definition sr_authorize ::
  "surface_registry \<Rightarrow> node_id \<Rightarrow> string \<Rightarrow> string \<Rightarrow> string option \<Rightarrow> surface_source list \<Rightarrow> rat \<Rightarrow> unit res" where
  "sr_authorize s p sid access action cluster_sources now =
     rbind (sr_authorized_handler s p sid access action cluster_sources now) (\<lambda>_. Inr ())"

definition sr_dispatch ::
  "surface_registry \<Rightarrow> node_id \<Rightarrow> string \<Rightarrow> string \<Rightarrow> string option \<Rightarrow> surface_source list \<Rightarrow> rat \<Rightarrow> (nat \<Rightarrow> 'r res) \<Rightarrow> 'r res" where
  "sr_dispatch s p sid access action cluster_sources now answer =
     rbind (sr_authorized_handler s p sid access action cluster_sources now) (\<lambda>h.
     case answer h of
       Inr r \<Rightarrow> Inr r
     | Inl e \<Rightarrow> if isa e Exception then raise SurfaceHandlerError ''surface handler failed'' else Inl e)"

section \<open>Properties\<close>

text \<open>
  The iterative walk decides what it should: a value is JSON-safe exactly when every node of it lies
  at depth 32 or less and is null, a boolean, an integer, a text, a finite float, a list of such values or
  an object with text keys and such values.
\<close>

theorem json_safe_decides: "json_safe v = json_ok 0 v"
  by (simp add: json_safe_def json_loop_ok)

definition surface_granted :: "surface_registry \<Rightarrow> node_id \<Rightarrow> string \<Rightarrow> surface_access \<Rightarrow> surface_source list \<Rightarrow> rat \<Rightarrow> bool" where
  "surface_granted s p sid acc srcs now \<longleftrightarrow> grant_valid (map_of (sr_peer s) (p, sid, acc)) now
     \<or> (\<exists>src \<in> set srcs. grant_valid (map_of (sr_cluster s) (src, sid, acc)) now)"

lemma authorized_iff:
  "sr_authorized_handler s p sid access action srcs now = Inr h \<longleftrightarrow>
   (\<exists>acc d. mk_access access = Inr acc \<and> surface_granted s p sid acc srcs now
      \<and> map_of (sr_defs s) sid = Some d \<and> surface_handler d acc action = Inr h)"
proof (cases "mk_access access")
  case (Inr acc)
  have gv: "grant_valid x now \<Longrightarrow> x \<noteq> None" for x by (cases x) (auto simp: grant_valid_def)
  let ?g0 = "map_of (sr_peer s) (p, sid, acc)"
  let ?f = "find (\<lambda>src. grant_valid (map_of (sr_cluster s) (src, sid, acc)) now) srcs"
  have "(if grant_valid ?g0 now then ?g0 else Option.bind ?f (\<lambda>src. map_of (sr_cluster s) (src, sid, acc))) \<noteq> None
      \<longleftrightarrow> surface_granted s p sid acc srcs now"
  proof (cases ?f)
    case None
    then have "\<not> (\<exists>src \<in> set srcs. grant_valid (map_of (sr_cluster s) (src, sid, acc)) now)"
      using find_None_iff by metis
    then show ?thesis using None gv [of ?g0] by (auto simp: surface_granted_def)
  next
    case (Some src)
    then show ?thesis using find_Some_D [OF Some] gv [of ?g0] gv [of "map_of (sr_cluster s) (src, sid, acc)"]
      by (auto simp: surface_granted_def)
  qed
  then show ?thesis using Inr by (auto simp: sr_authorized_handler_def Let_def split: option.splits)
qed (auto simp: sr_authorized_handler_def)

text \<open>
  A surface is reachable only through a live grant for exactly that surface and access: a handler is
  handed out exactly when the peer itself or one of the given cluster sources holds an unexpired grant, the
  surface exists and offers the access. After \<open>revoke_source\<close> of the peer nothing is reachable for it except
  through a cluster source, and after \<open>clear_grants\<close> nothing at all; other peers' direct grants stay.
\<close>

theorem surface_access_rule:
  "(sr_authorized_handler s p sid access action srcs now = Inr h \<longleftrightarrow>
     (\<exists>acc d. mk_access access = Inr acc \<and> surface_granted s p sid acc srcs now
        \<and> map_of (sr_defs s) sid = Some d \<and> surface_handler d acc action = Inr h))
   \<and> \<not> surface_granted (sr_revoke_source s (PeerSource p)) p sid acc [] now
   \<and> \<not> surface_granted (sr_clear_grants s) p sid acc srcs now
   \<and> (q \<noteq> p \<longrightarrow> surface_granted (sr_revoke_source s (PeerSource p)) q sid acc [] now = surface_granted s q sid acc [] now)"
proof -
  have "map_of (sr_peer (sr_revoke_source s (PeerSource p))) (q, sid, acc)
      = (if q = p then None else map_of (sr_peer s) (q, sid, acc))" for q
    using map_of_filter_key [of "\<lambda>k. fst k \<noteq> p" "sr_peer s" "(q, sid, acc)"]
    by (simp add: sr_revoke_source_def case_prod_unfold)
  then show ?thesis by (simp add: authorized_iff surface_granted_def sr_clear_grants_def) (simp add: grant_valid_def)
qed

definition demo_surfaces :: surface_registry where
  "demo_surfaces = \<lparr>sr_defs = [(''s'', \<lparr>sd_id = ''s'', sd_read = 1, sd_review = None, sd_actions = []\<rparr>)],
     sr_peer = [((NodeId ''b'', ''s'', SURF_READ), \<lparr>sg_source = PeerSource (NodeId ''b''), sg_surface = ''s'',
       sg_access = SURF_READ, sg_expires = Some 10, sg_cluster = False\<rparr>)], sr_cluster = []\<rparr>"

theorem surface_access_rule_witness:
  "sr_authorized_handler demo_surfaces (NodeId ''b'') ''s'' ''read'' None [] 10 = Inr 1"
  using surface_access_rule [of demo_surfaces "NodeId ''b''" "''s''" "''read''" None "[]" 10 1 SURF_READ "NodeId ''c''"]
  by (simp add: demo_surfaces_def surface_granted_def grant_valid_def mk_access_def surface_handler_def)

end
