(* ===== verification/Wire.thy ===== *)
theory Wire
  imports RoleCodec Replay Sharing Surfaces
begin

text \<open>
  \<open>remote/wire_protocol.py\<close>: signed request and response envelopes, their verification with freshness and
  replay checks, and the validation of hello payloads, secrets, pairing controls and operation parameters.

  \<open>canon\<close> is \<open>json.dumps(..., sort_keys=True, allow_nan=False)\<close>: the text of a document, or the error for a
  value JSON cannot write. HMAC and SHA-256 are computed. Clock readings are arguments.
\<close>

section \<open>Constants\<close>

definition REMOTE_PROTOCOL_VERSION :: string where
  "REMOTE_PROTOCOL_VERSION = ''1''"

definition MAX_IDENTIFIER_LENGTH :: nat where
  "MAX_IDENTIFIER_LENGTH = 128"

definition MAX_ENVELOPE_BYTES :: nat where
  "MAX_ENVELOPE_BYTES = 8 * 1024 * 1024"

definition ROLE_OPERATIONS :: "string set" where
  "ROLE_OPERATIONS = {''consume_invite'', ''assign_role'', ''renew_coordinator_lease'', ''revoke_member'', ''pause_worker'',
     ''resume_worker'', ''revoke_worker'', ''remove_job'', ''remove_connection'', ''grant_capabilities'',
     ''revoke_capabilities'', ''sync_capability_grant'', ''worker_snapshot'', ''standby_batch''}"

definition NO_PARAM_OPERATIONS :: "string set" where
  "NO_PARAM_OPERATIONS = {''hello'', ''ping'', ''echo'', ''demo.read_state'', ''dashboard_snapshot'', ''process_candidates'',
     ''storage_candidates'', ''revoke_self''}"

definition OP_REQUIRED_CAPABILITY :: "string \<Rightarrow> node_capability option" where
  "OP_REQUIRED_CAPABILITY op1 =
     (if op1 \<in> NO_PARAM_OPERATIONS \<union> {''component_summary'', ''capability_request'', ''surface_read'', ''surface_review''}
      then Some CAP_READ_STATE
      else if op1 \<in> ROLE_OPERATIONS \<union> {''process_request_quit'', ''process_force_quit'', ''surface_action''}
      then Some CAP_REMOTE_MANAGEMENT
      else None)"

definition OP_REQUIRED_PERMISSION :: "string \<Rightarrow> node_permission option" where
  "OP_REQUIRED_PERMISSION op1 =
     map_option (\<lambda>c. case c of CAP_READ_STATE \<Rightarrow> READ_STATE | CAP_REMOTE_MANAGEMENT \<Rightarrow> REMOTE_MANAGEMENT)
       (OP_REQUIRED_CAPABILITY op1)"

definition OPERATION_SAFETY :: "string \<Rightarrow> string option" where
  "OPERATION_SAFETY op1 =
     (if OP_REQUIRED_CAPABILITY op1 = None then None
      else if op1 \<in> {''process_force_quit'', ''surface_action''} then Some ''unsafe''
      else if op1 \<in> ROLE_OPERATIONS \<union> {''process_request_quit'', ''revoke_self''} then Some ''retry_safe''
      else Some ''read'')"

section \<open>Envelopes\<close>

record remote_request =
  rq_node :: node_id
  rq_caller :: "node_id option"
  rq_op :: string
  rq_params :: pyval
  rq_id :: string
  rq_nonce :: string
  rq_ts :: rat
  rq_session :: "string option"
  rq_resume :: bool
  rq_generation :: "string option"

record remote_response =
  rs_node :: node_id
  rs_id :: string
  rs_status :: string
  rs_payload :: pyval
  rs_error :: pyval
  rs_ts :: rat
  rs_session :: "string option"
  rs_generation :: "string option"

definition signature :: "(pyval \<Rightarrow> string res) \<Rightarrow> string \<Rightarrow> pyval \<Rightarrow> string res" where
  "signature canon secret doc =
     rbind (canon doc) (\<lambda>text. Inr (hexdigest (hmac_sha256 (utf8 secret) (utf8 text))))"

definition verify_signature :: "(pyval \<Rightarrow> string res) \<Rightarrow> string \<Rightarrow> string \<Rightarrow> pyval \<Rightarrow> string \<Rightarrow> unit res" where
  "verify_signature canon sig secret doc kind =
     (case signature canon secret doc of
        Inl e \<Rightarrow>
          if isa e TypeError \<or> isa e ValueError
          then raise RemoteProtocolError (kind @ '' contains invalid JSON values'') else Inl e
      | Inr expected \<Rightarrow>
          rbind (compare_digest sig expected) (\<lambda>same.
            ensure same RemoteAuthError (kind @ '' signature is invalid'')))"

definition opt_field :: "string \<Rightarrow> string option \<Rightarrow> (string \<times> pyval) list" where
  "opt_field k v = (case v of None \<Rightarrow> [] | Some s \<Rightarrow> [(k, PStr s)])"

definition sign_request ::
  "(pyval \<Rightarrow> string res) \<Rightarrow> string \<Rightarrow> string \<Rightarrow> pyval \<Rightarrow> string \<Rightarrow> string \<Rightarrow> rat \<Rightarrow> string \<Rightarrow> string option
   \<Rightarrow> string option \<Rightarrow> bool \<Rightarrow> string option \<Rightarrow> pyval res" where
  "sign_request canon n op1 params rid nonce ts secret caller session resume generation =
     (let body = [(''v'', PStr REMOTE_PROTOCOL_VERSION), (''node_id'', PStr n), (''op'', PStr op1), (''params'', params),
            (''request_id'', PStr rid), (''nonce'', PStr nonce), (''ts'', PFloat (Fin ts))]
          @ opt_field ''caller_node_id'' caller
          @ (case session of None \<Rightarrow> [] | Some x \<Rightarrow> [(''session_id'', PStr x), (''resume'', PBool resume)])
          @ opt_field ''connection_generation'' generation
      in rbind (signature canon secret (pdict body)) (\<lambda>sig. Inr (pdict (body @ [(''sig'', PStr sig)]))))"

definition sign_response ::
  "(pyval \<Rightarrow> string res) \<Rightarrow> string \<Rightarrow> string \<Rightarrow> string \<Rightarrow> string \<Rightarrow> rat \<Rightarrow> pyval \<Rightarrow> string option
   \<Rightarrow> string option \<Rightarrow> string option \<Rightarrow> pyval res" where
  "sign_response canon n rid status secret ts payload err session generation =
     (if payload \<noteq> PNone \<and> \<not> is_dict payload then raise ValueError ''response payload must be an object or None''
      else let body = [(''v'', PStr REMOTE_PROTOCOL_VERSION), (''node_id'', PStr n), (''request_id'', PStr rid),
            (''status'', PStr status), (''payload'', payload),
            (''error'', case err of None \<Rightarrow> PNone | Some e \<Rightarrow> PStr e), (''ts'', PFloat (Fin ts))]
          @ opt_field ''session_id'' session @ opt_field ''connection_generation'' generation
      in rbind (signature canon secret (pdict body)) (\<lambda>sig. Inr (pdict (body @ [(''sig'', PStr sig)]))))"

definition valid_identifier :: "pyval \<Rightarrow> bool" where
  "valid_identifier v \<longleftrightarrow> is_str v \<and> 1 \<le> length (str_of v) \<and> length (str_of v) \<le> MAX_IDENTIFIER_LENGTH
     \<and> list_all (\<lambda>c. str_isalnum c \<or> c \<in> set ''._:-'') (str_of v)"

definition opt_str :: "pyval \<Rightarrow> string option" where
  "opt_str v = (if v = PNone then None else Some (str_of v))"

definition unsigned_fields :: "pyval \<Rightarrow> pyval" where
  "unsigned_fields envelope = PDict (filter (\<lambda>(k, v). k \<noteq> KStr ''sig'') (dict_items envelope))"

text \<open>\<open>isinstance(v, (int, float)) and not bool and math.isfinite(v)\<close>, then \<open>float(v)\<close>.\<close>

definition finite_timestamp :: "pyval \<Rightarrow> string \<Rightarrow> rat res" where
  "finite_timestamp v msg =
     (if \<not> is_number v then raise RemoteAuthError msg
      else rbind (py_float v) (\<lambda>f. case f of Fin r \<Rightarrow> Inr r | _ \<Rightarrow> raise RemoteAuthError msg))"

definition request_fields_checked :: "pyval \<Rightarrow> unit res" where
  "request_fields_checked env =
     rbind (ensure (is_str (fget env ''node_id'') \<and> str_of (fget env ''node_id'') \<noteq> []) RemoteAuthError
              ''request node_id is invalid'') (\<lambda>_.
     rbind (ensure (fget env ''caller_node_id'' = PNone
                    \<or> is_str (fget env ''caller_node_id'') \<and> str_of (fget env ''caller_node_id'') \<noteq> [])
              RemoteAuthError ''request caller_node_id is invalid'') (\<lambda>_.
     rbind (ensure (is_str (fget env ''op'')) RemoteProtocolError ''request op must be a string'') (\<lambda>_.
     rbind (ensure (is_dict (fget env ''params'')) RemoteProtocolError ''request params must be an object'') (\<lambda>_.
     rbind (ensure (valid_identifier (fget env ''request_id'')) RemoteAuthError ''request_id is invalid'') (\<lambda>_.
     rbind (ensure (valid_identifier (fget env ''nonce'')) RemoteAuthError ''request nonce is invalid'') (\<lambda>_.
     rbind (ensure (fget env ''session_id'' = PNone \<or> valid_identifier (fget env ''session_id''))
              RemoteAuthError ''session_id is invalid'') (\<lambda>_.
     rbind (ensure (is_bool (fget_or env ''resume'' (PBool False))
                    \<and> (bool_of (fget_or env ''resume'' (PBool False)) \<longrightarrow> fget env ''session_id'' \<noteq> PNone))
              RemoteAuthError ''request resume is invalid'') (\<lambda>_.
     ensure (fget env ''connection_generation'' = PNone \<or> valid_identifier (fget env ''connection_generation''))
       RemoteAuthError ''connection generation is invalid''))))))))"

definition request_envelope_fields :: "string set" where
  "request_envelope_fields = {''v'', ''node_id'', ''caller_node_id'', ''op'', ''params'', ''request_id'', ''nonce'', ''ts'',
     ''sig'', ''session_id'', ''resume'', ''connection_generation''}"

text \<open>Everything up to the replay check.\<close>

definition verify_request_unrecorded ::
  "(pyval \<Rightarrow> string res) \<Rightarrow> string \<Rightarrow> rat \<Rightarrow> rat \<Rightarrow> pyval \<Rightarrow> remote_request res" where
  "verify_request_unrecorded canon secret now freshness env =
     (if \<not> is_dict env then raise RemoteProtocolError ''request envelope must be an object''
      else if fget env ''v'' \<noteq> PStr REMOTE_PROTOCOL_VERSION
      then raise RemoteProtocolError ''unsupported remote protocol version''
      else if \<not> dict_keys env \<subseteq> KStr ` request_envelope_fields \<or> \<not> has_key env ''sig''
      then raise RemoteProtocolError ''request envelope fields are invalid''
      else if \<not> is_str (fget env ''sig'') then raise RemoteAuthError ''request is missing its signature''
      else rbind (verify_signature canon (str_of (fget env ''sig'')) secret (unsigned_fields env) ''request'') (\<lambda>_.
           rbind (request_fields_checked env) (\<lambda>_.
           rbind (finite_timestamp (fget env ''ts'') ''request timestamp is invalid'') (\<lambda>ts.
           if now - ts > freshness \<or> now - ts < - freshness
           then raise RemoteAuthError ''request timestamp is outside the freshness window''
           else (case rbind (mk_node_id (str_of (fget env ''node_id''))) (\<lambda>n.
                        rbind (if fget env ''caller_node_id'' = PNone then Inr None
                               else rbind (mk_node_id (str_of (fget env ''caller_node_id''))) (\<lambda>c. Inr (Some c)))
                          (\<lambda>caller. Inr (n, caller))) of
                   Inl _ \<Rightarrow> raise RemoteAuthError ''request identity is invalid''
                 | Inr (n, caller) \<Rightarrow>
                     Inr \<lparr>rq_node = n, rq_caller = caller, rq_op = str_of (fget env ''op''), rq_params = fget env ''params'',
                          rq_id = str_of (fget env ''request_id''), rq_nonce = str_of (fget env ''nonce''), rq_ts = ts,
                          rq_session = opt_str (fget env ''session_id''),
                          rq_resume = bool_of (fget_or env ''resume'' (PBool False)),
                          rq_generation = opt_str (fget env ''connection_generation'')\<rparr>)))))"

definition verify_request ::
  "(pyval \<Rightarrow> string res) \<Rightarrow> string \<Rightarrow> rat \<Rightarrow> rat \<Rightarrow> pyval \<Rightarrow> replay_cache \<Rightarrow> replay_cache \<times> remote_request res" where
  "verify_request canon secret now freshness env cache =
     (case verify_request_unrecorded canon secret now freshness env of
        Inl x \<Rightarrow> (cache, Inl x)
      | Inr r \<Rightarrow>
          (case check_and_record (nid_value (rq_node r), rq_id r, rq_nonce r) now cache of (cache', fresh) \<Rightarrow>
             (cache', if fresh then Inr r else raise RemoteAuthError ''request has been replayed'')))"

definition response_envelope_fields :: "string set" where
  "response_envelope_fields = {''v'', ''node_id'', ''request_id'', ''status'', ''payload'', ''error'', ''ts'', ''sig'',
     ''session_id'', ''connection_generation''}"

definition verify_response ::
  "(pyval \<Rightarrow> string res) \<Rightarrow> string \<Rightarrow> rat \<Rightarrow> rat \<Rightarrow> pyval \<Rightarrow> remote_response res" where
  "verify_response canon secret now freshness env =
     (if \<not> is_dict env then raise RemoteProtocolError ''response envelope must be an object''
      else if fget env ''v'' \<noteq> PStr REMOTE_PROTOCOL_VERSION
      then raise RemoteProtocolError ''unsupported remote protocol version''
      else if \<not> dict_keys env \<subseteq> KStr ` response_envelope_fields \<or> \<not> has_key env ''sig''
      then raise RemoteProtocolError ''response envelope fields are invalid''
      else if \<not> is_str (fget env ''sig'') then raise RemoteAuthError ''response is missing its signature''
      else rbind (verify_signature canon (str_of (fget env ''sig'')) secret (unsigned_fields env) ''response'') (\<lambda>_.
           if \<not> is_str (fget env ''node_id'') \<or> str_of (fget env ''node_id'') = []
              \<or> \<not> is_str (fget env ''request_id'') \<or> str_of (fget env ''request_id'') = []
           then raise RemoteAuthError ''response identity fields are invalid''
           else if fget env ''status'' \<notin> {PStr ''ok'', PStr ''error''}
           then raise RemoteProtocolError ''response status is invalid''
           else if fget env ''payload'' \<noteq> PNone \<and> \<not> is_dict (fget env ''payload'')
           then raise RemoteProtocolError ''response payload must be an object or null''
           else if fget env ''error'' \<noteq> PNone \<and> \<not> is_str (fget env ''error'')
           then raise RemoteProtocolError ''response error must be a string or null''
           else if fget env ''session_id'' \<noteq> PNone \<and> \<not> valid_identifier (fget env ''session_id'')
           then raise RemoteAuthError ''response session_id is invalid''
           else if fget env ''connection_generation'' \<noteq> PNone \<and> \<not> valid_identifier (fget env ''connection_generation'')
           then raise RemoteAuthError ''response connection generation is invalid''
           else rbind (finite_timestamp (fget env ''ts'') ''response timestamp is invalid'') (\<lambda>ts.
           if now - ts > freshness \<or> now - ts < - freshness
           then raise RemoteAuthError ''response timestamp is outside the freshness window''
           else (case mk_node_id (str_of (fget env ''node_id'')) of
                   Inl _ \<Rightarrow> raise RemoteAuthError ''response identity is invalid''
                 | Inr n \<Rightarrow>
                     Inr \<lparr>rs_node = n, rs_id = str_of (fget env ''request_id''), rs_status = str_of (fget env ''status''),
                          rs_payload = fget env ''payload'', rs_error = fget env ''error'', rs_ts = ts,
                          rs_session = opt_str (fget env ''session_id''),
                          rs_generation = opt_str (fget env ''connection_generation'')\<rparr>))))"

section \<open>Hello, secrets and pairing controls\<close>

fun hello_capabilities :: "pyval list \<Rightarrow> node_capability set \<Rightarrow> node_capability set res" where
  "hello_capabilities [] acc = Inr acc"
| "hello_capabilities (raw # rest) acc =
     (if \<not> is_str raw then raise RemoteProtocolError ''hello capability must be a string''
      else case mk_capability (str_of raw) of
        Inl _ \<Rightarrow> hello_capabilities rest acc
      | Inr c \<Rightarrow> hello_capabilities rest (insert c acc))"

definition parse_hello_capabilities :: "pyval \<Rightarrow> node_capability set res" where
  "parse_hello_capabilities payload =
     (if \<not> is_dict payload then raise RemoteProtocolError ''hello payload must be an object''
      else let raw = fget_or payload ''capabilities'' (PList []) in
        if \<not> is_list raw then raise RemoteProtocolError ''hello capabilities must be a list''
        else hello_capabilities (list_of raw) {})"

definition validate_hello_payload :: "pyval \<Rightarrow> node_id option \<Rightarrow> node_capability set res" where
  "validate_hello_payload payload expected =
     (if \<not> is_dict payload \<or> fget payload ''ok'' \<noteq> PBool True then raise RemoteProtocolError ''hello response is invalid''
      else if fget_or payload ''protocol_version'' (PStr REMOTE_PROTOCOL_VERSION) \<noteq> PStr REMOTE_PROTOCOL_VERSION
      then raise RemoteProtocolError ''unsupported remote protocol version''
      else if \<not> is_str (fget payload ''node_id'') \<or> str_of (fget payload ''node_id'') = []
      then raise RemoteAuthError ''hello node identity is invalid''
      else if (case expected of None \<Rightarrow> False | Some n \<Rightarrow> str_of (fget payload ''node_id'') \<noteq> nid_value n)
      then raise RemoteAuthError ''hello came from the wrong node''
      else if \<not> is_str (fget payload ''identity_fingerprint'') \<or> str_of (fget payload ''identity_fingerprint'') = []
      then raise RemoteAuthError ''hello identity fingerprint is missing''
      else parse_hello_capabilities payload)"

text \<open>\<open>bytes.fromhex\<close>: pairs of hex digits, with ASCII whitespace allowed between the pairs.\<close>

definition ascii_space :: "char \<Rightarrow> bool" where
  "ascii_space c \<longleftrightarrow> (let n = (of_char c :: nat) in 9 \<le> n \<and> n \<le> 13 \<or> n = 32)"

definition hex_char :: "char \<Rightarrow> bool" where
  "hex_char c \<longleftrightarrow> c \<in> set ''0123456789abcdefABCDEF''"

fun fromhex_length :: "string \<Rightarrow> nat option" where
  "fromhex_length [] = Some 0"
| "fromhex_length [c] = (if ascii_space c then Some 0 else None)"
| "fromhex_length (c # d # cs) =
     (if ascii_space c then fromhex_length (d # cs)
      else if hex_char c \<and> hex_char d then map_option Suc (fromhex_length cs) else None)"

definition validate_secret :: "pyval \<Rightarrow> unit res" where
  "validate_secret secret =
     (if \<not> is_str secret \<or> length (str_of secret) \<noteq> 64
      then raise ValueError ''peer credentials must be 256-bit hex text''
      else if fromhex_length (str_of secret) = None then raise ValueError ''peer credentials must be hexadecimal''
      else Inr ())"

record pairing_request =
  pq_caller :: node_id
  pq_identity :: string
  pq_transport :: string
  pq_secret :: string
  pq_permissions :: "node_permission set"
  pq_root :: "string option"
  pq_generation :: "int option"
  pq_proof :: "string option"
  pq_intent :: string

definition mk_pairing_request :: "pairing_request \<Rightarrow> pairing_request res" where
  "mk_pairing_request r =
     (if pq_intent r \<notin> {''pair'', ''repair''} then raise RemoteProtocolError ''pairing intent is invalid''
      else if nid_value (pq_caller r) = [] \<or> pq_identity r = [] then raise RemoteAuthError ''pairing identity is missing''
      else if pq_transport r = [] then raise RemoteAuthError ''pairing transport fingerprint is missing''
      else rbind (validate_secret (PStr (pq_secret r))) (\<lambda>_.
        if \<not> pq_permissions r \<subseteq> READ_PERMISSIONS then raise RemoteAuthorizationError ''pairing is read-only'' else Inr r))"

record elevation_request =
  er_caller :: node_id
  er_identity :: string
  er_transport :: string
  er_current :: string
  er_proposed :: string
  er_permissions :: "node_permission set"

definition mk_elevation_request :: "elevation_request \<Rightarrow> elevation_request res" where
  "mk_elevation_request r =
     (if nid_value (er_caller r) = [] \<or> er_identity r = [] then raise RemoteAuthError ''elevation identity is missing''
      else if er_transport r = [] then raise RemoteAuthError ''elevation transport fingerprint is missing''
      else rbind (validate_secret (PStr (er_current r))) (\<lambda>_.
           rbind (validate_secret (PStr (er_proposed r))) (\<lambda>_.
        if er_permissions r = {} then raise RemoteAuthorizationError ''elevation requires a permission'' else Inr r)))"

record pairing_control =
  pc_operation :: string
  pc_transaction :: string
  pc_caller :: node_id
  pc_identity :: string
  pc_transport :: string
  pc_secret :: string
  pc_permissions :: "node_permission set"
  pc_expires :: rat

definition control_fields :: "string set" where
  "control_fields = {''op'', ''transaction_id'', ''caller_node_id'', ''identity_fingerprint'', ''transport_fingerprint'',
     ''secret'', ''permissions'', ''expires_at''}"

fun hashable :: "pyval \<Rightarrow> bool" where
  "hashable (PList _) = False"
| "hashable (PDict _) = False"
| "hashable _ = True"

definition text_field :: "pyval \<Rightarrow> string \<Rightarrow> bool" where
  "text_field raw k \<longleftrightarrow> is_str (fget raw k) \<and> str_of (fget raw k) \<noteq> []"

definition validate_pairing_control_request :: "pyval \<Rightarrow> rat \<Rightarrow> pairing_control res" where
  "validate_pairing_control_request raw now =
     (if \<not> is_dict raw then raise RemoteProtocolError ''pairing control operation is invalid''
      else if \<not> hashable (fget raw ''op'') then raise TypeError ''unhashable type''
      else if fget raw ''op'' \<notin> {PStr ''pair_confirm'', PStr ''pair_abort''}
      then raise RemoteProtocolError ''pairing control operation is invalid''
      else if dict_keys raw \<noteq> KStr ` control_fields then raise RemoteProtocolError ''pairing control fields are invalid''
      else rbind (ensure (text_field raw ''transaction_id'') RemoteProtocolError ''pairing control transaction_id is invalid'') (\<lambda>_.
           rbind (ensure (text_field raw ''identity_fingerprint'') RemoteProtocolError ''pairing control identity_fingerprint is invalid'') (\<lambda>_.
           rbind (ensure (text_field raw ''transport_fingerprint'') RemoteProtocolError ''pairing control transport_fingerprint is invalid'') (\<lambda>_.
           rbind (ensure (text_field raw ''caller_node_id'') RemoteProtocolError ''pairing control caller identity is invalid'') (\<lambda>_.
           if validate_secret (fget raw ''secret'') \<noteq> Inr () then raise RemoteProtocolError ''pairing control secret is invalid''
           else if \<not> is_list (fget raw ''permissions'') \<or> \<not> list_all is_str (list_of (fget raw ''permissions''))
           then raise RemoteProtocolError ''pairing control permissions are invalid''
           else case rmap (\<lambda>v. mk_permission (str_of v)) (list_of (fget raw ''permissions'')) of
             Inl _ \<Rightarrow> raise RemoteProtocolError ''pairing control permissions are invalid''
           | Inr ps \<Rightarrow>
               if \<not> set ps \<subseteq> READ_PERMISSIONS then raise RemoteAuthorizationError ''pairing control is read-only''
               else if \<not> is_number (fget raw ''expires_at'') then raise RemoteProtocolError ''pairing control expiry is invalid''
               else rbind (py_float (fget raw ''expires_at'')) (\<lambda>f. case f of
                   Fin x \<Rightarrow>
                     if x \<le> now then raise RemoteProtocolError ''pairing control expiry is invalid''
                     else rbind (mk_node_id (str_of (fget raw ''caller_node_id''))) (\<lambda>n.
                       Inr \<lparr>pc_operation = str_of (fget raw ''op''), pc_transaction = str_of (fget raw ''transaction_id''),
                            pc_caller = n, pc_identity = str_of (fget raw ''identity_fingerprint''),
                            pc_transport = str_of (fget raw ''transport_fingerprint''), pc_secret = str_of (fget raw ''secret''),
                            pc_permissions = set ps, pc_expires = x\<rparr>)
                 | _ \<Rightarrow> raise RemoteProtocolError ''pairing control expiry is invalid''))))))"

section \<open>Operation parameters\<close>

definition process_ref_checked :: "pyval \<Rightarrow> unit res" where
  "process_ref_checked item =
     (if \<not> is_dict item then raise RemoteProtocolError ''process reference must be an object''
      else if \<not> is_int (fget item ''pid'') \<or> int_of (fget item ''pid'') < 0
      then raise RemoteProtocolError ''process reference pid is invalid''
      else if \<not> is_number (fget item ''create_time'')
      then raise RemoteProtocolError ''process reference create_time is required''
      else rbind (py_float (fget item ''create_time'')) (\<lambda>f. case f of
          Fin r \<Rightarrow> ensure (0 \<le> r) RemoteProtocolError ''process reference create_time is required''
        | _ \<Rightarrow> raise RemoteProtocolError ''process reference create_time is required''))"

fun first_error :: "('a \<Rightarrow> unit res) \<Rightarrow> 'a list \<Rightarrow> unit res" where
  "first_error f [] = Inr ()"
| "first_error f (x # xs) = rbind (f x) (\<lambda>_. first_error f xs)"

definition process_params_checked :: "string \<Rightarrow> pyval \<Rightarrow> unit res" where
  "process_params_checked op1 params =
     (if \<not> is_list (fget params ''processes'') \<or> list_of (fget params ''processes'') = []
      then raise RemoteProtocolError (op1 @ '' requires process references'')
      else rbind (first_error process_ref_checked (list_of (fget params ''processes''))) (\<lambda>_.
        if fget params ''action'' \<noteq> PStr (if op1 = ''process_request_quit'' then ''request_quit'' else ''force_quit'')
        then raise RemoteProtocolError ''process action is not allowlisted''
        else ensure (dict_keys params = KStr ` {''processes'', ''action''}) RemoteProtocolError
          (op1 @ '' has unexpected parameters'')))"

definition grant_params_checked :: "string \<Rightarrow> pyval \<Rightarrow> unit res" where
  "grant_params_checked op1 params =
     (let base = {''cluster_id'', ''epoch'', ''fencing_token'', ''subject_node_id'', ''target_node_id''};
          expected = (if op1 = ''revoke_capabilities'' then base else base \<union> {''permissions'', ''expires_at''});
          perms = fget params ''permissions''
      in if dict_keys params \<noteq> KStr ` expected then raise RemoteProtocolError (op1 @ '' has unexpected parameters'')
      else if \<not> text_field params ''subject_node_id'' \<or> \<not> text_field params ''target_node_id''
      then raise RemoteProtocolError (op1 @ '' target identity is invalid'')
      else if op1 = ''revoke_capabilities'' then Inr ()
      else if \<not> is_list perms \<or> (op1 = ''grant_capabilities'' \<and> list_of perms = [])
              \<or> \<not> list_all (\<lambda>v. is_str v \<and> str_of v \<in> range permission_value) (list_of perms)
      then raise RemoteProtocolError (if op1 = ''grant_capabilities'' then ''capability grant permissions are invalid''
             else op1 @ '' permissions are invalid'')
      else if \<not> is_number (fget params ''expires_at'') then raise RemoteProtocolError (op1 @ '' expiry is invalid'')
      else rbind (py_float (fget params ''expires_at'')) (\<lambda>f.
        ensure (isfinite f) RemoteProtocolError (op1 @ '' expiry is invalid'')))"

definition role_params_checked :: "(pyval \<Rightarrow> string res) \<Rightarrow> string \<Rightarrow> pyval \<Rightarrow> unit res" where
  "role_params_checked dumps op1 params =
     (if \<not> has_key params ''cluster_id'' \<or> \<not> has_key params ''epoch'' \<or> \<not> has_key params ''fencing_token''
      then raise RemoteProtocolError (op1 @ '' requires cluster fencing fields'')
      else if \<not> text_field params ''cluster_id'' then raise RemoteProtocolError ''cluster_id is invalid''
      else if \<not> is_int (fget params ''epoch'') \<or> int_of (fget params ''epoch'') < 0
      then raise RemoteProtocolError ''cluster epoch is invalid''
      else if \<not> text_field params ''fencing_token'' then raise RemoteProtocolError ''fencing token is invalid''
      else if op1 \<in> {''renew_coordinator_lease'', ''consume_invite''}
      then (if op1 = ''consume_invite'' \<and> \<not> is_str (fget params ''token'')
            then raise RemoteProtocolError ''invite token is invalid'' else Inr ())
      else if op1 = ''assign_role''
      then (if \<not> is_str (fget params ''target_node_id'') then raise RemoteProtocolError ''role target is invalid''
            else ensure (is_list (fget params ''roles'') \<and> list_of (fget params ''roles'') \<noteq> []
                         \<and> list_all is_str (list_of (fget params ''roles''))) RemoteProtocolError ''role list is invalid'')
      else if op1 \<in> {''pause_worker'', ''resume_worker'', ''revoke_worker'', ''revoke_member'', ''remove_connection'', ''remove_job''}
      then ensure (is_str (fget params ''target_node_id'')
                   \<and> (op1 \<in> {''remove_connection'', ''remove_job''} \<longrightarrow> str_of (fget params ''target_node_id'') \<noteq> []))
             RemoteProtocolError ''role target is invalid''
      else if op1 \<in> {''grant_capabilities'', ''revoke_capabilities'', ''sync_capability_grant''}
      then grant_params_checked op1 params
      else if \<not> is_dict (fget params ''payload'') then raise RemoteProtocolError ''snapshot payload is invalid''
      else case dumps (fget params ''payload'') of
        Inl e \<Rightarrow> if isa e OverflowError \<or> isa e TypeError \<or> isa e ValueError
                 then raise RemoteProtocolError ''snapshot payload is not JSON-safe'' else Inl e
      | Inr text \<Rightarrow> ensure (length text \<le> MAX_ENVELOPE_BYTES div 2) RemoteProtocolError ''snapshot payload is too large'')"

definition dumps_returns :: "(pyval \<Rightarrow> string res) \<Rightarrow> pyval \<Rightarrow> bool" where
  "dumps_returns dumps v = (case dumps v of Inl _ \<Rightarrow> False | Inr _ \<Rightarrow> True)"

definition validate_operation_params :: "(pyval \<Rightarrow> string res) \<Rightarrow> string \<Rightarrow> pyval \<Rightarrow> unit res" where
  "validate_operation_params dumps op1 params =
     (if OP_REQUIRED_CAPABILITY op1 = None then raise RemoteProtocolError (''unknown operation: '' @ op1)
      else if \<not> is_dict params then raise RemoteProtocolError ''operation parameters must be an object''
      else if op1 \<in> NO_PARAM_OPERATIONS
      then ensure (dict_items params = []) RemoteProtocolError (op1 @ '' accepts no parameters'')
      else if op1 = ''capability_request''
      then (if \<not> is_valid_capability_id (fget params ''capability'')
            then raise RemoteProtocolError ''capability_request requires a capability''
            else if \<not> is_dict (fget_or params ''params'' (PDict []))
            then raise RemoteProtocolError ''capability_request params must be an object''
            else ensure (dict_keys params = KStr ` {''capability'', ''params''}) RemoteProtocolError
                   ''capability_request has unexpected parameters'')
      else if op1 \<in> SURFACE_OPERATIONS
      then validate_surface_operation_params (dumps_returns dumps) RemoteProtocolError op1 params
      else if op1 = ''component_summary''
      then ensure (text_field params ''key'') RemoteProtocolError ''component_summary requires a key''
      else if op1 \<in> {''process_request_quit'', ''process_force_quit''} then process_params_checked op1 params
      else if op1 \<in> ROLE_OPERATIONS then role_params_checked dumps op1 params
      else ensure (dict_items params = []) RemoteProtocolError (op1 @ '' accepts no parameters''))"

end
