(* ===== verification/TrustCodec.thy ===== *)
theory TrustCodec
  imports PairingLaws ClusterRestart Wire
begin

text \<open>
  \<open>runtime/persistence.py\<close> and the trust part of \<open>persistence.py\<close>: the document that keeps grants, trusted peers and
  pending pairings, its migration from older versions and its strict reader. \<open>pyrepr\<close> is \<open>str\<close> on values other than
  texts, integers, booleans and \<open>None\<close>. The YAML text of a document is outside the model.
\<close>

section \<open>Writing\<close>

definition opt_text :: "string option \<Rightarrow> pyval" where
  "opt_text x = (case x of None \<Rightarrow> PNone | Some s \<Rightarrow> PStr s)"

definition binding_items :: "binding \<Rightarrow> (string \<times> pyval) list" where
  "binding_items b =
     [(''identity_fingerprint'', opt_text (bd_identity b)), (''transport_fingerprint'', opt_text (bd_transport b)),
      (''root_public_key'', opt_text (bd_root b)),
      (''transport_generation'', case bd_generation b of None \<Rightarrow> PNone | Some g \<Rightarrow> PInt g),
      (''transport_proof'', opt_text (bd_proof b))]"

definition sorted_permissions :: "string set \<Rightarrow> pyval" where
  "sorted_permissions ps = PList (map PStr (sorted_list_of_set ps))"

text \<open>\<open>str\<close> of a member of \<open>NodePermission\<close>: the mixed-in \<open>str\<close> class does not change how an enumeration prints.\<close>

fun permission_str :: "node_permission \<Rightarrow> string" where
  "permission_str READ_STATE = ''NodePermission.READ_STATE''"
| "permission_str REMOTE_MANAGEMENT = ''NodePermission.REMOTE_MANAGEMENT''"
| "permission_str PROCESS_TERMINATION = ''NodePermission.PROCESS_TERMINATION''"
| "permission_str PROCESS_FORCE_TERMINATION = ''NodePermission.PROCESS_FORCE_TERMINATION''"
| "permission_str CLEANUP = ''NodePermission.CLEANUP''"

definition printed_permissions :: "bool \<Rightarrow> string set \<Rightarrow> string set" where
  "printed_permissions members ps =
     (if members then permission_str ` {p \<in> set all_permissions. permission_value p \<in> ps} else ps)"

definition peer_grant_to_json :: "peer_grant \<Rightarrow> pyval" where
  "peer_grant_to_json g = pdict ([(''caller_id'', PStr (nid_value (pg_caller g))), (''secret'', PStr (pg_secret g)),
     (''permissions'', sorted_permissions (printed_permissions (pg_members g) (pg_permissions g)))] @ binding_items (pg_binding g))"

definition trusted_peer_to_json :: "trusted_peer \<Rightarrow> pyval" where
  "trusted_peer_to_json p = pdict ([(''peer_id'', PStr (nid_value (tp_peer p))), (''secret'', PStr (tp_secret p)),
     (''permissions'', sorted_permissions (printed_permissions (tp_members p) (tp_permissions p)))] @ binding_items (tp_binding p))"

definition pending_pairing_to_json :: "pending_pairing \<Rightarrow> string set \<Rightarrow> pyval" where
  "pending_pairing_to_json t permissions = pdict ([(''transaction_id'', PStr (pp_id t)), (''peer_id'', PStr (nid_value (pp_peer t))),
     (''secret'', PStr (pp_secret t)), (''expires_at'', PFloat (Fin (pp_expires t)))] @ binding_items (pp_binding t)
     @ [(''direction'', PStr (pp_direction t)), (''intent'', PStr (pp_intent t)), (''permissions'', sorted_permissions permissions)])"

definition pending_permissions_of :: "(string, string set) dict \<Rightarrow> string \<Rightarrow> string set" where
  "pending_permissions_of d tx = (case map_of d tx of None \<Rightarrow> {} | Some ps \<Rightarrow> ps)"

definition trust_document :: "pairing_manager \<Rightarrow> (string, string set) dict \<Rightarrow> pyval" where
  "trust_document m perms = pdict
     [(''schema_version'', PInt 2), (''grants'', PList (map (\<lambda>(k, g). peer_grant_to_json g) (pm_grants m))),
      (''trusted'', PList (map (\<lambda>(k, p). trusted_peer_to_json p) (pm_trusted m))),
      (''pending'', PList (map (\<lambda>(k, t). pending_pairing_to_json t (pending_permissions_of perms (pp_id t))) (pm_pending m)))]"

lemma printed_texts [simp]: "printed_permissions False ps = ps"
  by (simp add: printed_permissions_def)

section \<open>Reading\<close>

definition optional_text :: "(pyval \<Rightarrow> string) \<Rightarrow> pyval \<Rightarrow> string option" where
  "optional_text pyrepr v = (if v = PNone then None else Some (py_str pyrepr v))"

definition optional_generation :: "pyval \<Rightarrow> int option res" where
  "optional_generation v =
     (if v = PNone then Inr None
      else if \<not> is_int v \<or> int_of v < 1 then raise TypeError ''persisted transport generation is invalid''
      else Inr (Some (int_of v)))"

definition permissions_from_json :: "pyval \<Rightarrow> string set res" where
  "permissions_from_json v =
     (if \<not> is_list v \<or> \<not> list_all is_str (list_of v) then raise TypeError ''persisted permissions are invalid''
      else let ps = str_of ` set (list_of v) in
        if \<not> ps \<subseteq> permission_value ` set all_permissions then raise ValueError ''persisted permissions contain an unknown value''
        else Inr ps)"

definition persisted_secret :: "pyval \<Rightarrow> unit res" where
  "persisted_secret v =
     (if \<not> is_str v \<or> length (str_of v) \<noteq> 64 then raise ValueError ''persisted peer secret is invalid''
      else if fromhex_length (str_of v) \<noteq> Some 32 then raise ValueError ''persisted peer secret is invalid''
      else Inr ())"

definition binding_from_json :: "(pyval \<Rightarrow> string) \<Rightarrow> pyval \<Rightarrow> binding res" where
  "binding_from_json pyrepr v =
     rbind (optional_generation (fget v ''transport_generation'')) (\<lambda>g.
       Inr \<lparr>bd_identity = optional_text pyrepr (fget v ''identity_fingerprint''),
            bd_transport = optional_text pyrepr (fget v ''transport_fingerprint''),
            bd_root = optional_text pyrepr (fget v ''root_public_key''), bd_generation = g,
            bd_proof = optional_text pyrepr (fget v ''transport_proof'')\<rparr>)"

definition node_field :: "(pyval \<Rightarrow> string) \<Rightarrow> pyval \<Rightarrow> string \<Rightarrow> node_id res" where
  "node_field pyrepr v k = rbind (fitem v k) (\<lambda>x. mk_node_id (py_str pyrepr x))"

definition peer_grant_from_json :: "(pyval \<Rightarrow> string) \<Rightarrow> pyval \<Rightarrow> peer_grant res" where
  "peer_grant_from_json pyrepr v =
     (if \<not> is_dict v then raise TypeError ''persisted grant must be an object''
      else rbind (permissions_from_json (fget v ''permissions'')) (\<lambda>ps.
        rbind (persisted_secret (fget v ''secret'')) (\<lambda>_. rbind (node_field pyrepr v ''caller_id'') (\<lambda>n.
        rbind (binding_from_json pyrepr v) (\<lambda>b.
          Inr \<lparr>pg_caller = n, pg_secret = str_of (fget v ''secret''), pg_permissions = ps, pg_binding = b, pg_members = False\<rparr>)))))"

definition trusted_peer_from_json :: "(pyval \<Rightarrow> string) \<Rightarrow> pyval \<Rightarrow> trusted_peer res" where
  "trusted_peer_from_json pyrepr v =
     (if \<not> is_dict v then raise TypeError ''persisted trusted peer must be an object''
      else rbind (permissions_from_json (fget v ''permissions'')) (\<lambda>ps.
        rbind (persisted_secret (fget v ''secret'')) (\<lambda>_. rbind (node_field pyrepr v ''peer_id'') (\<lambda>n.
        rbind (binding_from_json pyrepr v) (\<lambda>b.
          Inr \<lparr>tp_peer = n, tp_secret = str_of (fget v ''secret''), tp_permissions = ps, tp_binding = b, tp_members = False\<rparr>)))))"

text \<open>\<open>v in {...}\<close> hashes \<open>v\<close> first: a list or a dict raises \<open>TypeError\<close>, as the test does for any other value.\<close>

definition pending_pairing_from_json :: "(pyval \<Rightarrow> string) \<Rightarrow> pyval \<Rightarrow> (pending_pairing \<times> string set) res" where
  "pending_pairing_from_json pyrepr v =
     (if \<not> is_dict v then raise TypeError ''persisted pending pairing must be an object''
      else rbind (fitem v ''expires_at'') (\<lambda>x.
        if \<not> is_number x then raise TypeError ''persisted pending pairing expiry is invalid''
        else rbind (py_float x) (\<lambda>f. case f of
          Fin expires \<Rightarrow>
            rbind (persisted_secret (fget v ''secret'')) (\<lambda>_.
            let permissions = fget_or v ''permissions'' (PList []); direction = fget_or v ''direction'' (PStr ''outbound'');
                intent = fget_or v ''intent'' (PStr ''pair'') in
            if \<not> is_list permissions \<or> \<not> list_all is_str (list_of permissions)
            then raise TypeError ''persisted pending pairing permissions are invalid''
            else if \<not> is_str direction \<or> str_of direction \<notin> DIRECTIONS
            then raise TypeError ''persisted pending pairing direction is invalid''
            else if \<not> is_str intent \<or> str_of intent \<notin> INTENTS
            then raise TypeError ''persisted pending pairing intent is invalid''
            else rbind (fitem v ''transaction_id'') (\<lambda>tx. rbind (node_field pyrepr v ''peer_id'') (\<lambda>n.
              rbind (binding_from_json pyrepr v) (\<lambda>b.
              rbind (mk_pending (py_str pyrepr tx) n (str_of (fget v ''secret'')) expires b (str_of direction) (str_of intent)) (\<lambda>t.
              rbind (permissions_from_json permissions) (\<lambda>ps. Inr (t, ps)))))))
        | _ \<Rightarrow> raise TypeError ''persisted pending pairing expiry is invalid'')))"

section \<open>Migration\<close>

definition migrate_route :: "pyval \<Rightarrow> pyval" where
  "migrate_route item =
     (if is_dict item \<and> \<not> has_key item ''routes'' \<and> is_str (fget item ''host'') \<and> str_of (fget item ''host'') \<noteq> []
         \<and> is_int (fget item ''port'')
      then fset item ''routes'' (PList [pdict [(''host'', fget item ''host''), (''port'', fget item ''port''), (''source'', PStr ''legacy'')]])
      else item)"

definition migrate_single_routes :: "pyval \<Rightarrow> pyval res" where
  "migrate_single_routes items =
     (if is_list items then Inr (PList (map migrate_route (list_of items))) else raise StateDataError ''route state is invalid'')"

definition fpop :: "pyval \<Rightarrow> string \<Rightarrow> pyval" where
  \<comment> \<open>\<open>d.pop(k, None)\<close> on a copy\<close>
  "fpop d k = PDict (dict_pop (KStr k) (dict_items d))"

definition with_list :: "pyval \<Rightarrow> string \<Rightarrow> string \<Rightarrow> pyval res" where
  \<comment> \<open>an absent list is empty, anything but a list is refused\<close>
  "with_list d k msg =
     (let d' = (if has_key d k then d else fset d k (PList [])) in
      if is_list (fget d' k) then Inr d' else raise StateDataError msg)"

definition migrated_routes :: "pyval \<Rightarrow> string \<Rightarrow> pyval res" where
  "migrated_routes d k = rbind (migrate_single_routes (fget d k)) (\<lambda>v. Inr (fset d k v))"

definition migrate_state :: "string \<Rightarrow> pyval \<Rightarrow> pyval res" where
  "migrate_state kind value =
     (let version = fget_or value ''schema_version'' (fget_or value ''version'' (PInt 1)) in
      if \<not> is_int version then raise StateDataError ''state schema version is invalid''
      else if int_of version > 2 \<or> int_of version < 1 then raise StateDataError ''unsupported state schema version''
      else
        let d = fset (fpop value ''version'') ''schema_version'' (PInt 2) in
        if kind = ''identity'' then
          (if is_str (fget d ''node_id'') \<and> is_str (fget d ''secret'') then Inr d else raise StateDataError ''identity state is invalid'')
        else if kind = ''trust'' then
          rbind (with_list d ''grants'' ''trust grants state is invalid'') (\<lambda>d.
          rbind (with_list d ''trusted'' ''trust trusted state is invalid'') (\<lambda>d.
          rbind (with_list d ''pending'' ''trust pending state is invalid'') (\<lambda>d.
          rbind (migrated_routes d ''grants'') (\<lambda>d. rbind (migrated_routes d ''trusted'') (\<lambda>d. migrated_routes d ''pending'')))))
        else if kind = ''cluster'' then with_list d ''used_invites'' ''cluster invite state is invalid''
        else if kind = ''routes'' then
          (if has_key d ''routes'' then migrated_routes d ''routes'' else Inr d)
        else raise StateDataError (''unknown state kind: '' @ kind))"

section \<open>Loading the trust document\<close>

text \<open>The pairing manager and the permissions remembered for its pending pairings; an error leaves what was read so far.\<close>

type_synonym trust_data = "pairing_manager \<times> (string, string set) dict"

fun load_each :: "('s \<Rightarrow> 'a \<Rightarrow> 's) \<Rightarrow> (pyval \<Rightarrow> 'a res) \<Rightarrow> 's \<Rightarrow> pyval list \<Rightarrow> 's \<times> unit res" where
  \<comment> \<open>\<open>for raw in raws\<close>: decode, then store\<close>
  "load_each put decode s [] = (s, Inr ())"
| "load_each put decode s (raw # raws) = sbind (s, decode raw) (\<lambda>s x. load_each put decode (put s x) raws)"

definition put_grant :: "trust_data \<Rightarrow> peer_grant \<Rightarrow> trust_data" where
  "put_grant s g = ((fst s)\<lparr>pm_grants := dict_set (pg_caller g) g (pm_grants (fst s))\<rparr>, snd s)"

definition put_trusted :: "trust_data \<Rightarrow> trusted_peer \<Rightarrow> trust_data" where
  "put_trusted s p = ((fst s)\<lparr>pm_trusted := dict_set (tp_peer p) p (pm_trusted (fst s))\<rparr>, snd s)"

definition put_pending :: "trust_data \<Rightarrow> pending_pairing \<times> string set \<Rightarrow> trust_data" where
  "put_pending s x = ((fst s)\<lparr>pm_pending := dict_set (pp_id (fst x)) (fst x) (pm_pending (fst s))\<rparr>, dict_set (pp_id (fst x)) (snd x) (snd s))"

text \<open>What \<open>YamlStateStore.load\<close> delivers, read into a pairing manager.\<close>

definition load_trust :: "(pyval \<Rightarrow> string) \<Rightarrow> trust_data \<Rightarrow> pyval \<Rightarrow> trust_data \<times> unit res" where
  "load_trust pyrepr s contents =
     (if \<not> is_dict contents then (s, raise StateDataError ''state root must be an object'')
      else sbind (s, migrate_state ''trust'' contents) (\<lambda>s doc.
        sbind (load_each put_grant (peer_grant_from_json pyrepr) s (list_of (fget doc ''grants''))) (\<lambda>s _.
        sbind (load_each put_trusted (trusted_peer_from_json pyrepr) s (list_of (fget doc ''trusted''))) (\<lambda>s _.
        load_each put_pending (pending_pairing_from_json pyrepr) s (list_of (fget doc ''pending''))))))"

section \<open>What can be stored\<close>

definition secret_ok :: "string \<Rightarrow> bool" where
  "secret_ok s \<longleftrightarrow> length s = 64 \<and> fromhex_length s = Some 32"

definition binding_ok :: "binding \<Rightarrow> bool" where
  "binding_ok b \<longleftrightarrow> (case bd_generation b of None \<Rightarrow> True | Some g \<Rightarrow> 1 \<le> g)"

definition known_permissions :: "string set \<Rightarrow> bool" where
  "known_permissions ps \<longleftrightarrow> ps \<subseteq> permission_value ` set all_permissions"

definition grant_storable :: "peer_grant \<Rightarrow> bool" where
  "grant_storable g \<longleftrightarrow> nid_ok (pg_caller g) \<and> secret_ok (pg_secret g) \<and> known_permissions (pg_permissions g) \<and> binding_ok (pg_binding g)
     \<and> \<not> pg_members g"

definition trusted_storable :: "trusted_peer \<Rightarrow> bool" where
  "trusted_storable p \<longleftrightarrow> nid_ok (tp_peer p) \<and> secret_ok (tp_secret p) \<and> known_permissions (tp_permissions p) \<and> binding_ok (tp_binding p)
     \<and> \<not> tp_members p"

definition pending_storable :: "pending_pairing \<Rightarrow> bool" where
  "pending_storable t \<longleftrightarrow> nid_ok (pp_peer t) \<and> secret_ok (pp_secret t) \<and> binding_ok (pp_binding t)
     \<and> pp_direction t \<in> DIRECTIONS \<and> pp_intent t \<in> INTENTS"

definition keyed :: "('v \<Rightarrow> 'k) \<Rightarrow> ('v \<Rightarrow> bool) \<Rightarrow> ('k, 'v) dict \<Rightarrow> bool" where
  "keyed key ok d \<longleftrightarrow> keys_distinct d \<and> (\<forall>(k, v) \<in> set d. k = key v \<and> ok v)"

definition trust_storable :: "pairing_manager \<Rightarrow> (string, string set) dict \<Rightarrow> bool" where
  "trust_storable m perms \<longleftrightarrow> keyed pg_caller grant_storable (pm_grants m) \<and> keyed tp_peer trusted_storable (pm_trusted m)
     \<and> keyed pp_id pending_storable (pm_pending m) \<and> (\<forall>(k, ps) \<in> set perms. known_permissions ps)"

lemma keyed_set: "keyed key ok d \<Longrightarrow> ok v \<Longrightarrow> keyed key ok (dict_set (key v) v d)"
  by (auto simp: keyed_def dict_set_in_set)

lemma fold_keyed: "keyed key ok d \<Longrightarrow> fold (\<lambda>v. dict_set (key v) v) (map snd d) [] = d"
proof -
  assume "keyed key ok d"
  then have "map (\<lambda>v. (key v, v)) (map snd d) = d" "keys_distinct d"
    by (auto simp: keyed_def intro!: map_idI)
  then have "dict_of (map (\<lambda>v. (key v, v)) (map snd d)) = d" by (simp add: dict_of_distinct)
  then show ?thesis by (simp add: dict_of_def fold_map comp_def)
qed

section \<open>Round trip of one item\<close>

lemma optional_text_opt [simp]: "optional_text pyrepr (opt_text x) = x"
  by (cases x) (simp_all add: optional_text_def opt_text_def)

lemma known_finite: "known_permissions ps \<Longrightarrow> finite ps"
  by (auto simp: known_permissions_def intro: finite_subset)

lemma permissions_roundtrip [simp]: "known_permissions ps \<Longrightarrow> permissions_from_json (sorted_permissions ps) = Inr ps"
  using known_finite [of ps] by (auto simp: permissions_from_json_def sorted_permissions_def known_permissions_def list_all_iff image_image)

lemma sorted_permissions_list [simp]:
  "is_list (sorted_permissions ps)" "list_all is_str (list_of (sorted_permissions ps))"
  by (simp_all add: sorted_permissions_def list_all_iff)

lemma generation_roundtrip [simp]:
  "binding_ok b \<Longrightarrow> optional_generation (case bd_generation b of None \<Rightarrow> PNone | Some g \<Rightarrow> PInt g) = Inr (bd_generation b)"
  by (cases "bd_generation b") (simp_all add: optional_generation_def binding_ok_def)

lemma binding_roundtrip:
  assumes "binding_ok b" "fget v ''identity_fingerprint'' = opt_text (bd_identity b)"
    "fget v ''transport_fingerprint'' = opt_text (bd_transport b)" "fget v ''root_public_key'' = opt_text (bd_root b)"
    "fget v ''transport_generation'' = (case bd_generation b of None \<Rightarrow> PNone | Some g \<Rightarrow> PInt g)"
    "fget v ''transport_proof'' = opt_text (bd_proof b)"
  shows "binding_from_json pyrepr v = Inr b"
  unfolding binding_from_json_def assms(2-6) generation_roundtrip [OF assms(1)] by (cases b) simp

lemma secret_roundtrip [simp]: "secret_ok s \<Longrightarrow> persisted_secret (PStr s) = Inr ()"
  by (simp add: persisted_secret_def secret_ok_def)

lemma peer_grant_roundtrip:
  assumes "grant_storable g"
  shows "peer_grant_from_json pyrepr (peer_grant_to_json g) = Inr g"
proof -
  have "binding_from_json pyrepr (peer_grant_to_json g) = Inr (pg_binding g)"
    by (rule binding_roundtrip) (use assms in \<open>simp_all add: peer_grant_to_json_def binding_items_def grant_storable_def\<close>)
  then show ?thesis using assms
    by (simp add: peer_grant_from_json_def) (simp add: peer_grant_to_json_def grant_storable_def node_field_def)
qed

lemma trusted_roundtrip:
  assumes "trusted_storable p"
  shows "trusted_peer_from_json pyrepr (trusted_peer_to_json p) = Inr p"
proof -
  have "binding_from_json pyrepr (trusted_peer_to_json p) = Inr (tp_binding p)"
    by (rule binding_roundtrip) (use assms in \<open>simp_all add: trusted_peer_to_json_def binding_items_def trusted_storable_def\<close>)
  then show ?thesis using assms
    by (simp add: trusted_peer_from_json_def) (simp add: trusted_peer_to_json_def trusted_storable_def node_field_def)
qed

lemma pending_roundtrip:
  assumes "pending_storable t" "known_permissions ps"
  shows "pending_pairing_from_json pyrepr (pending_pairing_to_json t ps) = Inr (t, ps)"
proof -
  have "binding_from_json pyrepr (pending_pairing_to_json t ps) = Inr (pp_binding t)"
    by (rule binding_roundtrip) (use assms in \<open>simp_all add: pending_pairing_to_json_def binding_items_def pending_storable_def\<close>)
  then show ?thesis using assms
    by (simp add: pending_pairing_from_json_def)
      (simp add: pending_pairing_to_json_def binding_items_def pending_storable_def node_field_def mk_pending_def)
qed

lemma no_legacy_route: "fget v ''host'' = PNone \<Longrightarrow> migrate_route v = v"
  by (simp add: migrate_route_def)

lemma trust_document_current: "migrate_state ''trust'' (trust_document m perms) = Inr (trust_document m perms)"
proof -
  have "migrate_route (peer_grant_to_json g) = peer_grant_to_json g" "migrate_route (trusted_peer_to_json p) = trusted_peer_to_json p"
    "migrate_route (pending_pairing_to_json t ps) = pending_pairing_to_json t ps" for g p t ps
    by (rule no_legacy_route, simp add: peer_grant_to_json_def trusted_peer_to_json_def pending_pairing_to_json_def binding_items_def)+
  then show ?thesis
    by (simp add: migrate_state_def trust_document_def Let_def fpop_def fset_def with_list_def migrated_routes_def
        migrate_single_routes_def pdict_def has_key_def fget_def fget_or_def case_prod_unfold)
qed

section \<open>Round trip and strictness of the document\<close>

lemma load_each_encoded:
  assumes "\<And>x. x \<in> set xs \<Longrightarrow> decode (enc x) = Inr (f x)"
  shows "load_each put decode s (map enc xs) = (foldl put s (map f xs), Inr ())"
  using assms by (induction xs arbitrary: s) auto

lemma load_each_inv:
  assumes "\<And>s x raw. P s \<Longrightarrow> decode raw = Inr x \<Longrightarrow> P (put s x)" "P s"
  shows "P (fst (load_each put decode s raws))"
  using assms(2)
proof (induction raws arbitrary: s)
  case (Cons raw raws)
  then show ?case by (cases "decode raw") (simp_all add: assms(1))
qed simp

lemma load_each_error: "snd (load_each put decode s raws) = Inl e \<Longrightarrow> \<exists>raw. decode raw = Inl e"
proof (induction raws arbitrary: s)
  case (Cons raw raws)
  then show ?case by (cases "decode raw") auto
qed simp

lemma foldl_put_grant:
  "foldl put_grant s gs = ((fst s)\<lparr>pm_grants := fold (\<lambda>g. dict_set (pg_caller g) g) gs (pm_grants (fst s))\<rparr>, snd s)"
  by (induction gs arbitrary: s) (simp_all add: put_grant_def)

lemma foldl_put_trusted:
  "foldl put_trusted s ps = ((fst s)\<lparr>pm_trusted := fold (\<lambda>p. dict_set (tp_peer p) p) ps (pm_trusted (fst s))\<rparr>, snd s)"
  by (induction ps arbitrary: s) (simp_all add: put_trusted_def)

lemma foldl_put_pending:
  "foldl put_pending s xs = ((fst s)\<lparr>pm_pending := fold (\<lambda>t. dict_set (pp_id t) t) (map fst xs) (pm_pending (fst s))\<rparr>,
     fold (\<lambda>x. dict_set (pp_id (fst x)) (snd x)) xs (snd s))"
  by (induction xs arbitrary: s) (simp_all add: put_pending_def)

lemma pending_known: "\<forall>(k, ps) \<in> set perms. known_permissions ps \<Longrightarrow> known_permissions (pending_permissions_of perms tx)"
  by (auto simp: pending_permissions_of_def known_permissions_def split: option.splits dest!: map_of_SomeD)

lemma load_trust_document:
  assumes "trust_storable m perms" "pm_pending m0 = []" "pm_trusted m0 = []" "pm_grants m0 = []"
  shows "load_trust pyrepr (m0, []) (trust_document m perms)
    = ((m0\<lparr>pm_pending := pm_pending m, pm_trusted := pm_trusted m, pm_grants := pm_grants m\<rparr>,
        map (\<lambda>(k, t). (k, pending_permissions_of perms k)) (pm_pending m)), Inr ())"
proof -
  have k: "keyed pg_caller grant_storable (pm_grants m)" "keyed tp_peer trusted_storable (pm_trusted m)"
      "keyed pp_id pending_storable (pm_pending m)" "\<forall>(k, ps) \<in> set perms. known_permissions ps"
    using assms by (simp_all add: trust_storable_def)
  have g: "load_each put_grant (peer_grant_from_json pyrepr) q (map (\<lambda>(k, g). peer_grant_to_json g) (pm_grants m))
      = (foldl put_grant q (map snd (pm_grants m)), Inr ())" for q
    by (rule load_each_encoded) (use k(1) in \<open>auto simp: keyed_def peer_grant_roundtrip\<close>)
  have t: "load_each put_trusted (trusted_peer_from_json pyrepr) q (map (\<lambda>(k, p). trusted_peer_to_json p) (pm_trusted m))
      = (foldl put_trusted q (map snd (pm_trusted m)), Inr ())" for q
    by (rule load_each_encoded) (use k(2) in \<open>auto simp: keyed_def trusted_roundtrip\<close>)
  have p: "load_each put_pending (pending_pairing_from_json pyrepr) q
        (map (\<lambda>(k, t). pending_pairing_to_json t (pending_permissions_of perms (pp_id t))) (pm_pending m))
      = (foldl put_pending q (map (\<lambda>(k, t). (t, pending_permissions_of perms (pp_id t))) (pm_pending m)), Inr ())" for q
    by (rule load_each_encoded) (use k(3) pending_known [OF k(4)] in \<open>auto simp: keyed_def pending_roundtrip\<close>)
  let ?w = "map (\<lambda>(k, t). (t, pending_permissions_of perms (pp_id t))) (pm_pending m)"
  have w: "fold (\<lambda>x. dict_set (pp_id (fst x)) (snd x)) ?w [] = map (\<lambda>(k, t). (k, pending_permissions_of perms k)) (pm_pending m)"
  proof -
    have e: "map (\<lambda>x. (pp_id (fst x), snd x)) ?w = map (\<lambda>(k, t). (k, pending_permissions_of perms k)) (pm_pending m)"
      using k(3) by (auto simp: keyed_def)
    have "keys_distinct (map (\<lambda>(k, t). (k, pending_permissions_of perms k)) (pm_pending m))"
      using k(3) by (simp add: keyed_def case_prod_unfold comp_def)
    from dict_of_distinct [OF this] show ?thesis unfolding e [symmetric] by (simp add: dict_of_def fold_map comp_def)
  qed
  have f: "map fst ?w = map snd (pm_pending m)" by (simp add: case_prod_unfold comp_def)
  show ?thesis
    using g t p assms(2-4) by (simp add: load_trust_def trust_document_current) (simp add: trust_document_def foldl_put_grant
      foldl_put_trusted foldl_put_pending f [unfolded map_map] w fold_keyed [OF k(1)] fold_keyed [OF k(2)] fold_keyed [OF k(3)])
qed

text \<open>
  Trust survives a restart: the stored document of a storable pairing manager, read into a new one, gives back
  exactly the same grants, trusted peers and pending pairings, in the same order, and the permissions remembered for each
  pending pairing; only the marks of broken authentication are forgotten.
\<close>

theorem trust_roundtrip:
  assumes "trust_storable m perms"
  shows "load_trust pyrepr (m\<lparr>pm_pending := [], pm_trusted := [], pm_grants := [], pm_broken := []\<rparr>, []) (trust_document m perms)
    = ((m\<lparr>pm_broken := []\<rparr>, map (\<lambda>(k, t). (k, pending_permissions_of perms k)) (pm_pending m)), Inr ())"
  using load_trust_document [OF assms] by simp

definition sample_secret :: string where
  "sample_secret = replicate 64 (CHR ''a'')"

lemma sample_secret_ok: "secret_ok sample_secret"
  by (simp add: secret_ok_def sample_secret_def numeral_eq_Suc ascii_space_def hex_char_def)

lemma trust_roundtrip_witness:
  "let g = \<lparr>pg_caller = NodeId ''p'', pg_secret = sample_secret, pg_permissions = {''read_state''},
             pg_binding = \<lparr>bd_identity = None, bd_transport = Some ''f'', bd_root = None, bd_generation = Some 1, bd_proof = None\<rparr>, pg_members = False\<rparr>;
       m = \<lparr>pm_local = NodeId ''me'', pm_ttl = 60, pm_pending = [], pm_trusted = [], pm_grants = [(NodeId ''p'', g)],
             pm_broken = [(NodeId ''p'', True)]\<rparr>
   in load_trust (\<lambda>v. []) (m\<lparr>pm_grants := [], pm_broken := []\<rparr>, []) (trust_document m []) = ((m\<lparr>pm_broken := []\<rparr>, []), Inr ())"
proof -
  let ?g = "\<lparr>pg_caller = NodeId ''p'', pg_secret = sample_secret, pg_permissions = {''read_state''},
             pg_binding = \<lparr>bd_identity = None, bd_transport = Some ''f'', bd_root = None, bd_generation = Some 1, bd_proof = None\<rparr>, pg_members = False\<rparr>"
  let ?m = "\<lparr>pm_local = NodeId ''me'', pm_ttl = 60, pm_pending = [], pm_trusted = [], pm_grants = [(NodeId ''p'', ?g)],
             pm_broken = [(NodeId ''p'', True)]\<rparr>"
  have "trust_storable ?m []"
    by (simp add: trust_storable_def keyed_def grant_storable_def nid_ok_def sample_secret_ok known_permissions_def
        all_permissions_def binding_ok_def)
  from trust_roundtrip [OF this] show ?thesis by simp
qed

lemma strict_state_error [simp]: "strict (raise StateDataError m)"
  by (simp add: strict_def load_error_def)

lemma strict_fields [simp]:
  "strict (mk_pending i1 i2 i3 i4 i5 i6 i7)" "strict (permissions_from_json v1)" "strict (persisted_secret v2)"
  "strict (binding_from_json pyrepr v3)" "strict (node_field pyrepr v4 k)"
  by (auto simp: mk_pending_def permissions_from_json_def persisted_secret_def binding_from_json_def optional_generation_def
      node_field_def Let_def intro!: strict_rbind)

lemma strict_items [simp]:
  "strict (peer_grant_from_json pyrepr v1)" "strict (trusted_peer_from_json pyrepr v2)" "strict (pending_pairing_from_json pyrepr v3)"
  by (auto simp: peer_grant_from_json_def trusted_peer_from_json_def pending_pairing_from_json_def Let_def
      intro!: strict_rbind split: pyfloat.splits)

lemma strict_load_each: "(\<And>v. strict (decode v)) \<Longrightarrow> strict (snd (load_each put decode s raws))"
  by (auto simp: strict_def dest: load_each_error)

lemma strict_if: "strict a \<Longrightarrow> strict b \<Longrightarrow> strict (if c then a else b)"
  by simp

lemma strict_lists [simp]: "strict (with_list d k m)" "strict (migrated_routes d k)"
  by (auto simp: with_list_def migrated_routes_def migrate_single_routes_def Let_def intro!: strict_rbind)

lemma strict_migrate [simp]: "strict (migrate_state kind v)"
  unfolding migrate_state_def Let_def by (intro strict_if strict_rbind) simp_all

lemma persisted_secret_Inr: "persisted_secret v = Inr u \<longleftrightarrow> (\<exists>s. v = PStr s \<and> secret_ok s)"
  by (cases v) (auto simp: persisted_secret_def secret_ok_def)

lemma permissions_from_json_Inr: "permissions_from_json v = Inr ps \<Longrightarrow> known_permissions ps"
  by (auto simp: permissions_from_json_def known_permissions_def Let_def split: if_splits)

lemma binding_from_json_Inr: "binding_from_json pyrepr v = Inr b \<Longrightarrow> binding_ok b"
  by (auto simp: binding_from_json_def optional_generation_def binding_ok_def ok_simps split: if_splits)

lemma grant_from_json_ok: "peer_grant_from_json pyrepr v = Inr g \<Longrightarrow> grant_storable g"
  by (auto simp: peer_grant_from_json_def grant_storable_def ok_simps node_field_def persisted_secret_Inr
      dest: permissions_from_json_Inr binding_from_json_Inr split: if_splits)

lemma trusted_from_json_ok: "trusted_peer_from_json pyrepr v = Inr g \<Longrightarrow> trusted_storable g"
  by (auto simp: trusted_peer_from_json_def trusted_storable_def ok_simps node_field_def persisted_secret_Inr
      dest: permissions_from_json_Inr binding_from_json_Inr split: if_splits)

lemma pending_from_json_ok:
  assumes "pending_pairing_from_json pyrepr v = Inr (t, ps)"
  shows "pending_storable t \<and> known_permissions ps"
proof -
  note d = assms [unfolded pending_pairing_from_json_def Let_def]
  then obtain x f where f: "fitem v ''expires_at'' = Inr x" "is_number x" "py_float x = Inr f" by (auto simp: ok_simps split: if_splits)
  show ?thesis
  proof (cases f)
    case (Fin r)
    show ?thesis using d unfolding f(1,3) Fin rbind.simps pyfloat.case
      by (auto simp: pending_storable_def ok_simps node_field_def persisted_secret_Inr mk_pending_def
          dest: permissions_from_json_Inr binding_from_json_Inr split: if_splits)
  qed (use d f in \<open>simp_all split: if_splits\<close>)
qed

lemma strict_sbind: "strict (snd m) \<Longrightarrow> (\<And>s x. strict (snd (f s x))) \<Longrightarrow> strict (snd (sbind m f))"
  by (cases m; cases "snd m") (auto simp: strict_def)

lemma fst_sbind_inv: "P (fst m) \<Longrightarrow> (\<And>s x. P s \<Longrightarrow> P (fst (f s x))) \<Longrightarrow> P (fst (sbind m f))"
  by (cases m; cases "snd m") auto

definition trust_inv :: "trust_data \<Rightarrow> bool" where
  "trust_inv s \<longleftrightarrow> trust_storable (fst s) (snd s) \<and> keys_distinct (snd s)"

lemma put_inv:
  "trust_inv s \<Longrightarrow> peer_grant_from_json pyrepr v = Inr g \<Longrightarrow> trust_inv (put_grant s g)"
  "trust_inv s \<Longrightarrow> trusted_peer_from_json pyrepr v = Inr p \<Longrightarrow> trust_inv (put_trusted s p)"
  "trust_inv s \<Longrightarrow> pending_pairing_from_json pyrepr v = Inr t \<Longrightarrow> trust_inv (put_pending s t)"
proof -
  show "trust_inv s \<Longrightarrow> peer_grant_from_json pyrepr v = Inr g \<Longrightarrow> trust_inv (put_grant s g)"
    by (auto simp: trust_inv_def trust_storable_def put_grant_def keyed_def dict_set_in_set dest!: grant_from_json_ok)
  show "trust_inv s \<Longrightarrow> trusted_peer_from_json pyrepr v = Inr p \<Longrightarrow> trust_inv (put_trusted s p)"
    by (auto simp: trust_inv_def trust_storable_def put_trusted_def keyed_def dict_set_in_set dest!: trusted_from_json_ok)
  show "trust_inv s \<Longrightarrow> pending_pairing_from_json pyrepr v = Inr t \<Longrightarrow> trust_inv (put_pending s t)"
    by (cases t) (auto simp: trust_inv_def trust_storable_def put_pending_def keyed_def dict_set_in_set dest!: pending_from_json_ok)
qed

lemma strict_load_trust: "strict (snd (load_trust pyrepr s contents))"
  by (simp add: load_trust_def) (intro impI strict_sbind strict_load_each; simp)

lemma load_trust_inv: "trust_inv s \<Longrightarrow> trust_inv (fst (load_trust pyrepr s contents))"
  by (simp add: load_trust_def) (intro impI fst_sbind_inv [where P = trust_inv] load_each_inv [where P = trust_inv]; simp add: put_inv)

text \<open>
  The trust file is read strictly: whatever document is found, reading it into a new manager succeeds or fails with
  one of the errors of a malformed document (a missing key, a wrong type, a wrong value, a number too large for a float);
  in both cases every grant, trusted peer and pending pairing it took over is filed under its own identifier, has a
  256-bit secret, known permissions and a positive generation, so that it can be stored again.
\<close>

theorem trust_load_strict:
  assumes "load_trust pyrepr (\<lparr>pm_local = n, pm_ttl = ttl, pm_pending = [], pm_trusted = [], pm_grants = [], pm_broken = []\<rparr>, []) contents
    = ((m, perms), r)"
  shows "trust_storable m perms \<and>
    (case r of Inl e \<Rightarrow> isa e KeyError \<or> isa e TypeError \<or> isa e ValueError \<or> isa e OverflowError | Inr _ \<Rightarrow> True)"
proof -
  let ?s = "(\<lparr>pm_local = n, pm_ttl = ttl, pm_pending = [], pm_trusted = [], pm_grants = [], pm_broken = []\<rparr>, []) :: trust_data"
  have "trust_inv ?s" by (simp add: trust_inv_def trust_storable_def keyed_def)
  from load_trust_inv [OF this, of pyrepr contents] strict_load_trust [of pyrepr ?s contents] assms show ?thesis
    by (auto simp: trust_inv_def strict_def load_error_def split: sum.splits)
qed

lemma trust_load_strict_witness:
  "isa (Exn StateDataError ''unsupported state schema version'') ValueError"
  using trust_load_strict [of "\<lambda>v. []" "NodeId ''me''" 60 "pdict [(''version'', PInt 3)]"
      "\<lparr>pm_local = NodeId ''me'', pm_ttl = 60, pm_pending = [], pm_trusted = [], pm_grants = [], pm_broken = []\<rparr>" "[]"
      "Inl (Exn StateDataError ''unsupported state schema version'')"]
  by (simp add: load_trust_def migrate_state_def raise_def)

section \<open>Two documents that cannot be loaded\<close>

text \<open>
  \<open>start\<close> reports a malformed file as a failed start for \<open>KeyError\<close>, \<open>OSError\<close>, \<open>TypeError\<close> and \<open>ValueError\<close>. A pending
  pairing whose expiry is an integer beyond the range of floats raises \<open>OverflowError\<close>, which is none of these.
\<close>

lemma huge_expiry_escapes:
  "\<exists>e. pending_pairing_from_json pyrepr (pdict [(''expires_at'', PInt (2 ^ 1024))]) = Inl e
     \<and> \<not> (isa e KeyError \<or> isa e OSError \<or> isa e TypeError \<or> isa e ValueError)"
proof -
  have "\<not> \<bar>2 ^ 1024 :: int\<bar> < float_limit" by (simp add: float_limit_def)
  then show ?thesis by (simp add: pending_pairing_from_json_def raise_def)
qed

text \<open>
  \<open>PairingManager.approve\<close> admits the permission \<open>ping\<close>, which is not a \<open>NodePermission\<close>: a grant with it is written but
  never read back.
\<close>

lemma ping_grant_unreadable:
  assumes "''ping'' \<in> pg_permissions g" "finite (pg_permissions g)" "\<not> pg_members g"
  shows "peer_grant_from_json pyrepr (peer_grant_to_json g) = raise ValueError ''persisted permissions contain an unknown value''"
proof -
  have "''ping'' \<notin> permission_value ` set all_permissions" by (simp add: all_permissions_def)
  then have "\<not> pg_permissions g \<subseteq> permission_value ` set all_permissions" using assms(1) by blast
  then show ?thesis using assms(2,3)
    by (simp add: peer_grant_from_json_def)
      (simp add: peer_grant_to_json_def permissions_from_json_def sorted_permissions_def list_all_iff image_image)
qed

end
