(* ===== verification/Session.thy ===== *)
theory Session
  imports Wire
begin

text \<open>
  \<open>remote/session.py\<close>: \<open>LogicalSessionRegistry\<close>, which owns the lifetime of logical sessions and says which
  physical connection generation may publish a result for one. The registry's lock makes each method one
  step. A clock reading is an argument of any Python type, since the code checks it, and the identifiers the
  factory would return are the list \<open>draws\<close>, of which the code looks at no more than one hundred. The heap of
  expirations is the sorted list of its entries.
\<close>

section \<open>Configuration and checks\<close>

definition finite_positive :: "pyval \<Rightarrow> string \<Rightarrow> rat res" where
  "finite_positive v name =
     (if \<not> is_number v then raise TypeError (name @ '' must be a finite positive number'')
      else rbind (py_float v) (\<lambda>f. case f of
          Fin x \<Rightarrow> if x \<le> 0 then raise ValueError (name @ '' must be a finite positive number'') else Inr x
        | _ \<Rightarrow> raise ValueError (name @ '' must be a finite positive number'')))"

definition positive_int :: "pyval \<Rightarrow> string \<Rightarrow> nat res" where
  "positive_int v name =
     (if \<not> is_int v then raise TypeError (name @ '' must be a positive integer'')
      else if int_of v < 1 then raise ValueError (name @ '' must be a positive integer'')
      else Inr (nat (int_of v)))"

definition valid_token :: "string \<Rightarrow> bool" where
  "valid_token s \<longleftrightarrow> 1 \<le> length s \<and> length s \<le> MAX_IDENTIFIER_LENGTH"

definition validate_generation :: "string option \<Rightarrow> string option res" where
  "validate_generation g =
     (case g of None \<Rightarrow> Inr None
      | Some s \<Rightarrow> if valid_token s then Inr (Some s) else raise RemoteAuthError ''connection generation is invalid'')"

definition validated_clock :: "pyval \<Rightarrow> rat res" where
  "validated_clock v =
     (if \<not> is_number v then raise RemoteAuthError ''logical session clock is invalid''
      else rbind (py_float v) (\<lambda>f. case f of
          Fin x \<Rightarrow> Inr x | _ \<Rightarrow> raise RemoteAuthError ''logical session clock is invalid''))"

section \<open>The registry\<close>

record logical_session =
  ls_owner :: string
  ls_active :: "string option"
  ls_expires :: rat
  ls_retired :: "string option set"

record session_registry =
  sg_ttl :: rat
  sg_max :: nat
  sg_generations :: nat
  sg_sessions :: "(string, logical_session) dict"
  sg_heap :: "(rat \<times> string) list"

definition registry_new :: "pyval \<Rightarrow> pyval \<Rightarrow> pyval \<Rightarrow> session_registry res" where
  "registry_new ttl max_sessions max_generations =
     rbind (finite_positive ttl ''session ttl'') (\<lambda>t.
     rbind (positive_int max_sessions ''max sessions'') (\<lambda>m.
     rbind (positive_int max_generations ''max generations per session'') (\<lambda>g.
     Inr \<lparr>sg_ttl = t, sg_max = m, sg_generations = g, sg_sessions = [], sg_heap = []\<rparr>)))"

fun prune_sessions ::
  "rat \<Rightarrow> (rat \<times> string) list \<Rightarrow> (string, logical_session) dict \<Rightarrow> (rat \<times> string) list \<times> (string, logical_session) dict" where
  "prune_sessions now [] d = ([], d)"
| "prune_sessions now ((e, i) # h) d =
     (if now \<ge> e
      then prune_sessions now h (case map_of d i of
             None \<Rightarrow> d | Some s \<Rightarrow> if ls_expires s = e then dict_pop i d else d)
      else ((e, i) # h, d))"

definition prune_locked :: "rat \<Rightarrow> session_registry \<Rightarrow> session_registry" where
  "prune_locked now r =
     (case prune_sessions now (sg_heap r) (sg_sessions r) of (h, d) \<Rightarrow> r\<lparr>sg_heap := h, sg_sessions := d\<rparr>)"

fun allocate_id :: "(string, logical_session) dict \<Rightarrow> string list \<Rightarrow> string res" where
  "allocate_id d [] = raise RemoteAuthError ''could not allocate a logical session''"
| "allocate_id d (c # cs) =
     (if \<not> valid_token c then raise RemoteAuthError ''logical session id is invalid''
      else if map_of d c = None then Inr c
      else allocate_id d cs)"

definition create_session ::
  "session_registry \<Rightarrow> string \<Rightarrow> string option \<Rightarrow> rat \<Rightarrow> string list \<Rightarrow> session_registry \<times> string res" where
  "create_session r0 owner generation now draws =
     (let r = prune_locked now r0 in
      if length (sg_sessions r) \<ge> sg_max r then (r, raise RemoteAuthError ''logical session limit reached'')
      else case allocate_id (sg_sessions r) (take 100 draws) of
        Inl x \<Rightarrow> (r, Inl x)
      | Inr sid \<Rightarrow>
          let s = \<lparr>ls_owner = owner, ls_active = generation, ls_expires = now + sg_ttl r, ls_retired = {}\<rparr>;
              d = dict_set sid s (sg_sessions r);
              h = insort (ls_expires s, sid) (sg_heap r)
          in (r\<lparr>sg_sessions := d,
                sg_heap := (if length h > 2 * sg_max r then sort (map (\<lambda>(i, x). (ls_expires x, i)) d) else h)\<rparr>,
              Inr sid))"

definition drop_session :: "string \<Rightarrow> session_registry \<Rightarrow> session_registry" where
  "drop_session sid r = r\<lparr>sg_sessions := dict_pop sid (sg_sessions r)\<rparr>"

definition request_owner :: "remote_request \<Rightarrow> string" where
  "request_owner q = (case rq_caller q of Some c \<Rightarrow> nid_value c | None \<Rightarrow> nid_value (rq_node q))"

text \<open>The branch of \<open>authenticate\<close> for a request that names a session.\<close>

definition resume_session ::
  "session_registry \<Rightarrow> remote_request \<Rightarrow> string \<Rightarrow> string option \<Rightarrow> rat \<Rightarrow> session_registry \<times> string res" where
  "resume_session r q sid generation now =
     (if \<not> valid_token sid then (r, raise RemoteAuthError ''logical session id is invalid'')
      else case map_of (sg_sessions r) sid of
        None \<Rightarrow> (drop_session sid r, raise RemoteAuthError ''logical session is expired'')
      | Some s \<Rightarrow>
          if now \<ge> ls_expires s then (drop_session sid r, raise RemoteAuthError ''logical session is expired'')
          else if ls_owner s \<noteq> request_owner q
          then (r, raise RemoteAuthError ''logical session belongs to another identity'')
          else if generation \<in> ls_retired s then (r, raise RemoteAuthError ''connection generation is retired'')
          else if generation \<noteq> ls_active s
          then if \<not> rq_resume q then (r, raise RemoteAuthError ''connection generation is stale'')
               else if card (ls_retired s) \<ge> sg_generations r
               then (drop_session sid r, raise RemoteAuthError ''logical session retired-generation limit exceeded'')
               else (r\<lparr>sg_sessions := dict_set sid (s\<lparr>ls_retired := insert (ls_active s) (ls_retired s),
                                                      ls_active := generation\<rparr>) (sg_sessions r)\<rparr>, Inr sid)
          else (r, Inr sid))"

definition authenticate ::
  "session_registry \<Rightarrow> remote_request \<Rightarrow> string option \<Rightarrow> pyval \<Rightarrow> string list \<Rightarrow> session_registry \<times> string res" where
  "authenticate r q connection_generation clock draws =
     (case rbind (validate_generation connection_generation) (\<lambda>g.
             rbind (validated_clock clock) (\<lambda>now. Inr (g, now))) of
        Inl x \<Rightarrow> (r, Inl x)
      | Inr (g, now) \<Rightarrow>
          (case rq_session q of
             None \<Rightarrow> create_session r (request_owner q) g now draws
           | Some sid \<Rightarrow> resume_session r q sid g now))"

definition assert_current ::
  "session_registry \<Rightarrow> string \<Rightarrow> string option \<Rightarrow> pyval \<Rightarrow> session_registry \<times> unit res" where
  "assert_current r sid generation clock =
     (case rbind (validate_generation generation) (\<lambda>g.
             rbind (ensure (valid_token sid) RemoteAuthError ''logical session id is invalid'') (\<lambda>_.
             rbind (validated_clock clock) (\<lambda>now. Inr (g, now)))) of
        Inl x \<Rightarrow> (r, Inl x)
      | Inr (g, now) \<Rightarrow>
          (case map_of (sg_sessions r) sid of
             None \<Rightarrow> (drop_session sid r, raise RemoteAuthError ''logical session is expired'')
           | Some s \<Rightarrow>
               if now \<ge> ls_expires s then (drop_session sid r, raise RemoteAuthError ''logical session is expired'')
               else if ls_active s \<noteq> g then (r, raise RemoteAuthError ''connection generation is stale'')
               else (r, Inr ())))"

section \<open>Runs and the invariant\<close>

datatype session_op =
    Authenticate remote_request "string option" pyval "string list"
  | AssertCurrent string "string option" pyval

fun session_step :: "session_registry \<Rightarrow> session_op \<Rightarrow> session_registry" where
  "session_step r (Authenticate q g t draws) = fst (authenticate r q g t draws)"
| "session_step r (AssertCurrent sid g t) = fst (assert_current r sid g t)"

definition session_ok :: "nat \<Rightarrow> logical_session \<Rightarrow> bool" where
  "session_ok m s \<longleftrightarrow> finite (ls_retired s) \<and> card (ls_retired s) \<le> m \<and> ls_active s \<notin> ls_retired s"

definition sessions_in_heap :: "(string, logical_session) dict \<Rightarrow> (rat \<times> string) list \<Rightarrow> bool" where
  "sessions_in_heap d h \<longleftrightarrow> (\<forall>i s. map_of d i = Some s \<longrightarrow> (ls_expires s, i) \<in> set h)"

definition session_inv :: "session_registry \<Rightarrow> bool" where
  "session_inv r \<longleftrightarrow> keys_distinct (sg_sessions r) \<and> sorted (sg_heap r) \<and> sessions_in_heap (sg_sessions r) (sg_heap r)
     \<and> length (sg_sessions r) \<le> sg_max r \<and> length (sg_heap r) \<le> 2 * sg_max r
     \<and> (\<forall>i s. map_of (sg_sessions r) i = Some s \<longrightarrow> session_ok (sg_generations r) s)"

lemma validate_generation_Inr: "validate_generation g = Inr g' \<Longrightarrow> g' = g"
  by (auto simp: validate_generation_def split: option.splits if_splits)

lemma prune_sessions_spec:
  assumes "prune_sessions now h d = (h', d')" "sorted h" "keys_distinct d" "sessions_in_heap d h"
  shows "sorted h' \<and> keys_distinct d' \<and> sessions_in_heap d' h' \<and> length h' \<le> length h \<and> length d' \<le> length d
    \<and> map_of d' i = (case map_of d i of None \<Rightarrow> None | Some s \<Rightarrow> if ls_expires s \<le> now then None else Some s)"
  using assms
proof (induction now h d rule: prune_sessions.induct)
  case (1 now d)
  then have "d' = d" "map_of d i = None" for i
    by (cases "map_of d i"; simp add: sessions_in_heap_def del: map_of_eq_Some_iff)+
  with 1 show ?case by auto
next
  case (2 now e j h d)
  let ?d = "case map_of d j of None \<Rightarrow> d | Some s \<Rightarrow> if ls_expires s = e then dict_pop j d else d"
  show ?case
  proof (cases "now \<ge> e")
    case True
    have h: "sessions_in_heap ?d h"
      unfolding sessions_in_heap_def
    proof (intro allI impI)
      fix i s assume "map_of ?d i = Some s"
      then have "map_of d i = Some s" "\<not> (i = j \<and> ls_expires s = e)"
        by (auto split: option.splits if_splits)
      then show "(ls_expires s, i) \<in> set h" using 2(5) by (auto simp: sessions_in_heap_def)
    qed
    have l: "length ?d \<le> length d" "keys_distinct ?d"
      using 2(4) length_dict_pop [of j d] by (auto split: option.splits)
    have k: "map_of ?d i = (if i = j \<and> (\<exists>s. map_of d j = Some s \<and> ls_expires s = e) then None else map_of d i)"
      by (auto split: option.splits)
    have "sorted h" using 2(3) by simp
    from 2(1) [OF True _ this l(2) h] 2(2) True l(1) show ?thesis
      unfolding k using True by (auto split: option.splits)
  next
    case False
    have "e \<le> ls_expires s" if "map_of d i = Some s" for s
    proof -
      have "(ls_expires s, i) \<in> set ((e, j) # h)" using that 2(5) by (simp add: sessions_in_heap_def)
      then show ?thesis using 2(3) by (auto simp: less_eq_prod_def)
    qed
    with False 2 show ?thesis by (force split: option.splits)
  qed
qed

lemma prune_locked_spec:
  assumes "session_inv r"
  shows "session_inv (prune_locked now r)"
    and "map_of (sg_sessions (prune_locked now r)) i =
           (case map_of (sg_sessions r) i of None \<Rightarrow> None | Some s \<Rightarrow> if ls_expires s \<le> now then None else Some s)"
proof -
  obtain h d where p: "prune_sessions now (sg_heap r) (sg_sessions r) = (h, d)"
    by (cases "prune_sessions now (sg_heap r) (sg_sessions r)")
  have q: "sorted h \<and> keys_distinct d \<and> sessions_in_heap d h \<and> length h \<le> length (sg_heap r)
      \<and> length d \<le> length (sg_sessions r)
      \<and> map_of d i = (case map_of (sg_sessions r) i of None \<Rightarrow> None | Some s \<Rightarrow> if ls_expires s \<le> now then None else Some s)" for i
    using prune_sessions_spec [OF p, of i] assms by (simp add: session_inv_def)
  have "session_ok (sg_generations r) s" if "map_of d i = Some s" for i s
  proof -
    have "map_of (sg_sessions r) i = Some s"
      using that q [of i] by (cases "map_of (sg_sessions r) i") (auto split: if_splits)
    then show ?thesis using assms unfolding session_inv_def by blast
  qed
  then show "session_inv (prune_locked now r)"
    using q [of undefined] assms by (auto simp: prune_locked_def p session_inv_def simp del: map_of_eq_Some_iff)
  show "map_of (sg_sessions (prune_locked now r)) i =
       (case map_of (sg_sessions r) i of None \<Rightarrow> None | Some s \<Rightarrow> if ls_expires s \<le> now then None else Some s)"
    using q [of i] by (simp add: prune_locked_def p)
qed

lemma prune_locked_params [simp]:
  "sg_ttl (prune_locked now r) = sg_ttl r" "sg_max (prune_locked now r) = sg_max r"
  "sg_generations (prune_locked now r) = sg_generations r"
  by (simp_all add: prune_locked_def split: prod.splits)

lemma allocate_id_Inr: "allocate_id d cs = Inr sid \<Longrightarrow> sid \<in> set cs \<and> map_of d sid = None \<and> valid_token sid"
  by (induction cs) (auto split: if_splits)

lemma drop_session_inv: "session_inv r \<Longrightarrow> session_inv (drop_session sid r)"
  using length_dict_pop [of sid "sg_sessions r"]
  by (auto simp: session_inv_def drop_session_def sessions_in_heap_def simp del: map_of_eq_Some_iff)

text \<open>What a successful creation adds.\<close>

lemma create_session_Inr:
  assumes "create_session r owner g now draws = (r', Inr sid)"
  shows "sid \<in> set draws \<and> map_of (sg_sessions (prune_locked now r)) sid = None
    \<and> length (sg_sessions (prune_locked now r)) < sg_max r
    \<and> sg_sessions r' = dict_set sid \<lparr>ls_owner = owner, ls_active = g, ls_expires = now + sg_ttl r, ls_retired = {}\<rparr>
          (sg_sessions (prune_locked now r))
    \<and> sg_max r' = sg_max r \<and> sg_generations r' = sg_generations r \<and> sg_ttl r' = sg_ttl r"
  using assms
  by (auto simp: create_session_def Let_def split: if_splits sum.splits dest!: allocate_id_Inr in_set_takeD)

lemma create_session_Inl: "create_session r owner g now draws = (r', Inl x) \<Longrightarrow> r' = prune_locked now r"
  by (auto simp: create_session_def Let_def split: if_splits sum.splits)

lemma create_session_inv:
  assumes "session_inv r"
  shows "session_inv (fst (create_session r owner g now draws))"
proof (cases "create_session r owner g now draws")
  case (Pair r' a)
  show ?thesis
  proof (cases a)
    case (Inl x)
    then show ?thesis using prune_locked_spec(1) [OF assms, of now] create_session_Inl [of r owner g now draws r' x] Pair by simp
  next
    case (Inr sid)
    let ?p = "prune_locked now r"
    let ?s = "\<lparr>ls_owner = owner, ls_active = g, ls_expires = now + sg_ttl r, ls_retired = {}\<rparr>"
    let ?d = "dict_set sid ?s (sg_sessions ?p)"
    let ?h = "insort (now + sg_ttl r, sid) (sg_heap ?p)"
    let ?hh = "if length ?h > 2 * sg_max r then sort (map (\<lambda>(i, x). (ls_expires x, i)) ?d) else ?h"
    note c = create_session_Inr [OF Pair [unfolded Inr]]
    note i = prune_locked_spec(1) [OF assms, of now]
    have heap: "sg_heap r' = ?hh"
      using Pair Inr c by (auto simp: create_session_def Let_def split: if_splits sum.splits dest!: allocate_id_Inr)
    have len: "length ?d \<le> sg_max r" using c by (simp add: length_dict_set)
    have d: "keys_distinct ?d" using i by (simp add: session_inv_def)
    have "sessions_in_heap ?d ?h"
      using i by (auto simp: session_inv_def sessions_in_heap_def set_insort_key simp del: map_of_eq_Some_iff)
    moreover have "sessions_in_heap ?d (sort (map (\<lambda>(i, x). (ls_expires x, i)) ?d))"
      unfolding sessions_in_heap_def set_sort by (force dest: map_of_SomeD simp del: map_of_eq_Some_iff map_of_dict_set)
    ultimately have "sessions_in_heap ?d ?hh" by simp
    moreover have "sorted ?hh" using i by (simp add: session_inv_def sorted_insort)
    moreover have "length ?hh \<le> 2 * sg_max r" using len by (simp split: if_splits)
    moreover have "session_ok (sg_generations r) s" if "map_of ?d j = Some s" for j s
      using that i by (auto simp: session_inv_def session_ok_def simp del: map_of_eq_Some_iff split: if_splits)
    ultimately show ?thesis
      using Pair c heap d len by (simp add: session_inv_def del: map_of_dict_set)
  qed
qed

text \<open>Resuming leaves the registry, drops the named session, or moves it to the new generation.\<close>

definition moved :: "logical_session \<Rightarrow> string option \<Rightarrow> logical_session" where
  "moved s g = s\<lparr>ls_retired := insert (ls_active s) (ls_retired s), ls_active := g\<rparr>"

lemma resume_session_cases:
  obtains (refused) x where "resume_session r q sid g now = (r, Inl x)"
  | (dropped) x where "resume_session r q sid g now = (drop_session sid r, Inl x)"
  | (kept) s where "resume_session r q sid g now = (r, Inr sid)" "map_of (sg_sessions r) sid = Some s"
      "now < ls_expires s" "ls_owner s = request_owner q" "ls_active s = g" "g \<notin> ls_retired s"
  | (moved) s where "resume_session r q sid g now = (r\<lparr>sg_sessions := dict_set sid (moved s g) (sg_sessions r)\<rparr>, Inr sid)"
      "map_of (sg_sessions r) sid = Some s" "now < ls_expires s" "ls_owner s = request_owner q" "ls_active s \<noteq> g"
      "g \<notin> ls_retired s" "rq_resume q" "card (ls_retired s) < sg_generations r"
proof (cases "map_of (sg_sessions r) sid")
  case None
  then have "\<exists>x. resume_session r q sid g now = (r, Inl x) \<or> resume_session r q sid g now = (drop_session sid r, Inl x)"
    by (auto simp: resume_session_def raise_def)
  then show ?thesis using refused dropped by blast
next
  case (Some s)
  show ?thesis
  proof (cases "valid_token sid \<and> now < ls_expires s \<and> ls_owner s = request_owner q \<and> g \<notin> ls_retired s
      \<and> (g \<noteq> ls_active s \<longrightarrow> rq_resume q \<and> card (ls_retired s) < sg_generations r)")
    case True
    then show ?thesis
    proof (cases "g = ls_active s")
      case eq: True
      have "resume_session r q sid g now = (r, Inr sid)" using True Some eq by (simp add: resume_session_def)
      moreover have "ls_active s = g" using eq by (rule sym)
      ultimately show ?thesis using kept [of s] True Some by blast
    next
      case neq: False
      then have "resume_session r q sid g now = (r\<lparr>sg_sessions := dict_set sid (moved s g) (sg_sessions r)\<rparr>, Inr sid)"
        using True Some by (simp add: resume_session_def moved_def)
      then show ?thesis using moved [of s] True Some neq by blast
    qed
  next
    case False
    then have "\<exists>x. resume_session r q sid g now = (r, Inl x) \<or> resume_session r q sid g now = (drop_session sid r, Inl x)"
      using Some by (auto simp: resume_session_def raise_def)
    then show ?thesis using refused dropped by blast
  qed
qed

lemma resume_session_inv:
  assumes "session_inv r"
  shows "session_inv (fst (resume_session r q sid g now))"
proof (cases rule: resume_session_cases [of r q sid g now, case_names refused dropped kept moved])
  case (moved s)
  have "session_ok (sg_generations r) (moved s g)"
  proof -
    have "session_ok (sg_generations r) s" using assms moved(2) unfolding session_inv_def by blast
    then show ?thesis using moved(5,6,8) by (auto simp: session_ok_def moved_def card_insert_if)
  qed
  moreover have "ls_expires (moved s g) = ls_expires s" by (simp add: moved_def)
  ultimately show ?thesis using assms moved(1,2)
    by (auto simp: session_inv_def sessions_in_heap_def length_dict_set simp del: map_of_eq_Some_iff split: if_splits)
qed (use assms drop_session_inv in auto)

lemma assert_current_cases:
  "fst (assert_current r sid g t) = r \<or> fst (assert_current r sid g t) = drop_session sid r"
  by (auto simp: assert_current_def split: sum.splits option.splits)

lemma session_step_inv: "session_inv r \<Longrightarrow> session_inv (session_step r x)"
proof (cases x)
  case (Authenticate q g t draws)
  assume "session_inv r"
  then show ?thesis
    using create_session_inv [of r] resume_session_inv [of r]
    by (auto simp: Authenticate authenticate_def split: sum.splits option.splits)
next
  case (AssertCurrent sid g t)
  assume "session_inv r"
  then show ?thesis
    using assert_current_cases [of r sid g t] drop_session_inv [of r sid] by (auto simp: AssertCurrent)
qed

text \<open>A generation is fenced out of a session: if the session exists, it has retired the generation.\<close>

definition fenced :: "string \<Rightarrow> string option \<Rightarrow> session_registry \<Rightarrow> bool" where
  "fenced sid g r \<longleftrightarrow> session_inv r \<and> (\<forall>s. map_of (sg_sessions r) sid = Some s \<longrightarrow> g \<in> ls_retired s)"

fun no_draw :: "string \<Rightarrow> session_op \<Rightarrow> bool" where
  "no_draw sid (Authenticate q g t draws) = (sid \<notin> set draws)"
| "no_draw sid (AssertCurrent _ _ _) = True"

lemma fenced_drop: "fenced sid g r \<Longrightarrow> fenced sid g (drop_session i r)"
  using drop_session_inv [of r i] by (auto simp: fenced_def drop_session_def simp del: map_of_eq_Some_iff)

lemma fenced_create:
  assumes "fenced sid g r" "sid \<notin> set draws"
  shows "fenced sid g (fst (create_session r owner g' now draws))"
proof -
  have i: "session_inv r" using assms(1) by (simp add: fenced_def)
  obtain r' a where p: "create_session r owner g' now draws = (r', a)" by (cases "create_session r owner g' now draws")
  have "map_of (sg_sessions r') sid = map_of (sg_sessions (prune_locked now r)) sid"
  proof (cases a)
    case (Inl x)
    then show ?thesis using create_session_Inl [of r owner g' now draws r' x] p by simp
  next
    case (Inr i)
    then show ?thesis using create_session_Inr [OF p [unfolded Inr]] assms(2) by auto
  qed
  then show ?thesis
    using assms(1) create_session_inv [OF i, of owner g' now draws] prune_locked_spec(2) [OF i, of now sid] p
    by (auto simp: fenced_def simp del: map_of_eq_Some_iff split: option.splits if_splits)
qed

lemma fenced_resume:
  assumes "fenced sid g r"
  shows "fenced sid g (fst (resume_session r q i g' now))"
proof (cases rule: resume_session_cases [of r q i g' now, case_names refused dropped kept moved])
  case (moved s)
  then show ?thesis
    using assms resume_session_inv [of r q i g' now]
    by (auto simp: fenced_def moved_def simp del: map_of_eq_Some_iff)
qed (use assms fenced_drop in auto)

lemma fenced_step: "fenced sid g r \<Longrightarrow> fenced sid g (if no_draw sid x then session_step r x else r)"
proof (cases x)
  case (Authenticate q g' t draws)
  assume "fenced sid g r"
  then show ?thesis using fenced_create [of sid g r draws] fenced_resume [of sid g r]
    by (auto simp: Authenticate authenticate_def split: sum.splits option.splits)
next
  case (AssertCurrent i g' t)
  assume "fenced sid g r"
  then show ?thesis using assert_current_cases [of r i g' t] fenced_drop [of sid g r i] by (auto simp: AssertCurrent)
qed

interpretation session_runs: transition_system session_step session_inv
  by unfold_locales (rule session_step_inv)

interpretation fenced_runs: transition_system "\<lambda>r x. if no_draw sid x then session_step r x else r" "fenced sid g"
  by unfold_locales (rule fenced_step)

lemma run_no_draw:
  "list_all (no_draw sid) ops \<Longrightarrow>
   foldl (\<lambda>r x. if no_draw sid x then session_step r x else r) r ops = foldl session_step r ops"
  by (induction ops arbitrary: r) auto

lemma fenced_refuses:
  assumes "fenced sid g r"
  shows "rq_session q = Some sid \<Longrightarrow> \<exists>x. snd (authenticate r q g t draws) = Inl x"
    and "\<exists>x. snd (assert_current r sid g t) = Inl x"
proof -
  have a: "\<exists>x. snd (resume_session r q sid g now) = Inl x" for now
  proof (cases rule: resume_session_cases [of r q sid g now, case_names refused dropped kept moved])
    case (kept s)
    then show ?thesis using assms by (auto simp: fenced_def simp del: map_of_eq_Some_iff)
  next
    case (moved s)
    then show ?thesis using assms by (auto simp: fenced_def simp del: map_of_eq_Some_iff)
  qed auto
  show "\<exists>x. snd (authenticate r q g t draws) = Inl x" if "rq_session q = Some sid"
  proof (cases "rbind (validate_generation g) (\<lambda>g. rbind (validated_clock t) (\<lambda>now. Inr (g, now)))")
    case (Inl x)
    then show ?thesis by (simp add: authenticate_def)
  next
    case (Inr y)
    then obtain now where y: "y = (g, now)" by (auto simp: ok_simps dest: validate_generation_Inr)
    show ?thesis using Inr y that a [of now] by (simp add: authenticate_def)
  qed
  show "\<exists>x. snd (assert_current r sid g t) = Inl x"
  proof (cases "snd (assert_current r sid g t)")
    case (Inr u)
    then obtain s where s: "map_of (sg_sessions r) sid = Some s" "ls_active s = g"
      by (auto simp: assert_current_def ok_simps simp del: map_of_eq_Some_iff
          split: sum.splits option.splits if_splits dest: validate_generation_Inr)
    then have "g \<in> ls_retired s" "session_ok (sg_generations r) s" using assms by (auto simp: fenced_def session_inv_def simp del: map_of_eq_Some_iff)
    then show ?thesis using s(2) by (simp add: session_ok_def)
  qed simp
qed

lemma authenticate_Inr:
  assumes "authenticate r q g t draws = (r', Inr sid')"
  shows "\<exists>now. validated_clock t = Inr now \<and>
    (case rq_session q of None \<Rightarrow> create_session r (request_owner q) g now draws = (r', Inr sid')
     | Some sid \<Rightarrow> resume_session r q sid g now = (r', Inr sid'))"
proof (cases "rbind (validate_generation g) (\<lambda>g. rbind (validated_clock t) (\<lambda>now. Inr (g, now)))")
  case (Inl x)
  then show ?thesis using assms by (simp add: authenticate_def)
next
  case (Inr y)
  then obtain now where "y = (g, now)" "validated_clock t = Inr now" by (auto simp: ok_simps dest: validate_generation_Inr)
  then show ?thesis using Inr assms by (auto simp: authenticate_def split: option.splits)
qed

section \<open>Properties\<close>

text \<open>
  A replaced connection never comes back. When a session was active on one generation and a request on
  another generation was authenticated for it, the old generation can neither authenticate for that session
  nor publish a result for it, whatever requests and checks follow and at whatever times, as long as the
  identifier factory does not draw the identifier of the session again.
\<close>

theorem replaced_generation_fenced:
  assumes "session_inv r" "map_of (sg_sessions r) sid = Some s" "rq_session q = Some sid" "g \<noteq> ls_active s"
    and "authenticate r q g t draws = (r1, Inr sid')" "list_all (no_draw sid) ops" "r2 = foldl session_step r1 ops"
  shows "sid' = sid \<and> (\<forall>q'. rq_session q' = Some sid \<longrightarrow> (\<exists>x. snd (authenticate r2 q' (ls_active s) t' draws') = Inl x))
    \<and> (\<exists>x. snd (assert_current r2 sid (ls_active s) t') = Inl x)"
proof -
  obtain now where v: "resume_session r q sid g now = (r1, Inr sid')"
    using authenticate_Inr [OF assms(5)] assms(3) by auto
  have "sid' = sid \<and> fenced sid (ls_active s) r1"
  proof (cases rule: resume_session_cases [of r q sid g now, case_names refused dropped kept moved])
    case (kept x)
    then show ?thesis using assms(2,4) by simp
  next
    case (moved x)
    then show ?thesis using v assms(2) resume_session_inv [OF assms(1), of q sid g now]
      by (auto simp: fenced_def moved_def)
  qed (use v in auto)
  then have "sid' = sid" "fenced sid (ls_active s) r2"
    using fenced_runs.run_inv [of sid "ls_active s" r1 ops] run_no_draw [OF assms(6), of r1] assms(7) by auto
  then show ?thesis using fenced_refuses [of sid "ls_active s" r2] by blast
qed

text \<open>
  Sessions are bounded and bound to their owner. In every registry reachable from a new one there are never
  more sessions than the limit, the expiry heap never holds more than twice as many entries, and no session
  remembers more retired generations than its limit. A request that names a session is authenticated only if
  the session has not expired, belongs to the node that signed the request, and is afterwards active on the
  request's generation.
\<close>

theorem sessions_bounded:
  assumes "registry_new ttl mx gens = Inr r0" "r = foldl session_step r0 ops"
  shows "length (sg_sessions r) \<le> sg_max r \<and> length (sg_heap r) \<le> 2 * sg_max r
    \<and> (\<forall>i s. map_of (sg_sessions r) i = Some s \<longrightarrow> card (ls_retired s) \<le> sg_generations r \<and> ls_active s \<notin> ls_retired s)
    \<and> (rq_session q = Some sid \<longrightarrow> authenticate r q g t draws = (r', Inr sid') \<longrightarrow>
         (\<exists>now s s'. validated_clock t = Inr now \<and> map_of (sg_sessions r) sid = Some s \<and> now < ls_expires s
            \<and> ls_owner s = request_owner q \<and> map_of (sg_sessions r') sid = Some s' \<and> ls_active s' = g
            \<and> ls_expires s' = ls_expires s))"
proof -
  have "session_inv r0" using assms(1) by (auto simp: registry_new_def ok_simps session_inv_def sessions_in_heap_def)
  then have i: "session_inv r" unfolding assms(2) by (rule session_runs.run_inv)
  have "\<exists>now s s'. validated_clock t = Inr now \<and> map_of (sg_sessions r) sid = Some s \<and> now < ls_expires s
            \<and> ls_owner s = request_owner q \<and> map_of (sg_sessions r') sid = Some s' \<and> ls_active s' = g
            \<and> ls_expires s' = ls_expires s"
    if q: "rq_session q = Some sid" and a: "authenticate r q g t draws = (r', Inr sid')"
  proof -
    obtain now where n: "validated_clock t = Inr now" and v: "resume_session r q sid g now = (r', Inr sid')"
      using authenticate_Inr [OF a] q by auto
    show ?thesis
    proof (cases rule: resume_session_cases [of r q sid g now, case_names refused dropped kept moved])
      case (kept s)
      then show ?thesis using v n by auto
    next
      case (moved s)
      then show ?thesis using v n by (auto simp: moved_def)
    qed (use v in auto)
  qed
  with i show ?thesis by (auto simp: session_inv_def session_ok_def simp del: map_of_eq_Some_iff)
qed

text \<open>One session of node \<open>a\<close>, opened on connection \<open>g1\<close>, and a request that moves it to \<open>g2\<close>.\<close>

definition demo_registry :: session_registry where
  "demo_registry = \<lparr>sg_ttl = 600, sg_max = 1024, sg_generations = 64,
     sg_sessions = [(''s1'', \<lparr>ls_owner = ''a'', ls_active = Some ''g1'', ls_expires = 600, ls_retired = {}\<rparr>)],
     sg_heap = [(600, ''s1'')]\<rparr>"

definition demo_resume :: remote_request where
  "demo_resume = \<lparr>rq_node = NodeId ''b'', rq_caller = Some (NodeId ''a''), rq_op = ''ping'', rq_params = PDict [],
     rq_id = ''r'', rq_nonce = ''n'', rq_ts = 5, rq_session = Some ''s1'', rq_resume = True, rq_generation = Some ''g2''\<rparr>"

lemma demo_registry_inv: "session_inv demo_registry"
  by (auto simp: session_inv_def demo_registry_def sessions_in_heap_def session_ok_def split: if_splits)

lemmas session_code = authenticate_def validate_generation_def validated_clock_def valid_token_def
  resume_session_def request_owner_def MAX_IDENTIFIER_LENGTH_def float_limit_def

lemma demo_moves: "authenticate demo_registry demo_resume (Some ''g2'') (PInt 5) [] =
   (fst (authenticate demo_registry demo_resume (Some ''g2'') (PInt 5) []), Inr ''s1'')"
  by (simp add: session_code demo_registry_def demo_resume_def)

theorem replaced_generation_fenced_witness:
  "\<exists>x. snd (assert_current (fst (authenticate demo_registry demo_resume (Some ''g2'') (PInt 5) [])) ''s1'' (Some ''g1'') (PInt 6)) = Inl x"
proof -
  let ?s = "\<lparr>ls_owner = ''a'', ls_active = Some ''g1'', ls_expires = 600, ls_retired = {}\<rparr>"
  have "map_of (sg_sessions demo_registry) ''s1'' = Some ?s" "rq_session demo_resume = Some ''s1''"
      "Some ''g2'' \<noteq> ls_active ?s"
    by (simp_all add: demo_registry_def demo_resume_def)
  from replaced_generation_fenced [OF demo_registry_inv this demo_moves, of "[]" _ "PInt 6" "[]"] show ?thesis by simp
qed

lemma demo_new_registry: "registry_new (PInt 600) (PInt 1024) (PInt 64) =
   Inr \<lparr>sg_ttl = 600, sg_max = 1024, sg_generations = 64, sg_sessions = [], sg_heap = []\<rparr>"
  by (simp add: registry_new_def finite_positive_def positive_int_def float_limit_def)

theorem sessions_bounded_witness:
  "length (sg_sessions (session_step \<lparr>sg_ttl = 600, sg_max = 1024, sg_generations = 64, sg_sessions = [], sg_heap = []\<rparr>
      (AssertCurrent ''s1'' None (PInt 1)))) \<le> 1024"
  using sessions_bounded [OF demo_new_registry, of _ "[AssertCurrent ''s1'' None (PInt 1)]"]
  by (simp add: assert_current_def session_code drop_session_def)

end
