(* ===== verification/Idempotency.thy ===== *)
theory Idempotency
  imports Wire
begin

text \<open>
  \<open>IdempotencyCache\<close> of \<open>remote/wire_protocol.py\<close>: one executor per request identifier and its recorded
  outcome. Threads share entry objects: the table maps a key to the number of its entry in a store of entries
  that only grows, because a waiting thread keeps its entry after the table has dropped it. The lock makes each
  of the following one step: entering, recording a result, recording a failure, and a waiter reading the entry
  once its event is set. \<open>save\<close> is the state store's \<open>save\<close>, with the exception it raises, if any.
\<close>

section \<open>The cache\<close>

record idem_entry =
  ie_fingerprint :: string
  ie_expires :: rat
  ie_event :: bool
  ie_result :: "pyval option"
  ie_error :: "exn option"
  ie_complete :: bool

type_synonym idem_key = "string \<times> string"

record idem_cache =
  ic_ttl :: rat
  ic_max :: nat
  ic_entries :: "(idem_key, nat) dict"
  ic_store :: "idem_entry list"
  ic_stored :: bool \<comment> \<open>whether there is a state store\<close>

definition idem_new :: "rat \<Rightarrow> nat \<Rightarrow> bool \<Rightarrow> idem_cache res" where
  "idem_new ttl mx stored =
     (if ttl \<le> 0 \<or> mx < 1 then raise ValueError ''invalid idempotency cache bounds''
      else Inr \<lparr>ic_ttl = ttl, ic_max = mx, ic_entries = [], ic_store = [], ic_stored = stored\<rparr>)"

definition idem_entry_of :: "idem_cache \<Rightarrow> nat \<Rightarrow> idem_entry" where
  "idem_entry_of c n = ic_store c ! n"

definition idem_prune :: "rat \<Rightarrow> idem_cache \<Rightarrow> idem_cache" where
  "idem_prune now c = c\<lparr>ic_entries :=
     filter (\<lambda>(k, n). \<not> (ie_complete (idem_entry_of c n) \<and> now \<ge> ie_expires (idem_entry_of c n))) (ic_entries c)\<rparr>"

text \<open>The first section of \<open>run\<close>: the entry to use, and whether this thread owns it.\<close>

definition idem_enter :: "idem_cache \<Rightarrow> idem_key \<Rightarrow> string \<Rightarrow> rat \<Rightarrow> idem_cache \<times> (nat \<times> bool) res" where
  "idem_enter c0 key fingerprint now =
     (let c = idem_prune now c0 in
      case map_of (ic_entries c) key of
        None \<Rightarrow>
          if length (ic_entries c) \<ge> ic_max c then (c, raise RemoteAuthError ''idempotency cache is full'')
          else let n = length (ic_store c);
                   e = \<lparr>ie_fingerprint = fingerprint, ie_expires = now + ic_ttl c, ie_event = False, ie_result = None,
                        ie_error = None, ie_complete = False\<rparr>
            in (c\<lparr>ic_store := ic_store c @ [e], ic_entries := dict_set key n (ic_entries c)\<rparr>, Inr (n, True))
      | Some n \<Rightarrow>
          if ie_fingerprint (idem_entry_of c n) \<noteq> fingerprint
          then (c, raise IdempotencyCollisionError ''request ID was reused'')
          else (c, Inr (n, False)))"

text \<open>A waiter: nothing until the event is set, then the recorded outcome.\<close>

definition idem_answer :: "idem_cache \<Rightarrow> nat \<Rightarrow> pyval res option" where
  "idem_answer c n =
     (let e = idem_entry_of c n in
      if \<not> ie_event e then None
      else Some (case ie_error e of
          Some x \<Rightarrow> Inl x
        | None \<Rightarrow>
            (case ie_result e of
               None \<Rightarrow> raise RemoteExecutionError ''idempotency result is unavailable''
             | Some v \<Rightarrow> Inr v)))"

definition set_entry :: "nat \<Rightarrow> (idem_entry \<Rightarrow> idem_entry) \<Rightarrow> idem_cache \<Rightarrow> idem_cache" where
  "set_entry n f c = c\<lparr>ic_store := (ic_store c)[n := f (ic_store c ! n)]\<rparr>"

text \<open>The owner after its operation raised.\<close>

definition idem_failed :: "idem_cache \<Rightarrow> nat \<Rightarrow> exn \<Rightarrow> idem_cache \<times> pyval res" where
  "idem_failed c n x =
     (set_entry n (\<lambda>e. e\<lparr>ie_error := Some x, ie_complete := True, ie_event := True\<rparr>) c, Inl x)"

definition idem_saved_entry :: "rat \<Rightarrow> idem_key \<Rightarrow> idem_entry \<Rightarrow> pyval" where
  "idem_saved_entry now key e = pdict
     [(''key'', PList [PStr (fst key), PStr (snd key)]), (''fingerprint'', PStr (ie_fingerprint e)),
      (''result'', case ie_result e of None \<Rightarrow> PNone | Some v \<Rightarrow> v), (''remaining'', PFloat (Fin (ie_expires e - now)))]"

definition idem_document :: "rat \<Rightarrow> idem_cache \<Rightarrow> pyval" where
  "idem_document now c = pdict [(''entries'', PList (map (\<lambda>(k, n). idem_saved_entry now k (idem_entry_of c n))
     (filter (\<lambda>(k, n). ie_complete (idem_entry_of c n) \<and> ie_result (idem_entry_of c n) \<noteq> None
                        \<and> ie_expires (idem_entry_of c n) > now) (ic_entries c))))]"

definition idem_save_state :: "(pyval \<Rightarrow> exn option) \<Rightarrow> rat \<Rightarrow> idem_cache \<Rightarrow> exn option" where
  "idem_save_state save now c = (if \<not> ic_stored c then None else save (idem_document now c))"

text \<open>The owner after its operation returned.\<close>

definition idem_done ::
  "(pyval \<Rightarrow> exn option) \<Rightarrow> idem_cache \<Rightarrow> nat \<Rightarrow> pyval \<Rightarrow> rat \<Rightarrow> idem_cache \<times> pyval res" where
  "idem_done save c0 n v now =
     (let c = set_entry n (\<lambda>e. e\<lparr>ie_result := Some v, ie_complete := True\<rparr>) c0 in
      case idem_save_state save now c of
        Some x \<Rightarrow> (set_entry n (\<lambda>e. e\<lparr>ie_error := Some x, ie_event := True\<rparr>) c, Inl x)
      | None \<Rightarrow> (set_entry n (\<lambda>e. e\<lparr>ie_event := True\<rparr>) c, Inr v))"

definition idem_finish ::
  "(pyval \<Rightarrow> exn option) \<Rightarrow> idem_cache \<Rightarrow> nat \<Rightarrow> pyval res \<Rightarrow> rat \<Rightarrow> idem_cache \<times> pyval res" where
  "idem_finish save c n r now = (case r of Inl x \<Rightarrow> idem_failed c n x | Inr v \<Rightarrow> idem_done save c n v now)"

definition idem_length :: "idem_cache \<Rightarrow> rat \<Rightarrow> idem_cache \<times> nat" where
  "idem_length c now = (let c' = idem_prune now c in (c', length (ic_entries c')))"

section \<open>Reading a saved cache\<close>

definition idem_item_ok :: "pyval \<Rightarrow> bool" where
  "idem_item_ok item \<longleftrightarrow> is_dict item \<and> is_list (fget item ''key'') \<and> length (list_of (fget item ''key'')) = 2
     \<and> list_all is_str (list_of (fget item ''key'')) \<and> is_str (fget item ''fingerprint'') \<and> is_dict (fget item ''result'')
     \<and> (case num_value (fget item ''remaining'') of None \<Rightarrow> False | Some x \<Rightarrow> 0 < x)"

text \<open>One pass of the loop; \<open>clock\<close> is the reading taken for the item. A full cache ends the loop.\<close>

fun idem_load_items :: "rat \<Rightarrow> pyval list \<Rightarrow> idem_cache \<Rightarrow> idem_cache" where
  "idem_load_items clock [] c = c"
| "idem_load_items clock (item # items) c =
     (if \<not> idem_item_ok item then idem_load_items clock items c
      else if length (ic_entries c) \<ge> ic_max c then c
      else let key = list_of (fget item ''key'');
               e = \<lparr>ie_fingerprint = str_of (fget item ''fingerprint''),
                    ie_expires = clock + the (num_value (fget item ''remaining'')), ie_event = True,
                    ie_result = Some (fget item ''result''), ie_error = None, ie_complete = True\<rparr>
        in idem_load_items clock items (c\<lparr>ic_store := ic_store c @ [e],
             ic_entries := dict_set (str_of (key ! 0), str_of (key ! 1)) (length (ic_store c)) (ic_entries c)\<rparr>))"

definition idem_load_state :: "pyval res \<Rightarrow> rat \<Rightarrow> idem_cache \<Rightarrow> idem_cache" where
  "idem_load_state contents clock c =
     (case contents of
        Inl e \<Rightarrow> c
      | Inr raw \<Rightarrow>
          if \<not> is_dict raw \<or> \<not> is_list (fget_or raw ''entries'' (PList [])) then c
          else idem_load_items clock (list_of (fget_or raw ''entries'' (PList []))) c)"

section \<open>Interleaved runs\<close>

datatype idem_op =
    Enter idem_key string rat
  | Finish nat "pyval res" rat "pyval \<Rightarrow> exn option"

fun idem_step :: "idem_cache \<Rightarrow> idem_op \<Rightarrow> idem_cache" where
  "idem_step c (Enter k f t) = fst (idem_enter c k f t)"
| "idem_step c (Finish n r t save) = fst (idem_finish save c n r t)"

text \<open>Keys have their own entries in the store, and only a completed entry carries an outcome.\<close>

definition idem_inv :: "idem_cache \<Rightarrow> bool" where
  "idem_inv c \<longleftrightarrow> keys_distinct (ic_entries c) \<and> distinct (map snd (ic_entries c))
     \<and> (\<forall>n \<in> snd ` set (ic_entries c). n < length (ic_store c)) \<and> length (ic_entries c) \<le> ic_max c"

lemma set_entry_simps [simp]:
  "ic_entries (set_entry n f c) = ic_entries c" "length (ic_store (set_entry n f c)) = length (ic_store c)"
  "ic_max (set_entry n f c) = ic_max c" "ic_ttl (set_entry n f c) = ic_ttl c" "ic_stored (set_entry n f c) = ic_stored c"
  by (simp_all add: set_entry_def)

lemma idem_entry_of_set:
  "n < length (ic_store c) \<Longrightarrow> idem_entry_of (set_entry n f c) m = (if m = n then f (idem_entry_of c n) else idem_entry_of c m)"
  by (auto simp: set_entry_def idem_entry_of_def)

lemma idem_finish_table [simp]:
  "ic_entries (fst (idem_finish save c n r t)) = ic_entries c" "ic_max (fst (idem_finish save c n r t)) = ic_max c"
  "length (ic_store (fst (idem_finish save c n r t))) = length (ic_store c)" "ic_ttl (fst (idem_finish save c n r t)) = ic_ttl c"
  by (simp_all add: idem_finish_def idem_failed_def idem_done_def Let_def split: sum.splits option.splits)

lemma idem_finish_other:
  assumes "m \<noteq> n"
  shows "idem_entry_of (fst (idem_finish save c n r t)) m = idem_entry_of c m"
  using assms
  by (auto simp: idem_finish_def idem_failed_def idem_done_def Let_def idem_entry_of_def set_entry_def split: sum.splits option.splits)

lemma idem_finish_same:
  assumes "n < length (ic_store c)"
  shows "ie_fingerprint (idem_entry_of (fst (idem_finish save c n r t)) n) = ie_fingerprint (idem_entry_of c n)"
    and "ie_expires (idem_entry_of (fst (idem_finish save c n r t)) n) = ie_expires (idem_entry_of c n)"
  using assms
  by (auto simp: idem_finish_def idem_failed_def idem_done_def Let_def idem_entry_of_set split: sum.splits option.splits)

lemma idem_prune_simps [simp]:
  "ic_store (idem_prune t c) = ic_store c" "ic_max (idem_prune t c) = ic_max c" "ic_ttl (idem_prune t c) = ic_ttl c"
  "ic_stored (idem_prune t c) = ic_stored c" "idem_entry_of (idem_prune t c) = idem_entry_of c"
  by (auto simp: idem_prune_def idem_entry_of_def)

lemma idem_prune_inv: "idem_inv c \<Longrightarrow> idem_inv (idem_prune t c)"
  unfolding idem_inv_def idem_prune_def
  by (auto simp: distinct_map_filter intro: order_trans [OF length_filter_le])

lemma idem_prune_lookup:
  assumes "keys_distinct (ic_entries c)"
  shows "map_of (ic_entries (idem_prune t c)) k = Some n \<longleftrightarrow> map_of (ic_entries c) k = Some n
    \<and> \<not> (ie_complete (idem_entry_of c n) \<and> t \<ge> ie_expires (idem_entry_of c n))"
proof -
  have "keys_distinct (ic_entries (idem_prune t c))" using assms by (simp add: idem_prune_def)
  then show ?thesis using assms by (simp add: map_of_eq_Some_iff idem_prune_def)
qed

lemma idem_enter_inv:
  assumes "idem_inv c"
  shows "idem_inv (fst (idem_enter c k f t))"
proof -
  let ?p = "idem_prune t c"
  have i: "idem_inv ?p" using assms by (rule idem_prune_inv)
  show ?thesis
  proof (cases "map_of (ic_entries ?p) k")
    case None
    have "length (ic_store c) \<notin> snd ` set (ic_entries ?p)" using i by (auto simp: idem_inv_def)
    with i None show ?thesis
      by (auto simp: idem_enter_def Let_def idem_inv_def length_dict_set_new less_Suc_eq image_Un)
  next
    case (Some n)
    then show ?thesis using i by (simp add: idem_enter_def Let_def)
  qed
qed

lemma idem_step_inv: "idem_inv c \<Longrightarrow> idem_inv (idem_step c x)"
  by (cases x) (simp_all add: idem_enter_inv, simp add: idem_inv_def)

interpretation idem_runs: transition_system idem_step idem_inv
  by unfold_locales (rule idem_step_inv)

text \<open>A key is held by an entry until the entry's time has come.\<close>

definition idem_holds :: "idem_key \<Rightarrow> nat \<Rightarrow> string \<Rightarrow> rat \<Rightarrow> idem_cache \<Rightarrow> bool" where
  "idem_holds k n f x c \<longleftrightarrow> idem_inv c \<and> map_of (ic_entries c) k = Some n \<and> n < length (ic_store c)
     \<and> ie_fingerprint (idem_entry_of c n) = f \<and> ie_expires (idem_entry_of c n) = x"

fun early :: "rat \<Rightarrow> idem_op \<Rightarrow> bool" where
  "early x (Enter _ _ t) = (t < x)"
| "early x (Finish _ _ _ _) = True"

fun finishes :: "nat \<Rightarrow> idem_op \<Rightarrow> bool" where
  "finishes n (Enter _ _ _) = False"
| "finishes n (Finish m _ _ _) = (m = n)"

lemma idem_enter_held:
  assumes "idem_holds k n f x c" "t < x"
  shows "idem_enter c k g t = (idem_prune t c,
    if g = f then Inr (n, False) else raise IdempotencyCollisionError ''request ID was reused'')"
proof -
  have "map_of (ic_entries (idem_prune t c)) k = Some n"
    using assms idem_prune_lookup [of c t k n] by (auto simp: idem_holds_def idem_inv_def)
  then show ?thesis using assms by (auto simp: idem_enter_def Let_def idem_holds_def)
qed

lemma idem_enter_store:
  "\<exists>es. ic_store (fst (idem_enter c k f t)) = ic_store c @ es"
  by (auto simp: idem_enter_def Let_def split: option.splits)

lemma idem_enter_entry: "n < length (ic_store c) \<Longrightarrow> idem_entry_of (fst (idem_enter c k f t)) n = idem_entry_of c n"
  using idem_enter_store [of c k f t] by (auto simp: idem_entry_of_def nth_append)

lemma idem_holds_step:
  assumes "idem_holds k n f x c" "early x a"
  shows "idem_holds k n f x (idem_step c a)"
proof (cases a)
  case (Enter j g t)
  have l: "map_of (ic_entries (idem_prune t c)) k = Some n"
    using assms Enter idem_prune_lookup [of c t k n] by (auto simp: idem_holds_def idem_inv_def)
  have "map_of (ic_entries (fst (idem_enter c j g t))) k = Some n"
    using l by (auto simp: idem_enter_def Let_def split: option.splits)
  moreover have "n < length (ic_store (fst (idem_enter c j g t)))"
    using assms(1) idem_enter_store [of c j g t] by (auto simp: idem_holds_def)
  ultimately show ?thesis using assms(1) idem_enter_inv [of c j g t] idem_enter_entry [of n c j g t]
    by (auto simp: Enter idem_holds_def)
next
  case (Finish m r t save)
  show ?thesis
    using assms(1) idem_step_inv [of c a] idem_finish_same [of n c save r t] idem_finish_other [of n m save c r t]
    by (cases "m = n") (auto simp: Finish idem_holds_def)
qed

lemma idem_holds_run: "idem_holds k n f x c \<Longrightarrow> list_all (early x) ops \<Longrightarrow> idem_holds k n f x (foldl idem_step c ops)"
  by (induction ops arbitrary: c) (auto intro: idem_holds_step)

lemma idem_enter_owner:
  assumes "idem_inv c" "idem_enter c k f t = (c1, Inr (n, True))"
  shows "idem_holds k n f (t + ic_ttl c) c1"
proof -
  have "map_of (ic_entries (idem_prune t c)) k = None"
    using assms(2) by (auto simp: idem_enter_def Let_def split: option.splits if_splits)
  then show ?thesis using assms idem_enter_inv [OF assms(1), of k f t]
    by (auto simp: idem_enter_def Let_def idem_holds_def idem_entry_of_def split: if_splits)
qed

lemma idem_answer_finish:
  assumes "n < length (ic_store c)" "ie_error (idem_entry_of c n) = None"
  shows "idem_answer (fst (idem_finish save c n r t)) n = Some (snd (idem_finish save c n r t))"
  using assms
  by (auto simp: idem_answer_def idem_finish_def idem_failed_def idem_done_def Let_def idem_entry_of_set
      split: sum.splits option.splits)

lemma idem_entry_run:
  assumes "n < length (ic_store c)" "list_all (\<lambda>x. \<not> finishes n x) ops"
  shows "idem_entry_of (foldl idem_step c ops) n = idem_entry_of c n \<and> n < length (ic_store (foldl idem_step c ops))"
  using assms
proof (induction ops arbitrary: c)
  case (Cons a ops)
  have "idem_entry_of (idem_step c a) n = idem_entry_of c n"
    using Cons.prems idem_enter_entry [of n c] idem_finish_other [of n _ _ c] by (cases a) auto
  moreover have "n < length (ic_store (idem_step c a))"
    using Cons.prems(1) idem_enter_store [of c] by (cases a) (auto, metis length_append trans_less_add1)
  ultimately show ?case using Cons by simp
qed simp

section \<open>Properties\<close>

text \<open>
  C19. An operation is executed once per request identifier. When a thread became the owner of a key, then,
  whatever other threads do with this and other keys before the entry's time is up, nobody else becomes its owner:
  a request with the same content gets the same entry and one with other content is refused. Once the owner has
  finished, with a result or an error and with storage accepting or refusing it, every thread that waits on the
  entry gets exactly the owner's outcome, even after the table has dropped the entry.
\<close>

theorem execution_once:
  assumes "idem_inv c" "idem_enter c k f t0 = (c1, Inr (n, True))"
    and "list_all (\<lambda>x. early (t0 + ic_ttl c) x \<and> \<not> finishes n x) ops" "list_all (\<lambda>x. \<not> finishes n x) later"
    and "c2 = foldl idem_step c1 ops" "idem_finish save c2 n r t1 = (c3, outcome)"
  shows "(t < t0 + ic_ttl c \<longrightarrow> snd (idem_enter c2 k f t) = Inr (n, False) \<and> snd (idem_enter c3 k f t) = Inr (n, False)
       \<and> (g \<noteq> f \<longrightarrow> snd (idem_enter c2 k g t) = raise IdempotencyCollisionError ''request ID was reused''))
    \<and> idem_answer c2 n = None \<and> idem_answer (foldl idem_step c3 later) n = Some outcome"
proof -
  let ?x = "t0 + ic_ttl c"
  have h1: "idem_holds k n f ?x c1" using assms(1,2) by (rule idem_enter_owner)
  have new: "ie_error (idem_entry_of c1 n) = None" "\<not> ie_event (idem_entry_of c1 n)"
    using assms(2) by (auto simp: idem_enter_def Let_def idem_entry_of_def split: option.splits if_splits)
  have o: "list_all (early ?x) ops" "list_all (\<lambda>x. \<not> finishes n x) ops" using assms(3) by (auto simp: list_all_iff)
  have h2: "idem_holds k n f ?x c2" unfolding assms(5) using h1 o(1) by (rule idem_holds_run)
  have n1: "n < length (ic_store c1)" using h1 by (simp add: idem_holds_def)
  have e2: "idem_entry_of c2 n = idem_entry_of c1 n" "n < length (ic_store c2)"
    using idem_entry_run [OF n1 o(2)] by (simp_all add: assms(5))
  have h3: "idem_holds k n f ?x c3" using idem_holds_step [OF h2, of "Finish n r t1 save"] assms(6) by simp
  have "idem_answer c3 n = Some outcome"
    using idem_answer_finish [of n c2 save r t1] e2 new assms(6) by simp
  moreover have "n < length (ic_store c3)" using h3 by (simp add: idem_holds_def)
  ultimately have "idem_answer (foldl idem_step c3 later) n = Some outcome"
    using idem_entry_run [of n c3 later] assms(4) by (simp add: idem_answer_def)
  moreover have "idem_answer c2 n = None" using e2 new by (simp add: idem_answer_def)
  ultimately show ?thesis using idem_enter_held [OF h2] idem_enter_held [OF h3] by simp
qed

definition demo_idem :: idem_cache where
  "demo_idem = \<lparr>ic_ttl = 300, ic_max = 4096, ic_entries = [], ic_store = [], ic_stored = False\<rparr>"

lemma demo_idem_inv: "idem_inv demo_idem"
  by (simp add: idem_inv_def demo_idem_def)

theorem execution_once_witness:
  "snd (idem_enter (fst (idem_enter demo_idem (''a'', ''r'') ''f'' 0)) (''a'', ''r'') ''f'' 10) = Inr (0, False)"
proof -
  have o: "idem_enter demo_idem (''a'', ''r'') ''f'' 0 = (fst (idem_enter demo_idem (''a'', ''r'') ''f'' 0), Inr (0, True))"
    by (simp add: idem_enter_def demo_idem_def idem_prune_def Let_def)
  obtain c3 out where "idem_finish (\<lambda>_. None) (fst (idem_enter demo_idem (''a'', ''r'') ''f'' 0)) 0 (Inr PNone) 5 = (c3, out)"
    by (cases "idem_finish (\<lambda>_. None) (fst (idem_enter demo_idem (''a'', ''r'') ''f'' 0)) 0 (Inr PNone) 5")
  from execution_once [OF demo_idem_inv o, of "[]" "[]", OF _ _ _ this, of 10] show ?thesis
    by (simp add: demo_idem_def)
qed

section \<open>Across a restart\<close>

definition reloaded :: "rat \<Rightarrow> rat \<Rightarrow> idem_entry \<Rightarrow> idem_entry" where
  "reloaded now clock e = e\<lparr>ie_expires := clock + (ie_expires e - now), ie_error := None, ie_event := True, ie_complete := True\<rparr>"

lemma idem_item_saved:
  assumes "ie_result e = Some v" "is_dict v" "now < ie_expires e"
  shows "idem_item_ok (idem_saved_entry now k e)"
  using assms by (simp add: idem_item_ok_def idem_saved_entry_def)

definition has_entry :: "idem_cache \<Rightarrow> idem_key \<Rightarrow> idem_entry \<Rightarrow> bool" where
  "has_entry c k e \<longleftrightarrow> (\<exists>n < length (ic_store c). map_of (ic_entries c) k = Some n \<and> idem_entry_of c n = e)"

definition put_entry :: "idem_key \<Rightarrow> idem_entry \<Rightarrow> idem_cache \<Rightarrow> idem_cache" where
  "put_entry k e c = c\<lparr>ic_store := ic_store c @ [e], ic_entries := dict_set k (length (ic_store c)) (ic_entries c)\<rparr>"

lemma has_entry_put:
  "has_entry (put_entry k x c) k x" "has_entry c k e \<Longrightarrow> k \<noteq> j \<Longrightarrow> has_entry (put_entry j x c) k e"
  by (auto simp: has_entry_def put_entry_def idem_entry_of_def nth_append intro: less_SucI)

lemma idem_load_step:
  assumes "now < ie_expires x" "ie_result x = Some v" "is_dict v" "length (ic_entries c) < ic_max c"
  shows "idem_load_items clock (idem_saved_entry now j x # items) c
    = idem_load_items clock items (put_entry j (reloaded now clock x) c)"
  using assms idem_item_saved [of x v now j]
  by (cases x) (simp add: idem_saved_entry_def put_entry_def reloaded_def Let_def)

lemma idem_load_saved:
  assumes "keys_distinct kes" "length (ic_entries c) + length kes \<le> ic_max c"
    and "\<forall>(j, x) \<in> set kes. map_of (ic_entries c) j = None \<and> now < ie_expires x \<and> (\<exists>v. ie_result x = Some v \<and> is_dict v)"
    and "has_entry c k y \<and> k \<notin> fst ` set kes \<or> (k, e) \<in> set kes \<and> y = reloaded now clock e"
  shows "has_entry (idem_load_items clock (map (\<lambda>(j, x). idem_saved_entry now j x) kes) c) k y"
  using assms
proof (induction kes arbitrary: c)
  case (Cons a kes)
  obtain j x where a: "a = (j, x)" by (cases a)
  let ?c = "put_entry j (reloaded now clock x) c"
  obtain v where x: "now < ie_expires x" "ie_result x = Some v" "is_dict v" using Cons.prems(3) a by auto
  have j: "j \<notin> fst ` set kes" "map_of (ic_entries c) j = None" using Cons.prems(1,3) a by auto
  have "length (ic_entries ?c) + length kes \<le> ic_max ?c"
    using Cons.prems(2) j(2) by (simp add: put_entry_def length_dict_set)
  moreover have "\<forall>(i, z) \<in> set kes. map_of (ic_entries ?c) i = None \<and> now < ie_expires z
      \<and> (\<exists>v. ie_result z = Some v \<and> is_dict v)"
    using Cons.prems(3) j(1) by (force simp: put_entry_def)
  moreover have "has_entry ?c k y \<and> k \<notin> fst ` set kes \<or> (k, e) \<in> set kes \<and> y = reloaded now clock e"
    using Cons.prems(4) a j(1) by (auto intro: has_entry_put)
  ultimately have "has_entry (idem_load_items clock (map (\<lambda>(j, x). idem_saved_entry now j x) kes) ?c) k y"
    using Cons.prems(1) by (intro Cons.IH) (auto simp: a)
  moreover have "length (ic_entries c) < ic_max c" using Cons.prems(2) by simp
  ultimately show ?case using idem_load_step [OF x] by (simp add: a)
qed simp

text \<open>
  The cache survives a restart: an operation that has completed with a result (an object, as every operation
  returns) is not executed again by a process that reads the saved cache. Loading the document the first process
  wrote gives back an entry with the same content and result and the remaining time to live, so within that time
  the same request finds the recorded result instead of becoming an owner.
\<close>

theorem restart_keeps_results:
  assumes "idem_inv c" "map_of (ic_entries c) k = Some n" "idem_entry_of c n = e"
    and "ie_complete e" "ie_result e = Some v" "now < ie_expires e"
    and "\<forall>m \<in> snd ` set (ic_entries c). \<forall>v. ie_result (idem_entry_of c m) = Some v \<longrightarrow> is_dict v"
    and "idem_new ttl (ic_max c) True = Inr c0" "c' = idem_load_state (Inr (idem_document now c)) clock c0"
    and "t < clock + (ie_expires e - now)"
  shows "\<exists>m. snd (idem_enter c' k (ie_fingerprint e) t) = Inr (m, False) \<and> idem_answer c' m = Some (Inr v)"
proof -
  let ?P = "\<lambda>(k, n). ie_complete (idem_entry_of c n) \<and> ie_result (idem_entry_of c n) \<noteq> None \<and> now < ie_expires (idem_entry_of c n)"
  let ?kes = "map (\<lambda>(k, n). (k, idem_entry_of c n)) (filter ?P (ic_entries c))"
  have i: "keys_distinct (ic_entries c)" "length (ic_entries c) \<le> ic_max c" using assms(1) by (auto simp: idem_inv_def)
  have c0: "ic_entries c0 = []" "ic_store c0 = []" "ic_max c0 = ic_max c"
    using assms(8) by (auto simp: idem_new_def split: if_splits)
  have doc: "c' = idem_load_items clock (map (\<lambda>(j, x). idem_saved_entry now j x) ?kes) c0"
    by (simp add: assms(9) idem_load_state_def idem_document_def comp_def case_prod_unfold)
  have "(k, n) \<in> set (ic_entries c)" using assms(2) by (rule map_of_SomeD)
  then have "(k, e) \<in> set ?kes" using assms(3-6) by force
  moreover have "keys_distinct ?kes" using i(1) by (simp add: comp_def case_prod_unfold distinct_map_filter)
  moreover have "length ?kes \<le> ic_max c" using order_trans [OF length_filter_le i(2), of ?P] by simp
  moreover have "\<forall>(j, x) \<in> set ?kes. map_of (ic_entries c0) j = None \<and> now < ie_expires x \<and> (\<exists>v. ie_result x = Some v \<and> is_dict v)"
    using assms(7) c0(1) by force
  ultimately have "has_entry c' k (reloaded now clock e)"
    unfolding doc by (intro idem_load_saved [where e = e]) (auto simp: c0)
  then obtain m where m: "m < length (ic_store c')" "map_of (ic_entries c') k = Some m" "idem_entry_of c' m = reloaded now clock e"
    by (auto simp: has_entry_def)
  have kd: "keys_distinct (ic_entries (idem_load_items clock items x))" if "keys_distinct (ic_entries x)" for items x
    using that by (induction items arbitrary: x) (auto simp: Let_def)
  have "keys_distinct (ic_entries c')" unfolding doc using c0(1) by (intro kd) simp
  then have "map_of (ic_entries (idem_prune t c')) k = Some m"
    using m assms(10) idem_prune_lookup [of c' t k m] by (auto simp: reloaded_def)
  then show ?thesis using m assms(5) by (auto simp: idem_enter_def Let_def idem_answer_def reloaded_def)
qed

definition demo_finished :: idem_cache where
  "demo_finished = \<lparr>ic_ttl = 300, ic_max = 4096, ic_entries = [((''a'', ''r''), 0)],
     ic_store = [\<lparr>ie_fingerprint = ''f'', ie_expires = 300, ie_event = True, ie_result = Some (PDict []), ie_error = None,
       ie_complete = True\<rparr>], ic_stored = True\<rparr>"

theorem restart_keeps_results_witness:
  "\<exists>c0 m. idem_new 300 4096 True = Inr c0
     \<and> snd (idem_enter (idem_load_state (Inr (idem_document 100 demo_finished)) 1000 c0) (''a'', ''r'') ''f'' 1100) = Inr (m, False)"
proof -
  have n: "idem_new 300 (ic_max demo_finished) True = Inr \<lparr>ic_ttl = 300, ic_max = 4096, ic_entries = [], ic_store = [], ic_stored = True\<rparr>"
    by (simp add: idem_new_def demo_finished_def)
  have "idem_inv demo_finished" by (simp add: idem_inv_def demo_finished_def)
  from restart_keeps_results [OF this _ _ _ _ _ _ n, of "(''a'', ''r'')" 0 "idem_entry_of demo_finished 0" "PDict []" 100 _ 1000 1100]
  show ?thesis using n by (auto simp: demo_finished_def idem_entry_of_def)
qed

end
