(* ===== verification/Service.thy ===== *)
theory Service
  imports Session Idempotency
begin

text \<open>
  \<open>remote/service.py\<close>: \<open>RemoteService\<close>, the server side of every request, and the server half of
  \<open>surfaces/provider.py\<close>. The code of the host (role handler, trust handler, capability and surface handlers,
  node provider, process manager) is the record \<open>host\<close>; while such code runs, other threads may change the
  service, so each of its functions returns the service state it leaves behind. \<open>now\<close> is the clock before the
  host's code runs and \<open>later\<close> the clock after it; \<open>dumps\<close> and \<open>canon\<close> are \<open>json.dumps\<close> as in \<open>Wire\<close>, and
  \<open>pyrepr\<close> is \<open>str\<close> on floats, lists, dicts and foreign objects.
\<close>

section \<open>State\<close>

record service_grant =
  sgr_caller :: node_id
  sgr_secret :: string
  sgr_permissions :: "node_permission set"
  sgr_expires :: "pyfloat option"

record remote_service =
  sv_node :: node_id
  sv_online :: bool
  sv_capabilities :: "node_capability set"
  sv_permissions :: "node_permission set"
  sv_secret :: string
  sv_expected :: "node_id option"
  sv_hello :: "(string \<times> pyval) list" \<comment> \<open>fingerprints, root key, transport generation and proof\<close>
  sv_app_version :: string
  sv_grant_mode :: bool
  sv_grants :: "(node_id, service_grant) dict"
  sv_version :: nat
  sv_cluster_grants :: "capability_grant list"
  sv_freshness :: rat
  sv_replay :: replay_cache
  sv_cluster_id :: "string option"
  sv_epoch :: "int option"
  sv_token :: "string option"
  sv_require_share :: bool
  sv_shares :: "(node_id, rat) dict"
  sv_capability_share :: "share option"
  sv_surfaces :: "surface_registry option"
  sv_idem :: idem_cache
  sv_sessions :: session_registry

text \<open>\<open>now >= expires_at\<close> for a float.\<close>

fun float_reached :: "rat \<Rightarrow> pyfloat \<Rightarrow> bool" where
  "float_reached now (Fin x) = (now \<ge> x)"
| "float_reached now NegInf = True"
| "float_reached now PosInf = False"
| "float_reached now NaN = False"

definition grant_expired :: "rat \<Rightarrow> service_grant \<Rightarrow> bool" where
  "grant_expired now g = (case sgr_expires g of None \<Rightarrow> False | Some x \<Rightarrow> float_reached now x)"

definition service_validate_secret :: "pyval \<Rightarrow> unit res" where
  "service_validate_secret secret =
     (if \<not> is_str secret \<or> length (str_of secret) \<noteq> 64
      then raise ValueError ''peer credentials must be 256-bit hex text''
      else case fromhex_length (str_of secret) of
        None \<Rightarrow> raise ValueError ''peer credentials must be hexadecimal''
      | Some n \<Rightarrow> if n \<noteq> 32 then raise ValueError ''peer credentials must be 256-bit hex text'' else Inr ())"

definition service_grant_checked :: "service_grant \<Rightarrow> unit res" where
  "service_grant_checked g =
     rbind (service_validate_secret (PStr (sgr_secret g))) (\<lambda>_.
     ensure (case sgr_expires g of None \<Rightarrow> True | Some x \<Rightarrow> isfinite x) ValueError ''peer grant expiry must be finite'')"

text \<open>The permissions a service has when none are given: those of its capabilities, never process control or cleanup.\<close>

definition default_permissions :: "node_capability set \<Rightarrow> node_permission set" where
  "default_permissions caps = {p. permission_value p \<in> capability_value ` caps
     \<and> p \<notin> {PROCESS_TERMINATION, PROCESS_FORCE_TERMINATION, CLEANUP}}"

text \<open>The constructor: its keyword arguments come as a service record with the two optional ones apart.\<close>

definition service_new ::
  "remote_service \<Rightarrow> (node_id, service_grant) dict option \<Rightarrow> node_permission set option \<Rightarrow> remote_service res" where
  "service_new s grants permissions =
     rbind (service_validate_secret (PStr (sv_secret s))) (\<lambda>_.
     rbind (first_error service_grant_checked (map snd (case grants of None \<Rightarrow> [] | Some d \<Rightarrow> d))) (\<lambda>_.
     Inr (s\<lparr>sv_grant_mode := (grants \<noteq> None), sv_grants := (case grants of None \<Rightarrow> [] | Some d \<Rightarrow> d),
            sv_permissions := (case permissions of None \<Rightarrow> default_permissions (sv_capabilities s) | Some p \<Rightarrow> p),
            sv_shares := [], sv_version := 0\<rparr>)))"

section \<open>Grants\<close>

definition update_grants :: "remote_service \<Rightarrow> (node_id, service_grant) dict \<Rightarrow> remote_service \<times> unit res" where
  "update_grants s grants =
     (case first_error service_grant_checked (map snd grants) of
        Inl x \<Rightarrow> (s, Inl x)
      | Inr _ \<Rightarrow> (s\<lparr>sv_grant_mode := True, sv_grants := grants, sv_version := sv_version s + 1\<rparr>, Inr ()))"

definition update_cluster_capability_grants :: "remote_service \<Rightarrow> capability_grant list \<Rightarrow> remote_service" where
  "update_cluster_capability_grants s gs = s\<lparr>sv_cluster_grants := gs, sv_version := sv_version s + 1\<rparr>"

definition assert_grant_snapshot_current :: "remote_service \<Rightarrow> service_grant option \<Rightarrow> nat \<Rightarrow> rat \<Rightarrow> unit res" where
  "assert_grant_snapshot_current s g version now =
     (if version \<noteq> sv_version s then raise RemoteAuthorizationError ''caller permission changed''
      else case g of
        None \<Rightarrow> Inr ()
      | Some x \<Rightarrow> if grant_expired now x then raise RemoteAuthorizationError ''caller grant has expired'' else Inr ())"

definition clear_dashboard_share :: "remote_service \<Rightarrow> node_id \<Rightarrow> remote_service" where
  "clear_dashboard_share s n = s\<lparr>sv_shares := dict_pop n (sv_shares s)\<rparr>"

definition start_dashboard_share_for :: "remote_service \<Rightarrow> node_id \<Rightarrow> rat \<Rightarrow> rat \<Rightarrow> remote_service \<times> unit res" where
  "start_dashboard_share_for s n expires_at now =
     (if expires_at \<le> now then (s, raise RemoteAuthorizationError ''dashboard share expiry is invalid'')
      else (s\<lparr>sv_shares := dict_set n expires_at (sv_shares s)\<rparr>, Inr ()))"

definition stop_dashboard_shares :: "remote_service \<Rightarrow> remote_service" where
  "stop_dashboard_shares s = s\<lparr>sv_shares := []\<rparr>"

section \<open>The cluster fence\<close>

definition verify_role_fence :: "(pyval \<Rightarrow> string) \<Rightarrow> remote_service \<Rightarrow> remote_request \<Rightarrow> unit res" where
  "verify_role_fence pyrepr s q =
     (let params = rq_params q in
      if (case sv_cluster_id s of None \<Rightarrow> False | Some c \<Rightarrow> fget params ''cluster_id'' \<noteq> PStr c)
      then raise RemoteAuthorizationError ''cluster identity is invalid''
      else if (case sv_epoch s of None \<Rightarrow> False | Some e \<Rightarrow> \<not> equals_int (fget params ''epoch'') e)
      then raise RemoteAuthorizationError ''coordinator epoch is stale''
      else case sv_token s of
        None \<Rightarrow> Inr ()
      | Some tok \<Rightarrow>
          rbind (compare_digest (py_str pyrepr (fget params ''fencing_token'')) tok) (\<lambda>same.
            ensure same RemoteAuthorizationError ''coordinator fencing token is stale''))"

definition update_cluster_fence :: "remote_service \<Rightarrow> string \<Rightarrow> int \<Rightarrow> string \<Rightarrow> remote_service \<times> unit res" where
  "update_cluster_fence s cid ep tok =
     (let installed = s\<lparr>sv_cluster_id := Some cid, sv_epoch := Some ep, sv_token := Some tok\<rparr> in
      if sv_cluster_id s \<noteq> Some cid \<or> sv_epoch s = None then (installed, Inr ())
      else if ep < the (sv_epoch s) then (s, raise RemoteAuthorizationError ''cannot install an older coordinator epoch'')
      else if ep = the (sv_epoch s)
      then (s, case sv_token s of
          None \<Rightarrow> raise RemoteAuthorizationError ''coordinator fencing token conflicts''
        | Some t \<Rightarrow> rbind (compare_digest tok t) (\<lambda>same.
            ensure same RemoteAuthorizationError ''coordinator fencing token conflicts''))
      else (installed, Inr ()))"

section \<open>Authorization\<close>

definition caller_from_json :: "pyval \<Rightarrow> node_id option" where
  "caller_from_json env =
     (let c = fget env ''caller_node_id'' in
      if is_dict env \<and> is_str c \<and> str_of c \<noteq> []
      then (case mk_node_id (str_of c) of Inl _ \<Rightarrow> None | Inr n \<Rightarrow> Some n) else None)"

definition surface_access_name :: "string \<Rightarrow> string" where
  \<comment> \<open>\<open>SURFACE_ACCESS_BY_OPERATION\<close>\<close>
  "surface_access_name op1 = (if op1 = ''surface_read'' then ''read'' else if op1 = ''surface_review'' then ''review'' else ''action'')"

definition find_cluster_grant :: "remote_service \<Rightarrow> remote_request \<Rightarrow> rat \<Rightarrow> capability_grant option" where
  "find_cluster_grant s q now =
     (case rq_caller q of None \<Rightarrow> None
      | Some c \<Rightarrow> find (\<lambda>g. cg_subject g = c \<and> cg_target g = sv_node s \<and> now < cg_expires g) (sv_cluster_grants s))"

definition as_authorization :: "'a res \<Rightarrow> 'a res" where
  \<comment> \<open>\<open>except PermissionError as error: raise RemoteAuthorizationError(str(error))\<close>\<close>
  "as_authorization r =
     (case r of Inr x \<Rightarrow> Inr x
      | Inl e \<Rightarrow> if isa e PermissionError then raise RemoteAuthorizationError (exn_msg e) else Inl e)"

definition cluster_sources :: "remote_request \<Rightarrow> capability_grant option \<Rightarrow> surface_source list" where
  "cluster_sources q cg = (case (cg, rq_caller q) of (Some _, Some c) \<Rightarrow> [PeerSource c] | _ \<Rightarrow> [])"

definition authorize_request ::
  "(pyval \<Rightarrow> string res) \<Rightarrow> remote_service \<Rightarrow> remote_request \<Rightarrow> service_grant option \<Rightarrow> rat \<Rightarrow> capability_grant option res" where
  "authorize_request dumps s q g now =
     (case (OP_REQUIRED_CAPABILITY (rq_op q), OP_REQUIRED_PERMISSION (rq_op q)) of
        (Some required, Some permission) \<Rightarrow>
          if required \<notin> sv_capabilities s
          then raise RemoteAuthorizationError (''node is not authorised for '' @ rq_op q)
          else
            let own = (case g of None \<Rightarrow> sv_permissions s | Some x \<Rightarrow> sgr_permissions x);
                cg = find_cluster_grant s q now;
                perms = (case cg of None \<Rightarrow> own | Some x \<Rightarrow> own \<inter> cg_permissions x)
            in if cg \<noteq> None \<and> perms = {}
            then raise RemoteAuthorizationError ''cluster capability grant has no Pair permission overlap''
            else if permission \<notin> perms
            then raise RemoteAuthorizationError (''caller lacks permission for '' @ rq_op q)
            else if rq_op q \<in> SURFACE_OPERATIONS
            then rbind (validate_operation_params dumps (rq_op q) (rq_params q)) (\<lambda>_.
              case (rq_caller q, sv_surfaces s) of
                (None, _) \<Rightarrow> raise RemoteAuthorizationError ''caller identity required for surface requests''
              | (Some c, None) \<Rightarrow> raise RemoteUnavailableError ''surface sharing is unavailable''
              | (Some c, Some reg) \<Rightarrow>
                  rbind (as_authorization (sr_authorize reg c (str_of (fget (rq_params q) ''surface_id''))
                      (surface_access_name (rq_op q)) (opt_str (fget (rq_params q) ''action'')) (cluster_sources q cg) now))
                    (\<lambda>_. Inr cg))
            else Inr cg
      | _ \<Rightarrow> raise RemoteProtocolError (''unknown operation: '' @ rq_op q))"

section \<open>Operations\<close>

type_synonym 'a effect = "remote_service \<Rightarrow> remote_service \<times> 'a res"

record host =
  ho_role :: "(remote_request \<Rightarrow> pyval effect) option"
  ho_revoke :: "(node_id \<Rightarrow> pyval effect) option"
  ho_commit :: "unit effect option"
  ho_handler :: "nat \<Rightarrow> node_id \<Rightarrow> pyval \<Rightarrow> pyval effect"
  ho_provider :: "remote_request \<Rightarrow> pyval effect"
  ho_process :: "(remote_request \<Rightarrow> pyval effect) option"
  ho_save :: "pyval \<Rightarrow> exn option" \<comment> \<open>the idempotency state store\<close>
  ho_others :: "remote_service \<Rightarrow> remote_service" \<comment> \<open>other threads, while this one waits for an entry\<close>

definition handler_failed :: "exn_class \<Rightarrow> string \<Rightarrow> 'a res \<Rightarrow> 'a res" where
  \<comment> \<open>\<open>except Exception as error: raise c(m) from error\<close>\<close>
  "handler_failed c m r = (case r of Inr x \<Rightarrow> Inr x | Inl e \<Rightarrow> if isa e Exception then raise c m else Inl e)"

definition result_payload :: "pyval \<Rightarrow> pyval" where
  "result_payload v = pdict [(''result'', v)]"

definition solve_capability :: "host \<Rightarrow> remote_service \<Rightarrow> remote_request \<Rightarrow> remote_service \<times> pyval res" where
  "solve_capability ho s q =
     (case (rq_caller q, sv_capability_share s) of
        (None, _) \<Rightarrow> (s, raise RemoteAuthorizationError ''caller identity required for capability requests'')
      | (Some c, None) \<Rightarrow> (s, raise RemoteUnavailableError ''capability sharing is unavailable'')
      | (Some c, Some sh) \<Rightarrow>
          let cap = str_of (fget (rq_params q) ''capability'') in
          sbind (s, as_authorization (sh_request_begin sh c cap)) (\<lambda>s (h, gen).
          case ho_handler ho h c (fget (rq_params q) ''params'') s of
            (s', r) \<Rightarrow>
              (s', rbind (handler_failed CapabilityHandlerError ''capability handler failed'' r) (\<lambda>v.
                   rbind (as_authorization (case sv_capability_share s' of
                       None \<Rightarrow> raise PermissionError ''capability authorization changed during request''
                     | Some sh' \<Rightarrow> sh_request_end sh' c cap h gen v)) (\<lambda>v. Inr (result_payload v))))))"

text \<open>\<open>dispatch_surface_request\<close> of \<open>surfaces/provider.py\<close>.\<close>

definition dispatch_surface_request ::
  "(pyval \<Rightarrow> string res) \<Rightarrow> host \<Rightarrow> remote_service \<Rightarrow> remote_request \<Rightarrow> capability_grant option \<Rightarrow> rat
   \<Rightarrow> remote_service \<times> pyval res" where
  "dispatch_surface_request dumps ho s q cg now =
     (case (rq_caller q, sv_surfaces s) of
        (None, _) \<Rightarrow> (s, raise RemoteAuthorizationError ''caller identity required for surface requests'')
      | (Some c, None) \<Rightarrow> (s, raise RemoteUnavailableError ''surface sharing is unavailable'')
      | (Some c, Some reg) \<Rightarrow>
          if rq_op q \<notin> SURFACE_OPERATIONS then (s, raise RemoteProtocolError (''unknown surface operation: '' @ rq_op q))
          else sbind (s, validate_surface_operation_params (dumps_returns dumps) RemoteProtocolError (rq_op q) (rq_params q)) (\<lambda>s _.
          if (case cg of None \<Rightarrow> False | Some g \<Rightarrow> cg_subject g \<noteq> c \<or> cg_target g \<noteq> rq_node q)
          then (s, raise RemoteAuthorizationError ''cluster authorization context is invalid'')
          else sbind (s, sr_authorized_handler reg c (str_of (fget (rq_params q) ''surface_id'')) (surface_access_name (rq_op q))
                   (opt_str (fget (rq_params q) ''action'')) (cluster_sources q cg) now) (\<lambda>s h.
          case ho_handler ho h c (fget_or (rq_params q) ''params'' (PDict [])) s of
            (s', r) \<Rightarrow> (s', handler_failed SurfaceHandlerError ''surface handler failed'' r))))"

definition hello_payload :: "remote_service \<Rightarrow> pyval" where
  "hello_payload s = pdict ([(''ok'', PBool True), (''node_id'', PStr (nid_value (sv_node s)))] @ sv_hello s
     @ [(''protocol_version'', PStr REMOTE_PROTOCOL_VERSION), (''app_version'', PStr (sv_app_version s)),
        (''capabilities'', PList (map PStr (sorted_list_of_set (capability_value ` sv_capabilities s))))])"

definition solve_dashboard :: "host \<Rightarrow> remote_service \<Rightarrow> remote_request \<Rightarrow> rat \<Rightarrow> remote_service \<times> pyval res" where
  "solve_dashboard ho s q now =
     (let share = Option.bind (rq_caller q) (map_of (sv_shares s)) in
      if sv_require_share s \<and> share = None then (s, raise RemoteAuthorizationError ''dashboard share is not active'')
      else case (rq_caller q, share) of
        (Some c, Some expiry) \<Rightarrow>
          if now \<ge> expiry
          then (s\<lparr>sv_shares := dict_pop c (sv_shares s)\<rparr>, raise RemoteAuthorizationError ''dashboard share has expired'')
          else ho_provider ho q s
      | _ \<Rightarrow> ho_provider ho q s)"

definition solve :: "(pyval \<Rightarrow> string res) \<Rightarrow> host \<Rightarrow> remote_service \<Rightarrow> remote_request \<Rightarrow> service_grant option \<Rightarrow> rat
   \<Rightarrow> remote_service \<times> pyval res" where
  "solve dumps ho s q g now =
     sbind (s, authorize_request dumps s q g now) (\<lambda>s cg.
     sbind (s, validate_operation_params dumps (rq_op q) (rq_params q)) (\<lambda>s _.
     if rq_op q \<in> ROLE_OPERATIONS
     then (case ho_role ho of
         None \<Rightarrow> (s, raise RemoteUnavailableError ''role operations are unavailable'')
       | Some f \<Rightarrow> f q s)
     else if rq_op q = ''revoke_self''
     then (case (rq_caller q, ho_revoke ho) of
         (None, _) \<Rightarrow> (s, raise RemoteAuthorizationError ''caller identity required for self-revocation'')
       | (Some c, None) \<Rightarrow> (s, raise RemoteUnavailableError ''trust revocation is unavailable'')
       | (Some c, Some f) \<Rightarrow> f c s)
     else if rq_op q = ''capability_request'' then solve_capability ho s q
     else if rq_op q \<in> SURFACE_OPERATIONS
     then sbind (dispatch_surface_request dumps ho s q cg now) (\<lambda>s v. (s, Inr (result_payload v)))
     else if rq_op q = ''hello'' then (s, Inr (hello_payload s))
     else if rq_op q = ''dashboard_snapshot'' then solve_dashboard ho s q now
     else if rq_op q \<in> {''component_summary'', ''process_candidates'', ''storage_candidates''} then ho_provider ho q s
     else if rq_op q \<in> {''process_request_quit'', ''process_force_quit''}
     then if \<not> sv_online s then (s, raise RemoteUnavailableError ''target is offline'')
          else (case ho_process ho of
              None \<Rightarrow> (s, raise RemoteExecutionError ''process actions are unavailable'')
            | Some f \<Rightarrow> f q s)
     else (s, raise RemoteProtocolError (''unknown operation: '' @ rq_op q))))"

section \<open>Handling a request\<close>

text \<open>The secret to check the signature with, and the caller's grant.\<close>

definition select_credential :: "remote_service \<Rightarrow> pyval \<Rightarrow> rat \<Rightarrow> (string \<times> service_grant option) res" where
  "select_credential s env now =
     (if \<not> sv_grant_mode s then Inr (sv_secret s, None)
      else case caller_from_json env of
        None \<Rightarrow> raise RemoteAuthError ''request caller identity is required''
      | Some c \<Rightarrow>
          (case map_of (sv_grants s) c of
             None \<Rightarrow> raise RemoteAuthError ''request caller identity is unknown''
           | Some g \<Rightarrow>
               if grant_expired now g then raise RemoteAuthError ''request caller grant has expired''
               else Inr (sgr_secret g, Some g)))"

definition DEFAULT_REPLAY_TTL_SECONDS :: rat where
  "DEFAULT_REPLAY_TTL_SECONDS = 300"

definition DEFAULT_REPLAY_MAX_ENTRIES :: nat where
  "DEFAULT_REPLAY_MAX_ENTRIES = 4096"

text \<open>Verification; a request the cache has seen is verified again with a new cache if its operation is known.\<close>

definition verify_or_retry ::
  "(pyval \<Rightarrow> string res) \<Rightarrow> remote_service \<Rightarrow> string \<Rightarrow> pyval \<Rightarrow> rat \<Rightarrow> remote_service \<times> remote_request res" where
  "verify_or_retry canon s secret env now =
     (case verify_request canon secret now (sv_freshness s) env (sv_replay s) of
        (cache, r) \<Rightarrow>
          (s\<lparr>sv_replay := cache\<rparr>,
           case r of
             Inr q \<Rightarrow> Inr q
           | Inl e \<Rightarrow>
               if isa e RemoteAuthError \<and> contains ''replayed'' (exn_msg e) \<and> is_dict env \<and> is_str (fget env ''op'')
                  \<and> OPERATION_SAFETY (str_of (fget env ''op'')) \<in> {Some ''read'', Some ''retry_safe'', Some ''unsafe''}
               then snd (verify_request canon secret now (sv_freshness s) env
                      (replay_new DEFAULT_REPLAY_TTL_SECONDS DEFAULT_REPLAY_MAX_ENTRIES))
               else Inl e))"

definition open_session ::
  "remote_service \<Rightarrow> remote_request \<Rightarrow> string option \<Rightarrow> pyval \<Rightarrow> string list \<Rightarrow> remote_service \<times> string res" where
  "open_session s q generation tick draws =
     (case authenticate (sv_sessions s) q generation tick draws of (r, x) \<Rightarrow> (s\<lparr>sv_sessions := r\<rparr>, x))"

definition session_current ::
  "remote_service \<Rightarrow> string \<Rightarrow> string option \<Rightarrow> pyval \<Rightarrow> remote_service \<times> unit res" where
  "session_current s sid generation tick =
     (case assert_current (sv_sessions s) sid generation tick of (r, x) \<Rightarrow> (s\<lparr>sv_sessions := r\<rparr>, x))"

definition fence_checked :: "(pyval \<Rightarrow> string) \<Rightarrow> remote_service \<Rightarrow> remote_request \<Rightarrow> unit res" where
  "fence_checked pyrepr s q = (if rq_op q \<in> ROLE_OPERATIONS then verify_role_fence pyrepr s q else Inr ())"

record handling =
  ha_request :: remote_request
  ha_grant :: "service_grant option"
  ha_version :: nat
  ha_secret :: string
  ha_session :: string

text \<open>Everything before the fingerprint; an exception here reaches the transport as it is.\<close>

definition handle_begin ::
  "(pyval \<Rightarrow> string res) \<Rightarrow> (pyval \<Rightarrow> string) \<Rightarrow> remote_service \<Rightarrow> pyval res \<Rightarrow> string option \<Rightarrow> rat \<Rightarrow> pyval \<Rightarrow> string list
   \<Rightarrow> remote_service \<times> handling res" where
  "handle_begin canon pyrepr s loaded generation now tick draws =
     (case loaded of
        Inl e \<Rightarrow> (s, if isa e ValueError \<or> isa e TypeError then raise RemoteProtocolError ''envelope is not valid JSON'' else Inl e)
      | Inr env \<Rightarrow>
          sbind (s, select_credential s env now) (\<lambda>s (secret, g).
          let version = sv_version s in
          sbind (verify_or_retry canon s secret env now) (\<lambda>s q.
          if (case sv_expected s of None \<Rightarrow> False | Some n \<Rightarrow> rq_caller q \<noteq> Some n)
          then (s, raise RemoteAuthError ''request caller identity is invalid'')
          else if rq_node q \<noteq> sv_node s then (s, raise RemoteAuthError ''request target identity is invalid'')
          else sbind (open_session s q generation tick draws) (\<lambda>s sid.
          sbind (s, fence_checked pyrepr s q) (\<lambda>s _.
          (s, Inr \<lparr>ha_request = q, ha_grant = g, ha_version = version, ha_secret = secret, ha_session = sid\<rparr>))))))"

definition solve_checked ::
  "(pyval \<Rightarrow> string res) \<Rightarrow> host \<Rightarrow> remote_service \<Rightarrow> handling \<Rightarrow> string option \<Rightarrow> rat \<Rightarrow> rat \<Rightarrow> pyval
   \<Rightarrow> remote_service \<times> pyval res" where
  "solve_checked dumps ho s ha generation now later tick' =
     sbind (s, assert_grant_snapshot_current s (ha_grant ha) (ha_version ha) now) (\<lambda>s _.
     sbind (solve dumps ho s (ha_request ha) (ha_grant ha) now) (\<lambda>s v.
     sbind (session_current s (ha_session ha) generation tick') (\<lambda>s _.
     sbind (s, assert_grant_snapshot_current s (ha_grant ha) (ha_version ha) later) (\<lambda>s _. (s, Inr v)))))"

text \<open>\<open>None\<close>: the entry of another thread is still open, the call waits.\<close>

definition run_idempotent ::
  "host \<Rightarrow> remote_service \<Rightarrow> idem_key \<Rightarrow> string \<Rightarrow> rat \<Rightarrow> rat \<Rightarrow> pyval effect \<Rightarrow> (remote_service \<times> pyval res) option" where
  "run_idempotent ho s key fingerprint now later operation =
     (case idem_enter (sv_idem s) key fingerprint now of
        (c, Inl x) \<Rightarrow> Some (s\<lparr>sv_idem := c\<rparr>, Inl x)
      | (c, Inr (n, True)) \<Rightarrow>
          (case operation (s\<lparr>sv_idem := c\<rparr>) of
             (s', r) \<Rightarrow>
               (case idem_finish (ho_save ho) (sv_idem s') n r later of (c', r') \<Rightarrow> Some (s'\<lparr>sv_idem := c'\<rparr>, r')))
      | (c, Inr (n, False)) \<Rightarrow>
          let s' = ho_others ho (s\<lparr>sv_idem := c\<rparr>) in map_option (\<lambda>r. (s', r)) (idem_answer (sv_idem s') n))"

text \<open>The body of the \<open>try\<close>.\<close>

definition handle_guarded ::
  "(pyval \<Rightarrow> string res) \<Rightarrow> (pyval \<Rightarrow> string) \<Rightarrow> host \<Rightarrow> remote_service \<Rightarrow> handling \<Rightarrow> string \<Rightarrow> string option \<Rightarrow> rat \<Rightarrow> rat \<Rightarrow> pyval
   \<Rightarrow> (remote_service \<times> pyval res) option" where
  "handle_guarded dumps pyrepr ho s ha fingerprint generation now later tick' =
     (let q = ha_request ha;
          checks = (\<lambda>s now. rbind (assert_grant_snapshot_current s (ha_grant ha) (ha_version ha) now)
                       (\<lambda>_. authorize_request dumps s q (ha_grant ha) now));
          operation = (\<lambda>s. solve_checked dumps ho s ha generation now later tick')
      in case checks s now of
        Inl x \<Rightarrow> Some (s, Inl x)
      | Inr _ \<Rightarrow>
          map_option (\<lambda>m. sbind m (\<lambda>s v.
              sbind (s, fence_checked pyrepr s q) (\<lambda>s _.
              sbind (session_current s (ha_session ha) generation tick') (\<lambda>s _.
              sbind (s, checks s later) (\<lambda>s _. (s, Inr v))))))
            (if OPERATION_SAFETY (rq_op q) \<noteq> Some ''read''
             then run_idempotent ho s (request_owner q, rq_id q) fingerprint now later operation
             else Some (operation s)))"

text \<open>The \<open>except\<close> clauses: the error a response carries, or nothing when the exception is raised on.\<close>

definition error_text :: "exn \<Rightarrow> string option" where
  "error_text e =
     (if isa e RemoteAuthorizationError \<or> isa e PermissionError \<or> isa e RoleAuthorizationError
      then Some (if contains ''not authorised'' (exn_msg e) then ''capability_unavailable'' else ''permission_denied'')
      else if isa e RemoteUnavailableError then Some ''target_offline''
      else if isa e RemoteProtocolError then None
      else if isa e Exception then Some ''execution_failed''
      else None)"

definition respond ::
  "(pyval \<Rightarrow> string res) \<Rightarrow> (pyval \<Rightarrow> string res) \<Rightarrow> host \<Rightarrow> remote_service \<Rightarrow> handling \<Rightarrow> string option \<Rightarrow> rat \<Rightarrow> pyval res
   \<Rightarrow> remote_service \<times> pyval res" where
  "respond canon dumps ho s ha generation later outcome =
     (let q = ha_request ha;
          signed = (\<lambda>status payload err. sign_response canon (nid_value (sv_node s)) (rq_id q) status (ha_secret ha) later payload err
                      (Some (ha_session ha)) generation)
      in case outcome of
        Inl e \<Rightarrow> (s, case error_text e of None \<Rightarrow> Inl e | Some t \<Rightarrow> signed ''error'' PNone (Some t))
      | Inr payload \<Rightarrow>
          sbind (case ho_commit ho of
              Some f \<Rightarrow> if rq_op q = ''revoke_self'' then f s else (s, Inr ())
            | None \<Rightarrow> (s, Inr ())) (\<lambda>s _.
          (s, case dumps payload of
                Inr _ \<Rightarrow> signed ''ok'' payload None
              | Inl e \<Rightarrow> if isa e TypeError \<or> isa e ValueError then signed ''error'' PNone (Some ''execution_failed'') else Inl e)))"

definition handle ::
  "(pyval \<Rightarrow> string res) \<Rightarrow> (pyval \<Rightarrow> string res) \<Rightarrow> (pyval \<Rightarrow> string) \<Rightarrow> host \<Rightarrow> remote_service \<Rightarrow> pyval res \<Rightarrow> string option
   \<Rightarrow> rat \<Rightarrow> pyval \<Rightarrow> string list \<Rightarrow> rat \<Rightarrow> pyval \<Rightarrow> (remote_service \<times> pyval res) option" where
  "handle canon dumps pyrepr ho s loaded generation now tick draws later tick' =
     (case handle_begin canon pyrepr s loaded generation now tick draws of
        (s, Inl e) \<Rightarrow> Some (s, Inl e)
      | (s, Inr ha) \<Rightarrow>
          (case canon (pdict [(''op'', PStr (rq_op (ha_request ha))), (''params'', rq_params (ha_request ha))]) of
             Inl e \<Rightarrow> Some (s, Inl e)
           | Inr fingerprint \<Rightarrow>
               map_option (\<lambda>(s, r). respond canon dumps ho s ha generation later r)
                 (handle_guarded dumps pyrepr ho s ha fingerprint generation now later tick')))"

end
