(* ===== verification/Discovery.thy ===== *)
theory Discovery
  imports Identity Interfaces
begin

text \<open>
  \<open>discovery/models.py\<close> and \<open>discovery/candidates.py\<close>: endpoint candidates, what a peer announces, the rank that
  orders the routes to a peer, and the registry of announcements with its time to live. Address texts are read as the
  standard library's \<open>ipaddress.ip_address\<close> reads them.
\<close>

unbundle bit_operations_syntax

section \<open>Addresses\<close>

fun split_str :: "char \<Rightarrow> string \<Rightarrow> string list" where
  "split_str c [] = [[]]"
| "split_str c (x # xs) = (if x = c then [] # split_str c xs else (x # hd (split_str c xs)) # tl (split_str c xs))"

definition is_digit :: "char \<Rightarrow> bool" where
  "is_digit c \<longleftrightarrow> 48 \<le> (of_char c :: nat) \<and> (of_char c :: nat) \<le> 57"

definition is_hex_digit :: "char \<Rightarrow> bool" where
  "is_hex_digit c \<longleftrightarrow> (let n = (of_char c :: nat) in 48 \<le> n \<and> n \<le> 57 \<or> 65 \<le> n \<and> n \<le> 70 \<or> 97 \<le> n \<and> n \<le> 102)"

definition parse_octet :: "string \<Rightarrow> int option" where
  "parse_octet s =
     (if s = [] \<or> \<not> list_all is_digit s \<or> length s > 3 \<or> s \<noteq> ''0'' \<and> hd s = CHR ''0'' then None
      else let v = int (digits_val s) in if v > 255 then None else Some v)"

definition ipv4_parse :: "string \<Rightarrow> int option" where
  "ipv4_parse s =
     (case map parse_octet (split_str CHR ''.'' s) of
        [Some a, Some b, Some c, Some d] \<Rightarrow> Some (((a * 256 + b) * 256 + c) * 256 + d)
      | _ \<Rightarrow> None)"

definition hextet_ok :: "string \<Rightarrow> bool" where
  "hextet_ok s \<longleftrightarrow> s \<noteq> [] \<and> list_all is_hex_digit s \<and> length s \<le> 4"

text \<open>
  The parts between the colons, an IPv4 tail already replaced by two hexadecimal parts: at most one part within is
  empty (the \<open>::\<close>), and an empty first or last part belongs to it.
\<close>

definition ipv6_parts_ok :: "string list \<Rightarrow> bool" where
  "ipv6_parts_ok ps =
     (let skips = filter (\<lambda>i. ps ! i = []) [1..<length ps - 1] in
      length ps \<le> 9
      \<and> (case skips of
           [] \<Rightarrow> length ps = 8 \<and> list_all hextet_ok ps
         | [k] \<Rightarrow>
             (let hi = (if hd ps = [] then k - 1 else k);
                  lo = (if last ps = [] then length ps - k - 2 else length ps - k - 1)
              in (hd ps = [] \<longrightarrow> hi = 0) \<and> (last ps = [] \<longrightarrow> lo = 0) \<and> hi + lo < 8
                 \<and> list_all hextet_ok (take hi ps) \<and> list_all hextet_ok (drop (length ps - lo) ps))
         | _ \<Rightarrow> False))"

definition ipv6_ok :: "string \<Rightarrow> bool" where
  "ipv6_ok s =
     (let addr = takeWhile (\<lambda>c. c \<noteq> CHR ''%'') s; scope = dropWhile (\<lambda>c. c \<noteq> CHR ''%'') s;
          ps = split_str CHR '':'' addr
      in CHR ''/'' \<notin> set s
         \<and> (scope = [] \<or> length scope > 1 \<and> CHR ''%'' \<notin> set (tl scope))
         \<and> length ps \<ge> 3
         \<and> (if CHR ''.'' \<in> set (last ps)
            then ipv4_parse (last ps) \<noteq> None \<and> ipv6_parts_ok (butlast ps @ [''0'', ''0''])
            else ipv6_parts_ok ps))"

datatype ip = IPv4 int | IPv6

text \<open>\<open>ipaddress.ip_address\<close>; the value of an IPv6 address is never used.\<close>

definition ip_address :: "string \<Rightarrow> ip option" where
  "ip_address s =
     (case ipv4_parse s of Some a \<Rightarrow> Some (IPv4 a) | None \<Rightarrow> if ipv6_ok s then Some IPv6 else None)"

definition in_network :: "int \<Rightarrow> int \<times> nat \<Rightarrow> bool" where
  \<comment> \<open>an address and a network given by its first address and prefix length\<close>
  "in_network a nw \<longleftrightarrow> a AND push_bit (32 - snd nw) (mask (snd nw)) = fst nw"

definition preferred_ipv4_networks :: "(int \<times> nat) list" where
  "preferred_ipv4_networks = [(0xC0A80000, 16), (0xAC100000, 12), (0x0A000000, 8), (0x64400000, 10)]"

fun first_index :: "('a \<Rightarrow> bool) \<Rightarrow> 'a list \<Rightarrow> nat" where
  "first_index P [] = 0"
| "first_index P (x # xs) = (if P x then 0 else Suc (first_index P xs))"

definition address_rank :: "string \<Rightarrow> nat" where
  "address_rank s =
     (case ip_address s of
        None \<Rightarrow> length preferred_ipv4_networks + 1
      | Some IPv6 \<Rightarrow> length preferred_ipv4_networks
      | Some (IPv4 a) \<Rightarrow>
          if in_network a (0x7F000000, 8) then length preferred_ipv4_networks
          else first_index (in_network a) preferred_ipv4_networks)"

text \<open>\<open>min(xs, key=f)\<close>: the first of the least elements.\<close>

fun py_min :: "('a \<Rightarrow> 'k::linorder) \<Rightarrow> 'a \<Rightarrow> 'a list \<Rightarrow> 'a" where
  "py_min f x [] = x"
| "py_min f x (y # ys) = py_min f (if f y < f x then y else x) ys"

definition preferred_address :: "string list \<Rightarrow> string res" where
  "preferred_address xs = (if xs = [] then raise ValueError ''no route candidates'' else Inr (py_min address_rank (hd xs) (tl xs)))"

section \<open>Endpoints\<close>

datatype endpoint_source = CONFIGURED | SRC_IPV4 | SRC_IPV6 | VPN | DISCOVERY

record endpoint =
  ec_address :: string
  ec_port :: int
  ec_source :: endpoint_source
  ec_validation :: string
  ec_priority :: int
  ec_success :: "rat option"
  ec_failure :: "rat option"

definition endpoint_checked :: "endpoint \<Rightarrow> endpoint res" where
  "endpoint_checked e =
     (if blank (ec_address e) then raise ValueError ''endpoint address must not be empty''
      else if \<not> (1 \<le> ec_port e \<and> ec_port e \<le> 65535) then raise ValueError ''endpoint port is invalid''
      else if ec_validation e \<notin> {''validated'', ''unvalidated'', ''invalid''} then raise ValueError ''endpoint validation is invalid''
      else Inr e)"

definition mk_endpoint :: "string \<Rightarrow> int \<Rightarrow> endpoint_source \<Rightarrow> endpoint res" where
  "mk_endpoint a p src = endpoint_checked \<lparr>ec_address = a, ec_port = p, ec_source = src, ec_validation = ''validated'',
     ec_priority = 0, ec_success = None, ec_failure = None\<rparr>"

definition endpoint_key :: "endpoint \<Rightarrow> string \<times> int" where
  "endpoint_key e = (ec_address e, ec_port e)"

definition endpoint_source_of :: "string \<Rightarrow> endpoint_source" where
  "endpoint_source_of s = (case ip_address s of None \<Rightarrow> DISCOVERY | Some IPv6 \<Rightarrow> SRC_IPV6 | Some (IPv4 a) \<Rightarrow> SRC_IPV4)"

fun source_rank :: "endpoint_source \<Rightarrow> int" where
  "source_rank CONFIGURED = 0"
| "source_rank SRC_IPV4 = 1"
| "source_rank SRC_IPV6 = 2"
| "source_rank VPN = 3"
| "source_rank DISCOVERY = 4"

definition endpoint_rank :: "endpoint \<Rightarrow> int \<times> int \<times> int \<times> string \<times> int" where
  "endpoint_rank e =
     (if ec_success e \<noteq> None then 0 else 1, ec_priority e,
      source_rank (ec_source e) + (if ec_failure e \<noteq> None then 1 else 0), ec_address e, ec_port e)"

definition usable_endpoints :: "endpoint list \<Rightarrow> endpoint list" where
  "usable_endpoints es = filter (\<lambda>e. ec_validation e \<noteq> ''invalid'') es"

definition preferred_endpoint :: "endpoint list \<Rightarrow> endpoint res" where
  "preferred_endpoint es =
     (case usable_endpoints es of
        [] \<Rightarrow> raise ValueError ''no route candidates''
      | u # us \<Rightarrow> Inr (py_min endpoint_rank u us))"

section \<open>Announced peers\<close>

record candidate =
  dc_stable_id :: string
  dc_hostname :: string
  dc_addresses :: "string list"
  dc_port :: "int option"
  dc_service_name :: string
  dc_app_version :: string
  dc_protocol_version :: string
  dc_platform :: "string option"
  dc_connectable :: bool
  dc_compatible :: bool
  dc_last_seen :: rat
  dc_identity :: "string option"
  dc_transport :: "string option"
  dc_endpoints :: "endpoint list"
  dc_root :: "string option"
  dc_generation :: "int option"
  dc_proof :: "string option"
  dc_pairing_port :: "int option"

definition candidate_post_init :: "candidate \<Rightarrow> candidate res" where
  "candidate_post_init c =
     (case (dc_endpoints c, dc_port c) of
        ([], Some p) \<Rightarrow>
          rbind (rmap (\<lambda>a. mk_endpoint a p (endpoint_source_of a)) (dc_addresses c)) (\<lambda>es. Inr (c\<lparr>dc_endpoints := es\<rparr>))
      | _ \<Rightarrow> Inr c)"

definition pairing_endpoints :: "candidate \<Rightarrow> endpoint list res" where
  "pairing_endpoints c =
     (case (case dc_pairing_port c of Some p \<Rightarrow> if p = 0 then dc_port c else Some p | None \<Rightarrow> dc_port c) of
        None \<Rightarrow> Inr []
      | Some p \<Rightarrow> rmap (\<lambda>e. endpoint_checked (e\<lparr>ec_port := p\<rparr>)) (dc_endpoints c))"

section \<open>The registry of announcements\<close>

text \<open>An announcement as it arrives: its identity, addresses and port are whatever the caller passed.\<close>

record announcement =
  an_stable_id :: pyval
  an_addresses :: "pyval list"
  an_port :: pyval
  an_seen :: rat

record discovery_registry =
  dr_ttl :: rat
  dr_self :: "string option"
  dr_items :: "(string, announcement) dict"

definition py_trunc :: "rat \<Rightarrow> int" where
  "py_trunc r = (if r < 0 then \<lceil>r\<rceil> else \<lfloor>r\<rfloor>)"

fun normalize_port :: "pyval \<Rightarrow> int option" where
  "normalize_port (PInt i) = (if 1 \<le> i \<and> i \<le> 65535 then Some i else None)"
| "normalize_port (PFloat (Fin r)) =
     (if of_int (py_trunc r) \<noteq> r \<or> \<not> (1 \<le> py_trunc r \<and> py_trunc r \<le> 65535) then None else Some (py_trunc r))"
| "normalize_port _ = None"

definition validate_candidate :: "announcement \<Rightarrow> string option \<Rightarrow> unit res" where
  "validate_candidate c self_id =
     (if \<not> is_str (an_stable_id c) \<or> str_of (an_stable_id c) = [] \<or> str_of (an_stable_id c) = ''local''
      then raise ValueError ''invalid discovery identity''
      else if self_id = Some (str_of (an_stable_id c)) then raise ValueError ''self discovery is not a peer''
      else if normalize_port (an_port c) = None \<or> an_addresses c = [] then raise ValueError ''invalid discovery endpoint''
      else if list_ex (\<lambda>a. \<not> is_str a \<or> blank (str_of a)) (an_addresses c) then raise ValueError ''invalid discovery endpoint''
      else Inr ())"

definition dr_add :: "discovery_registry \<Rightarrow> announcement \<Rightarrow> rat \<Rightarrow> discovery_registry \<times> bool" where
  "dr_add r c clock =
     (case (validate_candidate c (dr_self r), normalize_port (an_port c)) of
        (Inr _, Some p) \<Rightarrow>
          (r\<lparr>dr_items := dict_set (str_of (an_stable_id c)) (c\<lparr>an_port := PInt p, an_seen := clock\<rparr>) (dr_items r)\<rparr>, True)
      | _ \<Rightarrow> (r, False))"

definition dr_remove :: "discovery_registry \<Rightarrow> pyval \<Rightarrow> discovery_registry" where
  "dr_remove r i = (if is_str i then r\<lparr>dr_items := dict_pop (str_of i) (dr_items r)\<rparr> else r)"

definition dr_expire :: "discovery_registry \<Rightarrow> rat \<Rightarrow> discovery_registry \<times> string list" where
  "dr_expire r current =
     (let expired = map fst (filter (\<lambda>(k, c). current - an_seen c > dr_ttl r) (dr_items r))
      in (r\<lparr>dr_items := fold dict_pop expired (dr_items r)\<rparr>, expired))"

definition announced_endpoints :: "announcement \<Rightarrow> endpoint list res" where
  \<comment> \<open>\<open>DiscoveryCandidate.endpoint_candidates\<close> of a stored item\<close>
  "announced_endpoints c = rmap (\<lambda>a. mk_endpoint (str_of a) (int_of (an_port c)) DISCOVERY) (an_addresses c)"


section \<open>Lemmas on texts and networks\<close>

lemma split_str_nosep: "c \<notin> set s \<Longrightarrow> split_str c s = [s]"
  by (induction s) auto

lemma split_str_sep: "c \<notin> set s \<Longrightarrow> split_str c (s @ c # t) = s # split_str c t"
  by (induction s) auto

definition dotted :: "nat \<Rightarrow> nat \<Rightarrow> nat \<Rightarrow> nat \<Rightarrow> string" where
  "dotted a b c d = show_nat a @ ''.'' @ show_nat b @ ''.'' @ show_nat c @ ''.'' @ show_nat d"

lemma show_nat_no_dot: "CHR ''.'' \<notin> set (show_nat n)"
  using show_nat_digits [of "CHR ''.''" n] by auto

lemma parse_octet_show: "n < 256 \<Longrightarrow> parse_octet (show_nat n) = Some (int n)"
proof -
  assume n: "n < 256"
  have d: "list_all is_digit (show_nat n)" using show_nat_digits [of _ n] by (auto simp: list_all_iff is_digit_def)
  have "length (show_nat n) \<le> 3" "show_nat n \<noteq> []" "show_nat n = ''0'' \<or> hd (show_nat n) \<noteq> CHR ''0''"
  proof -
    have c: "(char_of (48 + m) :: char) = CHR ''0'' \<longleftrightarrow> m = 0" if "m < 10" for m :: nat
    proof
      assume "(char_of (48 + m) :: char) = CHR ''0''"
      then have "(of_char (char_of (48 + m) :: char) :: nat) = of_char (CHR ''0'')" by simp
      then show "m = 0" using that by (simp add: of_char_of)
    qed (simp add: char_of_def bit_Suc_0_iff)
    consider "n < 10" | "10 \<le> n" "n < 100" | "100 \<le> n" by linarith
    then have "length (show_nat n) \<le> 3 \<and> show_nat n \<noteq> [] \<and> (show_nat n = ''0'' \<or> hd (show_nat n) \<noteq> CHR ''0'')"
    proof cases
      case 3
      then have "n div 10 \<ge> 10" "n div 10 div 10 < 10" "n div 10 div 10 \<noteq> 0" using n by auto
      then show ?thesis using 3 c [of "n div 10 div 10"]
        by (simp add: show_nat.simps [of n] show_nat.simps [of "n div 10"] show_nat.simps [of "n div 10 div 10"])
    next
      case 2
      then have "n div 10 < 10" "n div 10 \<noteq> 0" by auto
      then show ?thesis using 2 c [of "n div 10"] by (simp add: show_nat.simps [of n] show_nat.simps [of "n div 10"])
    qed (use c [of n] in \<open>auto simp: show_nat.simps [of n]\<close>)
    then show "length (show_nat n) \<le> 3" "show_nat n \<noteq> []" "show_nat n = ''0'' \<or> hd (show_nat n) \<noteq> CHR ''0''" by auto
  qed
  then show ?thesis using d n by (auto simp: parse_octet_def digits_val_show_nat Let_def)
qed

lemma ipv4_parse_dotted:
  assumes "a < 256" "b < 256" "c < 256" "d < 256"
  shows "ipv4_parse (dotted a b c d) = Some (((int a * 256 + int b) * 256 + int c) * 256 + int d)"
  using assms by (simp add: ipv4_parse_def dotted_def split_str_sep split_str_nosep show_nat_no_dot parse_octet_show)

lemma in_network_div:
  fixes a :: int
  assumes "0 \<le> a" "a < 2 ^ 32" "p \<le> 32"
  shows "in_network a (nw * 2 ^ (32 - p), p) \<longleftrightarrow> a div 2 ^ (32 - p) = nw"
proof -
  have "a AND push_bit (32 - p) (mask p) = push_bit (32 - p) (drop_bit (32 - p) a)"
  proof (rule bit_eqI)
    fix i
    have "bit a i \<Longrightarrow> i < 32"
      using assms(1,2) by (metis bit_take_bit_iff take_bit_int_eq_self)
    then show "bit (a AND push_bit (32 - p) (mask p)) i \<longleftrightarrow> bit (push_bit (32 - p) (drop_bit (32 - p) a)) i"
      using assms(3) by (auto simp: bit_and_iff bit_push_bit_iff bit_mask_iff bit_drop_bit_eq)
  qed
  then show ?thesis by (simp add: in_network_def push_bit_eq_mult drop_bit_eq_div)
qed

lemma py_min_hd: "py_min f x ys = hd (sort_key f (x # ys))"
proof (induction ys arbitrary: x)
  case (Cons y ys)
  have h: "hd (insort_key f z zs) = (if zs = [] \<or> f z \<le> f (hd zs) then z else hd zs)" for z zs
    by (cases zs) auto
  show ?case
    using Cons.IH [of x] Cons.IH [of y] by (auto simp: h insort_not_Nil not_less)
qed simp

section \<open>Properties\<close>

text \<open>
  The masks rank addresses as the comment on the preferred networks says: for every four octets, the dotted text
  is read back as that address, 192.168/16 ranks before 172.16/12, then 10/8, then 100.64/10, and loopback and every
  other address come last.
\<close>

theorem private_networks_ranked:
  assumes "a < 256" "b < 256" "c < 256" "d < 256"
  shows "address_rank (dotted a b c d) =
    (if a = 192 \<and> b = 168 then 0 else if a = 172 \<and> 16 \<le> b \<and> b < 32 then 1 else if a = 10 then 2
     else if a = 100 \<and> 64 \<le> b \<and> b < 128 then 3 else 4)"
proof -
  let ?x = "((int a * 256 + int b) * 256 + int c) * 256 + int d"
  have r: "0 \<le> ?x" "?x < 2 ^ 32" using assms by simp_all
  have n: "in_network ?x (0x7F000000, 8) \<longleftrightarrow> ?x div 16777216 = 127"
      "in_network ?x (0xC0A80000, 16) \<longleftrightarrow> ?x div 65536 = 0xC0A8"
      "in_network ?x (0xAC100000, 12) \<longleftrightarrow> ?x div 1048576 = 0xAC1"
      "in_network ?x (0x0A000000, 8) \<longleftrightarrow> ?x div 16777216 = 10"
      "in_network ?x (0x64400000, 10) \<longleftrightarrow> ?x div 4194304 = 0x191"
    using in_network_div [OF r, of 8 "127"] in_network_div [OF r, of 16 "0xC0A8"] in_network_div [OF r, of 12 "0xAC1"]
      in_network_div [OF r, of 8 "10"] in_network_div [OF r, of 10 "0x191"] by simp_all
  have y: "?x div 65536 = int a * 256 + int b"
    by (rule int_div_pos_eq [of _ _ _ "int c * 256 + int d"]) (use assms in simp_all)
  have t: "?x div (65536 * k) = (int a * 256 + int b) div k" if "0 \<le> k" for k
    by (simp only: zdiv_zmult2_eq [OF that] y)
  have k: "(65536::int) * 256 = 16777216" "(65536::int) * 16 = 1048576" "(65536::int) * 64 = 4194304" by simp_all
  have z: "(int a * 256 + int b) div 256 = int a" "(int a * 256 + int b) div 16 = int a * 16 + int b div 16"
      "(int a * 256 + int b) div 64 = int a * 4 + int b div 64"
    using assms(2) by simp_all
  have d: "?x div 16777216 = int a" "?x div 1048576 = int a * 16 + int b div 16" "?x div 4194304 = int a * 4 + int b div 64"
    using t [of 256] t [of 16] t [of 64] unfolding k z by simp_all
  have q: "int b div 16 < 16" "int b div 16 = 1 \<longleftrightarrow> 16 \<le> b \<and> b < 32" "int b div 64 < 4" "int b div 64 = 1 \<longleftrightarrow> 64 \<le> b \<and> b < 128"
    using assms(2) by auto
  have "int a * 256 + int b = 0xC0A8 \<longleftrightarrow> a = 192 \<and> b = 168" using assms(2) by presburger
  moreover have "int a * 16 + r = 0xAC1 \<longleftrightarrow> a = 172 \<and> r = 1" if "0 \<le> r" "r < 16" for r using that by presburger
  moreover have "int a * 4 + r = 0x191 \<longleftrightarrow> a = 100 \<and> r = 1" if "0 \<le> r" "r < 4" for r using that by presburger
  ultimately have e: "int a * 256 + int b = 0xC0A8 \<longleftrightarrow> a = 192 \<and> b = 168"
      "int a * 16 + int b div 16 = 0xAC1 \<longleftrightarrow> a = 172 \<and> 16 \<le> b \<and> b < 32"
      "int a * 4 + int b div 64 = 0x191 \<longleftrightarrow> a = 100 \<and> 64 \<le> b \<and> b < 128" "int a = 127 \<longleftrightarrow> a = 127" "int a = 10 \<longleftrightarrow> a = 10"
    using q by simp_all
  show ?thesis
    unfolding address_rank_def ip_address_def ipv4_parse_dotted [OF assms] option.case ip.case preferred_ipv4_networks_def
      first_index.simps n d y e by auto
qed

lemma private_networks_ranked_witness: "address_rank (dotted 172 20 0 7) = 1 \<and> address_rank (dotted 172 32 0 7) = 4"
  using private_networks_ranked [of 172 20 0 7] private_networks_ranked [of 172 32 0 7] by simp

text \<open>
  The first route a connection attempt tries (the head of the routes sorted by rank) is the preferred endpoint: it
  is one of the routes not marked invalid and no such route has a smaller rank; there is none exactly when every route
  is marked invalid.
\<close>

theorem preferred_is_first:
  "preferred_endpoint es =
     (if usable_endpoints es = [] then raise ValueError ''no route candidates''
      else Inr (hd (sort_key endpoint_rank (usable_endpoints es))))
   \<and> (\<forall>e. preferred_endpoint es = Inr e \<longrightarrow>
        e \<in> set es \<and> ec_validation e \<noteq> ''invalid''
        \<and> (\<forall>u \<in> set es. ec_validation u \<noteq> ''invalid'' \<longrightarrow> endpoint_rank e \<le> endpoint_rank u))"
proof -
  let ?s = "sort_key endpoint_rank (usable_endpoints es)"
  have p: "preferred_endpoint es = (if usable_endpoints es = [] then raise ValueError ''no route candidates'' else Inr (hd ?s))"
    by (cases "usable_endpoints es") (simp_all add: preferred_endpoint_def py_min_hd)
  have "hd ?s \<in> set (usable_endpoints es)" "\<forall>u \<in> set (usable_endpoints es). endpoint_rank (hd ?s) \<le> endpoint_rank u"
    if "usable_endpoints es \<noteq> []"
  proof -
    have "length ?s = length (usable_endpoints es)" by simp
    with that obtain h t where t: "?s = h # t" by (cases ?s) auto
    moreover have "sorted (map endpoint_rank ?s)" by simp
    moreover have "set ?s = set (usable_endpoints es)" by simp
    ultimately show "hd ?s \<in> set (usable_endpoints es)"
        "\<forall>u \<in> set (usable_endpoints es). endpoint_rank (hd ?s) \<le> endpoint_rank u"
      by (metis list.sel(1) list.set_intros(1), metis (no_types, lifting) \<open>sorted (map endpoint_rank ?s)\<close>
        list.sel(1) list.simps(9) list.set_map order_refl rev_image_eqI set_ConsD sorted_simps(2))
  qed
  with p show ?thesis by (auto simp: usable_endpoints_def)
qed

lemma preferred_is_first_witness:
  "let e = \<lparr>ec_address = ''h'', ec_port = 1, ec_source = VPN, ec_validation = ''validated'', ec_priority = 0,
              ec_success = None, ec_failure = None\<rparr>
   in preferred_endpoint [e\<lparr>ec_source := DISCOVERY\<rparr>, e, e\<lparr>ec_source := CONFIGURED, ec_validation := ''invalid''\<rparr>] = Inr e
      \<and> endpoint_rank e \<le> endpoint_rank (e\<lparr>ec_source := DISCOVERY\<rparr>)"
proof -
  define e where "e = \<lparr>ec_address = ''h'', ec_port = 1, ec_source = VPN, ec_validation = ''validated'', ec_priority = 0,
              ec_success = None, ec_failure = None\<rparr>"
  let ?es = "[e\<lparr>ec_source := DISCOVERY\<rparr>, e, e\<lparr>ec_source := CONFIGURED, ec_validation := ''invalid''\<rparr>]"
  have "preferred_endpoint ?es = Inr e"
    by (simp add: preferred_endpoint_def usable_endpoints_def e_def endpoint_rank_def)
  then show ?thesis using preferred_is_first [of ?es] unfolding e_def [symmetric] by (simp add: e_def)
qed

section \<open>Runs of the registry\<close>

datatype dr_op = DrAdd announcement rat | DrRemove pyval | DrExpire rat

fun dr_step :: "discovery_registry \<Rightarrow> dr_op \<Rightarrow> discovery_registry" where
  "dr_step r (DrAdd c t) = fst (dr_add r c t)"
| "dr_step r (DrRemove i) = dr_remove r i"
| "dr_step r (DrExpire t) = fst (dr_expire r t)"

definition item_ok :: "string option \<Rightarrow> string \<Rightarrow> announcement \<Rightarrow> bool" where
  "item_ok self k c \<longleftrightarrow> an_stable_id c = PStr k \<and> k \<noteq> [] \<and> k \<noteq> ''local'' \<and> self \<noteq> Some k
     \<and> (\<exists>p. an_port c = PInt p \<and> 1 \<le> p \<and> p \<le> 65535)
     \<and> an_addresses c \<noteq> [] \<and> (\<forall>a \<in> set (an_addresses c). is_str a \<and> \<not> blank (str_of a))"

definition dr_inv :: "discovery_registry \<Rightarrow> bool" where
  "dr_inv r \<longleftrightarrow> keys_distinct (dr_items r) \<and> (\<forall>(k, c) \<in> set (dr_items r). item_ok (dr_self r) k c)"

lemma normalize_port_range: "normalize_port v = Some p \<Longrightarrow> 1 \<le> p \<and> p \<le> 65535"
  by (cases v rule: normalize_port.cases) (auto split: if_splits)

lemma dr_add_ok:
  assumes "dr_add r c t = (r', True)"
  obtains p where "normalize_port (an_port c) = Some p" "item_ok (dr_self r) (str_of (an_stable_id c)) (c\<lparr>an_port := PInt p, an_seen := t\<rparr>)"
    "r' = r\<lparr>dr_items := dict_set (str_of (an_stable_id c)) (c\<lparr>an_port := PInt p, an_seen := t\<rparr>) (dr_items r)\<rparr>"
proof -
  obtain p where p: "normalize_port (an_port c) = Some p" "validate_candidate c (dr_self r) = Inr ()"
      "r' = r\<lparr>dr_items := dict_set (str_of (an_stable_id c)) (c\<lparr>an_port := PInt p, an_seen := t\<rparr>) (dr_items r)\<rparr>"
    using assms by (auto simp: dr_add_def split: sum.splits option.splits)
  then show thesis using normalize_port_range [OF p(1)] that
    by (cases "an_stable_id c") (auto simp: validate_candidate_def item_ok_def list_ex_iff split: if_splits)
qed

lemma fold_dict_pop: "set (fold dict_pop ks d) = {x \<in> set d. fst x \<notin> set ks}"
  by (induction ks arbitrary: d) (auto simp: dict_pop_set)

lemma fold_dict_pop_distinct: "keys_distinct d \<Longrightarrow> keys_distinct (fold dict_pop ks d)"
  by (induction ks arbitrary: d) auto

lemma dr_step_inv: "dr_inv r \<Longrightarrow> dr_inv (dr_step r x)"
proof (cases x)
  case (DrAdd c t)
  assume i: "dr_inv r"
  show ?thesis
  proof (cases "snd (dr_add r c t)")
    case True
    then obtain r' where "dr_add r c t = (r', True)" by (cases "dr_add r c t") auto
    from this show ?thesis by (rule dr_add_ok) (use i DrAdd \<open>dr_add r c t = (r', True)\<close> in \<open>auto simp: dr_inv_def dict_set_in_set\<close>)
  next
    case False
    then have "fst (dr_add r c t) = r" by (auto simp: dr_add_def split: sum.splits option.splits)
    then show ?thesis using i DrAdd by simp
  qed
qed (auto simp: dr_inv_def dr_remove_def dr_expire_def dict_pop_set fold_dict_pop fold_dict_pop_distinct Let_def)

interpretation discovery_runs: transition_system dr_step dr_inv
  by unfold_locales (rule dr_step_inv)

text \<open>
  C31. The discovery registry holds only usable announcements of other nodes: whatever sequence of additions, removals
  and expirations runs on an empty registry, every stored item is filed under its own identity, which is neither empty,
  nor \<open>local\<close>, nor the node itself, has a port between 1 and 65535 and at least one non-blank address, so its endpoints
  can be built. An expiration removes exactly the items that were last seen longer ago than the time to live.
\<close>

theorem discovery_items_usable:
  assumes "r = foldl dr_step \<lparr>dr_ttl = ttl, dr_self = self, dr_items = []\<rparr> ops"
  shows "(\<forall>k c. map_of (dr_items r) k = Some c \<longrightarrow>
      item_ok self k c \<and> (\<exists>es. announced_endpoints c = Inr es \<and> length es = length (an_addresses c)))
    \<and> map_of (dr_items (fst (dr_expire r now))) k =
        (case map_of (dr_items r) k of None \<Rightarrow> None | Some c \<Rightarrow> if now - an_seen c > ttl then None else Some c)"
proof -
  have s: "dr_self (dr_step q x) = dr_self q \<and> dr_ttl (dr_step q x) = dr_ttl q" for q x
    by (cases x) (auto simp: dr_add_def dr_remove_def dr_expire_def Let_def split: sum.splits option.splits)
  have "dr_self (foldl dr_step q ops) = dr_self q \<and> dr_ttl (foldl dr_step q ops) = dr_ttl q" for q
    by (induction ops arbitrary: q) (auto simp: s)
  then have st: "dr_self r = self" "dr_ttl r = ttl" by (simp_all add: assms)
  have "dr_inv r" unfolding assms by (rule discovery_runs.run_inv) (simp add: dr_inv_def)
  then have d: "keys_distinct (dr_items r)" and i: "\<And>k c. map_of (dr_items r) k = Some c \<Longrightarrow> item_ok self k c"
    using st by (auto simp: dr_inv_def dest: map_of_SomeD)
  have e: "\<exists>es. announced_endpoints c = Inr es \<and> length es = length (an_addresses c)" if "item_ok self k c" for k c
  proof -
    have "rmap (\<lambda>a. mk_endpoint (str_of a) (int_of (an_port c)) DISCOVERY) (an_addresses c)
        = Inr (map (\<lambda>a. \<lparr>ec_address = str_of a, ec_port = int_of (an_port c), ec_source = DISCOVERY, ec_validation = ''validated'',
            ec_priority = 0, ec_success = None, ec_failure = None\<rparr>) (an_addresses c))"
      by (rule rmap_id) (use that in \<open>auto simp: item_ok_def mk_endpoint_def endpoint_checked_def\<close>)
    then show ?thesis by (simp add: announced_endpoints_def)
  qed
  have "map_of (dr_items (fst (dr_expire r now))) k =
      (case map_of (dr_items r) k of None \<Rightarrow> None | Some c \<Rightarrow> if now - an_seen c > ttl then None else Some c)"
  proof -
    have m: "map_of (fold dict_pop ks q) k = (if k \<in> set ks then None else map_of q k)" for ks and q :: "(string, announcement) dict"
      by (induction ks arbitrary: q) auto
    have "k \<in> fst ` {x \<in> set (dr_items r). case x of (k, c) \<Rightarrow> ttl < now - an_seen c}
        \<longleftrightarrow> (\<exists>c. map_of (dr_items r) k = Some c \<and> ttl < now - an_seen c)"
      using d by force
    then show ?thesis using st by (auto simp: dr_expire_def Let_def m split: option.splits)
  qed
  with i e show ?thesis by blast
qed

lemma discovery_items_usable_witness:
  "let c = \<lparr>an_stable_id = PStr ''p'', an_addresses = [PStr ''h''], an_port = PFloat (Fin 9), an_seen = 0\<rparr>;
       r = foldl dr_step \<lparr>dr_ttl = 60, dr_self = Some ''me'', dr_items = []\<rparr>
             [DrAdd c 5, DrAdd (c\<lparr>an_stable_id := PStr ''me''\<rparr>) 6, DrAdd (c\<lparr>an_stable_id := PStr ''q''\<rparr>) 50]
   in map fst (dr_items r) = [''p'', ''q''] \<and> map_of (dr_items (fst (dr_expire r 70))) ''p'' = None"
proof -
  let ?c = "\<lparr>an_stable_id = PStr ''p'', an_addresses = [PStr ''h''], an_port = PFloat (Fin 9), an_seen = 0\<rparr>"
  let ?ops = "[DrAdd ?c 5, DrAdd (?c\<lparr>an_stable_id := PStr ''me''\<rparr>) 6, DrAdd (?c\<lparr>an_stable_id := PStr ''q''\<rparr>) 50]"
  let ?r = "foldl dr_step \<lparr>dr_ttl = 60, dr_self = Some ''me'', dr_items = []\<rparr> ?ops"
  have "map (\<lambda>(k, c). (k, an_seen c)) (dr_items ?r) = [(''p'', 5), (''q'', 50)]"
    by (simp add: dr_add_def validate_candidate_def py_trunc_def blank_def str_isspace_def raise_def)
  then show ?thesis using discovery_items_usable [OF refl, of 60 "Some ''me''" ?ops 70 "''p''"]
    by (cases "dr_items ?r") (auto simp: Let_def)
qed

end
