(* ===== verification/Nodes.thy ===== *)
theory Nodes
  imports Roles Interfaces
begin

text \<open>
  \<open>connections/state.py\<close> and \<open>nodes/registry.py\<close>: the connection axis of a node, the retry policy of a peer, and the
  registry that keeps trust, membership and connection of every known node apart.
\<close>

section \<open>Connection states\<close>

datatype connection_status =
  CS_UNKNOWN | CS_CONNECTING | CS_ONLINE | CS_MIGRATING | CS_RESUMING | CS_OFFLINE | CS_AUTHENTICATION_FAILED | CS_IDENTITY_CHANGED

record connection_state =
  cs_status :: connection_status
  cs_reason :: "string option"
  cs_changed :: "rat option"

definition cs_make :: "connection_status \<Rightarrow> string option \<Rightarrow> rat option \<Rightarrow> connection_state" where
  "cs_make s r t = \<lparr>cs_status = s, cs_reason = r, cs_changed = t\<rparr>"

definition cs_unknown :: "rat option \<Rightarrow> connection_state" where
  "cs_unknown now = cs_make CS_UNKNOWN None now"

definition cs_connecting :: "rat option \<Rightarrow> connection_state" where
  "cs_connecting now = cs_make CS_CONNECTING None now"

definition cs_online :: "rat option \<Rightarrow> connection_state" where
  "cs_online now = cs_make CS_ONLINE None now"

definition cs_offline :: "string option \<Rightarrow> rat option \<Rightarrow> connection_state" where
  "cs_offline reason now = cs_make CS_OFFLINE reason now"

section \<open>Failures and retries\<close>

datatype peer_failure =
  PF_TIMEOUT | PF_CONNECTION_REFUSED | PF_ROUTE_FAILURE | PF_DISAPPEARED | PF_AUTHENTICATION_FAILED | PF_IDENTITY_CHANGED

text \<open>\<open>str.lower\<close> on code points below 256.\<close>

definition lower_char :: "char \<Rightarrow> char" where
  "lower_char c = (let n = (of_char c :: nat) in
     if 65 \<le> n \<and> n \<le> 90 \<or> 192 \<le> n \<and> n \<le> 222 \<and> n \<noteq> 215 then char_of (n + 32) else c)"

text \<open>\<open>cls\<close> is the class of an exception object and \<open>None\<close> for a plain text.\<close>

definition classify_peer_failure :: "exn_class option \<Rightarrow> string \<Rightarrow> peer_failure" where
  "classify_peer_failure cls msg =
     (let message = map lower_char msg in
      if cls \<in> {Some RemoteAuthError, Some RemoteProtocolError}
         \<or> list_ex (\<lambda>m. contains m message) [''auth'', ''identity'', ''fingerprint'', ''certificate'']
      then PF_AUTHENTICATION_FAILED
      else if contains ''timeout'' message \<or> contains ''timed out'' message then PF_TIMEOUT
      else if contains ''refused'' message then PF_CONNECTION_REFUSED
      else if contains ''route'' message \<or> contains ''network is unreachable'' message then PF_ROUTE_FAILURE
      else PF_DISAPPEARED)"

record retry_state =
  rt_attempt :: nat
  rt_next :: "rat option"
  rt_automatic :: bool
  rt_last :: "peer_failure option"

definition retry_new :: retry_state where
  "retry_new = \<lparr>rt_attempt = 0, rt_next = None, rt_automatic = True, rt_last = None\<rparr>"

fun finite_nonneg :: "pyfloat \<Rightarrow> rat option" where
  "finite_nonneg (Fin r) = (if r < 0 then None else Some r)"
| "finite_nonneg _ = None"

text \<open>\<open>max(0.0, x)\<close>: a NaN does not compare greater than zero.\<close>

fun at_least_zero :: "pyfloat \<Rightarrow> pyfloat" where
  "at_least_zero (Fin r) = Fin (max 0 r)"
| "at_least_zero PosInf = PosInf"
| "at_least_zero _ = Fin 0"

text \<open>
  \<open>jitter\<close> is the optional callback with the conversion of its answer by \<open>float\<close>. \<open>2 ** n\<close> is an \<open>int\<close>, which no longer
  converts to a float when \<open>n\<close> reaches 1024.
\<close>

definition record_failure ::
  "retry_state \<Rightarrow> peer_failure \<Rightarrow> rat \<Rightarrow> (nat \<Rightarrow> pyfloat res) option \<Rightarrow> pyfloat \<Rightarrow> pyfloat \<Rightarrow> pyval \<Rightarrow> retry_state \<times> unit res" where
  "record_failure r failure now jitter base_seconds max_seconds max_exp =
     (case (finite_nonneg base_seconds, finite_nonneg max_seconds) of
        (Some b, Some m) \<Rightarrow>
          if \<not> is_int max_exp \<or> int_of max_exp < 0 then (r, raise ValueError ''invalid retry backoff configuration'')
          else
            let r1 = r\<lparr>rt_last := Some failure, rt_attempt := Suc (rt_attempt r)\<rparr>; n = min (rt_attempt r) (nat (int_of max_exp)) in
            if failure \<in> {PF_AUTHENTICATION_FAILED, PF_IDENTITY_CHANGED} then (r1\<lparr>rt_next := None, rt_automatic := False\<rparr>, Inr ())
            else if n \<ge> 1024 then (r1, raise OverflowError ''int too large to convert to float'')
            else case (case jitter of None \<Rightarrow> Inr (Fin 0) | Some j \<Rightarrow> rbind (j (Suc (rt_attempt r))) (\<lambda>x. Inr (at_least_zero x))) of
                Inl e \<Rightarrow> (r1, Inl e)
              | Inr (Fin extra) \<Rightarrow> (r1\<lparr>rt_next := Some (now + min m (b * 2 ^ n) + extra), rt_automatic := True\<rparr>, Inr ())
              | Inr _ \<Rightarrow> (r1, raise ValueError ''retry jitter must be finite'')
      | _ \<Rightarrow> (r, raise ValueError ''invalid retry backoff configuration''))"

definition retry_reset :: "retry_state \<Rightarrow> retry_state" where
  "retry_reset r = r\<lparr>rt_attempt := 0, rt_next := None, rt_automatic := True, rt_last := None\<rparr>"

section \<open>The node registry\<close>

datatype trust_state = TS_DISCOVERED | TS_TRUSTED | TS_AUTHORIZED | TS_REVOKED

datatype membership_state = MS_NOT_JOINED | MS_WORKER | MS_COORDINATOR | MS_SUBCOORDINATOR

record node_record =
  nr_id :: node_id
  nr_trust :: trust_state
  nr_membership :: membership_state
  nr_connection :: connection_state
  nr_capabilities :: "node_capability set"
  nr_coordinator :: "node_id option"

record node_registry =
  ng_local :: node_id
  ng_records :: "(node_id, node_record) dict"

definition mk_node_record :: "node_id \<Rightarrow> node_record" where
  "mk_node_record n = \<lparr>nr_id = n, nr_trust = TS_DISCOVERED, nr_membership = MS_NOT_JOINED,
     nr_connection = cs_unknown None, nr_capabilities = {}, nr_coordinator = None\<rparr>"

definition registry_for :: "node_id \<Rightarrow> bool \<Rightarrow> node_registry" where
  "registry_for n cluster_enabled = \<lparr>ng_local = n, ng_records = [(n, (mk_node_record n)\<lparr>nr_trust := TS_AUTHORIZED,
     nr_membership := (if cluster_enabled then MS_COORDINATOR else MS_NOT_JOINED)\<rparr>)]\<rparr>"

definition ng_record :: "node_registry \<Rightarrow> node_id \<Rightarrow> node_record option" where
  "ng_record g n = map_of (ng_records g) n"

definition ng_put :: "node_registry \<Rightarrow> node_id \<Rightarrow> node_record \<Rightarrow> node_registry \<times> node_record res" where
  "ng_put g n r = (g\<lparr>ng_records := dict_set n r (ng_records g)\<rparr>, Inr r)"

definition ng_require :: "node_registry \<Rightarrow> node_id \<Rightarrow> node_record res" where
  "ng_require g n = (case ng_record g n of None \<Rightarrow> raise KeyError (nid_value n) | Some r \<Rightarrow> Inr r)"

definition ng_observe :: "node_registry \<Rightarrow> node_id \<Rightarrow> node_capability set \<Rightarrow> node_registry \<times> node_record res" where
  "ng_observe g n caps =
     (if n = ng_local g then (g, ng_require g n)
      else ng_put g n ((case ng_record g n of None \<Rightarrow> mk_node_record n | Some r \<Rightarrow> r)\<lparr>nr_capabilities := caps\<rparr>))"

definition ng_promote :: "node_registry \<Rightarrow> node_id \<Rightarrow> node_capability set \<Rightarrow> node_registry \<times> node_record res" where
  "ng_promote g n permissions = sbind (g, ng_require g n) (\<lambda>g r.
     if nr_trust r = TS_REVOKED then (g, raise PermissionError ''revoked node requires a fresh pairing'')
     else ng_put g n (r\<lparr>nr_trust := TS_AUTHORIZED, nr_capabilities := permissions\<rparr>))"

definition ng_revoke :: "node_registry \<Rightarrow> node_id \<Rightarrow> node_registry \<times> node_record res" where
  "ng_revoke g n = sbind (g, ng_require g n) (\<lambda>g r. ng_put g n (r\<lparr>nr_trust := TS_REVOKED\<rparr>))"

definition ng_set_connection :: "node_registry \<Rightarrow> node_id \<Rightarrow> connection_state \<Rightarrow> node_registry \<times> node_record res" where
  "ng_set_connection g n st = sbind (g, ng_require g n) (\<lambda>g r. ng_put g n (r\<lparr>nr_connection := st\<rparr>))"

fun membership_of :: "cluster_role \<Rightarrow> membership_state" where
  "membership_of WORKER = MS_WORKER"
| "membership_of COORDINATOR = MS_COORDINATOR"
| "membership_of SUBCOORDINATOR = MS_SUBCOORDINATOR"

definition ng_join :: "node_registry \<Rightarrow> node_id \<Rightarrow> cluster_role \<Rightarrow> node_id \<Rightarrow> node_registry \<times> node_record res" where
  "ng_join g n role coordinator = sbind (g, ng_require g n) (\<lambda>g r.
     if nr_trust r \<notin> {TS_TRUSTED, TS_AUTHORIZED} then (g, raise PermissionError ''untrusted node cannot join the cluster'')
     else ng_put g n (r\<lparr>nr_membership := membership_of role, nr_coordinator := Some coordinator\<rparr>))"

definition ng_hydrate_membership ::
  "node_registry \<Rightarrow> node_id \<Rightarrow> cluster_role \<Rightarrow> node_id \<Rightarrow> node_registry \<times> node_record res" where
  "ng_hydrate_membership g n role coordinator = sbind (g, ng_require g n) (\<lambda>g r.
     ng_put g n (r\<lparr>nr_membership := membership_of role, nr_coordinator := Some coordinator\<rparr>))"

definition ng_hydrate_trust :: "node_registry \<Rightarrow> node_id \<Rightarrow> node_registry \<times> node_record res" where
  "ng_hydrate_trust g n = sbind (g, ng_require g n) (\<lambda>g r. ng_put g n (r\<lparr>nr_trust := TS_AUTHORIZED\<rparr>))"

section \<open>The retry policy\<close>

definition jitter_within :: "rat \<Rightarrow> (nat \<Rightarrow> pyfloat res) option \<Rightarrow> bool" where
  "jitter_within j jitter \<longleftrightarrow> 0 \<le> j \<and> (case jitter of None \<Rightarrow> True | Some f \<Rightarrow> \<forall>n. \<exists>v. f n = Inr (Fin v) \<and> v \<le> j)"

definition rt_step ::
  "(nat \<Rightarrow> pyfloat res) option \<Rightarrow> rat \<Rightarrow> rat \<Rightarrow> int \<Rightarrow> retry_state \<Rightarrow> peer_failure \<times> rat \<Rightarrow> retry_state" where
  "rt_step jitter b m x r ft = fst (record_failure r (fst ft) (snd ft) jitter (Fin b) (Fin m) (PInt x))"

lemma record_failure_ok:
  assumes "0 \<le> b" "0 \<le> m" "0 \<le> x" "x < 1024" "jitter_within j jitter"
  shows "\<exists>extra. 0 \<le> extra \<and> extra \<le> j \<and> record_failure r f t jitter (Fin b) (Fin m) (PInt x) =
    (r\<lparr>rt_last := Some f, rt_attempt := Suc (rt_attempt r),
       rt_next := (if f \<in> {PF_AUTHENTICATION_FAILED, PF_IDENTITY_CHANGED} then None
                   else Some (t + min m (b * 2 ^ min (rt_attempt r) (nat x)) + extra)),
       rt_automatic := (f \<notin> {PF_AUTHENTICATION_FAILED, PF_IDENTITY_CHANGED})\<rparr>, Inr ())"
proof -
  have n: "\<not> 1024 \<le> nat x" using assms(3,4) by linarith
  obtain extra where e: "0 \<le> extra" "extra \<le> j"
      "(case jitter of None \<Rightarrow> Inr (Fin 0) | Some f \<Rightarrow> rbind (f (Suc (rt_attempt r))) (\<lambda>x. Inr (at_least_zero x))) = Inr (Fin extra)"
  proof (cases jitter)
    case (Some g)
    then obtain v where "g (Suc (rt_attempt r)) = Inr (Fin v)" "v \<le> j" using assms(5) by (auto simp: jitter_within_def)
    then show thesis using Some assms(5) by (intro that [of "max 0 v"]) (auto simp: jitter_within_def)
  qed (use assms(5) that [of 0] in \<open>auto simp: jitter_within_def\<close>)
  then show ?thesis using assms(1-3) n by (intro exI [of _ extra]) (simp add: record_failure_def Let_def)
qed

text \<open>
  The retry delay doubles and stays within its limit: after any series of failures of a peer the attempt counter is
  their number; a failed authentication or a changed identity switches automatic retries off, and any other failure plans
  the next attempt at a delay of the base times two to the number of earlier failures (with a capped exponent), never more
  than the maximum, plus a jitter that is neither negative nor above its own bound. A reset forgets the series.
\<close>

theorem retry_backoff:
  assumes "0 \<le> b" "0 \<le> m" "0 \<le> x" "x < 1024" "jitter_within j jitter"
    and "r = foldl (rt_step jitter b m x) retry_new (fs @ [(f, t)])"
  shows "rt_attempt r = length fs + 1 \<and> rt_last r = Some f \<and> retry_reset r = retry_new
    \<and> (if f \<in> {PF_AUTHENTICATION_FAILED, PF_IDENTITY_CHANGED} then \<not> rt_automatic r \<and> rt_next r = None
       else rt_automatic r \<and> (\<exists>delay extra. rt_next r = Some (t + delay + extra) \<and> delay = min m (b * 2 ^ min (length fs) (nat x))
              \<and> 0 \<le> delay \<and> delay \<le> m \<and> 0 \<le> extra \<and> extra \<le> j))"
proof -
  have step: "rt_attempt (rt_step jitter b m x q ft) = Suc (rt_attempt q)" for q ft
    using record_failure_ok [OF assms(1-5), of q "fst ft" "snd ft"] by (auto simp: rt_step_def)
  have count: "rt_attempt (foldl (rt_step jitter b m x) q fs) = rt_attempt q + length fs" for q
    by (induction fs arbitrary: q) (simp_all add: step)
  let ?q = "foldl (rt_step jitter b m x) retry_new fs"
  have n: "rt_attempt ?q = length fs" using count [of retry_new] by (simp add: retry_new_def)
  have d: "0 \<le> min m (b * 2 ^ k)" for k using assms(1,2) by simp
  obtain extra where "0 \<le> extra" "extra \<le> j" and r: "r = ?q\<lparr>rt_last := Some f, rt_attempt := Suc (length fs),
       rt_next := (if f \<in> {PF_AUTHENTICATION_FAILED, PF_IDENTITY_CHANGED} then None
                   else Some (t + min m (b * 2 ^ min (length fs) (nat x)) + extra)),
       rt_automatic := (f \<notin> {PF_AUTHENTICATION_FAILED, PF_IDENTITY_CHANGED})\<rparr>"
    using record_failure_ok [OF assms(1-5), of ?q f t] by (auto simp: assms(6) rt_step_def n)
  then show ?thesis using d [of "min (length fs) (nat x)"] by (auto simp: retry_reset_def retry_new_def)
qed

lemma retry_backoff_witness:
  "rt_next (foldl (rt_step None 1 300 8) retry_new [(PF_TIMEOUT, 0), (PF_TIMEOUT, 5), (PF_ROUTE_FAILURE, 10)]) = Some 14"
proof -
  have "jitter_within 0 None" by (simp add: jitter_within_def)
  from retry_backoff [of 1 300 8 0 None, OF _ _ _ _ this refl, of "[(PF_TIMEOUT, 0), (PF_TIMEOUT, 5)]" PF_ROUTE_FAILURE 10]
  show ?thesis by (auto simp: numeral_eq_Suc)
qed

section \<open>Revocation in the registry\<close>

datatype ng_op =
    NgObserve node_id "node_capability set" | NgPromote node_id "node_capability set" | NgRevoke node_id
  | NgConnection node_id connection_state | NgJoin node_id cluster_role node_id
  | NgHydrateMembership node_id cluster_role node_id | NgHydrateTrust node_id

fun ng_step :: "node_registry \<Rightarrow> ng_op \<Rightarrow> node_registry" where
  "ng_step g (NgObserve n caps) = fst (ng_observe g n caps)"
| "ng_step g (NgPromote n caps) = fst (ng_promote g n caps)"
| "ng_step g (NgRevoke n) = fst (ng_revoke g n)"
| "ng_step g (NgConnection n st) = fst (ng_set_connection g n st)"
| "ng_step g (NgJoin n role c) = fst (ng_join g n role c)"
| "ng_step g (NgHydrateMembership n role c) = fst (ng_hydrate_membership g n role c)"
| "ng_step g (NgHydrateTrust n) = fst (ng_hydrate_trust g n)"

lemmas ng_defs = ng_observe_def ng_promote_def ng_revoke_def ng_set_connection_def ng_join_def ng_hydrate_membership_def
  ng_hydrate_trust_def ng_require_def ng_put_def ng_record_def

definition revoked_in :: "node_id \<Rightarrow> node_registry \<Rightarrow> bool" where
  "revoked_in n g \<longleftrightarrow> (case ng_record g n of None \<Rightarrow> False | Some r \<Rightarrow> nr_trust r = TS_REVOKED)"

lemma ng_step_revoked: "revoked_in n g \<Longrightarrow> x \<noteq> NgHydrateTrust n \<Longrightarrow> revoked_in n (ng_step g x)"
  by (cases x) (auto simp: revoked_in_def ng_defs split: option.splits)

interpretation revoked_runs: transition_system "\<lambda>g x. if x = NgHydrateTrust n then g else ng_step g x" "revoked_in n"
  by unfold_locales (auto intro: ng_step_revoked)

definition ng_inv :: "node_registry \<Rightarrow> bool" where
  "ng_inv g \<longleftrightarrow> keys_distinct (ng_records g) \<and> (\<forall>(k, r) \<in> set (ng_records g). nr_id r = k) \<and> ng_record g (ng_local g) \<noteq> None"

lemma ng_put_inv: "ng_inv g \<Longrightarrow> nr_id r = n \<Longrightarrow> ng_inv (fst (ng_put g n r))"
  by (auto simp: ng_inv_def ng_put_def ng_record_def dict_set_in_set)

lemma ng_inv_id: "ng_inv g \<Longrightarrow> ng_record g n = Some r \<Longrightarrow> nr_id r = n"
  by (auto simp: ng_inv_def ng_record_def dest!: map_of_SomeD)

interpretation registry_runs: transition_system ng_step ng_inv
proof unfold_locales
  fix g x assume i: "ng_inv g"
  show "ng_inv (ng_step g x)"
    by (cases x)
      (auto simp: ng_observe_def ng_promote_def ng_revoke_def ng_set_connection_def ng_join_def ng_hydrate_membership_def
        ng_hydrate_trust_def ng_require_def mk_node_record_def i ng_inv_id [OF i] intro!: ng_put_inv [OF i] split: option.splits)
qed

text \<open>
  A revoked node stays revoked in the registry: from a new registry, after a revocation and whatever operations follow
  other than the re-established trust of that very node, its record says revoked, it can be neither promoted nor joined to
  the cluster, and the attempts change nothing; every record stays filed under its own identifier.
\<close>

theorem registry_revocation_stays:
  assumes "g = foldl ng_step (registry_for local enabled) before" "ng_record g n \<noteq> None"
    and "NgHydrateTrust n \<notin> set after" "g' = foldl ng_step (fst (ng_revoke g n)) after"
  shows "\<exists>r. ng_record g' n = Some r \<and> nr_id r = n \<and> nr_trust r = TS_REVOKED
    \<and> ng_promote g' n caps = (g', raise PermissionError ''revoked node requires a fresh pairing'')
    \<and> ng_join g' n role c = (g', raise PermissionError ''untrusted node cannot join the cluster'')"
proof -
  have eq: "foldl ng_step q after = foldl (\<lambda>g x. if x = NgHydrateTrust n then g else ng_step g x) q after" for q
    using assms(3) by (induction after arbitrary: q) auto
  have "revoked_in n (fst (ng_revoke g n))" using assms(2) by (auto simp: revoked_in_def ng_defs)
  then have "revoked_in n g'" unfolding assms(4) eq by (rule revoked_runs.run_inv)
  then obtain r where r: "ng_record g' n = Some r" "nr_trust r = TS_REVOKED" by (auto simp: revoked_in_def split: option.splits)
  have "ng_inv (registry_for local enabled)" by (simp add: ng_inv_def registry_for_def ng_record_def mk_node_record_def)
  then have "ng_inv g" unfolding assms(1) by (rule registry_runs.run_inv)
  then have "ng_inv (ng_step g (NgRevoke n))" by (rule registry_runs.step_inv)
  then have "ng_inv g'" unfolding assms(4) by (intro registry_runs.run_inv) simp
  from ng_inv_id [OF this r(1)] r show ?thesis by (simp add: ng_promote_def ng_join_def ng_require_def)
qed

lemma registry_revocation_stays_witness:
  "let g = foldl ng_step (registry_for (NodeId ''me'') True) [NgObserve (NodeId ''p'') {}, NgPromote (NodeId ''p'') {}];
       g' = foldl ng_step (fst (ng_revoke g (NodeId ''p''))) [NgObserve (NodeId ''p'') {CAP_READ_STATE}]
   in snd (ng_promote g' (NodeId ''p'') {}) = raise PermissionError ''revoked node requires a fresh pairing''"
proof -
  let ?g = "foldl ng_step (registry_for (NodeId ''me'') True) [NgObserve (NodeId ''p'') {}, NgPromote (NodeId ''p'') {}]"
  have "ng_record ?g (NodeId ''p'') \<noteq> None" by (simp add: registry_for_def ng_defs mk_node_record_def)
  from registry_revocation_stays [OF refl this _ refl, of "[NgObserve (NodeId ''p'') {CAP_READ_STATE}]" "{}" WORKER "NodeId ''me''"]
  show ?thesis unfolding Let_def by auto
qed

end
