(* ===== verification/Connections.thy ===== *)
theory Connections
  imports Discovery Nodes Pairing Wire
begin

text \<open>
  \<open>connections/manager.py\<close>: \<open>ConnectionManager\<close>, which opens the outgoing connection to a trusted peer over the best
  route and projects its state into the node registry. Pairing manager, registry and candidates are the objects it
  shares with the runtime. What the network does on a route is an argument, \<open>route_attempt\<close>: the outcome of building the
  pinned TLS transport, the answer of the peer's \<open>hello\<close> and the time the attempt ends. \<open>persist\<close> is the callback that
  stores the trust. The observer and the route callback only see events and are left out.
\<close>

section \<open>State\<close>

record provider =
  pv_node :: node_id
  pv_caller :: node_id
  pv_secret :: string
  pv_address :: string
  pv_port :: int
  pv_fingerprint :: string

record connection_manager =
  cm_local :: node_id
  cm_pairing :: pairing_manager
  cm_registry :: node_registry
  cm_candidates :: "(string, candidate) dict"
  cm_providers :: "(node_id, provider) dict"
  cm_generations :: "(node_id, nat) dict"
  cm_resume :: "node_id set"

record route_attempt =
  at_dial :: "unit res"
  at_hello :: "pyval res"
  at_time :: rat

type_synonym trust_store = "pairing_manager \<Rightarrow> bool res"

definition connection_generation :: "connection_manager \<Rightarrow> node_id \<Rightarrow> nat" where
  "connection_generation m peer = (case map_of (cm_generations m) peer of None \<Rightarrow> 0 | Some g \<Rightarrow> g)"

definition is_current_generation :: "connection_manager \<Rightarrow> node_id \<Rightarrow> nat \<Rightarrow> bool" where
  "is_current_generation m peer g \<longleftrightarrow> map_of (cm_generations m) peer = Some g"

definition cm_set_state :: "connection_manager \<Rightarrow> node_id \<Rightarrow> connection_state \<Rightarrow> connection_manager" where
  "cm_set_state m peer st =
     (if ng_record (cm_registry m) peer = None then m
      else m\<lparr>cm_registry := fst (ng_set_connection (cm_registry m) peer st)\<rparr>)"

definition cm_observe :: "connection_manager \<Rightarrow> node_id \<Rightarrow> node_capability set \<Rightarrow> connection_manager" where
  "cm_observe m peer caps = m\<lparr>cm_registry := fst (ng_observe (cm_registry m) peer caps)\<rparr>"

definition mark_route :: "(endpoint \<Rightarrow> endpoint) \<Rightarrow> connection_manager \<Rightarrow> node_id \<Rightarrow> endpoint \<Rightarrow> connection_manager" where
  "mark_route f m peer e =
     (case map_of (cm_candidates m) (nid_value peer) of
        None \<Rightarrow> m
      | Some c \<Rightarrow> m\<lparr>cm_candidates := dict_set (nid_value peer)
          (c\<lparr>dc_endpoints := map (\<lambda>x. if endpoint_key x = endpoint_key e then f x else x) (dc_endpoints c)\<rparr>) (cm_candidates m)\<rparr>)"

definition mark_success :: "connection_manager \<Rightarrow> node_id \<Rightarrow> endpoint \<Rightarrow> rat \<Rightarrow> connection_manager" where
  "mark_success m peer e now = mark_route (\<lambda>x. x\<lparr>ec_success := Some now\<rparr>) m peer e"

definition mark_failure :: "connection_manager \<Rightarrow> node_id \<Rightarrow> endpoint \<Rightarrow> rat \<Rightarrow> connection_manager" where
  "mark_failure m peer e now = mark_route (\<lambda>x. x\<lparr>ec_failure := Some now\<rparr>) m peer e"

section \<open>Continuity of the peer's transport\<close>

definition candidate_allowed :: "sig_check \<Rightarrow> trusted_peer \<Rightarrow> candidate \<Rightarrow> bool" where
  "candidate_allowed sig_ok t c =
     candidate_transport_generation_allowed sig_ok (tp_peer t) (tp_binding t) (dc_transport c) (dc_generation c) (dc_proof c)"

definition text_matches :: "string option \<Rightarrow> pyval \<Rightarrow> bool" where
  "text_matches expected v = (case expected of None \<Rightarrow> True | Some s \<Rightarrow> v = PStr s)"

definition validate_hello_generation :: "sig_check \<Rightarrow> trusted_peer \<Rightarrow> candidate \<Rightarrow> pyval \<Rightarrow> unit res" where
  "validate_hello_generation sig_ok t c hello =
     (if \<not> is_dict hello then raise AttributeError ''get''
      else if list_all (\<lambda>k. fget hello k = PNone)
                [''transport_fingerprint'', ''root_public_key'', ''transport_generation'', ''transport_proof'']
      then (if dc_transport c = bd_transport (tp_binding t) then Inr ()
            else raise RemoteAuthError ''replacement transport has no continuity proof'')
      else if \<not> text_matches (dc_transport c) (fget hello ''transport_fingerprint'')
           \<or> \<not> text_matches (dc_root c) (fget hello ''root_public_key'')
           \<or> (case dc_generation c of None \<Rightarrow> False | Some g \<Rightarrow> \<not> equals_int (fget hello ''transport_generation'') g)
           \<or> \<not> text_matches (dc_proof c) (fget hello ''transport_proof'')
      then raise RemoteAuthError ''hello transport continuity does not match route''
      else if dc_transport c = bd_transport (tp_binding t) then Inr ()
      else if \<not> candidate_allowed sig_ok t c then raise RemoteAuthError ''transport continuity proof is invalid''
      else Inr ())"

definition record_generation ::
  "trust_store option \<Rightarrow> connection_manager \<Rightarrow> node_id \<Rightarrow> trusted_peer \<Rightarrow> candidate \<Rightarrow> connection_manager \<times> unit res" where
  "record_generation persist m peer t c =
     (if dc_transport c = bd_transport (tp_binding t) then (m, Inr ())
      else
        let updated = t\<lparr>tp_binding := (tp_binding t)\<lparr>bd_transport := dc_transport c, bd_root := dc_root c,
                          bd_generation := dc_generation c, bd_proof := dc_proof c\<rparr>\<rparr>;
            put = (\<lambda>p m. m\<lparr>cm_pairing := (cm_pairing m)\<lparr>pm_trusted := dict_set peer p (pm_trusted (cm_pairing m))\<rparr>\<rparr>);
            m1 = put updated m
        in case persist of
             None \<Rightarrow> (m1, Inr ())
           | Some store \<Rightarrow>
               (case store (cm_pairing m1) of
                  Inr True \<Rightarrow> (m1, Inr ())
                | Inr False \<Rightarrow> (put t m1, raise RemoteAuthError ''transport generation was not durably persisted'')
                | Inl e \<Rightarrow> if isa e Exception then (put t m1, raise RemoteAuthError ''transport generation was not durably persisted'')
                     else (m1, Inl e)))"

section \<open>Connecting\<close>

text \<open>The body of the second \<open>try\<close>: hello, continuity, capabilities, the new generation, the end of a broken pairing.\<close>

definition authenticate_route ::
  "sig_check \<Rightarrow> trust_store option \<Rightarrow> connection_manager \<Rightarrow> node_id \<Rightarrow> trusted_peer \<Rightarrow> candidate \<Rightarrow> route_attempt
   \<Rightarrow> connection_manager \<times> node_capability set res" where
  "authenticate_route sig_ok persist m peer t c w =
     sbind (m, at_hello w) (\<lambda>m hello.
     sbind (m, validate_hello_generation sig_ok t c hello) (\<lambda>m _.
     sbind (m, parse_hello_capabilities hello) (\<lambda>m caps.
     sbind (record_generation persist m peer t c) (\<lambda>m _.
       (m\<lparr>cm_pairing := pm_mark_auth_ok (cm_pairing m) peer\<rparr>, Inr caps)))))"

definition route_error :: "exn \<Rightarrow> bool" where
  "route_error e \<longleftrightarrow> isa e OSError \<or> isa e ConnectionError \<or> isa e RemoteExecutionError \<or> isa e RemoteTransportError"

definition auth_failed :: "connection_manager \<Rightarrow> node_id \<Rightarrow> exn \<Rightarrow> rat \<Rightarrow> connection_manager" where
  "auth_failed m peer e now =
     cm_set_state (if isa e RemoteAuthError then m\<lparr>cm_pairing := pm_mark_auth_failure (cm_pairing m) peer\<rparr> else m) peer
       (cs_make CS_AUTHENTICATION_FAILED (Some (exn_msg e)) (Some now))"

definition install_provider ::
  "connection_manager \<Rightarrow> node_id \<Rightarrow> trusted_peer \<Rightarrow> candidate \<Rightarrow> endpoint \<Rightarrow> node_capability set \<Rightarrow> rat
   \<Rightarrow> connection_manager \<times> provider res" where
  "install_provider m peer t c e caps now =
     (let m1 = cm_observe m peer caps;
          p = \<lparr>pv_node = peer, pv_caller = cm_local m, pv_secret = tp_secret t, pv_address = ec_address e, pv_port = ec_port e,
               pv_fingerprint = or_empty (dc_transport c)\<rparr>
      in case ng_promote (cm_registry m1) peer caps of
           (g, Inl x) \<Rightarrow> (m1\<lparr>cm_registry := g\<rparr>, Inl x)
         | (g, Inr _) \<Rightarrow>
             (mark_success (cm_set_state (m1\<lparr>cm_registry := g, cm_providers := dict_set peer p (cm_providers m1)\<rparr>) peer
                (cs_online (Some now))) peer e now, Inr p))"

fun try_routes ::
  "sig_check \<Rightarrow> trust_store option \<Rightarrow> (endpoint \<Rightarrow> route_attempt) \<Rightarrow> node_id \<Rightarrow> trusted_peer \<Rightarrow> candidate \<Rightarrow> rat
   \<Rightarrow> connection_manager \<Rightarrow> exn option \<Rightarrow> endpoint list \<Rightarrow> connection_manager \<times> provider res" where
  "try_routes sig_ok persist world peer t c late m err [] =
     (cm_set_state (m\<lparr>cm_providers := dict_pop peer (cm_providers m)\<rparr>) peer
        (cs_offline (Some (case err of Some e \<Rightarrow> exn_msg e | None \<Rightarrow> ''all endpoint routes failed'')) (Some late)),
      case err of Some e \<Rightarrow> Inl e | None \<Rightarrow> raise ConnectionError ''all endpoint routes failed'')"
| "try_routes sig_ok persist world peer t c late m err (e # es) =
     (case at_dial (world e) of
        Inl x \<Rightarrow>
          if route_error x \<or> isa x TypeError \<or> isa x ValueError
          then try_routes sig_ok persist world peer t c late (mark_failure m peer e (at_time (world e))) (Some x) es
          else (m, Inl x)
      | Inr _ \<Rightarrow>
          (case authenticate_route sig_ok persist m peer t c (world e) of
             (m1, Inr caps) \<Rightarrow> install_provider m1 peer t c e caps (at_time (world e))
           | (m1, Inl x) \<Rightarrow>
               if isa x RemoteProtocolError then (auth_failed m1 peer x (at_time (world e)), Inl x)
               else if route_error x
               then try_routes sig_ok persist world peer t c late (mark_failure m1 peer e (at_time (world e))) (Some x) es
               else (m1, Inl x)))"

definition identity_changed :: "connection_manager \<Rightarrow> node_id \<Rightarrow> string \<Rightarrow> rat \<Rightarrow> connection_manager" where
  "identity_changed m peer reason now =
     cm_set_state (cm_observe m peer {}) peer (cs_make CS_IDENTITY_CHANGED (Some reason) (Some now))"

definition begin_attempt :: "connection_manager \<Rightarrow> node_id \<Rightarrow> rat \<Rightarrow> connection_manager" where
  "begin_attempt m peer now =
     cm_set_state
       (cm_observe (m\<lparr>cm_generations := dict_set peer (connection_generation m peer + 1) (cm_generations m),
                      cm_resume := cm_resume m - {peer}\<rparr>) peer {})
       peer (cs_make (if peer \<in> cm_resume m then CS_RESUMING else CS_CONNECTING) None (Some now))"

definition connect ::
  "sig_check \<Rightarrow> trust_store option \<Rightarrow> (endpoint \<Rightarrow> route_attempt) \<Rightarrow> connection_manager \<Rightarrow> node_id \<Rightarrow> rat \<Rightarrow> rat
   \<Rightarrow> connection_manager \<times> provider res" where
  "connect sig_ok persist world m peer now late =
     (case map_of (cm_providers m) peer of
        Some p \<Rightarrow> (m, Inr p)
      | None \<Rightarrow>
          (case (map_of (pm_trusted (cm_pairing m)) peer, map_of (cm_candidates m) (nid_value peer)) of
             (Some t, Some c) \<Rightarrow>
               if \<not> dc_compatible c then (m, raise PermissionError ''peer must be discovered and trusted first'')
               else if \<not> dc_connectable c then (m, raise ConnectionError ''peer is not connectable'')
               else if dc_stable_id c \<noteq> nid_value peer
               then (identity_changed m peer ''discovered peer identity does not match route'' now,
                     raise RemoteAuthError ''discovered peer identity does not match route'')
               else if usable_endpoints (dc_endpoints c) = [] then (m, raise ConnectionError ''peer has no connectable endpoint'')
               else if \<not> candidate_allowed sig_ok t c
               then (identity_changed m peer ''peer transport fingerprint changed'' now,
                     raise RemoteAuthError ''peer transport fingerprint changed'')
               else if \<not> truthy (dc_transport c) then (m, raise RemoteAuthError ''peer has no transport fingerprint'')
               else try_routes sig_ok persist world peer t c late (begin_attempt m peer now) None
                      (sort_key endpoint_rank (usable_endpoints (dc_endpoints c)))
           | _ \<Rightarrow> (m, raise PermissionError ''peer must be discovered and trusted first'')))"

definition reconnect ::
  "sig_check \<Rightarrow> trust_store option \<Rightarrow> (endpoint \<Rightarrow> route_attempt) \<Rightarrow> connection_manager \<Rightarrow> node_id \<Rightarrow> rat \<Rightarrow> rat
   \<Rightarrow> connection_manager \<times> provider res" where
  "reconnect sig_ok persist world m peer now late =
     connect sig_ok persist world
       (cm_set_state (m\<lparr>cm_providers := dict_pop peer (cm_providers m), cm_resume := insert peer (cm_resume m)\<rparr>) peer
          (cs_make CS_RESUMING None (Some now)))
       peer now late"

definition disconnect :: "connection_manager \<Rightarrow> node_id \<Rightarrow> string \<Rightarrow> rat \<Rightarrow> connection_manager" where
  "disconnect m peer reason now =
     cm_set_state (m\<lparr>cm_generations := dict_set peer (connection_generation m peer + 1) (cm_generations m),
                     cm_providers := dict_pop peer (cm_providers m)\<rparr>) peer (cs_offline (Some reason) (Some now))"

definition disconnect_all :: "connection_manager \<Rightarrow> rat \<Rightarrow> connection_manager" where
  "disconnect_all m now = fold (\<lambda>peer m. disconnect m peer ''disconnected'' now) (map fst (cm_providers m)) m"

end
