(* ===== verification/ConnectionLaws.thy ===== *)
theory ConnectionLaws
  imports Connections
begin

text \<open>
  What the connection manager guarantees: a provider only for an authenticated peer on the best working route,
  a connection generation that never returns, and stored trust that moves only along a proven rotation.
\<close>

section \<open>What the helpers leave alone\<close>

named_theorems cm_frame \<open>fields of the connection manager a helper leaves alone\<close>

lemma cm_set_state_frame [cm_frame]:
  "cm_local (cm_set_state m p st) = cm_local m" "cm_pairing (cm_set_state m p st) = cm_pairing m"
  "cm_candidates (cm_set_state m p st) = cm_candidates m" "cm_providers (cm_set_state m p st) = cm_providers m"
  "cm_generations (cm_set_state m p st) = cm_generations m" "cm_resume (cm_set_state m p st) = cm_resume m"
  by (simp_all add: cm_set_state_def)

lemma cm_observe_frame [cm_frame]:
  "cm_local (cm_observe m p st) = cm_local m" "cm_pairing (cm_observe m p st) = cm_pairing m"
  "cm_candidates (cm_observe m p st) = cm_candidates m" "cm_providers (cm_observe m p st) = cm_providers m"
  "cm_generations (cm_observe m p st) = cm_generations m" "cm_resume (cm_observe m p st) = cm_resume m"
  by (simp_all add: cm_observe_def)

lemma mark_route_frame [cm_frame]:
  "cm_local (mark_route f m p e) = cm_local m" "cm_pairing (mark_route f m p e) = cm_pairing m"
  "cm_registry (mark_route f m p e) = cm_registry m" "cm_providers (mark_route f m p e) = cm_providers m"
  "cm_generations (mark_route f m p e) = cm_generations m" "cm_resume (mark_route f m p e) = cm_resume m"
  by (simp_all add: mark_route_def split: option.splits)

lemmas mark_frame [cm_frame] =
  mark_route_frame [where f = "\<lambda>x. x\<lparr>ec_success := Some t\<rparr>" for t, folded mark_success_def]
  mark_route_frame [where f = "\<lambda>x. x\<lparr>ec_failure := Some t\<rparr>" for t, folded mark_failure_def]

lemma record_generation_frame:
  assumes "record_generation persist m p t c = (m', r)"
  shows "cm_local m' = cm_local m \<and> cm_registry m' = cm_registry m \<and> cm_candidates m' = cm_candidates m
    \<and> cm_providers m' = cm_providers m \<and> cm_generations m' = cm_generations m \<and> cm_resume m' = cm_resume m"
  using assms by (auto simp: record_generation_def Let_def split: if_splits option.splits sum.splits bool.splits)

lemma authenticate_route_cases:
  assumes a: "authenticate_route sig_ok persist m p t c w = (m', r)"
  obtains (early) e where "m' = m" "r = Inl e"
      "at_hello w = Inl e \<or> (\<exists>h. at_hello w = Inr h \<and> (validate_hello_generation sig_ok t c h = Inl e \<or> parse_hello_capabilities h = Inl e))"
  | (unstored) e where "record_generation persist m p t c = (m', Inl e)" "r = Inl e"
  | (ok) h m1 caps where "at_hello w = Inr h" "validate_hello_generation sig_ok t c h = Inr ()" "parse_hello_capabilities h = Inr caps"
      "record_generation persist m p t c = (m1, Inr ())" "m' = m1\<lparr>cm_pairing := pm_mark_auth_ok (cm_pairing m1) p\<rparr>" "r = Inr caps"
proof -
  obtain m1 r1 where g: "record_generation persist m p t c = (m1, r1)" by fastforce
  note d = a [unfolded authenticate_route_def]
  show thesis
  proof (cases "at_hello w")
    case (Inl e)
    then show thesis using d early [of e] by simp
  next
    case h: (Inr h)
    show thesis
    proof (cases "validate_hello_generation sig_ok t c h")
      case (Inl e)
      then show thesis using d h early [of e] by simp
    next
      case v: (Inr u)
      show thesis
      proof (cases "parse_hello_capabilities h")
        case (Inl e)
        then show thesis using d h v early [of e] by simp
      next
        case c: (Inr caps)
        show thesis
        proof (cases r1)
          case (Inl e)
          then have "m' = m1" "r = Inl e" using d h v c g by simp_all
          then show thesis using g Inl by (intro unstored [of e]) simp_all
        next
          case (Inr u)
          then have "m' = m1\<lparr>cm_pairing := pm_mark_auth_ok (cm_pairing m1) p\<rparr>" "r = Inr caps" using d h v c g by simp_all
          then show thesis using g h v c Inr by (intro ok [of h caps m1]) simp_all
        qed
      qed
    qed
  qed
qed

lemma authenticate_route_frame:
  assumes "authenticate_route sig_ok persist m p t c w = (m', r)"
  shows "cm_local m' = cm_local m \<and> cm_registry m' = cm_registry m \<and> cm_candidates m' = cm_candidates m
    \<and> cm_providers m' = cm_providers m \<and> cm_generations m' = cm_generations m \<and> cm_resume m' = cm_resume m"
  using assms by (cases rule: authenticate_route_cases) (auto dest: record_generation_frame)

section \<open>The registry record of the peer\<close>

lemma set_state_record:
  "ng_record (cm_registry (cm_set_state m p st)) q =
     (if q = p then map_option (\<lambda>r. r\<lparr>nr_connection := st\<rparr>) (ng_record (cm_registry m) p) else ng_record (cm_registry m) q)"
  by (auto simp: cm_set_state_def ng_set_connection_def ng_require_def ng_put_def ng_record_def split: option.splits)

lemma observe_record:
  "ng_record (cm_registry (cm_observe m p caps)) q =
     (if q = p \<and> p \<noteq> ng_local (cm_registry m)
      then Some ((case ng_record (cm_registry m) p of None \<Rightarrow> mk_node_record p | Some r \<Rightarrow> r)\<lparr>nr_capabilities := caps\<rparr>)
      else ng_record (cm_registry m) q)"
  by (auto simp: cm_observe_def ng_observe_def ng_require_def ng_put_def ng_record_def split: option.splits)

lemma ng_local_frame [cm_frame]:
  "ng_local (cm_registry (cm_set_state m p st)) = ng_local (cm_registry m)"
  "ng_local (cm_registry (cm_observe m p caps)) = ng_local (cm_registry m)"
  by (simp_all add: cm_set_state_def cm_observe_def ng_set_connection_def ng_observe_def ng_require_def ng_put_def split: option.splits)

definition peer_revoked :: "connection_manager \<Rightarrow> node_id \<Rightarrow> bool" where
  "peer_revoked m p \<longleftrightarrow> (case ng_record (cm_registry m) p of None \<Rightarrow> False | Some r \<Rightarrow> nr_trust r = TS_REVOKED)"

lemma revoked_frame:
  "peer_revoked (cm_set_state m p st) q \<longleftrightarrow> peer_revoked m q" "peer_revoked (cm_observe m p caps) q \<longleftrightarrow> peer_revoked m q"
  by (simp_all add: peer_revoked_def set_state_record observe_record mk_node_record_def split: option.split)

lemma revoked_cong: "cm_registry m = cm_registry m' \<Longrightarrow> peer_revoked m q \<longleftrightarrow> peer_revoked m' q"
  by (simp add: peer_revoked_def)

lemma revoked_begin: "peer_revoked (begin_attempt m p t) q \<longleftrightarrow> peer_revoked m q"
  unfolding begin_attempt_def revoked_frame by (rule revoked_cong) simp

section \<open>Routes\<close>

definition route_fails :: "route_attempt \<Rightarrow> bool" where
  "route_fails w \<longleftrightarrow>
     (case at_dial w of
        Inl x \<Rightarrow> route_error x \<or> isa x TypeError \<or> isa x ValueError
      | Inr _ \<Rightarrow> (case at_hello w of Inl x \<Rightarrow> route_error x | Inr _ \<Rightarrow> False))"

lemma route_error_not_protocol: "route_error x \<Longrightarrow> \<not> isa x RemoteProtocolError \<and> isa x Exception"
  by (cases x; cases "exn_cls x") (auto simp: route_error_def)

lemma validate_hello_errors: "validate_hello_generation sig_ok t c h = Inl e \<Longrightarrow> exn_cls e \<in> {RemoteAuthError, AttributeError}"
  unfolding validate_hello_generation_def by (simp split: if_splits)

lemma hello_capabilities_errors: "hello_capabilities xs acc = Inl e \<Longrightarrow> exn_cls e = RemoteProtocolError"
  by (induction xs acc rule: hello_capabilities.induct) (auto split: sum.splits if_splits)

lemma parse_hello_errors: "parse_hello_capabilities h = Inl e \<Longrightarrow> exn_cls e = RemoteProtocolError"
  by (auto simp: parse_hello_capabilities_def Let_def hello_capabilities_errors split: if_splits)

lemma record_generation_errors:
  "record_generation persist m p t c = (m', Inl e) \<Longrightarrow> exn_cls e = RemoteAuthError \<or> \<not> isa e Exception"
  by (auto simp: record_generation_def Let_def split: if_splits option.splits sum.splits bool.splits)

lemma route_error_classes: "route_error e \<Longrightarrow> exn_cls e \<notin> {RemoteAuthError, AttributeError, RemoteProtocolError}"
  by (cases e) (auto simp: route_error_def)

lemma authenticate_route_error:
  assumes "authenticate_route sig_ok persist m p t c w = (m', Inl x)" "route_error x"
  shows "at_hello w = Inl x \<and> m' = m"
  using assms(1)
proof (cases rule: authenticate_route_cases)
  case (early e)
  then show ?thesis using route_error_classes [OF assms(2)]
    by (auto dest: validate_hello_errors parse_hello_errors)
next
  case (unstored e)
  then show ?thesis using route_error_classes [OF assms(2)] route_error_not_protocol [OF assms(2)]
    by (auto dest: record_generation_errors)
qed simp

text \<open>A successful run of the loop: the routes before the chosen one failed, and the chosen one authenticated.\<close>

definition after_failures :: "(endpoint \<Rightarrow> route_attempt) \<Rightarrow> node_id \<Rightarrow> endpoint list \<Rightarrow> connection_manager \<Rightarrow> connection_manager" where
  "after_failures world p es m = foldl (\<lambda>m e. mark_failure m p e (at_time (world e))) m es"

lemma after_failures_frame [cm_frame]:
  "cm_local (after_failures w p es m) = cm_local m" "cm_pairing (after_failures w p es m) = cm_pairing m"
  "cm_registry (after_failures w p es m) = cm_registry m" "cm_providers (after_failures w p es m) = cm_providers m"
  "cm_generations (after_failures w p es m) = cm_generations m" "cm_resume (after_failures w p es m) = cm_resume m"
  unfolding after_failures_def by (induction es arbitrary: m) (simp_all add: cm_frame)

lemma try_routes_skip:
  assumes "\<forall>e \<in> set pre. route_fails (world e)"
  shows "\<exists>err'. try_routes sig_ok persist world p t c late m err (pre @ es)
    = try_routes sig_ok persist world p t c late (after_failures world p pre m) err' es"
  using assms
proof (induction pre arbitrary: m err)
  case (Cons e pre)
  have "\<exists>x. try_routes sig_ok persist world p t c late m err (e # (pre @ es))
      = try_routes sig_ok persist world p t c late (mark_failure m p e (at_time (world e))) (Some x) (pre @ es)"
  proof (cases "at_dial (world e)")
    case (Inr u)
    then obtain x where "at_hello (world e) = Inl x" "route_error x"
      using Cons.prems by (auto simp: route_fails_def split: sum.splits)
    then show ?thesis using Inr route_error_not_protocol [of x] by (auto simp: authenticate_route_def)
  qed (use Cons.prems in \<open>auto simp: route_fails_def\<close>)
  with Cons show ?case by (auto simp: after_failures_def)
qed (auto simp: after_failures_def)

lemma try_routes_ok:
  assumes "try_routes sig_ok persist world p t c late m err es = (m', Inr v)"
  shows "\<exists>pre e post m1 caps. es = pre @ e # post \<and> (\<forall>x \<in> set pre. route_fails (world x)) \<and> at_dial (world e) = Inr ()
    \<and> authenticate_route sig_ok persist (after_failures world p pre m) p t c (world e) = (m1, Inr caps)
    \<and> install_provider m1 p t c e caps (at_time (world e)) = (m', Inr v)"
  using assms
proof (induction es arbitrary: m err)
  case (Cons e es)
  have rec: ?case if f: "route_fails (world e)"
    and r: "try_routes sig_ok persist world p t c late (mark_failure m p e (at_time (world e))) (Some x) es = (m', Inr v)" for x
  proof -
    from Cons.IH [OF r] obtain pre e' post m1 caps where
      q: "es = pre @ e' # post" "\<forall>x \<in> set pre. route_fails (world x)" "at_dial (world e') = Inr ()"
        "authenticate_route sig_ok persist (after_failures world p pre (mark_failure m p e (at_time (world e)))) p t c (world e') = (m1, Inr caps)"
        "install_provider m1 p t c e' caps (at_time (world e')) = (m', Inr v)" by blast
    show ?thesis by (rule exI [of _ "e # pre"]) (use q f in \<open>auto simp: after_failures_def\<close>)
  qed
  show ?case
  proof (cases "at_dial (world e)")
    case (Inl x)
    then show ?thesis using Cons.prems rec [of x] by (auto simp: route_fails_def split: if_splits)
  next
    case (Inr u)
    obtain m1 r where a: "authenticate_route sig_ok persist m p t c (world e) = (m1, r)" by fastforce
    show ?thesis
    proof (cases r)
      case (Inl x)
      then have x: "route_error x" using Cons.prems Inr a by (auto split: if_splits)
      then have h: "at_hello (world e) = Inl x" "m1 = m" using authenticate_route_error a Inl by blast+
      then show ?thesis using Cons.prems Inr a Inl x rec [of x] by (auto simp: route_fails_def split: if_splits)
    next
      case (Inr caps)
      then show ?thesis using Cons.prems \<open>at_dial (world e) = Inr u\<close> a
        by (intro exI [of _ "[]"]) (auto simp: after_failures_def)
    qed
  qed
qed (simp split: option.splits)

lemma case_raise [simp]: "(case raise c m of Inl e \<Rightarrow> f e | Inr x \<Rightarrow> g x) = f (Exn c m)"
  by (simp add: raise_def)

lemma install_provider_ok:
  assumes "install_provider m p t c e caps now = (m', Inr v)"
  shows "v = \<lparr>pv_node = p, pv_caller = cm_local m, pv_secret = tp_secret t, pv_address = ec_address e, pv_port = ec_port e,
              pv_fingerprint = or_empty (dc_transport c)\<rparr>"
    and "map_of (cm_providers m') p = Some v" "\<not> peer_revoked m p"
    and "\<exists>r. ng_record (cm_registry m') p = Some r \<and> nr_trust r = TS_AUTHORIZED
           \<and> cs_status (nr_connection r) = CS_ONLINE \<and> nr_capabilities r = caps"
proof -
  let ?m1 = "cm_observe m p caps"
  obtain r where r: "ng_record (cm_registry ?m1) p = Some r" "nr_trust r \<noteq> TS_REVOKED"
      "ng_promote (cm_registry ?m1) p caps
        = ng_put (cm_registry ?m1) p (r\<lparr>nr_trust := TS_AUTHORIZED, nr_capabilities := caps\<rparr>)"
    using assms by (cases "ng_record (cm_registry ?m1) p")
      (auto simp: install_provider_def ng_promote_def ng_require_def Let_def split: if_splits)
  let ?g = "(cm_registry ?m1)\<lparr>ng_records := dict_set p (r\<lparr>nr_trust := TS_AUTHORIZED, nr_capabilities := caps\<rparr>) (ng_records (cm_registry ?m1))\<rparr>"
  have m': "m' = mark_success (cm_set_state (?m1\<lparr>cm_registry := ?g, cm_providers := dict_set p v (cm_providers ?m1)\<rparr>) p
                (cs_online (Some now))) p e now"
    and v: "v = \<lparr>pv_node = p, pv_caller = cm_local m, pv_secret = tp_secret t, pv_address = ec_address e, pv_port = ec_port e,
              pv_fingerprint = or_empty (dc_transport c)\<rparr>"
    using assms r(3) by (auto simp: install_provider_def ng_put_def Let_def)
  show "v = \<lparr>pv_node = p, pv_caller = cm_local m, pv_secret = tp_secret t, pv_address = ec_address e, pv_port = ec_port e,
              pv_fingerprint = or_empty (dc_transport c)\<rparr>" by (rule v)
  show "map_of (cm_providers m') p = Some v" by (simp add: m' cm_frame)
  have "peer_revoked m p \<longleftrightarrow> peer_revoked ?m1 p" by (simp add: revoked_frame)
  then show "\<not> peer_revoked m p" using r by (simp add: peer_revoked_def)
  show "\<exists>r. ng_record (cm_registry m') p = Some r \<and> nr_trust r = TS_AUTHORIZED
           \<and> cs_status (nr_connection r) = CS_ONLINE \<and> nr_capabilities r = caps"
    by (simp add: m' cm_frame set_state_record) (simp add: ng_record_def cs_online_def cs_make_def)
qed

lemma install_provider_frame:
  "cm_pairing (fst (install_provider m p t c e caps now)) = cm_pairing m
   \<and> cm_generations (fst (install_provider m p t c e caps now)) = cm_generations m"
  by (simp add: install_provider_def Let_def cm_frame split: prod.split sum.split)

section \<open>What an attempt may do to trust and generations\<close>

definition rotated :: "trusted_peer \<Rightarrow> candidate \<Rightarrow> trusted_peer" where
  "rotated t c = t\<lparr>tp_binding := (tp_binding t)\<lparr>bd_transport := dc_transport c, bd_root := dc_root c,
     bd_generation := dc_generation c, bd_proof := dc_proof c\<rparr>\<rparr>"

definition store_consents :: "trust_store option \<Rightarrow> bool" where
  \<comment> \<open>it accepts some document, or is cut short by an exception outside \<open>Exception\<close>\<close>
  "store_consents persist \<longleftrightarrow>
     (case persist of None \<Rightarrow> True | Some s \<Rightarrow> \<exists>q. s q = Inr True \<or> (\<exists>e. s q = Inl e \<and> \<not> isa e Exception))"

definition attempt_rel ::
  "trust_store option \<Rightarrow> node_id \<Rightarrow> trusted_peer \<Rightarrow> candidate \<Rightarrow> pairing_manager \<Rightarrow> pairing_manager \<Rightarrow> bool" where
  "attempt_rel persist p t c pm pm' \<longleftrightarrow>
     pm_pending pm' = pm_pending pm \<and> pm_grants pm' = pm_grants pm
     \<and> (\<forall>q. q \<noteq> p \<longrightarrow> map_of (pm_trusted pm') q = map_of (pm_trusted pm) q)
     \<and> (map_of (pm_trusted pm') p = map_of (pm_trusted pm) p
        \<or> dc_transport c \<noteq> bd_transport (tp_binding t) \<and> store_consents persist \<and> map_of (pm_trusted pm') p = Some (rotated t c))"

lemma attempt_rel_refl [simp]: "attempt_rel persist p t c pm pm"
  by (simp add: attempt_rel_def)

lemma attempt_rel_mark [simp]:
  "attempt_rel persist p t c pm (pm_mark_auth_ok pm' q) \<longleftrightarrow> attempt_rel persist p t c pm pm'"
  "attempt_rel persist p t c pm (pm_mark_auth_failure pm' q) \<longleftrightarrow> attempt_rel persist p t c pm pm'"
  by (simp_all add: attempt_rel_def pm_mark_auth_ok_def pm_mark_auth_failure_def)

lemma record_generation_rel:
  assumes "record_generation persist m p t c = (m', r)" "map_of (pm_trusted (cm_pairing m)) p = Some t"
  shows "attempt_rel persist p t c (cm_pairing m) (cm_pairing m')"
proof (cases "dc_transport c = bd_transport (tp_binding t)")
  case False
  show ?thesis
  proof (cases persist)
    case None
    then show ?thesis using assms False
      by (auto simp: record_generation_def Let_def attempt_rel_def store_consents_def rotated_def)
  next
    case (Some store)
    let ?q = "(cm_pairing m)\<lparr>pm_trusted := dict_set p (rotated t c) (pm_trusted (cm_pairing m))\<rparr>"
    have o: "attempt_rel persist p t c (cm_pairing m) (?q\<lparr>pm_trusted := dict_set p t (pm_trusted ?q)\<rparr>)"
      using assms(2) by (simp add: attempt_rel_def)
    have n: "attempt_rel persist p t c (cm_pairing m) ?q" if "store_consents persist"
      using that False by (simp add: attempt_rel_def)
    let ?o = "?q\<lparr>pm_trusted := dict_set p t (pm_trusted ?q)\<rparr>"
    note d = assms(1) [unfolded record_generation_def Let_def Some option.case, folded rotated_def]
    show ?thesis
    proof (cases "store ?q")
      case (Inl e)
      then have "cm_pairing m' = (if isa e Exception then ?o else ?q)" using d False by (auto split: if_splits)
      then show ?thesis using o n Inl Some by (auto simp: store_consents_def)
    next
      case (Inr b)
      then have "cm_pairing m' = (if b then ?q else ?o)" using d False by (cases b) auto
      then show ?thesis using o n Inr Some by (cases b) (auto simp: store_consents_def)
    qed
  qed
qed (use assms in \<open>simp add: record_generation_def\<close>)

lemma authenticate_route_rel:
  assumes "authenticate_route sig_ok persist m p t c w = (m', r)" "map_of (pm_trusted (cm_pairing m)) p = Some t"
  shows "attempt_rel persist p t c (cm_pairing m) (cm_pairing m')"
  using assms(1)
proof (cases rule: authenticate_route_cases)
  case (unstored e)
  then show ?thesis using record_generation_rel assms(2) by blast
next
  case (ok h m1 caps)
  then show ?thesis using record_generation_rel [OF ok(4) assms(2)] by simp
qed simp

lemma try_routes_rel:
  assumes "try_routes sig_ok persist world p t c late m err es = (m', r)" "map_of (pm_trusted (cm_pairing m)) p = Some t"
  shows "attempt_rel persist p t c (cm_pairing m) (cm_pairing m') \<and> cm_generations m' = cm_generations m"
  using assms
proof (induction es arbitrary: m err)
  case (Cons e es)
  have rec: ?case if f: "try_routes sig_ok persist world p t c late (mark_failure m p e k) (Some x) es = (m', r)" for k x
    using Cons.IH [OF f] Cons.prems(2) by (simp add: cm_frame)
  show ?case
  proof (cases "at_dial (world e)")
    case (Inl x)
    then show ?thesis using Cons.prems rec [of _ x] by (auto split: if_splits)
  next
    case (Inr u)
    obtain m1 a where a: "authenticate_route sig_ok persist m p t c (world e) = (m1, a)" by fastforce
    have rel: "attempt_rel persist p t c (cm_pairing m) (cm_pairing m1)" "cm_generations m1 = cm_generations m"
      using authenticate_route_rel [OF a Cons.prems(2)] authenticate_route_frame [OF a] by simp_all
    show ?thesis
    proof (cases a)
      case (Inl x)
      have "m1 = m" if "route_error x" using authenticate_route_error [OF a [unfolded Inl] that] by simp
      then show ?thesis using Cons.prems a Inl Inr rel rec [of _ x]
        by (auto simp: auth_failed_def cm_frame split: if_splits)
    next
      case (Inr caps)
      then have "(m', r) = install_provider m1 p t c e caps (at_time (world e))" using Cons.prems a \<open>at_dial (world e) = Inr u\<close> by simp
      then show ?thesis using rel install_provider_frame [of m1 p t c e caps "at_time (world e)"] by (metis fst_conv)
    qed
  qed
qed (auto simp: cm_frame)

lemma connect_cases:
  assumes "connect sig_ok persist world m peer now late = (m', r)"
  obtains (same) "m' = m" "\<And>p. r = Inr p \<Longrightarrow> map_of (cm_providers m) peer = Some p"
  | (changed) reason e where "m' = identity_changed m peer reason now" "r = Inl e"
  | (tried) t c where "map_of (cm_providers m) peer = None" "map_of (pm_trusted (cm_pairing m)) peer = Some t"
      "map_of (cm_candidates m) (nid_value peer) = Some c" "dc_compatible c" "dc_connectable c" "dc_stable_id c = nid_value peer"
      "candidate_allowed sig_ok t c" "truthy (dc_transport c)"
      "try_routes sig_ok persist world peer t c late (begin_attempt m peer now) None
         (sort_key endpoint_rank (usable_endpoints (dc_endpoints c))) = (m', r)"
proof (cases "map_of (cm_providers m) peer")
  case (Some p)
  then show ?thesis using assms same by (auto simp: connect_def)
next
  case None
  show ?thesis
  proof (cases "\<exists>t c. map_of (pm_trusted (cm_pairing m)) peer = Some t \<and> map_of (cm_candidates m) (nid_value peer) = Some c")
    case True
    then obtain t c where tc: "map_of (pm_trusted (cm_pairing m)) peer = Some t" "map_of (cm_candidates m) (nid_value peer) = Some c"
      by blast
    note d = assms [unfolded connect_def None tc option.case prod.case]
    show ?thesis using d same changed tried [OF None tc] by (auto split: if_splits)
  qed (use None assms same in \<open>auto simp: connect_def split: option.splits\<close>)
qed

lemma begin_attempt_frame [cm_frame]:
  "cm_local (begin_attempt m p now) = cm_local m" "cm_pairing (begin_attempt m p now) = cm_pairing m"
  "cm_providers (begin_attempt m p now) = cm_providers m" "cm_candidates (begin_attempt m p now) = cm_candidates m"
  "cm_generations (begin_attempt m p now) = dict_set p (connection_generation m p + 1) (cm_generations m)"
  by (simp_all add: begin_attempt_def cm_frame)

section \<open>Properties\<close>

text \<open>
  C18. A new connection is an authenticated one: when \<open>connect\<close> opens a provider, the peer is trusted and announced under
  its own identity, the announced transport is the stored one or a proven newer generation, every better ranked route has
  failed at the network, the peer's hello came over the chosen route and agrees with the announcement, the provider
  carries the stored secret and the announced fingerprint, the node was not revoked, and it is now recorded as authorized
  and online with the capabilities of its hello, under a new connection generation.
\<close>

theorem connect_authenticated:
  assumes "connect sig_ok persist world m peer now late = (m', Inr p)" "map_of (cm_providers m) peer = None"
  shows "\<exists>t c pre e post hello caps.
      map_of (pm_trusted (cm_pairing m)) peer = Some t \<and> map_of (cm_candidates m) (nid_value peer) = Some c
    \<and> dc_compatible c \<and> dc_connectable c \<and> dc_stable_id c = nid_value peer \<and> candidate_allowed sig_ok t c
    \<and> sort_key endpoint_rank (usable_endpoints (dc_endpoints c)) = pre @ e # post \<and> (\<forall>x \<in> set pre. route_fails (world x))
    \<and> at_dial (world e) = Inr () \<and> at_hello (world e) = Inr hello \<and> validate_hello_generation sig_ok t c hello = Inr ()
    \<and> parse_hello_capabilities hello = Inr caps
    \<and> p = \<lparr>pv_node = peer, pv_caller = cm_local m, pv_secret = tp_secret t, pv_address = ec_address e, pv_port = ec_port e,
           pv_fingerprint = or_empty (dc_transport c)\<rparr>
    \<and> map_of (cm_providers m') peer = Some p \<and> connection_generation m' peer = connection_generation m peer + 1
    \<and> \<not> peer_revoked m peer
    \<and> (\<exists>r. ng_record (cm_registry m') peer = Some r \<and> nr_trust r = TS_AUTHORIZED
           \<and> cs_status (nr_connection r) = CS_ONLINE \<and> nr_capabilities r = caps)"
  using assms(1)
proof (cases rule: connect_cases)
  case (tried t c)
  let ?m0 = "begin_attempt m peer now"
  from try_routes_ok [OF tried(9)] obtain pre e post m1 caps where
    q: "sort_key endpoint_rank (usable_endpoints (dc_endpoints c)) = pre @ e # post" "\<forall>x \<in> set pre. route_fails (world x)"
      "at_dial (world e) = Inr ()"
      "authenticate_route sig_ok persist (after_failures world peer pre ?m0) peer t c (world e) = (m1, Inr caps)"
      "install_provider m1 peer t c e caps (at_time (world e)) = (m', Inr p)" by blast
  from q(4) obtain h where h: "at_hello (world e) = Inr h" "validate_hello_generation sig_ok t c h = Inr ()"
      "parse_hello_capabilities h = Inr caps" by (cases rule: authenticate_route_cases) auto
  have f: "cm_local m1 = cm_local m" "cm_registry m1 = cm_registry ?m0"
    using authenticate_route_frame [OF q(4)] by (simp_all add: cm_frame)
  have "cm_generations m' = cm_generations ?m0"
    using try_routes_rel [OF tried(9)] tried(2) by (simp add: cm_frame)
  then have g: "connection_generation m' peer = connection_generation m peer + 1"
    by (simp add: cm_frame connection_generation_def)
  have "peer_revoked m1 peer \<longleftrightarrow> peer_revoked m peer" using revoked_cong [OF f(2)] by (simp add: revoked_begin)
  then show ?thesis using tried(2-7) q(1,2,3) h g f(1) install_provider_ok [OF q(5)] by blast
qed (use assms(2) in auto)

definition sample_endpoint :: endpoint where
  "sample_endpoint = \<lparr>ec_address = ''10.0.0.2'', ec_port = 9, ec_source = SRC_IPV4, ec_validation = ''validated'', ec_priority = 0,
     ec_success = None, ec_failure = None\<rparr>"

definition sample_candidate :: candidate where
  "sample_candidate = \<lparr>dc_stable_id = ''p'', dc_hostname = ''h'', dc_addresses = [''10.0.0.2''], dc_port = Some 9, dc_service_name = ''s'',
     dc_app_version = ''1'', dc_protocol_version = ''1'', dc_platform = None, dc_connectable = True, dc_compatible = True,
     dc_last_seen = 0, dc_identity = None, dc_transport = Some ''new'', dc_endpoints = [sample_endpoint], dc_root = None,
     dc_generation = Some 2, dc_proof = Some ''proof'', dc_pairing_port = None\<rparr>"

definition sample_trusted :: trusted_peer where
  "sample_trusted = \<lparr>tp_peer = NodeId ''p'', tp_secret = ''s'', tp_permissions = {}, tp_binding = \<lparr>bd_identity = None,
     bd_transport = Some ''old'', bd_root = Some ''rk'', bd_generation = Some 1, bd_proof = None\<rparr>, tp_members = False\<rparr>"

definition sample_manager :: connection_manager where
  "sample_manager = \<lparr>cm_local = NodeId ''me'',
     cm_pairing = \<lparr>pm_local = NodeId ''me'', pm_ttl = 60, pm_pending = [], pm_trusted = [(NodeId ''p'', sample_trusted)], pm_grants = [],
       pm_broken = []\<rparr>,
     cm_registry = registry_for (NodeId ''me'') True, cm_candidates = [(''p'', sample_candidate)], cm_providers = [],
     cm_generations = [], cm_resume = {}\<rparr>"

definition sample_world :: "endpoint \<Rightarrow> route_attempt" where
  "sample_world e = \<lparr>at_dial = Inr (), at_hello = Inr (PDict [(KStr ''transport_fingerprint'', PStr ''new''),
     (KStr ''transport_generation'', PInt 2), (KStr ''transport_proof'', PStr ''proof'')]), at_time = 1\<rparr>"

lemmas sample_defs = sample_endpoint_def sample_candidate_def sample_trusted_def sample_manager_def sample_world_def

lemma sample_connect:
  "connect (\<lambda>k s x. True) None sample_world sample_manager (NodeId ''p'') 0 9
     = (fst (connect (\<lambda>k s x. True) None sample_world sample_manager (NodeId ''p'') 0 9),
        Inr \<lparr>pv_node = NodeId ''p'', pv_caller = NodeId ''me'', pv_secret = ''s'', pv_address = ''10.0.0.2'', pv_port = 9,
             pv_fingerprint = ''new''\<rparr>)"
  "map_of (pm_trusted (cm_pairing (fst (connect (\<lambda>k s x. True) None sample_world sample_manager (NodeId ''p'') 0 9)))) (NodeId ''p'')
     = Some (rotated sample_trusted sample_candidate)"
  by (simp_all add: sample_defs connect_def usable_endpoints_def candidate_allowed_def candidate_transport_generation_allowed_def
      or_empty_def verify_transport_proof_def authenticate_route_def validate_hello_generation_def text_matches_def
      parse_hello_capabilities_def record_generation_def install_provider_def ng_promote_def ng_require_def ng_record_def
      begin_attempt_def cm_observe_def cm_set_state_def ng_observe_def ng_set_connection_def ng_put_def registry_for_def
      mk_node_record_def mark_success_def mark_route_def doc_simps rotated_def pm_mark_auth_ok_def Let_def)

lemma connect_authenticated_witness:
  "\<exists>r. ng_record (cm_registry (fst (connect (\<lambda>k s x. True) None sample_world sample_manager (NodeId ''p'') 0 9))) (NodeId ''p'') = Some r
     \<and> nr_trust r = TS_AUTHORIZED \<and> cs_status (nr_connection r) = CS_ONLINE"
proof -
  have "map_of (cm_providers sample_manager) (NodeId ''p'') = None" by (simp add: sample_defs)
  from connect_authenticated [OF sample_connect(1) this] show ?thesis by blast
qed

text \<open>
  C30. Connecting succeeds past routes that are down: when the peer is trusted, announced and not revoked, its transport is
  allowed, every better ranked route fails at the network, and the next one accepts the connection and answers a hello that
  agrees with the announcement, \<open>connect\<close> returns a provider over that route, however many failed before it. (A better ranked
  route that answers but fails authentication ends the attempt instead, and no other route is tried.)
\<close>

theorem connect_live:
  assumes "map_of (cm_providers m) peer = None" "map_of (pm_trusted (cm_pairing m)) peer = Some t"
    "map_of (cm_candidates m) (nid_value peer) = Some c"
    and "dc_compatible c \<and> dc_connectable c \<and> dc_stable_id c = nid_value peer \<and> candidate_allowed sig_ok t c \<and> truthy (dc_transport c)"
    and "sort_key endpoint_rank (usable_endpoints (dc_endpoints c)) = pre @ e # post" "\<forall>x \<in> set pre. route_fails (world x)"
    and "at_dial (world e) = Inr ()" "at_hello (world e) = Inr hello"
    and "validate_hello_generation sig_ok t c hello = Inr ()" "parse_hello_capabilities hello = Inr caps"
    and "persist = None \<or> (\<exists>s. persist = Some s \<and> (\<forall>q. s q = Inr True))"
    and "\<not> peer_revoked m peer" "peer \<noteq> ng_local (cm_registry m)"
  shows "\<exists>m' p. connect sig_ok persist world m peer now late = (m', Inr p) \<and> pv_address p = ec_address e \<and> pv_port p = ec_port e"
proof -
  let ?m0 = "begin_attempt m peer now"
  have "usable_endpoints (dc_endpoints c) \<noteq> []" using assms(5) by (metis append_is_Nil_conv list.distinct(1) sort_key_simps(1))
  then have "connect sig_ok persist world m peer now late =
      try_routes sig_ok persist world peer t c late ?m0 None (pre @ e # post)"
    using assms(1-5) by (simp add: connect_def)
  also obtain err where "\<dots> = try_routes sig_ok persist world peer t c late (after_failures world peer pre ?m0) err (e # post)"
    using try_routes_skip [OF assms(6)] by blast
  finally have conn: "connect sig_ok persist world m peer now late
      = try_routes sig_ok persist world peer t c late (after_failures world peer pre ?m0) err (e # post)" .
  let ?m1 = "after_failures world peer pre ?m0"
  have "snd (record_generation persist ?m1 peer t c) = Inr ()"
    using assms(11) by (auto simp: record_generation_def Let_def)
  then obtain m2 where m2: "record_generation persist ?m1 peer t c = (m2, Inr ())" by (metis prod.collapse)
  have a: "authenticate_route sig_ok persist ?m1 peer t c (world e)
      = (m2\<lparr>cm_pairing := pm_mark_auth_ok (cm_pairing m2) peer\<rparr>, Inr caps)"
    using assms(8-10) m2 by (simp add: authenticate_route_def)
  let ?m3 = "m2\<lparr>cm_pairing := pm_mark_auth_ok (cm_pairing m2) peer\<rparr>"
  have reg: "cm_registry ?m3 = cm_registry ?m0" using record_generation_frame [OF m2] by (simp add: cm_frame)
  have "ng_local (cm_registry ?m0) = ng_local (cm_registry m)" by (simp add: begin_attempt_def cm_frame)
  then obtain r where r: "ng_record (cm_registry (cm_observe ?m3 peer caps)) peer = Some r"
    using reg assms(13) by (simp add: observe_record)
  have "\<not> peer_revoked (cm_observe ?m3 peer caps) peer"
    using assms(12) revoked_cong [OF reg] by (simp add: revoked_frame revoked_begin)
  then have "nr_trust r \<noteq> TS_REVOKED" using r by (simp add: peer_revoked_def)
  then have "\<exists>m' p. install_provider ?m3 peer t c e caps (at_time (world e)) = (m', Inr p)
      \<and> pv_address p = ec_address e \<and> pv_port p = ec_port e"
    using r by (simp add: install_provider_def ng_promote_def ng_require_def ng_put_def Let_def)
  then show ?thesis using conn a assms(7) by simp
qed

lemma connect_live_witness:
  "\<exists>m' p. connect (\<lambda>k s x. True) None sample_world sample_manager (NodeId ''p'') 0 9 = (m', Inr p)
     \<and> pv_address p = ec_address sample_endpoint \<and> pv_port p = ec_port sample_endpoint"
  by (rule connect_live [where pre = "[]" and post = "[]" and t = sample_trusted and c = sample_candidate and caps = "{}"
        and hello = "PDict [(KStr ''transport_fingerprint'', PStr ''new''), (KStr ''transport_generation'', PInt 2),
           (KStr ''transport_proof'', PStr ''proof'')]"])
    (simp_all add: sample_defs usable_endpoints_def candidate_allowed_def candidate_transport_generation_allowed_def or_empty_def
      verify_transport_proof_def validate_hello_generation_def text_matches_def parse_hello_capabilities_def doc_simps
      peer_revoked_def ng_record_def registry_for_def)

text \<open>
  An attempt to connect changes stored trust only along a proven rotation: whatever its outcome, grants, pending
  pairings and the trust of every other peer stay as they are, and the trust of the peer itself either stays or is moved
  to the announced transport, which happens only when the store did not refuse it and, if a transport was pinned, the
  announcement carries a proof for a newer generation that verifies under the pinned root key.
\<close>

theorem connect_trust_rotation:
  assumes "connect sig_ok persist world m peer now late = (m', r)"
  shows "pm_grants (cm_pairing m') = pm_grants (cm_pairing m) \<and> pm_pending (cm_pairing m') = pm_pending (cm_pairing m)
    \<and> (q \<noteq> peer \<longrightarrow> map_of (pm_trusted (cm_pairing m')) q = map_of (pm_trusted (cm_pairing m)) q)
    \<and> (map_of (pm_trusted (cm_pairing m')) peer = map_of (pm_trusted (cm_pairing m)) peer
       \<or> store_consents persist
         \<and> (\<exists>t c. map_of (pm_trusted (cm_pairing m)) peer = Some t \<and> map_of (cm_candidates m) (nid_value peer) = Some c
             \<and> map_of (pm_trusted (cm_pairing m')) peer = Some (rotated t c)
             \<and> (bd_transport (tp_binding t) = None
                \<or> (\<exists>g. dc_generation c = Some g \<and> (\<forall>g0. bd_generation (tp_binding t) = Some g0 \<longrightarrow> g0 < g)
                    \<and> verify_transport_proof sig_ok (tp_peer t) (or_empty (bd_root (tp_binding t))) g
                        (or_empty (dc_transport c)) (or_empty (dc_proof c))))))"
  using assms
proof (cases rule: connect_cases)
  case (tried t c)
  have rel: "attempt_rel persist peer t c (cm_pairing m) (cm_pairing m')"
    using try_routes_rel [OF tried(9)] tried(2) by (simp add: cm_frame)
  have "bd_transport (tp_binding t) = None
      \<or> (\<exists>g. dc_generation c = Some g \<and> (\<forall>g0. bd_generation (tp_binding t) = Some g0 \<longrightarrow> g0 < g)
          \<and> verify_transport_proof sig_ok (tp_peer t) (or_empty (bd_root (tp_binding t))) g
              (or_empty (dc_transport c)) (or_empty (dc_proof c)))"
    if "dc_transport c \<noteq> bd_transport (tp_binding t)"
    using tried(7) that by (auto simp: candidate_allowed_def candidate_transport_generation_allowed_def split: option.splits if_splits)
  then show ?thesis using rel tried(2,3) unfolding attempt_rel_def by metis
qed (auto simp: identity_changed_def cm_frame)

lemma connect_trust_rotation_witness:
  "pm_grants (cm_pairing (fst (connect (\<lambda>k s x. True) None sample_world sample_manager (NodeId ''p'') 0 9))) = []"
  using connect_trust_rotation [OF sample_connect(1)] by (simp add: sample_defs)

section \<open>Runs\<close>

datatype cm_op =
    CmConnect "trust_store option" "endpoint \<Rightarrow> route_attempt" node_id rat rat
  | CmReconnect "trust_store option" "endpoint \<Rightarrow> route_attempt" node_id rat rat
  | CmDisconnect node_id string rat
  | CmDisconnectAll rat

fun cm_step :: "sig_check \<Rightarrow> connection_manager \<Rightarrow> cm_op \<Rightarrow> connection_manager" where
  "cm_step sig_ok m (CmConnect persist world p now late) = fst (connect sig_ok persist world m p now late)"
| "cm_step sig_ok m (CmReconnect persist world p now late) = fst (reconnect sig_ok persist world m p now late)"
| "cm_step sig_ok m (CmDisconnect p reason now) = disconnect m p reason now"
| "cm_step sig_ok m (CmDisconnectAll now) = disconnect_all m now"

lemma generation_cong: "cm_generations m' = cm_generations m \<Longrightarrow> connection_generation m' = connection_generation m"
  by (rule ext) (simp add: connection_generation_def)

lemma generation_raised:
  "cm_generations m' = dict_set p (connection_generation m p + 1) (cm_generations m) \<Longrightarrow>
   connection_generation m' = (connection_generation m)(p := connection_generation m p + 1)"
  by (rule ext) (simp add: connection_generation_def)

lemma connect_generation: "connection_generation m \<le> connection_generation (fst (connect sig_ok persist world m p now late))"
proof -
  obtain m' r where c: "connect sig_ok persist world m p now late = (m', r)" by fastforce
  then have "connection_generation m \<le> connection_generation m'"
  proof (cases rule: connect_cases)
    case (changed reason e)
    then have "cm_generations m' = cm_generations m" by (simp add: identity_changed_def cm_frame)
    from generation_cong [OF this] show ?thesis by simp
  next
    case (tried t c)
    have "cm_generations m' = dict_set p (connection_generation m p + 1) (cm_generations m)"
      using try_routes_rel [OF tried(9)] tried(2) by (simp add: cm_frame)
    from generation_raised [OF this] show ?thesis by (simp add: le_fun_def)
  qed simp
  with c show ?thesis by simp
qed

lemma disconnect_generation:
  "connection_generation (disconnect m p reason now) = (connection_generation m)(p := connection_generation m p + 1)"
  by (rule generation_raised) (simp add: disconnect_def cm_frame)

lemma disconnect_all_generation: "connection_generation m \<le> connection_generation (disconnect_all m now)"
proof -
  have "connection_generation m \<le> connection_generation (fold (\<lambda>p m. disconnect m p ''disconnected'' now) ps m)" for ps
  proof (induction ps arbitrary: m)
    case (Cons p ps)
    have "connection_generation m \<le> connection_generation (disconnect m p ''disconnected'' now)"
      by (simp add: disconnect_generation le_fun_def)
    also note Cons
    finally show ?case by simp
  qed simp
  then show ?thesis by (simp add: disconnect_all_def)
qed

interpretation connection_runs: monotone_system "cm_step sig_ok" "\<lambda>m. True" connection_generation
proof unfold_locales
  fix m x
  show "connection_generation m \<le> connection_generation (cm_step sig_ok m x)"
  proof (cases x)
    case (CmReconnect persist world p now late)
    let ?m = "cm_set_state (m\<lparr>cm_providers := dict_pop p (cm_providers m), cm_resume := insert p (cm_resume m)\<rparr>) p
          (cs_make CS_RESUMING None (Some now))"
    have "connection_generation ?m = connection_generation m" by (rule generation_cong) (simp add: cm_frame)
    with connect_generation [of ?m sig_ok persist world p now late] show ?thesis by (simp add: CmReconnect reconnect_def)
  next
    case (CmDisconnect p reason now)
    then show ?thesis by (simp add: disconnect_generation le_fun_def)
  qed (simp_all add: connect_generation disconnect_all_generation)
qed simp

text \<open>
  A connection generation never comes back: once a peer has been disconnected, or a new connection to it opened, the
  generation that was current before is not current any more, whatever sequence of connections, reconnections and
  disconnections follows.
\<close>

theorem generation_never_back:
  assumes "m1 = disconnect m peer reason now
    \<or> map_of (cm_providers m) peer = None \<and> connect sig_ok persist world m peer now late = (m1, Inr p)"
  shows "\<not> is_current_generation (foldl (cm_step sig_ok) m1 ops) peer (connection_generation m peer)"
proof -
  have "connection_generation m1 peer = connection_generation m peer + 1"
    using assms
  proof
    assume c: "map_of (cm_providers m) peer = None \<and> connect sig_ok persist world m peer now late = (m1, Inr p)"
    then have "connect sig_ok persist world m peer now late = (m1, Inr p)" by blast
    then show ?thesis
    proof (cases rule: connect_cases)
      case (tried t c)
      have "cm_generations m1 = dict_set peer (connection_generation m peer + 1) (cm_generations m)"
        using try_routes_rel [OF tried(9)] tried(2) by (simp add: cm_frame)
      from generation_raised [OF this] show ?thesis by simp
    qed (use c in auto)
  qed (simp add: disconnect_generation)
  moreover have "connection_generation m1 peer \<le> connection_generation (foldl (cm_step sig_ok) m1 ops) peer"
    using connection_runs.run_mono [of m1 sig_ok ops] by (simp add: le_fun_def)
  ultimately show ?thesis by (auto simp: is_current_generation_def connection_generation_def)
qed

lemma generation_never_back_witness:
  "\<not> is_current_generation (foldl (cm_step (\<lambda>k s x. True)) (disconnect sample_manager (NodeId ''p'') ''bye'' 1)
       [CmConnect None sample_world (NodeId ''p'') 2 3, CmDisconnectAll 4]) (NodeId ''p'') 0"
  using generation_never_back [of "disconnect sample_manager (NodeId ''p'') ''bye'' 1" sample_manager "NodeId ''p''" "''bye''" 1
      "\<lambda>k s x. True" None sample_world 3 undefined "[CmConnect None sample_world (NodeId ''p'') 2 3, CmDisconnectAll 4]"]
  by (simp add: connection_generation_def sample_manager_def)

section \<open>A rotation can lose the pinned root key\<close>

text \<open>
  \<open>_record_generation\<close> copies the root key of the announcement over the pinned one. An announcement without a root key but
  with a valid proof passes every check, so the pinned key is replaced by none, and no later rotation can be proven.
\<close>

lemma root_key_dropped:
  "let m' = fst (connect (\<lambda>k s x. True) None sample_world sample_manager (NodeId ''p'') 0 9) in
     bd_root (tp_binding sample_trusted) = Some ''rk''
     \<and> (\<exists>t. map_of (pm_trusted (cm_pairing m')) (NodeId ''p'') = Some t \<and> bd_root (tp_binding t) = None
         \<and> (\<forall>sig_ok c. dc_transport c \<noteq> Some ''new'' \<longrightarrow> \<not> candidate_allowed sig_ok t c))"
  unfolding Let_def sample_connect(2)
  by (auto simp: sample_defs rotated_def candidate_allowed_def candidate_transport_generation_allowed_def)

end
