(* ===== verification/Runtime.thy ===== *)
theory Runtime
  imports TrustCodec Service ConnectionLaws
begin

text \<open>
  The state \<open>runtime/core.py\<close> keeps together, and its transitions: saving, projecting membership and grants into the
  registry and the live service, approving and revoking peers, pairing controls, elevation, discovery events.

  Pairing manager, registry, candidates and providers are the objects the connection manager works on, so they are kept
  inside it (\<open>rt_cm\<close>); \<open>rt_loaded\<close> says that pairing and registry exist, \<open>rt_managed\<close> that the connection manager does.
  The service refers to the same capability share and surface registry as the runtime: \<open>set_share\<close> and \<open>set_surfaces\<close>
  update both views. The two files are part of the state; whether a write succeeds is an argument (\<open>storage\<close>), a new one
  for each save.
\<close>

section \<open>State\<close>

record storage =
  st_trust :: "pyval \<Rightarrow> exn option"
  st_cluster :: "pyval \<Rightarrow> exn option"

datatype runtime_state = RT_STOPPED | RT_STARTING | RT_STARTED | RT_PERSISTENCE_FAILED | RT_LISTENER_UNAVAILABLE

record runtime =
  rt_cm :: connection_manager
  rt_loaded :: bool
  rt_ready :: bool
  rt_managed :: bool
  rt_status :: runtime_state
  rt_locked :: bool
  rt_events :: "nat option" \<comment> \<open>the generation the discovery callback was created with\<close>
  rt_generation :: nat
  rt_cluster :: "cluster option"
  rt_cluster_store :: bool
  rt_grants :: "capability_grant list"
  rt_failover :: "failover_coordinator option"
  rt_service :: "remote_service option"
  rt_sharing :: share
  rt_surfaces :: surface_registry
  rt_permissions :: "(string, string set) dict"
  rt_trust_file :: "pyval option"
  rt_cluster_file :: "pyval option"

abbreviation rt_started :: "runtime \<Rightarrow> bool" where
  "rt_started r \<equiv> rt_status r = RT_STARTED"

abbreviation rt_pairing :: "runtime \<Rightarrow> pairing_manager" where
  "rt_pairing r \<equiv> cm_pairing (rt_cm r)"

abbreviation rt_registry :: "runtime \<Rightarrow> node_registry" where
  "rt_registry r \<equiv> cm_registry (rt_cm r)"

definition set_pairing :: "pairing_manager \<Rightarrow> runtime \<Rightarrow> runtime" where
  "set_pairing p r = r\<lparr>rt_cm := (rt_cm r)\<lparr>cm_pairing := p\<rparr>\<rparr>"

definition set_registry :: "node_registry \<Rightarrow> runtime \<Rightarrow> runtime" where
  "set_registry g r = r\<lparr>rt_cm := (rt_cm r)\<lparr>cm_registry := g\<rparr>\<rparr>"

definition set_share :: "share \<Rightarrow> runtime \<Rightarrow> runtime" where
  "set_share sh r = r\<lparr>rt_sharing := sh, rt_service := map_option (\<lambda>s. s\<lparr>sv_capability_share := Some sh\<rparr>) (rt_service r)\<rparr>"

definition set_surfaces :: "surface_registry \<Rightarrow> runtime \<Rightarrow> runtime" where
  "set_surfaces sr r = r\<lparr>rt_surfaces := sr, rt_service := map_option (\<lambda>s. s\<lparr>sv_surfaces := Some sr\<rparr>) (rt_service r)\<rparr>"

section \<open>Saving\<close>

text \<open>One \<open>try\<close> block of \<open>_save_persisted_state\<close>: the document written, \<open>None\<close> when the failure is only logged.\<close>

definition try_save :: "(pyval \<Rightarrow> exn option) \<Rightarrow> pyval res \<Rightarrow> pyval option res" where
  "try_save store doc =
     (case rbind doc (\<lambda>d. case store d of None \<Rightarrow> Inr d | Some e \<Rightarrow> Inl e) of
        Inr d \<Rightarrow> Inr (Some d)
      | Inl e \<Rightarrow> if isa e OSError \<or> isa e TypeError \<or> isa e ValueError then Inr None else Inl e)"

definition stored_cluster :: "runtime \<Rightarrow> cluster \<Rightarrow> cluster_state" where
  "stored_cluster r c = (cl_to_state c)\<lparr>cs_grants := rt_grants r\<rparr>"

definition save_persisted_state :: "storage \<Rightarrow> runtime \<Rightarrow> runtime \<times> bool res" where
  "save_persisted_state st r =
     (if \<not> rt_loaded r \<or> \<not> rt_ready r then (r, Inr False)
      else case try_save (st_trust st) (migrate_state ''trust'' (trust_document (rt_pairing r) (rt_permissions r))) of
        Inl e \<Rightarrow> (r, Inl e)
      | Inr t \<Rightarrow>
          let r1 = (case t of None \<Rightarrow> r | Some d \<Rightarrow> r\<lparr>rt_trust_file := Some d\<rparr>) in
          (case rt_cluster r of
             None \<Rightarrow> (r1, Inr (t \<noteq> None))
           | Some c \<Rightarrow>
               (case try_save (st_cluster st) (cs_to_dict (stored_cluster r c)) of
                  Inl e \<Rightarrow> (r1, Inl e)
                | Inr None \<Rightarrow> (r1, Inr False)
                | Inr (Some d) \<Rightarrow> (r1\<lparr>rt_cluster_file := Some d\<rparr>, Inr (t \<noteq> None)))))"

text \<open>
  \<open>if not self._save_persisted_state(): undo; raise\<close>: the state to return to is given as a function, since the files keep
  what was written.
\<close>

definition saved_or :: "storage \<Rightarrow> runtime \<Rightarrow> (runtime \<Rightarrow> runtime) \<Rightarrow> exn_class \<Rightarrow> string \<Rightarrow> runtime \<times> unit res" where
  "saved_or st r undo cls msg =
     (case save_persisted_state st r of
        (r1, Inl e) \<Rightarrow> (r1, Inl e)
      | (r1, Inr True) \<Rightarrow> (r1, Inr ())
      | (r1, Inr False) \<Rightarrow> (undo r1, raise cls msg))"

section \<open>Projections\<close>

definition role_of :: "cluster_role set \<Rightarrow> cluster_role" where
  "role_of roles = (if COORDINATOR \<in> roles then COORDINATOR else if SUBCOORDINATOR \<in> roles then SUBCOORDINATOR else WORKER)"

definition hydrate_member :: "node_id \<Rightarrow> runtime \<Rightarrow> node_id \<times> role_assignment \<Rightarrow> runtime \<times> unit res" where
  "hydrate_member coordinator r na =
     (let n = fst na;
          g0 = (if ng_record (rt_registry r) n = None then fst (ng_observe (rt_registry r) n {}) else rt_registry r);
          promoted = (if pm_can_join_cluster (rt_pairing r) n
                      then (case ng_record g0 n of
                              Some rec \<Rightarrow> if nr_trust rec \<noteq> TS_AUTHORIZED then ng_promote g0 n {} else (g0, Inr rec)
                            | None \<Rightarrow> (g0, Inr (mk_node_record n)))
                      else (g0, Inr (mk_node_record n)))
      in case promoted of
           (g1, Inl e) \<Rightarrow> (set_registry g1 r, Inl e)
         | (g1, Inr _) \<Rightarrow>
             (case ng_hydrate_membership g1 n (role_of (ra_roles (snd na))) coordinator of
                (g2, Inl e) \<Rightarrow> (set_registry g2 r, Inl e)
              | (g2, Inr _) \<Rightarrow> (set_registry g2 r, Inr ())))"

fun hydrate_members :: "node_id \<Rightarrow> runtime \<Rightarrow> (node_id \<times> role_assignment) list \<Rightarrow> runtime \<times> unit res" where
  "hydrate_members coordinator r [] = (r, Inr ())"
| "hydrate_members coordinator r (x # xs) = sbind (hydrate_member coordinator r x) (\<lambda>r _. hydrate_members coordinator r xs)"

definition hydrate_registry_membership :: "runtime \<Rightarrow> runtime \<times> unit res" where
  "hydrate_registry_membership r =
     (case rt_cluster r of
        None \<Rightarrow> (r, Inr ())
      | Some c \<Rightarrow> if \<not> rt_loaded r then (r, Inr ()) else hydrate_members (ce_coordinator (cl_epoch c)) r (cl_assignments c))"

definition wire_grant :: "peer_grant \<Rightarrow> service_grant res" where
  "wire_grant g = rbind (rmap mk_permission (sorted_list_of_set (pg_permissions g))) (\<lambda>ps.
     Inr \<lparr>sgr_caller = pg_caller g, sgr_secret = pg_secret g, sgr_permissions = set ps, sgr_expires = None\<rparr>)"

definition wire_grants :: "runtime \<Rightarrow> (node_id, service_grant) dict res" where
  "wire_grants r =
     (if \<not> rt_loaded r then Inr []
      else rmap (\<lambda>(n, g). rbind (wire_grant g) (\<lambda>w. Inr (n, w))) (pm_grants (rt_pairing r)))"

definition update_service_grants :: "runtime \<Rightarrow> remote_service \<Rightarrow> runtime \<times> unit res" where
  "update_service_grants r s =
     sbind (r, wire_grants r) (\<lambda>r gs. case update_grants s gs of (s', x) \<Rightarrow> (r\<lparr>rt_service := Some s'\<rparr>, x))"

definition refresh_live_grants :: "runtime \<Rightarrow> runtime \<times> unit res" where
  "refresh_live_grants r =
     (case rt_service r of
        None \<Rightarrow> (r, Inr ())
      | Some s \<Rightarrow> sbind (update_service_grants r s) (\<lambda>r _.
          (r\<lparr>rt_service := map_option (\<lambda>s. update_cluster_capability_grants s (rt_grants r)) (rt_service r)\<rparr>, Inr ())))"

definition project_registry_trust :: "runtime \<Rightarrow> node_id \<Rightarrow> runtime" where
  "project_registry_trust r peer =
     (if \<not> rt_loaded r \<or> ng_record (rt_registry r) peer = None then r
      else set_registry (fst (ng_hydrate_trust (rt_registry r) peer)) r)"

section \<open>Approving and revoking\<close>

definition approve_pairing :: "storage \<Rightarrow> runtime \<Rightarrow> string \<Rightarrow> string set \<Rightarrow> rat \<Rightarrow> runtime \<times> peer_grant res" where
  "approve_pairing st r tx permissions now =
     (if \<not> permissions \<subseteq> permission_value ` READ_PERMISSIONS
      then (r, raise ValueError ''pairing approval permissions must be read-only'')
      else if \<not> rt_loaded r then (r, raise RuntimeError ''runtime has not started'')
      else
        let snap = pm_snapshot (rt_pairing r) in
        case pm_approve (rt_pairing r) tx permissions now of
          (p, Inl e) \<Rightarrow> (set_pairing p r, Inl e)
        | (p, Inr g) \<Rightarrow>
            sbind (saved_or st (set_pairing p r) (\<lambda>r. set_pairing (pm_restore_snapshot (rt_pairing r) snap) r) PersistenceError
                     ''pairing approval was not durably persisted'') (\<lambda>r _.
            sbind (refresh_live_grants (project_registry_trust r (pg_caller g))) (\<lambda>r _. (r, Inr g))))"

definition revoke_peer :: "storage \<Rightarrow> runtime \<Rightarrow> node_id \<Rightarrow> bool \<Rightarrow> rat \<Rightarrow> runtime \<times> unit res" where
  "revoke_peer st r peer refresh now =
     (if \<not> rt_loaded r then (r, raise RuntimeError ''runtime has not started'')
      else
        let snap = pm_snapshot (rt_pairing r);
            r1 = set_share (sh_revoke_peer (rt_sharing r) peer)
                   (set_surfaces (sr_revoke_source (rt_surfaces r) (PeerSource peer)) (set_pairing (pm_revoke (rt_pairing r) peer) r))
        in sbind (saved_or st r1 (\<lambda>r. set_pairing (pm_restore_snapshot (rt_pairing r) snap) r) PersistenceError
                    ''peer revocation was not durably persisted'') (\<lambda>r _.
             let r2 = (if ng_record (rt_registry r) peer \<noteq> None then set_registry (fst (ng_revoke (rt_registry r) peer)) r else r);
                 r3 = r2\<lparr>rt_cm := (rt_cm r2)\<lparr>cm_candidates := dict_pop (nid_value peer) (cm_candidates (rt_cm r2))\<rparr>\<rparr>;
                 r4 = (if rt_managed r3 then r3\<lparr>rt_cm := disconnect (rt_cm r3) peer ''revoked'' now\<rparr> else r3)
             in if refresh then refresh_live_grants r4 else (r4, Inr ())))"

definition revoke_self :: "storage \<Rightarrow> runtime \<Rightarrow> node_id \<Rightarrow> rat \<Rightarrow> runtime \<times> pyval res" where
  "revoke_self st r peer now =
     sbind (revoke_peer st r peer False now) (\<lambda>r _.
       (r, Inr (pdict [(''revoked'', PBool True), (''node_id'', PStr (nid_value peer))])))"

section \<open>Pairing controls and elevation\<close>

definition abort_pairing :: "runtime \<Rightarrow> string \<Rightarrow> runtime" where
  "abort_pairing r tx =
     (set_pairing (pm_abort (rt_pairing r) tx) r)\<lparr>rt_permissions := dict_pop tx (rt_permissions r)\<rparr>"

text \<open>The three saves a confirmation can make are given as \<open>st1\<close>, \<open>st2\<close> and \<open>st3\<close>.\<close>

definition confirm_pairing ::
  "storage \<Rightarrow> storage \<Rightarrow> storage \<Rightarrow> runtime \<Rightarrow> string \<Rightarrow> string set \<Rightarrow> rat \<Rightarrow> runtime \<times> bool res" where
  "confirm_pairing st1 st2 st3 r tx permissions now =
     (let snap = pm_snapshot (rt_pairing r) in
      case approve_pairing st1 r tx permissions now of
        (r1, Inl e) \<Rightarrow> (r1, if isa e PersistenceError \<or> isa e ValueError then Inr False else Inl e)
      | (r1, Inr _) \<Rightarrow>
          (case save_persisted_state st2 (abort_pairing r1 tx) of
             (r2, Inl e) \<Rightarrow> (r2, Inl e)
           | (r2, Inr True) \<Rightarrow> (r2, Inr True)
           | (r2, Inr False) \<Rightarrow>
               sbind (save_persisted_state st3
                  ((set_pairing (pm_restore_snapshot (rt_pairing r2) snap) r2)\<lparr>rt_permissions := dict_set tx permissions (rt_permissions r2)\<rparr>))
                 (\<lambda>r _. (r, Inr False))))"

definition handle_pairing_control ::
  "storage \<Rightarrow> storage \<Rightarrow> storage \<Rightarrow> runtime \<Rightarrow> pairing_control \<Rightarrow> rat \<Rightarrow> runtime \<times> bool res" where
  "handle_pairing_control st1 st2 st3 r q now =
     (if \<not> rt_loaded r then (r, raise RuntimeError ''runtime has not started'')
      else case (map_of (pm_pending (rt_pairing r)) (pc_transaction q), map_of (rt_permissions r) (pc_transaction q)) of
        (Some t, Some ps) \<Rightarrow>
          if ps \<noteq> permission_value ` pc_permissions q then (r, Inr False)
          else if pp_peer t \<noteq> pc_caller q \<or> bd_identity (pp_binding t) \<noteq> Some (pc_identity q)
                  \<or> bd_transport (pp_binding t) \<noteq> Some (pc_transport q) \<or> pp_secret t \<noteq> pc_secret q \<or> pp_expires t \<noteq> pc_expires q
          then (r, Inr False)
          else if pc_operation q = ''pair_abort'' then save_persisted_state st1 (abort_pairing r (pc_transaction q))
          else if pc_operation q \<noteq> ''pair_confirm'' then (r, Inr False)
          else confirm_pairing st1 st2 st3 r (pc_transaction q) ps now
      | _ \<Rightarrow> (r, Inr False))"

text \<open>\<open>approve\<close> is the host's callback, when there is one.\<close>

definition handle_elevation_request ::
  "storage \<Rightarrow> runtime \<Rightarrow> elevation_request \<Rightarrow> (elevation_request \<Rightarrow> bool) option \<Rightarrow> runtime \<times> bool res" where
  "handle_elevation_request st r q approve =
     (if \<not> rt_loaded r then (r, raise RuntimeError ''runtime has not started'')
      else case (approve, map_of (pm_grants (rt_pairing r)) (er_caller q)) of
        (Some callback, Some g) \<Rightarrow>
          (case compare_digest (pg_secret g) (er_current q) of
             Inl e \<Rightarrow> (r, Inl e)
           | Inr same \<Rightarrow>
               if \<not> same \<or> bd_identity (pg_binding g) \<noteq> Some (er_identity q) \<or> bd_transport (pg_binding g) \<noteq> Some (er_transport q)
               then (r, Inr False)
               else if \<not> callback q then (r, Inr False)
               else
                 let raised = \<lparr>pg_caller = pg_caller g, pg_secret = pg_secret g, pg_permissions = permission_value ` er_permissions q,
                        pg_binding = \<lparr>bd_identity = bd_identity (pg_binding g), bd_transport = bd_transport (pg_binding g),
                                      bd_root = None, bd_generation = None, bd_proof = None\<rparr>, pg_members = False\<rparr>;
                     put = (\<lambda>x r. set_pairing ((rt_pairing r)\<lparr>pm_grants := dict_set (er_caller q) x (pm_grants (rt_pairing r))\<rparr>) r)
                 in (case save_persisted_state st (put raised r) of
                       (r1, Inl e) \<Rightarrow> (r1, Inl e)
                     | (r1, Inr False) \<Rightarrow> (put g r1, Inr False)
                     | (r1, Inr True) \<Rightarrow>
                         (case rt_service r1 of
                            None \<Rightarrow> (r1, Inr True)
                          | Some s \<Rightarrow> sbind (update_service_grants r1 s) (\<lambda>r _. (r, Inr True)))))
      | _ \<Rightarrow> (r, Inr False))"

section \<open>Discovery events\<close>

definition binding_valid :: "sig_check \<Rightarrow> node_id \<Rightarrow> binding \<Rightarrow> candidate \<Rightarrow> bool" where
  "binding_valid sig_ok peer b c \<longleftrightarrow>
     \<not> (truthy (bd_identity b) \<and> dc_identity c \<noteq> bd_identity b)
     \<and> (bd_transport b = None \<or> dc_transport c = bd_transport b
        \<or> candidate_transport_generation_allowed sig_ok peer b (dc_transport c) (dc_generation c) (dc_proof c))"

definition trusted_candidate_is_valid :: "sig_check \<Rightarrow> runtime \<Rightarrow> candidate \<Rightarrow> bool" where
  "trusted_candidate_is_valid sig_ok r c =
     (if \<not> rt_loaded r then False
      else case mk_node_id (dc_stable_id c) of
        Inl _ \<Rightarrow> False
      | Inr n \<Rightarrow>
          (case map_of (pm_trusted (rt_pairing r)) n of
             Some p \<Rightarrow> binding_valid sig_ok (tp_peer p) (tp_binding p) c
           | None \<Rightarrow>
               (case map_of (pm_grants (rt_pairing r)) n of
                  Some g \<Rightarrow> binding_valid sig_ok (pg_caller g) (pg_binding g) c
                | None \<Rightarrow> True)))"

datatype discovery_event = Candidate candidate | Lost string

definition on_discovery :: "sig_check \<Rightarrow> runtime \<Rightarrow> nat \<Rightarrow> discovery_event \<Rightarrow> rat \<Rightarrow> runtime" where
  "on_discovery sig_ok r generation ev now =
     (if generation \<noteq> rt_generation r \<or> \<not> rt_started r then r
      else case ev of
        Candidate c \<Rightarrow>
          if \<not> trusted_candidate_is_valid sig_ok r c then r
          else let m = (rt_cm r)\<lparr>cm_candidates := dict_set (dc_stable_id c) c (cm_candidates (rt_cm r))\<rparr>
            in r\<lparr>rt_cm := cm_observe m (NodeId (dc_stable_id c)) {}\<rparr>
      | Lost peer \<Rightarrow>
          let m = (rt_cm r)\<lparr>cm_candidates := dict_pop peer (cm_candidates (rt_cm r))\<rparr>
          in (case mk_node_id peer of
                Inl _ \<Rightarrow> r\<lparr>rt_cm := m\<rparr>
              | Inr n \<Rightarrow> r\<lparr>rt_cm := (if rt_loaded r \<and> rt_managed r then disconnect m n ''peer disappeared'' now else m)\<rparr>))"

text \<open>One tick of the expiry worker; the discovery component's own expiry is not part of the runtime.\<close>

definition expiry_tick :: "storage \<Rightarrow> runtime \<Rightarrow> nat \<Rightarrow> rat \<Rightarrow> runtime \<times> unit res" where
  "expiry_tick st r generation now =
     (if generation \<noteq> rt_generation r \<or> \<not> rt_started r \<or> \<not> rt_loaded r then (r, Inr ())
      else case pm_prune_expired (rt_pairing r) now of
        (p, n) \<Rightarrow>
          if n = 0 then (set_pairing p r, Inr ())
          else sbind (save_persisted_state st ((set_pairing p r)\<lparr>rt_permissions :=
                 filter (\<lambda>(tx, ps). map_of (pm_pending p) tx \<noteq> None) (rt_permissions r)\<rparr>)) (\<lambda>r _. (r, Inr ())))"

section \<open>Starting and stopping\<close>

text \<open>
  What a start finds outside the runtime: the profile lock, the identity, the transport generations and the TLS material
  that goes with them (the fields of \<open>hello\<close> they give, and the stored generation, \<open>None\<close> on a new profile), the
  idempotency store, the listeners, the clock and the random texts of a new cluster. \<open>bt_service\<close> holds the constructor
  arguments that come from the configuration.
\<close>

record boot =
  bt_lock :: "unit res"
  bt_identity :: "node_id res"
  bt_transport :: "nat option res"
  bt_material :: "(string \<times> pyval) list res"
  bt_idem :: "idem_cache res"
  bt_listen :: "unit res"
  bt_service :: remote_service
  bt_cluster_enabled :: bool
  bt_discovery :: bool
  bt_now :: rat
  bt_cluster_id :: string
  bt_token :: string

definition load_cluster :: "boot \<Rightarrow> runtime \<Rightarrow> runtime \<times> unit res" where
  "load_cluster bt r =
     (let me = cm_local (rt_cm r); r1 = r\<lparr>rt_cluster_store := True\<rparr> in
      sbind (r1, case rt_cluster_file r of
          None \<Rightarrow> rbind (cluster_new me (bt_now bt) (bt_cluster_id bt) (bt_token bt)) (\<lambda>c. Inr (c, rt_grants r))
        | Some d \<Rightarrow> rbind (cluster_store_load (Inr d)) (\<lambda>cs.
            rbind (cl_from_state me cs (bt_now bt) (bt_cluster_id bt) (bt_token bt)) (\<lambda>c. Inr (c, cs_grants cs)))) (\<lambda>r x.
      let r2 = r\<lparr>rt_cluster := Some (fst x), rt_grants := snd x\<rparr> in
      sbind (r2, cl_role_state (fst x)) (\<lambda>r s. (r\<lparr>rt_failover := Some \<lparr>fo_state = s\<rparr>\<rparr>, Inr ()))))"

definition set_trust :: "trust_data \<Rightarrow> runtime \<Rightarrow> runtime" where
  "set_trust s r = (set_pairing (fst s) r)\<lparr>rt_permissions := snd s\<rparr>"

definition load_trust_file :: "(pyval \<Rightarrow> string) \<Rightarrow> runtime \<Rightarrow> runtime \<times> unit res" where
  "load_trust_file pyrepr r =
     (case rt_trust_file r of
        None \<Rightarrow> (r, Inr ())
      | Some d \<Rightarrow>
          (case load_trust pyrepr (rt_pairing r, rt_permissions r) d of
             (s, Inl e) \<Rightarrow> (set_trust s r, Inl e)
           | (s, Inr _) \<Rightarrow> sbind (set_trust s r, wire_grants (set_trust s r)) (\<lambda>r _. (r, Inr ()))))"

definition load_persisted_state :: "(pyval \<Rightarrow> string) \<Rightarrow> boot \<Rightarrow> runtime \<Rightarrow> runtime \<times> unit res" where
  "load_persisted_state pyrepr bt r =
     (let me = cm_local (rt_cm r);
          r0 = (set_registry (registry_for me (bt_cluster_enabled bt)) (set_pairing (pm_new me 300) r))\<lparr>rt_loaded := True, rt_ready := False\<rparr> in
      sbind (if bt_cluster_enabled bt then load_cluster bt r0 else (r0, Inr ())) (\<lambda>r _.
      sbind (load_trust_file pyrepr r) (\<lambda>r _.
      sbind (hydrate_registry_membership r) (\<lambda>r _.
        let r1 = r\<lparr>rt_cm := (rt_cm r)\<lparr>cm_providers := [], cm_generations := [], cm_resume := {}\<rparr>, rt_managed := True\<rparr>
        in sbind (r1, bt_transport bt) (\<lambda>r _. (r\<lparr>rt_ready := True\<rparr>, Inr ()))))))"

definition clear_components :: "runtime \<Rightarrow> rat \<Rightarrow> runtime" where
  "clear_components r now =
     (let r1 = r\<lparr>rt_sharing := sh_clear_grants (rt_sharing r)\<rparr> in
      (if rt_managed r1 then r1\<lparr>rt_cm := disconnect_all (rt_cm r1) now\<rparr> else r1)\<lparr>rt_service := None, rt_managed := False, rt_events := None\<rparr>)"

definition service_args :: "boot \<Rightarrow> runtime \<Rightarrow> (string \<times> pyval) list \<Rightarrow> remote_service" where
  "service_args bt r hello =
     (bt_service bt)\<lparr>sv_node := cm_local (rt_cm r),
        sv_capabilities := sv_capabilities (bt_service bt) \<union> (if rt_cluster r \<noteq> None then {CAP_REMOTE_MANAGEMENT} else {}),
        sv_hello := hello, sv_cluster_grants := rt_grants r, sv_capability_share := Some (rt_sharing r), sv_surfaces := Some (rt_surfaces r),
        sv_cluster_id := map_option cl_id (rt_cluster r), sv_epoch := map_option (\<lambda>c. ce_epoch (cl_epoch c)) (rt_cluster r),
        sv_token := map_option (\<lambda>c. ce_token (cl_epoch c)) (rt_cluster r)\<rparr>"

text \<open>
  \<open>generation\<close> is a parameter that the code assigns again when the profile has a transport generation; the discovery
  callback and the expiry worker get the value it has afterwards.
\<close>

definition start_components :: "boot \<Rightarrow> runtime \<Rightarrow> nat \<Rightarrow> runtime \<times> unit res" where
  "start_components bt r generation =
     sbind (r, rbind (bt_material bt) (\<lambda>hello. rbind (bt_transport bt) (\<lambda>g. Inr (hello, g)))) (\<lambda>r x.
       let generation = (case snd x of None \<Rightarrow> generation | Some g \<Rightarrow> g) in
       sbind (r, wire_grants r) (\<lambda>r gs.
       sbind (r, service_new (service_args bt r (fst x)) (Some gs) None) (\<lambda>r s.
       sbind (r, bt_idem bt) (\<lambda>r idem.
         case bt_listen bt of
           Inl e \<Rightarrow>
             let r1 = clear_components r (bt_now bt) in
             if isa e OSError then (r1\<lparr>rt_status := RT_LISTENER_UNAVAILABLE\<rparr>, Inr ()) else (r1, Inl e)
         | Inr _ \<Rightarrow>
             (r\<lparr>rt_service := Some (s\<lparr>sv_idem := idem\<rparr>), rt_status := RT_STARTED,
                rt_events := (if bt_discovery bt then Some generation else None)\<rparr>, Inr ())))))"

definition start :: "(pyval \<Rightarrow> string) \<Rightarrow> boot \<Rightarrow> runtime \<Rightarrow> runtime \<times> runtime_state res" where
  "start pyrepr bt r =
     (if rt_started r then (r, Inr RT_STARTED)
      else
        let r0 = r\<lparr>rt_generation := rt_generation r + 1, rt_status := RT_STARTING\<rparr> in
        case sbind (r0, if rt_locked r then raise ProfileInUseError ''profile is already owned by another runtime'' else bt_lock bt) (\<lambda>r _.
             sbind (r\<lparr>rt_locked := True\<rparr>, bt_identity bt) (\<lambda>r me.
             sbind (load_persisted_state pyrepr bt (r\<lparr>rt_cm := (rt_cm r)\<lparr>cm_local := me\<rparr>\<rparr>)) (\<lambda>r _.
             start_components bt r (rt_generation r)))) of
          (r1, Inr _) \<Rightarrow> (r1, Inr (rt_status r1))
        | (r1, Inl e) \<Rightarrow>
            let r2 = (clear_components r1 (bt_now bt))\<lparr>rt_locked := False\<rparr> in
            if isa e KeyError \<or> isa e OSError \<or> isa e TypeError \<or> isa e ValueError
            then (r2\<lparr>rt_status := RT_PERSISTENCE_FAILED\<rparr>, Inr RT_PERSISTENCE_FAILED)
            else (r2\<lparr>rt_status := RT_STOPPED\<rparr>, Inl e))"

definition shutdown :: "storage \<Rightarrow> runtime \<Rightarrow> rat \<Rightarrow> runtime \<times> unit res" where
  "shutdown st r now =
     (let r0 = r\<lparr>rt_generation := rt_generation r + 1\<rparr>;
          r1 = (if rt_managed r0 then r0\<lparr>rt_cm := disconnect_all (rt_cm r0) now\<rparr> else r0) in
      case save_persisted_state st r1 of
        (r2, Inl e) \<Rightarrow> (r2\<lparr>rt_locked := False\<rparr>, Inl e)
      | (r2, Inr _) \<Rightarrow>
          (r2\<lparr>rt_surfaces := sr_clear_grants (rt_surfaces r2), rt_sharing := sh_clear_grants (rt_sharing r2), rt_service := None,
             rt_managed := False, rt_events := None, rt_cm := (rt_cm r2)\<lparr>cm_candidates := []\<rparr>, rt_status := RT_STOPPED,
             rt_locked := False\<rparr>, Inr ()))"

end
