(* ===== verification/RoleRequests.thy ===== *)
theory RoleRequests
  imports Runtime
begin

text \<open>
  \<open>remote/role_operations.py\<close>: the runtime's own cluster operations (\<open>RuntimeClusterOperations\<close>), which go through the
  failover coordinator, and \<open>dispatch_role_request\<close>, which applies the role requests of other members.
\<close>

section \<open>Operations of the runtime\<close>

definition set_cluster :: "cluster \<Rightarrow> runtime \<Rightarrow> runtime" where
  "set_cluster c r = r\<lparr>rt_cluster := Some c\<rparr>"

definition require_cluster :: "runtime \<Rightarrow> cluster res" where
  "require_cluster r = (case rt_cluster r of None \<Rightarrow> raise RuntimeError ''cluster participation is disabled'' | Some c \<Rightarrow> Inr c)"

definition update_fence :: "runtime \<Rightarrow> runtime \<times> unit res" where
  "update_fence r =
     (case (rt_service r, rt_cluster r) of
        (Some s, Some c) \<Rightarrow>
          (case update_cluster_fence s (cl_id c) (ce_epoch (cl_epoch c)) (ce_token (cl_epoch c)) of
             (s', x) \<Rightarrow> (r\<lparr>rt_service := Some s'\<rparr>, x))
      | _ \<Rightarrow> (r, Inr ()))"

text \<open>The failover coordinator always has an epoch here: it is created from a cluster.\<close>

definition persist_failover_state :: "storage \<Rightarrow> runtime \<Rightarrow> role_state \<Rightarrow> runtime \<times> unit res" where
  "persist_failover_state st r s =
     sbind (r, require_cluster r) (\<lambda>r c.
       let c' = c\<lparr>cl_assignments := assignment_index (assignments s),
                  cl_epoch := (case epoch s of None \<Rightarrow> cl_epoch c | Some e \<Rightarrow> e),
                  cl_promotions := promotion_epochs s, cl_grants := capability_grants s\<rparr>;
           undo = (\<lambda>q. (set_cluster c q)\<lparr>rt_grants := rt_grants r\<rparr>)
       in sbind (saved_or st ((set_cluster c' r)\<lparr>rt_grants := capability_grants s\<rparr>) undo RuntimeError
                   ''failover state was not durably persisted'') (\<lambda>r _.
          sbind (update_fence r) (\<lambda>r _. sbind (hydrate_registry_membership r) (\<lambda>r _. refresh_live_grants r))))"

text \<open>
  A method of the coordinator hands at most one candidate to its callback, the state it would publish; \<open>commits\<close> says for
  which answers it does so. The method is run on an accepting store to learn the candidate, the callback decides.
\<close>

definition run_failover ::
  "storage \<Rightarrow> (role_store \<Rightarrow> failover_coordinator \<Rightarrow> failover_coordinator \<times> 'a res) \<Rightarrow> ('a \<Rightarrow> bool) \<Rightarrow> runtime \<Rightarrow> runtime \<times> 'a res" where
  "run_failover st method commits r =
     (case rt_failover r of
        None \<Rightarrow> (r, raise RuntimeError ''cluster failover is unavailable'')
      | Some fo \<Rightarrow>
          (case method (\<lambda>_. None) fo of
             (_, Inl e) \<Rightarrow> (r, Inl e)
           | (fo', Inr x) \<Rightarrow>
               if \<not> commits x then (r, Inr x)
               else sbind (persist_failover_state st r (fo_state fo')) (\<lambda>r _. (r\<lparr>rt_failover := Some fo'\<rparr>, Inr x))))"

definition rt_promote_if_due :: "storage \<Rightarrow> runtime \<Rightarrow> pyval \<Rightarrow> string \<Rightarrow> runtime \<times> bool res" where
  "rt_promote_if_due st r now tok = run_failover st (\<lambda>store fo. fo_promote_if_due store fo now tok) (\<lambda>b. b) r"

definition rt_heartbeat :: "storage \<Rightarrow> runtime \<Rightarrow> node_id \<Rightarrow> pyval \<Rightarrow> pyval \<Rightarrow> runtime \<times> bool res" where
  "rt_heartbeat st r n tok now = run_failover st (\<lambda>store fo. fo_heartbeat store fo n tok now) (\<lambda>b. b) r"

definition rt_rejoin_as_worker :: "storage \<Rightarrow> runtime \<Rightarrow> node_id \<Rightarrow> pyval \<Rightarrow> runtime \<times> unit res" where
  "rt_rejoin_as_worker st r n ep = run_failover st (\<lambda>store fo. fo_rejoin store fo n ep) (\<lambda>_. True) r"

definition rt_assign_role :: "storage \<Rightarrow> runtime \<Rightarrow> node_id \<Rightarrow> cluster_role \<Rightarrow> rat \<Rightarrow> runtime \<times> role_assignment res" where
  "rt_assign_role st r target role clock =
     sbind (r, require_cluster r) (\<lambda>r c.
     sbind (run_failover st (\<lambda>store fo. fo_assign_role store fo (cl_local_assignment c) target {role} (PFloat (Fin clock))) (\<lambda>_. True) r)
       (\<lambda>r change. (r, Inr (rc_assignment change))))"

definition rt_revoke_member :: "storage \<Rightarrow> runtime \<Rightarrow> node_id \<Rightarrow> runtime \<times> unit res" where
  "rt_revoke_member st r target =
     sbind (r, require_cluster r) (\<lambda>r c. run_failover st (\<lambda>store fo. fo_revoke_member store fo (cl_local_assignment c) target) (\<lambda>_. True) r)"

definition rt_create_invite :: "storage \<Rightarrow> runtime \<Rightarrow> node_id \<Rightarrow> rat \<Rightarrow> rat \<Rightarrow> string \<Rightarrow> runtime \<times> invite_record res" where
  "rt_create_invite st r target ttl now tok =
     sbind (r, require_cluster r) (\<lambda>r c.
       if ttl \<noteq> 300 then (r, raise ValueError ''custom invite TTL is not supported'')
       else case cl_create_invite c target now tok of
         (c', Inl e) \<Rightarrow> (set_cluster c' r, Inl e)
       | (c', Inr i) \<Rightarrow>
           sbind (saved_or st (set_cluster c' r) (\<lambda>q. set_cluster (c'\<lparr>cl_invites := dict_pop (iv_token i) (cl_invites c')\<rparr>) q) RuntimeError
                    ''cluster invite was not durably persisted'') (\<lambda>r _. (r, Inr i)))"

definition join_response_ok :: "node_id \<Rightarrow> invite_record \<Rightarrow> pyval \<Rightarrow> bool res" where
  "join_response_ok me i resp =
     (let expiry = fget resp ''expires_at''; ep = fget resp ''epoch'' in
      if dict_keys resp \<noteq> KStr ` {''target_node_id'', ''expires_at'', ''cluster_id'', ''coordinator_id'', ''epoch'', ''fencing_token''}
         \<or> fget resp ''target_node_id'' \<noteq> PStr (nid_value me) \<or> fget resp ''cluster_id'' \<noteq> PStr (iv_cluster i)
         \<or> fget resp ''coordinator_id'' \<noteq> PStr (iv_coordinator i) \<or> \<not> is_int ep \<or> int_of ep < 0 \<or> int_of ep \<noteq> iv_epoch i
         \<or> \<not> is_str (fget resp ''fencing_token'') \<or> str_of (fget resp ''fencing_token'') = []
         \<or> str_of (fget resp ''fencing_token'') \<noteq> iv_fence i \<or> \<not> is_number expiry
      then Inr False
      else rbind (py_float expiry) (\<lambda>f. Inr (f = Fin (iv_expires i))))"

text \<open>
  \<open>resp\<close> is what the coordinator's provider answers to \<open>consume_invite\<close>, \<open>peer\<close> the node the provider stands for. The
  pairing manager is required before the peer is looked at.
\<close>

definition rt_join_cluster :: "storage \<Rightarrow> runtime \<Rightarrow> node_id option \<Rightarrow> invite_record \<Rightarrow> pyval res \<Rightarrow> runtime \<times> pyval res" where
  "rt_join_cluster st r peer i resp =
     sbind (r, require_cluster r) (\<lambda>r c.
       if \<not> rt_loaded r then (r, raise RuntimeError ''runtime has not started'')
       else if (case peer of None \<Rightarrow> True | Some p \<Rightarrow> \<not> pm_can_join_cluster (rt_pairing r) p)
       then (r, raise PermissionError ''cluster Join requires an authenticated Pair'')
       else sbind (r, resp) (\<lambda>r v.
         if \<not> is_dict v then (r, raise TypeError ''cluster Join response is malformed'')
         else sbind (r, join_response_ok (cm_local (rt_cm r)) i v) (\<lambda>r ok.
           if \<not> ok then (r, raise ValueError ''cluster Join response is malformed'')
           else
             let me = cm_local (rt_cm r) in
             case rbind (mk_node_id (iv_coordinator i)) (\<lambda>n.
                    mk_epoch (iv_epoch i) n (iv_fence i) (Fin (ce_issued (cl_epoch c))) (Fin (ce_lease (cl_epoch c)))) of
               Inl e \<Rightarrow> (r, Inl e)
             | Inr ep \<Rightarrow>
                 let c' = c\<lparr>cl_id := iv_cluster i, cl_epoch := ep, cl_assignments := [(me, worker_assignment me)],
                            cl_online := [(me, True)], cl_promotions := {}, cl_grants := []\<rparr>
                 in (case save_persisted_state st (set_cluster c' r) of
                       (r1, Inl e) \<Rightarrow> (if isa e Exception then set_cluster c r1 else r1, Inl e)
                     | (r1, Inr False) \<Rightarrow> (set_cluster c r1, raise RuntimeError ''cluster join was not durably persisted'')
                     | (r1, Inr True) \<Rightarrow> sbind (hydrate_registry_membership r1) (\<lambda>r _. (r, Inr v))))))"

section \<open>Requests of other members\<close>

definition authorize_params :: "cluster \<Rightarrow> pyval \<Rightarrow> unit res" where
  "authorize_params c params =
     rbind (fitem params ''cluster_id'') (\<lambda>cid. rbind (fitem params ''epoch'') (\<lambda>ep. rbind (fitem params ''fencing_token'') (\<lambda>tok.
       if cid \<noteq> PStr (cl_id c) \<or> \<not> equals_int ep (ce_epoch (cl_epoch c)) then raise PermissionError ''stale coordinator authority''
       else if \<not> is_str tok then raise TypeError ''unsupported operand types''
       else rbind (compare_digest (str_of tok) (ce_token (cl_epoch c))) (\<lambda>same.
         ensure same PermissionError ''stale coordinator authority''))))"

definition node_param :: "pyval \<Rightarrow> string \<Rightarrow> node_id res" where
  "node_param params k =
     rbind (fitem params k) (\<lambda>v. if is_str v then mk_node_id (str_of v) else raise ValueError ''invalid node id'')"

definition ok_answer :: "(string \<times> pyval) list \<Rightarrow> pyval" where
  "ok_answer items = pdict ((''ok'', PBool True) # items)"

definition dispatch_consume_invite ::
  "storage \<Rightarrow> runtime \<Rightarrow> cluster \<Rightarrow> node_id \<Rightarrow> pyval \<Rightarrow> rat \<Rightarrow> rat \<Rightarrow> runtime \<times> pyval res" where
  "dispatch_consume_invite st r c caller params now clock =
     sbind (r, fitem params ''token'') (\<lambda>r tok.
     case cl_consume_invite c (str_of tok) caller now clock True of
       (c', Inl e) \<Rightarrow> (set_cluster c' r, Inl e)
     | (c', Inr i) \<Rightarrow>
         sbind (saved_or st (set_cluster c' r)
                  (\<lambda>q. set_cluster (c'\<lparr>cl_assignments := cl_assignments c, cl_online := cl_online c, cl_invites := cl_invites c,
                                       cl_admissions := cl_admissions c, cl_used := cl_used c\<rparr>) q)
                  RuntimeError ''cluster invite was not durably persisted'') (\<lambda>r _.
         sbind (r, invite_target_id i) (\<lambda>r target.
           (r, Inr (pdict [(''target_node_id'', PStr (nid_value target)), (''expires_at'', PFloat (Fin (iv_expires i))),
              (''cluster_id'', PStr (cl_id c')), (''coordinator_id'', PStr (nid_value (ce_coordinator (cl_epoch c')))),
              (''epoch'', PInt (ce_epoch (cl_epoch c'))), (''fencing_token'', PStr (ce_token (cl_epoch c')))])))))"

definition dispatch_renew :: "storage \<Rightarrow> runtime \<Rightarrow> cluster \<Rightarrow> node_id \<Rightarrow> pyval \<Rightarrow> rat \<Rightarrow> runtime \<times> pyval res" where
  "dispatch_renew st r c caller params now =
     (if caller \<noteq> ce_coordinator (cl_epoch c) then (r, raise PermissionError ''only the Coordinator may perform this operation'')
      else sbind (r, rbind (fitem params ''fencing_token'') (\<lambda>tok.
             renew_lease (cl_epoch c) caller tok (PFloat (Fin now)) (PFloat (Fin HEARTBEAT_TIMEOUT_SECONDS)))) (\<lambda>r e.
        let r1 = set_cluster (c\<lparr>cl_epoch := e\<rparr>) r in
        sbind (if rt_cluster_store r1
               then saved_or st r1 (\<lambda>q. set_cluster c q) RuntimeError ''coordinator lease was not durably persisted''
               else (r1, Inr ())) (\<lambda>r _.
        sbind (update_fence r) (\<lambda>r _.
          (r, Inr (ok_answer [(''cluster_id'', PStr (cl_id c)), (''epoch'', PInt (ce_epoch e)),
                 (''coordinator_id'', PStr (nid_value (ce_coordinator e)))]))))))"

text \<open>The common part of the requests that replace the role state: publish, save, or go back.\<close>

definition publish_roles :: "storage \<Rightarrow> runtime \<Rightarrow> cluster \<Rightarrow> role_state \<Rightarrow> string \<Rightarrow> runtime \<times> unit res" where
  "publish_roles st r c s msg =
     saved_or st ((set_cluster (c\<lparr>cl_assignments := assignment_index (assignments s), cl_grants := capability_grants s\<rparr>) r)
                    \<lparr>rt_grants := capability_grants s\<rparr>)
       (\<lambda>q. (set_cluster c q)\<lparr>rt_grants := rt_grants r\<rparr>) RuntimeError msg"

definition dispatch_assign ::
  "storage \<Rightarrow> runtime \<Rightarrow> cluster \<Rightarrow> role_state \<Rightarrow> role_assignment \<Rightarrow> node_id \<Rightarrow> pyval \<Rightarrow> rat \<Rightarrow> runtime \<times> pyval res" where
  "dispatch_assign st r c s actor caller params now =
     sbind (r, node_param params ''target_node_id'') (\<lambda>r target. sbind (r, fitem params ''roles'') (\<lambda>r roles.
       if caller \<noteq> ce_coordinator (cl_epoch c) \<or> length (list_of roles) \<noteq> 1
       then (r, raise PermissionError ''only the Coordinator may perform this operation'')
       else sbind (r, rbind (mk_role (str_of (hd (list_of roles)))) (\<lambda>role. role_assign s actor target {role} (PFloat (Fin now)))) (\<lambda>r x.
         sbind (publish_roles st r c (fst x) ''cluster role was not durably persisted'') (\<lambda>r _.
         sbind (hydrate_registry_membership r) (\<lambda>r _. sbind (refresh_live_grants r) (\<lambda>r _.
           (r, Inr (ok_answer [(''node_id'', PStr (nid_value target)), (''role'', hd (list_of roles))]))))))))"

definition member_transition :: "string \<Rightarrow> role_state \<Rightarrow> role_assignment \<Rightarrow> node_id \<Rightarrow> role_state res" where
  "member_transition op1 s actor target =
     (if op1 \<in> {''revoke_member'', ''revoke_worker''} then role_revoke s actor target
      else if op1 = ''pause_worker'' then role_pause s actor target
      else if op1 = ''resume_worker'' then role_resume s actor target
      else role_remove_job s actor target)"

definition dispatch_member ::
  "storage \<Rightarrow> runtime \<Rightarrow> cluster \<Rightarrow> role_state \<Rightarrow> role_assignment \<Rightarrow> string \<Rightarrow> pyval \<Rightarrow> runtime \<times> pyval res" where
  "dispatch_member st r c s actor op1 params =
     sbind (r, node_param params ''target_node_id'') (\<lambda>r target.
     sbind (r, member_transition op1 s actor target) (\<lambda>r s'.
     sbind (publish_roles st r c s' ''cluster role mutation was not durably persisted'') (\<lambda>r _.
     sbind (if op1 \<in> {''revoke_member'', ''revoke_worker''} then refresh_live_grants r else (r, Inr ())) (\<lambda>r _.
       (r, Inr (ok_answer [(''node_id'', PStr (nid_value target)),
              (''revoked'', PBool (op1 \<in> {''revoke_member'', ''revoke_worker''}))]))))))"

definition dispatch_remove_connection :: "runtime \<Rightarrow> cluster \<Rightarrow> node_id \<Rightarrow> pyval \<Rightarrow> rat \<Rightarrow> runtime \<times> pyval res" where
  "dispatch_remove_connection r c caller params now =
     sbind (r, node_param params ''target_node_id'') (\<lambda>r target.
       if caller \<noteq> ce_coordinator (cl_epoch c) \<and> caller \<noteq> target
       then (r, raise PermissionError ''only the Coordinator or target Worker may remove a connection'')
       else (if rt_managed r then r\<lparr>rt_cm := disconnect (rt_cm r) target ''removed by cluster operation'' now\<rparr> else r,
             Inr (ok_answer [(''node_id'', PStr (nid_value target)), (''connected'', PBool False)])))"

definition dispatch_capabilities ::
  "storage \<Rightarrow> runtime \<Rightarrow> cluster \<Rightarrow> role_state \<Rightarrow> role_assignment \<Rightarrow> node_id \<Rightarrow> string \<Rightarrow> pyval \<Rightarrow> rat \<Rightarrow> runtime \<times> pyval res" where
  "dispatch_capabilities st r c s actor caller op1 params now =
     (if caller \<noteq> ce_coordinator (cl_epoch c) then (r, raise PermissionError ''only the Coordinator may perform this operation'')
      else sbind (r, node_param params ''subject_node_id'') (\<lambda>r subject. sbind (r, node_param params ''target_node_id'') (\<lambda>r target.
        sbind (r, if op1 = ''revoke_capabilities'' then role_revoke_capabilities s actor subject target
                  else rbind (fitem params ''permissions'') (\<lambda>ps. rbind (rmap (\<lambda>v. mk_permission (str_of v)) (list_of ps)) (\<lambda>ps.
                    rbind (fitem params ''expires_at'') (\<lambda>x. rbind (py_float x) (\<lambda>x.
                      role_grant_capabilities s actor subject target (set ps) (Fin now) x))))) (\<lambda>r s'.
        sbind (saved_or st ((set_cluster (c\<lparr>cl_grants := capability_grants s'\<rparr>) r)\<lparr>rt_grants := capability_grants s'\<rparr>)
                 (\<lambda>q. (set_cluster c q)\<lparr>rt_grants := rt_grants r\<rparr>) RuntimeError ''capability mutation was not durably persisted'') (\<lambda>r _.
        sbind (refresh_live_grants r) (\<lambda>r _.
          (r, Inr (ok_answer [(''subject_node_id'', PStr (nid_value subject)), (''target_node_id'', PStr (nid_value target))]))))))))"

definition dispatch_role_request :: "storage \<Rightarrow> runtime \<Rightarrow> remote_request \<Rightarrow> rat \<Rightarrow> rat \<Rightarrow> runtime \<times> pyval res" where
  "dispatch_role_request st r q now clock =
     sbind (r, require_cluster r) (\<lambda>r c.
     case rq_caller q of
       None \<Rightarrow> (r, raise PermissionError ''cluster operation has no caller identity'')
     | Some caller \<Rightarrow>
         if rt_loaded r \<and> caller \<noteq> cm_local (rt_cm r) \<and> \<not> pm_can_join_cluster (rt_pairing r) caller
         then (r, raise PermissionError ''cluster operation requires an authenticated Pair'')
         else sbind (r, authorize_params c (rq_params q)) (\<lambda>r _.
           if rq_op q = ''consume_invite'' then dispatch_consume_invite st r c caller (rq_params q) now clock
           else case map_of (cl_assignments c) caller of
             None \<Rightarrow> (r, raise PermissionError ''caller is not a cluster member'')
           | Some actor \<Rightarrow>
               sbind (r, rs_post_init \<lparr>assignments = map snd (cl_assignments c), epoch = Some (cl_epoch c), promotion_epochs = {},
                          capability_grants = rt_grants r\<rparr>) (\<lambda>r s.
               if rq_op q = ''renew_coordinator_lease'' then dispatch_renew st r c caller (rq_params q) now
               else if rq_op q = ''assign_role'' then dispatch_assign st r c s actor caller (rq_params q) now
               else if rq_op q \<in> {''revoke_member'', ''revoke_worker'', ''pause_worker'', ''resume_worker'', ''remove_job''}
               then dispatch_member st r c s actor (rq_op q) (rq_params q)
               else if rq_op q = ''remove_connection'' then dispatch_remove_connection r c caller (rq_params q) now
               else if rq_op q \<in> {''grant_capabilities'', ''revoke_capabilities'', ''sync_capability_grant''}
               then dispatch_capabilities st r c s actor caller (rq_op q) (rq_params q) now
               else if rq_op q \<in> {''worker_snapshot'', ''standby_batch''}
               then (r, Inr (pdict [(''ok'', PBool False), (''supported'', PBool False), (''reason'', PStr ''host_supplied'')]))
               else (r, raise ValueError (''unsupported cluster operation: '' @ rq_op q)))))"

end
