(* ===== verification/WireLaws.thy ===== *)
theory WireLaws
  imports Wire
begin

text \<open>
  What the wire protocol guarantees: an accepted request carries the HMAC of its fields under the shared
  secret, is fresh and is recorded; what one side signs the other accepts; an accepted envelope is refused
  for ever after when the replay window covers both sides of the freshness window; and the parameters of a
  role operation carry a fence.
\<close>

section \<open>Signatures\<close>

lemma hexdigest_ascii [simp]: "is_ascii (hexdigest bs)"
proof -
  have "(of_char c :: nat) < 128" if "c \<in> set ''0123456789abcdef''" for c
    using that by auto
  with hexdigest_alphabet [of bs] show ?thesis
    by (auto simp: is_ascii_def list_all_iff)
qed

lemma verify_signature_Inr:
  "verify_signature canon sig secret doc kind = Inr u \<longleftrightarrow> signature canon secret doc = Inr sig"
  by (auto simp: verify_signature_def signature_def ok_simps split: sum.splits if_splits)

lemma finite_timestamp_Inr:
  "finite_timestamp v msg = Inr r \<longleftrightarrow> num_value v = Some r"
  by (cases v rule: num_value.cases) (auto simp: finite_timestamp_def ok_simps)

lemma verify_request_unrecorded_Inr:
  assumes "verify_request_unrecorded canon secret now freshness env = Inr r"
  shows "is_dict env" "is_str (fget env ''sig'')"
    "signature canon secret (unsigned_fields env) = Inr (str_of (fget env ''sig''))"
    "request_fields_checked env = Inr ()" "num_value (fget env ''ts'') = Some (rq_ts r)"
    "\<bar>now - rq_ts r\<bar> \<le> freshness"
    "NodeId (str_of (fget env ''node_id'')) = rq_node r" "nid_ok (rq_node r)"
    "rq_caller r = (if fget env ''caller_node_id'' = PNone then None
       else Some (NodeId (str_of (fget env ''caller_node_id''))))"
    "rq_op r = str_of (fget env ''op'')" "rq_params r = fget env ''params''"
    "rq_id r = str_of (fget env ''request_id'')" "rq_nonce r = str_of (fget env ''nonce'')"
  using assms
  by (auto simp: verify_request_unrecorded_def ok_simps verify_signature_Inr finite_timestamp_Inr
      split: if_splits sum.splits)

lemma verify_request_Inr:
  assumes "verify_request canon secret now freshness env cache = (cache', Inr r)"
  shows "verify_request_unrecorded canon secret now freshness env = Inr r"
    "check_and_record (nid_value (rq_node r), rq_id r, rq_nonce r) now cache = (cache', True)"
  using assms by (auto simp: verify_request_def split: sum.splits prod.splits if_splits)

section \<open>Properties\<close>

text \<open>
  A request \<open>verify_request\<close> returns is authentic: the envelope's \<open>sig\<close> is the HMAC-SHA-256, under the
  shared secret, of the canonical text of all its other fields; every field of the returned request is the
  field of that signed envelope; its timestamp lies within the freshness window around the clock reading;
  and its (node, request, nonce) triple was not in the cache and is recorded there now.
\<close>

theorem request_verified_sound:
  assumes "verify_request canon secret now freshness env cache = (cache', Inr r)"
  shows "(\<exists>text. canon (unsigned_fields env) = Inr text
            \<and> fget env ''sig'' = PStr (hexdigest (hmac_sha256 (utf8 secret) (utf8 text))))
    \<and> fget env ''node_id'' = PStr (nid_value (rq_node r)) \<and> nid_ok (rq_node r)
    \<and> rq_caller r = map_option NodeId (opt_str (fget env ''caller_node_id''))
    \<and> fget env ''op'' = PStr (rq_op r) \<and> fget env ''params'' = rq_params r \<and> is_dict (rq_params r)
    \<and> fget env ''request_id'' = PStr (rq_id r) \<and> fget env ''nonce'' = PStr (rq_nonce r)
    \<and> num_value (fget env ''ts'') = Some (rq_ts r) \<and> \<bar>now - rq_ts r\<bar> \<le> freshness
    \<and> map_of (rp_seen (replay_prune now cache)) (nid_value (rq_node r), rq_id r, rq_nonce r) = None
    \<and> map_of (rp_seen cache') (nid_value (rq_node r), rq_id r, rq_nonce r) = Some now"
proof -
  note v = verify_request_unrecorded_Inr [OF verify_request_Inr(1) [OF assms]]
  have str: "v = PStr (str_of v)" if "is_str v" for v using that by (cases v) auto
  have f: "is_str (fget env ''node_id'')" "is_str (fget env ''op'')" "is_dict (fget env ''params'')"
    "is_str (fget env ''request_id'')" "is_str (fget env ''nonce'')"
    using v(4) by (auto simp: request_fields_checked_def ok_simps valid_identifier_def)
  have recd: "map_of (rp_seen (replay_prune now cache)) (nid_value (rq_node r), rq_id r, rq_nonce r) = None
    \<and> map_of (rp_seen cache') (nid_value (rq_node r), rq_id r, rq_nonce r) = Some now"
    using verify_request_Inr(2) [OF assms] by (auto simp: check_and_record_def Let_def split: if_splits)
  obtain tx where "canon (unsigned_fields env) = Inr tx"
    "str_of (fget env ''sig'') = hexdigest (hmac_sha256 (utf8 secret) (utf8 tx))"
    using v(3) by (auto simp: signature_def ok_simps)
  with str [OF v(2)] have sig: "\<exists>text. canon (unsigned_fields env) = Inr text
      \<and> fget env ''sig'' = PStr (hexdigest (hmac_sha256 (utf8 secret) (utf8 text)))" by metis
  have n: "fget env ''node_id'' = PStr (nid_value (rq_node r))"
    using str [OF f(1)] v(7) by (metis node_id.sel)
  show ?thesis
    using sig n v(5,6,8-13) recd str [OF f(2)] str [OF f(4)] str [OF f(5)] f(3) by (simp add: opt_str_def)
qed

definition request_inputs_ok :: "string \<Rightarrow> pyval \<Rightarrow> string \<Rightarrow> string \<Rightarrow> string option \<Rightarrow> string option \<Rightarrow> bool \<Rightarrow> string option \<Rightarrow> bool" where
  "request_inputs_ok n params rid nonce caller session resume generation \<longleftrightarrow>
     nid_ok (NodeId n) \<and> is_dict params \<and> valid_identifier (PStr rid) \<and> valid_identifier (PStr nonce)
     \<and> (case caller of None \<Rightarrow> True | Some c \<Rightarrow> nid_ok (NodeId c))
     \<and> (case session of None \<Rightarrow> True | Some s \<Rightarrow> valid_identifier (PStr s))
     \<and> (case generation of None \<Rightarrow> True | Some g \<Rightarrow> valid_identifier (PStr g))"

lemma unsigned_fields_signed:
  assumes "''sig'' \<notin> fst ` set body"
  shows "unsigned_fields (pdict (body @ [(''sig'', v)])) = pdict body"
proof -
  have "filter (\<lambda>(k, v). k \<noteq> KStr ''sig'') (map (\<lambda>(k, v). (KStr k, v)) body) = map (\<lambda>(k, v). (KStr k, v)) body"
    using assms by (intro filter_True) force
  then show ?thesis by (simp add: unsigned_fields_def pdict_def)
qed

lemma request_accepted:
  assumes "sign_request canon n op1 params rid nonce ts secret caller session resume generation = Inr env"
    and "request_inputs_ok n params rid nonce caller session resume generation"
    and "\<bar>now - ts\<bar> \<le> freshness" "snd (check_and_record (n, rid, nonce) now cache)"
  shows "verify_request canon secret now freshness env cache =
    (fst (check_and_record (n, rid, nonce) now cache),
     Inr \<lparr>rq_node = NodeId n, rq_caller = map_option NodeId caller, rq_op = op1, rq_params = params, rq_id = rid,
          rq_nonce = nonce, rq_ts = ts, rq_session = session, rq_resume = (resume \<and> session \<noteq> None),
          rq_generation = generation\<rparr>)"
proof -
  define body where "body = [(''v'', PStr REMOTE_PROTOCOL_VERSION), (''node_id'', PStr n), (''op'', PStr op1),
            (''params'', params), (''request_id'', PStr rid), (''nonce'', PStr nonce), (''ts'', PFloat (Fin ts))]
          @ opt_field ''caller_node_id'' caller
          @ (case session of None \<Rightarrow> [] | Some x \<Rightarrow> [(''session_id'', PStr x), (''resume'', PBool resume)])
          @ opt_field ''connection_generation'' generation"
  from assms(1) obtain sig where sig: "signature canon secret (pdict body) = Inr sig"
      and env: "env = pdict (body @ [(''sig'', PStr sig)])"
    by (auto simp: sign_request_def body_def Let_def ok_simps)
  have nosig: "''sig'' \<notin> fst ` set body"
    by (auto simp: body_def opt_field_def split: option.splits)
  have keys: "dict_keys env \<subseteq> KStr ` request_envelope_fields"
    by (auto simp: dict_keys_def env pdict_def body_def opt_field_def request_envelope_fields_def split: option.splits)
  have look: "map_of (body @ [(''sig'', PStr sig)]) ''sig'' = Some (PStr sig)"
    using nosig map_of_eq_None_iff [of body "''sig''"] by (simp add: map_add_def)
  have f: "fget env ''v'' = PStr REMOTE_PROTOCOL_VERSION" "fget env ''node_id'' = PStr n" "fget env ''op'' = PStr op1"
    "fget env ''params'' = params" "fget env ''request_id'' = PStr rid" "fget env ''nonce'' = PStr nonce"
    "fget env ''ts'' = PFloat (Fin ts)" "fget env ''sig'' = PStr sig" "has_key env ''sig''" "is_dict env"
    "fget env ''caller_node_id'' = (case caller of None \<Rightarrow> PNone | Some c \<Rightarrow> PStr c)"
    "fget env ''session_id'' = (case session of None \<Rightarrow> PNone | Some c \<Rightarrow> PStr c)"
    "fget_or env ''resume'' (PBool False) = PBool (resume \<and> session \<noteq> None)"
    "fget env ''connection_generation'' = (case generation of None \<Rightarrow> PNone | Some c \<Rightarrow> PStr c)"
    using look by (auto simp: env body_def opt_field_def split: option.splits)
  have chk: "request_fields_checked env = Inr ()"
    using assms(2) by (auto simp: request_fields_checked_def f request_inputs_ok_def nid_ok_def ok_simps split: option.splits)
  have "verify_request_unrecorded canon secret now freshness env = Inr \<lparr>rq_node = NodeId n,
          rq_caller = map_option NodeId caller, rq_op = op1, rq_params = params, rq_id = rid, rq_nonce = nonce,
          rq_ts = ts, rq_session = session, rq_resume = (resume \<and> session \<noteq> None), rq_generation = generation\<rparr>"
    using assms(2,3) keys chk sig
    by (auto simp: verify_request_unrecorded_def f opt_str_def verify_signature_Inr env [symmetric]
        unsigned_fields_signed [OF nosig, of "PStr sig", folded env] finite_timestamp_def mk_node_id_if
        request_inputs_ok_def verify_signature_def ok_simps signature_def split: option.splits)
  then show ?thesis using assms(4)
    by (cases "check_and_record (n, rid, nonce) now cache") (simp add: verify_request_def)
qed

text \<open>
  What \<open>sign_request\<close> signs \<open>verify_request\<close> accepts: for well-formed identifiers, an object of
  parameters and a timestamp within the window, verification with the same secret returns exactly the
  request that was signed, provided the cache has not recorded it and has room.
\<close>

theorem request_roundtrip:
  assumes "sign_request canon n op1 params rid nonce ts secret caller session resume generation = Inr env"
    and "request_inputs_ok n params rid nonce caller session resume generation"
    and "\<bar>now - ts\<bar> \<le> freshness" "snd (check_and_record (n, rid, nonce) now cache)"
  shows "verify_request canon secret now freshness env cache =
    (fst (check_and_record (n, rid, nonce) now cache),
     Inr \<lparr>rq_node = NodeId n, rq_caller = map_option NodeId caller, rq_op = op1, rq_params = params, rq_id = rid,
          rq_nonce = nonce, rq_ts = ts, rq_session = session, rq_resume = (resume \<and> session \<noteq> None),
          rq_generation = generation\<rparr>)"
  using assms by (rule request_accepted)

text \<open>The signed ping of one node to another, and a cache that has seen nothing.\<close>

definition demo_canon :: "pyval \<Rightarrow> string res" where
  "demo_canon d = Inr (show_nat (length (dict_items d)))"

definition demo_envelope :: pyval where
  "demo_envelope = (case sign_request demo_canon ''b'' ''ping'' (PDict []) ''r-1'' ''n-1'' 100 ''key'' (Some ''a'') None False None of
     Inl _ \<Rightarrow> PNone | Inr env \<Rightarrow> env)"

lemma demo_signed:
  "sign_request demo_canon ''b'' ''ping'' (PDict []) ''r-1'' ''n-1'' 100 ''key'' (Some ''a'') None False None
     = Inr demo_envelope"
  by (simp add: demo_envelope_def sign_request_def Let_def signature_def demo_canon_def split: sum.splits)

lemma demo_inputs_ok: "request_inputs_ok ''b'' (PDict []) ''r-1'' ''n-1'' (Some ''a'') None False None"
  by (simp add: request_inputs_ok_def nid_ok_def valid_identifier_def MAX_IDENTIFIER_LENGTH_def str_isalnum_def)

lemma demo_fresh: "snd (check_and_record (''b'', ''r-1'', ''n-1'') 110 (replay_new 300 4096))"
  by (simp add: check_and_record_def replay_prune_def replay_new_def Let_def)

theorem request_roundtrip_witness:
  "rq_op (case snd (verify_request demo_canon ''key'' 110 60 demo_envelope (replay_new 300 4096)) of Inr r \<Rightarrow> r) = ''ping''"
  using request_roundtrip [OF demo_signed demo_inputs_ok _ demo_fresh, of 60] by simp

lemma demo_accepted: "\<exists>c r. verify_request demo_canon ''key'' 110 60 demo_envelope (replay_new 300 4096) = (c, Inr r)"
proof -
  obtain c r where v: "verify_request demo_canon ''key'' 110 60 demo_envelope (replay_new 300 4096) = (c, r)"
    by (cases "verify_request demo_canon ''key'' 110 60 demo_envelope (replay_new 300 4096)")
  moreover have "\<exists>x. r = Inr x"
    using request_accepted [OF demo_signed demo_inputs_ok _ demo_fresh, of 60] v by auto
  ultimately show ?thesis by blast
qed

theorem request_verified_sound_witness:
  "\<exists>c r. verify_request demo_canon ''key'' 110 60 demo_envelope (replay_new 300 4096) = (c, Inr r)
     \<and> fget demo_envelope ''op'' = PStr (rq_op r) \<and> \<bar>110 - rq_ts r\<bar> \<le> 60"
proof -
  obtain c r where v: "verify_request demo_canon ''key'' 110 60 demo_envelope (replay_new 300 4096) = (c, Inr r)"
    using demo_accepted by blast
  from request_verified_sound [OF v] v show ?thesis by blast
qed

text \<open>
  C29. An accepted envelope is never accepted again. When the replay window is at least twice the freshness
  window (as with the defaults of 300 and 60 seconds) and no clock reading of the requests in between is later
  than the second presentation, the same envelope is refused at every later time: inside the replay window
  because it is recorded, and after it because its timestamp has gone stale.
\<close>

theorem accepted_once:
  assumes "replay_inv cache" "2 * freshness \<le> rp_ttl cache"
    and "verify_request canon secret now freshness env cache = (cache1, Inr r)"
    and "\<forall>(k, t) \<in> set ops. t \<le> now'"
  shows "\<exists>e. snd (verify_request canon secret' now' freshness env (once_run check_and_record cache1 ops)) = Inl e"
proof (rule ccontr)
  let ?k = "(nid_value (rq_node r), rq_id r, rq_nonce r)" and ?c = "once_run check_and_record cache1 ops"
  assume "\<not> ?thesis"
  then obtain c r' where v': "verify_request canon secret' now' freshness env ?c = (c, Inr r')"
    by (metis sum.exhaust surjective_pairing)
  note u = verify_request_unrecorded_Inr [OF verify_request_Inr(1) [OF assms(3)]]
  note u' = verify_request_unrecorded_Inr [OF verify_request_Inr(1) [OF v']]
  have same: "rq_ts r' = rq_ts r" "(nid_value (rq_node r'), rq_id r', rq_nonce r') = ?k"
    using u(5,7,12,13) u'(5,7,12,13) by auto
  have near: "now' - now \<le> rp_ttl cache" using u(6) u'(6) same(1) assms(2) by linarith
  have c: "cache1 = fst (check_and_record ?k now cache)" "snd (check_and_record ?k now cache)"
    using verify_request_Inr(2) [OF assms(3)] by auto
  have "\<forall>(k, t) \<in> set ops. t - now \<le> rp_ttl cache" using assms(4) near by fastforce
  then have "\<not> snd (check_and_record ?k now' ?c)"
    unfolding c(1) by (rule seen_once.never_twice [OF assms(1) c(2) _ near])
  then show False using verify_request_Inr(2) [OF v'] same(2) by simp
qed

theorem accepted_once_witness:
  "\<exists>c r e. verify_request demo_canon ''key'' 110 60 demo_envelope (replay_new 300 4096) = (c, Inr r)
     \<and> snd (verify_request demo_canon ''key'' 120 60 demo_envelope
          (once_run check_and_record c [((''b'', ''q'', ''m''), 115)])) = Inl e"
proof -
  obtain c r where v: "verify_request demo_canon ''key'' 110 60 demo_envelope (replay_new 300 4096) = (c, Inr r)"
    using demo_accepted by blast
  have "\<exists>e. snd (verify_request demo_canon ''key'' 120 60 demo_envelope
      (once_run check_and_record c [((''b'', ''q'', ''m''), 115)])) = Inl e"
    by (rule accepted_once [OF replay_new_inv _ v]) (simp_all add: replay_new_def)
  with v show ?thesis by blast
qed

text \<open>
  Parameters pass validation only for an allow-listed operation and only as an object, and the parameters of
  every role operation carry a complete fence: a non-empty cluster identity and fencing token and an epoch that is
  a non-negative integer (not a boolean). An operation without parameters passes with the empty object only.
\<close>

theorem params_allowlisted:
  assumes "validate_operation_params dumps op1 params = Inr ()"
  shows "OP_REQUIRED_CAPABILITY op1 \<noteq> None \<and> OPERATION_SAFETY op1 \<noteq> None \<and> is_dict params
    \<and> (op1 \<in> NO_PARAM_OPERATIONS \<longrightarrow> params = PDict [])
    \<and> (op1 \<in> ROLE_OPERATIONS \<longrightarrow>
         (\<exists>cid e tok. fget params ''cluster_id'' = PStr cid \<and> cid \<noteq> [] \<and> fget params ''epoch'' = PInt e \<and> 0 \<le> e
            \<and> fget params ''fencing_token'' = PStr tok \<and> tok \<noteq> []))"
proof -
  have a: "OP_REQUIRED_CAPABILITY op1 \<noteq> None" "is_dict params"
    using assms by (auto simp: validate_operation_params_def split: if_splits)
  have "params = PDict []" if "op1 \<in> NO_PARAM_OPERATIONS"
    using assms that a by (cases params) (auto simp: validate_operation_params_def ok_simps split: if_splits)
  moreover have "role_params_checked dumps op1 params = Inr ()" if "op1 \<in> ROLE_OPERATIONS"
  proof -
    have "op1 \<notin> NO_PARAM_OPERATIONS" "op1 \<noteq> ''capability_request''" "op1 \<notin> SURFACE_OPERATIONS" "op1 \<noteq> ''component_summary''"
        "op1 \<notin> {''process_request_quit'', ''process_force_quit''}"
      using that by (auto simp: ROLE_OPERATIONS_def NO_PARAM_OPERATIONS_def SURFACE_OPERATIONS_def)
    then show ?thesis using assms a that by (simp add: validate_operation_params_def split: if_splits)
  qed
  then have "\<exists>cid e tok. fget params ''cluster_id'' = PStr cid \<and> cid \<noteq> [] \<and> fget params ''epoch'' = PInt e \<and> 0 \<le> e
            \<and> fget params ''fencing_token'' = PStr tok \<and> tok \<noteq> []" if "op1 \<in> ROLE_OPERATIONS"
  proof -
    have f: "text_field params ''cluster_id''" "text_field params ''fencing_token''" "is_int (fget params ''epoch'')"
        "0 \<le> int_of (fget params ''epoch'')"
      using \<open>op1 \<in> ROLE_OPERATIONS \<Longrightarrow> role_params_checked dumps op1 params = Inr ()\<close> [OF that]
      unfolding role_params_checked_def by (auto split: if_splits)
    then show ?thesis
      by (cases "fget params ''cluster_id''"; cases "fget params ''fencing_token''"; cases "fget params ''epoch''")
        (auto simp: text_field_def)
  qed
  ultimately show ?thesis using a by (auto simp: OPERATION_SAFETY_def)
qed

theorem params_allowlisted_witness:
  "validate_operation_params demo_canon ''ping'' (PDict []) = Inr () \<and> OPERATION_SAFETY ''ping'' \<noteq> None
   \<and> validate_operation_params demo_canon ''remove_job'' (pdict [(''cluster_id'', PStr ''k''), (''epoch'', PInt 1),
        (''fencing_token'', PStr ''t''), (''target_node_id'', PStr ''b'')]) = Inr ()"
proof -
  have p: "validate_operation_params demo_canon ''ping'' (PDict []) = Inr ()"
    by (simp add: validate_operation_params_def OP_REQUIRED_CAPABILITY_def NO_PARAM_OPERATIONS_def)
  have "validate_operation_params demo_canon ''remove_job'' (pdict [(''cluster_id'', PStr ''k''), (''epoch'', PInt 1),
        (''fencing_token'', PStr ''t''), (''target_node_id'', PStr ''b'')]) = Inr ()"
    by (simp add: validate_operation_params_def OP_REQUIRED_CAPABILITY_def NO_PARAM_OPERATIONS_def ROLE_OPERATIONS_def
        SURFACE_OPERATIONS_def role_params_checked_def text_field_def)
  with p params_allowlisted [OF p] show ?thesis by blast
qed

text \<open>
  \<open>_validate_secret\<close> of the wire protocol counts characters, not bytes: whitespace, which \<open>bytes.fromhex\<close> skips,
  passes for key material.
\<close>

lemma fromhex_length_spaces: "fromhex_length (replicate n (CHR '' '')) = Some 0"
proof (induction n rule: less_induct)
  case (less n)
  show ?case
  proof (cases n)
    case (Suc m)
    then show ?thesis using less [of m] by (cases m) (simp_all add: ascii_space_def)
  qed simp
qed

lemma blank_secret_accepted: "validate_secret (PStr (replicate 64 (CHR '' ''))) = Inr ()"
  by (simp add: validate_secret_def fromhex_length_spaces)

end
