(* ===== verification/ServiceLaws.thy ===== *)
theory ServiceLaws
  imports Service WireLaws
begin

text \<open>
  What the service guarantees about a request it answers with \<open>ok\<close>, and that the fence of a cluster never moves
  back.
\<close>

section \<open>The fence\<close>

definition fence_step :: "string \<Rightarrow> remote_service \<Rightarrow> int \<times> string \<Rightarrow> remote_service" where
  "fence_step cid s x = fst (update_cluster_fence s cid (fst x) (snd x))"

definition fence_of :: "string \<Rightarrow> remote_service \<Rightarrow> bool" where
  "fence_of cid s \<longleftrightarrow> sv_cluster_id s = Some cid \<and> sv_epoch s \<noteq> None"

interpretation fence_runs: monotone_system "fence_step cid" "fence_of cid" "\<lambda>s. the (sv_epoch s)"
  by unfold_locales (auto simp: fence_step_def fence_of_def update_cluster_fence_def Let_def)

lemma fence_step_token:
  "fence_of cid s \<Longrightarrow> sv_epoch (fence_step cid s x) = sv_epoch s \<Longrightarrow> sv_token (fence_step cid s x) = sv_token s"
  by (auto simp: fence_step_def fence_of_def update_cluster_fence_def Let_def split: if_splits)

lemma fence_run_token:
  "fence_of cid s \<Longrightarrow> sv_epoch (foldl (fence_step cid) s ops) = sv_epoch s \<Longrightarrow>
   sv_token (foldl (fence_step cid) s ops) = sv_token s"
proof (induction ops arbitrary: s)
  case (Cons x ops)
  let ?s = "fence_step cid s x"
  have i: "fence_of cid ?s" using Cons.prems(1) by (rule fence_runs.step_inv)
  have "the (sv_epoch s) \<le> the (sv_epoch ?s)" using Cons.prems(1) by (rule fence_runs.step_mono)
  moreover have "the (sv_epoch ?s) \<le> the (sv_epoch (foldl (fence_step cid) ?s ops))" using i by (rule fence_runs.run_mono)
  ultimately have "sv_epoch ?s = sv_epoch s" using Cons.prems i by (auto simp: fence_of_def)
  with Cons i fence_step_token [OF Cons.prems(1)] show ?case by simp
qed simp

text \<open>
  Once a service has the fence of a cluster, no sequence of updates for that cluster takes the epoch back, and
  two Coordinators never share an epoch: while the epoch stays, the fencing token stays. From then on every role
  request that names an earlier epoch is refused.
\<close>

theorem fence_never_back:
  assumes "sv_cluster_id s = Some cid" "sv_epoch s = Some e" "s' = foldl (fence_step cid) s ops"
  shows "\<exists>e'. sv_cluster_id s' = Some cid \<and> sv_epoch s' = Some e' \<and> e \<le> e' \<and> (e' = e \<longrightarrow> sv_token s' = sv_token s)
    \<and> (\<forall>q j. fget (rq_params q) ''epoch'' = PInt j \<longrightarrow> j < e \<longrightarrow> (\<exists>x. verify_role_fence pyrepr s' q = Inl x))"
proof -
  have i: "fence_of cid s" using assms by (simp add: fence_of_def)
  then have "fence_of cid s'" "the (sv_epoch s) \<le> the (sv_epoch s')"
    unfolding assms(3) by (rule fence_runs.run_inv, rule fence_runs.run_mono)
  then obtain e' where e: "sv_cluster_id s' = Some cid" "sv_epoch s' = Some e'" "e \<le> e'"
    using assms(2) by (auto simp: fence_of_def)
  moreover have "sv_token s' = sv_token s" if "e' = e"
    using fence_run_token [OF i, of ops] assms e that by simp
  moreover have "\<exists>x. verify_role_fence pyrepr s' q = Inl x" if "fget (rq_params q) ''epoch'' = PInt j" "j < e" for q j
    using that e by (simp add: verify_role_fence_def Let_def raise_def)
  ultimately show ?thesis by blast
qed

section \<open>Answers\<close>

lemma assert_current_Inr: "assert_current r sid g t = (r', Inr u) \<Longrightarrow> r' = r"
  by (auto simp: assert_current_def split: sum.splits option.splits if_splits)

lemma session_current_Inr:
  "session_current s sid g t = (s', Inr u) \<Longrightarrow> s' = s \<and> snd (assert_current (sv_sessions s) sid g t) = Inr ()"
  using assert_current_Inr [of "sv_sessions s" sid g t] by (auto simp: session_current_def split: prod.splits)

lemma snapshot_Inr:
  "assert_grant_snapshot_current s g v now = Inr u \<longleftrightarrow> v = sv_version s \<and> (\<forall>x. g = Some x \<longrightarrow> \<not> grant_expired now x)"
  by (auto simp: assert_grant_snapshot_current_def split: option.splits if_splits)

lemma authorize_request_Inr:
  assumes "authorize_request dumps s q g now = Inr cg"
  shows "\<exists>p. OP_REQUIRED_PERMISSION (rq_op q) = Some p \<and> p \<in> (case g of None \<Rightarrow> sv_permissions s | Some x \<Rightarrow> sgr_permissions x)
    \<and> (\<forall>x. find_cluster_grant s q now = Some x \<longrightarrow> p \<in> cg_permissions x)"
proof -
  obtain c p where o: "OP_REQUIRED_CAPABILITY (rq_op q) = Some c" "OP_REQUIRED_PERMISSION (rq_op q) = Some p"
    using assms by (auto simp: authorize_request_def split: option.splits)
  then have "p \<in> (case find_cluster_grant s q now of
      None \<Rightarrow> (case g of None \<Rightarrow> sv_permissions s | Some x \<Rightarrow> sgr_permissions x)
    | Some x \<Rightarrow> (case g of None \<Rightarrow> sv_permissions s | Some x \<Rightarrow> sgr_permissions x) \<inter> cg_permissions x)"
    using assms unfolding authorize_request_def Let_def by (auto split: if_splits)
  with o(2) show ?thesis by (auto split: option.splits)
qed

lemma verify_or_retry_Inr:
  assumes "verify_or_retry canon s secret env now = (s1, Inr q)"
  shows "(\<exists>c c'. verify_request canon secret now (sv_freshness s) env c = (c', Inr q)) \<and> (\<exists>c. s1 = s\<lparr>sv_replay := c\<rparr>)"
proof -
  obtain c r where v: "verify_request canon secret now (sv_freshness s) env (sv_replay s) = (c, r)"
    by (cases "verify_request canon secret now (sv_freshness s) env (sv_replay s)")
  obtain c2 r2 where w: "verify_request canon secret now (sv_freshness s) env
      (replay_new DEFAULT_REPLAY_TTL_SECONDS DEFAULT_REPLAY_MAX_ENTRIES) = (c2, r2)"
    by (cases "verify_request canon secret now (sv_freshness s) env
      (replay_new DEFAULT_REPLAY_TTL_SECONDS DEFAULT_REPLAY_MAX_ENTRIES)")
  have "r = Inr q \<or> r2 = Inr q" "s1 = s\<lparr>sv_replay := c\<rparr>"
    using assms v w by (auto simp: verify_or_retry_def split: sum.splits if_splits)
  then show ?thesis using v w by blast
qed

lemma handle_begin_Inr:
  assumes "handle_begin canon pyrepr s loaded generation now tick draws = (s1, Inr ha)"
  shows "\<exists>env c c'. loaded = Inr env \<and> select_credential s env now = Inr (ha_secret ha, ha_grant ha)
    \<and> ha_version ha = sv_version s \<and> verify_request canon (ha_secret ha) now (sv_freshness s) env c = (c', Inr (ha_request ha))
    \<and> rq_node (ha_request ha) = sv_node s \<and> (\<forall>n. sv_expected s = Some n \<longrightarrow> rq_caller (ha_request ha) = Some n)"
proof -
  obtain env where env: "loaded = Inr env" using assms by (cases loaded) (auto simp: handle_begin_def split: if_splits)
  have "sbind (s, select_credential s env now) f = (s1, Inr ha) \<Longrightarrow>
      \<exists>secret g. select_credential s env now = Inr (secret, g) \<and> f s (secret, g) = (s1, Inr ha)" for f
    by (auto simp: ok_simps)
  from this [OF assms [unfolded handle_begin_def env sum.case]] obtain secret g s2 q
    where c: "select_credential s env now = Inr (secret, g)"
      and v: "verify_or_retry canon s secret env now = (s2, Inr q)"
      and rest: "(if (case sv_expected s2 of None \<Rightarrow> False | Some n \<Rightarrow> rq_caller q \<noteq> Some n)
          then (s2, raise RemoteAuthError ''request caller identity is invalid'')
          else if rq_node q \<noteq> sv_node s2 then (s2, raise RemoteAuthError ''request target identity is invalid'')
          else sbind (open_session s2 q generation tick draws) (\<lambda>t sid.
          sbind (t, fence_checked pyrepr t q) (\<lambda>t _.
          (t, Inr \<lparr>ha_request = q, ha_grant = g, ha_version = sv_version s, ha_secret = secret, ha_session = sid\<rparr>)))) = (s1, Inr ha)"
    by (auto simp: ok_simps Let_def)
  have s2: "sv_expected s2 = sv_expected s" "sv_node s2 = sv_node s"
    using verify_or_retry_Inr [OF v] by auto
  have ha: "ha_request ha = q" "ha_grant ha = g" "ha_version ha = sv_version s" "ha_secret ha = secret"
    "rq_node q = sv_node s" "\<forall>n. sv_expected s = Some n \<longrightarrow> rq_caller q = Some n"
    using rest by (auto simp: ok_simps s2 split: if_splits option.splits)
  show ?thesis using verify_or_retry_Inr [OF v] env c ha by blast
qed

lemma handle_guarded_Inr:
  assumes "handle_guarded dumps pyrepr ho s ha fp generation now later tick' = Some (s2, Inr v)"
  shows "fence_checked pyrepr s2 (ha_request ha) = Inr () \<and> (\<exists>sid. snd (assert_current (sv_sessions s2) sid generation tick') = Inr ())
    \<and> assert_grant_snapshot_current s2 (ha_grant ha) (ha_version ha) later = Inr ()
    \<and> (\<exists>cg. authorize_request dumps s2 (ha_request ha) (ha_grant ha) later = Inr cg)"
proof -
  let ?checks = "(\<lambda>s now. rbind (assert_grant_snapshot_current s (ha_grant ha) (ha_version ha) now)
      (\<lambda>_. authorize_request dumps s (ha_request ha) (ha_grant ha) now))"
  obtain m where "sbind m (\<lambda>s v. sbind (s, fence_checked pyrepr s (ha_request ha)) (\<lambda>s _.
      sbind (session_current s (ha_session ha) generation tick') (\<lambda>s _. sbind (s, ?checks s later) (\<lambda>s _. (s, Inr v))))) = (s2, Inr v)"
    using assms unfolding handle_guarded_def Let_def by (auto split: sum.splits)
  then obtain s3 where c: "fence_checked pyrepr s3 (ha_request ha) = Inr ()"
      and e: "session_current s3 (ha_session ha) generation tick' = (s2, Inr ())" and k: "\<exists>x. ?checks s2 later = Inr x"
    by (auto simp: ok_simps)
  then show ?thesis using session_current_Inr [OF e] by (auto simp: ok_simps)
qed

lemma respond_ok:
  assumes "respond canon dumps ho s ha generation later outcome = (s', Inr resp)" "fget resp ''status'' = PStr ''ok''"
  shows "(\<exists>v. outcome = Inr v) \<and> (rq_op (ha_request ha) \<noteq> ''revoke_self'' \<longrightarrow> s' = s)"
proof -
  have st: "fget r ''status'' = PStr status" if "sign_response canon n rid status sec ts p err sess g = Inr r"
    for n rid status sec ts p err sess g r
    using that by (auto simp: sign_response_def Let_def ok_simps opt_field_def split: if_splits option.splits)
  show ?thesis
  proof (cases outcome)
    case (Inl e)
    then show ?thesis using assms st by (fastforce simp: respond_def Let_def split: option.splits)
  next
    case (Inr v)
    then show ?thesis using assms by (auto simp: respond_def Let_def ok_simps split: option.splits)
  qed
qed

text \<open>The request is what the envelope says.\<close>

definition carries :: "pyval \<Rightarrow> remote_request \<Rightarrow> bool" where
  "carries env q \<longleftrightarrow> fget env ''node_id'' = PStr (nid_value (rq_node q)) \<and> rq_caller q = map_option NodeId (opt_str (fget env ''caller_node_id''))
     \<and> fget env ''op'' = PStr (rq_op q) \<and> fget env ''params'' = rq_params q \<and> fget env ''request_id'' = PStr (rq_id q)
     \<and> fget env ''nonce'' = PStr (rq_nonce q) \<and> num_value (fget env ''ts'') = Some (rq_ts q)
     \<and> rq_session q = opt_str (fget env ''session_id'') \<and> rq_resume q = bool_of (fget_or env ''resume'' (PBool False))
     \<and> rq_generation q = opt_str (fget env ''connection_generation'')"

lemma verified_carries:
  assumes "verify_request canon secret now freshness env cache = (cache', Inr q)"
  shows "carries env q \<and> (\<exists>text. canon (unsigned_fields env) = Inr text
      \<and> fget env ''sig'' = PStr (hexdigest (hmac_sha256 (utf8 secret) (utf8 text)))) \<and> \<bar>now - rq_ts q\<bar> \<le> freshness"
proof -
  have "rq_session q = opt_str (fget env ''session_id'') \<and> rq_resume q = bool_of (fget_or env ''resume'' (PBool False))
      \<and> rq_generation q = opt_str (fget env ''connection_generation'')"
    using verify_request_Inr(1) [OF assms] by (auto simp: verify_request_unrecorded_def ok_simps split: if_splits sum.splits)
  with request_verified_sound [OF assms] show ?thesis by (simp add: carries_def)
qed

text \<open>The session the request was admitted in is one its connection and caller authenticated for.\<close>

lemma begin_opens_session:
  assumes "handle_begin canon pyrepr s loaded generation now tick draws = (s1, Inr ha)"
  shows "snd (authenticate (sv_sessions s) (ha_request ha) generation tick draws) = Inr (ha_session ha)"
proof -
  have v: "sv_sessions u = sv_sessions s" if "verify_or_retry canon s secret env now = (u, x)" for u secret env x
    using that by (auto simp: verify_or_retry_def split: prod.splits)
  show ?thesis
    using assms by (auto simp: handle_begin_def Let_def ok_simps open_session_def split: sum.splits if_splits prod.splits dest!: v)
qed

lemma handle_guarded_session:
  assumes "handle_guarded dumps pyrepr ho s ha fp generation now later tick' = Some (s2, Inr v)"
  shows "snd (assert_current (sv_sessions s2) (ha_session ha) generation tick') = Inr ()"
proof -
  let ?checks = "(\<lambda>s now. rbind (assert_grant_snapshot_current s (ha_grant ha) (ha_version ha) now)
      (\<lambda>_. authorize_request dumps s (ha_request ha) (ha_grant ha) now))"
  obtain m where "sbind m (\<lambda>s v. sbind (s, fence_checked pyrepr s (ha_request ha)) (\<lambda>s _.
      sbind (session_current s (ha_session ha) generation tick') (\<lambda>s _. sbind (s, ?checks s later) (\<lambda>s _. (s, Inr v))))) = (s2, Inr v)"
    using assms unfolding handle_guarded_def Let_def by (auto split: sum.splits)
  then obtain s3 where e: "session_current s3 (ha_session ha) generation tick' = (s2, Inr ())" by (auto simp: ok_simps)
  then show ?thesis using session_current_Inr [OF e] by auto
qed

lemma respond_names:
  assumes "respond canon dumps ho s ha generation later outcome = (s', Inr resp)" "fget resp ''status'' = PStr ''ok''"
  shows "\<exists>n. fget resp ''node_id'' = PStr n \<and> fget resp ''request_id'' = PStr (rq_id (ha_request ha))
    \<and> fget resp ''session_id'' = PStr (ha_session ha)"
proof -
  have st: "fget r ''node_id'' = PStr n \<and> fget r ''request_id'' = PStr rid \<and> fget r ''session_id'' = PStr sess"
    if "sign_response canon n rid status sec ts p err (Some sess) g = Inr r" for n rid status sec ts p err sess g r
    using that by (auto simp: sign_response_def Let_def ok_simps opt_field_def split: if_splits option.splits)
  show ?thesis
    using assms(1) st by (fastforce simp: respond_def Let_def ok_simps split: sum.splits option.splits if_splits)
qed

text \<open>
  C2. A result leaves the service only for an authentic request that is still authorized when the result is ready.
  If \<open>handle\<close> answers \<open>ok\<close>, whatever the host's code and other threads did to the service in the meantime, then the
  request it handled is the one the envelope carries, field by field (node, caller, operation, parameters, request id,
  nonce, time, session, generation), and the answer names its id; the envelope carries the HMAC of its fields under the
  secret of the caller's grant (or the service's own); it was fresh, addressed to this node and came from the expected
  caller, where there is one; it was admitted to the session that the answer names; the grant had not expired before or
  after; no grant was replaced in between (the version is the same at the end); at the end the caller still holds the
  permission the operation needs, also within any live cluster grant; the fence still admits a role operation; and the
  connection that sent the request still is the current one of that session.
\<close>

theorem answer_authorized:
  assumes "handle canon dumps pyrepr ho s loaded generation now tick draws later tick' = Some (s', Inr resp)"
    and "fget resp ''status'' = PStr ''ok''"
  shows "\<exists>env q g secret p sid s2. loaded = Inr env \<and> select_credential s env now = Inr (secret, g)
    \<and> (\<exists>text. canon (unsigned_fields env) = Inr text
          \<and> fget env ''sig'' = PStr (hexdigest (hmac_sha256 (utf8 secret) (utf8 text))))
    \<and> carries env q \<and> \<bar>now - rq_ts q\<bar> \<le> sv_freshness s \<and> rq_node q = sv_node s
    \<and> (\<forall>n. sv_expected s = Some n \<longrightarrow> rq_caller q = Some n)
    \<and> snd (authenticate (sv_sessions s) q generation tick draws) = Inr sid
    \<and> fget resp ''request_id'' = fget env ''request_id'' \<and> fget resp ''session_id'' = PStr sid
    \<and> (rq_op q \<noteq> ''revoke_self'' \<longrightarrow> s' = s2) \<and> sv_version s2 = sv_version s
    \<and> (\<forall>x. g = Some x \<longrightarrow> \<not> grant_expired later x)
    \<and> OP_REQUIRED_PERMISSION (rq_op q) = Some p
    \<and> p \<in> (case g of None \<Rightarrow> sv_permissions s2 | Some x \<Rightarrow> sgr_permissions x)
    \<and> (\<forall>x. find_cluster_grant s2 q later = Some x \<longrightarrow> p \<in> cg_permissions x)
    \<and> (rq_op q \<in> ROLE_OPERATIONS \<longrightarrow> verify_role_fence pyrepr s2 q = Inr ())
    \<and> snd (assert_current (sv_sessions s2) sid generation tick') = Inr ()"
proof -
  obtain s1 b where hb: "handle_begin canon pyrepr s loaded generation now tick draws = (s1, b)"
    by (cases "handle_begin canon pyrepr s loaded generation now tick draws")
  obtain ha where b: "b = Inr ha" using assms(1) hb by (cases b) (auto simp: handle_def)
  let ?fp = "canon (pdict [(''op'', PStr (rq_op (ha_request ha))), (''params'', rq_params (ha_request ha))])"
  obtain fp where fp: "?fp = Inr fp" using assms(1) hb b by (cases ?fp) (auto simp: handle_def)
  obtain s2 r where hg: "handle_guarded dumps pyrepr ho s1 ha fp generation now later tick' = Some (s2, r)"
      and rs: "respond canon dumps ho s2 ha generation later r = (s', Inr resp)"
    using assms(1) hb b fp by (auto simp: handle_def)
  obtain v where r: "r = Inr v" and s': "rq_op (ha_request ha) \<noteq> ''revoke_self'' \<longrightarrow> s' = s2"
    using respond_ok [OF rs assms(2)] by auto
  obtain env c c' where e: "loaded = Inr env" "select_credential s env now = Inr (ha_secret ha, ha_grant ha)"
      "ha_version ha = sv_version s" "rq_node (ha_request ha) = sv_node s" "\<forall>n. sv_expected s = Some n \<longrightarrow> rq_caller (ha_request ha) = Some n"
      and v: "verify_request canon (ha_secret ha) now (sv_freshness s) env c = (c', Inr (ha_request ha))"
    using handle_begin_Inr [OF hb [unfolded b]] by blast
  note u = verified_carries [OF v]
  have named: "fget resp ''request_id'' = fget env ''request_id''" "fget resp ''session_id'' = PStr (ha_session ha)"
    using respond_names [OF rs assms(2)] u by (auto simp: carries_def)
  note g = handle_guarded_Inr [OF hg [unfolded r]]
  obtain p where p: "OP_REQUIRED_PERMISSION (rq_op (ha_request ha)) = Some p"
      "p \<in> (case ha_grant ha of None \<Rightarrow> sv_permissions s2 | Some x \<Rightarrow> sgr_permissions x)"
      "\<forall>x. find_cluster_grant s2 (ha_request ha) later = Some x \<longrightarrow> p \<in> cg_permissions x"
    using g authorize_request_Inr by blast
  have "rq_op (ha_request ha) \<in> ROLE_OPERATIONS \<longrightarrow> verify_role_fence pyrepr s2 (ha_request ha) = Inr ()"
    using g by (auto simp: fence_checked_def split: if_splits)
  moreover have "sv_version s2 = sv_version s" "\<forall>x. ha_grant ha = Some x \<longrightarrow> \<not> grant_expired later x"
    using g e(3) by (auto simp: snapshot_Inr)
  ultimately show ?thesis
    using e named u s' p begin_opens_session [OF hb [unfolded b]] handle_guarded_session [OF hg [unfolded r]] by blast
qed

text \<open>A service with one secret, asked for its greeting.\<close>

definition demo_service :: remote_service where
  "demo_service = \<lparr>sv_node = NodeId ''b'', sv_online = True, sv_capabilities = {CAP_READ_STATE}, sv_permissions = {READ_STATE},
     sv_secret = ''key'', sv_expected = None, sv_hello = [], sv_app_version = ''1'', sv_grant_mode = False, sv_grants = [],
     sv_version = 0, sv_cluster_grants = [], sv_freshness = 60, sv_replay = replay_new 300 4096, sv_cluster_id = Some ''k'',
     sv_epoch = Some 3, sv_token = Some ''t'', sv_require_share = False, sv_shares = [], sv_capability_share = None,
     sv_surfaces = None, sv_idem = demo_idem,
     sv_sessions = \<lparr>sg_ttl = 600, sg_max = 1024, sg_generations = 64, sg_sessions = [], sg_heap = []\<rparr>\<rparr>"

definition demo_host :: host where
  "demo_host = \<lparr>ho_role = None, ho_revoke = None, ho_commit = None, ho_handler = (\<lambda>_ _ _ s. (s, Inr PNone)),
     ho_provider = (\<lambda>_ s. (s, Inr PNone)), ho_process = None, ho_save = (\<lambda>_. None), ho_others = (\<lambda>s. s)\<rparr>"

theorem fence_never_back_witness:
  "\<exists>e'. sv_epoch (foldl (fence_step ''k'') demo_service [(2, ''u''), (5, ''v'')]) = Some e' \<and> 3 \<le> e'"
  using fence_never_back [of demo_service "''k''" 3 _ "[(2, ''u''), (5, ''v'')]" "\<lambda>_. []"] by (auto simp: demo_service_def)

definition demo_hello :: pyval where
  "demo_hello = (case sign_request demo_canon ''b'' ''hello'' (PDict []) ''r-1'' ''n-1'' 100 ''key'' (Some ''a'') None False None of
     Inl _ \<Rightarrow> PNone | Inr env \<Rightarrow> env)"

lemma demo_hello_signed:
  "sign_request demo_canon ''b'' ''hello'' (PDict []) ''r-1'' ''n-1'' 100 ''key'' (Some ''a'') None False None = Inr demo_hello"
  by (simp add: demo_hello_def sign_request_def Let_def signature_def demo_canon_def split: sum.splits)

definition demo_request :: remote_request where
  "demo_request = \<lparr>rq_node = NodeId ''b'', rq_caller = Some (NodeId ''a''), rq_op = ''hello'', rq_params = PDict [], rq_id = ''r-1'',
     rq_nonce = ''n-1'', rq_ts = 100, rq_session = None, rq_resume = False, rq_generation = None\<rparr>"

lemma demo_hello_verified:
  "\<exists>c. verify_request demo_canon ''key'' 110 60 demo_hello (replay_new 300 4096) = (c, Inr demo_request)"
  using request_accepted [OF demo_hello_signed demo_inputs_ok _ demo_fresh, of 60] by (simp add: demo_request_def)

lemma demo_begin:
  "\<exists>s1. handle_begin demo_canon (\<lambda>_. []) demo_service (Inr demo_hello) None 110 (PInt 1) [''s1''] =
     (s1, Inr \<lparr>ha_request = demo_request, ha_grant = None, ha_version = 0, ha_secret = ''key'', ha_session = ''s1''\<rparr>)
   \<and> sv_capabilities s1 = {CAP_READ_STATE} \<and> sv_permissions s1 = {READ_STATE} \<and> sv_version s1 = 0 \<and> sv_cluster_grants s1 = []
   \<and> map_of (sg_sessions (sv_sessions s1)) ''s1'' = Some \<lparr>ls_owner = ''a'', ls_active = None, ls_expires = 601, ls_retired = {}\<rparr>"
proof -
  obtain c where "verify_request demo_canon ''key'' 110 60 demo_hello (replay_new 300 4096) = (c, Inr demo_request)"
    using demo_hello_verified by blast
  then show ?thesis
    by (simp add: handle_begin_def select_credential_def demo_service_def verify_or_retry_def demo_request_def open_session_def
        authenticate_def validate_generation_def validated_clock_def float_limit_def create_session_def prune_locked_def
        valid_token_def MAX_IDENTIFIER_LENGTH_def Let_def fence_checked_def ROLE_OPERATIONS_def request_owner_def)
qed

lemma demo_answer:
  "\<exists>s' resp. handle demo_canon demo_canon (\<lambda>_. []) demo_host demo_service (Inr demo_hello) None 110 (PInt 1) [''s1''] 111 (PInt 2)
     = Some (s', Inr resp) \<and> fget resp ''status'' = PStr ''ok''"
proof -
  let ?ha = "\<lparr>ha_request = demo_request, ha_grant = None, ha_version = 0, ha_secret = ''key'', ha_session = ''s1''\<rparr>"
  obtain s1 where b: "handle_begin demo_canon (\<lambda>_. []) demo_service (Inr demo_hello) None 110 (PInt 1) [''s1''] = (s1, Inr ?ha)"
      and s1: "sv_capabilities s1 = {CAP_READ_STATE}" "sv_permissions s1 = {READ_STATE}" "sv_version s1 = 0"
        "sv_cluster_grants s1 = []"
      and ses: "map_of (sg_sessions (sv_sessions s1)) ''s1'' = Some \<lparr>ls_owner = ''a'', ls_active = None, ls_expires = 601, ls_retired = {}\<rparr>"
    using demo_begin by blast
  have cur: "session_current s1 ''s1'' None (PInt 2) = (s1, Inr ())"
    using ses by (simp add: session_current_def assert_current_def validate_generation_def validated_clock_def float_limit_def
        valid_token_def MAX_IDENTIFIER_LENGTH_def)
  have auth: "authorize_request demo_canon s1 demo_request None t = Inr None" for t
    using s1 by (simp add: authorize_request_def demo_request_def OP_REQUIRED_CAPABILITY_def OP_REQUIRED_PERMISSION_def
        NO_PARAM_OPERATIONS_def find_cluster_grant_def SURFACE_OPERATIONS_def)
  have "solve demo_canon demo_host s1 demo_request None 110 = (s1, Inr (hello_payload s1))"
    using auth [of 110] by (simp add: solve_def demo_request_def validate_operation_params_def OP_REQUIRED_CAPABILITY_def
        NO_PARAM_OPERATIONS_def ROLE_OPERATIONS_def SURFACE_OPERATIONS_def)
  then have sc: "solve_checked demo_canon demo_host s1 ?ha None 110 111 (PInt 2) = (s1, Inr (hello_payload s1))"
    using s1 cur by (simp add: solve_checked_def assert_grant_snapshot_current_def)
  have rd: "OPERATION_SAFETY (rq_op demo_request) = Some ''read''"
    by (simp add: demo_request_def OPERATION_SAFETY_def OP_REQUIRED_CAPABILITY_def NO_PARAM_OPERATIONS_def ROLE_OPERATIONS_def)
  have "handle_guarded demo_canon (\<lambda>_. []) demo_host s1 ?ha fp None 110 111 (PInt 2) = Some (s1, Inr (hello_payload s1))" for fp
    using s1 cur auth sc rd
    by (simp add: handle_guarded_def assert_grant_snapshot_current_def fence_checked_def demo_request_def ROLE_OPERATIONS_def)
  moreover have "\<exists>resp. respond demo_canon demo_canon demo_host s1 ?ha None 111 (Inr (hello_payload s1)) = (s1, Inr resp)
      \<and> fget resp ''status'' = PStr ''ok''"
    by (simp add: respond_def demo_host_def demo_canon_def sign_response_def hello_payload_def signature_def Let_def opt_field_def)
  moreover have "demo_canon d = Inr (show_nat (length (dict_items d)))" for d by (simp add: demo_canon_def)
  ultimately show ?thesis using b by (auto simp: handle_def)
qed

theorem answer_authorized_witness:
  "\<exists>s' resp. handle demo_canon demo_canon (\<lambda>_. []) demo_host demo_service (Inr demo_hello) None 110 (PInt 1) [''s1''] 111 (PInt 2)
     = Some (s', Inr resp) \<and> fget resp ''status'' = PStr ''ok'' \<and> fget resp ''request_id'' = fget demo_hello ''request_id''
     \<and> READ_STATE \<in> sv_permissions s' \<and> (\<exists>sid. fget resp ''session_id'' = PStr sid \<and> snd (assert_current (sv_sessions s') sid None (PInt 2)) = Inr ())"
proof -
  obtain s' resp where h: "handle demo_canon demo_canon (\<lambda>_. []) demo_host demo_service (Inr demo_hello) None 110 (PInt 1) [''s1''] 111 (PInt 2)
     = Some (s', Inr resp)" "fget resp ''status'' = PStr ''ok''"
    using demo_answer by blast
  from answer_authorized [OF this] obtain env q g secret p sid s2 where a: "Inr demo_hello = (Inr env :: pyval res)"
      "select_credential demo_service env 110 = Inr (secret, g)" "carries env q" "fget resp ''request_id'' = fget env ''request_id''"
      "fget resp ''session_id'' = PStr sid" "rq_op q \<noteq> ''revoke_self'' \<longrightarrow> s' = s2" "OP_REQUIRED_PERMISSION (rq_op q) = Some p"
      "p \<in> (case g of None \<Rightarrow> sv_permissions s2 | Some x \<Rightarrow> sgr_permissions x)" "snd (assert_current (sv_sessions s2) sid None (PInt 2)) = Inr ()"
    by blast
  have "fget demo_hello ''op'' = PStr ''hello''"
    by (simp add: demo_hello_def sign_request_def Let_def signature_def demo_canon_def)
  then have op1: "rq_op q = ''hello''" using a(1,3) by (simp add: carries_def)
  then have "p = READ_STATE" using a(7)
    by (simp add: OP_REQUIRED_PERMISSION_def OP_REQUIRED_CAPABILITY_def NO_PARAM_OPERATIONS_def)
  moreover have "g = None" using a(2) by (simp add: select_credential_def demo_service_def)
  ultimately show ?thesis using a op1 h by auto
qed

end
