(* ===== verification/RuntimeLaws.thy ===== *)
theory RuntimeLaws
  imports Runtime ServiceLaws
begin

text \<open>
  What the runtime guarantees: what is saved is what a restart finds, a document that could not be read is never
  overwritten, revoking a peer severs it everywhere, a pairing control creates only the grant that was agreed.
\<close>

section \<open>Saving\<close>

lemma try_save_Some: "try_save store doc = Inr (Some d) \<longleftrightarrow> doc = Inr d \<and> store d = None"
  by (cases doc) (auto simp: try_save_def split: option.splits if_splits)

lemma save_files: "\<exists>t c. fst (save_persisted_state st r) = r\<lparr>rt_trust_file := t, rt_cluster_file := c\<rparr>"
proof -
  define files where "files q \<longleftrightarrow> (\<exists>t c. q = r\<lparr>rt_trust_file := t, rt_cluster_file := c\<rparr>)" for q
  have "r = r\<lparr>rt_trust_file := rt_trust_file r, rt_cluster_file := rt_cluster_file r\<rparr>" by simp
  then have 0: "files r" unfolding files_def by blast
  have 1: "files (r\<lparr>rt_trust_file := t\<rparr>)" "files (r\<lparr>rt_trust_file := t, rt_cluster_file := c\<rparr>)" "files (r\<lparr>rt_cluster_file := c\<rparr>)" for t c
    unfolding files_def by (rule exI [of _ t], rule exI [of _ "rt_cluster_file r"], simp) (blast, rule exI [of _ "rt_trust_file r"], rule exI [of _ c], simp)
  have "files (fst (save_persisted_state st r))"
    unfolding save_persisted_state_def Let_def by (auto simp: 0 1 split: sum.split option.split)
  then show ?thesis unfolding files_def .
qed

lemma save_cases:
  assumes "save_persisted_state st r = (r', x)"
  obtains t c where "r' = r\<lparr>rt_trust_file := t, rt_cluster_file := c\<rparr>"
  using save_files [of st r] assms by auto

lemma save_True:
  assumes "save_persisted_state st r = (r', Inr True)"
  shows "rt_loaded r \<and> rt_ready r \<and> rt_trust_file r' = Some (trust_document (rt_pairing r) (rt_permissions r))
    \<and> (case rt_cluster r of
         None \<Rightarrow> r' = r\<lparr>rt_trust_file := rt_trust_file r'\<rparr>
       | Some c \<Rightarrow> \<exists>d. cs_to_dict (stored_cluster r c) = Inr d \<and> r' = r\<lparr>rt_trust_file := rt_trust_file r', rt_cluster_file := Some d\<rparr>)"
  using assms
  by (auto simp: save_persisted_state_def Let_def try_save_Some trust_document_current split: if_splits sum.splits option.splits)

lemma save_not_ready: "\<not> rt_ready r \<Longrightarrow> save_persisted_state st r = (r, Inr False)"
  by (simp add: save_persisted_state_def)

lemma saved_or_ok: "saved_or st r undo cls msg = (r', Inr ()) \<longleftrightarrow> save_persisted_state st r = (r', Inr True)"
  by (cases "save_persisted_state st r") (auto simp: saved_or_def split: sum.splits bool.splits)

section \<open>Loading\<close>

lemma rmap_total: "(\<And>x. x \<in> set xs \<Longrightarrow> \<exists>y. f x = Inr y) \<Longrightarrow> \<exists>ys. rmap f xs = Inr ys"
  by (cases "rmap f xs") (fastforce dest: rmap_Inl)+

lemma mk_permission_known: "x \<in> permission_value ` set all_permissions \<Longrightarrow> \<exists>p. mk_permission x = Inr p"
  by (auto simp: mk_permission_def find_None_iff split: option.splits)

lemma wire_grant_ok: "grant_storable g \<Longrightarrow> \<exists>w. wire_grant g = Inr w"
proof -
  assume "grant_storable g"
  then have k: "known_permissions (pg_permissions g)" by (simp add: grant_storable_def)
  have "\<exists>ps. rmap mk_permission (sorted_list_of_set (pg_permissions g)) = Inr ps"
    by (rule rmap_total, rule mk_permission_known) (use k known_finite [OF k] in \<open>auto simp: known_permissions_def\<close>)
  then show ?thesis by (auto simp: wire_grant_def)
qed

lemma wire_grants_ok:
  assumes "keyed pg_caller grant_storable (pm_grants (rt_pairing r))"
  shows "\<exists>gs. wire_grants r = Inr gs"
proof -
  have "\<exists>y. (case x of (n, g) \<Rightarrow> rbind (wire_grant g) (\<lambda>w. Inr (n, w))) = Inr y" if x: "x \<in> set (pm_grants (rt_pairing r))" for x
  proof -
    have "grant_storable (snd x)" using assms x by (auto simp: keyed_def)
    then obtain w where "wire_grant (snd x) = Inr w" using wire_grant_ok by blast
    then show ?thesis by (cases x) simp
  qed
  from rmap_total [OF this] show ?thesis by (auto simp: wire_grants_def)
qed

lemma wire_grants_keys: "wire_grants r = Inr gs \<Longrightarrow> fst ` set gs \<subseteq> fst ` set (pm_grants (rt_pairing r))"
  by (auto simp: wire_grants_def ok_simps split: if_splits dest!: rmap_Inr_set) force

text \<open>Members are projected without error into a registry in which nobody is revoked.\<close>

definition unrevoked :: "node_registry \<Rightarrow> bool" where
  "unrevoked g \<longleftrightarrow> keys_distinct (ng_records g) \<and> map_of (ng_records g) (ng_local g) \<noteq> None
     \<and> (\<forall>(n, rec) \<in> set (ng_records g). nr_trust rec \<noteq> TS_REVOKED)"

lemma unrevoked_put: "unrevoked g \<Longrightarrow> nr_trust rec \<noteq> TS_REVOKED \<Longrightarrow> unrevoked (g\<lparr>ng_records := dict_set n rec (ng_records g)\<rparr>)"
  by (auto simp: unrevoked_def dict_set_in_set)

lemma unrevoked_at: "unrevoked g \<Longrightarrow> map_of (ng_records g) n = Some rec \<Longrightarrow> nr_trust rec \<noteq> TS_REVOKED"
  by (auto simp: unrevoked_def dest!: map_of_SomeD)

lemma set_registry_simps [simp]:
  "rt_registry (set_registry g r) = g" "rt_pairing (set_registry g r) = rt_pairing r"
  "set_registry h (set_registry g r) = set_registry h r" "set_registry (rt_registry r) r = r"
  by (simp_all add: set_registry_def)

lemma hydrate_member_ok:
  assumes "unrevoked (rt_registry r)"
  shows "\<exists>g. hydrate_member co r na = (set_registry g r, Inr ()) \<and> unrevoked g"
proof -
  let ?g = "rt_registry r" and ?n = "fst na"
  define g0 where "g0 = (if ng_record ?g ?n = None then fst (ng_observe ?g ?n {}) else ?g)"
  have "unrevoked g0 \<and> map_of (ng_records g0) ?n \<noteq> None"
  proof (cases "ng_record ?g ?n = None")
    case True
    then have "?n \<noteq> ng_local ?g" using assms by (auto simp: unrevoked_def ng_record_def)
    with True show ?thesis using unrevoked_put [OF assms]
      by (simp add: g0_def ng_observe_def ng_put_def mk_node_record_def)
  qed (use assms in \<open>auto simp: g0_def ng_record_def\<close>)
  then obtain rec where g0: "unrevoked g0" "ng_record g0 ?n = Some rec" "nr_trust rec \<noteq> TS_REVOKED"
    using unrevoked_at by (force simp: ng_record_def)
  define g1 where "g1 = (if pm_can_join_cluster (rt_pairing r) ?n \<and> nr_trust rec \<noteq> TS_AUTHORIZED
      then g0\<lparr>ng_records := dict_set ?n (rec\<lparr>nr_trust := TS_AUTHORIZED, nr_capabilities := {}\<rparr>) (ng_records g0)\<rparr> else g0)"
  have g1: "unrevoked g1" using unrevoked_put [OF g0(1)] g0(1) by (simp add: g1_def)
  have "\<exists>rec1. ng_record g1 ?n = Some rec1 \<and> nr_trust rec1 \<noteq> TS_REVOKED"
    using g0(2,3) by (simp add: g1_def ng_record_def)
  then obtain rec1 where rec1: "ng_record g1 ?n = Some rec1" "nr_trust rec1 \<noteq> TS_REVOKED" by blast
  define g2 where "g2 = g1\<lparr>ng_records := dict_set ?n (rec1\<lparr>nr_membership := membership_of (role_of (ra_roles (snd na))),
      nr_coordinator := Some co\<rparr>) (ng_records g1)\<rparr>"
  have "unrevoked g2" using unrevoked_put [OF g1] rec1(2) by (simp add: g2_def)
  moreover have "hydrate_member co r na = (set_registry g2 r, Inr ())"
    using g0(2,3) rec1(1)
    by (simp add: hydrate_member_def Let_def flip: g0_def)
      (auto simp: ng_promote_def ng_require_def ng_put_def ng_hydrate_membership_def g1_def g2_def)
  ultimately show ?thesis by blast
qed

lemma hydrate_members_ok:
  assumes "unrevoked (rt_registry r)"
  shows "\<exists>g. hydrate_members co r xs = (set_registry g r, Inr ()) \<and> unrevoked g"
  using assms
proof (induction xs arbitrary: r)
  case Nil
  then show ?case by (intro exI [of _ "rt_registry r"]) simp
next
  case (Cons x xs)
  from hydrate_member_ok [OF Cons.prems] obtain g where g: "hydrate_member co r x = (set_registry g r, Inr ())" "unrevoked g"
    by blast
  from Cons.IH [of "set_registry g r"] g show ?case by simp
qed

lemma restored_role_state:
  assumes "cl_inv c"
  shows "\<exists>s. cl_role_state (restored c) = Inr s \<and> epoch s = Some (cl_epoch c) \<and> capability_grants s = cl_grants c
    \<and> promotion_epochs s = cl_promotions c \<and> assignments s = map (\<lambda>(n, a). a\<lparr>ra_job := False\<rparr>) (cl_assignments c)"
proof -
  let ?s = "\<lparr>assignments = map (\<lambda>(n, a). a\<lparr>ra_job := False\<rparr>) (cl_assignments c), epoch = Some (cl_epoch c),
    promotion_epochs = cl_promotions c, capability_grants = cl_grants c\<rparr>"
  have "rs_post_init (cl_rs c) = Inr (cl_rs c)" using assms by (simp add: cl_inv_def rs_inv_def rs_ok_def)
  moreover have "map ra_node_id (filter bound (map (\<lambda>(n, a). a\<lparr>ra_job := False\<rparr>) d)) = map ra_node_id (filter bound (map snd d))"
    for d :: "(node_id \<times> role_assignment) list"
    by (induction d) auto
  moreover have "length (filter (active_with ro) (filter bound (map (\<lambda>(n, a). a\<lparr>ra_job := False\<rparr>) d)))
      = length (filter (active_with ro) (filter bound (map snd d)))" for ro and d :: "(node_id \<times> role_assignment) list"
    by (induction d) (auto simp: active_with_def)
  ultimately have "rs_post_init ?s = Inr ?s"
    by (simp add: rs_post_init_def cl_rs_def Let_def split: if_splits)
  moreover have "cl_role_state (restored c) = rs_post_init ?s"
    by (simp add: cl_role_state_def restored_def case_prod_unfold comp_def)
  ultimately show ?thesis by simp
qed

lemma set_pairing_simps [simp]:
  "rt_pairing (set_pairing p r) = p" "rt_registry (set_pairing p r) = rt_registry r" "cm_local (rt_cm (set_pairing p r)) = cm_local (rt_cm r)"
  "cm_local (rt_cm (set_registry g r)) = cm_local (rt_cm r)"
  by (simp_all add: set_pairing_def set_registry_def)

lemma set_parts_simps [simp]:
  "rt_cluster (set_pairing p r) = rt_cluster r" "rt_cluster (set_registry g r) = rt_cluster r"
  "rt_grants (set_pairing p r) = rt_grants r" "rt_grants (set_registry g r) = rt_grants r"
  "rt_failover (set_pairing p r) = rt_failover r" "rt_failover (set_registry g r) = rt_failover r"
  "rt_permissions (set_pairing p r) = rt_permissions r" "rt_permissions (set_registry g r) = rt_permissions r"
  "rt_trust_file (set_pairing p r) = rt_trust_file r" "rt_trust_file (set_registry g r) = rt_trust_file r"
  "rt_cluster_file (set_pairing p r) = rt_cluster_file r" "rt_cluster_file (set_registry g r) = rt_cluster_file r"
  "rt_loaded (set_pairing p r) = rt_loaded r" "rt_loaded (set_registry g r) = rt_loaded r"
  "rt_ready (set_pairing p r) = rt_ready r" "rt_ready (set_registry g r) = rt_ready r"
  "rt_sharing (set_pairing p r) = rt_sharing r" "rt_sharing (set_registry g r) = rt_sharing r"
  "rt_surfaces (set_pairing p r) = rt_surfaces r" "rt_surfaces (set_registry g r) = rt_surfaces r"
  "rt_service (set_pairing p r) = rt_service r" "rt_service (set_registry g r) = rt_service r"
  "rt_generation (set_pairing p r) = rt_generation r" "rt_generation (set_registry g r) = rt_generation r"
  "rt_managed (set_pairing p r) = rt_managed r" "rt_managed (set_registry g r) = rt_managed r"
  "rt_status (set_pairing p r) = rt_status r" "rt_status (set_registry g r) = rt_status r"
  by (simp_all add: set_pairing_def set_registry_def)

text \<open>The state a load starts from.\<close>

definition emptied :: "boot \<Rightarrow> runtime \<Rightarrow> runtime" where
  "emptied bt r = (set_registry (registry_for (cm_local (rt_cm r)) (bt_cluster_enabled bt))
     (set_pairing (pm_new (cm_local (rt_cm r)) 300) r))\<lparr>rt_loaded := True, rt_ready := False\<rparr>"

lemma registry_for_unrevoked: "unrevoked (registry_for n b)"
  by (simp add: unrevoked_def registry_for_def)

lemma load_cluster_saved:
  assumes "rt_cluster_file q = Some d" "cs_to_dict (cl_to_state c) = Inr d" "cm_local (rt_cm q) = cl_local c"
    and c: "cl_inv c" "cs_storable (cl_to_state c)" "nid_ok (cl_local c)" "map_of (cl_assignments c) (cl_local c) \<noteq> None"
      "invites_ok c" and "bt_token bt \<noteq> []"
  shows "load_cluster bt q = (q\<lparr>rt_cluster_store := True, rt_cluster := Some (restored c), rt_grants := cl_grants c,
     rt_failover := Some \<lparr>fo_state = cl_rs (restored c)\<rparr>\<rparr>, Inr ())"
proof -
  have "cs_from_dict d = Inr (cs_stored_form (cl_to_state c))" using cs_roundtrip [OF c(2)] assms(2) by auto
  then have l: "cluster_store_load (Inr d) = Inr (cs_stored_form (cl_to_state c))" by (simp add: cluster_store_load_def)
  note f = from_state_restored [OF c(1,3,4,5) assms(9), of "bt_now bt" "bt_cluster_id bt"]
  have g: "cs_grants (cs_stored_form (cl_to_state c)) = cl_grants c" by (simp add: cs_stored_form_def cl_to_state_def)
  obtain s where "cl_role_state (restored c) = Inr s" using restored_role_state [OF c(1)] by blast
  then have rs: "cl_role_state (restored c) = Inr (cl_rs (restored c))"
    by (auto simp: cl_role_state_def cl_rs_def rs_post_init_def Let_def split: if_splits)
  show ?thesis by (simp add: load_cluster_def assms(1,3) l f rs g)
qed

lemma set_trust_simps [simp]:
  "rt_pairing (set_trust s r) = fst s" "rt_permissions (set_trust s r) = snd s" "rt_registry (set_trust s r) = rt_registry r"
  "rt_cluster (set_trust s r) = rt_cluster r" "rt_loaded (set_trust s r) = rt_loaded r" "rt_grants (set_trust s r) = rt_grants r"
  "rt_failover (set_trust s r) = rt_failover r" "cm_local (rt_cm (set_trust s r)) = cm_local (rt_cm r)"
  "rt_trust_file (set_trust s r) = rt_trust_file r" "rt_cluster_file (set_trust s r) = rt_cluster_file r"
  "rt_ready (set_trust s r) = rt_ready r" "rt_generation (set_trust s r) = rt_generation r"
  by (simp_all add: set_trust_def)

lemma load_trust_file_saved:
  assumes "rt_trust_file q = Some (trust_document m perms)" "trust_storable m perms" "rt_permissions q = []" "rt_pairing q = pm_new n ttl"
  shows "load_trust_file pyrepr q = (set_trust ((pm_new n ttl)\<lparr>pm_pending := pm_pending m, pm_trusted := pm_trusted m, pm_grants := pm_grants m\<rparr>,
      map (\<lambda>(k, t). (k, pending_permissions_of perms k)) (pm_pending m)) q, Inr ())"
    (is "_ = (set_trust ?s q, _)")
proof -
  have l: "load_trust pyrepr (rt_pairing q, rt_permissions q) (trust_document m perms) = (?s, Inr ())"
    using load_trust_document [OF assms(2), of "pm_new n ttl"] assms(3,4) by (simp add: pm_new_def)
  have "keyed pg_caller grant_storable (pm_grants (rt_pairing (set_trust ?s q)))" using assms(2) by (simp add: trust_storable_def)
  then obtain gs where "wire_grants (set_trust ?s q) = Inr gs" using wire_grants_ok by blast
  then show ?thesis by (simp add: load_trust_file_def assms(1) l)
qed

definition same_trust :: "pairing_manager \<Rightarrow> pairing_manager \<Rightarrow> bool" where
  "same_trust m m' \<longleftrightarrow> pm_grants m' = pm_grants m \<and> pm_trusted m' = pm_trusted m \<and> pm_pending m' = pm_pending m"

lemma hydrate_registry_ok:
  assumes "unrevoked (rt_registry r)"
  shows "\<exists>g. hydrate_registry_membership r = (set_registry g r, Inr ()) \<and> unrevoked g"
  using hydrate_members_ok [OF assms] assms
  by (cases "rt_cluster r") (auto simp: hydrate_registry_membership_def intro: exI [of _ "rt_registry r"])

lemma load_after_save:
  assumes "trust_storable m perms" "cl_inv c" "cs_storable (cl_to_state c)" "nid_ok (cl_local c)"
      "map_of (cl_assignments c) (cl_local c) \<noteq> None" "invites_ok c"
    and "rt_trust_file q = Some (trust_document m perms)" "rt_cluster_file q = Some d" "cs_to_dict (cl_to_state c) = Inr d"
      "cm_local (rt_cm q) = cl_local c" "rt_permissions q = []"
    and "bt_cluster_enabled bt" "bt_token bt \<noteq> []" "bt_transport bt = Inr g"
  shows "\<exists>q'. load_persisted_state pyrepr bt q = (q', Inr ()) \<and> rt_loaded q' \<and> rt_ready q' \<and> same_trust m (rt_pairing q')
    \<and> rt_permissions q' = map (\<lambda>(k, t). (k, pending_permissions_of perms k)) (pm_pending m)
    \<and> rt_cluster q' = Some (restored c) \<and> rt_grants q' = cl_grants c \<and> rt_failover q' = Some \<lparr>fo_state = cl_rs (restored c)\<rparr>
    \<and> rt_trust_file q' = rt_trust_file q \<and> rt_cluster_file q' = rt_cluster_file q
    \<and> cm_local (rt_cm q') = cm_local (rt_cm q) \<and> rt_generation q' = rt_generation q
    \<and> rt_sharing q' = rt_sharing q \<and> rt_surfaces q' = rt_surfaces q"
proof -
  let ?q0 = "emptied bt q"
  define q1 where "q1 = ?q0\<lparr>rt_cluster_store := True, rt_cluster := Some (restored c), rt_grants := cl_grants c,
     rt_failover := Some \<lparr>fo_state = cl_rs (restored c)\<rparr>\<rparr>"
  have 1: "load_cluster bt ?q0 = (q1, Inr ())"
    unfolding q1_def by (rule load_cluster_saved [OF _ assms(9) _ assms(2-6,13)]) (simp_all add: emptied_def assms)
  define t where "t = ((pm_new (cl_local c) 300)\<lparr>pm_pending := pm_pending m, pm_trusted := pm_trusted m, pm_grants := pm_grants m\<rparr>,
      map (\<lambda>(k, t). (k, pending_permissions_of perms k)) (pm_pending m))"
  have 2: "load_trust_file pyrepr q1 = (set_trust t q1, Inr ())"
    unfolding t_def by (rule load_trust_file_saved [OF _ assms(1)]) (simp_all add: q1_def emptied_def assms)
  have "unrevoked (rt_registry (set_trust t q1))" by (simp add: q1_def emptied_def registry_for_unrevoked)
  then obtain h where 3: "hydrate_registry_membership (set_trust t q1) = (set_registry h (set_trust t q1), Inr ())"
    using hydrate_registry_ok by blast
  note e = emptied_def [of bt q, symmetric]
  show ?thesis
    unfolding load_persisted_state_def Let_def e
    by (simp add: assms(12,14) 1 2 3) (simp add: q1_def emptied_def t_def same_trust_def set_trust_def set_pairing_def set_registry_def)
qed

definition accepts :: "storage \<Rightarrow> bool" where
  "accepts st \<longleftrightarrow> st_trust st = (\<lambda>_. None) \<and> st_cluster st = (\<lambda>_. None)"

definition boot_ok :: "boot \<Rightarrow> node_id \<Rightarrow> bool" where
  "boot_ok bt n \<longleftrightarrow> bt_lock bt = Inr () \<and> bt_identity bt = Inr n \<and> isl (bt_transport bt) = False \<and> isl (bt_material bt) = False
     \<and> isl (bt_idem bt) = False \<and> bt_listen bt = Inr () \<and> secret_ok (sv_secret (bt_service bt)) \<and> bt_cluster_enabled bt \<and> bt_token bt \<noteq> []"

lemma stored_cluster_state: "stored_cluster r c = cl_to_state (c\<lparr>cl_grants := rt_grants r\<rparr>)"
  by (simp add: stored_cluster_def cl_to_state_def)

lemma save_accepted:
  assumes "accepts st" "rt_loaded r" "rt_ready r" "rt_cluster r = Some c" "cs_to_dict (stored_cluster r c) = Inr d"
  shows "save_persisted_state st r
    = (r\<lparr>rt_trust_file := Some (trust_document (rt_pairing r) (rt_permissions r)), rt_cluster_file := Some d\<rparr>, Inr True)"
  using assms by (simp add: save_persisted_state_def try_save_def trust_document_current accepts_def)

lemma disconnect_keeps [simp]:
  "cm_pairing (disconnect m p why now) = cm_pairing m" "cm_local (disconnect m p why now) = cm_local m"
  "cm_candidates (disconnect m p why now) = cm_candidates m"
  by (simp_all add: disconnect_def cm_set_state_def)

lemma disconnect_all_keeps [simp]:
  "cm_pairing (disconnect_all m now) = cm_pairing m" "cm_local (disconnect_all m now) = cm_local m"
proof -
  have "cm_pairing (fold (\<lambda>p m. disconnect m p ''disconnected'' now) xs m) = cm_pairing m
      \<and> cm_local (fold (\<lambda>p m. disconnect m p ''disconnected'' now) xs m) = cm_local m" for xs
    by (induction xs arbitrary: m) simp_all
  then show "cm_pairing (disconnect_all m now) = cm_pairing m" "cm_local (disconnect_all m now) = cm_local m"
    by (simp_all add: disconnect_all_def)
qed

lemma service_secret_ok: "secret_ok s \<Longrightarrow> service_validate_secret (PStr s) = Inr ()"
  by (simp add: service_validate_secret_def secret_ok_def)

lemma wire_grants_checked:
  assumes "keyed pg_caller grant_storable (pm_grants (rt_pairing r))" "wire_grants r = Inr gs"
  shows "first_error service_grant_checked (map snd gs) = Inr ()"
proof -
  have "service_grant_checked w = Inr ()" if "w \<in> snd ` set gs" for w
  proof -
    from that obtain n where "(n, w) \<in> set gs" by force
    then obtain g where g: "(n, g) \<in> set (pm_grants (rt_pairing r))" "wire_grant g = Inr w"
      using assms(2) by (auto simp: wire_grants_def ok_simps split: if_splits dest!: rmap_Inr_set)
    then have "secret_ok (pg_secret g)" using assms(1) by (auto simp: keyed_def grant_storable_def)
    then show ?thesis using g(2) by (auto simp: wire_grant_def ok_simps service_grant_checked_def service_secret_ok)
  qed
  then show ?thesis by (induction gs) auto
qed

lemma same_trust_wire: "rt_loaded r = rt_loaded q \<Longrightarrow> same_trust (rt_pairing r) (rt_pairing q) \<Longrightarrow> wire_grants q = wire_grants r"
  by (simp add: wire_grants_def same_trust_def)

lemma start_components_ok:
  assumes "boot_ok bt n" "keyed pg_caller grant_storable (pm_grants (rt_pairing r))"
  shows "\<exists>r' s. start_components bt r k = (r', Inr ()) \<and> rt_status r' = RT_STARTED \<and> rt_service r' = Some s
    \<and> wire_grants r = Inr (sv_grants s) \<and> sv_cluster_grants s = rt_grants r \<and> sv_cluster_id s = map_option cl_id (rt_cluster r)
    \<and> sv_epoch s = map_option (\<lambda>c. ce_epoch (cl_epoch c)) (rt_cluster r) \<and> sv_token s = map_option (\<lambda>c. ce_token (cl_epoch c)) (rt_cluster r)
    \<and> (\<exists>e. r' = r\<lparr>rt_service := Some s, rt_status := RT_STARTED, rt_events := e\<rparr>)"
proof -
  obtain h g i where b: "bt_material bt = Inr h" "bt_transport bt = Inr g" "bt_idem bt = Inr i" "bt_listen bt = Inr ()"
    using assms(1) by (cases "bt_material bt"; cases "bt_transport bt"; cases "bt_idem bt") (auto simp: boot_ok_def)
  obtain gs where w: "wire_grants r = Inr gs" using wire_grants_ok [OF assms(2)] by blast
  have sec: "service_validate_secret (PStr (sv_secret (service_args bt r h))) = Inr ()"
    using assms(1) by (simp add: boot_ok_def service_args_def service_secret_ok)
  show ?thesis
    by (simp add: start_components_def b w service_new_def sec wire_grants_checked [OF assms(2) w]) (auto simp: service_args_def)
qed

definition saved_cluster :: "runtime \<Rightarrow> cluster \<Rightarrow> cluster" where
  "saved_cluster r c = c\<lparr>cl_grants := rt_grants r\<rparr>"

definition runtime_ok :: "runtime \<Rightarrow> cluster \<Rightarrow> bool" where
  \<comment> \<open>a started member whose cluster can be written\<close>
  "runtime_ok r c \<longleftrightarrow> rt_loaded r \<and> rt_ready r \<and> rt_cluster r = Some c \<and> cl_local c = cm_local (rt_cm r) \<and> nid_ok (cl_local c)
     \<and> cl_inv (saved_cluster r c) \<and> cs_storable (cl_to_state (saved_cluster r c))
     \<and> map_of (cl_assignments c) (cl_local c) \<noteq> None \<and> invites_ok c"

lemma runtime_okD:
  assumes "runtime_ok r c"
  shows "cl_inv (saved_cluster r c)" "cs_storable (cl_to_state (saved_cluster r c))" "nid_ok (cl_local (saved_cluster r c))"
    "map_of (cl_assignments (saved_cluster r c)) (cl_local (saved_cluster r c)) \<noteq> None" "invites_ok (saved_cluster r c)"
    "rt_loaded r" "rt_ready r" "rt_cluster r = Some c" "cl_local c = cm_local (rt_cm r)"
  using assms by (auto simp: runtime_ok_def invites_ok_def) (auto simp: saved_cluster_def)

lemma shutdown_files:
  assumes "runtime_ok r c" "accepts st" "shutdown st r now = (r1, x)"
  shows "\<exists>d. cs_to_dict (cl_to_state (saved_cluster r c)) = Inr d \<and> rt_cluster_file r1 = Some d
    \<and> rt_trust_file r1 = Some (trust_document (rt_pairing r) (rt_permissions r))"
proof -
  note ok = runtime_okD [OF assms(1)]
  obtain d where d: "cs_to_dict (cl_to_state (saved_cluster r c)) = Inr d" using cs_roundtrip [OF ok(2)] by blast
  show ?thesis
    using assms(3) save_accepted [OF assms(2), of _ c d] ok(6-8) d
    by (auto simp: shutdown_def Let_def stored_cluster_state saved_cluster_def split: if_splits)
qed

text \<open>
  C10. A restart loses nothing that matters, provided that the trust file can be read back. When a running member shuts down
  whose pairing state the trust codec can read back (\<open>trust_storable\<close>; a peer paired over the network in this run is written
  in a form that cannot be read, so with such a peer this does not hold) and the files accept the writes, a new process that
  starts on these files runs again with the same grants, trusted peers and pending pairings, the same cluster, epoch and
  capability grants (invites under their hashes, job flags cleared), a failover coordinator that holds exactly the
  cluster's role state, and a service that serves exactly those grants under the same fence.
\<close>

theorem restart_keeps_state:
  assumes ok: "runtime_ok r c" and tr: "trust_storable (rt_pairing r) (rt_permissions r)" and st: "accepts st" and down: "shutdown st r now = (r1, x)"
    and q: "rt_trust_file q = rt_trust_file r1" "rt_cluster_file q = rt_cluster_file r1" "rt_permissions q = []"
      "rt_status q = RT_STOPPED" "\<not> rt_locked q"
    and bt: "boot_ok bt (cl_local c)"
  shows "\<exists>q' s. start pyrepr bt q = (q', Inr RT_STARTED) \<and> same_trust (rt_pairing r) (rt_pairing q')
    \<and> rt_cluster q' = Some (restored (saved_cluster r c)) \<and> rt_grants q' = rt_grants r
    \<and> rt_failover q' = Some \<lparr>fo_state = cl_rs (restored (saved_cluster r c))\<rparr>
    \<and> rt_service q' = Some s \<and> wire_grants r = Inr (sv_grants s) \<and> sv_cluster_grants s = rt_grants r
    \<and> sv_cluster_id s = Some (cl_id c) \<and> sv_epoch s = Some (ce_epoch (cl_epoch c)) \<and> sv_token s = Some (ce_token (cl_epoch c))"
proof -
  let ?c = "saved_cluster r c"
  note c = runtime_okD [OF ok]
  obtain d where d: "cs_to_dict (cl_to_state ?c) = Inr d"
    and files: "rt_trust_file r1 = Some (trust_document (rt_pairing r) (rt_permissions r))" "rt_cluster_file r1 = Some d"
    using shutdown_files [OF ok st down] by blast
  define q0 where "q0 = (q\<lparr>rt_generation := rt_generation q + 1, rt_status := RT_STARTING, rt_locked := True\<rparr>)
     \<lparr>rt_cm := (rt_cm q)\<lparr>cm_local := cl_local c\<rparr>\<rparr>"
  obtain g where g: "bt_transport bt = Inr g" using bt by (cases "bt_transport bt") (auto simp: boot_ok_def)
  have "\<exists>q1. load_persisted_state pyrepr bt q0 = (q1, Inr ()) \<and> rt_loaded q1 \<and> same_trust (rt_pairing r) (rt_pairing q1)
    \<and> rt_cluster q1 = Some (restored ?c) \<and> rt_grants q1 = cl_grants ?c \<and> rt_failover q1 = Some \<lparr>fo_state = cl_rs (restored ?c)\<rparr>"
    using load_after_save [OF tr c(1-5), of q0 d bt g pyrepr] bt files q d g by (auto simp: q0_def saved_cluster_def boot_ok_def)
  then obtain q1 where q1: "load_persisted_state pyrepr bt q0 = (q1, Inr ())" "rt_loaded q1" "same_trust (rt_pairing r) (rt_pairing q1)"
    "rt_cluster q1 = Some (restored ?c)" "rt_grants q1 = cl_grants ?c" "rt_failover q1 = Some \<lparr>fo_state = cl_rs (restored ?c)\<rparr>" by blast
  have kr: "keyed pg_caller grant_storable (pm_grants (rt_pairing r))" using tr by (simp add: trust_storable_def)
  have w: "wire_grants q1 = wire_grants r" using same_trust_wire q1(2,3) c(6) by simp
  have k: "keyed pg_caller grant_storable (pm_grants (rt_pairing q1))" using q1(3) kr by (simp add: same_trust_def)
  obtain q2 s where q2: "start_components bt q1 (rt_generation q1) = (q2, Inr ())" "rt_status q2 = RT_STARTED" "rt_service q2 = Some s"
      "wire_grants q1 = Inr (sv_grants s)" "sv_cluster_grants s = rt_grants q1" "sv_cluster_id s = map_option cl_id (rt_cluster q1)"
      "sv_epoch s = map_option (\<lambda>c. ce_epoch (cl_epoch c)) (rt_cluster q1)" "sv_token s = map_option (\<lambda>c. ce_token (cl_epoch c)) (rt_cluster q1)"
      "\<exists>e. q2 = q1\<lparr>rt_service := Some s, rt_status := RT_STARTED, rt_events := e\<rparr>"
    using start_components_ok [OF bt k, of "rt_generation q1"] by blast
  have st: "start pyrepr bt q = (q2, Inr RT_STARTED)"
    using bt q(4,5) q1(1) q2(1,2) by (simp add: start_def boot_ok_def q0_def)
  have rc: "cl_id (restored ?c) = cl_id c" "cl_epoch (restored ?c) = cl_epoch c" "cl_grants ?c = rt_grants r"
    by (simp_all add: restored_def saved_cluster_def)
  show ?thesis
    by (rule exI [of _ q2], rule exI [of _ s]) (use st q2 q1 w rc in auto)
qed

text \<open>What writing a file can raise.\<close>

definition io_storage :: "storage \<Rightarrow> bool" where
  "io_storage st \<longleftrightarrow> (\<forall>d e. st_trust st d = Some e \<or> st_cluster st d = Some e \<longrightarrow> isa e OSError \<or> isa e TypeError \<or> isa e ValueError)"

lemma try_save_total:
  assumes "\<And>d e. store d = Some e \<Longrightarrow> isa e OSError \<or> isa e TypeError \<or> isa e ValueError" "\<And>e. doc = Inl e \<Longrightarrow> isa e ValueError"
  shows "\<exists>d. try_save store doc = Inr d"
  using assms by (cases doc) (auto simp: try_save_def split: option.split)

lemma cs_to_dict_error: "cs_to_dict cs = Inl e \<Longrightarrow> isa e ValueError"
  by (auto simp: cs_to_dict_def rs_post_init_def Let_def raise_def split: if_splits)

lemma save_total:
  assumes "io_storage st"
  shows "\<exists>r' b. save_persisted_state st r = (r', Inr b)"
proof -
  have "\<exists>t. try_save (st_trust st) (Inr doc) = Inr t" for doc
    using try_save_total [of "st_trust st" "Inr doc"] assms by (auto simp: io_storage_def)
  then obtain t where t: "try_save (st_trust st) (migrate_state ''trust'' (trust_document (rt_pairing r) (rt_permissions r))) = Inr t"
    unfolding trust_document_current by blast
  have c: "\<exists>d. try_save (st_cluster st) (cs_to_dict cs) = Inr d" for cs
    using try_save_total [of "st_cluster st" "cs_to_dict cs"] assms cs_to_dict_error by (auto simp: io_storage_def)
  show ?thesis
  proof (cases "rt_cluster r")
    case None
    then show ?thesis by (auto simp: save_persisted_state_def t Let_def intro: exI [of _ False])
  next
    case (Some cl)
    obtain d where "try_save (st_cluster st) (cs_to_dict (stored_cluster r cl)) = Inr d" using c by blast
    then show ?thesis using Some by (cases d) (auto simp: save_persisted_state_def t Let_def intro: exI [of _ False])
  qed
qed

section \<open>A sample runtime\<close>

definition demo_storage :: storage where
  "demo_storage = \<lparr>st_trust = (\<lambda>_. None), st_cluster = (\<lambda>_. None)\<rparr>"

definition demo_inbound :: peer_grant where
  "demo_inbound = \<lparr>pg_caller = NodeId ''b'', pg_secret = sample_secret, pg_permissions = {''read_state''},
     pg_binding = \<lparr>bd_identity = Some ''i'', bd_transport = Some ''f'', bd_root = Some ''k'', bd_generation = Some 1, bd_proof = Some ''p''\<rparr>, pg_members = False\<rparr>"

definition demo_waiting :: pending_pairing where
  "demo_waiting = \<lparr>pp_id = ''t1'', pp_peer = NodeId ''c'', pp_secret = sample_secret, pp_expires = 10,
     pp_binding = \<lparr>bd_identity = Some ''i'', bd_transport = Some ''f'', bd_root = None, bd_generation = None, bd_proof = None\<rparr>,
     pp_direction = ''inbound'', pp_intent = ''pair''\<rparr>"

definition demo_manager :: pairing_manager where
  "demo_manager = (pm_new (NodeId ''a'') 300)\<lparr>pm_grants := [(NodeId ''b'', demo_inbound)], pm_pending := [(''t1'', demo_waiting)]\<rparr>"

definition demo_runtime :: runtime where
  "demo_runtime = \<lparr>rt_cm = \<lparr>cm_local = NodeId ''a'', cm_pairing = demo_manager, cm_registry = registry_for (NodeId ''a'') True,
       cm_candidates = [], cm_providers = [], cm_generations = [], cm_resume = {}\<rparr>,
     rt_loaded = True, rt_ready = True, rt_managed = True, rt_status = RT_STARTED, rt_locked = True, rt_events = None, rt_generation = 1,
     rt_cluster = Some demo_inviting, rt_cluster_store = True, rt_grants = [], rt_failover = None, rt_service = None, rt_sharing = share_new,
     rt_surfaces = demo_surfaces, rt_permissions = [(''t1'', {''read_state''})], rt_trust_file = None, rt_cluster_file = None\<rparr>"

definition demo_boot :: boot where
  "demo_boot = \<lparr>bt_lock = Inr (), bt_identity = Inr (NodeId ''a''), bt_transport = Inr (Some 1), bt_material = Inr [],
     bt_idem = Inr demo_idem, bt_listen = Inr (), bt_service = demo_service\<lparr>sv_secret := sample_secret\<rparr>, bt_cluster_enabled = True,
     bt_discovery = True, bt_now = 0, bt_cluster_id = ''k2'', bt_token = ''t9''\<rparr>"

lemma demo_accepts: "accepts demo_storage" and demo_io: "io_storage demo_storage"
  by (simp_all add: demo_storage_def accepts_def io_storage_def)

lemma demo_manager_storable: "trust_storable demo_manager [(''t1'', {''read_state''})]" "pm_inv demo_manager"
  by (simp_all add: demo_manager_def pm_new_def trust_storable_def keyed_def grant_storable_def pending_storable_def demo_inbound_def
      demo_waiting_def nid_ok_def sample_secret_ok known_permissions_def all_permissions_def binding_ok_def DIRECTIONS_def INTENTS_def pm_inv_def)

lemma demo_runtime_ok: "runtime_ok demo_runtime demo_inviting"
proof -
  have "saved_cluster demo_runtime demo_inviting = demo_inviting"
    by (simp add: saved_cluster_def demo_runtime_def demo_inviting_def demo_cluster_def)
  then show ?thesis using demo_inviting_ok
    by (simp add: runtime_ok_def) (simp add: demo_runtime_def demo_inviting_def demo_cluster_def)
qed

theorem restart_keeps_state_witness:
  "\<exists>r1 x q' s. shutdown demo_storage demo_runtime 5 = (r1, x) \<and> start (\<lambda>v. []) demo_boot (r1\<lparr>rt_permissions := []\<rparr>) = (q', Inr RT_STARTED)
     \<and> same_trust (rt_pairing demo_runtime) (rt_pairing q') \<and> rt_service q' = Some s \<and> sv_token s = Some ''t0''"
proof -
  obtain r1 x where d: "shutdown demo_storage demo_runtime 5 = (r1, x)" by fastforce
  obtain r2 b where "save_persisted_state demo_storage (demo_runtime\<lparr>rt_generation := Suc (rt_generation demo_runtime),
      rt_cm := disconnect_all (rt_cm demo_runtime) 5\<rparr>) = (r2, Inr b)" using save_total [OF demo_io] by blast
  then have "rt_status r1 = RT_STOPPED \<and> \<not> rt_locked r1" using d by (auto simp: shutdown_def Let_def demo_runtime_def)
  moreover have tr: "trust_storable (rt_pairing demo_runtime) (rt_permissions demo_runtime)"
    using demo_manager_storable(1) by (simp add: demo_runtime_def)
  ultimately have "\<exists>q' s. start (\<lambda>v. []) demo_boot (r1\<lparr>rt_permissions := []\<rparr>) = (q', Inr RT_STARTED)
      \<and> same_trust (rt_pairing demo_runtime) (rt_pairing q') \<and> rt_service q' = Some s \<and> sv_token s = Some (ce_token (cl_epoch demo_inviting))"
    using restart_keeps_state [OF demo_runtime_ok tr demo_accepts d, of "r1\<lparr>rt_permissions := []\<rparr>" demo_boot "\<lambda>v. []"]
    by (auto simp: boot_ok_def demo_boot_def sample_secret_ok demo_inviting_def demo_cluster_def)
  then show ?thesis using d by (auto simp: demo_inviting_def demo_cluster_def)
qed

section \<open>Files that cannot be read\<close>

lemma hydrate_member_files:
  "\<exists>g. fst (hydrate_member co r na) = set_registry g r"
proof -
  have "\<exists>g. fst (case pr of (g1, Inl e) \<Rightarrow> (set_registry g1 r, Inl e)
      | (g1, Inr u) \<Rightarrow> (case h g1 of (g2, Inl e) \<Rightarrow> (set_registry g2 r, Inl e) | (g2, Inr v) \<Rightarrow> (set_registry g2 r, Inr ()))) = set_registry g r"
    for pr :: "node_registry \<times> node_record res" and h :: "node_registry \<Rightarrow> node_registry \<times> node_record res"
    by (cases pr; cases "snd pr"; cases "h (fst pr)"; cases "snd (h (fst pr))") auto
  then show ?thesis by (simp only: hydrate_member_def Let_def)
qed

lemma hydrate_members_registry: "\<exists>g. fst (hydrate_members co r xs) = set_registry g r"
proof (induction xs arbitrary: r)
  case Nil
  show ?case by (intro exI [of _ "rt_registry r"]) simp
next
  case (Cons x xs)
  obtain g where g: "fst (hydrate_member co r x) = set_registry g r" using hydrate_member_files by blast
  obtain h where "fst (hydrate_members co (set_registry g r) xs) = set_registry h (set_registry g r)" using Cons.IH by blast
  then show ?case using g by (cases "hydrate_member co r x"; cases "snd (hydrate_member co r x)") auto
qed

lemma hydrate_registry: "\<exists>g. fst (hydrate_registry_membership r) = set_registry g r"
  using hydrate_members_registry by (auto simp: hydrate_registry_membership_def split: option.split intro: exI [of _ "rt_registry r"])

text \<open>What loading leaves alone, whether it succeeds or not.\<close>

definition unsaved :: "runtime \<Rightarrow> runtime \<Rightarrow> bool" where
  "unsaved r r' \<longleftrightarrow> rt_trust_file r' = rt_trust_file r \<and> rt_cluster_file r' = rt_cluster_file r \<and> rt_ready r' = rt_ready r"

lemma unsaved_refl [simp]: "unsaved r r" and unsaved_trans: "unsaved r r' \<Longrightarrow> unsaved r' r'' \<Longrightarrow> unsaved r r''"
  by (simp_all add: unsaved_def)

lemma unsaved_parts:
  "unsaved r (fst (load_cluster bt r))" "unsaved r (fst (load_trust_file pyrepr r))" "unsaved r (fst (hydrate_registry_membership r))"
proof -
  show "unsaved r (fst (load_cluster bt r))"
    by (auto simp: load_cluster_def Let_def sbind_def unsaved_def split: sum.split option.split)
  show "unsaved r (fst (load_trust_file pyrepr r))"
    by (auto simp: load_trust_file_def sbind_def unsaved_def split: sum.split option.split prod.split)
  show "unsaved r (fst (hydrate_registry_membership r))"
    using hydrate_registry [of r] by (auto simp: unsaved_def)
qed

lemma load_failed_unsaved:
  assumes "load_persisted_state pyrepr bt r = (r', Inl e)"
  shows "rt_trust_file r' = rt_trust_file r \<and> rt_cluster_file r' = rt_cluster_file r \<and> \<not> rt_ready r'"
proof -
  have s: "unsaved q (fst m) \<Longrightarrow> (\<And>a y. snd m = Inr y \<Longrightarrow> unsaved q a \<Longrightarrow> snd (f a y) = Inl e \<longrightarrow> unsaved q (fst (f a y)))
      \<Longrightarrow> snd (sbind m f) = Inl e \<longrightarrow> unsaved q (fst (sbind m f))" for q and m :: "runtime \<times> 'a res" and f :: "runtime \<Rightarrow> 'a \<Rightarrow> runtime \<times> 'b res"
    by (cases m; cases "snd m") auto
  let ?q = "emptied bt r"
  have "snd (load_persisted_state pyrepr bt r) = Inl e \<longrightarrow> unsaved ?q (fst (load_persisted_state pyrepr bt r))"
    unfolding load_persisted_state_def Let_def emptied_def [of bt r, symmetric]
    by (rule s, simp add: unsaved_parts, rule s, blast intro: unsaved_trans unsaved_parts, rule s, blast intro: unsaved_trans unsaved_parts)
      (simp add: sbind_def unsaved_def split: sum.split)
  then show ?thesis using assms by (simp add: unsaved_def emptied_def)
qed

text \<open>
  A state file that cannot be read is never overwritten: when loading fails, whatever the reason and however far it
  got, both files are as they were, every later save answers that nothing was stored, and stopping the runtime leaves the
  files alone too.
\<close>

theorem unreadable_kept:
  assumes "load_persisted_state pyrepr bt r = (r', Inl e)"
  shows "save_persisted_state st r' = (r', Inr False)
    \<and> rt_trust_file (fst (shutdown st r' now)) = rt_trust_file r \<and> rt_cluster_file (fst (shutdown st r' now)) = rt_cluster_file r"
  using load_failed_unsaved [OF assms] by (simp add: save_not_ready shutdown_def Let_def)

theorem unreadable_kept_witness:
  "\<exists>r' e. load_persisted_state (\<lambda>v. []) (demo_boot\<lparr>bt_cluster_enabled := False\<rparr>) (demo_runtime\<lparr>rt_trust_file := Some (PInt 3)\<rparr>) = (r', Inl e)
     \<and> rt_trust_file (fst (shutdown demo_storage r' 9)) = Some (PInt 3)"
proof -
  obtain r' y where l: "load_persisted_state (\<lambda>v. []) (demo_boot\<lparr>bt_cluster_enabled := False\<rparr>) (demo_runtime\<lparr>rt_trust_file := Some (PInt 3)\<rparr>) = (r', y)"
    by fastforce
  then obtain e where "y = Inl e"
    by (auto simp: load_persisted_state_def Let_def load_trust_file_def load_trust_def raise_def demo_boot_def demo_runtime_def)
  with unreadable_kept [of "\<lambda>v. []" _ _ r' e demo_storage 9] l show ?thesis by auto
qed

section \<open>Lifecycle\<close>

definition same_life :: "runtime \<Rightarrow> runtime \<Rightarrow> bool" where
  "same_life r r' \<longleftrightarrow> rt_generation r' = rt_generation r \<and> rt_locked r' = rt_locked r"

lemma same_life_refl: "same_life r r"
  by (simp add: same_life_def)

lemma same_life_set [simp]:
  "same_life q (set_pairing p r) = same_life q r" "same_life q (set_registry g r) = same_life q r" "same_life q (set_trust s r) = same_life q r"
  "same_life q (r\<lparr>rt_ready := b\<rparr>) = same_life q r" "same_life q (r\<lparr>rt_cm := m, rt_managed := b\<rparr>) = same_life q r"
  by (simp_all add: same_life_def set_pairing_def set_registry_def set_trust_def)

lemma same_life_parts:
  "same_life q r \<Longrightarrow> same_life q (fst (load_cluster bt r))" "same_life q r \<Longrightarrow> same_life q (fst (load_trust_file pyrepr r))"
  "same_life q r \<Longrightarrow> same_life q (fst (hydrate_registry_membership r))" "same_life q r \<Longrightarrow> same_life q (clear_components r now)"
proof -
  show "same_life q r \<Longrightarrow> same_life q (fst (load_cluster bt r))"
    by (auto simp: load_cluster_def Let_def sbind_def same_life_def split: sum.split option.split)
  show "same_life q r \<Longrightarrow> same_life q (fst (load_trust_file pyrepr r))"
    by (auto simp: load_trust_file_def sbind_def split: sum.split option.split prod.split)
  show "same_life q r \<Longrightarrow> same_life q (fst (hydrate_registry_membership r))"
    using hydrate_registry [of r] by auto
  show "same_life q r \<Longrightarrow> same_life q (clear_components r now)"
    by (simp add: clear_components_def Let_def same_life_def)
qed

lemma load_same_life:
  assumes "same_life q r"
  shows "same_life q (fst (load_persisted_state pyrepr bt r))"
proof -
  have "same_life q (emptied bt r)" using assms by (simp add: emptied_def same_life_def set_pairing_def set_registry_def)
  then show ?thesis
    unfolding load_persisted_state_def Let_def emptied_def [of bt r, symmetric]
    by (intro fst_sbind_inv [where P = "same_life q"]) (simp_all add: same_life_parts)
qed

lemma start_components_life:
  assumes "start_components bt r k = (r', Inr u)"
  shows "same_life r r' \<and> (rt_status r' = RT_STARTED \<longrightarrow>
    rt_events r' = (if bt_discovery bt then Some (case bt_transport bt of Inr (Some g) \<Rightarrow> g | _ \<Rightarrow> k) else None))"
proof -
  have l: "same_life r (clear_components r now)" for now by (rule same_life_parts) (simp add: same_life_def)
  from assms obtain x gs s i where 1: "rbind (bt_material bt) (\<lambda>hello. rbind (bt_transport bt) (\<lambda>g. Inr (hello, g))) = Inr x"
      "wire_grants r = Inr gs" "service_new (service_args bt r (fst x)) (Some gs) None = Inr s" "bt_idem bt = Inr i"
    unfolding start_components_def Let_def by (auto simp: ok_simps)
  then have x: "bt_transport bt = Inr (snd x)" by (auto simp: ok_simps)
  show ?thesis
  proof (cases "bt_listen bt")
    case (Inl e)
    then show ?thesis using assms 1 l [of "bt_now bt"] by (auto simp: start_components_def Let_def same_life_def split: if_splits)
  next
    case (Inr y)
    then show ?thesis using assms 1 x by (auto simp: start_components_def same_life_def split: option.split)
  qed
qed

lemma start_ok:
  assumes "start pyrepr bt r = (r', Inr y)" "\<not> rt_started r"
  shows "(y = RT_STARTED \<longrightarrow> rt_status r' = RT_STARTED \<and> rt_generation r' = rt_generation r + 1 \<and>
       rt_events r' = (if bt_discovery bt then Some (case bt_transport bt of Inr (Some g) \<Rightarrow> g | _ \<Rightarrow> rt_generation r + 1) else None))
    \<and> (y = RT_LISTENER_UNAVAILABLE \<longrightarrow> rt_status r' = RT_LISTENER_UNAVAILABLE \<and> rt_locked r')"
proof -
  let ?b = "sbind (r\<lparr>rt_generation := rt_generation r + 1, rt_status := RT_STARTING\<rparr>,
      if rt_locked r then raise ProfileInUseError ''profile is already owned by another runtime'' else bt_lock bt) (\<lambda>r _.
      sbind (r\<lparr>rt_locked := True\<rparr>, bt_identity bt) (\<lambda>r me.
      sbind (load_persisted_state pyrepr bt (r\<lparr>rt_cm := (rt_cm r)\<lparr>cm_local := me\<rparr>\<rparr>)) (\<lambda>r _. start_components bt r (rt_generation r))))"
  obtain r1 z where b: "?b = (r1, z)" by fastforce
  show ?thesis
  proof (cases z)
    case (Inl e)
    then show ?thesis using assms b by (auto simp: start_def Let_def split: if_splits)
  next
    case (Inr u)
    then have r1: "r' = r1" "y = rt_status r1" using assms b by (auto simp: start_def Let_def)
    from b Inr obtain me q where q: "load_persisted_state pyrepr bt (r\<lparr>rt_generation := rt_generation r + 1, rt_status := RT_STARTING,
        rt_locked := True, rt_cm := (rt_cm r)\<lparr>cm_local := me\<rparr>\<rparr>) = (q, Inr ())" "start_components bt q (rt_generation q) = (r1, Inr u)"
      by (auto simp: ok_simps)
    have "rt_generation q = rt_generation r + 1 \<and> rt_locked q"
      using load_same_life [OF same_life_refl, of "r\<lparr>rt_generation := rt_generation r + 1, rt_status := RT_STARTING,
        rt_locked := True, rt_cm := (rt_cm r)\<lparr>cm_local := me\<rparr>\<rparr>" pyrepr bt] unfolding q(1) by (simp add: same_life_def)
    with start_components_life [OF q(2)] r1 show ?thesis by (auto simp: same_life_def split: sum.split option.split)
  qed
qed

text \<open>
  The discovery callback is created with the transport generation where the runtime generation is meant: after a start on
  a profile that has a transport generation other than the runtime's, every discovery event is dropped.
\<close>

lemma discovery_dead_after_restart:
  assumes "start pyrepr bt r = (r', Inr RT_STARTED)" "\<not> rt_started r" "bt_transport bt = Inr (Some g)" "bt_discovery bt"
    and "g \<noteq> rt_generation r + 1"
  shows "rt_events r' = Some g \<and> on_discovery sig_ok r' g ev now = r'"
  using start_ok [OF assms(1,2)] assms(3-5) by (auto simp: on_discovery_def)

text \<open>
  When a listener is unavailable the profile lock is kept: the next start is refused as if another runtime owned the profile.
\<close>

lemma lock_kept_after_listener_failure:
  assumes "start pyrepr bt r = (r', Inr RT_LISTENER_UNAVAILABLE)" "\<not> rt_started r"
  shows "rt_locked r' \<and> snd (start pyrepr bt' r') = Inr RT_PERSISTENCE_FAILED"
  using start_ok [OF assms] by (simp add: start_def Let_def raise_def)

end
