(* ===== verification/RuntimeTrust.thy ===== *)
theory RuntimeTrust
  imports RuntimeLaws
begin

text \<open>
  Trust transitions of the runtime: revocation, pairing controls and elevation, with the file, the registry and the live
  service they change together.
\<close>

section \<open>Revocation\<close>

lemma refresh_live_grants_ok:
  assumes "refresh_live_grants r = (r', Inr ())"
  shows "\<exists>s'. r' = r\<lparr>rt_service := s'\<rparr> \<and> (case rt_service r of None \<Rightarrow> s' = None
    | Some s \<Rightarrow> \<exists>gs. wire_grants r = Inr gs \<and> s' = Some (s\<lparr>sv_grant_mode := True, sv_grants := gs, sv_version := sv_version s + 2,
        sv_cluster_grants := rt_grants r\<rparr>))"
proof (cases "rt_service r")
  case None
  have "r = r\<lparr>rt_service := None\<rparr>" using None by simp
  with None assms show ?thesis by (auto simp: refresh_live_grants_def)
next
  case (Some s)
  then obtain gs where "wire_grants r = Inr gs" using assms by (cases "wire_grants r") (auto simp: refresh_live_grants_def update_service_grants_def)
  then show ?thesis using assms Some
    by (cases "first_error service_grant_checked (map snd gs)")
      (auto simp: refresh_live_grants_def update_service_grants_def update_grants_def update_cluster_capability_grants_def)
qed

lemma refresh_rest: "refresh_live_grants r = (r', Inr ()) \<Longrightarrow> r' = r\<lparr>rt_service := rt_service r'\<rparr>"
  using refresh_live_grants_ok by fastforce

lemma refresh_service:
  assumes "refresh_live_grants r = (r', Inr ())" "rt_service r' = Some s"
  obtains s0 where "rt_service r = Some s0" "wire_grants r = Inr (sv_grants s)" "sv_cluster_grants s = rt_grants r"
    "sv_capability_share s = sv_capability_share s0" "sv_surfaces s = sv_surfaces s0"
proof (cases "rt_service r")
  case None
  with refresh_live_grants_ok [OF assms(1)] assms(2) show thesis by auto
next
  case (Some s0)
  with refresh_live_grants_ok [OF assms(1)] assms(2) show thesis by (intro that [of s0]) auto
qed

lemma revoke_storable: "trust_storable m perms \<Longrightarrow> trust_storable (pm_revoke m p) perms"
  by (auto simp: trust_storable_def keyed_def pm_revoke_def dict_pop_set distinct_map_filter)

definition severed :: "runtime \<Rightarrow> node_id \<Rightarrow> runtime" where
  "severed r p = set_share (sh_revoke_peer (rt_sharing r) p)
     (set_surfaces (sr_revoke_source (rt_surfaces r) (PeerSource p)) (set_pairing (pm_revoke (rt_pairing r) p) r))"

lemma severed_simps [simp]:
  "rt_pairing (severed r p) = pm_revoke (rt_pairing r) p" "rt_registry (severed r p) = rt_registry r"
  "rt_sharing (severed r p) = sh_revoke_peer (rt_sharing r) p" "rt_surfaces (severed r p) = sr_revoke_source (rt_surfaces r) (PeerSource p)"
  "rt_permissions (severed r p) = rt_permissions r" "rt_managed (severed r p) = rt_managed r"
  "rt_service (severed r p) = map_option (\<lambda>s. s\<lparr>sv_surfaces := Some (sr_revoke_source (rt_surfaces r) (PeerSource p)),
     sv_capability_share := Some (sh_revoke_peer (rt_sharing r) p)\<rparr>) (rt_service r)"
  by (simp_all add: severed_def set_share_def set_surfaces_def set_pairing_def option.map_comp comp_def)

text \<open>After the save: registry, candidates and connections of the peer.\<close>

definition disconnected :: "runtime \<Rightarrow> node_id \<Rightarrow> rat \<Rightarrow> runtime" where
  "disconnected r p now =
     (let r2 = (if ng_record (rt_registry r) p \<noteq> None then set_registry (fst (ng_revoke (rt_registry r) p)) r else r);
          r3 = r2\<lparr>rt_cm := (rt_cm r2)\<lparr>cm_candidates := dict_pop (nid_value p) (cm_candidates (rt_cm r2))\<rparr>\<rparr>
      in if rt_managed r3 then r3\<lparr>rt_cm := disconnect (rt_cm r3) p ''revoked'' now\<rparr> else r3)"

lemma revoke_peer_ok:
  assumes "revoke_peer st r p True now = (r', Inr ())"
  obtains r1 where "rt_loaded r" "save_persisted_state st (severed r p) = (r1, Inr True)" "refresh_live_grants (disconnected r1 p now) = (r', Inr ())"
  using assms by (auto simp: revoke_peer_def Let_def ok_simps saved_or_ok severed_def disconnected_def split: if_splits)

lemma disconnected_registry:
  "revoked_in p (rt_registry (disconnected r p now)) \<or> ng_record (rt_registry (disconnected r p now)) p = None"
  by (auto simp: disconnected_def Let_def disconnect_def cm_set_state_def ng_revoke_def ng_require_def ng_put_def set_registry_def
      ng_set_connection_def revoked_in_def ng_record_def)

lemma disconnected_simps [simp]:
  "rt_pairing (disconnected r p now) = rt_pairing r" "rt_sharing (disconnected r p now) = rt_sharing r"
  "rt_surfaces (disconnected r p now) = rt_surfaces r" "rt_service (disconnected r p now) = rt_service r"
  "rt_trust_file (disconnected r p now) = rt_trust_file r" "rt_grants (disconnected r p now) = rt_grants r"
  "cm_candidates (rt_cm (disconnected r p now)) = dict_pop (nid_value p) (cm_candidates (rt_cm r))"
  by (simp_all add: disconnected_def Let_def set_registry_def)

lemma disconnected_providers: "rt_managed r \<Longrightarrow> map_of (cm_providers (rt_cm (disconnected r p now))) p = None"
  by (simp add: disconnected_def Let_def disconnect_def cm_set_state_def)

lemma wire_grants_map:
  assumes "wire_grants r = Inr gs" "rt_loaded r"
  shows "map_of gs k = Option.bind (map_of (pm_grants (rt_pairing r)) k) (\<lambda>g. case wire_grant g of Inl _ \<Rightarrow> None | Inr w \<Rightarrow> Some w)"
proof -
  have "rmap (\<lambda>(n, g). rbind (wire_grant g) (\<lambda>w. Inr (n, w))) ps = Inr gs \<Longrightarrow>
      map_of gs k = Option.bind (map_of ps k) (\<lambda>g. case wire_grant g of Inl _ \<Rightarrow> None | Inr w \<Rightarrow> Some w)" for ps gs
    by (induction ps arbitrary: gs) (auto simp: ok_simps)
  with assms show ?thesis by (simp add: wire_grants_def)
qed

lemma disconnected_others:
  assumes "k \<noteq> p"
  shows "ng_record (rt_registry (disconnected r p now)) k = ng_record (rt_registry r) k"
    "map_of (cm_providers (rt_cm (disconnected r p now))) k = map_of (cm_providers (rt_cm r)) k"
  using assms
  by (auto simp: disconnected_def Let_def disconnect_def cm_set_state_def ng_revoke_def ng_require_def ng_put_def set_registry_def
      ng_set_connection_def ng_record_def dict_simps split: option.splits)

lemma disconnected_rest [simp]:
  "rt_cluster (disconnected r p now) = rt_cluster r" "rt_permissions (disconnected r p now) = rt_permissions r"
  "rt_loaded (disconnected r p now) = rt_loaded r"
  by (simp_all add: disconnected_def Let_def set_registry_def)

lemma severed_rest [simp]:
  "rt_cluster (severed r p) = rt_cluster r" "rt_grants (severed r p) = rt_grants r" "rt_loaded (severed r p) = rt_loaded r"
  "rt_cm (severed r p) = (rt_cm r)\<lparr>cm_pairing := pm_revoke (rt_pairing r) p\<rparr>"
  by (simp_all add: severed_def set_share_def set_surfaces_def set_pairing_def)

lemma revoke_relationship:
  assumes "k \<noteq> p"
  shows "pm_relationship (pm_revoke m p) k t = pm_relationship m k t"
proof -
  have "find (\<lambda>x. pp_peer x = k \<and> now < pp_expires x) (map snd (filter (\<lambda>(i, x). pp_peer x \<noteq> p) ps))
      = find (\<lambda>x. pp_peer x = k \<and> now < pp_expires x) (map snd ps)" for now and ps :: "(string \<times> pending_pairing) list"
    using assms by (induction ps) auto
  then show ?thesis
    using assms by (simp add: pm_relationship_def find_pending_for_def pm_is_auth_broken_def pm_revoke_def dict_simps Let_def)
qed

lemma revoke_source_others:
  "k \<noteq> p \<Longrightarrow> PeerSource p \<notin> set srcs \<Longrightarrow>
     surface_granted (sr_revoke_source s (PeerSource p)) k sid acc srcs t = surface_granted s k sid acc srcs t"
  "\<not> surface_granted (sr_revoke_source s (PeerSource p)) p sid acc [PeerSource p] t"
proof -
  have f: "map_of (filter (\<lambda>(i, g). P i) d) i = (if P i then map_of d i else None)" for P and d :: "('k \<times> 'v) list" and i
    by (induction d) auto
  show "surface_granted (sr_revoke_source s (PeerSource p)) k sid acc srcs t = surface_granted s k sid acc srcs t"
    if "k \<noteq> p" "PeerSource p \<notin> set srcs"
  proof -
    have "src \<noteq> PeerSource p" if "src \<in> set srcs" for src using \<open>PeerSource p \<notin> set srcs\<close> that by blast
    then show ?thesis using that by (auto simp: surface_granted_def sr_revoke_source_def f)
  qed
  show "\<not> surface_granted (sr_revoke_source s (PeerSource p)) p sid acc [PeerSource p] t"
    by (simp add: surface_granted_def sr_revoke_source_def f grant_valid_def)
qed

lemma severed_served:
  assumes "rt_loaded r" "save_persisted_state st (severed r p) = (r1, Inr True)" "refresh_live_grants (disconnected r1 p now) = (r', Inr ())"
    and "rt_service r' = Some s"
  shows "sv_capability_share s = Some (sh_revoke_peer (rt_sharing r) p) \<and> sv_surfaces s = Some (sr_revoke_source (rt_surfaces r) (PeerSource p))
    \<and> sv_cluster_grants s = rt_grants r
    \<and> map_of (sv_grants s) i = Option.bind (map_of (pm_grants (pm_revoke (rt_pairing r) p)) i) (\<lambda>g. case wire_grant g of Inl _ \<Rightarrow> None | Inr w \<Rightarrow> Some w)"
proof -
  obtain tf cf where r1f: "r1 = (severed r p)\<lparr>rt_trust_file := tf, rt_cluster_file := cf\<rparr>" by (rule save_cases [OF assms(2)])
  note r' = refresh_rest [OF assms(3)]
  have sh: "rt_sharing r' = sh_revoke_peer (rt_sharing r) p" "rt_surfaces r' = sr_revoke_source (rt_surfaces r) (PeerSource p)"
    by (subst r', simp add: r1f)+
  show ?thesis
  proof (rule refresh_service [OF assms(3,4)])
    fix s0 assume s0: "rt_service (disconnected r1 p now) = Some s0" "wire_grants (disconnected r1 p now) = Inr (sv_grants s)"
      "sv_cluster_grants s = rt_grants (disconnected r1 p now)"
      "sv_capability_share s = sv_capability_share s0" "sv_surfaces s = sv_surfaces s0"
    have "rt_loaded (disconnected r1 p now)" using assms(1) by (simp add: r1f)
    from wire_grants_map [OF s0(2) this] show ?thesis using s0 by (auto simp: sh r1f)
  qed
qed

text \<open>
  C9. Revoking a peer severs it everywhere, and nobody else: when \<open>revoke_peer\<close> returns, the peer is unpaired, cannot vouch for
  a cluster join, holds no shared capability and no surface, has no candidate and no connection, is revoked in the
  registry, the live service has no grant for it (and serves the reduced shares), and the trust file is that of the new
  pairing state; where the old state could be read back from its file (no peer paired over the network in this run), the
  new file gives a new process a state without the peer. For every other peer all of this is as before: grant, trust,
  relationship, shared capabilities, surfaces through other sources, candidate, connection, registry record, and its grant
  in the live service is that of its pairing; cluster and capability grants are untouched.
\<close>

theorem revoke_peer_everywhere:
  assumes run: "revoke_peer st r p True now = (r', Inr ())" and inv: "pm_inv (rt_pairing r)" "share_inv (rt_sharing r)"
    and other: "k \<noteq> p" "PeerSource p \<notin> set srcs"
  shows "pm_relationship (rt_pairing r') p t = UNPAIRED \<and> \<not> pm_can_join_cluster (rt_pairing r') p
    \<and> allowed_set (rt_sharing r') p = {} \<and> \<not> surface_granted (rt_surfaces r') p sid acc [PeerSource p] t
    \<and> map_of (cm_candidates (rt_cm r')) (nid_value p) = None \<and> (rt_managed r \<longrightarrow> map_of (cm_providers (rt_cm r')) p = None)
    \<and> (revoked_in p (rt_registry r') \<or> ng_record (rt_registry r') p = None)
    \<and> (\<forall>s. rt_service r' = Some s \<longrightarrow> map_of (sv_grants s) p = None \<and> sv_capability_share s = Some (rt_sharing r')
         \<and> sv_surfaces s = Some (rt_surfaces r'))
    \<and> rt_trust_file r' = Some (trust_document (rt_pairing r') (rt_permissions r))
    \<and> (trust_storable (rt_pairing r) (rt_permissions r) \<longrightarrow>
         (\<exists>m perms. load_trust pyrepr (pm_new (pm_local (rt_pairing r)) ttl, []) (trust_document (rt_pairing r') (rt_permissions r))
              = ((m, perms), Inr ()) \<and> same_trust (rt_pairing r') m \<and> pm_relationship m p t = UNPAIRED))
    \<and> map_of (pm_grants (rt_pairing r')) k = map_of (pm_grants (rt_pairing r)) k
    \<and> map_of (pm_trusted (rt_pairing r')) k = map_of (pm_trusted (rt_pairing r)) k
    \<and> pm_relationship (rt_pairing r') k t = pm_relationship (rt_pairing r) k t
    \<and> allowed_set (rt_sharing r') k = allowed_set (rt_sharing r) k
    \<and> surface_granted (rt_surfaces r') k sid acc srcs t = surface_granted (rt_surfaces r) k sid acc srcs t
    \<and> (n \<noteq> nid_value p \<longrightarrow> map_of (cm_candidates (rt_cm r')) n = map_of (cm_candidates (rt_cm r)) n)
    \<and> map_of (cm_providers (rt_cm r')) k = map_of (cm_providers (rt_cm r)) k
    \<and> ng_record (rt_registry r') k = ng_record (rt_registry r) k
    \<and> rt_cluster r' = rt_cluster r \<and> rt_grants r' = rt_grants r
    \<and> (\<forall>s. rt_service r' = Some s \<longrightarrow> sv_cluster_grants s = rt_grants r
         \<and> map_of (sv_grants s) k = Option.bind (map_of (pm_grants (rt_pairing r)) k) (\<lambda>g. case wire_grant g of Inl _ \<Rightarrow> None | Inr w \<Rightarrow> Some w))"
proof -
  from revoke_peer_ok [OF run] obtain r1 where r1: "rt_loaded r" "save_persisted_state st (severed r p) = (r1, Inr True)"
    "refresh_live_grants (disconnected r1 p now) = (r', Inr ())" .
  obtain tf cf where r1f: "r1 = (severed r p)\<lparr>rt_trust_file := tf, rt_cluster_file := cf\<rparr>" by (rule save_cases [OF r1(2)])
  have tf: "rt_trust_file r1 = Some (trust_document (pm_revoke (rt_pairing r) p) (rt_permissions r))" using save_True [OF r1(2)] by simp
  note r' = refresh_rest [OF r1(3)]
  let ?m = "pm_revoke (rt_pairing r) p"
  have pm: "rt_pairing r' = ?m" by (subst r') (simp add: r1f)
  have sh: "rt_sharing r' = sh_revoke_peer (rt_sharing r) p" "rt_surfaces r' = sr_revoke_source (rt_surfaces r) (PeerSource p)"
    by (subst r', simp add: r1f)+
  have gone: "map_of (pm_grants ?m) p = None" by (simp add: pm_revoke_def dict_simps)
  have kept: "map_of (pm_grants ?m) k = map_of (pm_grants (rt_pairing r)) k" "map_of (pm_trusted ?m) k = map_of (pm_trusted (rt_pairing r)) k"
    using other(1) by (simp_all add: pm_revoke_def dict_simps)
  note sev = revoke_severs [OF inv(1), of p]
  have srv: "map_of (sv_grants s) p = None \<and> sv_capability_share s = Some (rt_sharing r') \<and> sv_surfaces s = Some (rt_surfaces r')
      \<and> sv_cluster_grants s = rt_grants r
      \<and> map_of (sv_grants s) k = Option.bind (map_of (pm_grants (rt_pairing r)) k) (\<lambda>g. case wire_grant g of Inl _ \<Rightarrow> None | Inr w \<Rightarrow> Some w)"
    if "rt_service r' = Some s" for s
    using severed_served [OF r1 that, of p] severed_served [OF r1 that, of k] gone kept(1) by (simp add: sh)
  have load: "load_trust pyrepr (pm_new (pm_local (rt_pairing r)) ttl, []) (trust_document ?m (rt_permissions r))
      = (((pm_new (pm_local (rt_pairing r)) ttl)\<lparr>pm_pending := pm_pending ?m, pm_trusted := pm_trusted ?m, pm_grants := pm_grants ?m\<rparr>,
         map (\<lambda>(k, t). (k, pending_permissions_of (rt_permissions r) k)) (pm_pending ?m)), Inr ())"
    if "trust_storable (rt_pairing r) (rt_permissions r)"
    by (rule load_trust_document [OF revoke_storable [OF that]]) (simp_all add: pm_new_def)
  have un: "pm_relationship ((pm_new n ttl)\<lparr>pm_pending := pm_pending ?m, pm_trusted := pm_trusted ?m, pm_grants := pm_grants ?m\<rparr>) p t = UNPAIRED" for n
    using sev [of t] by (simp add: pm_relationship_def pm_is_auth_broken_def find_pending_for_def pm_revoke_def pm_new_def Let_def)
  have reload: "trust_storable (rt_pairing r) (rt_permissions r) \<longrightarrow>
      (\<exists>m perms. load_trust pyrepr (pm_new (pm_local (rt_pairing r)) ttl, []) (trust_document (rt_pairing r') (rt_permissions r))
           = ((m, perms), Inr ()) \<and> same_trust (rt_pairing r') m \<and> pm_relationship m p t = UNPAIRED)"
    using load un unfolding pm by (auto simp: same_trust_def)
  have share: "allowed_set (rt_sharing r') p = {}" "allowed_set (rt_sharing r') k = allowed_set (rt_sharing r) k"
    using share_revoke_peer_effect(1) [OF inv(2)] other(1) by (simp_all add: sh)
  have surf: "\<not> surface_granted (rt_surfaces r') p sid acc [PeerSource p] t"
    "surface_granted (rt_surfaces r') k sid acc srcs t = surface_granted (rt_surfaces r) k sid acc srcs t"
    using revoke_source_others other by (simp_all add: sh)
  have cand: "map_of (cm_candidates (rt_cm r')) (nid_value p) = None"
    "n \<noteq> nid_value p \<Longrightarrow> map_of (cm_candidates (rt_cm r')) n = map_of (cm_candidates (rt_cm r)) n"
    by (subst r', simp add: r1f dict_simps)+
  have prov: "rt_managed r \<longrightarrow> map_of (cm_providers (rt_cm r')) p = None"
    "map_of (cm_providers (rt_cm r')) k = map_of (cm_providers (rt_cm r)) k"
    by (subst r', simp add: disconnected_providers disconnected_others [OF other(1)] r1f)+
  have reg: "revoked_in p (rt_registry r') \<or> ng_record (rt_registry r') p = None"
    by (subst (1 2) r') (simp add: disconnected_registry)
  have reg2: "ng_record (rt_registry r') k = ng_record (rt_registry r) k"
    by (subst r') (simp add: disconnected_others [OF other(1)] r1f)
  have clu: "rt_cluster r' = rt_cluster r" "rt_grants r' = rt_grants r" by (subst r', simp add: r1f)+
  have stored: "rt_trust_file r' = Some (trust_document (rt_pairing r') (rt_permissions r))" unfolding pm by (subst r') (simp add: tf)
  show ?thesis
    using sev share surf cand prov reg reg2 clu stored srv reload kept revoke_relationship [OF other(1)] unfolding pm by blast
qed

lemma save_plain:
  assumes "accepts st" "rt_loaded r" "rt_ready r" "rt_cluster r = None"
  shows "save_persisted_state st r = (r\<lparr>rt_trust_file := Some (trust_document (rt_pairing r) (rt_permissions r))\<rparr>, Inr True)"
  using assms by (simp add: save_persisted_state_def try_save_def trust_document_current accepts_def)

definition demo_plain :: runtime where
  "demo_plain = demo_runtime\<lparr>rt_cluster := None\<rparr>"

lemma demo_plain_simps [simp]:
  "rt_loaded demo_plain" "rt_ready demo_plain" "rt_cluster demo_plain = None" "rt_service demo_plain = None" "rt_pairing demo_plain = demo_manager"
  "rt_permissions demo_plain = [(''t1'', {''read_state''})]" "rt_sharing demo_plain = share_new"
  "rt_registry demo_plain = registry_for (NodeId ''a'') True"
  by (simp_all add: demo_plain_def demo_runtime_def)

theorem revoke_peer_everywhere_witness:
  "\<exists>r'. revoke_peer demo_storage demo_plain (NodeId ''b'') True 0 = (r', Inr ()) \<and> pm_relationship (rt_pairing r') (NodeId ''b'') 0 = UNPAIRED
     \<and> pm_relationship (rt_pairing r') (NodeId ''c'') 0 = PENDING_INBOUND"
proof -
  have "save_persisted_state demo_storage (severed demo_plain (NodeId ''b''))
      = ((severed demo_plain (NodeId ''b''))\<lparr>rt_trust_file := Some (trust_document (pm_revoke demo_manager (NodeId ''b'')) [(''t1'', {''read_state''})])\<rparr>, Inr True)"
    by (subst save_plain [OF demo_accepts]) (simp_all add: severed_def set_share_def set_surfaces_def)
  then have "\<exists>r'. revoke_peer demo_storage demo_plain (NodeId ''b'') True 0 = (r', Inr ())"
    by (simp add: revoke_peer_def severed_def saved_or_def Let_def refresh_live_grants_def set_share_def set_surfaces_def set_registry_def)
  then obtain r' where r: "revoke_peer demo_storage demo_plain (NodeId ''b'') True 0 = (r', Inr ())" by blast
  have "share_inv share_new" by (simp add: share_inv_def share_new_def allowed_set_def)
  moreover have "pm_relationship demo_manager (NodeId ''c'') 0 = PENDING_INBOUND"
    by (simp add: pm_relationship_def demo_manager_def pm_new_def find_pending_for_def demo_waiting_def Let_def)
  ultimately show ?thesis
    using revoke_peer_everywhere [OF r, of "NodeId ''c''" "[]" 0] demo_manager_storable r by simp
qed

section \<open>Pairing controls\<close>

definition agreed_grant :: "pending_pairing \<Rightarrow> string set \<Rightarrow> peer_grant" where
  "agreed_grant t ps = \<lparr>pg_caller = pp_peer t, pg_secret = pp_secret t, pg_permissions = ps, pg_binding = pp_binding t, pg_members = False\<rparr>"

lemma project_keeps [simp]:
  "rt_pairing (project_registry_trust r p) = rt_pairing r" "rt_permissions (project_registry_trust r p) = rt_permissions r"
  by (simp_all add: project_registry_trust_def)

lemma refresh_keeps:
  "rt_pairing (fst (refresh_live_grants r)) = rt_pairing r" "rt_permissions (fst (refresh_live_grants r)) = rt_permissions r"
  by (auto simp: refresh_live_grants_def update_service_grants_def sbind_def split: option.split sum.split prod.split)

lemma refresh_ok:
  assumes "keyed pg_caller grant_storable (pm_grants (rt_pairing r))"
  shows "\<exists>r'. refresh_live_grants r = (r', Inr ())"
proof -
  obtain gs where w: "wire_grants r = Inr gs" using wire_grants_ok [OF assms] by blast
  show ?thesis using wire_grants_checked [OF assms w]
    by (cases "rt_service r") (auto simp: refresh_live_grants_def update_service_grants_def w update_grants_def)
qed

lemma save_keeps:
  assumes "save_persisted_state st r = (r', x)"
  shows "rt_pairing r' = rt_pairing r" "rt_permissions r' = rt_permissions r" "rt_registry r' = rt_registry r" "rt_service r' = rt_service r"
    "rt_cluster r' = rt_cluster r" "rt_grants r' = rt_grants r" "rt_loaded r' = rt_loaded r" "rt_cm r' = rt_cm r" "rt_failover r' = rt_failover r"
    "rt_ready r' = rt_ready r"
  by (rule save_cases [OF assms], simp)+

lemma restore_same [simp]: "pm_restore_snapshot (m\<lparr>pm_grants := gs\<rparr>) (pm_snapshot m) = m"
  by (simp add: pm_restore_snapshot_def pm_snapshot_def)

lemma agreed_storable: "pending_storable t \<Longrightarrow> known_permissions ps \<Longrightarrow> grant_storable (agreed_grant t ps)"
  by (simp add: pending_storable_def grant_storable_def agreed_grant_def)

lemma read_known: "ps \<subseteq> permission_value ` READ_PERMISSIONS \<Longrightarrow> known_permissions ps"
  unfolding known_permissions_def all_permissions_def by (rule order_trans, assumption) (auto simp: READ_PERMISSIONS_def)

lemma pm_approve_Inr:
  "pm_approve m tx ps now = (m', Inr g) \<longleftrightarrow> (\<exists>t. map_of (pm_pending m) tx = Some t \<and> now < pp_expires t \<and> ps \<subseteq> READ_ONLY_PERMISSIONS
     \<and> g = agreed_grant t ps \<and> m' = m\<lparr>pm_grants := dict_set (pp_peer t) g (pm_grants m)\<rparr>)"
proof (cases "active m tx now")
  case (Inl e)
  then have "\<nexists>t. map_of (pm_pending m) tx = Some t \<and> now < pp_expires t" by (metis Inl_Inr_False active_Inr)
  with Inl show ?thesis by (auto simp: pm_approve_def)
next
  case (Inr t)
  with active_Inr [of m tx now t] show ?thesis by (auto simp: pm_approve_def agreed_grant_def Let_def)
qed

lemma pm_approve_Inl: "pm_approve m tx ps now = (m', Inl e) \<Longrightarrow> m' = m"
  by (auto simp: pm_approve_def Let_def split: sum.splits if_splits)

text \<open>What the target's own part of the state has to satisfy; its outbound trust does not matter here.\<close>

definition inbound_storable :: "pairing_manager \<Rightarrow> bool" where
  "inbound_storable m \<longleftrightarrow> keyed pg_caller grant_storable (pm_grants m) \<and> keyed pp_id pending_storable (pm_pending m)"

lemma trust_inbound: "trust_storable m perms \<Longrightarrow> inbound_storable m"
  by (simp add: trust_storable_def inbound_storable_def)

lemma approve_cases:
  assumes run: "approve_pairing st r tx ps now = (r', x)" and st: "io_storage st" and ok: "inbound_storable (rt_pairing r)"
  shows "rt_permissions r' = rt_permissions r \<and>
    (case x of
       Inl e \<Rightarrow> rt_pairing r' = rt_pairing r
     | Inr g \<Rightarrow> \<exists>t. g = agreed_grant t ps \<and> map_of (pm_pending (rt_pairing r)) tx = Some t \<and> now < pp_expires t
        \<and> ps \<subseteq> permission_value ` READ_PERMISSIONS
        \<and> rt_pairing r' = (rt_pairing r)\<lparr>pm_grants := dict_set (pp_peer t) g (pm_grants (rt_pairing r))\<rparr>)"
proof (cases "\<not> ps \<subseteq> permission_value ` READ_PERMISSIONS \<or> \<not> rt_loaded r")
  case True
  then have "\<exists>e. approve_pairing st r tx ps now = (r, Inl e)"
    by (cases "ps \<subseteq> permission_value ` READ_PERMISSIONS") (simp_all add: approve_pairing_def raise_def)
  then show ?thesis using run by auto
next
  case False
  obtain p y where a: "pm_approve (rt_pairing r) tx ps now = (p, y)" by fastforce
  show ?thesis
  proof (cases y)
    case (Inl e)
    then show ?thesis using run a False pm_approve_Inl [of "rt_pairing r" tx ps now p e] by (auto simp: approve_pairing_def Let_def)
  next
    case (Inr g)
    then obtain t where t: "map_of (pm_pending (rt_pairing r)) tx = Some t" "now < pp_expires t" "g = agreed_grant t ps"
        "p = (rt_pairing r)\<lparr>pm_grants := dict_set (pp_peer t) g (pm_grants (rt_pairing r))\<rparr>"
      using a by (auto simp: pm_approve_Inr)
    obtain r1 b where s: "save_persisted_state st (set_pairing p r) = (r1, Inr b)" using save_total [OF st] by blast
    note k = save_keeps(1,2) [OF s, simplified]
    show ?thesis
    proof (cases b)
      case False': False
      then show ?thesis using run a Inr s False k t
        by (auto simp: approve_pairing_def Let_def saved_or_def raise_def)
    next
      case True
      have "pending_storable t" using ok t(1) by (auto simp: inbound_storable_def keyed_def dest: map_of_SomeD)
      then have "grant_storable g" using False t(3) agreed_storable read_known by blast
      moreover have "pg_caller g = pp_peer t" using t(3) by (simp add: agreed_grant_def)
      ultimately have "keyed pg_caller grant_storable (pm_grants p)"
        using keyed_set [of pg_caller grant_storable "pm_grants (rt_pairing r)" g] ok t(4) by (simp add: inbound_storable_def)
      then obtain r2 where r2: "refresh_live_grants (project_registry_trust r1 (pg_caller g)) = (r2, Inr ())"
        using refresh_ok [of "project_registry_trust r1 (pg_caller g)"] k by auto
      then have "rt_pairing r2 = p" "rt_permissions r2 = rt_permissions r"
        using refresh_keeps [of "project_registry_trust r1 (pg_caller g)"] k by auto
      then show ?thesis using run a Inr s False True r2 t by (auto simp: approve_pairing_def Let_def saved_or_def)
    qed
  qed
qed

lemma abort_simps [simp]:
  "rt_pairing (abort_pairing r tx) = pm_abort (rt_pairing r) tx" "rt_permissions (abort_pairing r tx) = dict_pop tx (rt_permissions r)"
  by (simp_all add: abort_pairing_def set_pairing_def)

lemma pm_abort_keeps [simp]: "pm_grants (pm_abort m tx) = pm_grants m" "pm_trusted (pm_abort m tx) = pm_trusted m"
  by (simp_all add: pm_abort_def)

lemma restored_trust [simp]:
  "pm_grants (pm_restore_snapshot m (pm_snapshot m')) = pm_grants m'" "pm_trusted (pm_restore_snapshot m (pm_snapshot m')) = pm_trusted m'"
  by (simp_all add: pm_restore_snapshot_def pm_snapshot_def)

lemma confirm_cases:
  assumes run: "confirm_pairing st1 st2 st3 r tx ps now = (r', Inr b)" and st: "io_storage st1" "io_storage st2" "io_storage st3"
    and ok: "inbound_storable (rt_pairing r)"
  shows "pm_trusted (rt_pairing r') = pm_trusted (rt_pairing r) \<and> (\<not> b \<longrightarrow> pm_grants (rt_pairing r') = pm_grants (rt_pairing r))
    \<and> (b \<longrightarrow> (\<exists>t. map_of (pm_pending (rt_pairing r)) tx = Some t \<and> now < pp_expires t \<and> ps \<subseteq> permission_value ` READ_PERMISSIONS
        \<and> pm_grants (rt_pairing r') = dict_set (pp_peer t) (agreed_grant t ps) (pm_grants (rt_pairing r))
        \<and> pm_pending (rt_pairing r') = dict_pop tx (pm_pending (rt_pairing r))
        \<and> rt_trust_file r' = Some (trust_document (rt_pairing r') (rt_permissions r'))))"
proof -
  obtain r1 x where a: "approve_pairing st1 r tx ps now = (r1, x)" by fastforce
  note c = approve_cases [OF a st(1) ok]
  show ?thesis
  proof (cases x)
    case (Inl e)
    then have "\<not> b" "r' = r1" using run a by (auto simp: confirm_pairing_def Let_def split: if_splits)
    then show ?thesis using c Inl by auto
  next
    case (Inr g)
    then obtain t where t: "g = agreed_grant t ps" "map_of (pm_pending (rt_pairing r)) tx = Some t" "now < pp_expires t"
        "ps \<subseteq> permission_value ` READ_PERMISSIONS"
        "rt_pairing r1 = (rt_pairing r)\<lparr>pm_grants := dict_set (pp_peer t) g (pm_grants (rt_pairing r))\<rparr>"
      using c by auto
    obtain r2 b2 where s: "save_persisted_state st2 (abort_pairing r1 tx) = (r2, Inr b2)" using save_total [OF st(2)] by blast
    show ?thesis
    proof (cases b2)
      case True
      then have "r' = r2" "b" using run a Inr s by (auto simp: confirm_pairing_def Let_def)
      then show ?thesis using t save_keeps(1,2) [OF s] save_True [of st2 "abort_pairing r1 tx" r2] s True
        by (auto simp: pm_abort_def)
    next
      case False
      define q where "q = (set_pairing (pm_restore_snapshot (rt_pairing r2) (pm_snapshot (rt_pairing r))) r2)\<lparr>rt_permissions := dict_set tx ps (rt_permissions r2)\<rparr>"
      obtain r3 b3 where s3: "save_persisted_state st3 q = (r3, Inr b3)" using save_total [OF st(3)] by blast
      then have "r' = r3" "\<not> b" using run a Inr s False by (auto simp: confirm_pairing_def Let_def q_def)
      then show ?thesis using save_keeps(1) [OF s3] by (simp add: q_def)
    qed
  qed
qed

lemma control_confirms:
  assumes run: "handle_pairing_control st1 st2 st3 r q now = (r', Inr True)" and op: "pc_operation q = ''pair_confirm''"
    and st: "io_storage st1" "io_storage st2" "io_storage st3" and ok: "inbound_storable (rt_pairing r)"
  shows "pm_trusted (rt_pairing r') = pm_trusted (rt_pairing r)
    \<and> (\<exists>t ps. map_of (pm_pending (rt_pairing r)) (pc_transaction q) = Some t \<and> pp_peer t = pc_caller q \<and> pp_secret t = pc_secret q
        \<and> bd_identity (pp_binding t) = Some (pc_identity q) \<and> bd_transport (pp_binding t) = Some (pc_transport q)
        \<and> pp_expires t = pc_expires q \<and> now < pp_expires t \<and> ps = permission_value ` pc_permissions q
        \<and> map_of (rt_permissions r) (pc_transaction q) = Some ps \<and> ps \<subseteq> permission_value ` READ_PERMISSIONS
        \<and> pm_grants (rt_pairing r') = dict_set (pc_caller q) (agreed_grant t ps) (pm_grants (rt_pairing r))
        \<and> map_of (pm_pending (rt_pairing r')) (pc_transaction q) = None
        \<and> rt_trust_file r' = Some (trust_document (rt_pairing r') (rt_permissions r')))"
proof -
  obtain t ps where t: "map_of (pm_pending (rt_pairing r)) (pc_transaction q) = Some t" "map_of (rt_permissions r) (pc_transaction q) = Some ps"
    using run by (auto simp: handle_pairing_control_def raise_def split: if_splits option.splits)
  note h = run [unfolded handle_pairing_control_def t]
  have conf: "ps = permission_value ` pc_permissions q" "pp_peer t = pc_caller q" "bd_identity (pp_binding t) = Some (pc_identity q)"
      "bd_transport (pp_binding t) = Some (pc_transport q)" "pp_secret t = pc_secret q" "pp_expires t = pc_expires q"
      "confirm_pairing st1 st2 st3 r (pc_transaction q) ps now = (r', Inr True)"
    using h op by (auto simp: raise_def split: if_splits)
  from confirm_cases [OF conf(7) st ok] conf(1-6) t show ?thesis by auto
qed

text \<open>
  C15. A pairing control from the network creates only what was agreed: a confirmation that is answered with success found
  a pending pairing of the same transaction, caller, identity, transport key, secret and expiry that is not expired, whose
  remembered permissions are the requested ones and read-only; it adds exactly the grant of that pairing, ends the
  transaction and leaves the trust file in agreement with memory. In every other answered case, abort, mismatch, expiry or
  a failed write, the grants are as before; the outbound trust never changes.
\<close>

theorem pairing_control_sound:
  assumes run: "handle_pairing_control st1 st2 st3 r q now = (r', Inr b)" and st: "io_storage st1" "io_storage st2" "io_storage st3"
    and ok: "inbound_storable (rt_pairing r)"
  shows "pm_trusted (rt_pairing r') = pm_trusted (rt_pairing r) \<and>
    (if b \<and> pc_operation q = ''pair_confirm''
     then \<exists>t ps. map_of (pm_pending (rt_pairing r)) (pc_transaction q) = Some t \<and> pp_peer t = pc_caller q \<and> pp_secret t = pc_secret q
        \<and> bd_identity (pp_binding t) = Some (pc_identity q) \<and> bd_transport (pp_binding t) = Some (pc_transport q)
        \<and> pp_expires t = pc_expires q \<and> now < pp_expires t \<and> ps = permission_value ` pc_permissions q
        \<and> map_of (rt_permissions r) (pc_transaction q) = Some ps \<and> ps \<subseteq> permission_value ` READ_PERMISSIONS
        \<and> pm_grants (rt_pairing r') = dict_set (pc_caller q) (agreed_grant t ps) (pm_grants (rt_pairing r))
        \<and> map_of (pm_pending (rt_pairing r')) (pc_transaction q) = None
        \<and> rt_trust_file r' = Some (trust_document (rt_pairing r') (rt_permissions r'))
     else pm_grants (rt_pairing r') = pm_grants (rt_pairing r))"
proof (cases "map_of (pm_pending (rt_pairing r)) (pc_transaction q)")
  case None
  then show ?thesis using run by (auto simp: handle_pairing_control_def raise_def split: if_splits)
next
  case (Some t)
  show ?thesis
  proof (cases "map_of (rt_permissions r) (pc_transaction q)")
    case None
    then show ?thesis using run Some by (auto simp: handle_pairing_control_def raise_def split: if_splits)
  next
    case (Some ps)
    note h = run [unfolded handle_pairing_control_def \<open>map_of (pm_pending (rt_pairing r)) (pc_transaction q) = Some t\<close> Some]
    show ?thesis
    proof (cases "b \<and> pc_operation q = ''pair_confirm''")
      case True
      with control_confirms [OF _ _ st ok, of q now r'] run show ?thesis by auto
    next
      case False
      then have "r' = r \<or> (\<exists>r2. save_persisted_state st1 (abort_pairing r (pc_transaction q)) = (r', Inr b))
          \<or> (\<not> b \<and> confirm_pairing st1 st2 st3 r (pc_transaction q) ps now = (r', Inr b))"
        using h by (auto simp: raise_def split: if_splits)
      then show ?thesis using False confirm_cases [OF _ st ok] save_keeps(1) [of st1 "abort_pairing r (pc_transaction q)" r' "Inr b"] by auto
    qed
  qed
qed

definition demo_confirm :: pairing_control where
  "demo_confirm = \<lparr>pc_operation = ''pair_confirm'', pc_transaction = ''t1'', pc_caller = NodeId ''c'', pc_identity = ''i'', pc_transport = ''f'',
     pc_secret = sample_secret, pc_permissions = {READ_STATE}, pc_expires = 10\<rparr>"

lemma demo_confirm_runs:
  "\<exists>r'. handle_pairing_control demo_storage demo_storage demo_storage demo_plain demo_confirm 5 = (r', Inr True)"
proof -
  have p: "map_of (pm_pending demo_manager) ''t1'' = Some demo_waiting" by (simp add: demo_manager_def)
  have a: "pm_approve demo_manager ''t1'' {''read_state''} 5
      = (demo_manager\<lparr>pm_grants := dict_set (NodeId ''c'') (agreed_grant demo_waiting {''read_state''}) (pm_grants demo_manager)\<rparr>,
         Inr (agreed_grant demo_waiting {''read_state''}))"
    using p by (simp add: pm_approve_Inr) (simp add: demo_waiting_def READ_ONLY_PERMISSIONS_def)
  have r: "{''read_state''} \<subseteq> permission_value ` READ_PERMISSIONS" by (simp add: READ_PERMISSIONS_def)
  have "\<exists>r1 g. approve_pairing demo_storage demo_plain ''t1'' {''read_state''} 5 = (r1, Inr g) \<and> rt_loaded r1 \<and> rt_ready r1 \<and> rt_cluster r1 = None"
    using r by (simp add: approve_pairing_def a saved_or_def save_plain [OF demo_accepts] refresh_live_grants_def project_registry_trust_def)
  then obtain r1 g where r1: "approve_pairing demo_storage demo_plain ''t1'' {''read_state''} 5 = (r1, Inr g)" "rt_loaded r1" "rt_ready r1" "rt_cluster r1 = None"
    by blast
  have "\<exists>r2. save_persisted_state demo_storage (abort_pairing r1 ''t1'') = (r2, Inr True)"
    using r1(2-4) by (subst save_plain [OF demo_accepts]) (simp_all add: abort_pairing_def)
  then obtain r2 where r2: "save_persisted_state demo_storage (abort_pairing r1 ''t1'') = (r2, Inr True)" by blast
  have "confirm_pairing demo_storage demo_storage demo_storage demo_plain ''t1'' {''read_state''} 5 = (r2, Inr True)"
    by (simp add: confirm_pairing_def r1(1) r2)
  then show ?thesis
    by (simp add: handle_pairing_control_def demo_confirm_def p) (simp add: demo_waiting_def)
qed

theorem pairing_control_sound_witness:
  "\<exists>r'. handle_pairing_control demo_storage demo_storage demo_storage demo_plain demo_confirm 5 = (r', Inr True)
     \<and> map_of (pm_pending (rt_pairing r')) ''t1'' = None"
proof -
  obtain r' where r: "handle_pairing_control demo_storage demo_storage demo_storage demo_plain demo_confirm 5 = (r', Inr True)"
    using demo_confirm_runs by blast
  from pairing_control_sound [OF r demo_io demo_io demo_io] r trust_inbound [OF demo_manager_storable(1)] show ?thesis by (auto simp: demo_confirm_def)
qed

section \<open>Elevation\<close>

definition elevated_grant :: "peer_grant \<Rightarrow> elevation_request \<Rightarrow> peer_grant" where
  "elevated_grant g q = \<lparr>pg_caller = pg_caller g, pg_secret = pg_secret g, pg_permissions = permission_value ` er_permissions q,
     pg_binding = \<lparr>bd_identity = bd_identity (pg_binding g), bd_transport = bd_transport (pg_binding g), bd_root = None,
       bd_generation = None, bd_proof = None\<rparr>, pg_members = False\<rparr>"

text \<open>
  Permissions are raised only for the holder of the current secret and only with the host's approval: when an elevation
  is granted, the caller has a grant, presented its secret and its fingerprints, the host's callback approved exactly this
  request, and the new grant differs from the old one in the permissions and the dropped root binding alone; it is in the
  trust file. A refused elevation changes no grant. Grants of other callers and all outbound trust stay in both cases.
\<close>

theorem elevation_sound:
  assumes run: "handle_elevation_request st r q approve = (r', Inr b)"
  shows "pm_trusted (rt_pairing r') = pm_trusted (rt_pairing r) \<and>
    (\<forall>k. k \<noteq> er_caller q \<or> \<not> b \<longrightarrow> map_of (pm_grants (rt_pairing r')) k = map_of (pm_grants (rt_pairing r)) k) \<and>
    (b \<longrightarrow> (\<exists>f g. approve = Some f \<and> f q \<and> map_of (pm_grants (rt_pairing r)) (er_caller q) = Some g
       \<and> pg_secret g = er_current q \<and> bd_identity (pg_binding g) = Some (er_identity q)
       \<and> bd_transport (pg_binding g) = Some (er_transport q)
       \<and> map_of (pm_grants (rt_pairing r')) (er_caller q) = Some (elevated_grant g q)
       \<and> rt_trust_file r' = Some (trust_document (rt_pairing r') (rt_permissions r'))))"
proof (cases "approve = None \<or> map_of (pm_grants (rt_pairing r)) (er_caller q) = None")
  case True
  then show ?thesis using run by (auto simp: handle_elevation_request_def raise_def split: if_splits option.splits)
next
  case False
  then obtain f g where f: "approve = Some f" and g: "map_of (pm_grants (rt_pairing r)) (er_caller q) = Some g" by auto
  let ?put = "\<lambda>x r. set_pairing ((rt_pairing r)\<lparr>pm_grants := dict_set (er_caller q) x (pm_grants (rt_pairing r))\<rparr>) r"
  note h = run [unfolded handle_elevation_request_def f g Let_def prod.case option.case elevated_grant_def [symmetric]]
  from h obtain same where same: "compare_digest (pg_secret g) (er_current q) = Inr same"
    by (cases "compare_digest (pg_secret g) (er_current q)") (auto simp: raise_def split: if_splits)
  show ?thesis
  proof (cases "same \<and> bd_identity (pg_binding g) = Some (er_identity q) \<and> bd_transport (pg_binding g) = Some (er_transport q) \<and> f q")
    case False
    then show ?thesis using h same by (auto simp: raise_def split: if_splits)
  next
    case True
    then have eq: "pg_secret g = er_current q" using same by (simp add: compare_digest_Inr)
    obtain r1 x where s: "save_persisted_state st (?put (elevated_grant g q) r) = (r1, x)" by fastforce
    note k = save_keeps(1,2) [OF s]
    have h1: "(case (r1, x) of (r1, Inl e) \<Rightarrow> (r1, Inl e) | (r1, Inr False) \<Rightarrow> (?put g r1, Inr False)
        | (r1, Inr True) \<Rightarrow> (case rt_service r1 of None \<Rightarrow> (r1, Inr True) | Some s \<Rightarrow> sbind (update_service_grants r1 s) (\<lambda>r _. (r, Inr True))))
        = (r', Inr b)"
      using h same True s by (auto simp: raise_def split: if_splits)
    show ?thesis
    proof (cases x)
      case (Inl e)
      then show ?thesis using h1 by simp
    next
      case (Inr b1)
      show ?thesis
      proof (cases b1)
        case False
        then show ?thesis using h1 Inr k g by auto
      next
        case b1: True
        then have t: "rt_trust_file r1 = Some (trust_document (rt_pairing r1) (rt_permissions r1))"
          using save_True [of st _ r1] s Inr k by auto
        have "b \<and> rt_pairing r' = rt_pairing r1 \<and> rt_permissions r' = rt_permissions r1 \<and> rt_trust_file r' = rt_trust_file r1"
          using h1 Inr b1
          by (cases "rt_service r1") (auto simp: update_service_grants_def sbind_def split: sum.splits prod.splits)
        then show ?thesis using True f g eq t k by auto
      qed
    qed
  qed
qed

definition demo_elevation :: elevation_request where
  "demo_elevation = \<lparr>er_caller = NodeId ''b'', er_identity = ''i'', er_transport = ''f'', er_current = sample_secret, er_proposed = sample_secret,
     er_permissions = {REMOTE_MANAGEMENT}\<rparr>"

theorem elevation_sound_witness:
  "\<exists>r'. handle_elevation_request demo_storage demo_plain demo_elevation (Some (\<lambda>q. True)) = (r', Inr True)
     \<and> map_of (pm_grants (rt_pairing r')) (NodeId ''b'') = Some (elevated_grant demo_inbound demo_elevation)"
proof -
  have g: "map_of (pm_grants demo_manager) (NodeId ''b'') = Some demo_inbound" by (simp add: demo_manager_def)
  have "is_ascii sample_secret" by (simp add: is_ascii_def sample_secret_def list_all_iff)
  then have c: "compare_digest sample_secret sample_secret = Inr True" by (simp add: compare_digest_def)
  have "\<exists>r'. handle_elevation_request demo_storage demo_plain demo_elevation (Some (\<lambda>q. True)) = (r', Inr True)"
    by (simp add: handle_elevation_request_def demo_elevation_def g Let_def)
      (simp add: demo_inbound_def c save_plain [OF demo_accepts] Let_def)
  then obtain r' where r: "handle_elevation_request demo_storage demo_plain demo_elevation (Some (\<lambda>q. True)) = (r', Inr True)" by blast
  from elevation_sound [OF r] g r show ?thesis by (auto simp: demo_elevation_def)
qed

section \<open>Where the code falls short\<close>

text \<open>
  An elevated grant has lost its root key: the caller can no longer prove continuity, so every later pairing or repair
  request of the same node is answered as an identity conflict.
\<close>

lemma elevated_not_continuous: "\<not> grant_root_continuous sig_ok (elevated_grant g q) key generation fingerprint prf"
  by (simp add: grant_root_continuous_def elevated_grant_def)

text \<open>
  A confirmation whose second write fails is undone in the pairing manager but not in the service: the grant that was
  refused stays in the live grants, because they were refreshed before.
\<close>

lemma rolled_back_grant_stays_live:
  assumes "approve_pairing st1 r tx ps now = (r1, Inr g)" "save_persisted_state st2 (abort_pairing r1 tx) = (r2, Inr False)"
    and "confirm_pairing st1 st2 st3 r tx ps now = (r', Inr b)"
  shows "\<not> b \<and> pm_grants (rt_pairing r') = pm_grants (rt_pairing r) \<and> rt_service r' = rt_service r1"
proof -
  define q where "q = (set_pairing (pm_restore_snapshot (rt_pairing r2) (pm_snapshot (rt_pairing r))) r2)\<lparr>rt_permissions := dict_set tx ps (rt_permissions r2)\<rparr>"
  obtain r3 y where s: "save_persisted_state st3 q = (r3, y)" by fastforce
  have "sbind (r3, y) (\<lambda>r _. (r, Inr False)) = (r', Inr b)"
    using assms(3) by (simp add: confirm_pairing_def assms(1,2) s flip: q_def)
  then have "r' = r3" "\<not> b" by (cases y; auto)+
  then show ?thesis using save_keeps(1,4) [OF s] save_keeps(4) [OF assms(2)] by (simp add: q_def abort_pairing_def)
qed

text \<open>
  A revocation that cannot be saved puts the pairing back but not the shares and surfaces it has taken away already.
\<close>

lemma failed_revocation_loses_shares:
  assumes "save_persisted_state st (severed r p) = (r1, Inr False)" "rt_loaded r"
  shows "\<exists>r'. revoke_peer st r p True now = (r', raise PersistenceError ''peer revocation was not durably persisted'')
     \<and> pm_grants (rt_pairing r') = pm_grants (rt_pairing r) \<and> rt_sharing r' = sh_revoke_peer (rt_sharing r) p"
proof -
  have "rt_sharing r1 = sh_revoke_peer (rt_sharing r) p" by (rule save_cases [OF assms(1)]) simp
  then show ?thesis using assms by (simp add: revoke_peer_def saved_or_def Let_def flip: severed_def)
qed

end
