(* ===== verification/RoleRequestLaws.thy ===== *)
theory RoleRequestLaws
  imports RoleRequests RuntimeTrust
begin

text \<open>
  What cluster requests guarantee: only a caller with the current fence changes the role state, and unless it redeems its own
  invite it is the active Coordinator; memory and file agree after every request but a refused invite; and the operations
  of the runtime carry out those of the failover coordinator, in cluster, file and service. The last section shows where
  the two holders of the role state drift apart.
\<close>

section \<open>Helpers\<close>

lemma update_fence_keeps [simp]:
  "rt_cluster (fst (update_fence r)) = rt_cluster r" "rt_grants (fst (update_fence r)) = rt_grants r"
  "rt_cluster_file (fst (update_fence r)) = rt_cluster_file r" "rt_failover (fst (update_fence r)) = rt_failover r"
  by (auto simp: update_fence_def split: option.split prod.split)

lemma hydrate_keeps [simp]:
  "rt_cluster (fst (hydrate_registry_membership r)) = rt_cluster r" "rt_grants (fst (hydrate_registry_membership r)) = rt_grants r"
  "rt_cluster_file (fst (hydrate_registry_membership r)) = rt_cluster_file r" "rt_failover (fst (hydrate_registry_membership r)) = rt_failover r"
  "rt_service (fst (hydrate_registry_membership r)) = rt_service r"
  using hydrate_registry [of r] by auto

lemma refresh_cluster_keeps [simp]:
  "rt_cluster (fst (refresh_live_grants r)) = rt_cluster r" "rt_grants (fst (refresh_live_grants r)) = rt_grants r"
  "rt_cluster_file (fst (refresh_live_grants r)) = rt_cluster_file r" "rt_failover (fst (refresh_live_grants r)) = rt_failover r"
  by (auto simp: refresh_live_grants_def update_service_grants_def sbind_def split: option.split sum.split prod.split)

lemma set_cluster_simps [simp]:
  "rt_cluster (set_cluster c r) = Some c" "rt_grants (set_cluster c r) = rt_grants r" "rt_failover (set_cluster c r) = rt_failover r"
  "rt_cluster_file (set_cluster c r) = rt_cluster_file r" "rt_service (set_cluster c r) = rt_service r"
  "rt_cluster_store (set_cluster c r) = rt_cluster_store r" "rt_loaded (set_cluster c r) = rt_loaded r" "rt_ready (set_cluster c r) = rt_ready r"
  by (simp_all add: set_cluster_def)

text \<open>The cluster file holds what memory holds.\<close>

definition agrees :: "runtime \<Rightarrow> bool" where
  "agrees r \<longleftrightarrow> (\<exists>c d. rt_cluster r = Some c \<and> cs_to_dict (stored_cluster r c) = Inr d \<and> rt_cluster_file r = Some d)"

definition same_roles :: "runtime \<Rightarrow> runtime \<Rightarrow> bool" where
  "same_roles r r' \<longleftrightarrow> rt_cluster r' = rt_cluster r \<and> rt_grants r' = rt_grants r"

definition settled :: "runtime \<Rightarrow> runtime \<Rightarrow> bool" where
  \<comment> \<open>nothing happened, or what happened is stored\<close>
  "settled r r' \<longleftrightarrow> same_roles r r' \<or> agrees r'"

lemma settled_refl [simp]: "settled r r"
  by (simp add: settled_def same_roles_def)

lemma agrees_cong: "rt_cluster r' = rt_cluster r \<Longrightarrow> rt_grants r' = rt_grants r \<Longrightarrow> rt_cluster_file r' = rt_cluster_file r \<Longrightarrow> agrees r' = agrees r"
  by (simp add: agrees_def stored_cluster_def)

lemma agrees_steps [simp]:
  "agrees (fst (update_fence r)) = agrees r" "agrees (fst (hydrate_registry_membership r)) = agrees r" "agrees (fst (refresh_live_grants r)) = agrees r"
  by (rule agrees_cong; simp)+

lemma save_agrees: "save_persisted_state st r = (r', Inr True) \<Longrightarrow> rt_cluster r \<noteq> None \<Longrightarrow> agrees r'"
  using save_True [of st r r'] save_keeps(5,6) [of st r r' "Inr True"]
  by (auto simp: agrees_def stored_cluster_def)

text \<open>Saving with a way back, as every request does.\<close>

lemma saved_or_settled:
  assumes st: "io_storage st" and run: "saved_or st r undo cls msg = (r', x)" and c: "rt_cluster r \<noteq> None"
    and undo: "\<And>q. rt_grants q = rt_grants r \<Longrightarrow> rt_cluster (undo q) = rt_cluster r0 \<and> rt_grants (undo q) = rt_grants r0"
  shows "case x of Inr _ \<Rightarrow> agrees r' | Inl e \<Rightarrow> same_roles r0 r' \<and> e = Exn cls msg"
proof -
  obtain r1 b where s: "save_persisted_state st r = (r1, Inr b)" using save_total [OF st] by blast
  then show ?thesis using run undo save_agrees [of st r r1] c save_keeps(6) [OF s]
    by (cases b) (auto simp: saved_or_def same_roles_def raise_def)
qed

section \<open>Memory and file agree after every request\<close>

lemma settled_sbind:
  assumes "settled r (fst m)" "\<And>s y. m = (s, Inr y) \<Longrightarrow> settled r (fst (f s y))"
  shows "settled r (fst (sbind m f))"
  using assms by (cases m; cases "snd m") auto

lemma agrees_sbind: "agrees (fst m) \<Longrightarrow> (\<And>s y. agrees s \<Longrightarrow> agrees (fst (f s y))) \<Longrightarrow> agrees (fst (sbind m f))"
  by (rule fst_sbind_inv)

lemma commit_settled:
  assumes "io_storage st" "rt_cluster r \<noteq> None"
    and "\<And>q. rt_grants q = rt_grants r \<Longrightarrow> rt_cluster (undo q) = rt_cluster r0 \<and> rt_grants (undo q) = rt_grants r0"
    and "\<And>q. agrees q \<Longrightarrow> agrees (fst (f q ()))"
  shows "settled r0 (fst (sbind (saved_or st r undo cls msg) f))"
proof -
  obtain r1 x where s: "saved_or st r undo cls msg = (r1, x)" by fastforce
  show ?thesis using saved_or_settled [OF assms(1) s assms(2,3)] assms(4) s
    by (cases x) (auto simp: settled_def)
qed

lemma read_settled: "(\<And>y. m = Inr y \<Longrightarrow> settled r (fst (f r y))) \<Longrightarrow> settled r (fst (sbind (r, m) f))"
  by (cases m) simp_all

lemma publish_settled:
  assumes "io_storage st" "rt_cluster r = Some c" "\<And>q. agrees q \<Longrightarrow> agrees (fst (f q ()))"
  shows "settled r (fst (sbind (publish_roles st r c s msg) f))"
  unfolding publish_roles_def by (rule commit_settled) (use assms in simp_all)

lemma agrees_tail:
  "agrees q \<Longrightarrow> agrees (fst (sbind (hydrate_registry_membership q) (\<lambda>r _. sbind (refresh_live_grants r) (\<lambda>r _. (r, Inr v)))))"
  "agrees q \<Longrightarrow> agrees (fst (sbind (refresh_live_grants q) (\<lambda>r _. (r, Inr v))))"
  "agrees q \<Longrightarrow> agrees (fst (sbind (update_fence q) (\<lambda>r _. (r, Inr v))))"
  by (intro agrees_sbind; simp)+

lemma dispatch_parts_settled:
  assumes "io_storage st" "rt_cluster r = Some c"
  shows "settled r (fst (dispatch_assign st r c s actor caller params now))"
    and "settled r (fst (dispatch_member st r c s actor op1 params))"
    and "settled r (fst (dispatch_capabilities st r c s actor caller op1 params now))"
    and "rt_cluster_store r \<Longrightarrow> settled r (fst (dispatch_renew st r c caller params now))"
    and "settled r (fst (dispatch_remove_connection r c caller params now))"
proof -
  show "settled r (fst (dispatch_assign st r c s actor caller params now))"
    unfolding dispatch_assign_def
    by (intro read_settled) (auto intro!: read_settled publish_settled [OF assms] agrees_tail)
  show "settled r (fst (dispatch_member st r c s actor op1 params))"
    unfolding dispatch_member_def
    by (intro read_settled publish_settled [OF assms] agrees_sbind) auto
  show "settled r (fst (dispatch_capabilities st r c s actor caller op1 params now))"
    unfolding dispatch_capabilities_def
    by (auto intro!: read_settled commit_settled [OF assms(1)] agrees_tail simp: assms(2))
  show "settled r (fst (dispatch_renew st r c caller params now))" if "rt_cluster_store r"
    unfolding dispatch_renew_def Let_def
    by (auto intro!: read_settled commit_settled [OF assms(1)] agrees_tail simp: assms(2) that)
  show "settled r (fst (dispatch_remove_connection r c caller params now))"
    unfolding dispatch_remove_connection_def
    by (rule read_settled) (simp add: settled_def same_roles_def)
qed

section \<open>Only the Coordinator changes roles\<close>

definition holds_fence :: "cluster \<Rightarrow> pyval \<Rightarrow> bool" where
  "holds_fence c params \<longleftrightarrow> fget params ''cluster_id'' = PStr (cl_id c) \<and> equals_int (fget params ''epoch'') (ce_epoch (cl_epoch c))
     \<and> fget params ''fencing_token'' = PStr (ce_token (cl_epoch c))"

lemma fitem_fget: "fitem d k = Inr v \<Longrightarrow> fget d k = v"
  by (auto simp: fitem_def fget_def split: option.splits)

lemma authorize_params_ok:
  assumes "authorize_params c params = Inr u"
  shows "holds_fence c params"
proof -
  from assms obtain ci ep tok where f: "fitem params ''cluster_id'' = Inr ci" "fitem params ''epoch'' = Inr ep"
      "fitem params ''fencing_token'' = Inr tok" and ok: "ci = PStr (cl_id c)" "equals_int ep (ce_epoch (cl_epoch c))" "is_str tok"
      "str_of tok = ce_token (cl_epoch c)"
    by (auto simp: authorize_params_def ok_simps ensure_def split: if_splits)
  from ok(3,4) have "tok = PStr (ce_token (cl_epoch c))" by (cases tok) auto
  with f ok show ?thesis by (auto simp: holds_fence_def dest!: fitem_fget)
qed

text \<open>Every transition of the role state asks for control first.\<close>

lemma transition_control:
  "member_transition op1 s actor target = Inr s' \<Longrightarrow> \<exists>n. role_control s actor = Inr n"
  "role_assign s actor target roles t = Inr x \<Longrightarrow> \<exists>n. role_control s actor = Inr n"
  "role_revoke_capabilities s actor subject target = Inr s' \<Longrightarrow> \<exists>n. role_control s actor = Inr n"
  "role_grant_capabilities s actor subject target ps a b = Inr s' \<Longrightarrow> \<exists>n. role_control s actor = Inr n"
  by (auto simp: member_transition_def role_revoke_def role_pause_def role_resume_def role_remove_job_def role_job_def role_assign_def
      role_revoke_capabilities_def role_grant_capabilities_def ok_simps split: if_splits)

lemma fst_read: "(\<And>y. m = Inr y \<Longrightarrow> fst (f r y) = r) \<Longrightarrow> fst (sbind (r, m) f) = r"
  by (cases m) simp_all

lemma no_control_no_change:
  assumes "\<And>n. role_control s actor \<noteq> Inr n"
  shows "fst (dispatch_assign st r c s actor caller params now) = r" "fst (dispatch_member st r c s actor op1 params) = r"
    "fst (dispatch_capabilities st r c s actor caller op1 params now) = r"
proof -
  have n: "member_transition op1 s actor target \<noteq> Inr s'" "role_assign s actor target roles t \<noteq> Inr x"
    "role_revoke_capabilities s actor subject target \<noteq> Inr s'" "role_grant_capabilities s actor subject target ps a b \<noteq> Inr s'" for target s' roles t x subject ps a b
    using transition_control assms by metis+
  show "fst (dispatch_assign st r c s actor caller params now) = r"
    unfolding dispatch_assign_def by (auto intro!: fst_read simp: n ok_simps)
  show "fst (dispatch_member st r c s actor op1 params) = r"
    unfolding dispatch_member_def by (auto intro!: fst_read simp: n ok_simps)
  show "fst (dispatch_capabilities st r c s actor caller op1 params now) = r"
    unfolding dispatch_capabilities_def by (auto intro!: fst_read simp: n ok_simps split: if_splits)
qed

lemma control_is_coordinator:
  assumes "cl_inv c" "map_of (cl_assignments c) caller = Some actor"
    and "rs_post_init \<lparr>assignments = map snd (cl_assignments c), epoch = Some (cl_epoch c), promotion_epochs = {}, capability_grants = gs\<rparr> = Inr s"
    and "role_control s actor = Inr n"
  shows "n = caller \<and> caller = ce_coordinator (cl_epoch c) \<and> active_with COORDINATOR actor \<and> \<not> ra_paused actor"
proof -
  have t: "table_ok (cl_assignments c)" and ra: "\<forall>a \<in> set (map snd (cl_assignments c)). ra_ok a"
    using assms(1) by (auto simp: cl_inv_def rs_inv_def rs_ok_def cl_rs_def)
  have s: "s = \<lparr>assignments = map snd (cl_assignments c), epoch = Some (cl_epoch c), promotion_epochs = {}, capability_grants = gs\<rparr>"
    using assms(3) by (simp add: rs_post_init_iff)
  have ok: "rs_ok s" using assms(3) ra by (simp add: s rs_ok_def)
  have id: "ra_node_id actor = Some caller" using t assms(2) by (auto simp: table_ok_def dest: map_of_SomeD)
  note rc = assms(4) [unfolded role_control_Inr [OF ok]]
  then have n: "n = caller" using id by simp
  have "seek caller (map snd (cl_assignments c)) = Some actor"
    using map_of_bound_pairs [of "map snd (cl_assignments c)" caller] table_bound_pairs [OF t] assms(2) by simp
  with rc n show ?thesis by (auto simp: s)
qed

lemma renew_unchanged: "caller \<noteq> ce_coordinator (cl_epoch c) \<Longrightarrow> fst (dispatch_renew st r c caller params now) = r"
  by (simp add: dispatch_renew_def)

lemma remove_connection_roles:
  "rt_cluster (fst (dispatch_remove_connection r c caller params now)) = rt_cluster r"
  "rt_grants (fst (dispatch_remove_connection r c caller params now)) = rt_grants r"
  by (cases "node_param params ''target_node_id''"; simp add: dispatch_remove_connection_def)+

text \<open>All requests but the consumption of an invite.\<close>

lemma requests_by_coordinator:
  assumes run: "dispatch_role_request st r q now clock = (r', x)" and op: "rq_op q \<noteq> ''consume_invite''"
    and c: "rt_cluster r = Some c" "cl_inv c" and changed: "rt_cluster r' \<noteq> rt_cluster r \<or> rt_grants r' \<noteq> rt_grants r"
  shows "\<exists>caller. rq_caller q = Some caller \<and> caller = ce_coordinator (cl_epoch c) \<and> holds_fence c (rq_params q)
    \<and> (caller = cm_local (rt_cm r) \<or> pm_can_join_cluster (rt_pairing r) caller \<or> \<not> rt_loaded r)
    \<and> (rq_op q = ''renew_coordinator_lease''
       \<or> (\<exists>a. map_of (cl_assignments c) caller = Some a \<and> active_with COORDINATOR a \<and> \<not> ra_paused a))"
proof (cases "rq_caller q")
  case None
  then show ?thesis using run changed c by (simp add: dispatch_role_request_def require_cluster_def)
next
  case (Some caller)
  let ?s = "rs_post_init \<lparr>assignments = map snd (cl_assignments c), epoch = Some (cl_epoch c), promotion_epochs = {}, capability_grants = rt_grants r\<rparr>"
  have ne: "r' \<noteq> r" using changed by auto
  have d: "dispatch_role_request st r q now clock = (r', x)" by (rule run)
  note d = d [unfolded dispatch_role_request_def require_cluster_def c(1) option.case sbind_simps Some]
  from d ne have paired: "caller = cm_local (rt_cm r) \<or> pm_can_join_cluster (rt_pairing r) caller \<or> \<not> rt_loaded r" by (auto split: if_splits)
  then have p: "\<not> (rt_loaded r \<and> caller \<noteq> cm_local (rt_cm r) \<and> \<not> pm_can_join_cluster (rt_pairing r) caller)" by blast
  note d = d [unfolded if_not_P [OF p] if_not_P [OF op]]
  from d ne obtain u where u: "authorize_params c (rq_params q) = Inr u" by (cases "authorize_params c (rq_params q)") auto
  note d = d [unfolded u sbind_simps]
  from d ne obtain actor where a: "map_of (cl_assignments c) caller = Some actor" by (cases "map_of (cl_assignments c) caller") auto
  note d = d [unfolded a option.case]
  from d ne obtain s where s: "?s = Inr s" by (cases ?s) auto
  note d = d [unfolded s sbind_simps]
  show ?thesis
  proof (cases "rq_op q = ''renew_coordinator_lease''")
    case True
    then have "dispatch_renew st r c caller (rq_params q) now = (r', x)" using d by simp
    then have "caller = ce_coordinator (cl_epoch c)" using ne renew_unchanged [of caller c st r "rq_params q" now] by (metis fst_conv)
    then show ?thesis using Some authorize_params_ok [OF u] paired True by blast
  next
    case False
    have "\<exists>n. role_control s actor = Inr n"
    proof (rule ccontr)
      assume "\<nexists>n. role_control s actor = Inr n"
      then have "\<And>n. role_control s actor \<noteq> Inr n" by blast
      from no_control_no_change [OF this, of st r c] have "rt_cluster r' = rt_cluster r \<and> rt_grants r' = rt_grants r"
        using d False by (auto simp: remove_connection_roles split: if_splits) (metis fst_conv remove_connection_roles)+
      then show False using changed by blast
    qed
    then obtain n where "role_control s actor = Inr n" by blast
    from control_is_coordinator [OF c(2) a s this] show ?thesis using Some authorize_params_ok [OF u] paired a by blast
  qed
qed

section \<open>Consuming an invite\<close>

lemma assign_shape:
  assumes "cl_assign c n role clock = (c', y)"
  shows "case y of Inl e \<Rightarrow> c' = c
    | Inr u \<Rightarrow> \<exists>s. set (capability_grants s) \<subseteq> set (cl_grants c) \<and> c' = cl_set_default_online n (cl_apply_role_state c s)"
proof (cases y)
  case (Inl e)
  then show ?thesis using assms by (auto simp: cl_assign_def raise_def split: if_splits sum.splits)
next
  case (Inr u)
  then obtain s ch where s: "rbind (cl_role_state c) (\<lambda>s. role_assign s (cl_local_assignment c) n {role} (PFloat (Fin clock))) = Inr (s, ch)"
      "c' = cl_set_default_online n (cl_apply_role_state c s)"
    using assms by (auto simp: cl_assign_def raise_def split: if_splits sum.splits)
  then obtain t where "cl_role_state c = Inr t" "role_assign t (cl_local_assignment c) n {role} (PFloat (Fin clock)) = Inr (s, ch)"
    by (auto simp: ok_simps)
  then have "set (capability_grants s) \<subseteq> set (cl_grants c)"
    by (auto simp: cl_role_state_def role_assign_def rs_post_init_iff ok_simps Let_def prune_capability_grants_def split: if_splits)
  with s Inr show ?thesis by auto
qed

text \<open>What \<open>consume_invite\<close> leaves: nothing, the admission, a burnt invite, or the grants the admission would have kept.\<close>

lemma consume_cases:
  assumes run: "dispatch_consume_invite st r c caller params now clock = (r', x)" and c: "rt_cluster r = Some c"
  defines "tok \<equiv> str_of (fget params ''token'')"
  obtains (same) "same_roles r r'"
  | (taken) i c2 where "invite_good c tok caller now i" "cl_assign (cl_burn c tok) caller WORKER clock = (c2, Inr ())"
      "rt_cluster r' = Some (c2\<lparr>cl_admissions := dict_set (hash_invite tok) (i\<lparr>iv_token := []\<rparr>) (cl_admissions c2)\<rparr>)"
      "rt_grants r' = rt_grants r" "io_storage st \<longrightarrow> agrees r'"
  | (burnt) i e where "x = Inl e" "invite_good c tok caller now i" "rt_cluster r' = Some (cl_burn c tok)" "rt_grants r' = rt_grants r"
  | (undone) i e gs where "x = Inl e" "invite_good c tok caller now i" "set gs \<subseteq> set (cl_grants c)"
      "rt_cluster r' = Some (c\<lparr>cl_grants := gs\<rparr>)" "rt_grants r' = rt_grants r"
proof (cases "fitem params ''token''")
  case (Inl e)
  then show ?thesis using run same by (simp add: dispatch_consume_invite_def same_roles_def)
next
  case (Inr t)
  then have t: "str_of t = tok" by (simp add: tok_def fitem_fget)
  obtain c' y where y: "cl_consume_invite c tok caller now clock True = (c', y)" by fastforce
  note d = run [unfolded dispatch_consume_invite_def Inr sbind_simps t y prod.case]
  have sc: "same_roles r (set_cluster c q)" if "rt_grants q = rt_grants r" for q using that c by (simp add: same_roles_def)
  define undo where "undo = (\<lambda>q. set_cluster (c'\<lparr>cl_assignments := cl_assignments c, cl_online := cl_online c, cl_invites := cl_invites c,
                                       cl_admissions := cl_admissions c, cl_used := cl_used c\<rparr>) q)"
  obtain r1 z where z: "save_persisted_state st (set_cluster c' r) = (r1, z)" by fastforce
  have k: "rt_cluster r1 = Some c'" "rt_grants r1 = rt_grants r" using save_keeps(5,6) [OF z] by simp_all
  have ag: "agrees r1" if "z = Inr True" using save_agrees [of st "set_cluster c' r" r1] z that by simp
  have r': "(r' = r1 \<and> (io_storage st \<longrightarrow> agrees r1)) \<or> (r' = undo r1 \<and> (\<exists>e. x = Inl e))" if i: "y = Inr i" for i
  proof -
    have tot: "\<exists>b. z = Inr b" if "io_storage st" using save_total [OF that, of "set_cluster c' r"] z by auto
    show ?thesis using d z ag tot unfolding i undo_def
      by (cases "invite_target_id i"; cases z) (auto simp: saved_or_def raise_def split: bool.splits)
  qed
  show ?thesis
  proof (cases "\<exists>i. invite_good c tok caller now i")
    case False
    have c': "c' = c" using cl_consume_bad [OF False, of clock True] y by auto
    have "same_roles r r'"
    proof (cases y)
      case (Inl e)
      then show ?thesis using d c c' by (auto simp: same_roles_def)
    next
      case (Inr i)
      then show ?thesis using r' [OF Inr] k c c' by (auto simp: same_roles_def undo_def)
    qed
    then show ?thesis by (rule same)
  next
    case True
    then obtain i where g: "invite_good c tok caller now i" ..
    obtain c2 w where w: "cl_assign (cl_burn c tok) caller WORKER clock = (c2, w)" by fastforce
    note y = y [unfolded cl_consume_good [OF g] w prod.case]
    show ?thesis
    proof (cases w)
      case (Inl e)
      then have "c2 = cl_burn c tok" using assign_shape [OF w] by simp
      then show ?thesis using burnt [OF _ g] d y Inl by auto
    next
      case (Inr u)
      have c': "c' = c2\<lparr>cl_admissions := dict_set (hash_invite tok) (i\<lparr>iv_token := []\<rparr>) (cl_admissions c2)\<rparr>" "y = Inr i"
        using y Inr by auto
      obtain s where s: "set (capability_grants s) \<subseteq> set (cl_grants c)" "c2 = cl_set_default_online caller (cl_apply_role_state (cl_burn c tok) s)"
        using assign_shape [OF w] Inr by (auto simp: cl_burn_def)
      have un: "c'\<lparr>cl_assignments := cl_assignments c, cl_online := cl_online c, cl_invites := cl_invites c,
          cl_admissions := cl_admissions c, cl_used := cl_used c\<rparr> = c\<lparr>cl_grants := capability_grants s\<rparr>"
        by (simp add: c'(1) s(2) cl_set_default_online_def cl_apply_role_state_def cl_burn_def)
      from r' [OF c'(2)] consider "r' = r1" "io_storage st \<longrightarrow> agrees r1" | e where "r' = undo r1" "x = Inl e" by blast
      then show ?thesis
      proof cases
        case 1
        then show ?thesis using taken [OF g] w k Inr c'(1) by simp
      next
        case 2
        then show ?thesis using undone [OF 2(2) g s(1)] k(2) by (simp add: undo_def un)
      qed
    qed
  qed
qed

lemma role_request_reaches:
  assumes "dispatch_role_request st r q now clock = (r', x)" "rq_op q = ''consume_invite''" "rt_cluster r = Some c" "\<not> same_roles r r'"
  shows "\<exists>caller. rq_caller q = Some caller \<and> holds_fence c (rq_params q)
    \<and> (caller = cm_local (rt_cm r) \<or> pm_can_join_cluster (rt_pairing r) caller \<or> \<not> rt_loaded r)
    \<and> dispatch_consume_invite st r c caller (rq_params q) now clock = (r', x)"
proof -
  have ne: "r' \<noteq> r" using assms(4) by (auto simp: same_roles_def)
  note d = assms(1) [unfolded dispatch_role_request_def require_cluster_def assms(3) option.case sbind_simps]
  from d ne obtain caller where ca: "rq_caller q = Some caller" by (cases "rq_caller q") auto
  note d = d [unfolded ca option.case]
  from d ne have p: "\<not> (rt_loaded r \<and> caller \<noteq> cm_local (rt_cm r) \<and> \<not> pm_can_join_cluster (rt_pairing r) caller)" by (auto split: if_splits)
  note d = d [unfolded if_not_P [OF p] if_P [OF assms(2)]]
  from d ne obtain u where u: "authorize_params c (rq_params q) = Inr u" by (cases "authorize_params c (rq_params q)") auto
  show ?thesis using d ca p authorize_params_ok [OF u] by (auto simp: u)
qed



lemma only_caller:
  assumes "cl_inv c" "invite_good c tok caller now i" "cl_assign (cl_burn c tok) caller WORKER clock = (c2, y)"
  shows "\<forall>m. m \<noteq> caller \<longrightarrow> map_of (cl_assignments c2) m = map_of (cl_assignments c) m"
    and "cl_epoch c2 = cl_epoch c"
proof -
  have b: "cl_inv (cl_burn c tok)" "cl_is_active_coordinator (cl_burn c tok)" using assms(1,2) by (simp_all add: invite_good_def)
  have "cl_epoch (cl_burn c tok) = cl_epoch c" by (simp add: cl_burn_def)
  with cl_assign_worker [OF b, of caller clock] assms(3)
  show "\<forall>m. m \<noteq> caller \<longrightarrow> map_of (cl_assignments c2) m = map_of (cl_assignments c) m" "cl_epoch c2 = cl_epoch c"
    by (auto split: if_splits)
qed

lemma consume_effect:
  assumes run: "dispatch_consume_invite st r c caller params now clock = (r', x)" and c: "rt_cluster r = Some c" "cl_inv c"
    and changed: "\<not> same_roles r r'"
  shows "\<exists>i c'. invite_good c (str_of (fget params ''token'')) caller now i \<and> rt_cluster r' = Some c' \<and> rt_grants r' = rt_grants r
    \<and> cl_epoch c' = cl_epoch c \<and> (\<forall>m. m \<noteq> caller \<longrightarrow> map_of (cl_assignments c') m = map_of (cl_assignments c) m)"
proof (cases rule: consume_cases [OF run c(1), case_names same taken burnt undone])
  case same
  then show ?thesis using changed by simp
next
  case (taken i c2)
  from only_caller [OF c(2) taken(1,2)] taken show ?thesis by auto
next
  case (burnt i e)
  then show ?thesis by (intro exI [of _ i] exI [of _ "cl_burn c (str_of (fget params ''token''))"]) (simp, simp add: cl_burn_def)
next
  case (undone i e gs)
  then show ?thesis by (intro exI [of _ i] exI [of _ "c\<lparr>cl_grants := gs\<rparr>"]) simp
qed

text \<open>
  C13. Only the Coordinator changes roles. A role request after which the cluster or the capability grants differ
  presented the cluster id, the epoch and the fencing token, and its caller is paired, or is the local node itself, or the
  runtime has not started. Unless it consumes an invite, the caller is the Coordinator of the current epoch and, except for
  a renewal of its lease, an active member with the Coordinator role and not paused. When it consumes an invite, the local
  node is the active Coordinator, the invite is good for this caller, and epoch, grants and every other member's assignment
  are as before.
\<close>

theorem roles_changed_by_coordinator:
  assumes run: "dispatch_role_request st r q now clock = (r', x)"
    and c: "rt_cluster r = Some c" "cl_inv c" and changed: "rt_cluster r' \<noteq> rt_cluster r \<or> rt_grants r' \<noteq> rt_grants r"
  shows "\<exists>caller. rq_caller q = Some caller \<and> holds_fence c (rq_params q)
    \<and> (caller = cm_local (rt_cm r) \<or> pm_can_join_cluster (rt_pairing r) caller \<or> \<not> rt_loaded r)
    \<and> (if rq_op q = ''consume_invite''
       then (\<exists>i c'. invite_good c (str_of (fget (rq_params q) ''token'')) caller now i \<and> rt_cluster r' = Some c' \<and> rt_grants r' = rt_grants r
          \<and> cl_epoch c' = cl_epoch c \<and> (\<forall>m. m \<noteq> caller \<longrightarrow> map_of (cl_assignments c') m = map_of (cl_assignments c) m))
       else caller = ce_coordinator (cl_epoch c)
          \<and> (rq_op q = ''renew_coordinator_lease''
             \<or> (\<exists>a. map_of (cl_assignments c) caller = Some a \<and> active_with COORDINATOR a \<and> \<not> ra_paused a)))"
proof (cases "rq_op q = ''consume_invite''")
  case True
  have ns: "\<not> same_roles r r'" using changed by (simp add: same_roles_def)
  obtain caller where ca: "rq_caller q = Some caller" "holds_fence c (rq_params q)"
      "caller = cm_local (rt_cm r) \<or> pm_can_join_cluster (rt_pairing r) caller \<or> \<not> rt_loaded r"
      and d: "dispatch_consume_invite st r c caller (rq_params q) now clock = (r', x)"
    using role_request_reaches [OF run True c(1) ns] by blast
  show ?thesis unfolding if_P [OF True]
    by (rule exI [of _ caller], intro conjI) (rule ca consume_effect [OF d c ns])+
next
  case False
  show ?thesis unfolding if_not_P [OF False] using requests_by_coordinator [OF run False c changed] by blast
qed

section \<open>The runtime carries out the failover coordinator\<close>

text \<open>A method of the coordinator fails, answers without a candidate, or commits one candidate.\<close>

definition committing :: "(role_store \<Rightarrow> failover_coordinator \<Rightarrow> failover_coordinator \<times> 'a res) \<Rightarrow> ('a \<Rightarrow> bool) \<Rightarrow> failover_coordinator \<Rightarrow> bool" where
  "committing method commits fo \<longleftrightarrow> (\<exists>e. \<forall>store. method store fo = (fo, Inl e)) \<or> (\<exists>y. \<not> commits y \<and> (\<forall>store. method store fo = (fo, Inr y)))
     \<or> (\<exists>s y. commits y \<and> (\<forall>store. method store fo = fo_finish store fo s y))"

lemma fo_commit_finish: "fo_commit store fo s = fo_finish store fo s ()"
  by (simp add: fo_finish_def fo_commit_def split: option.split)

lemma committing_cases:
  "(\<And>store. method store fo = (fo, Inl e)) \<Longrightarrow> committing method commits fo"
  "(\<And>store. method store fo = (fo, Inr y)) \<Longrightarrow> \<not> commits y \<Longrightarrow> committing method commits fo"
  "(\<And>store. method store fo = fo_finish store fo s z) \<Longrightarrow> commits z \<Longrightarrow> committing method commits fo"
  unfolding committing_def by blast+

lemma committing_finish:
  assumes "\<And>store. method store fo = (case w of Inl x \<Rightarrow> (fo, if isa x cls then Inr False else Inl x) | Inr s \<Rightarrow> fo_finish store fo s True)"
  shows "committing method (\<lambda>b. b) fo"
proof (cases w)
  case (Inl x)
  show ?thesis
  proof (cases "isa x cls")
    case True
    show ?thesis by (rule committing_cases(2) [where y = False]) (simp_all add: assms Inl True)
  next
    case False
    show ?thesis by (rule committing_cases(1)) (simp add: assms Inl False)
  qed
next
  case (Inr s)
  show ?thesis by (rule committing_cases(3) [where z = True]) (simp_all add: assms Inr)
qed

lemma committing_methods:
  "committing (\<lambda>store fo. fo_promote_if_due store fo now tok) (\<lambda>b. b) fo"
  "committing (\<lambda>store fo. fo_heartbeat store fo n t now) (\<lambda>b. b) fo"
  "committing (\<lambda>store fo. fo_rejoin store fo n ep) (\<lambda>u. True) fo"
  "committing (\<lambda>store fo. fo_assign_role store fo actor target roles now) (\<lambda>u. True) fo"
  "committing (\<lambda>store fo. fo_revoke_member store fo actor target) (\<lambda>u. True) fo"
proof -
  show "committing (\<lambda>store fo. fo_promote_if_due store fo now tok) (\<lambda>b. b) fo"
  proof (cases "promote_subcoordinator (fo_state fo) now (PBool True) tok")
    case (Inl x)
    show ?thesis by (rule committing_finish [where w = "Inl x"]) (simp add: fo_promote_if_due_def Inl)
  next
    case (Inr d)
    let ?c = "rs_post_init ((fo_state fo)\<lparr>assignments := pd_assignments d, epoch := Some (pd_epoch d),
      promotion_epochs := promotion_epochs (fo_state fo) \<union> {ce_epoch (pd_epoch d) - 1}, capability_grants := pd_grants d\<rparr>)"
    show ?thesis
    proof (cases ?c)
      case (Inl x)
      show ?thesis by (rule committing_cases(1)) (simp only: fo_promote_if_due_def Let_def Inr Inl sum.case)
    next
      case (Inr s)
      show ?thesis by (rule committing_cases(3) [where z = True])
        (simp_all only: fo_promote_if_due_def Let_def \<open>promote_subcoordinator (fo_state fo) now (PBool True) tok = Inr d\<close> Inr sum.case)
    qed
  qed
  show "committing (\<lambda>store fo. fo_heartbeat store fo n t now) (\<lambda>b. b) fo"
  proof (cases "epoch (fo_state fo)")
    case None
    show ?thesis by (rule committing_cases(2) [where y = False]) (simp_all add: fo_heartbeat_def None)
  next
    case (Some e)
    show ?thesis by (rule committing_finish) (simp add: fo_heartbeat_def Some)
  qed
  show "committing (\<lambda>store fo. fo_rejoin store fo n ep) (\<lambda>u. True) fo"
    by (cases "rejoin_as_worker (fo_state fo) n ep") (rule committing_cases(1,3); simp add: fo_rejoin_def fo_commit_finish)+
  show "committing (\<lambda>store fo. fo_assign_role store fo actor target roles now) (\<lambda>u. True) fo"
    by (cases "role_assign (fo_state fo) actor target roles now"; cases "projr (role_assign (fo_state fo) actor target roles now)")
      (rule committing_cases(1,3); simp add: fo_assign_role_def)+
  show "committing (\<lambda>store fo. fo_revoke_member store fo actor target) (\<lambda>u. True) fo"
    by (cases "role_revoke (fo_state fo) actor target") (rule committing_cases(1,3); simp add: fo_revoke_member_def fo_commit_finish)+
qed

lemma persist_keeps_failover: "rt_failover (fst (persist_failover_state st r s)) = rt_failover r"
proof -
  have s: "rt_failover (fst m) = rt_failover r \<Longrightarrow> (\<And>a y. rt_failover a = rt_failover r \<Longrightarrow> rt_failover (fst (f a y)) = rt_failover r)
      \<Longrightarrow> rt_failover (fst (sbind m f)) = rt_failover r" for m :: "runtime \<times> 'a res" and f :: "runtime \<Rightarrow> 'a \<Rightarrow> runtime \<times> 'b res"
    by (cases m; cases "snd m") auto
  have o: "rt_failover (fst (saved_or st q undo cls msg)) = rt_failover r" if "rt_failover q = rt_failover r"
      "\<And>a. rt_failover a = rt_failover q \<Longrightarrow> rt_failover (undo a) = rt_failover r" for q undo cls msg
    using save_keeps(9) [of st q] that by (auto simp: saved_or_def split: prod.split sum.split bool.split)
  show ?thesis unfolding persist_failover_state_def Let_def
    by (rule s, simp, rule s, rule o) (simp_all, (rule s, simp)+, simp)
qed

text \<open>The cluster and the grants of the runtime mirror the coordinator's state.\<close>

definition mirrors :: "failover_coordinator \<Rightarrow> cluster \<Rightarrow> capability_grant list \<Rightarrow> bool" where
  "mirrors fo c gs \<longleftrightarrow> cl_assignments c = assignment_index (assignments (fo_state fo)) \<and> epoch (fo_state fo) = Some (cl_epoch c)
     \<and> cl_promotions c = promotion_epochs (fo_state fo) \<and> cl_grants c = capability_grants (fo_state fo) \<and> gs = capability_grants (fo_state fo)"

text \<open>The state of the coordinator is in memory and in the file, and nothing else of the cluster changed.\<close>

definition holds_state :: "cluster \<Rightarrow> failover_coordinator \<Rightarrow> runtime \<Rightarrow> bool" where
  "holds_state c fo r \<longleftrightarrow> (\<exists>c' d. rt_cluster r = Some c' \<and> mirrors fo c' (rt_grants r)
     \<and> c' = c\<lparr>cl_assignments := cl_assignments c', cl_epoch := cl_epoch c', cl_promotions := cl_promotions c', cl_grants := cl_grants c'\<rparr>
     \<and> cs_to_dict (stored_cluster r c') = Inr d \<and> rt_cluster_file r = Some d)"

text \<open>The live service works under the coordinator's authority and with its grants.\<close>

definition serves_state :: "cluster \<Rightarrow> failover_coordinator \<Rightarrow> runtime \<Rightarrow> bool" where
  "serves_state c fo r \<longleftrightarrow> (\<forall>s e. rt_service r = Some s \<longrightarrow> epoch (fo_state fo) = Some e \<longrightarrow>
     sv_cluster_id s = Some (cl_id c) \<and> sv_epoch s = Some (ce_epoch e) \<and> sv_token s = Some (ce_token e)
     \<and> sv_cluster_grants s = capability_grants (fo_state fo))"

text \<open>
  The outcome of an operation of the runtime against that of the coordinator on a store that accepts everything: the same
  answer and state, held and served; or nothing happened; or the state is held but the runtime could not go on serving it.
\<close>

definition follows ::
  "runtime \<Rightarrow> cluster \<Rightarrow> failover_coordinator \<Rightarrow> ('a \<Rightarrow> bool) \<Rightarrow> failover_coordinator \<times> 'a res \<Rightarrow> runtime \<times> 'a res \<Rightarrow> bool" where
  "follows r c fo commits m out \<longleftrightarrow>
     (case snd m of
        Inl e \<Rightarrow> out = (r, Inl e)
      | Inr y \<Rightarrow>
          if \<not> commits y then out = (r, Inr y)
          else (case snd out of
              Inr z \<Rightarrow> z = y \<and> rt_failover (fst out) = Some (fst m) \<and> holds_state c (fst m) (fst out) \<and> serves_state c (fst m) (fst out)
            | Inl e \<Rightarrow> rt_failover (fst out) = Some fo
                \<and> (rt_cluster (fst out) = Some c \<and> rt_grants (fst out) = rt_grants r \<and> e = Exn RuntimeError ''failover state was not durably persisted''
                   \<or> holds_state c (fst m) (fst out)
                     \<and> (\<exists>q. Inl e \<in> {snd (update_fence q), snd (hydrate_registry_membership q), snd (refresh_live_grants q)}))))"

lemma fence_installed:
  assumes "update_cluster_fence s cid ep tok = (s', Inr ())"
  shows "sv_cluster_id s' = Some cid \<and> sv_epoch s' = Some ep \<and> sv_token s' = Some tok"
  using assms
  by (auto simp: update_cluster_fence_def Let_def ok_simps ensure_def compare_digest_def split: if_splits option.splits)

lemma refresh_keeps_fence:
  assumes "refresh_live_grants r = (r', Inr ())" "rt_service r' = Some s"
  shows "\<exists>s0. rt_service r = Some s0 \<and> sv_cluster_id s = sv_cluster_id s0 \<and> sv_epoch s = sv_epoch s0 \<and> sv_token s = sv_token s0
    \<and> sv_cluster_grants s = rt_grants r"
  using refresh_live_grants_ok [OF assms(1)] assms(2) by (cases "rt_service r") auto

lemma persist_follows:
  assumes st: "io_storage st" and c: "rt_cluster r = Some c" and e: "epoch s = Some e" and run: "persist_failover_state st r s = (r', x)"
  shows "rt_failover r' = rt_failover r \<and> (case x of
      Inr u \<Rightarrow> holds_state c \<lparr>fo_state = s\<rparr> r' \<and> serves_state c \<lparr>fo_state = s\<rparr> r'
    | Inl z \<Rightarrow> rt_cluster r' = Some c \<and> rt_grants r' = rt_grants r \<and> z = Exn RuntimeError ''failover state was not durably persisted''
        \<or> holds_state c \<lparr>fo_state = s\<rparr> r'
          \<and> (\<exists>q. Inl z \<in> {snd (update_fence q), snd (hydrate_registry_membership q), snd (refresh_live_grants q)}))"
proof -
  let ?c = "c\<lparr>cl_assignments := assignment_index (assignments s), cl_epoch := e, cl_promotions := promotion_epochs s,
     cl_grants := capability_grants s\<rparr>"
  let ?r = "(set_cluster ?c r)\<lparr>rt_grants := capability_grants s\<rparr>"
  let ?undo = "\<lambda>q. (set_cluster c q)\<lparr>rt_grants := rt_grants r\<rparr>"
  let ?msg = "''failover state was not durably persisted''"
  have kf: "rt_failover r' = rt_failover r" using persist_keeps_failover [of st r s] run by simp
  obtain r1 b where s1: "save_persisted_state st ?r = (r1, Inr b)" using save_total [OF st] by blast
  note d = run [unfolded persist_failover_state_def require_cluster_def c option.case sbind_simps Let_def e]
  show ?thesis
  proof (cases b)
    case False
    then have "r' = ?undo r1" "x = raise RuntimeError ?msg" using d s1 by (auto simp: saved_or_def raise_def)
    then show ?thesis using kf by (simp add: raise_def)
  next
    case True
    have k: "rt_cluster r1 = Some ?c" "rt_grants r1 = capability_grants s" using save_keeps(5,6) [OF s1] by simp_all
    have a1: "agrees r1" using save_agrees s1 True by fastforce
    have holds: "holds_state c \<lparr>fo_state = s\<rparr> q" if "rt_cluster q = Some ?c" "rt_grants q = capability_grants s" "agrees q" for q
      using that by (auto simp: holds_state_def agrees_def mirrors_def e)
    have d: "sbind (update_fence r1) (\<lambda>r _. sbind (hydrate_registry_membership r) (\<lambda>r _. refresh_live_grants r)) = (r', x)"
      using d s1 True by (simp add: saved_or_def)
    obtain r2 y2 where r2: "update_fence r1 = (r2, y2)" by fastforce
    have k2: "rt_cluster r2 = Some ?c" "rt_grants r2 = capability_grants s" "agrees r2"
      using update_fence_keeps [of r1] agrees_steps(1) [of r1] r2 k a1 by simp_all
    obtain r3 y3 where r3: "hydrate_registry_membership r2 = (r3, y3)" by fastforce
    have k3: "rt_cluster r3 = Some ?c" "rt_grants r3 = capability_grants s" "agrees r3" "rt_service r3 = rt_service r2"
      using hydrate_keeps [of r2] agrees_steps(2) [of r2] r3 k2 by simp_all
    obtain r4 y4 where r4: "refresh_live_grants r3 = (r4, y4)" by fastforce
    have k4: "rt_cluster r4 = Some ?c" "rt_grants r4 = capability_grants s" "agrees r4"
      using refresh_cluster_keeps [of r3] agrees_steps(3) [of r3] r4 k3 by simp_all
    consider z where "y2 = Inl z" "r' = r2" "x = Inl z" | z where "y3 = Inl z" "r' = r3" "x = Inl z"
      | z where "y4 = Inl z" "r' = r4" "x = Inl z" | "y2 = Inr ()" "y4 = Inr ()" "r' = r4" "x = Inr ()"
      using d r2 r3 r4 by (cases y2; cases y3; cases y4) auto
    then show ?thesis
    proof cases
      case 1
      have "\<exists>q. Inl z \<in> {snd (update_fence q), snd (hydrate_registry_membership q), snd (refresh_live_grants q)}"
        using 1(1) r2 by (intro exI [of _ r1]) simp
      then show ?thesis using 1 holds [OF k2] kf by simp
    next
      case 2
      have "\<exists>q. Inl z \<in> {snd (update_fence q), snd (hydrate_registry_membership q), snd (refresh_live_grants q)}"
        using 2(1) r3 by (intro exI [of _ r2]) simp
      then show ?thesis using 2 holds [OF k3(1-3)] kf by simp
    next
      case 3
      have "\<exists>q. Inl z \<in> {snd (update_fence q), snd (hydrate_registry_membership q), snd (refresh_live_grants q)}"
        using 3(1) r4 by (intro exI [of _ r3]) simp
      then show ?thesis using 3 holds [OF k4] kf by simp
    next
      case 4
      have "serves_state c \<lparr>fo_state = s\<rparr> r4"
      proof (unfold serves_state_def, intro allI impI)
        fix w e' assume w: "rt_service r4 = Some w" "epoch (fo_state \<lparr>fo_state = s\<rparr>) = Some e'"
        then have e': "e' = e" using e by simp
        obtain s0 where s0: "rt_service r3 = Some s0" "sv_cluster_id w = sv_cluster_id s0" "sv_epoch w = sv_epoch s0" "sv_token w = sv_token s0"
            "sv_cluster_grants w = rt_grants r3"
          using refresh_keeps_fence [OF r4 [unfolded 4(2)] w(1)] by blast
        have "rt_service r2 = Some s0" using s0(1) k3(4) by simp
        with r2 4(1) k(1) obtain s1 where "update_cluster_fence s1 (cl_id c) (ce_epoch e) (ce_token e) = (s0, Inr ())"
          by (auto simp: update_fence_def split: option.splits prod.splits)
        from fence_installed [OF this] s0 k3(2)
        show "sv_cluster_id w = Some (cl_id c) \<and> sv_epoch w = Some (ce_epoch e') \<and> sv_token w = Some (ce_token e')
            \<and> sv_cluster_grants w = capability_grants (fo_state \<lparr>fo_state = s\<rparr>)" by (simp add: e')
      qed
      then show ?thesis using 4 holds [OF k4] kf by simp
    qed
  qed
qed

lemma run_follows:
  assumes st: "io_storage st" and r: "rt_failover r = Some fo" "rt_cluster r = Some c" and m: "committing method commits fo"
    and e: "\<And>y. snd (method (\<lambda>_. None) fo) = Inr y \<Longrightarrow> commits y \<Longrightarrow> epoch (fo_state (fst (method (\<lambda>_. None) fo))) \<noteq> None"
  shows "follows r c fo commits (method (\<lambda>_. None) fo) (run_failover st method commits r)"
proof -
  consider e where "method (\<lambda>_. None) fo = (fo, Inl e)" | y where "\<not> commits y" "method (\<lambda>_. None) fo = (fo, Inr y)"
    | s y where "commits y" "method (\<lambda>_. None) fo = fo_finish (\<lambda>_. None) fo s y"
    using m unfolding committing_def by blast
  then show ?thesis
  proof cases
    case (3 s y)
    have f: "fo_finish (\<lambda>_. None) fo s y = (\<lparr>fo_state = s\<rparr>, Inr y)" by (cases fo) (simp add: fo_finish_def fo_commit_def)
    obtain ep where ep: "epoch s = Some ep" using e [of y] 3 f by auto
    obtain r1 x where p: "persist_failover_state st r s = (r1, x)" by fastforce
    note pf = persist_follows [OF st r(2) ep p]
    have run: "run_failover st method commits r = sbind (r1, x) (\<lambda>r _. (r\<lparr>rt_failover := Some \<lparr>fo_state = s\<rparr>\<rparr>, Inr y))"
      using r(1) 3 f p by (simp add: run_failover_def)
    show ?thesis
    proof (cases x)
      case (Inl z)
      then show ?thesis using pf 3 f r(1) by (simp add: follows_def run)
    next
      case (Inr u)
      then have "holds_state c \<lparr>fo_state = s\<rparr> (r1\<lparr>rt_failover := Some \<lparr>fo_state = s\<rparr>\<rparr>)" "serves_state c \<lparr>fo_state = s\<rparr> (r1\<lparr>rt_failover := Some \<lparr>fo_state = s\<rparr>\<rparr>)"
        using pf by (simp_all add: holds_state_def serves_state_def stored_cluster_def)
      then show ?thesis using 3 f Inr by (simp add: follows_def run)
    qed
  qed (use r in \<open>simp_all add: follows_def run_failover_def\<close>)
qed



section \<open>Revoking a member\<close>

lemma role_revoke_effect:
  assumes "rs_ok s" "role_revoke s actor t = Inr s'"
  shows "(\<exists>a. map_of (assignment_index (assignments s')) t = Some a \<and> ra_revoked a)
    \<and> (\<forall>g \<in> set (capability_grants s'). cg_subject g \<noteq> t \<and> cg_target g \<noteq> t)"
proof -
  from assms(2) obtain c a u where c: "assignment_for s t = Some c" "ra_post_init (c\<lparr>ra_revoked := True, ra_paused := False, ra_job := False\<rparr>) = Inr a"
      "role_replace s a = Inr u"
      "rs_post_init (u\<lparr>capability_grants := filter (\<lambda>g. t \<noteq> cg_subject g \<and> t \<noteq> cg_target g) (capability_grants u)\<rparr>) = Inr s'"
    by (auto simp: role_revoke_def ok_simps split: if_splits option.splits)
  have sk: "seek t (assignments s) = Some c" using c(1) assignment_for_seek [OF assms(1)] by simp
  then have a: "ra_node_id a = Some t" "ra_revoked a" using ra_post_init_fields [OF c(2)] seek_Some [OF sk] by auto
  have u: "assignments u = set_assignment a (assignments s)" "ids_distinct (assignments u)"
    using c(3) by (auto simp: role_replace_def rs_post_init_iff)
  have s': "assignments s' = assignments u" "capability_grants s' = filter (\<lambda>g. t \<noteq> cg_subject g \<and> t \<noteq> cg_target g) (capability_grants u)"
    using c(4) by (auto simp: rs_post_init_iff)
  have "map_of (assignment_index (assignments s')) t = Some a"
    using assignment_index_seek [OF u(2)] seek_set [OF a(1), of t "assignments s"] sk by (simp add: s' u(1))
  then show ?thesis using a(2) s'(2) by auto
qed

lemma dispatch_answered:
  assumes "dispatch_role_request st r q now clock = (r', Inr v)" "rq_op q \<in> {''revoke_member'', ''revoke_worker''}" "rt_cluster r = Some c"
  obtains actor s where "dispatch_member st r c s actor (rq_op q) (rq_params q) = (r', Inr v)"
    "rs_post_init \<lparr>assignments = map snd (cl_assignments c), epoch = Some (cl_epoch c), promotion_epochs = {}, capability_grants = rt_grants r\<rparr> = Inr s"
proof -
  have op: "rq_op q \<noteq> ''consume_invite''" "rq_op q \<noteq> ''renew_coordinator_lease''" "rq_op q \<noteq> ''assign_role''"
    "rq_op q \<in> {''revoke_member'', ''revoke_worker'', ''pause_worker'', ''resume_worker'', ''remove_job''}" using assms(2) by auto
  note d = assms(1) [unfolded dispatch_role_request_def require_cluster_def assms(3) option.case sbind_simps
    if_not_P [OF op(1)] if_not_P [OF op(2)] if_not_P [OF op(3)] if_P [OF op(4)]]
  then have "\<exists>actor s. dispatch_member st r c s actor (rq_op q) (rq_params q) = (r', Inr v) \<and>
    rs_post_init \<lparr>assignments = map snd (cl_assignments c), epoch = Some (cl_epoch c), promotion_epochs = {}, capability_grants = rt_grants r\<rparr> = Inr s"
    by (auto simp: sbind_Inr split: option.splits if_splits)
  with that show thesis by blast
qed

lemma member_revoked:
  assumes run: "dispatch_role_request st r q now clock = (r', Inr v)" and op: "rq_op q \<in> {''revoke_member'', ''revoke_worker''}"
    and t: "node_param (rq_params q) ''target_node_id'' = Inr target" and c: "rt_cluster r = Some c" "cl_inv c"
  shows "\<exists>c' a d. rt_cluster r' = Some c' \<and> map_of (cl_assignments c') target = Some a \<and> ra_revoked a
    \<and> (\<forall>g \<in> set (rt_grants r'). cg_subject g \<noteq> target \<and> cg_target g \<noteq> target) \<and> cl_grants c' = rt_grants r'
    \<and> (\<forall>s. rt_service r' = Some s \<longrightarrow> sv_cluster_grants s = rt_grants r')
    \<and> cs_to_dict (stored_cluster r' c') = Inr d \<and> rt_cluster_file r' = Some d"
proof -
  obtain actor s where d: "dispatch_member st r c s actor (rq_op q) (rq_params q) = (r', Inr v)"
    and s: "rs_post_init \<lparr>assignments = map snd (cl_assignments c), epoch = Some (cl_epoch c), promotion_epochs = {}, capability_grants = rt_grants r\<rparr> = Inr s"
    by (rule dispatch_answered [OF run op c(1)])
  have "\<forall>a \<in> set (map snd (cl_assignments c)). ra_ok a" using c(2) by (auto simp: cl_inv_def rs_inv_def rs_ok_def cl_rs_def)
  moreover have "s = \<lparr>assignments = map snd (cl_assignments c), epoch = Some (cl_epoch c), promotion_epochs = {}, capability_grants = rt_grants r\<rparr>"
    using s by (simp add: rs_post_init_iff)
  ultimately have ok: "rs_ok s" using s by (simp add: rs_ok_def)
  from d op obtain s' r1 where m: "role_revoke s actor target = Inr s'"
      "publish_roles st r c s' ''cluster role mutation was not durably persisted'' = (r1, Inr ())" "refresh_live_grants r1 = (r', Inr ())"
    unfolding dispatch_member_def t by (auto simp: sbind_Inr member_transition_def)
  define c' where "c' = c\<lparr>cl_assignments := assignment_index (assignments s'), cl_grants := capability_grants s'\<rparr>"
  have sv: "save_persisted_state st ((set_cluster c' r)\<lparr>rt_grants := capability_grants s'\<rparr>) = (r1, Inr True)"
    using m(2) by (simp add: publish_roles_def saved_or_ok c'_def)
  have r1: "rt_cluster r1 = Some c'" "rt_grants r1 = capability_grants s'" "agrees r1"
    using save_keeps(5,6) [OF sv] save_agrees [OF sv] by simp_all
  then have r': "rt_cluster r' = Some c'" "rt_grants r' = capability_grants s'" "agrees r'"
    using refresh_cluster_keeps [of r1] agrees_steps(3) [of r1] m(3) by simp_all
  have "sv_cluster_grants w = rt_grants r'" if "rt_service r' = Some w" for w
    by (rule refresh_service [OF m(3) that]) (simp add: r1 r')
  then show ?thesis using role_revoke_effect [OF ok m(1)] r' by (auto simp: agrees_def c'_def)
qed

text \<open>
  A revoked member is out everywhere at once: when a request to revoke it is answered, it is marked revoked in the
  cluster, no capability grant names it as subject or target, the live service works with exactly these grants, and the
  stored document is that of this state.
\<close>

theorem member_revoked_everywhere:
  assumes run: "dispatch_role_request st r q now clock = (r', Inr v)" and op: "rq_op q \<in> {''revoke_member'', ''revoke_worker''}"
    and t: "node_param (rq_params q) ''target_node_id'' = Inr target" and c: "rt_cluster r = Some c" "cl_inv c"
  shows "\<exists>c' a d. rt_cluster r' = Some c' \<and> map_of (cl_assignments c') target = Some a \<and> ra_revoked a
    \<and> (\<forall>g \<in> set (rt_grants r'). cg_subject g \<noteq> target \<and> cg_target g \<noteq> target) \<and> cl_grants c' = rt_grants r'
    \<and> (\<forall>s. rt_service r' = Some s \<longrightarrow> sv_cluster_grants s = rt_grants r')
    \<and> cs_to_dict (stored_cluster r' c') = Inr d \<and> rt_cluster_file r' = Some d"
  by (rule member_revoked [OF assms])

section \<open>Two holders of the role state\<close>

text \<open>No request of another member touches the failover coordinator.\<close>

lemma saved_or_failover:
  assumes "rt_failover r = f" "\<And>q. rt_failover (undo q) = rt_failover q"
  shows "rt_failover (fst (saved_or st r undo cls msg)) = f"
  using save_keeps(9) [of st r] assms by (auto simp: saved_or_def split: prod.split sum.split bool.split)

lemma sbind_failover:
  assumes "rt_failover (fst m) = f" "\<And>q y. rt_failover q = f \<Longrightarrow> rt_failover (fst (g q y)) = f"
  shows "rt_failover (fst (sbind m g)) = f"
  using assms by (rule fst_sbind_inv [where P = "\<lambda>q. rt_failover q = f"])

lemma dispatch_parts_failover:
  "rt_failover (fst (dispatch_assign st r c s actor caller params now)) = rt_failover r"
  "rt_failover (fst (dispatch_member st r c s actor op1 params)) = rt_failover r"
  "rt_failover (fst (dispatch_capabilities st r c s actor caller op1 params now)) = rt_failover r"
  "rt_failover (fst (dispatch_renew st r c caller params now)) = rt_failover r"
  "rt_failover (fst (dispatch_remove_connection r c caller params now)) = rt_failover r"
proof -
  show "rt_failover (fst (dispatch_assign st r c s actor caller params now)) = rt_failover r"
    unfolding dispatch_assign_def publish_roles_def by (auto intro!: sbind_failover saved_or_failover)
  show "rt_failover (fst (dispatch_member st r c s actor op1 params)) = rt_failover r"
    unfolding dispatch_member_def publish_roles_def by (intro sbind_failover saved_or_failover) auto
  show "rt_failover (fst (dispatch_capabilities st r c s actor caller op1 params now)) = rt_failover r"
    unfolding dispatch_capabilities_def by (auto intro!: sbind_failover saved_or_failover)
  show "rt_failover (fst (dispatch_renew st r c caller params now)) = rt_failover r"
    unfolding dispatch_renew_def Let_def by (auto intro!: sbind_failover saved_or_failover)
  show "rt_failover (fst (dispatch_remove_connection r c caller params now)) = rt_failover r"
    unfolding dispatch_remove_connection_def by (auto intro!: sbind_failover)
qed

lemma failover_untouched: "rt_failover (fst (dispatch_role_request st r q now clock)) = rt_failover r"
proof -
  have "rt_failover (fst (dispatch_consume_invite st a c caller params now clock)) = rt_failover a" for a c caller params
    unfolding dispatch_consume_invite_def by (auto intro!: sbind_failover saved_or_failover split: prod.split sum.split)
  then show ?thesis
    unfolding dispatch_role_request_def by (auto intro!: sbind_failover simp: dispatch_parts_failover split: option.split)
qed

lemma persist_effect:
  assumes "persist_failover_state st r s = (r', Inr ())" "rt_cluster r = Some c"
  shows "rt_cluster r' = Some (c\<lparr>cl_assignments := assignment_index (assignments s), cl_epoch := (case epoch s of None \<Rightarrow> cl_epoch c | Some e \<Rightarrow> e),
     cl_promotions := promotion_epochs s, cl_grants := capability_grants s\<rparr>)" (is "_ = Some ?c")
proof -
  from assms obtain a b d where st: "save_persisted_state st ((set_cluster ?c r)\<lparr>rt_grants := capability_grants s\<rparr>) = (a, Inr True)"
      "update_fence a = (b, Inr ())" "hydrate_registry_membership b = (d, Inr ())" "refresh_live_grants d = (r', Inr ())"
    unfolding persist_failover_state_def require_cluster_def Let_def by (auto simp: sbind_Inr saved_or_ok)
  have "rt_cluster a = Some ?c" using save_keeps(5) [OF st(1)] by simp
  moreover have "rt_cluster b = rt_cluster a" using update_fence_keeps(1) [of a] st(2) by simp
  moreover have "rt_cluster d = rt_cluster b" using hydrate_keeps(1) [of b] st(3) by simp
  moreover have "rt_cluster r' = rt_cluster d" using refresh_cluster_keeps(1) [of d] st(4) by simp
  ultimately show ?thesis by simp
qed

text \<open>
  The coordinator's next commit writes its own, older members over those of the cluster: a node that was admitted by
  invite, or assigned by a request, is gone after the next accepted heartbeat.
\<close>

lemma heartbeat_drops_members:
  assumes "rt_heartbeat st r n t now = (r', Inr True)" "rt_failover r = Some fo" "rt_cluster r = Some c"
  shows "\<exists>c'. rt_cluster r' = Some c' \<and> cl_assignments c' = assignment_index (assignments (fo_state fo))"
proof -
  obtain fo' b where fo': "fo_heartbeat (\<lambda>_. None) fo n t now = (fo', Inr b)" "b"
      and p: "sbind (persist_failover_state st r (fo_state fo')) (\<lambda>r _. (r\<lparr>rt_failover := Some fo'\<rparr>, Inr b)) = (r', Inr True)"
    using assms(1) unfolding rt_heartbeat_def run_failover_def assms(2) option.case
    by (cases "fo_heartbeat (\<lambda>_. None) fo n t now"; cases "snd (fo_heartbeat (\<lambda>_. None) fo n t now)") (auto split: if_splits)
  from p obtain r1 where r1: "persist_failover_state st r (fo_state fo') = (r1, Inr ())" "r' = r1\<lparr>rt_failover := Some fo'\<rparr>"
    by (auto simp: sbind_Inr)
  have "assignments (fo_state fo') = assignments (fo_state fo)"
    using fo' by (auto simp: fo_heartbeat_def fo_finish_def fo_commit_def rs_post_init_iff ok_simps split: option.splits sum.splits if_splits)
  with persist_effect [OF r1(1) assms(3)] r1(2) show ?thesis by simp
qed

text \<open>
  A node that has joined a cluster keeps its old service fence, failover coordinator and capability grants until it restarts.
\<close>

lemma join_leaves_service:
  assumes "rt_join_cluster st r peer i resp = (r', Inr v)"
  shows "rt_service r' = rt_service r \<and> rt_failover r' = rt_failover r \<and> rt_grants r' = rt_grants r
    \<and> (\<exists>c. rt_cluster r' = Some c \<and> cl_id c = iv_cluster i)"
proof -
  obtain c where c: "rt_cluster r = Some c" using assms by (cases "rt_cluster r") (auto simp: rt_join_cluster_def require_cluster_def)
  note j = assms [unfolded rt_join_cluster_def require_cluster_def c option.case sbind_simps Let_def]
  obtain ep where "rbind (mk_node_id (iv_coordinator i)) (\<lambda>n. mk_epoch (iv_epoch i) n (iv_fence i) (Fin (ce_issued (cl_epoch c))) (Fin (ce_lease (cl_epoch c)))) = Inr ep"
    using j by (cases "rbind (mk_node_id (iv_coordinator i)) (\<lambda>n. mk_epoch (iv_epoch i) n (iv_fence i) (Fin (ce_issued (cl_epoch c))) (Fin (ce_lease (cl_epoch c))))")
      (auto simp: sbind_Inr split: if_splits)
  note j = j [unfolded this sum.case]
  define c' where "c' = c\<lparr>cl_id := iv_cluster i, cl_epoch := ep, cl_assignments := [(cm_local (rt_cm r), worker_assignment (cm_local (rt_cm r)))],
    cl_online := [(cm_local (rt_cm r), True)], cl_promotions := {}, cl_grants := []\<rparr>"
  obtain r1 x where s: "save_persisted_state st (set_cluster c' r) = (r1, x)" by fastforce
  have "x = Inr True \<and> hydrate_registry_membership r1 = (r', Inr ())"
    using j s [unfolded c'_def] by (cases x) (auto simp: sbind_Inr split: if_splits bool.splits)
  then show ?thesis using save_keeps(4,5,6,9) [OF s] hydrate_keeps [of r1] by (auto simp: c'_def)
qed

section \<open>A sample Subcoordinator\<close>

definition demo_roles :: cluster where
  "demo_roles = \<lparr>cl_local = NodeId ''b'', cl_id = ''k'', cl_epoch = demo_epoch,
     cl_assignments = [(NodeId ''a'', demo_member ''a'' {COORDINATOR, WORKER}), (NodeId ''b'', demo_member ''b'' {SUBCOORDINATOR}),
       (NodeId ''c'', demo_member ''c'' {WORKER})],
     cl_online = [(NodeId ''b'', True)], cl_invites = [], cl_admissions = [], cl_used = {}, cl_promotions = {}, cl_grants = [demo_grant]\<rparr>"

definition demo_sub :: runtime where
  "demo_sub = demo_runtime\<lparr>rt_cm := (rt_cm demo_runtime)\<lparr>cm_local := NodeId ''b'', cm_registry := registry_for (NodeId ''b'') True,
       cm_pairing := (pm_new (NodeId ''b'') 300)\<lparr>pm_grants := [(NodeId ''a'', demo_inbound\<lparr>pg_caller := NodeId ''a''\<rparr>)]\<rparr>\<rparr>,
     rt_cluster := Some demo_roles, rt_grants := [demo_grant], rt_failover := Some demo_fo, rt_permissions := []\<rparr>"

definition demo_role_request :: "string \<Rightarrow> (string \<times> pyval) list \<Rightarrow> remote_request" where
  "demo_role_request op1 items = demo_request\<lparr>rq_caller := Some (NodeId ''a''), rq_op := op1,
     rq_params := pdict ([(''cluster_id'', PStr ''k''), (''epoch'', PInt 1), (''fencing_token'', PStr ''t0'')] @ items)\<rparr>"

lemma demo_roles_inv: "cl_inv demo_roles"
  using demo_state_inv by (simp add: cl_inv_def cl_rs_def demo_roles_def demo_state_def table_ok_def) (simp add: demo_member_def)

lemma demo_sub_simps [simp]:
  "rt_loaded demo_sub" "rt_ready demo_sub" "rt_cluster demo_sub = Some demo_roles" "rt_service demo_sub = None" "rt_grants demo_sub = [demo_grant]"
  "rt_failover demo_sub = Some demo_fo" "rt_cluster_store demo_sub" "cm_local (rt_cm demo_sub) = NodeId ''b''"
  "rt_registry demo_sub = registry_for (NodeId ''b'') True"
  by (simp_all add: demo_sub_def demo_runtime_def)

lemma demo_sub_paired: "pm_can_join_cluster (rt_pairing demo_sub) (NodeId ''a'')"
  by (simp add: pm_can_join_cluster_def pm_has_valid_relationship_def demo_sub_def)

lemma bound_values: "map snd (bound_pairs as) = filter bound as"
  by (induction as) (auto split: option.splits)

lemma index_values: "ids_distinct as \<Longrightarrow> map snd (assignment_index as) = filter bound as"
  by (simp add: assignment_index_def dict_of_distinct ids_distinct_pairs bound_values)

lemma storable_roles:
  assumes "rs_post_init s = Inr s" "\<forall>i \<in> P. 0 \<le> i"
  shows "\<exists>d. cs_to_dict ((cl_to_state (c\<lparr>cl_assignments := assignment_index (assignments s), cl_epoch := e, cl_promotions := P, cl_grants := gs\<rparr>))
     \<lparr>cs_grants := capability_grants s\<rparr>) = Inr d"
proof -
  have "ids_distinct (assignments s)" using assms(1) by (simp add: rs_post_init_iff)
  then have v: "map snd (assignment_index (assignments s)) = filter bound (assignments s)" by (rule index_values)
  have "rs_post_init \<lparr>assignments = filter bound (assignments s), epoch = Some e, promotion_epochs = P, capability_grants = capability_grants s\<rparr>
      = Inr \<lparr>assignments = filter bound (assignments s), epoch = Some e, promotion_epochs = P, capability_grants = capability_grants s\<rparr>"
    using assms by (auto simp: rs_post_init_def Let_def not_less split: if_splits)
  then show ?thesis by (simp add: cs_to_dict_def cl_to_state_def v)
qed

lemma save_roles:
  assumes "accepts st" "rt_loaded r" "rt_ready r" "rs_post_init s = Inr s" "\<forall>i \<in> P. 0 \<le> i"
  shows "\<exists>r'. save_persisted_state st ((set_cluster (c\<lparr>cl_assignments := assignment_index (assignments s), cl_epoch := e, cl_promotions := P,
     cl_grants := gs\<rparr>) r)\<lparr>rt_grants := capability_grants s\<rparr>) = (r', Inr True)"
proof -
  let ?c = "c\<lparr>cl_assignments := assignment_index (assignments s), cl_epoch := e, cl_promotions := P, cl_grants := gs\<rparr>"
  let ?r = "(set_cluster ?c r)\<lparr>rt_grants := capability_grants s\<rparr>"
  have "\<exists>d. cs_to_dict (stored_cluster ?r ?c) = Inr d" using storable_roles [OF assms(4,5), where c = c and e = e and gs = gs] by (simp add: stored_cluster_def)
  then obtain d where "cs_to_dict (stored_cluster ?r ?c) = Inr d" by blast
  from save_accepted [OF assms(1) _ _ _ this] assms(2,3) show ?thesis by simp
qed

lemma demo_role_control: "role_control demo_state (demo_member ''a'' {COORDINATOR, WORKER}) = Inr (NodeId ''a'')"
  using demo_state_inv by (simp add: rs_inv_def role_control_Inr) (simp add: demo_defs active_with_def)

lemma demo_revocation_runs:
  "\<exists>r' v. dispatch_role_request demo_storage demo_sub (demo_role_request ''revoke_member'' [(''target_node_id'', PStr ''c'')]) 5 5 = (r', Inr v)"
proof -
  let ?a = "demo_member ''a'' {COORDINATOR, WORKER}" and ?p = "pdict [(''cluster_id'', PStr ''k''), (''epoch'', PInt 1), (''fencing_token'', PStr ''t0''), (''target_node_id'', PStr ''c'')]"
  obtain s where s: "role_revoke demo_state ?a (NodeId ''c'') = Inr s" "rs_inv s"
    using role_revoke_Inr [OF demo_state_inv demo_role_control, of "NodeId ''c''" "demo_member ''c'' {WORKER}"]
    by (auto simp: demo_defs)
  have ok: "rs_post_init s = Inr s" using s(2) by (simp add: rs_inv_def rs_ok_def)
  have "\<exists>r'. save_persisted_state demo_storage ((set_cluster (demo_roles\<lparr>cl_assignments := assignment_index (assignments s), cl_epoch := demo_epoch,
      cl_promotions := {}, cl_grants := capability_grants s\<rparr>) demo_sub)\<lparr>rt_grants := capability_grants s\<rparr>) = (r', Inr True)"
    by (rule save_roles [OF demo_accepts _ _ ok]) simp_all
  then obtain r1 where r1: "save_persisted_state demo_storage ((set_cluster (demo_roles\<lparr>cl_assignments := assignment_index (assignments s),
      cl_grants := capability_grants s\<rparr>) demo_sub)\<lparr>rt_grants := capability_grants s\<rparr>) = (r1, Inr True)"
    by (auto simp: demo_roles_def)
  have n: "rt_service r1 = None" using save_keeps(4) [OF r1] by simp
  have au: "authorize_params demo_roles ?p = Inr ()"
    by (simp add: authorize_params_def demo_roles_def demo_epoch_def compare_digest_def is_ascii_def ensure_def)
  have st: "rs_post_init \<lparr>assignments = map snd (cl_assignments demo_roles), epoch = Some (cl_epoch demo_roles), promotion_epochs = {},
      capability_grants = [demo_grant]\<rparr> = Inr demo_state"
    using demo_state_inv by (simp add: rs_inv_def rs_ok_def demo_state_def demo_roles_def)
  have m: "map_of (cl_assignments demo_roles) (NodeId ''a'') = Some ?a" by (simp add: demo_roles_def)
  have np: "node_param ?p ''target_node_id'' = Inr (NodeId ''c'')" by (simp add: node_param_def mk_node_id_def)
  have "dispatch_member demo_storage demo_sub demo_roles demo_state ?a ''revoke_member'' ?p
      = (r1, Inr (ok_answer [(''node_id'', PStr ''c''), (''revoked'', PBool True)]))"
    by (simp add: dispatch_member_def np member_transition_def s(1) publish_roles_def saved_or_def r1 refresh_live_grants_def n)
  then show ?thesis
    by (simp add: dispatch_role_request_def require_cluster_def demo_role_request_def demo_sub_paired au m st)
qed

theorem member_revoked_everywhere_witness:
  "\<exists>r' v c' a. dispatch_role_request demo_storage demo_sub (demo_role_request ''revoke_member'' [(''target_node_id'', PStr ''c'')]) 5 5 = (r', Inr v)
     \<and> rt_cluster r' = Some c' \<and> map_of (cl_assignments c') (NodeId ''c'') = Some a \<and> ra_revoked a"
proof -
  obtain r' v where r: "dispatch_role_request demo_storage demo_sub (demo_role_request ''revoke_member'' [(''target_node_id'', PStr ''c'')]) 5 5 = (r', Inr v)"
    using demo_revocation_runs by blast
  have "node_param (rq_params (demo_role_request ''revoke_member'' [(''target_node_id'', PStr ''c'')])) ''target_node_id'' = Inr (NodeId ''c'')"
    by (simp add: demo_role_request_def node_param_def mk_node_id_def)
  from member_revoked_everywhere [OF r _ this _ demo_roles_inv] r show ?thesis by (auto simp: demo_role_request_def)
qed


theorem roles_changed_by_coordinator_witness:
  "\<exists>r' v. dispatch_role_request demo_storage demo_sub (demo_role_request ''revoke_member'' [(''target_node_id'', PStr ''c'')]) 5 5 = (r', Inr v)
     \<and> rt_grants r' \<noteq> rt_grants demo_sub \<and> NodeId ''a'' = ce_coordinator (cl_epoch demo_roles)"
proof -
  let ?q = "demo_role_request ''revoke_member'' [(''target_node_id'', PStr ''c'')]"
  obtain r' v where r: "dispatch_role_request demo_storage demo_sub ?q 5 5 = (r', Inr v)"
    using demo_revocation_runs by blast
  have t: "node_param (rq_params ?q) ''target_node_id'' = Inr (NodeId ''c'')" "rq_op ?q = ''revoke_member''" "rq_caller ?q = Some (NodeId ''a'')"
    by (simp_all add: demo_role_request_def node_param_def mk_node_id_def)
  have ne: "rt_grants r' \<noteq> rt_grants demo_sub"
    using member_revoked [OF r _ t(1) _ demo_roles_inv] t(2) by (auto simp: demo_grant_def)
  from roles_changed_by_coordinator [OF r _ demo_roles_inv] ne t r show ?thesis by auto
qed

lemma persist_runs:
  assumes "accepts st" "rt_loaded r" "rt_ready r" "rt_cluster r = Some c" "rt_service r = None" "unrevoked (rt_registry r)"
    and "rs_post_init s = Inr s" "epoch s = Some e"
  shows "\<exists>r'. persist_failover_state st r s = (r', Inr ())"
proof -
  have "\<forall>i \<in> promotion_epochs s. 0 \<le> i" using assms(7) by (simp add: rs_post_init_iff)
  from save_roles [OF assms(1-3,7) this] obtain r1 where r1: "save_persisted_state st ((set_cluster (c\<lparr>cl_assignments := assignment_index (assignments s),
      cl_epoch := e, cl_promotions := promotion_epochs s, cl_grants := capability_grants s\<rparr>) r)\<lparr>rt_grants := capability_grants s\<rparr>) = (r1, Inr True)"
    by blast
  have k: "rt_service r1 = None" "rt_registry r1 = rt_registry r" using save_keeps(3,4) [OF r1] assms(5) by (simp_all add: set_cluster_def)
  have f: "update_fence r1 = (r1, Inr ())" by (simp add: update_fence_def k)
  obtain g where h: "hydrate_registry_membership r1 = (set_registry g r1, Inr ())" using hydrate_registry_ok [of r1] k(2) assms(6) by auto
  show ?thesis
    using r1 assms(4,8) by (simp add: persist_failover_state_def require_cluster_def saved_or_def f h refresh_live_grants_def k)
qed


lemma demo_renewal_runs:
  "\<exists>r' v. dispatch_role_request demo_storage demo_sub (demo_role_request ''renew_coordinator_lease'' []) 100 100 = (r', Inr v)
     \<and> rt_cluster r' = Some (demo_roles\<lparr>cl_epoch := demo_epoch\<lparr>ce_issued := 100, ce_lease := 220\<rparr>\<rparr>) \<and> rt_registry r' = rt_registry demo_sub
     \<and> rt_loaded r' \<and> rt_ready r' \<and> rt_service r' = None"
proof -
  let ?e = "demo_epoch\<lparr>ce_issued := 100, ce_lease := 220\<rparr>" and ?p = "pdict [(''cluster_id'', PStr ''k''), (''epoch'', PInt 1), (''fencing_token'', PStr ''t0'')]"
  have ok: "rs_post_init demo_state = Inr demo_state" using demo_state_inv by (simp add: rs_inv_def rs_ok_def)
  have r: "(set_cluster (demo_roles\<lparr>cl_assignments := assignment_index (assignments demo_state), cl_epoch := ?e, cl_promotions := {}, cl_grants := [demo_grant]\<rparr>) demo_sub)
      \<lparr>rt_grants := capability_grants demo_state\<rparr> = set_cluster (demo_roles\<lparr>cl_epoch := ?e\<rparr>) demo_sub"
  proof -
    have "assignment_index (assignments demo_state) = cl_assignments demo_roles"
      by (simp add: demo_state_def demo_member_def demo_roles_def assignment_index_def dict_of_def)
    then show ?thesis by (simp add: demo_roles_def demo_sub_def set_cluster_def demo_state_def)
  qed
  obtain r1 where r1: "save_persisted_state demo_storage (set_cluster (demo_roles\<lparr>cl_epoch := ?e\<rparr>) demo_sub) = (r1, Inr True)"
    using save_roles [OF demo_accepts _ _ ok, where r = demo_sub and P = "{}" and c = demo_roles and e = ?e and gs = "[demo_grant]"] unfolding r by auto
  note k = save_keeps [OF r1]
  have au: "authorize_params demo_roles ?p = Inr ()"
    by (simp add: authorize_params_def demo_roles_def demo_epoch_def compare_digest_def is_ascii_def ensure_def)
  have st: "rs_post_init \<lparr>assignments = map snd (cl_assignments demo_roles), epoch = Some (cl_epoch demo_roles), promotion_epochs = {},
      capability_grants = [demo_grant]\<rparr> = Inr demo_state"
    using ok by (simp add: demo_state_def demo_roles_def)
  have m: "map_of (cl_assignments demo_roles) (NodeId ''a'') = Some (demo_member ''a'' {COORDINATOR, WORKER})" by (simp add: demo_roles_def)
  have co: "ce_coordinator (cl_epoch demo_roles) = NodeId ''a''" by (simp add: demo_roles_def demo_epoch_def)
  have rn: "renew_lease (cl_epoch demo_roles) (NodeId ''a'') (PStr ''t0'') (PFloat (Fin 100)) (PFloat (Fin HEARTBEAT_TIMEOUT_SECONDS)) = Inr ?e"
    by (simp add: renew_lease_def demo_roles_def demo_epoch_def compare_digest_def is_ascii_def valid_time_def HEARTBEAT_TIMEOUT_SECONDS_def mk_epoch_def)
  have "\<exists>v. dispatch_renew demo_storage demo_sub demo_roles (NodeId ''a'') ?p 100 = (r1, Inr v)"
    by (simp add: dispatch_renew_def co rn saved_or_def r1 update_fence_def k)
  then show ?thesis
    using k by (simp add: dispatch_role_request_def require_cluster_def demo_role_request_def demo_sub_paired au m st)
      (rule exI [of _ r1], simp add: set_cluster_def)
qed

text \<open>
  A lease that the Coordinator has renewed at the Subcoordinator does not hold it back: the renewal reaches the cluster
  and the file, the failover coordinator still sees the old lease and takes over while the new one runs.
\<close>

lemma renewed_lease_ignored:
  "\<exists>r' v r''. dispatch_role_request demo_storage demo_sub (demo_role_request ''renew_coordinator_lease'' []) 100 100 = (r', Inr v)
     \<and> (\<exists>c. rt_cluster r' = Some c \<and> ce_lease (cl_epoch c) = 220)
     \<and> rt_promote_if_due demo_storage r' (PInt 130) ''t1'' = (r'', Inr True)"
proof -
  obtain r' v where r: "dispatch_role_request demo_storage demo_sub (demo_role_request ''renew_coordinator_lease'' []) 100 100 = (r', Inr v)"
      "rt_cluster r' = Some (demo_roles\<lparr>cl_epoch := demo_epoch\<lparr>ce_issued := 100, ce_lease := 220\<rparr>\<rparr>)" "rt_registry r' = rt_registry demo_sub"
      "rt_loaded r'" "rt_ready r'" "rt_service r' = None"
    using demo_renewal_runs by blast
  obtain fo' where fo': "fo_promote_if_due (\<lambda>_. None) demo_fo (PInt 130) ''t1'' = (fo', Inr True)" using demo_promotion by blast
  have "\<exists>e. rs_post_init (fo_state fo') = Inr (fo_state fo') \<and> epoch (fo_state fo') = Some e"
    using fo' by (auto simp: fo_promote_if_due_def fo_finish_def fo_commit_def rs_post_init_iff Let_def split: sum.splits if_splits)
  then obtain e where e: "rs_post_init (fo_state fo') = Inr (fo_state fo')" "epoch (fo_state fo') = Some e" by blast
  have "unrevoked (rt_registry r')" by (simp add: r(3) registry_for_unrevoked)
  from persist_runs [OF demo_accepts r(4,5,2,6) this e] obtain r1 where r1: "persist_failover_state demo_storage r' (fo_state fo') = (r1, Inr ())" by blast
  have "rt_failover r' = Some demo_fo"
    using failover_untouched [of demo_storage demo_sub "demo_role_request ''renew_coordinator_lease'' []" 100 100] r(1) by simp
  then have "\<exists>r''. rt_promote_if_due demo_storage r' (PInt 130) ''t1'' = (r'', Inr True)"
    by (simp add: rt_promote_if_due_def run_failover_def fo' r1)
  then show ?thesis using r by auto
qed

end
