(* ===== verification/ClusterRuns.thy ===== *)
theory ClusterRuns
  imports ClusterRestart RoleRequestLaws
begin

text \<open>
  Long runs of the cluster facade: what a member may ask for (the operations of \<open>Cluster\<close> and the role requests that
  \<open>dispatch_role_request\<close> publishes through it), \<open>join\<close>, and starting over from a stored document. The member table and
  the grants stay consistent along them, as long as a join finds no grants, and a revocation lasts until the local node
  joins another cluster.
\<close>

section \<open>Steps\<close>

text \<open>
  A role request of a member works on the role state that the dispatcher builds from the facade, without the promotion
  markers and with the caller's own assignment as actor. When the operation raises, nothing is published.
\<close>

definition request_state :: "cluster \<Rightarrow> role_state" where
  "request_state c = \<lparr>assignments = map snd (cl_assignments c), epoch = Some (cl_epoch c), promotion_epochs = {},
     capability_grants = cl_grants c\<rparr>"

definition cl_request :: "cluster \<Rightarrow> node_id \<Rightarrow> (role_state \<Rightarrow> role_assignment \<Rightarrow> role_state res) \<Rightarrow> cluster" where
  "cl_request c caller f =
     (case map_of (cl_assignments c) caller of
        None \<Rightarrow> c
      | Some actor \<Rightarrow>
          (case rbind (rs_post_init (request_state c)) (\<lambda>s. f s actor) of Inl _ \<Rightarrow> c | Inr s \<Rightarrow> cl_apply_role_state c s))"

definition cl_renew :: "cluster \<Rightarrow> node_id \<Rightarrow> pyval \<Rightarrow> rat \<Rightarrow> cluster" where
  "cl_renew c caller tok now =
     (case renew_lease (cl_epoch c) caller tok (PFloat (Fin now)) (PFloat (Fin HEARTBEAT_TIMEOUT_SECONDS)) of
        Inl _ \<Rightarrow> c
      | Inr e \<Rightarrow> c\<lparr>cl_epoch := e\<rparr>)"

datatype member_op =
    Local cl_op
  | ReqRenew node_id pyval rat
  | ReqAssign node_id node_id cluster_role rat
  | ReqMember node_id string node_id
  | ReqGrant node_id node_id node_id "node_permission set" rat pyfloat
  | ReqUngrant node_id node_id node_id

fun member_step :: "cluster \<Rightarrow> member_op \<Rightarrow> cluster" where
  "member_step c (Local x) = cl_step c x"
| "member_step c (ReqRenew caller tok now) = cl_renew c caller tok now"
| "member_step c (ReqAssign caller t r now) =
     cl_request c caller (\<lambda>s actor. rbind (role_assign s actor t {r} (PFloat (Fin now))) (\<lambda>x. Inr (fst x)))"
| "member_step c (ReqMember caller op1 t) = cl_request c caller (\<lambda>s actor. member_transition op1 s actor t)"
| "member_step c (ReqGrant caller a b ps now expires) =
     cl_request c caller (\<lambda>s actor. role_grant_capabilities s actor a b ps (Fin now) expires)"
| "member_step c (ReqUngrant caller a b) = cl_request c caller (\<lambda>s actor. role_revoke_capabilities s actor a b)"

text \<open>\<open>Join coord i can now clock\<close>: the local cluster joins another, whose object is \<open>coord\<close>.\<close>

datatype facade_op = Member member_op | Join cluster invite_record "node_id \<Rightarrow> bool" rat rat

fun facade_step :: "cluster \<Rightarrow> facade_op \<Rightarrow> cluster" where
  "facade_step c (Member x) = member_step c x"
| "facade_step c (Join coord i can now clock) = fst (fst (cl_join c coord i can now clock))"

text \<open>\<open>Cluster.join\<close> replaces the member table and keeps the grants, so a join has to find none.\<close>

fun joins_clean :: "cluster \<Rightarrow> facade_op list \<Rightarrow> bool" where
  "joins_clean c [] \<longleftrightarrow> True"
| "joins_clean c (Member x # xs) \<longleftrightarrow> joins_clean (member_step c x) xs"
| "joins_clean c (Join coord i can now clock # xs) \<longleftrightarrow>
     cl_grants c = [] \<and> joins_clean (facade_step c (Join coord i can now clock)) xs"

text \<open>
  A run starts with a new cluster or with one rebuilt from a document that is accepted, whose grants fit its members and
  whose admissions are among its used invites.
\<close>

inductive facade_start :: "cluster \<Rightarrow> bool" where
  start_new: "cluster_new n now cid tok = Inr c \<Longrightarrow> facade_start c"
| start_stored: "cs_from_dict v = Inr cs \<Longrightarrow> \<forall>g \<in> set (cs_grants cs). grant_ok (cs_assignments cs) g
    \<Longrightarrow> iv_hash ` set (cs_admissions cs) \<subseteq> cs_used cs \<Longrightarrow> cl_from_state n cs now cid tok = Inr c \<Longrightarrow> facade_start c"

section \<open>What the role operations leave alone\<close>

text \<open>The state an operation publishes: well formed, bound members, the same authority, and the revoked members still revoked.\<close>

definition kept_roles :: "role_state \<Rightarrow> role_state \<Rightarrow> bool" where
  "kept_roles s s' \<longleftrightarrow> rs_inv s' \<and> (\<forall>a \<in> set (assignments s'). bound a) \<and> epoch s' = epoch s
     \<and> promotion_epochs s' = promotion_epochs s
     \<and> (\<forall>m a. seek m (assignments s) = Some a \<and> ra_revoked a \<longrightarrow> (\<exists>b. seek m (assignments s') = Some b \<and> ra_revoked b))"

definition bound_inv :: "role_state \<Rightarrow> bool" where
  "bound_inv s \<longleftrightarrow> rs_inv s \<and> (\<forall>a \<in> set (assignments s). bound a)"

lemma kept_set:
  assumes "bound_inv s" "rs_inv (s\<lparr>assignments := set_assignment a (assignments s)\<rparr>)"
    and "seek t (assignments s) = Some c" "ra_node_id a = Some t" "ra_revoked c \<longrightarrow> ra_revoked a"
  shows "kept_roles s (s\<lparr>assignments := set_assignment a (assignments s)\<rparr>)"
proof -
  have "\<forall>x \<in> set (set_assignment a (assignments s)). bound x"
    using assms(1,4) by (auto simp: bound_inv_def dest!: set_assignment_set)
  with assms show ?thesis by (auto simp: kept_roles_def seek_set [OF assms(4)])
qed

lemma kept_same_roles:
  assumes i: "bound_inv s" and "seek t (assignments s) = Some c" "ra_ok a" "ra_node_id a = Some t"
    and "ra_roles a = ra_roles c" "ra_revoked a = ra_revoked c" "role_replace s a = Inr s'"
  shows "kept_roles s s'"
proof -
  have r: "rs_inv s" using i by (simp add: bound_inv_def)
  from role_replace_same_roles [OF r assms(2,4,3,5,6)] assms(6,7) kept_set [OF i _ assms(2,4)] show ?thesis by auto
qed

lemma kept_grants: "bound_inv s \<Longrightarrow> rs_inv (s\<lparr>capability_grants := gs\<rparr>) \<Longrightarrow> kept_roles s (s\<lparr>capability_grants := gs\<rparr>)"
  by (auto simp: kept_roles_def bound_inv_def)

lemma kept_touch:
  assumes i: "bound_inv s" and "seek t (assignments s) = Some c" "rbind (ra_post_init a) (role_replace s) = Inr s'"
    and "ra_node_id a = ra_node_id c" "ra_roles a = ra_roles c" "ra_revoked a = ra_revoked c" "ra_ok c \<Longrightarrow> ra_ok a"
  shows "kept_roles s s'"
proof -
  have ok: "rs_ok s" using i by (simp add: bound_inv_def rs_inv_def)
  note c = seek_ra_ok [OF ok assms(2)]
  have a: "ra_ok a" "ra_node_id a = Some t" using assms(4,7) c by auto
  then have "role_replace s a = Inr s'" using assms(3) by simp
  from kept_same_roles [OF i assms(2) a assms(5,6) this] show ?thesis .
qed

lemma kept_pause:
  assumes i: "bound_inv s" and r: "role_pause s actor t = Inr s'"
  shows "kept_roles s s'"
proof -
  have ok: "rs_ok s" using i by (simp add: bound_inv_def rs_inv_def)
  from r obtain c where c: "seek t (assignments s) = Some c" "\<not> ra_revoked c" "rbind (ra_post_init (c\<lparr>ra_paused := True\<rparr>)) (role_replace s) = Inr s'"
    by (auto simp: role_pause_def ok_simps assignment_for_seek [OF ok] split: if_splits option.splits)
  show ?thesis by (rule kept_touch [OF i c(1,3)]) (use c(2) in simp_all)
qed

lemma kept_resume:
  assumes i: "bound_inv s" and r: "role_resume s actor t = Inr s'"
  shows "kept_roles s s'"
proof -
  have ok: "rs_ok s" using i by (simp add: bound_inv_def rs_inv_def)
  from r obtain c where c: "seek t (assignments s) = Some c" "\<not> ra_revoked c" "rbind (ra_post_init (c\<lparr>ra_paused := False\<rparr>)) (role_replace s) = Inr s'"
    by (auto simp: role_resume_def ok_simps assignment_for_seek [OF ok] split: if_splits option.splits)
  show ?thesis by (rule kept_touch [OF i c(1,3)]) (use c(2) in simp_all)
qed

lemma kept_job:
  assumes i: "bound_inv s" and r: "role_job s actor t b = Inr s'"
  shows "kept_roles s s'"
proof -
  have ok: "rs_ok s" using i by (simp add: bound_inv_def rs_inv_def)
  from r obtain c where c: "seek t (assignments s) = Some c" "rbind (ra_post_init (c\<lparr>ra_job := b\<rparr>)) (role_replace s) = Inr s'"
    by (auto simp: role_job_def ok_simps assignment_for_seek [OF ok] split: if_splits option.splits)
  show ?thesis by (rule kept_touch [OF i c]) simp_all
qed

lemma kept_revoke:
  assumes i: "bound_inv s" and r: "role_revoke s actor t = Inr s'"
  shows "kept_roles s s'"
proof -
  have ri: "rs_inv s" and ok: "rs_ok s" using i by (auto simp: bound_inv_def rs_inv_def)
  from r obtain n c where n: "role_control s actor = Inr n" "t \<noteq> n" and c: "seek t (assignments s) = Some c" "\<not> ra_revoked c"
    by (auto simp: role_revoke_def ok_simps assignment_for_seek [OF ok] split: if_splits option.splits)
  let ?a = "c\<lparr>ra_revoked := True, ra_paused := False, ra_job := False\<rparr>"
  have a: "ra_node_id ?a = Some t" using seek_ra_ok [OF ok c(1)] by simp
  note rr = role_revoke_Inr [OF ri n c]
  have b: "\<forall>x \<in> set (assignments s'). bound x" using role_revoke_bound [OF ri r] i by (simp add: bound_inv_def)
  have "assignments s' = set_assignment ?a (assignments s)" "rs_inv s'" "epoch s' = epoch s" "promotion_epochs s' = promotion_epochs s"
    using rr r by auto
  with b show ?thesis by (auto simp: kept_roles_def seek_set [OF a])
qed

lemma kept_assign:
  assumes i: "bound_inv s" and r: "role_assign s actor t roles now = Inr (s', ch)"
  shows "kept_roles s s'"
proof -
  have ri: "rs_inv s" and ok: "rs_ok s" using i by (auto simp: bound_inv_def rs_inv_def)
  from r obtain m where m: "role_control s actor = Inr m" by (auto simp: role_assign_def ok_simps)
  have al: "assign_allowed s m t roles" using role_assign_refused [OF ok m, of t roles now] r by auto
  with role_assign_eq [OF ok m al] r have s': "s' = assign_result s t roles" by (auto simp: ok_simps)
  have t: "\<not> ra_revoked a" if "seek t (assignments s) = Some a" for a
    using al that by (auto simp: assign_allowed_def assignment_for_seek [OF ok])
  have "seek k (assignments s') = (if k = t then Some (assigned s t roles) else seek k (assignments s))" for k
    by (simp add: s' assign_result_def seek_with_assigned [OF ok])
  moreover have "\<forall>x \<in> set (assignments s'). bound x" using role_assign_bound [OF ri r] i by (simp add: bound_inv_def)
  ultimately show ?thesis using role_assign_inv [OF ri r] role_assign_epoch [OF r] t by (auto simp: kept_roles_def)
qed

lemma kept_grant:
  assumes i: "bound_inv s" and r: "role_grant_capabilities s actor a b ps t0 t1 = Inr s'"
  shows "kept_roles s s'"
proof -
  have ri: "rs_inv s" using i by (simp add: bound_inv_def)
  obtain gs where "s' = s\<lparr>capability_grants := gs\<rparr>"
    using r by (auto simp: role_grant_capabilities_def ok_simps rs_post_init_iff split: if_splits)
  with kept_grants [OF i] role_grant_capabilities_inv [OF ri r] show ?thesis by simp
qed

lemma kept_ungrant:
  assumes i: "bound_inv s" and r: "role_revoke_capabilities s actor a b = Inr s'"
  shows "kept_roles s s'"
proof -
  have ri: "rs_inv s" using i by (simp add: bound_inv_def)
  have "rs_inv s'" using role_revoke_capabilities_safe [OF ri, of actor a b] r by simp
  moreover obtain gs where "s' = s\<lparr>capability_grants := gs\<rparr>"
    using r by (auto simp: role_revoke_capabilities_def ok_simps rs_post_init_iff)
  ultimately show ?thesis using kept_grants [OF i] by simp
qed

lemmas kept_ops = kept_assign kept_pause kept_resume kept_job kept_revoke kept_grant kept_ungrant

lemma kept_transition: "bound_inv s \<Longrightarrow> member_transition op1 s actor t = Inr s' \<Longrightarrow> kept_roles s s'"
  by (auto simp: member_transition_def role_remove_job_def split: if_splits intro: kept_ops)

section \<open>Member operations\<close>

lemma request_state_inv:
  assumes "cl_inv c"
  shows "bound_inv (request_state c)" "rs_post_init (request_state c) = Inr (request_state c)"
proof -
  show b: "bound_inv (request_state c)" using assms cl_rs_bound [OF assms]
    by (auto simp: bound_inv_def cl_inv_def rs_inv_def rs_ok_iff request_state_def cl_rs_def)
  then show "rs_post_init (request_state c) = Inr (request_state c)" by (simp add: bound_inv_def rs_inv_def rs_ok_def)
qed

lemma cl_request_ext:
  assumes i: "cl_inv c" and k: "\<And>s actor s'. bound_inv s \<Longrightarrow> f s actor = Inr s' \<Longrightarrow> kept_roles s s'"
  shows "cl_ext c (cl_request c caller f)"
proof (cases "\<exists>actor s. map_of (cl_assignments c) caller = Some actor \<and> f (request_state c) actor = Inr s")
  case True
  then obtain actor t where t: "map_of (cl_assignments c) caller = Some actor" "f (request_state c) actor = Inr t" by blast
  note q = request_state_inv [OF i]
  define s where "s = t\<lparr>promotion_epochs := cl_promotions c\<rparr>"
  have ok: "rs_ok (cl_rs c)" using i by (simp add: cl_inv_def rs_inv_def)
  note kt = k [OF q(1) t(2)]
  have s': "rs_inv s" "\<forall>a \<in> set (assignments s). bound a" "epoch s = Some (cl_epoch c)" "promotion_epochs s = cl_promotions c"
    using kt ok by (auto simp: kept_roles_def s_def rs_inv_def rs_ok_iff) (simp_all add: request_state_def cl_rs_def)
  have rev: "\<exists>b. seek m (assignments s) = Some b \<and> ra_revoked b" if "seek m (assignments (cl_rs c)) = Some a" "ra_revoked a" for m a
    using kt that by (simp add: kept_roles_def s_def request_state_def cl_rs_def)
  have ok': "rs_ok s" using s'(1) by (simp add: rs_inv_def)
  let ?d = "cl_apply_role_state c s"
  have "fst ` set (cl_admissions c) \<subseteq> cl_used c" using i by (simp add: cl_inv_def)
  note ap = cl_apply(1) [OF s'] cl_apply(2) [OF s' this]
  have e: "cl_request c caller f = ?d" using t q(2) by (simp add: cl_request_def cl_apply_role_state_def s_def)
  have "mark_revoked ?d m" if "mark_revoked c m" for m
    using that rev [of m] cl_assignment_for [OF i, of m] cl_assignment_for [OF ap(2), of m] ap(1)
    by (auto simp: mark_revoked_def assignment_for_seek [OF ok] assignment_for_seek [OF ok'])
  with ap(2) show ?thesis unfolding e by (auto simp: cl_ext_def) (auto simp: cl_apply_role_state_def)
next
  case False
  then have "cl_request c caller f = c"
    by (auto simp: cl_request_def request_state_inv [OF i] split: option.splits sum.splits)
  with i show ?thesis by simp
qed

lemma cl_renew_ext: "cl_inv c \<Longrightarrow> cl_ext c (cl_renew c caller tok now)"
  by (auto simp: cl_renew_def cl_ext_def cl_inv_def cl_rs_def rs_inv_def rs_ok_iff mark_revoked_def split: sum.splits)

lemma member_step_ext: "cl_inv c \<Longrightarrow> cl_ext c (member_step c x)"
  by (cases x)
    (auto simp: ok_simps intro!: cl_step_ext cl_renew_ext cl_request_ext intro: kept_ops kept_transition)

interpretation member_runs: transition_system member_step "\<lambda>c. cl_inv c \<and> mark_revoked c n" for n
  using member_step_ext by unfold_locales (auto simp: cl_ext_def)

section \<open>Joining and starting\<close>

lemma join_inv:
  assumes i: "cl_inv c" and g: "cl_grants c = []"
  shows "cl_inv (fst (fst (cl_join c coord i can now clock)))"
proof (cases "snd (cl_join c coord i can now clock)")
  case (Inl x)
  then have "fst (fst (cl_join c coord i can now clock)) = c"
    by (auto simp: cl_join_def split: if_splits prod.splits sum.splits)
  with i show ?thesis by simp
next
  case (Inr u)
  let ?t = "cl_local c"
  obtain d y where y: "cl_consume_invite coord (iv_token i) ?t now clock True = (d, y)" by fastforce
  from Inr y have d: "fst (fst (cl_join c coord i can now clock)) = c\<lparr>cl_id := cl_id d, cl_epoch := cl_epoch d,
          cl_assignments := dict_of [(?t, worker_assignment ?t), (cl_local d, promoted (cl_local d))],
          cl_online := dict_set (cl_local d) True (cl_online c)\<rparr>"
    by (cases y) (auto simp: cl_join_def split: if_splits)
  have tab: "dict_of [(?t, worker_assignment ?t), (cl_local d, promoted (cl_local d))] =
      (if cl_local d = ?t then [(?t, promoted ?t)] else [(?t, worker_assignment ?t), (cl_local d, promoted (cl_local d))])"
    by (simp add: dict_of_def)
  show ?thesis unfolding d tab using i g
    by (simp add: cl_inv_def table_ok_def rs_inv_def rs_ok_iff cl_rs_def ids_distinct_def one_active_def grant_keys_def
        active_with_def ra_ok_def worker_assignment_def)
qed

lemma seek_bound: "seek n (filter bound as) = seek n as"
  by (induction as) auto

lemma dict_of_keys: "fst ` set (dict_of kvs) = fst ` set kvs"
proof -
  have "k \<in> fst ` set (dict_of kvs) \<longleftrightarrow> k \<in> fst ` set kvs" for k
    using map_of_dict_of [of kvs k] map_of_eq_None_iff [of "dict_of kvs" k] map_of_eq_None_iff [of "rev kvs" k] by simp
  then show ?thesis by blast
qed

lemma from_state_inv:
  assumes v: "cs_from_dict v = Inr cs" and g: "\<forall>g \<in> set (cs_grants cs). grant_ok (cs_assignments cs) g"
    and u: "iv_hash ` set (cs_admissions cs) \<subseteq> cs_used cs" and c: "cl_from_state n cs now cid tok = Inr c"
  shows "cl_inv c"
proof -
  let ?as = "filter bound (cs_assignments cs)"
  have ok: "rs_ok (cs_rs cs)" using cs_from_dict_ok [OF v] by blast
  from c obtain e r where e: "cs_epoch cs = Some e" "cluster_new n now cid tok = Inr r"
    and r: "c = (cl_restore_invites (r\<lparr>cl_id := cs_cluster_id cs, cl_epoch := e,
                  cl_assignments := assignment_index (cs_assignments cs), cl_used := cs_used cs,
                  cl_promotions := cs_promotions cs, cl_grants := cs_grants cs\<rparr>) (cs_invites cs))
               \<lparr>cl_admissions := dict_of (map (\<lambda>i. (iv_hash i, i)) (cs_admissions cs))\<rparr>"
    by (auto simp: cl_from_state_def ok_simps split: if_splits option.splits)
  have d: "ids_distinct (cs_assignments cs)" using ok by (simp add: rs_ok_iff cs_rs_def)
  have ix: "map snd (assignment_index (cs_assignments cs)) = ?as"
    using d by (simp add: assignment_index_def dict_of_distinct ids_distinct_pairs snd_bound_pairs)
  have rs: "cl_rs c = \<lparr>assignments = ?as, epoch = Some e, promotion_epochs = cs_promotions cs, capability_grants = cs_grants cs\<rparr>"
    by (simp add: r cl_rs_def cl_restore_invites_def ix)
  have "rs_inv (cl_rs c)"
    using ok g unfolding rs rs_inv_def rs_ok_iff cs_rs_def grant_ok_def role_state.select_convs seek_bound
    by (auto simp: ids_distinct_def one_active_def)
  moreover have "table_ok (cl_assignments c)" using table_ok_index [OF d] by (simp add: r cl_restore_invites_def)
  moreover have "fst ` set (cl_admissions c) \<subseteq> cl_used c"
    using u dict_of_keys [of "map (\<lambda>i. (iv_hash i, i)) (cs_admissions cs)"] by (auto simp: r cl_restore_invites_def)
  ultimately show ?thesis by (simp add: cl_inv_def)
qed

lemma facade_start_inv: "facade_start c \<Longrightarrow> cl_inv c"
  by (induction rule: facade_start.induct) (auto intro: cluster_new_inv from_state_inv)


section \<open>The dispatcher takes member steps\<close>

text \<open>While the runtime's grants are the facade's, a role request leaves the facade as it was or takes one of the steps above.\<close>

definition stepped :: "cluster \<Rightarrow> runtime \<Rightarrow> bool" where
  "stepped c r \<longleftrightarrow> (\<exists>d. rt_cluster r = Some d \<and> rt_grants r = cl_grants d \<and> (d = c \<or> (\<exists>y. d = member_step c y)))"

lemma stepped_here [simp]: "rt_cluster r = Some c \<Longrightarrow> rt_grants r = cl_grants c \<Longrightarrow> stepped c r"
  by (auto simp: stepped_def)

lemma stepped_tail [simp]:
  "stepped c (fst (update_fence r)) = stepped c r" "stepped c (fst (hydrate_registry_membership r)) = stepped c r"
  "stepped c (fst (refresh_live_grants r)) = stepped c r"
  by (simp_all add: stepped_def)

lemma stepped_saved:
  assumes "stepped c r" "\<And>q. rt_grants q = rt_grants r \<Longrightarrow> stepped c (undo q)"
  shows "stepped c (fst (saved_or st r undo cls msg))"
proof -
  obtain r1 y where s: "save_persisted_state st r = (r1, y)" by fastforce
  have "stepped c r1" using assms(1) save_keeps(5,6) [OF s] by (simp add: stepped_def)
  moreover have "stepped c (undo r1)" by (rule assms(2) [OF save_keeps(6) [OF s]])
  ultimately show ?thesis using s by (auto simp: saved_or_def split: sum.split bool.split)
qed

lemma stepped_read: "stepped c r \<Longrightarrow> (\<And>y. m = Inr y \<Longrightarrow> stepped c (fst (f r y))) \<Longrightarrow> stepped c (fst (sbind (r, m) f))"
  by (cases m) simp_all

lemma stepped_sbind: "stepped c (fst m) \<Longrightarrow> (\<And>q y. stepped c q \<Longrightarrow> stepped c (fst (f q y))) \<Longrightarrow> stepped c (fst (sbind m f))"
  by (rule fst_sbind_inv)

lemma table_index:
  assumes "cl_inv c" "map snd (cl_assignments c) = as"
  shows "assignment_index as = cl_assignments c"
  using assms by (auto simp: cl_inv_def assignment_index_def table_bound_pairs table_ok_def dict_of_distinct)

lemma stepped_tails:
  "stepped c q \<Longrightarrow> stepped c (fst (sbind (hydrate_registry_membership q) (\<lambda>r _. sbind (refresh_live_grants r) (\<lambda>r _. (r, Inr v)))))"
  "stepped c q \<Longrightarrow> stepped c (fst (sbind (refresh_live_grants q) (\<lambda>r _. (r, Inr v))))"
  "stepped c q \<Longrightarrow> stepped c (fst (sbind (update_fence q) (\<lambda>r _. (r, Inr v))))"
  "stepped c q \<Longrightarrow> stepped c (fst (sbind (if b then refresh_live_grants q else (q, Inr ())) (\<lambda>r _. (r, Inr v))))"
  by (intro stepped_sbind; simp)+

lemma stepped_commit:
  assumes "stepped c r" "\<And>q. rt_grants q = rt_grants r \<Longrightarrow> stepped c (undo q)" "\<And>q. stepped c q \<Longrightarrow> stepped c (fst (f q ()))"
  shows "stepped c (fst (sbind (saved_or st r undo cls msg) f))"
proof (rule stepped_sbind)
  show "stepped c (fst (saved_or st r undo cls msg))" by (rule stepped_saved [OF assms(1,2)])
  show "stepped c (fst (f q y))" if "stepped c q" for q y using assms(3) [OF that] by (cases y) simp
qed

lemma stepped_publish:
  assumes "rt_cluster r = Some c" "rt_grants r = cl_grants c" "\<exists>y. cl_apply_role_state c s = member_step c y"
    and "\<And>q. stepped c q \<Longrightarrow> stepped c (fst (f q ()))"
  shows "stepped c (fst (sbind (publish_roles st r c s msg) f))"
proof -
  obtain y where y: "cl_apply_role_state c s = member_step c y" using assms(3) ..
  have g: "capability_grants s = cl_grants (member_step c y)" by (simp add: cl_apply_role_state_def flip: y)
  show ?thesis unfolding publish_roles_def
  proof (rule stepped_commit)
    show "stepped c ((set_cluster (c\<lparr>cl_assignments := assignment_index (assignments s), cl_grants := capability_grants s\<rparr>) r)
        \<lparr>rt_grants := capability_grants s\<rparr>)"
      unfolding stepped_def cl_apply_role_state_def [symmetric] y using g
      by (intro exI [of _ "member_step c y"]) (auto simp: set_cluster_def)
  qed (use assms in \<open>auto simp: set_cluster_def\<close>)
qed

lemma request_step:
  assumes "cl_inv c" "map_of (cl_assignments c) caller = Some actor" "f (request_state c) actor = Inr s"
  shows "cl_apply_role_state c s = cl_request c caller f"
  using assms(2,3) request_state_inv(2) [OF assms(1)] by (simp add: cl_request_def)

lemma stepped_assign:
  assumes "rt_cluster r = Some c" "rt_grants r = cl_grants c" "cl_inv c" "map_of (cl_assignments c) caller = Some actor"
  shows "stepped c (fst (dispatch_assign st r c (request_state c) actor caller params now))"
proof -
  have e: "\<exists>y. cl_apply_role_state c (fst x) = member_step c y"
    if x: "rbind (mk_role w) (\<lambda>role. role_assign (request_state c) actor t {role} (PFloat (Fin now))) = Inr x" for x t w
  proof -
    obtain role where "role_assign (request_state c) actor t {role} (PFloat (Fin now)) = Inr x" using x by (auto simp: ok_simps)
    then show ?thesis
      using request_step [OF assms(3,4), of "\<lambda>s actor. rbind (role_assign s actor t {role} (PFloat (Fin now))) (\<lambda>x. Inr (fst x))"]
      by (intro exI [of _ "ReqAssign caller t role now"]) simp
  qed
  show ?thesis unfolding dispatch_assign_def
    by (intro stepped_read) (auto simp: assms(1,2) simp del: rbind.simps intro!: stepped_read stepped_publish [OF assms(1,2) e] stepped_tails)
qed

lemma stepped_member:
  assumes "rt_cluster r = Some c" "rt_grants r = cl_grants c" "cl_inv c" "map_of (cl_assignments c) caller = Some actor"
  shows "stepped c (fst (dispatch_member st r c (request_state c) actor op1 params))"
proof -
  have e: "\<exists>y. cl_apply_role_state c s = member_step c y" if "member_transition op1 (request_state c) actor t = Inr s" for s t
    using request_step [OF assms(3,4), of "\<lambda>s actor. member_transition op1 s actor t"] that
    by (intro exI [of _ "ReqMember caller op1 t"]) simp
  show ?thesis unfolding dispatch_member_def
    by (intro stepped_read stepped_publish [OF assms(1,2) e] stepped_tails) (simp_all add: assms(1,2))
qed

lemma grants_only:
  "role_grant_capabilities s actor a b ps t0 t1 = Inr s' \<Longrightarrow> assignments s' = assignments s"
  "role_revoke_capabilities s actor a b = Inr s' \<Longrightarrow> assignments s' = assignments s"
  by (auto simp: role_grant_capabilities_def role_revoke_capabilities_def ok_simps rs_post_init_iff split: if_splits)

lemma stepped_capabilities:
  assumes "rt_cluster r = Some c" "rt_grants r = cl_grants c" "cl_inv c" "map_of (cl_assignments c) caller = Some actor"
  shows "stepped c (fst (dispatch_capabilities st r c (request_state c) actor caller op1 params now))"
proof -
  have p: "stepped c (fst (sbind (saved_or st ((set_cluster (c\<lparr>cl_grants := capability_grants s\<rparr>) r)\<lparr>rt_grants := capability_grants s\<rparr>)
      (\<lambda>q. (set_cluster c q)\<lparr>rt_grants := rt_grants r\<rparr>) cls msg) (\<lambda>r _. sbind (refresh_live_grants r) (\<lambda>r _. (r, Inr v)))))"
    if "assignments s = assignments (request_state c)" "cl_apply_role_state c s = member_step c y" for s y cls msg v
  proof -
    have "assignment_index (assignments s) = cl_assignments c"
      by (rule table_index [OF assms(3)]) (simp add: that request_state_def)
    then have "c\<lparr>cl_grants := capability_grants s\<rparr> = member_step c y" by (simp add: cl_apply_role_state_def flip: that(2))
    moreover have "capability_grants s = cl_grants (member_step c y)" by (simp add: cl_apply_role_state_def flip: that(2))
    ultimately have "stepped c ((set_cluster (c\<lparr>cl_grants := capability_grants s\<rparr>) r)\<lparr>rt_grants := capability_grants s\<rparr>)"
      unfolding stepped_def by (intro exI [of _ "member_step c y"]) (auto simp: set_cluster_def)
    then show ?thesis using assms(1,2) by (intro stepped_commit stepped_tails) (simp_all add: set_cluster_def)
  qed
  have g: "cl_apply_role_state c s = member_step c (ReqGrant caller a b ps now x)"
    if "role_grant_capabilities (request_state c) actor a b ps (Fin now) x = Inr s" for s a b ps x
    using request_step [OF assms(3,4), of "\<lambda>s actor. role_grant_capabilities s actor a b ps (Fin now) x"] that by simp
  have u: "cl_apply_role_state c s = member_step c (ReqUngrant caller a b)"
    if "role_revoke_capabilities (request_state c) actor a b = Inr s" for s a b
    using request_step [OF assms(3,4), of "\<lambda>s actor. role_revoke_capabilities s actor a b"] that by simp
  show ?thesis unfolding dispatch_capabilities_def
    by (auto simp: assms(1,2) ok_simps intro!: stepped_read split: if_splits
        intro: p [unfolded assms(2), OF grants_only(1) g] p [unfolded assms(2), OF grants_only(2) u])
qed

lemma stepped_renew:
  assumes "rt_cluster r = Some c" "rt_grants r = cl_grants c"
  shows "stepped c (fst (dispatch_renew st r c caller params now))"
proof -
  have e: "stepped c ((set_cluster (c\<lparr>cl_epoch := e\<rparr>) r))"
    if "renew_lease (cl_epoch c) caller tok (PFloat (Fin now)) (PFloat (Fin HEARTBEAT_TIMEOUT_SECONDS)) = Inr e" for e tok
  proof -
    show ?thesis unfolding stepped_def using that assms(2)
      by (intro exI [of _ "c\<lparr>cl_epoch := e\<rparr>"] conjI disjI2 exI [of _ "ReqRenew caller tok now"]) (simp_all add: cl_renew_def)
  qed
  show ?thesis unfolding dispatch_renew_def Let_def
    by (auto simp: assms ok_simps intro!: stepped_read stepped_commit stepped_tails e)
qed

lemma dispatched_step:
  assumes "dispatch_role_request st r q now clock = (r', x)" "rt_cluster r = Some c" "rt_grants r = cl_grants c" "cl_inv c"
    and "rq_op q \<noteq> ''consume_invite''"
  shows "stepped c r'"
proof -
  have s: "rs_post_init \<lparr>assignments = map snd (cl_assignments c), epoch = Some (cl_epoch c), promotion_epochs = {},
      capability_grants = rt_grants r\<rparr> = Inr (request_state c)"
    using request_state_inv(2) [OF assms(4)] by (simp add: assms(3) request_state_def)
  have rm: "stepped c (fst (dispatch_remove_connection r c caller params now))" for caller params
    using assms(2,3) by (simp add: remove_connection_roles)
  have "stepped c (fst (dispatch_role_request st r q now clock))"
    unfolding dispatch_role_request_def require_cluster_def assms(2) option.case s
    using assms(2-5) s [unfolded assms(3)]
    by (auto intro!: stepped_read rm stepped_assign stepped_member stepped_capabilities stepped_renew split: option.split)
  then show ?thesis by (simp add: assms(1))
qed

section \<open>Properties\<close>


definition demo_step1 :: cluster where
  "demo_step1 = demo_cluster\<lparr>cl_assignments := [(NodeId ''a'', promoted (NodeId ''a'')),
     (NodeId ''s'', (worker_assignment (NodeId ''s''))\<lparr>ra_roles := {SUBCOORDINATOR}\<rparr>)],
     cl_online := [(NodeId ''a'', True), (NodeId ''s'', True)]\<rparr>"

definition demo_step2 :: cluster where
  "demo_step2 = demo_cluster\<lparr>cl_assignments := [(NodeId ''a'', promoted (NodeId ''a'')),
     (NodeId ''s'', (worker_assignment (NodeId ''s''))\<lparr>ra_roles := {SUBCOORDINATOR}\<rparr>),
     (NodeId ''w'', worker_assignment (NodeId ''w''))],
     cl_online := [(NodeId ''a'', True), (NodeId ''s'', True), (NodeId ''w'', True)]\<rparr>"

lemmas run_eval = cl_assign_def cl_is_active_coordinator_def cl_role_state_def cl_local_assignment_def cl_apply_role_state_def
  cl_set_default_online_def cl_request_def request_state_def role_eval rs_post_init_def mk_assignment_def ra_post_init_def
  mk_role_change_def prune_capability_grants_def worker_assignment_def demo_cluster_def active_with_def grant_keys_def

lemma demo_steps:
  "member_step demo_cluster (Local (AssignMember (NodeId ''s'') SUBCOORDINATOR 1)) = demo_step1"
  "member_step demo_step1 (Local (AssignMember (NodeId ''w'') WORKER 1)) = demo_step2"
  "member_step demo_step2 (ReqGrant (NodeId ''a'') (NodeId ''s'') (NodeId ''w'') {READ_STATE} 1 (Fin 9))
     = demo_step2\<lparr>cl_grants := [\<lparr>cg_subject = NodeId ''s'', cg_target = NodeId ''w'', cg_permissions = {READ_STATE}, cg_issued = 1,
         cg_expires = 9\<rparr>]\<rparr>"
proof -
  show "member_step demo_cluster (Local (AssignMember (NodeId ''s'') SUBCOORDINATOR 1)) = demo_step1"
    by (simp add: run_eval demo_step1_def) blast
  show "member_step demo_step1 (Local (AssignMember (NodeId ''w'') WORKER 1)) = demo_step2"
    by (simp add: run_eval demo_step1_def demo_step2_def) auto
qed (simp add: run_eval demo_step2_def role_grant_capabilities_def mk_grant_def)


lemma join_keeps_grants:
  assumes "cl_join self coord i can now clock = ((self', coord'), Inr ())" "cl_grants self \<noteq> []"
  shows "cl_grants self' = cl_grants self \<and> \<not> cl_inv self'"
proof -
  obtain d y where y: "cl_consume_invite coord (iv_token i) (cl_local self) now clock True = (d, y)" by fastforce
  from assms(1) y have s: "self' = self\<lparr>cl_id := cl_id d, cl_epoch := cl_epoch d,
          cl_assignments := dict_of [(cl_local self, worker_assignment (cl_local self)), (cl_local d, promoted (cl_local d))],
          cl_online := dict_set (cl_local d) True (cl_online self)\<rparr>"
    by (cases y) (auto simp: cl_join_def split: if_splits)
  obtain g where g: "g \<in> set (cl_grants self)" using assms(2) by (cases "cl_grants self") auto
  have "\<not> grant_ok (map snd (cl_assignments self')) g"
    by (auto simp: s dict_of_def grant_ok_def active_with_def worker_assignment_def split: if_splits)
  with g show ?thesis by (auto simp: s cl_inv_def rs_inv_def cl_rs_def)
qed

text \<open>
  C25. A revocation lasts: once a member is revoked, no invites, assignments, admissions and role requests of members make
  it a member again, and an invite addressed to it is refused; until the local node itself joins another cluster, whose
  members replace its own.
\<close>

theorem revocation_permanent:
  assumes "cl_inv c" "mark_revoked c n"
  shows "\<not> cl_is_member (foldl member_step c ops) n
    \<and> (map_of (cl_admissions (foldl member_step c ops)) (hash_invite token) = None \<longrightarrow>
        (\<exists>x. snd (cl_consume_invite (foldl member_step c ops) token n now clock retry) = Inl x))"
proof -
  let ?c = "foldl member_step c ops"
  have r: "cl_inv ?c" "mark_revoked ?c n" using member_runs.run_inv [of c n ops] assms by auto
  have "\<exists>x. snd (cl_consume_invite ?c token n now clock retry) = Inl x"
    if a: "map_of (cl_admissions ?c) (hash_invite token) = None"
  proof (cases "\<exists>i. invite_good ?c token n now i")
    case False
    then show ?thesis using cl_consume_bad [OF False, of clock retry] a by auto
  next
    case True
    then obtain i where g: "invite_good ?c token n now i" ..
    have act: "cl_is_active_coordinator (cl_burn ?c token)" using g by (simp add: invite_good_def)
    have mr: "mark_revoked (cl_burn ?c token) n" using r(2) by (simp add: mark_revoked_def)
    show ?thesis using cl_assign_worker [OF _ act, of n clock] r(1) mr unfolding cl_consume_good [OF g] by auto
  qed
  with r(2) show ?thesis by (auto simp: cl_is_member_def mark_revoked_def)
qed

definition demo_revoked :: cluster where
  "demo_revoked = demo_cluster\<lparr>cl_assignments := [(NodeId ''a'', promoted (NodeId ''a'')),
     (NodeId ''b'', (worker_assignment (NodeId ''b''))\<lparr>ra_revoked := True\<rparr>)]\<rparr>"

lemma demo_revoked_inv: "cl_inv demo_revoked"
  by (simp add: demo_revoked_def demo_cluster_def cl_inv_def table_ok_def rs_inv_def rs_ok_iff cl_rs_def ids_distinct_def
      one_active_def grant_keys_def active_with_def ra_ok_def worker_assignment_def)

theorem revocation_permanent_witness:
  "\<not> cl_is_member (foldl member_step demo_revoked [Local (CreateInvite (NodeId ''b'') 0 ''x''),
       Local (ConsumeInvite ''x'' (NodeId ''b'') 1 1 False), ReqAssign (NodeId ''a'') (NodeId ''b'') WORKER 2,
       ReqMember (NodeId ''a'') ''resume_worker'' (NodeId ''b'')]) (NodeId ''b'')"
proof -
  have "mark_revoked demo_revoked (NodeId ''b'')" by (simp add: mark_revoked_def demo_revoked_def)
  from revocation_permanent [OF demo_revoked_inv this] show ?thesis by blast
qed

end
