(* ===== verification/SocketTransport.thy ===== *)
theory SocketTransport
  imports Wire
begin

text \<open>
  \<open>transport/socket_transport.py\<close>: length-prefixed frames, the receiving loop, one request over a pinned connection and
  its retry.

  A connection is the sequence of bytes the peer sends before it closes. How these bytes arrive is a list of \<open>tick\<close>s, one
  for each turn of the receiving loop; a loop that has used up its ticks is still waiting (\<open>None\<close>). The readings of the
  cancel event and of the deadline, and what the operating system and TLS answer, are arguments. A reply is its bytes; their
  decoding as UTF-8 is not modelled.
\<close>

section \<open>Frames\<close>

datatype tick =
    Cancelled          \<comment> \<open>the cancel event is set\<close>
  | TooLate            \<comment> \<open>the deadline has passed\<close>
  | Quiet              \<comment> \<open>\<open>recv\<close> timed out\<close>
  | Broken exn         \<comment> \<open>\<open>recv\<close> raised\<close>
  | Ready nat          \<comment> \<open>\<open>recv\<close> returns this many bytes, one at least, unless fewer are asked for or left\<close>

fun recv_loop :: "bool \<Rightarrow> string \<Rightarrow> tick list \<Rightarrow> bytes \<Rightarrow> nat \<Rightarrow> bytes \<Rightarrow> (tick list \<times> bytes \<times> bytes res) option" where
  "recv_loop cancellable eof ts bs 0 acc = Some (ts, bs, Inr acc)"
| "recv_loop cancellable eof [] bs (Suc n) acc = None"
| "recv_loop cancellable eof (t # ts) bs (Suc n) acc =
     (case t of
        Cancelled \<Rightarrow> Some (ts, bs, raise RemoteExecutionError ''cancelled'')
      | TooLate \<Rightarrow> Some (ts, bs, raise TimeoutError ''operation timed out'')
      | Broken e \<Rightarrow> Some (ts, bs, Inl e)
      | Quiet \<Rightarrow>
          if cancellable then recv_loop cancellable eof ts bs (Suc n) acc else Some (ts, bs, raise TimeoutError ''timed out'')
      | Ready k \<Rightarrow>
          let chunk = take (min (Suc n) (max 1 k)) bs in
          if chunk = [] then Some (ts, bs, raise RemoteTransportError eof)
          else recv_loop cancellable eof ts (drop (length chunk) bs) (Suc n - length chunk) (acc @ chunk))"

definition recv_exact :: "bool \<Rightarrow> string \<Rightarrow> tick list \<Rightarrow> bytes \<Rightarrow> int \<Rightarrow> (tick list \<times> bytes \<times> bytes res) option" where
  "recv_exact cancellable eof ts bs n =
     (if n < 0 then Some (ts, bs, raise ValueError ''length must not be negative'')
      else recv_loop cancellable eof ts bs (nat n) [])"

text \<open>\<open>struct.pack(">I", n)\<close> and \<open>struct.unpack(">I", header)\<close>.\<close>

definition be32 :: "nat \<Rightarrow> bytes" where
  "be32 n = map (\<lambda>i. of_nat (n div 256 ^ i)) [3, 2, 1, 0]"

definition pack_length :: "nat \<Rightarrow> bytes res" where
  "pack_length n = (if n < 2 ^ 32 then Inr (be32 n) else raise StructError ''argument out of range'')"

definition unpack_length :: "bytes \<Rightarrow> nat" where
  "unpack_length h = foldl (\<lambda>a b. a * 256 + unat b) 0 h"

definition validate_max_bytes :: "pyval \<Rightarrow> unit res" where
  "validate_max_bytes v =
     (if \<not> is_int v then raise TypeError ''max_bytes must be an integer''
      else if int_of v < 0 then raise ValueError ''max_bytes must not be negative'' else Inr ())"

definition recv_frame :: "bool \<Rightarrow> string \<Rightarrow> pyval \<Rightarrow> tick list \<Rightarrow> bytes \<Rightarrow> (tick list \<times> bytes \<times> bytes res) option" where
  "recv_frame cancellable eof max_bytes ts bs =
     (case validate_max_bytes max_bytes of
        Inl e \<Rightarrow> Some (ts, bs, Inl e)
      | Inr _ \<Rightarrow>
          (case recv_exact cancellable eof ts bs 4 of
             None \<Rightarrow> None
           | Some (ts, bs, Inl e) \<Rightarrow> Some (ts, bs, Inl e)
           | Some (ts, bs, Inr header) \<Rightarrow>
               let n = unpack_length header in
               if n = 0 then Some (ts, bs, raise RemoteProtocolError ''empty frame is not a valid envelope'')
               else if int n > int_of max_bytes then Some (ts, bs, raise RemoteTransportError ''envelope is too large'')
               else recv_exact cancellable eof ts bs (int n)))"

text \<open>The bytes that are sent.\<close>

definition send_frame :: "bytes \<Rightarrow> pyval \<Rightarrow> bytes res" where
  "send_frame payload max_bytes =
     rbind (validate_max_bytes max_bytes) (\<lambda>_.
       if payload = [] then raise RemoteProtocolError ''empty frame is not a valid envelope''
       else if int (length payload) > int_of max_bytes then raise RemoteTransportError ''envelope is too large''
       else rbind (pack_length (length payload)) (\<lambda>h. Inr (h @ payload)))"

section \<open>One request\<close>

definition validate_endpoint :: "pyval \<Rightarrow> pyval \<Rightarrow> pyval \<Rightarrow> unit res" where
  "validate_endpoint host port timeout =
     (if \<not> is_str host then raise TypeError ''host must be text''
      else if blank (str_of host) then raise ValueError ''host must not be empty''
      else if \<not> is_int port then raise TypeError ''port must be an integer''
      else if \<not> (1 \<le> int_of port \<and> int_of port \<le> 65535) then raise ValueError ''port must be between 1 and 65535''
      else if \<not> is_number timeout then raise TypeError ''timeout must be a real number''
      else case num_value timeout of
        None \<Rightarrow> raise ValueError ''timeout must be finite and positive''
      | Some x \<Rightarrow> ensure (0 < x) ValueError ''timeout must be finite and positive'')"

definition validate_fingerprint :: "pyval \<Rightarrow> unit res" where
  "validate_fingerprint v =
     (if v = PNone then Inr ()
      else if \<not> is_str v then raise TypeError ''expected_fingerprint must be text''
      else ensure (\<not> blank (str_of v)) ValueError ''expected_fingerprint must not be empty'')"

text \<open>A TLS context is known by whether it verifies certificates by itself (\<open>verify_mode\<close> other than \<open>CERT_NONE\<close>).\<close>

record socket_transport =
  sx_host :: string
  sx_port :: int
  sx_tls :: "bool option"
  sx_expected :: "string option"

definition socket_transport_new :: "pyval \<Rightarrow> pyval \<Rightarrow> pyval \<Rightarrow> bool option \<Rightarrow> pyval \<Rightarrow> socket_transport res" where
  "socket_transport_new host port timeout context fingerprint =
     rbind (validate_endpoint host port timeout) (\<lambda>_. rbind (validate_fingerprint fingerprint) (\<lambda>_.
       if fingerprint \<noteq> PNone \<and> context = None then raise ValueError ''certificate fingerprint requires TLS''
       else if context = Some False \<and> fingerprint = PNone then raise ValueError ''CERT_NONE TLS requires a certificate fingerprint''
       else Inr \<lparr>sx_host = str_of host, sx_port = int_of port, sx_tls = context, sx_expected = opt_str fingerprint\<rparr>))"

definition tls_transport_new :: "pyval \<Rightarrow> pyval \<Rightarrow> pyval \<Rightarrow> pyval \<Rightarrow> socket_transport res" where
  "tls_transport_new host port fingerprint timeout = socket_transport_new host port timeout (Some False) fingerprint"

definition build_trusted_transport :: "pyval \<Rightarrow> pyval \<Rightarrow> pyval \<Rightarrow> socket_transport res" where
  "build_trusted_transport host port fingerprint =
     (if \<not> is_str host \<or> blank (str_of host) then raise RemoteAuthError ''trusted peer has no complete endpoint''
      else if \<not> is_int port \<or> \<not> (1 \<le> int_of port \<and> int_of port \<le> 65535) then raise RemoteAuthError ''trusted peer has an invalid endpoint''
      else if \<not> is_str fingerprint \<or> blank (str_of fingerprint) then raise RemoteAuthError ''trusted peer has no pinned TLS fingerprint''
      else tls_transport_new host port fingerprint (PFloat (Fin 10)))"

definition certificate_fingerprint :: "bytes \<Rightarrow> string" where
  "certificate_fingerprint der =
     (let digest = hexdigest (sha256 der)
      in concat (map (\<lambda>i. (if i = 0 then [] else '':'') @ take 4 (drop (4 * i) digest)) [0..<16]))"

text \<open>
  What a request meets: the cancel event at its checks, the deadline at its readings, the answers of connecting, of the
  TLS handshake and of sending, the certificate, the bytes of the reply as they arrive, and whether the event is set when
  an exception is handled.
\<close>

record exchange_io =
  xi_cancellable :: bool
  xi_cancel :: "nat \<Rightarrow> bool"
  xi_late :: "nat \<Rightarrow> bool"
  xi_connect :: "unit res"
  xi_wrap :: "unit res"
  xi_certificate :: "bytes option"
  xi_send :: "bytes \<Rightarrow> unit res"
  xi_ticks :: "tick list"
  xi_reply :: bytes
  xi_cancelled :: bool

definition not_cancelled :: "exchange_io \<Rightarrow> nat \<Rightarrow> unit res" where
  "not_cancelled io i = ensure (\<not> xi_cancel io i) RemoteExecutionError ''cancelled''"

definition in_time :: "exchange_io \<Rightarrow> nat \<Rightarrow> unit res" where
  "in_time io i = ensure (\<not> xi_late io i) TimeoutError ''operation timed out''"

definition check_certificate :: "socket_transport \<Rightarrow> exchange_io \<Rightarrow> unit res" where
  "check_certificate t io =
     (case xi_certificate io of
        None \<Rightarrow> raise RemoteAuthError ''peer certificate is missing''
      | Some der \<Rightarrow>
          (case sx_expected t of
             None \<Rightarrow> Inr ()
           | Some fp \<Rightarrow> rbind (compare_digest (certificate_fingerprint der) fp) (\<lambda>same.
               ensure same RemoteAuthError ''peer certificate fingerprint changed'')))"

definition open_connection :: "socket_transport \<Rightarrow> exchange_io \<Rightarrow> unit res" where
  "open_connection t io =
     rbind (not_cancelled io 0) (\<lambda>_. rbind (in_time io 0) (\<lambda>_. rbind (xi_connect io) (\<lambda>_.
     rbind (not_cancelled io 1) (\<lambda>_. rbind (in_time io 1) (\<lambda>_.
     rbind (case sx_tls t of
         None \<Rightarrow> Inr ()
       | Some _ \<Rightarrow> rbind (in_time io 2) (\<lambda>_. rbind (not_cancelled io 2) (\<lambda>_. rbind (xi_wrap io) (\<lambda>_.
           rbind (not_cancelled io 3) (\<lambda>_. check_certificate t io))))) (\<lambda>_.
     rbind (not_cancelled io 4) (\<lambda>_. in_time io 3)))))))"

text \<open>The names of the modelled subclasses of \<open>OSError\<close>.\<close>

fun os_name :: "exn_class \<Rightarrow> string" where
  "os_name PermissionError = ''PermissionError''"
| "os_name ConnectionError = ''ConnectionError''"
| "os_name _ = ''OSError''"

definition transport_failure :: "bool \<Rightarrow> exn \<Rightarrow> exn" where
  "transport_failure cancelled e =
     (let failed = (\<lambda>x. if cancelled then Exn RemoteExecutionError ''cancelled'' else x) in
      if isa e SSLCertVerificationError then Exn RemoteAuthError ''peer certificate verification failed''
      else if isa e TimeoutError then failed (Exn RemoteTransportError ''remote transport timed out'')
      else if isa e RemoteTransportError then failed e
      else if isa e RemoteAuthError then e
      else if isa e OSError
      then failed (Exn RemoteTransportError (''remote transport failed: '' @ os_name (exn_cls e) @ '': '' @ exn_msg e))
      else e)"

definition socket_request :: "socket_transport \<Rightarrow> exchange_io \<Rightarrow> bytes \<Rightarrow> bytes res option" where
  "socket_request t io data =
     (if length data > MAX_ENVELOPE_BYTES then Some (raise RemoteTransportError ''request envelope is too large'')
      else
        let failed = (\<lambda>e. Some (Inl (transport_failure (xi_cancelled io) e))); limit = PInt (int MAX_ENVELOPE_BYTES) in
        case rbind (open_connection t io) (\<lambda>_. rbind (send_frame data limit) (\<lambda>w. rbind (xi_send io w) (\<lambda>_. not_cancelled io 5))) of
          Inl e \<Rightarrow> failed e
        | Inr _ \<Rightarrow>
            (case recv_frame (xi_cancellable io) ''connection closed before response'' limit (xi_ticks io) (xi_reply io) of
               None \<Rightarrow> None
             | Some (_, _, Inl e) \<Rightarrow> failed e
             | Some (_, _, Inr body) \<Rightarrow> Some (Inr body)))"

section \<open>Retry\<close>

fun retry_loop :: "(nat \<Rightarrow> 'a res) \<Rightarrow> (nat \<Rightarrow> bool) \<Rightarrow> nat \<Rightarrow> nat \<Rightarrow> 'a res" where
  \<comment> \<open>\<open>send i\<close> is the outcome of attempt \<open>i\<close>, \<open>cancel i\<close> the event before it\<close>
  "retry_loop send cancel i 0 = raise RemoteTransportError ''remote transport returned no response''"
| "retry_loop send cancel i (Suc n) =
     (if cancel i then raise RemoteExecutionError ''cancelled''
      else case send i of
        Inr r \<Rightarrow> Inr r
      | Inl e \<Rightarrow> if isa e RemoteTransportError \<and> n > 0 then retry_loop send cancel (Suc i) n else Inl e)"

definition request_with_retry :: "(nat \<Rightarrow> 'a res) \<Rightarrow> (nat \<Rightarrow> bool) \<Rightarrow> pyval \<Rightarrow> 'a res" where
  "request_with_retry send cancel attempts =
     (if \<not> is_int attempts then raise TypeError ''attempts must be an integer''
      else if int_of attempts < 1 then raise ValueError ''attempts must be positive''
      else retry_loop send cancel 0 (nat (int_of attempts)))"

end
