(* ===== verification/Client.thy ===== *)
theory Client
  imports ServiceLaws SocketTransport
begin

text \<open>
  The client of a remote service: \<open>ProviderRequestMixin._request\<close> of \<open>remote/requests.py\<close>, the operations of
  \<open>AuthenticatedNodeProvider\<close> (\<open>remote/provider.py\<close>) that carry documents, and the surface requests of
  \<open>surfaces/provider.py\<close>.

  A request has two halves around the exchange, because several threads share one provider: \<open>begin_request\<close> takes a
  number and signs the envelope, \<open>end_request\<close> checks the answer. An answer is what \<open>json.loads\<close> makes of its text. What the
  other threads do to the provider during the exchange is \<open>meanwhile\<close>. Random identifiers and clock readings are arguments.
\<close>

section \<open>Requests\<close>

record remote_provider =
  pv_node :: node_id
  pv_caller :: "node_id option"
  pv_secret :: string
  pv_freshness :: rat
  pv_invalidated :: bool
  pv_sent :: nat          \<comment> \<open>\<open>_session_request_sequence\<close>\<close>
  pv_answered :: nat      \<comment> \<open>\<open>_session_response_sequence\<close>\<close>
  pv_session :: "string option"

definition provider_new :: "node_id \<Rightarrow> string \<Rightarrow> rat \<Rightarrow> node_id option \<Rightarrow> remote_provider" where
  "provider_new n secret freshness caller = \<lparr>pv_node = n, pv_caller = caller, pv_secret = secret, pv_freshness = freshness,
     pv_invalidated = False, pv_sent = 0, pv_answered = 0, pv_session = None\<rparr>"

definition invalidate :: "remote_provider \<Rightarrow> remote_provider" where
  "invalidate p = p\<lparr>pv_invalidated := True\<rparr>"

record in_flight =
  fl_seq :: nat
  fl_id :: string
  fl_envelope :: pyval

text \<open>The random identifiers, the clock before and after the exchange, and the cancel event at the check.\<close>

record call_io =
  ca_id :: string
  ca_nonce :: string
  ca_sent :: rat
  ca_received :: rat
  ca_cancelled :: bool

definition begin_request ::
  "(pyval \<Rightarrow> string res) \<Rightarrow> remote_provider \<Rightarrow> string \<Rightarrow> pyval \<Rightarrow> call_io \<Rightarrow> remote_provider \<times> in_flight res" where
  "begin_request canon p op1 params io =
     (if pv_invalidated p then (p, raise RemoteAuthError ''remote provider has been revoked'')
      else if ca_cancelled io then (p, raise RemoteExecutionError ''cancelled'')
      else let n = Suc (pv_sent p) in
        (p\<lparr>pv_sent := n\<rparr>,
         rbind (sign_request canon (nid_value (pv_node p)) op1 params (ca_id io) (ca_nonce io) (ca_sent io) (pv_secret p)
                  (map_option nid_value (pv_caller p)) (pv_session p) (pv_session p \<noteq> None) None) (\<lambda>env.
         Inr \<lparr>fl_seq = n, fl_id = ca_id io, fl_envelope = env\<rparr>)))"

definition attempts_of :: "string \<Rightarrow> int" where
  "attempts_of op1 = (if OPERATION_SAFETY op1 \<noteq> Some ''unsafe'' then 2 else 1)"

definition note_session :: "nat \<Rightarrow> string option \<Rightarrow> remote_provider \<Rightarrow> remote_provider" where
  "note_session n session p =
     (if pv_answered p \<le> n
      then p\<lparr>pv_answered := n, pv_session := (case session of None \<Rightarrow> pv_session p | Some s \<Rightarrow> Some s)\<rparr>
      else p)"

definition response_outcome :: "remote_response \<Rightarrow> pyval res" where
  "response_outcome r =
     (if rs_status r = ''error'' then
        if rs_error r = PStr ''permission_denied'' then raise RemoteAuthorizationError ''caller lacks permission''
        else if rs_error r = PStr ''capability_unavailable'' then raise RemoteAuthorizationError ''node capability is unavailable''
        else if rs_error r = PStr ''target_offline'' then raise RemoteUnavailableError ''target is offline''
        else raise RemoteExecutionError (if str_of (rs_error r) = [] then ''remote operation failed'' else str_of (rs_error r))
      else if rs_payload r = PNone then raise RemoteProtocolError ''successful response has no payload''
      else Inr (rs_payload r))"

definition end_request ::
  "(pyval \<Rightarrow> string res) \<Rightarrow> remote_provider \<Rightarrow> in_flight \<Rightarrow> pyval res \<Rightarrow> rat \<Rightarrow> remote_provider \<times> pyval res" where
  "end_request canon p fl loaded now =
     (case loaded of
        Inl e \<Rightarrow> (p, if isa e TypeError \<or> isa e ValueError then raise RemoteProtocolError ''response is not valid JSON'' else Inl e)
      | Inr env \<Rightarrow>
          sbind (p, verify_response canon (pv_secret p) now (pv_freshness p) env) (\<lambda>p r.
          if rs_node r \<noteq> pv_node p then (p, raise RemoteAuthError ''response came from the wrong node'')
          else if rs_id r \<noteq> fl_id fl then (p, raise RemoteAuthError ''response request id does not match'')
          else (note_session (fl_seq fl) (rs_session r) p, response_outcome r)))"

text \<open>\<open>send envelope i\<close> is what attempt \<open>i\<close> with this envelope gives, \<open>cancel i\<close> the event before it.\<close>

definition provider_request ::
  "(pyval \<Rightarrow> string res) \<Rightarrow> (pyval \<Rightarrow> nat \<Rightarrow> pyval res res) \<Rightarrow> (nat \<Rightarrow> bool) \<Rightarrow> (remote_provider \<Rightarrow> remote_provider) \<Rightarrow> call_io \<Rightarrow> remote_provider \<Rightarrow> string \<Rightarrow> pyval
   \<Rightarrow> remote_provider \<times> pyval res" where
  "provider_request canon send cancel meanwhile io p op1 params =
     sbind (begin_request canon p op1 params io) (\<lambda>p fl.
     sbind (meanwhile p, request_with_retry (send (fl_envelope fl)) cancel (PInt (attempts_of op1))) (\<lambda>p loaded.
     end_request canon p fl loaded (ca_received io)))"

section \<open>Operations\<close>

text \<open>Each operation is given \<open>request\<close>, the provider's \<open>_request\<close>.\<close>

type_synonym requester = "remote_provider \<Rightarrow> string \<Rightarrow> pyval \<Rightarrow> remote_provider \<times> pyval res"

definition provider_hello :: "requester \<Rightarrow> remote_provider \<Rightarrow> remote_provider \<times> pyval res" where
  "provider_hello request p =
     sbind (request p ''hello'' (PDict [])) (\<lambda>p payload. (p, rbind (validate_hello_payload payload (Some (pv_node p))) (\<lambda>_. Inr payload)))"

text \<open>\<open>params or {}\<close>.\<close>

definition object_or_empty :: "pyval \<Rightarrow> pyval" where
  "object_or_empty v = (if v = PNone \<or> v = PDict [] then PDict [] else v)"

definition request_shared :: "requester \<Rightarrow> remote_provider \<Rightarrow> string \<Rightarrow> pyval \<Rightarrow> remote_provider \<times> pyval res" where
  "request_shared request p capability params =
     sbind (request p ''capability_request'' (pdict [(''capability'', PStr capability), (''params'', object_or_empty params)])) (\<lambda>p payload.
     if \<not> has_key payload ''result'' then (p, raise RemoteProtocolError ''shared capability response has no result'')
     else (p, fitem payload ''result''))"

definition provider_revoke_self :: "requester \<Rightarrow> remote_provider \<Rightarrow> remote_provider \<times> pyval res" where
  "provider_revoke_self request p = request p ''revoke_self'' (PDict [])"

definition surface_request :: "(pyval \<Rightarrow> string res) \<Rightarrow> requester \<Rightarrow> remote_provider \<Rightarrow> string \<Rightarrow> pyval \<Rightarrow> remote_provider \<times> pyval res" where
  "surface_request dumps request p operation params =
     sbind (p, validate_surface_operation_params (dumps_returns dumps) RemoteProtocolError operation params) (\<lambda>p _.
     sbind (request p operation params) (\<lambda>p payload.
     if \<not> is_dict payload \<or> \<not> has_key payload ''result'' then (p, raise RemoteProtocolError ''surface response has no result'')
     else (p, fitem payload ''result'')))"

definition normalize_surface_params :: "pyval \<Rightarrow> pyval res" where
  "normalize_surface_params v =
     (if v = PNone then Inr (PDict [])
      else if \<not> is_dict v then raise RemoteProtocolError ''surface params must be an object'' else Inr v)"

definition read_surface :: "(pyval \<Rightarrow> string res) \<Rightarrow> requester \<Rightarrow> remote_provider \<Rightarrow> pyval \<Rightarrow> pyval \<Rightarrow> remote_provider \<times> pyval res" where
  "read_surface dumps request p surface params =
     sbind (p, normalize_surface_params params) (\<lambda>p v.
     surface_request dumps request p ''surface_read'' (pdict [(''surface_id'', surface), (''params'', v)]))"

definition review_surface :: "(pyval \<Rightarrow> string res) \<Rightarrow> requester \<Rightarrow> remote_provider \<Rightarrow> pyval \<Rightarrow> pyval \<Rightarrow> remote_provider \<times> pyval res" where
  "review_surface dumps request p surface params =
     sbind (p, normalize_surface_params params) (\<lambda>p v.
     surface_request dumps request p ''surface_review'' (pdict [(''surface_id'', surface), (''params'', v)]))"

definition invoke_surface_action :: "(pyval \<Rightarrow> string res) \<Rightarrow> requester \<Rightarrow> remote_provider \<Rightarrow> pyval \<Rightarrow> pyval \<Rightarrow> pyval \<Rightarrow> remote_provider \<times> pyval res" where
  "invoke_surface_action dumps request p surface action params =
     sbind (p, normalize_surface_params params) (\<lambda>p v.
     surface_request dumps request p ''surface_action'' (pdict [(''surface_id'', surface), (''action'', action), (''params'', v)]))"

section \<open>Role requests\<close>

text \<open>\<open>RemoteRoleOperations\<close> of \<open>remote/role_operations.py\<close>: a method with its arguments, and the request it sends.\<close>

datatype role_call =
    ConsumeInvite string
  | AssignRole string "string list"
  | RenewCoordinatorLease
  | UploadSnapshot pyval
  | UploadStandbyBatch pyval
  | PauseWorker string
  | RevokeWorker string
  | ResumeWorker string
  | RemoveConnection string
  | RemoveJob string
  | RevokeMember string
  | GrantCapabilities string string "string list" pyfloat
  | RevokeCapabilities string string
  | SyncCapabilityGrant string string "string list" pyfloat

fun role_call_op :: "role_call \<Rightarrow> string" where
  "role_call_op (ConsumeInvite _) = ''consume_invite''"
| "role_call_op (AssignRole _ _) = ''assign_role''"
| "role_call_op RenewCoordinatorLease = ''renew_coordinator_lease''"
| "role_call_op (UploadSnapshot _) = ''worker_snapshot''"
| "role_call_op (UploadStandbyBatch _) = ''standby_batch''"
| "role_call_op (PauseWorker _) = ''pause_worker''"
| "role_call_op (RevokeWorker _) = ''revoke_worker''"
| "role_call_op (ResumeWorker _) = ''resume_worker''"
| "role_call_op (RemoveConnection _) = ''remove_connection''"
| "role_call_op (RemoveJob _) = ''remove_job''"
| "role_call_op (RevokeMember _) = ''revoke_member''"
| "role_call_op (GrantCapabilities _ _ _ _) = ''grant_capabilities''"
| "role_call_op (RevokeCapabilities _ _) = ''revoke_capabilities''"
| "role_call_op (SyncCapabilityGrant _ _ _ _) = ''sync_capability_grant''"

definition grant_fields :: "string \<Rightarrow> string \<Rightarrow> string list \<Rightarrow> pyfloat \<Rightarrow> (string \<times> pyval) list" where
  "grant_fields subject target permissions expires_at =
     [(''subject_node_id'', PStr subject), (''target_node_id'', PStr target), (''permissions'', PList (map PStr permissions)),
      (''expires_at'', PFloat expires_at)]"

fun role_call_fields :: "role_call \<Rightarrow> (string \<times> pyval) list" where
  "role_call_fields (ConsumeInvite token) = [(''token'', PStr token)]"
| "role_call_fields (AssignRole target roles) = [(''target_node_id'', PStr target), (''roles'', PList (map PStr roles))]"
| "role_call_fields RenewCoordinatorLease = []"
| "role_call_fields (UploadSnapshot payload) = [(''payload'', payload)]"
| "role_call_fields (UploadStandbyBatch payload) = [(''payload'', payload)]"
| "role_call_fields (PauseWorker target) = [(''target_node_id'', PStr target)]"
| "role_call_fields (RevokeWorker target) = [(''target_node_id'', PStr target)]"
| "role_call_fields (ResumeWorker target) = [(''target_node_id'', PStr target)]"
| "role_call_fields (RemoveConnection target) = [(''target_node_id'', PStr target)]"
| "role_call_fields (RemoveJob target) = [(''target_node_id'', PStr target)]"
| "role_call_fields (RevokeMember target) = [(''target_node_id'', PStr target)]"
| "role_call_fields (GrantCapabilities subject target permissions expires_at) = grant_fields subject target permissions expires_at"
| "role_call_fields (RevokeCapabilities subject target) = [(''subject_node_id'', PStr subject), (''target_node_id'', PStr target)]"
| "role_call_fields (SyncCapabilityGrant subject target permissions expires_at) = grant_fields subject target permissions expires_at"

definition role_call_params :: "role_call \<Rightarrow> string \<Rightarrow> int \<Rightarrow> string \<Rightarrow> pyval" where
  "role_call_params c cluster ep token =
     pdict (role_call_fields c @ [(''cluster_id'', PStr cluster), (''epoch'', PInt ep), (''fencing_token'', PStr token)])"

definition role_request :: "requester \<Rightarrow> remote_provider \<Rightarrow> role_call \<Rightarrow> string \<Rightarrow> int \<Rightarrow> string \<Rightarrow> remote_provider \<times> pyval res" where
  "role_request request p c cluster ep token =
     request p (role_call_op c) (role_call_params c cluster ep token)"

end
