(* ===== verification/SocketLaws.thy ===== *)
theory SocketLaws
  imports SocketTransport WireLaws
begin

text \<open>
  Frames survive any fragmentation, the receiving loop ends, a reply comes from the pinned certificate only, and what a
  retry returns.
\<close>

section \<open>Lengths on the wire\<close>

lemma be32_length [simp]: "length (be32 n) = 4"
  by (simp add: be32_def)

lemma unat_byte: "unat (of_nat n :: 8 word) = n mod 256"
  by (simp add: unat_of_nat)

lemma unpack_four: "unpack_length [a, b, c, d] = ((unat a * 256 + unat b) * 256 + unat c) * 256 + unat d"
  by (simp add: unpack_length_def)

lemma unpack_be32: "n < 2 ^ 32 \<Longrightarrow> unpack_length (be32 n) = n"
proof -
  assume "n < 2 ^ 32"
  then have h: "n div 16777216 < 256" by auto
  have s: "n div 65536 = n div 256 div 256" "n div 16777216 = n div 256 div 256 div 256"
    by (simp_all flip: div_mult2_eq)
  have "n = 256 * (n div 256) + n mod 256" "n div 256 = 256 * (n div 256 div 256) + n div 256 mod 256"
    "n div 256 div 256 = 256 * (n div 256 div 256 div 256) + n div 256 div 256 mod 256" by presburger+
  then show ?thesis using h by (simp add: be32_def unpack_four unat_byte s)
qed

lemma be32_unpack:
  assumes "length h = 4"
  shows "be32 (unpack_length h) = h"
proof -
  obtain a b c d where h: "h = [a, b, c, d]" using assms by (auto simp: numeral_eq_Suc length_Suc_conv)
  have l: "unat x < 256" for x :: "8 word" using unsigned_less [of x, where 'a = nat] by simp
  have w: "of_nat (unat x) = x" for x :: "8 word" by simp
  have m: "(of_nat (k * 256 + unat x) :: 8 word) = x" for k x
  proof -
    have "unat (of_nat (k * 256 + unat x) :: 8 word) = unat x" unfolding unat_byte using l [of x] by simp
    then show ?thesis by (simp only: word_unat_eq_iff)
  qed
  let ?x = "unat a" let ?y = "?x * 256 + unat b" let ?z = "?y * 256 + unat c" let ?n = "?z * 256 + unat d"
  have dv: "(k * 256 + unat x) div 256 = k" for k :: nat and x :: "8 word" using l [of x] by simp
  have e: "?n div 256 ^ 1 = ?z" "?n div 256 ^ 2 = ?y" "?n div 256 ^ 3 = ?x"
    by (simp_all only: power_one_right dv power2_eq_square power3_eq_cube div_mult2_eq)
  show ?thesis unfolding h unpack_four be32_def list.map e power_0 div_by_1 m w ..
qed

lemma unpack_bound: "length h = 4 \<Longrightarrow> unpack_length h < 2 ^ 32"
proof -
  assume "length h = 4"
  then obtain a b c d where h: "h = [a, b, c, d]" by (auto simp: numeral_eq_Suc length_Suc_conv)
  have l: "unat x < 256" for x :: "8 word" using unsigned_less [of x, where 'a = nat] by simp
  show ?thesis using l [of a] l [of b] l [of c] l [of d] by (simp add: h unpack_four)
qed

section \<open>The receiving loop\<close>

fun delivers :: "tick \<Rightarrow> bool" where
  "delivers (Ready k) = True"
| "delivers _ = False"

fun stops :: "tick \<Rightarrow> bool" where
  "stops Cancelled = True"
| "stops TooLate = True"
| "stops (Broken e) = True"
| "stops _ = False"

definition deliveries :: "tick list \<Rightarrow> nat" where
  "deliveries ts = length (filter delivers ts)"

lemma deliveries_simps [simp]: "deliveries [] = 0" "deliveries (t # ts) = (if delivers t then Suc (deliveries ts) else deliveries ts)"
  by (simp_all add: deliveries_def)

definition smooth :: "bool \<Rightarrow> tick list \<Rightarrow> bool" where
  "smooth cancellable ts \<longleftrightarrow> (\<forall>t \<in> set ts. \<not> stops t \<and> (t = Quiet \<longrightarrow> cancellable))"

lemma recv_delivers:
  assumes "smooth c ts" "n \<le> deliveries ts" "n \<le> length bs"
  shows "\<exists>ts'. recv_loop c eof ts bs n acc = Some (ts', drop n bs, Inr (acc @ take n bs)) \<and> smooth c ts' \<and> deliveries ts \<le> deliveries ts' + n"
  using assms
proof (induction c eof ts bs n acc rule: recv_loop.induct)
  case (3 c eof t ts bs n acc)
  show ?case
  proof (cases t)
    case (Ready k)
    let ?c = "take (min (Suc n) (max 1 k)) bs"
    have l: "?c \<noteq> []" "1 \<le> length ?c" "length ?c \<le> Suc n" using 3(5) by auto
    have le: "length ?c \<le> length bs" by simp
    have "\<exists>ts'. recv_loop c eof ts (drop (length ?c) bs) (Suc n - length ?c) (acc @ ?c)
        = Some (ts', drop (Suc n - length ?c) (drop (length ?c) bs), Inr ((acc @ ?c) @ take (Suc n - length ?c) (drop (length ?c) bs)))
          \<and> smooth c ts' \<and> deliveries ts \<le> deliveries ts' + (Suc n - length ?c)"
      by (rule 3(2) [OF Ready refl l(1)]) (use 3(3-5) Ready l le in \<open>auto simp: smooth_def\<close>)
    then obtain ts' where ts': "recv_loop c eof ts (drop (length ?c) bs) (Suc n - length ?c) (acc @ ?c)
        = Some (ts', drop (Suc n - length ?c) (drop (length ?c) bs), Inr ((acc @ ?c) @ take (Suc n - length ?c) (drop (length ?c) bs)))"
        "smooth c ts'" "deliveries ts \<le> deliveries ts' + (Suc n - length ?c)" by blast
    have p: "?c = take (length ?c) bs" by (simp add: min_def)
    have "?c @ take (Suc n - length ?c) (drop (length ?c) bs) = take (Suc n) bs"
      using l(3) by (subst p, subst take_add [symmetric]) simp
    moreover have "drop (Suc n - length ?c) (drop (length ?c) bs) = drop (Suc n) bs" using l(3) by simp
    ultimately have "recv_loop c eof (t # ts) bs (Suc n) acc = Some (ts', drop (Suc n) bs, Inr (acc @ take (Suc n) bs))"
      using ts'(1) l(1) Ready by (simp add: Let_def)
    then show ?thesis using ts'(2,3) Ready l by auto
  qed (use 3 in \<open>auto simp: smooth_def\<close>)
qed auto

lemma recv_step:
  assumes "d = take (min (Suc n) (max 1 k)) bs"
  shows "recv_loop c eof (Ready k # ts) bs (Suc n) acc = (if d = [] then Some (ts, bs, raise RemoteTransportError eof)
    else recv_loop c eof ts (drop (length d) bs) (Suc n - length d) (acc @ d))"
  unfolding assms by (simp only: recv_loop.simps tick.case Let_def)

lemma chunk_prefix: "d = take m bs \<Longrightarrow> take (length d) bs = d \<and> length d \<le> m"
  by (simp add: min_def)

lemma recv_sound:
  assumes "recv_loop c eof ts bs n acc = Some (ts', bs', Inr r)"
  shows "\<exists>d. r = acc @ d \<and> bs = d @ bs' \<and> length d = n"
  using assms
proof (induction c eof ts bs n acc rule: recv_loop.induct)
  case (3 c eof t ts bs n acc)
  show ?case
  proof (cases t)
    case (Ready k)
    define d where "d = take (min (Suc n) (max 1 k)) bs"
    note run = 3(3) [unfolded Ready recv_step [OF d_def]]
    have ne: "d \<noteq> []" using run by (auto split: if_splits)
    have l: "length d \<le> Suc n" "take (length d) bs = d" using chunk_prefix [OF d_def] by auto
    from 3(2) [OF Ready d_def ne] run ne obtain e where e: "r = (acc @ d) @ e" "drop (length d) bs = e @ bs'" "length e = Suc n - length d" by auto
    have "bs = take (length d) bs @ drop (length d) bs" by simp
    then have "bs = (d @ e) @ bs'" using e(2) l(2) by simp
    then show ?thesis using e(1,3) l by (intro exI [of _ "d @ e"]) simp
  qed (use 3 in \<open>auto split: if_splits\<close>)
qed auto

lemma recv_ends: "n \<le> deliveries ts \<or> (\<exists>t \<in> set ts. stops t) \<Longrightarrow> recv_loop c eof ts bs n acc \<noteq> None"
proof (induction c eof ts bs n acc rule: recv_loop.induct)
  case (3 c eof t ts bs n acc)
  show ?case
  proof (cases t)
    case (Ready k)
    define d where "d = take (min (Suc n) (max 1 k)) bs"
    show ?thesis
    proof (cases "d = []")
      case False
      then have "1 \<le> length d" by (cases d) auto
      then have "Suc n - length d \<le> deliveries ts \<or> (\<exists>t \<in> set ts. stops t)" using 3(3) Ready by auto
      from 3(2) [OF Ready d_def False this] show ?thesis unfolding Ready recv_step [OF d_def] using False by simp
    qed (simp add: Ready recv_step [OF d_def] del: recv_loop.simps)
  qed (use 3 in auto)
qed auto

lemma recv_uses:
  assumes "recv_loop c eof ts bs n acc = Some (ts', bs', Inr r)"
  shows "\<exists>pre. ts = pre @ ts' \<and> (\<forall>t \<in> set pre. \<not> stops t) \<and> deliveries pre \<le> n"
  using assms
proof (induction c eof ts bs n acc rule: recv_loop.induct)
  case (3 c eof t ts bs n acc)
  show ?case
  proof (cases t)
    case (Ready k)
    define d where "d = take (min (Suc n) (max 1 k)) bs"
    note run = 3(3) [unfolded Ready recv_step [OF d_def]]
    have ne: "d \<noteq> []" using run by (auto split: if_splits)
    then have "1 \<le> length d" by (cases d) auto
    moreover from 3(2) [OF Ready d_def ne] run ne obtain pre where "ts = pre @ ts'" "\<forall>t \<in> set pre. \<not> stops t" "deliveries pre \<le> Suc n - length d"
      by auto
    ultimately show ?thesis using Ready by (intro exI [of _ "t # pre"]) auto
  next
    case Quiet
    with 3 obtain pre where "ts = pre @ ts'" "\<forall>t \<in> set pre. \<not> stops t" "deliveries pre \<le> Suc n" by (auto split: if_splits)
    then show ?thesis using Quiet by (intro exI [of _ "t # pre"]) auto
  qed (use 3 in auto)
qed auto

section \<open>Frames\<close>

lemma recv_exact_nat [simp]: "recv_exact c eof ts bs (int n) = recv_loop c eof ts bs n []"
  by (simp add: recv_exact_def)

lemma recv_exact_4 [simp]: "recv_exact c eof ts bs 4 = recv_loop c eof ts bs 4 []"
  by (simp add: recv_exact_def)

lemma send_frame_Inr:
  "send_frame p (PInt m) = Inr w \<longleftrightarrow> p \<noteq> [] \<and> int (length p) \<le> m \<and> length p < 2 ^ 32 \<and> w = be32 (length p) @ p"
  by (auto simp: send_frame_def validate_max_bytes_def pack_length_def ok_simps split: if_splits)

lemma frame_delivered:
  assumes "send_frame p (PInt m) = Inr w" "m \<le> m'" "smooth c ts" "length w \<le> deliveries ts"
  shows "\<exists>ts'. recv_frame c eof (PInt m') ts (w @ rest) = Some (ts', rest, Inr p)"
proof -
  from assms(1) have p: "p \<noteq> []" "int (length p) \<le> m" "length p < 2 ^ 32" "w = be32 (length p) @ p" by (auto simp: send_frame_Inr)
  obtain ts1 where t1: "recv_loop c eof ts (w @ rest) 4 [] = Some (ts1, p @ rest, Inr (be32 (length p)))" "smooth c ts1" "deliveries ts \<le> deliveries ts1 + 4"
    using recv_delivers [OF assms(3), of 4 "w @ rest" eof "[]"] assms(4) p(4) by auto
  obtain ts2 where t2: "recv_loop c eof ts1 (p @ rest) (length p) [] = Some (ts2, rest, Inr p)"
    using recv_delivers [OF t1(2), of "length p" "p @ rest" eof "[]"] t1(3) assms(4) p(4) by auto
  show ?thesis using t1(1) t2 p assms(2) by (simp add: recv_frame_def validate_max_bytes_def unpack_be32)
qed

text \<open>
  C36. A frame arrives whole however the network cuts it: the bytes \<open>_send_frame\<close> writes, followed by anything, are read by
  \<open>_recv_frame\<close> as exactly the payload, with the rest left on the connection, for every way in which \<open>recv\<close> hands the bytes
  out, idle turns included.
\<close>

theorem frame_roundtrip:
  assumes "send_frame p (PInt m) = Inr w" "m \<le> m'" "smooth c ts" "length w \<le> deliveries ts"
  shows "\<exists>ts'. recv_frame c eof (PInt m') ts (w @ rest) = Some (ts', rest, Inr p)"
  by (rule frame_delivered [OF assms])

lemma frame_read:
  assumes "recv_frame c eof (PInt m) ts bs = Some (ts', bs', Inr p)"
  shows "p \<noteq> [] \<and> int (length p) \<le> m \<and> (\<exists>w. send_frame p (PInt m) = Inr w \<and> bs = w @ bs')"
proof -
  obtain ts1 bs1 h where h: "recv_loop c eof ts bs 4 [] = Some (ts1, bs1, Inr h)" and n: "unpack_length h \<noteq> 0" "int (unpack_length h) \<le> m"
      and p: "recv_loop c eof ts1 bs1 (unpack_length h) [] = Some (ts', bs', Inr p)"
    using assms by (auto simp: recv_frame_def validate_max_bytes_def Let_def split: if_splits option.splits sum.splits)
  from recv_sound [OF h] have l: "length h = 4" "bs = h @ bs1" by auto
  from recv_sound [OF p] have q: "bs1 = p @ bs'" "length p = unpack_length h" by auto
  then show ?thesis using n l be32_unpack [OF l(1)] unpack_bound [OF l(1)] by (auto simp: send_frame_Inr)
qed

text \<open>
  C37. Nothing but a frame is read as a frame: when \<open>_recv_frame\<close> returns a payload, it is not empty and within the limit,
  and the bytes consumed are exactly those \<open>_send_frame\<close> would have written for it; nothing of what follows is consumed.
\<close>

theorem frame_exact:
  assumes "recv_frame c eof (PInt m) ts bs = Some (ts', bs', Inr p)"
  shows "p \<noteq> [] \<and> int (length p) \<le> m \<and> (\<exists>w. send_frame p (PInt m) = Inr w \<and> bs = w @ bs')"
  by (rule frame_read [OF assms])

text \<open>
  C38. Receiving a frame ends: once a turn meets the cancel event, the deadline or an error, or once \<open>recv\<close> has returned as
  often as the largest admissible frame has bytes, \<open>_recv_frame\<close> has returned or raised; only idle turns can prolong it.
\<close>

theorem receive_ends:
  assumes "(\<exists>t \<in> set ts. stops t) \<or> 4 + nat m \<le> deliveries ts"
  shows "recv_frame c eof (PInt m) ts bs \<noteq> None"
proof -
  have a: "4 \<le> deliveries ts \<or> (\<exists>t \<in> set ts. stops t)" using assms by auto
  obtain ts1 bs1 x where x: "recv_loop c eof ts bs 4 [] = Some (ts1, bs1, x)" using recv_ends [OF a, of c eof bs "[]"] by auto
  have "recv_loop c eof ts1 bs1 n [] \<noteq> None" if "x = Inr h" "n \<le> nat m" for h n
  proof -
    from recv_uses [OF x [unfolded that(1)]] obtain pre where "ts = pre @ ts1" "\<forall>t \<in> set pre. \<not> stops t" "deliveries pre \<le> 4" by blast
    then have "n \<le> deliveries ts1 \<or> (\<exists>t \<in> set ts1. stops t)" using assms that(2) by (auto simp: deliveries_def)
    then show ?thesis by (rule recv_ends)
  qed
  then show ?thesis using x
    by (cases x) (auto simp: recv_frame_def validate_max_bytes_def Let_def raise_def)
qed

theorem frame_roundtrip_witness:
  "\<exists>ts'. recv_frame True [] (PInt 9) [Ready 3, Quiet, Ready 1, Ready 9, Ready 1, Ready 1, Ready 1] ([0, 0, 0, 2, 7, 8] @ [5]) = Some (ts', [5], Inr [7, 8])"
  by (rule frame_roundtrip [where m = 8]) (simp_all add: send_frame_Inr be32_def smooth_def)

theorem frame_exact_witness:
  "\<exists>w. send_frame [7, 8] (PInt 9) = Inr w \<and> [0, 0, 0, 2, 7, 8, 5] = w @ [5]"
proof -
  have "recv_frame True [] (PInt 9) [Ready 4, Ready 2] [0, 0, 0, 2, 7, 8, 5] = Some ([], [5], Inr [7, 8])"
  proof -
    have "recv_loop True [] [Ready 4, Ready 2] [0, 0, 0, 2, 7, 8, 5] 4 [] = Some ([Ready 2], [7, 8, 5], Inr [0, 0, 0, 2])"
      "recv_loop True [] [Ready 2] [7, 8, 5] 2 [] = Some ([], [5], Inr [7, 8])" by (simp_all add: numeral_eq_Suc)
    then show ?thesis by (simp add: recv_frame_def validate_max_bytes_def unpack_four recv_exact_def)
  qed
  from frame_exact [OF this] show ?thesis by blast
qed

theorem receive_ends_witness: "recv_frame True [] (PInt 9) [Quiet, Ready 4, Quiet, TooLate] [0, 0, 0, 2, 7] \<noteq> None"
  by (rule receive_ends) simp

section \<open>Pinned connections\<close>

lemma not_cancelled_Inr: "not_cancelled io i = Inr u \<longleftrightarrow> \<not> xi_cancel io i"
  by (simp add: not_cancelled_def ok_simps)

lemma open_connection_pinned:
  assumes "open_connection t io = Inr u" "sx_tls t = Some b" "sx_expected t = Some fp"
  shows "\<exists>der. xi_certificate io = Some der \<and> certificate_fingerprint der = fp"
  using assms by (auto simp: open_connection_def check_certificate_def ok_simps compare_digest_def split: option.splits if_splits)

lemma no_os_error: "isa e RemoteTransportError \<or> isa e RemoteAuthError \<Longrightarrow> \<not> isa e OSError"
proof (cases e)
  case (Exn c m)
  then show "isa e RemoteTransportError \<or> isa e RemoteAuthError \<Longrightarrow> \<not> isa e OSError" by (cases c) simp_all
qed

lemma transport_failure_os: "\<not> isa (transport_failure cancelled e) OSError"
  using no_os_error [of e] by (simp add: transport_failure_def Let_def)

text \<open>
  C17. A trusted peer is spoken to over its pinned certificate only: the transport that \<open>build_trusted_transport\<close> makes from a
  stored record has a valid port and a non-blank fingerprint; a request over it, when it returns a reply, presented its
  data to a peer whose certificate has that fingerprint, was not cancelled before it was sent, and the reply is a non-empty
  frame within the limit. A request that fails never raises an error of the operating system.
\<close>

theorem pinned_exchange:
  assumes t: "build_trusted_transport host port fingerprint = Inr t" and run: "socket_request t io data = Some x"
  shows "1 \<le> sx_port t \<and> sx_port t \<le> 65535 \<and> (\<exists>fp. fingerprint = PStr fp \<and> \<not> blank fp \<and>
    (case x of
       Inr body \<Rightarrow> (\<exists>der. xi_certificate io = Some der \<and> certificate_fingerprint der = fp) \<and> \<not> xi_cancel io 4
         \<and> xi_send io (be32 (length data) @ data) = Inr () \<and> body \<noteq> [] \<and> length body \<le> MAX_ENVELOPE_BYTES
     | Inl e \<Rightarrow> \<not> isa e OSError))"
proof -
  obtain fp where fp: "fingerprint = PStr fp" "\<not> blank fp" "sx_expected t = Some fp" "sx_tls t = Some False" "1 \<le> sx_port t" "sx_port t \<le> 65535"
    using t by (auto simp: build_trusted_transport_def tls_transport_new_def socket_transport_new_def opt_str_def is_str_PStr ok_simps split: if_splits)
  have "case x of
       Inr body \<Rightarrow> (\<exists>der. xi_certificate io = Some der \<and> certificate_fingerprint der = fp) \<and> \<not> xi_cancel io 4
         \<and> xi_send io (be32 (length data) @ data) = Inr () \<and> body \<noteq> [] \<and> length body \<le> MAX_ENVELOPE_BYTES
     | Inl e \<Rightarrow> \<not> isa e OSError"
  proof (cases x)
    case (Inl e)
    then have "e = Exn RemoteTransportError ''request envelope is too large'' \<or> (\<exists>d. e = transport_failure (xi_cancelled io) d)"
      using run by (auto simp: socket_request_def Let_def raise_def split: if_splits sum.splits option.splits)
    then show ?thesis using Inl transport_failure_os by auto
  next
    case (Inr body)
    then obtain w a b where w: "open_connection t io = Inr ()" "send_frame data (PInt (int MAX_ENVELOPE_BYTES)) = Inr w" "xi_send io w = Inr ()"
      "recv_frame (xi_cancellable io) ''connection closed before response'' (PInt (int MAX_ENVELOPE_BYTES)) (xi_ticks io) (xi_reply io) = Some (a, b, Inr body)"
      using run by (auto simp: socket_request_def Let_def ok_simps split: if_splits sum.splits option.splits)
    have "body \<noteq> [] \<and> length body \<le> MAX_ENVELOPE_BYTES" using frame_read [OF w(4)] by simp
    moreover have "w = be32 (length data) @ data" using w(2) by (simp add: send_frame_Inr)
    moreover have "\<not> xi_cancel io 4" using w(1) by (auto simp: open_connection_def ok_simps not_cancelled_Inr)
    ultimately show ?thesis using Inr w(3) open_connection_pinned [OF w(1) fp(4,3)] by simp
  qed
  then show ?thesis using fp by blast
qed

section \<open>Retry\<close>

definition lost :: "'a res \<Rightarrow> bool" where
  "lost x = (case x of Inl e \<Rightarrow> isa e RemoteTransportError | Inr _ \<Rightarrow> False)"

lemma retry_find:
  "retry_loop send (\<lambda>_. False) i (Suc n) = (case find (\<lambda>k. \<not> lost (send k)) [i..<Suc (i + n)] of Some k \<Rightarrow> send k | None \<Rightarrow> send (i + n))"
proof (induction n arbitrary: i)
  case 0
  show ?case by (cases "send i") (auto simp: lost_def)
next
  case (Suc n)
  have u: "[i..<Suc (i + Suc n)] = i # [Suc i..<Suc (Suc i + n)]" by (simp add: upt_rec)
  show ?case
  proof (cases "lost (send i)")
    case True
    then obtain e where "send i = Inl e" "isa e RemoteTransportError" by (cases "send i") (auto simp: lost_def)
    then show ?thesis using Suc [of "Suc i"] True unfolding u by (simp del: upt_Suc cong: option.case_cong)
  next
    case False
    then show ?thesis unfolding u by (cases "send i") (auto simp: lost_def simp del: upt_Suc)
  qed
qed

text \<open>
  A retry returns the first answer that is not lost: without cancellation \<open>request_with_retry\<close> ends after at most
  \<open>attempts\<close> sendings of the one envelope, with the outcome of the first sending that did not fail in the transport, answer
  or error, and with the last transport error when all of them failed. An operation that is sent once is never repeated.
\<close>

theorem retry_first_outcome:
  assumes "1 \<le> n"
  shows "request_with_retry send (\<lambda>_. False) (PInt (int n))
    = (case find (\<lambda>k. \<not> lost (send k)) [0..<n] of Some k \<Rightarrow> send k | None \<Rightarrow> send (n - 1))"
proof -
  obtain k where n: "n = Suc k" using assms by (cases n) auto
  have "retry_loop send (\<lambda>_. False) 0 n = (case find (\<lambda>k. \<not> lost (send k)) [0..<n] of Some k \<Rightarrow> send k | None \<Rightarrow> send (n - 1))"
    using retry_find [of send 0 k] unfolding n by (simp only: add_0 diff_Suc_1)
  moreover have "nat (int n) = n" by simp
  ultimately show ?thesis using assms by (simp add: request_with_retry_def)
qed

theorem retry_first_outcome_witness:
  "request_with_retry (\<lambda>k. if k = 0 then raise RemoteTransportError [] else Inr k) (\<lambda>_. False) (PInt (int 2)) = Inr 1"
  using retry_first_outcome [of 2 "\<lambda>k. if k = 0 then raise RemoteTransportError [] else Inr k"]
  by (simp add: lost_def raise_def upt_rec numeral_eq_Suc)

text \<open>A peer with the expected certificate that answers two bytes.\<close>

definition demo_der :: bytes where
  "demo_der = [1, 2, 3]"

definition demo_exchange :: exchange_io where
  "demo_exchange = \<lparr>xi_cancellable = True, xi_cancel = (\<lambda>_. False), xi_late = (\<lambda>_. False), xi_connect = Inr (), xi_wrap = Inr (),
     xi_certificate = Some demo_der, xi_send = (\<lambda>_. Inr ()), xi_ticks = [Ready 4, Ready 2], xi_reply = [0, 0, 0, 2, 7, 8], xi_cancelled = False\<rparr>"

lemma fingerprint_colon: "CHR '':'' \<in> set (certificate_fingerprint der)"
proof -
  have "1 \<in> set [0..<16]" by simp
  then show ?thesis unfolding certificate_fingerprint_def Let_def by (auto intro!: bexI [of _ 1])
qed

lemma fingerprint_ascii: "is_ascii (certificate_fingerprint der)"
proof -
  have a: "of_char c < (128 :: nat)" if "c \<in> set (hexdigest bs)" for c bs
    using hexdigest_ascii [of bs] that by (auto simp: is_ascii_def list_all_iff)
  have "of_char c < (128 :: nat)" if "c \<in> set (take 4 (drop n (hexdigest bs)))" for c n bs
    by (rule a) (rule in_set_dropD [OF in_set_takeD [OF that]])
  note b = this this [where n = 0, simplified drop_0]
  show ?thesis unfolding certificate_fingerprint_def Let_def by (auto simp: is_ascii_def list_all_iff dest: b)
qed

theorem pinned_exchange_witness:
  "\<exists>t. build_trusted_transport (PStr ''10.0.0.2'') (PInt 9) (PStr (certificate_fingerprint demo_der)) = Inr t
     \<and> socket_request t demo_exchange [42] = Some (Inr [7, 8]) \<and> (\<exists>der. xi_certificate demo_exchange = Some der)"
proof -
  let ?fp = "certificate_fingerprint demo_der"
  let ?t = "\<lparr>sx_host = ''10.0.0.2'', sx_port = 9, sx_tls = Some False, sx_expected = Some ?fp\<rparr>"
  have b: "\<not> blank ?fp" using fingerprint_colon [of demo_der] by (auto simp: blank_def list_all_iff str_isspace_def intro!: bexI [of _ "CHR '':''"])
  then have t: "build_trusted_transport (PStr ''10.0.0.2'') (PInt 9) (PStr ?fp) = Inr ?t"
    by (simp add: build_trusted_transport_def tls_transport_new_def socket_transport_new_def validate_endpoint_def validate_fingerprint_def
        opt_str_def blank_def str_isspace_def)
  have "recv_loop True eof [Ready 4, Ready 2] [0, 0, 0, 2, 7, 8] 4 [] = Some ([Ready 2], [7, 8], Inr [0, 0, 0, 2])"
    "recv_loop True eof [Ready 2] [7, 8] 2 [] = Some ([], [], Inr [7, 8])" for eof by (simp_all add: numeral_eq_Suc)
  then have "recv_frame True eof (PInt (int MAX_ENVELOPE_BYTES)) [Ready 4, Ready 2] [0, 0, 0, 2, 7, 8] = Some ([], [], Inr [7, 8])" for eof
    by (simp add: recv_frame_def validate_max_bytes_def unpack_four MAX_ENVELOPE_BYTES_def recv_exact_def)
  moreover have "compare_digest ?fp ?fp = Inr True" using fingerprint_ascii [of demo_der] by (simp add: compare_digest_def)
  ultimately have r: "socket_request ?t demo_exchange [42] = Some (Inr [7, 8])"
    by (simp add: socket_request_def demo_exchange_def open_connection_def not_cancelled_def in_time_def check_certificate_def
        send_frame_def validate_max_bytes_def pack_length_def MAX_ENVELOPE_BYTES_def)
  from pinned_exchange [OF t r] t r show ?thesis by auto
qed

end
