(* ===== verification/ClientLaws.thy ===== *)
theory ClientLaws
  imports Client SocketLaws "HOL-Library.Multiset"
begin

text \<open>
  What a client may conclude from an answer, which session it ends up in whatever the order of the answers, that it
  reports what the service decided, and that a repeated request is not executed again.
\<close>

section \<open>Responses\<close>

lemma guard_Inr: "(if b then raise c m else x) = Inr y \<longleftrightarrow> \<not> b \<and> x = Inr y"
  by simp

lemma node_case: "(case mk_node_id n of Inl _ \<Rightarrow> raise c m | Inr x \<Rightarrow> Inr (g x)) = Inr r \<longleftrightarrow> nid_ok (NodeId n) \<and> r = g (NodeId n)"
  by (auto simp: mk_node_id_if raise_def)

lemma verify_response_Inr:
  assumes "verify_response canon secret now freshness env = Inr r"
  shows "\<exists>tx. canon (unsigned_fields env) = Inr tx \<and> fget env ''sig'' = PStr (hexdigest (hmac_sha256 (utf8 secret) (utf8 tx)))"
    and "fget env ''node_id'' = PStr (nid_value (rs_node r))" "fget env ''request_id'' = PStr (rs_id r)"
      "fget env ''status'' = PStr (rs_status r)" "rs_status r = ''ok'' \<or> rs_status r = ''error''"
      "fget env ''payload'' = rs_payload r" "rs_payload r = PNone \<or> is_dict (rs_payload r)"
      "fget env ''error'' = rs_error r" "num_value (fget env ''ts'') = Some (rs_ts r)" "\<bar>now - rs_ts r\<bar> \<le> freshness"
      "rs_session r = opt_str (fget env ''session_id'')"
proof -
  have all: "is_str (fget env ''sig'') \<and> signature canon secret (unsigned_fields env) = Inr (str_of (fget env ''sig''))
    \<and> is_str (fget env ''node_id'') \<and> is_str (fget env ''request_id'') \<and> fget env ''status'' \<in> {PStr ''ok'', PStr ''error''}
    \<and> (fget env ''payload'' = PNone \<or> is_dict (fget env ''payload''))
    \<and> (\<exists>ts. num_value (fget env ''ts'') = Some ts \<and> \<bar>now - ts\<bar> \<le> freshness
        \<and> r = \<lparr>rs_node = NodeId (str_of (fget env ''node_id'')), rs_id = str_of (fget env ''request_id''), rs_status = str_of (fget env ''status''),
                rs_payload = fget env ''payload'', rs_error = fget env ''error'', rs_ts = ts,
                rs_session = opt_str (fget env ''session_id''), rs_generation = opt_str (fget env ''connection_generation'')\<rparr>)"
  proof -
    have w: "\<bar>now - ts\<bar> \<le> freshness \<longleftrightarrow> \<not> (now - ts > freshness \<or> now - ts < - freshness)" for ts by linarith
    show ?thesis using assms unfolding verify_response_def guard_Inr rbind_Inr_iff verify_signature_Inr finite_timestamp_Inr node_case w
      by blast
  qed
  then have s: "is_str (fget env ''sig'')" "signature canon secret (unsigned_fields env) = Inr (str_of (fget env ''sig''))"
    "is_str (fget env ''node_id'')" "is_str (fget env ''request_id'')" "nid_value (rs_node r) = str_of (fget env ''node_id'')"
    "rs_id r = str_of (fget env ''request_id'')" by auto
  then obtain tx where "canon (unsigned_fields env) = Inr tx" "str_of (fget env ''sig'') = hexdigest (hmac_sha256 (utf8 secret) (utf8 tx))"
    by (auto simp: signature_def ok_simps)
  then show "\<exists>tx. canon (unsigned_fields env) = Inr tx \<and> fget env ''sig'' = PStr (hexdigest (hmac_sha256 (utf8 secret) (utf8 tx)))"
    using s(1) by (metis is_str_PStr)
  show "fget env ''node_id'' = PStr (nid_value (rs_node r))" "fget env ''request_id'' = PStr (rs_id r)"
    using s(3-6) by (simp_all add: is_str_PStr)
  show "fget env ''status'' = PStr (rs_status r)" "rs_status r = ''ok'' \<or> rs_status r = ''error''"
      "fget env ''payload'' = rs_payload r" "rs_payload r = PNone \<or> is_dict (rs_payload r)"
      "fget env ''error'' = rs_error r" "num_value (fget env ''ts'') = Some (rs_ts r)" "\<bar>now - rs_ts r\<bar> \<le> freshness"
      "rs_session r = opt_str (fget env ''session_id'')"
    using all by auto
qed

definition opt_identifier :: "string option \<Rightarrow> bool" where
  "opt_identifier v = (case v of None \<Rightarrow> True | Some s \<Rightarrow> valid_identifier (PStr s))"

lemma response_accepted:
  assumes "sign_response canon n rid status secret ts payload err session generation = Inr env"
    and "nid_ok (NodeId n)" "rid \<noteq> []" "status \<in> {''ok'', ''error''}" "opt_identifier session" "opt_identifier generation"
    and "\<bar>now - ts\<bar> \<le> freshness"
  shows "verify_response canon secret now freshness env = Inr \<lparr>rs_node = NodeId n, rs_id = rid, rs_status = status, rs_payload = payload,
    rs_error = (case err of None \<Rightarrow> PNone | Some e \<Rightarrow> PStr e), rs_ts = ts, rs_session = session, rs_generation = generation\<rparr>"
proof -
  define body where "body = [(''v'', PStr REMOTE_PROTOCOL_VERSION), (''node_id'', PStr n), (''request_id'', PStr rid),
            (''status'', PStr status), (''payload'', payload),
            (''error'', case err of None \<Rightarrow> PNone | Some e \<Rightarrow> PStr e), (''ts'', PFloat (Fin ts))]
          @ opt_field ''session_id'' session @ opt_field ''connection_generation'' generation"
  from assms(1) obtain sig where sig: "signature canon secret (pdict body) = Inr sig"
      and env: "env = pdict (body @ [(''sig'', PStr sig)])" and pay: "payload = PNone \<or> is_dict payload"
    by (auto simp: sign_response_def body_def Let_def ok_simps split: if_splits)
  have nosig: "''sig'' \<notin> fst ` set body"
    by (auto simp: body_def opt_field_def split: option.splits)
  have keys: "dict_keys env \<subseteq> KStr ` response_envelope_fields"
    by (auto simp: dict_keys_def env pdict_def body_def opt_field_def response_envelope_fields_def split: option.splits)
  have look: "map_of (body @ [(''sig'', PStr sig)]) ''sig'' = Some (PStr sig)"
    using nosig map_of_eq_None_iff [of body "''sig''"] by (simp add: map_add_def)
  have f: "fget env ''v'' = PStr REMOTE_PROTOCOL_VERSION" "fget env ''node_id'' = PStr n" "fget env ''request_id'' = PStr rid"
    "fget env ''status'' = PStr status" "fget env ''payload'' = payload" "fget env ''error'' = (case err of None \<Rightarrow> PNone | Some e \<Rightarrow> PStr e)"
    "fget env ''ts'' = PFloat (Fin ts)" "fget env ''sig'' = PStr sig" "has_key env ''sig''" "is_dict env"
    "fget env ''session_id'' = (case session of None \<Rightarrow> PNone | Some c \<Rightarrow> PStr c)"
    "fget env ''connection_generation'' = (case generation of None \<Rightarrow> PNone | Some c \<Rightarrow> PStr c)"
    using look by (auto simp: env body_def opt_field_def split: option.splits)
  have v: "verify_signature canon sig secret (unsigned_fields env) ''response'' = Inr ()"
    using sig by (simp add: verify_signature_Inr env unsigned_fields_signed [OF nosig])
  show ?thesis using assms(2-7) keys pay
    by (auto simp: verify_response_def f v opt_str_def finite_timestamp_def mk_node_id_if nid_ok_def opt_identifier_def split: option.splits)
qed

section \<open>Answers a client accepts\<close>

lemma retry_outcome:
  assumes "retry_loop send cancel i n = Inr x"
  shows "\<exists>k < n. send (i + k) = Inr x \<and> (\<forall>j < k. lost (send (i + j)))"
  using assms
proof (induction n arbitrary: i)
  case (Suc n)
  show ?case
  proof (cases "send i")
    case (Inr y)
    then show ?thesis using Suc.prems by (intro exI [of _ 0]) (simp split: if_splits)
  next
    case (Inl e)
    then have e: "isa e RemoteTransportError" "retry_loop send cancel (Suc i) n = Inr x" using Suc.prems by (auto split: if_splits)
    from Suc.IH [OF e(2)] obtain k where "k < n" "send (Suc i + k) = Inr x" "\<forall>j < k. lost (send (Suc i + j))" by blast
    then show ?thesis using Inl e(1) by (intro exI [of _ "Suc k"]) (auto simp: lost_def less_Suc_eq_0_disj)
  qed
qed simp

lemma request_with_retry_outcome:
  assumes "request_with_retry send cancel (PInt n) = Inr x"
  shows "\<exists>k. int k < n \<and> send k = Inr x \<and> (\<forall>j < k. lost (send j))"
  using assms retry_outcome [of send cancel 0 "nat n" x] by (auto simp: request_with_retry_def zless_nat_eq_int_zless split: if_splits)

lemma end_request_Inr:
  assumes "end_request canon p fl loaded now = (p', Inr v)"
  shows "\<exists>env r. loaded = Inr env \<and> verify_response canon (pv_secret p) now (pv_freshness p) env = Inr r \<and> rs_node r = pv_node p
    \<and> rs_id r = fl_id fl \<and> p' = note_session (fl_seq fl) (rs_session r) p \<and> rs_status r \<noteq> ''error'' \<and> v = rs_payload r \<and> v \<noteq> PNone"
  using assms by (auto simp: end_request_def response_outcome_def ok_simps split: sum.splits if_splits)

text \<open>
  C3. A client believes only the node it asked. When \<open>_request\<close> returns a payload, the provider had not been revoked, the
  request was signed once, under its secret, with a fresh number, and sent at most twice, once when its operation is
  unsafe; the answer that was accepted came after lost ones only, carries the HMAC of its fields under the same secret,
  names the provider's node and this request, says \<open>ok\<close>, was made within the freshness window, and the payload is its
  payload, an object. What other threads do to the provider meanwhile does not matter, as they keep its node, secret and
  freshness.
\<close>

theorem client_answer_sound:
  assumes run: "provider_request canon send cancel meanwhile io p op1 params = (p', Inr v)"
    and keep: "\<forall>x. pv_node (meanwhile x) = pv_node x \<and> pv_secret (meanwhile x) = pv_secret x \<and> pv_freshness (meanwhile x) = pv_freshness x"
  shows "\<not> pv_invalidated p \<and> \<not> ca_cancelled io \<and> (\<exists>env k resp tx. sign_request canon (nid_value (pv_node p)) op1 params (ca_id io) (ca_nonce io)
        (ca_sent io) (pv_secret p) (map_option nid_value (pv_caller p)) (pv_session p) (pv_session p \<noteq> None) None = Inr env
      \<and> k < (if OPERATION_SAFETY op1 = Some ''unsafe'' then 1 else 2) \<and> send env k = Inr (Inr resp) \<and> (\<forall>j < k. lost (send env j))
      \<and> canon (unsigned_fields resp) = Inr tx \<and> fget resp ''sig'' = PStr (hexdigest (hmac_sha256 (utf8 (pv_secret p)) (utf8 tx)))
      \<and> fget resp ''node_id'' = PStr (nid_value (pv_node p)) \<and> fget resp ''request_id'' = PStr (ca_id io) \<and> fget resp ''status'' = PStr ''ok''
      \<and> (\<exists>ts. num_value (fget resp ''ts'') = Some ts \<and> \<bar>ca_received io - ts\<bar> \<le> pv_freshness p)
      \<and> v = fget resp ''payload'' \<and> is_dict v)"
proof -
  obtain p1 fl where b: "begin_request canon p op1 params io = (p1, Inr fl)"
    and rest: "sbind (meanwhile p1, request_with_retry (send (fl_envelope fl)) cancel (PInt (attempts_of op1)))
        (\<lambda>p loaded. end_request canon p fl loaded (ca_received io)) = (p', Inr v)"
    using run by (auto simp: provider_request_def ok_simps)
  obtain loaded where l: "request_with_retry (send (fl_envelope fl)) cancel (PInt (attempts_of op1)) = Inr loaded"
      "end_request canon (meanwhile p1) fl loaded (ca_received io) = (p', Inr v)" using rest by (auto simp: ok_simps)
  have fl: "\<not> pv_invalidated p" "\<not> ca_cancelled io" "p1 = p\<lparr>pv_sent := Suc (pv_sent p)\<rparr>" "fl_id fl = ca_id io"
    "sign_request canon (nid_value (pv_node p)) op1 params (ca_id io) (ca_nonce io)
        (ca_sent io) (pv_secret p) (map_option nid_value (pv_caller p)) (pv_session p) (pv_session p \<noteq> None) None = Inr (fl_envelope fl)"
    using b by (auto simp: begin_request_def Let_def ok_simps split: if_splits)
  obtain k where k: "int k < attempts_of op1" "send (fl_envelope fl) k = Inr loaded" "\<forall>j < k. lost (send (fl_envelope fl) j)"
    using request_with_retry_outcome [OF l(1)] by blast
  obtain resp r where e: "loaded = Inr resp" "verify_response canon (pv_secret (meanwhile p1)) (ca_received io) (pv_freshness (meanwhile p1)) resp = Inr r"
    "rs_node r = pv_node (meanwhile p1)" "rs_id r = fl_id fl" "rs_status r \<noteq> ''error''" "v = rs_payload r" "v \<noteq> PNone"
    using end_request_Inr [OF l(2)] by blast
  note vr = verify_response_Inr [OF e(2)]
  have same: "pv_secret (meanwhile p1) = pv_secret p" "pv_freshness (meanwhile p1) = pv_freshness p" "pv_node (meanwhile p1) = pv_node p"
    using keep fl(3) by auto
  obtain tx where tx: "canon (unsigned_fields resp) = Inr tx" "fget resp ''sig'' = PStr (hexdigest (hmac_sha256 (utf8 (pv_secret p)) (utf8 tx)))"
    using vr(1) same by auto
  have ok: "fget resp ''status'' = PStr ''ok''" "fget resp ''payload'' = v" "is_dict v" using vr(4-7) e(5-7) by auto
  have ans: "fget resp ''node_id'' = PStr (nid_value (pv_node p))" "fget resp ''request_id'' = PStr (ca_id io)"
    "num_value (fget resp ''ts'') = Some (rs_ts r)" "\<bar>ca_received io - rs_ts r\<bar> \<le> pv_freshness p" using vr e same fl(4) by auto
  have kk: "k < (if OPERATION_SAFETY op1 = Some ''unsafe'' then 1 else 2)" using k(1) by (simp add: attempts_of_def split: if_splits)
  show ?thesis using fl(1,2,5) kk k(2,3) e(1) tx ok ans by blast
qed

section \<open>Sessions\<close>

datatype client_op =
    Begin string pyval call_io
  | End in_flight "pyval res" rat
  | Invalidate

fun client_step :: "(pyval \<Rightarrow> string res) \<Rightarrow> remote_provider \<Rightarrow> client_op \<Rightarrow> remote_provider" where
  "client_step canon p (Begin op1 params io) = fst (begin_request canon p op1 params io)"
| "client_step canon p (End fl loaded now) = fst (end_request canon p fl loaded now)"
| "client_step canon p Invalidate = invalidate p"

text \<open>The number of the request that an answer belongs to and the session it names, when the answer is believed.\<close>

fun believed :: "(pyval \<Rightarrow> string res) \<Rightarrow> remote_provider \<Rightarrow> client_op \<Rightarrow> (nat \<times> string option) option" where
  "believed canon p (End fl (Inr env) now) =
     (case verify_response canon (pv_secret p) now (pv_freshness p) env of
        Inl _ \<Rightarrow> None
      | Inr r \<Rightarrow> if rs_node r = pv_node p \<and> rs_id r = fl_id fl then Some (fl_seq fl, rs_session r) else None)"
| "believed canon p _ = None"

definition same_peer :: "remote_provider \<Rightarrow> remote_provider \<Rightarrow> bool" where
  "same_peer p q \<longleftrightarrow> pv_node p = pv_node q \<and> pv_secret p = pv_secret q \<and> pv_freshness p = pv_freshness q"

lemma client_step_session:
  "same_peer p (client_step canon p x) \<and> (case believed canon p x of
     None \<Rightarrow> pv_answered (client_step canon p x) = pv_answered p \<and> pv_session (client_step canon p x) = pv_session p
   | Some (n, sid) \<Rightarrow> client_step canon p x = note_session n sid p)"
proof (cases "(canon, p, x)" rule: believed.cases)
  case (1 c q fl env now)
  then show ?thesis
    by (auto simp: end_request_def same_peer_def note_session_def sbind_def split: sum.splits)
qed (auto simp: begin_request_def end_request_def invalidate_def same_peer_def Let_def)

lemma believed_same: "same_peer p q \<Longrightarrow> believed canon q x = believed canon p x"
  by (cases "(canon, p, x)" rule: believed.cases) (auto simp: same_peer_def split: sum.splits)

lemma same_peer_trans: "same_peer p q \<Longrightarrow> same_peer q r \<Longrightarrow> same_peer p r"
  by (simp add: same_peer_def)

definition older_than :: "(pyval \<Rightarrow> string res) \<Rightarrow> remote_provider \<Rightarrow> nat \<Rightarrow> string \<Rightarrow> client_op \<Rightarrow> bool" where
  "older_than canon p n sid x \<longleftrightarrow> (\<forall>m s. believed canon p x = Some (m, s) \<longrightarrow> m < n \<or> m = n \<and> s = Some sid)"

lemma older_step:
  assumes "older_than canon p n sid x" "pv_answered p \<le> n"
  shows "pv_answered (client_step canon p x) \<le> n"
    and "pv_answered p = n \<Longrightarrow> pv_session p = Some sid \<Longrightarrow> pv_answered (client_step canon p x) = n \<and> pv_session (client_step canon p x) = Some sid"
  using assms client_step_session [of p canon x]
  by (auto simp: older_than_def note_session_def split: option.splits if_splits)

lemma older_run:
  assumes "list_all (older_than canon p n sid) ops" "pv_answered p \<le> n"
  shows "same_peer p (foldl (client_step canon) p ops)" (is ?A)
    and "pv_answered (foldl (client_step canon) p ops) \<le> n" (is ?B)
    and "pv_answered p = n \<Longrightarrow> pv_session p = Some sid \<Longrightarrow> pv_answered (foldl (client_step canon) p ops) = n
      \<and> pv_session (foldl (client_step canon) p ops) = Some sid" (is "_ \<Longrightarrow> _ \<Longrightarrow> ?C")
proof -
  have "?A \<and> ?B \<and> (pv_answered p = n \<and> pv_session p = Some sid \<longrightarrow> ?C)"
    using assms
  proof (induction ops arbitrary: p)
    case (Cons x ops)
    let ?q = "client_step canon p x"
    have s: "same_peer p ?q" using client_step_session [of p canon x] by blast
    have "list_all (older_than canon ?q n sid) ops"
      using Cons.prems(1) by (auto simp: list_all_iff older_than_def believed_same [OF s])
    from Cons.IH [OF this] older_step [of canon p n sid x] Cons.prems s show ?case
      by (auto dest: same_peer_trans)
  qed (simp add: same_peer_def)
  then show ?A ?B "pv_answered p = n \<Longrightarrow> pv_session p = Some sid \<Longrightarrow> ?C" by blast+
qed

lemma newest_settles:
  assumes "list_all (older_than canon p n sid) ops" "pv_answered p \<le> n" "x \<in> set ops" "believed canon p x = Some (n, Some sid)"
  shows "pv_session (foldl (client_step canon) p ops) = Some sid \<and> pv_answered (foldl (client_step canon) p ops) = n"
proof -
  obtain pre post where ops: "ops = pre @ x # post" using assms(3) by (meson split_list)
  let ?q = "foldl (client_step canon) p pre" let ?r = "client_step canon ?q x"
  have a: "list_all (older_than canon p n sid) pre" "list_all (older_than canon p n sid) post" using assms(1) ops by auto
  note q = older_run [OF a(1) assms(2)]
  have b: "believed canon ?q x = Some (n, Some sid)" using believed_same [OF q(1)] assms(4) by simp
  then have r: "?r = note_session n (Some sid) ?q" "same_peer ?q ?r" using client_step_session [of ?q canon x] by auto
  have s: "pv_answered ?r = n" "pv_session ?r = Some sid" using q(2) unfolding r(1) by (simp_all add: note_session_def)
  have p: "same_peer p ?r" using q(1) r(2) by (rule same_peer_trans)
  have "list_all (older_than canon ?r n sid) post" using a(2) by (auto simp: list_all_iff older_than_def believed_same [OF p])
  from older_run(3) [OF this _ s] s(1) show ?thesis by (simp add: ops)
qed

text \<open>
  C32. The session follows the newest request, in whatever order the answers come. Let several threads begin and end
  requests on one provider in any interleaving, with forged and lost answers and a revocation among them. If the answer to
  request \<open>n\<close> is believed and names a session, and every other answer that is believed belongs to an older request, then the
  provider ends up in that session, for the given order and for every other one.
\<close>

theorem newest_session_wins:
  assumes "x \<in> set ops" "believed canon p x = Some (n, Some sid)" "pv_answered p \<le> n"
    and "\<forall>y \<in> set ops. \<forall>m s. believed canon p y = Some (m, s) \<longrightarrow> m < n \<or> m = n \<and> s = Some sid"
    and "mset ops' = mset ops"
  shows "pv_session (foldl (client_step canon) p ops') = Some sid \<and> pv_answered (foldl (client_step canon) p ops') = n"
proof (rule newest_settles)
  have "set ops' = set ops" using assms(5) by (rule mset_eq_setD)
  then show "list_all (older_than canon p n sid) ops'" "x \<in> set ops'" using assms(1,4) by (auto simp: list_all_iff older_than_def)
qed (use assms in auto)

section \<open>What a request leaves alone\<close>

text \<open>No code of the host changes the part \<open>f\<close> of the service.\<close>

definition host_keeps :: "(remote_service \<Rightarrow> 'b) \<Rightarrow> host \<Rightarrow> bool" where
  "host_keeps f ho \<longleftrightarrow>
     (\<forall>g q s. ho_role ho = Some g \<longrightarrow> f (fst (g q s)) = f s) \<and> (\<forall>g n s. ho_revoke ho = Some g \<longrightarrow> f (fst (g n s)) = f s)
     \<and> (\<forall>g s. ho_commit ho = Some g \<longrightarrow> f (fst (g s)) = f s) \<and> (\<forall>h n v s. f (fst (ho_handler ho h n v s)) = f s)
     \<and> (\<forall>q s. f (fst (ho_provider ho q s)) = f s) \<and> (\<forall>g q s. ho_process ho = Some g \<longrightarrow> f (fst (g q s)) = f s)
     \<and> (\<forall>s. f (ho_others ho s) = f s)"

text \<open>The part does not depend on what the service itself changes while it solves a request.\<close>

definition steady :: "(remote_service \<Rightarrow> 'b) \<Rightarrow> bool" where
  "steady f \<longleftrightarrow> (\<forall>s v. f (s\<lparr>sv_shares := v\<rparr>) = f s) \<and> (\<forall>s v. f (s\<lparr>sv_sessions := v\<rparr>) = f s) \<and> (\<forall>s v. f (s\<lparr>sv_replay := v\<rparr>) = f s)"

lemma steady_parts: "steady sv_node" "steady sv_idem"
  by (simp_all add: steady_def)

lemma sbind_keeps:
  assumes "f (fst m) = f s" "\<And>t x. f t = f s \<Longrightarrow> f (fst (k t x)) = f s"
  shows "f (fst (sbind m k)) = f s"
  using assms by (auto simp: sbind_def split: prod.splits sum.splits)

lemma if_keeps: "f (fst x) = f s \<Longrightarrow> f (fst y) = f s \<Longrightarrow> f (fst (if b then x else y)) = f s"
  by simp

lemma solve_keeps:
  assumes "host_keeps f ho" "steady f"
  shows "f (fst (solve dumps ho s q g now)) = f s"
proof -
  have h: "f (fst (ho_handler ho h n v s)) = f s" "f (fst (ho_provider ho q s)) = f s" for h n v s q using assms(1) by (simp_all add: host_keeps_def)
  have c: "f (fst (solve_capability ho t q)) = f t" for t
    using h(1) by (auto simp: solve_capability_def Let_def sbind_def split: option.splits sum.splits prod.splits) (metis fst_conv)+
  have d: "f (fst (dispatch_surface_request dumps ho t q cg now)) = f t" for t cg
    using h(1) by (auto simp: dispatch_surface_request_def sbind_def split: option.splits sum.splits prod.splits) (metis fst_conv)+
  have b: "f (fst (solve_dashboard ho t q now)) = f t" for t
    using h(2) assms(2) by (auto simp: solve_dashboard_def Let_def steady_def split: option.splits)
  show ?thesis
    unfolding solve_def
    by (intro sbind_keeps if_keeps)
      (use assms(1) c d b h in \<open>auto simp only: host_keeps_def fst_conv snd_conv split: option.split\<close>)
qed

lemma handle_begin_keeps:
  assumes "steady f"
  shows "f (fst (handle_begin canon pyrepr s loaded generation now tick draws)) = f s"
proof -
  have v: "f (fst (verify_or_retry canon t secret env now)) = f t" for t secret env
    using assms by (simp add: verify_or_retry_def steady_def split: prod.splits)
  have o: "f (fst (open_session t q generation tick draws)) = f t" for t q
    using assms by (simp add: open_session_def steady_def split: prod.splits)
  show ?thesis
  proof (cases loaded)
    case (Inr env)
    show ?thesis unfolding Inr handle_begin_def sum.case Let_def split_beta
      by (intro sbind_keeps if_keeps) (simp_all add: v o)
  qed (simp add: handle_begin_def)
qed

lemma session_current_keeps: "steady f \<Longrightarrow> f (fst (session_current s sid generation tick)) = f s"
  by (simp add: session_current_def steady_def split: prod.splits)

lemma solve_checked_keeps:
  assumes "host_keeps f ho" "steady f"
  shows "f (fst (solve_checked dumps ho s ha generation now later tick')) = f s"
  unfolding solve_checked_def
  by (intro sbind_keeps) (simp_all add: solve_keeps [OF assms] session_current_keeps [OF assms(2)])

text \<open>The steps after the operation.\<close>

definition settle ::
  "(pyval \<Rightarrow> string res) \<Rightarrow> (pyval \<Rightarrow> string) \<Rightarrow> handling \<Rightarrow> string option \<Rightarrow> rat \<Rightarrow> pyval \<Rightarrow> remote_service \<times> pyval res \<Rightarrow> remote_service \<times> pyval res" where
  "settle dumps pyrepr ha generation later tick' m =
     sbind m (\<lambda>s v. sbind (s, fence_checked pyrepr s (ha_request ha)) (\<lambda>s _.
       sbind (session_current s (ha_session ha) generation tick') (\<lambda>s _.
       sbind (s, rbind (assert_grant_snapshot_current s (ha_grant ha) (ha_version ha) later)
         (\<lambda>_. authorize_request dumps s (ha_request ha) (ha_grant ha) later)) (\<lambda>s _. (s, Inr v)))))"

lemma settle_keeps: "steady f \<Longrightarrow> f (fst (settle dumps pyrepr ha generation later tick' m)) = f (fst m)"
  unfolding settle_def
  by (rule sbind_keeps, simp, rule sbind_keeps [where f = f], simp, rule sbind_keeps [where f = f], simp add: session_current_keeps, rule sbind_keeps [where f = f], simp_all)

lemma settle_Inr: "settle dumps pyrepr ha generation later tick' m = (s, Inr v) \<Longrightarrow> snd m = Inr v"
  by (auto simp: settle_def ok_simps)

lemma guarded_settles:
  "handle_guarded dumps pyrepr ho s ha fp generation now later tick' =
     (case rbind (assert_grant_snapshot_current s (ha_grant ha) (ha_version ha) now)
             (\<lambda>_. authorize_request dumps s (ha_request ha) (ha_grant ha) now) of
        Inl x \<Rightarrow> Some (s, Inl x)
      | Inr _ \<Rightarrow> map_option (settle dumps pyrepr ha generation later tick')
          (if OPERATION_SAFETY (rq_op (ha_request ha)) \<noteq> Some ''read''
           then run_idempotent ho s (request_owner (ha_request ha), rq_id (ha_request ha)) fp now later
             (\<lambda>s. solve_checked dumps ho s ha generation now later tick')
           else Some (solve_checked dumps ho s ha generation now later tick')))"
  unfolding handle_guarded_def settle_def [abs_def] Let_def ..

lemma respond_keeps:
  assumes "host_keeps f ho"
  shows "f (fst (respond canon dumps ho s ha generation later outcome)) = f s"
proof (cases outcome)
  case (Inr v)
  show ?thesis unfolding Inr respond_def Let_def sum.case
    by (rule sbind_keeps) (use assms in \<open>auto simp: host_keeps_def split: option.splits\<close>)
qed (simp add: respond_def Let_def)

lemma run_idempotent_node:
  assumes "host_keeps sv_node ho" "run_idempotent ho s key fp now later op1 = Some (s', r)" "\<And>t. sv_node (fst (op1 t)) = sv_node t"
  shows "sv_node s' = sv_node s"
proof -
  obtain c x where e: "idem_enter (sv_idem s) key fp now = (c, x)" by (cases "idem_enter (sv_idem s) key fp now")
  show ?thesis
  proof (cases x)
    case (Inr y)
    obtain n own where y: "y = (n, own)" by (cases y)
    show ?thesis
    proof (cases own)
      case True
      then show ?thesis using assms(2) assms(3) [of "s\<lparr>sv_idem := c\<rparr>"] e Inr y
        by (auto simp: run_idempotent_def split: prod.splits)
    next
      case False
      have "sv_node (ho_others ho t) = sv_node t" for t using assms(1) by (simp add: host_keeps_def)
      then show ?thesis using assms(2) e Inr y False by (auto simp: run_idempotent_def Let_def)
    qed
  qed (use assms(2) e in \<open>auto simp: run_idempotent_def\<close>)
qed

lemma guarded_node:
  assumes "host_keeps sv_node ho" "handle_guarded dumps pyrepr ho s ha fp generation now later tick' = Some (s', r)"
  shows "sv_node s' = sv_node s"
proof -
  note k = solve_checked_keeps [OF assms(1) steady_parts(1)]
  let ?o = "solve_checked dumps ho s ha generation now later tick'"
  have t: "sv_node s' = sv_node s" if "settle dumps pyrepr ha generation later tick' m = (s', r)" "sv_node (fst m) = sv_node s" for m
    using settle_keeps [OF steady_parts(1), of dumps pyrepr ha generation later tick' m] that by simp
  consider "s' = s" | m where "settle dumps pyrepr ha generation later tick' m = (s', r)" "m = ?o \<or> run_idempotent ho s
        (request_owner (ha_request ha), rq_id (ha_request ha)) fp now later (\<lambda>s. solve_checked dumps ho s ha generation now later tick') = Some m"
    using assms(2) unfolding guarded_settles by (auto split: sum.splits if_splits)
  then show ?thesis
  proof cases
    case (2 m)
    have "sv_node (fst m) = sv_node s"
      using 2(2)
    proof
      assume "m = ?o"
      then show ?thesis using k [of dumps s ha] by simp
    qed (cases m, use run_idempotent_node [OF assms(1) _ k] in simp)
    then show ?thesis using t [OF 2(1)] by simp
  qed simp
qed

section \<open>A client and its service\<close>

lemma sign_request_fields:
  assumes "sign_request canon n op1 params rid nonce ts secret caller session resume generation = Inr env"
  shows "fget env ''node_id'' = PStr n" "fget env ''request_id'' = PStr rid"
  using assms by (auto simp: sign_request_def Let_def ok_simps opt_field_def split: option.splits)

lemma allocate_id_draws: "allocate_id d cs = Inr sid \<Longrightarrow> sid \<in> set cs"
  by (induction cs) (auto split: if_splits)

lemma open_session_id:
  assumes "open_session s q generation tick draws = (s', Inr sid)"
  shows "sid \<in> set draws \<or> rq_session q = Some sid"
proof -
  have "allocate_id d (take 100 draws) = Inr sid \<Longrightarrow> sid \<in> set draws" for d
    using allocate_id_draws [of d "take 100 draws" sid] by (auto dest: in_set_takeD)
  then show ?thesis using assms
    by (auto simp: open_session_def authenticate_def create_session_def resume_session_def Let_def
        split: prod.splits sum.splits option.splits if_splits)
qed

lemma verified_session:
  assumes "verify_request canon secret now freshness env c = (c', Inr q)" "rq_session q = Some sid"
  shows "valid_identifier (PStr sid)"
proof -
  note v = verify_request_unrecorded_Inr [OF verify_request_Inr(1) [OF assms(1)]]
  have "rq_session q = opt_str (fget env ''session_id'')"
    using verify_request_Inr(1) [OF assms(1)] by (auto simp: verify_request_unrecorded_def ok_simps split: if_splits sum.splits)
  then show ?thesis using v(4) assms(2)
    by (auto simp: request_fields_checked_def ok_simps opt_str_def valid_identifier_def is_str_PStr split: if_splits)
qed

lemma handle_begin_session:
  assumes "handle_begin canon pyrepr s loaded generation now tick draws = (s1, Inr ha)" "\<forall>d \<in> set draws. valid_identifier (PStr d)"
  shows "valid_identifier (PStr (ha_session ha))"
proof -
  obtain env where env: "loaded = Inr env" using assms by (cases loaded) (auto simp: handle_begin_def split: if_splits)
  obtain secret g s2 q s3 sid where v: "verify_or_retry canon s secret env now = (s2, Inr q)"
      and o: "open_session s2 q generation tick draws = (s3, Inr sid)" "ha_session ha = sid"
    using assms(1) unfolding env handle_begin_def by (auto simp: ok_simps Let_def split: if_splits)
  obtain c c' where "verify_request canon secret now (sv_freshness s) env c = (c', Inr q)" using verify_or_retry_Inr [OF v] by blast
  then show ?thesis using open_session_id [OF o(1)] verified_session assms(2) o(2) by blast
qed

lemma handle_parts:
  assumes "handle canon dumps pyrepr ho s loaded generation now tick draws later tick' = Some (s', Inr resp)"
  shows "\<exists>s1 ha fp s2 r. handle_begin canon pyrepr s loaded generation now tick draws = (s1, Inr ha)
    \<and> canon (pdict [(''op'', PStr (rq_op (ha_request ha))), (''params'', rq_params (ha_request ha))]) = Inr fp
    \<and> handle_guarded dumps pyrepr ho s1 ha fp generation now later tick' = Some (s2, r)
    \<and> respond canon dumps ho s2 ha generation later r = (s', Inr resp)"
proof -
  obtain s1 b where hb: "handle_begin canon pyrepr s loaded generation now tick draws = (s1, b)"
    by (cases "handle_begin canon pyrepr s loaded generation now tick draws")
  then obtain ha where b: "b = Inr ha" using assms by (cases b) (auto simp: handle_def)
  let ?fp = "canon (pdict [(''op'', PStr (rq_op (ha_request ha))), (''params'', rq_params (ha_request ha))])"
  obtain fp where fp: "?fp = Inr fp" using assms hb b by (cases ?fp) (auto simp: handle_def)
  then show ?thesis using assms hb b by (auto simp: handle_def)
qed

text \<open>What a caller is told of an exception in the service.\<close>

definition reported :: "exn \<Rightarrow> exn_class" where
  "reported e =
     (if isa e RemoteAuthorizationError \<or> isa e PermissionError \<or> isa e RoleAuthorizationError then RemoteAuthorizationError
      else if isa e RemoteUnavailableError then RemoteUnavailableError else RemoteExecutionError)"

lemma respond_reports:
  assumes "respond canon dumps ho s ha generation later r = (s', Inr resp)"
  shows "\<exists>status payload err t. sign_response canon (nid_value (sv_node t)) (rq_id (ha_request ha)) status (ha_secret ha) later payload err
        (Some (ha_session ha)) generation = Inr resp \<and> (t = s \<or> t = s') \<and> status \<in> {''ok'', ''error''}
    \<and> (case r of
        Inl e \<Rightarrow> status = ''error'' \<and> error_text e \<noteq> None \<and> err = error_text e
      | Inr v \<Rightarrow> if dumps_returns dumps v then status = ''ok'' \<and> payload = v else status = ''error'' \<and> err = Some ''execution_failed'')"
proof (cases r)
  case (Inl e)
  then show ?thesis using assms by (auto simp: respond_def Let_def split: option.splits)
next
  case (Inr v)
  let ?c = "case ho_commit ho of Some f \<Rightarrow> if rq_op (ha_request ha) = ''revoke_self'' then f s else (s, Inr ()) | None \<Rightarrow> (s, Inr ())"
  obtain u where "?c = (s', Inr u)" "(case dumps v of
                Inr _ \<Rightarrow> sign_response canon (nid_value (sv_node s)) (rq_id (ha_request ha)) ''ok'' (ha_secret ha) later v None (Some (ha_session ha)) generation
              | Inl e \<Rightarrow> if isa e TypeError \<or> isa e ValueError
                  then sign_response canon (nid_value (sv_node s)) (rq_id (ha_request ha)) ''error'' (ha_secret ha) later PNone (Some ''execution_failed'')
                    (Some (ha_session ha)) generation else Inl e) = Inr resp"
    using assms unfolding respond_def Inr Let_def sum.case by (auto simp: sbind_Inr)
  then show ?thesis unfolding Inr by (cases "dumps v") (auto simp: dumps_returns_def split: if_splits)
qed

lemma end_request_verified:
  assumes "verify_response canon (pv_secret p) now (pv_freshness p) env = Inr r" "rs_node r = pv_node p" "rs_id r = fl_id fl"
  shows "end_request canon p fl (Inr env) now = (note_session (fl_seq fl) (rs_session r) p, response_outcome r)"
  using assms by (simp add: end_request_def)

text \<open>
  C4. The caller learns what the service decided. Let a request that \<open>_request\<close> signed be handled by a service that knows
  the same secret, and let its response come back in time. Then the client accepts it, whatever happened to the provider
  meanwhile, joins the session the service put the request in, and returns the very object the operation returned; if the
  service refused or failed with an exception, the caller gets the exception class that stands for it, and a result that
  JSON cannot write or an empty one is reported as a failure.
\<close>

theorem call_reports:
  assumes call: "begin_request canon p op1 params io = (p1, Inr fl)"
    and run: "handle canon dumps pyrepr ho s (Inr (fl_envelope fl)) generation t tick draws later tick' = Some (s', Inr resp)"
    and cred: "select_credential s (fl_envelope fl) t = Inr (pv_secret p, g)"
    and ids: "nid_ok (pv_node p)" "opt_identifier generation" "\<forall>d \<in> set draws. valid_identifier (PStr d)"
    and fresh: "\<bar>ca_received io - later\<bar> \<le> pv_freshness p"
    and host: "host_keeps sv_node ho" and peer: "same_peer p p2"
  shows "\<exists>s1 ha fp s2 r p3 x. handle_begin canon pyrepr s (Inr (fl_envelope fl)) generation t tick draws = (s1, Inr ha)
    \<and> handle_guarded dumps pyrepr ho s1 ha fp generation t later tick' = Some (s2, r)
    \<and> end_request canon p2 fl (Inr resp) (ca_received io) = (p3, x) \<and> p3 = note_session (fl_seq fl) (Some (ha_session ha)) p2
    \<and> (case r of
        Inl e \<Rightarrow> \<exists>m. x = Inl (Exn (reported e) m)
      | Inr v \<Rightarrow> if dumps_returns dumps v \<and> v \<noteq> PNone then x = Inr v else \<exists>c m. x = Inl (Exn c m) \<and> c \<in> {RemoteProtocolError, RemoteExecutionError})"
proof -
  let ?env = "fl_envelope fl"
  obtain s1 ha fp s2 r where h: "handle_begin canon pyrepr s (Inr ?env) generation t tick draws = (s1, Inr ha)"
      "handle_guarded dumps pyrepr ho s1 ha fp generation t later tick' = Some (s2, r)"
      "respond canon dumps ho s2 ha generation later r = (s', Inr resp)"
    using handle_parts [OF run] by blast
  have b: "sign_request canon (nid_value (pv_node p)) op1 params (ca_id io) (ca_nonce io) (ca_sent io) (pv_secret p)
      (map_option nid_value (pv_caller p)) (pv_session p) (pv_session p \<noteq> None) None = Inr ?env" "fl_id fl = ca_id io"
    using call by (auto simp: begin_request_def Let_def ok_simps split: if_splits)
  note f = sign_request_fields [OF b(1)]
  obtain c c' where hb: "select_credential s ?env t = Inr (ha_secret ha, ha_grant ha)" "rq_node (ha_request ha) = sv_node s"
      "verify_request canon (ha_secret ha) t (sv_freshness s) ?env c = (c', Inr (ha_request ha))"
    using handle_begin_Inr [OF h(1)] by blast
  note v = verify_request_unrecorded_Inr [OF verify_request_Inr(1) [OF hb(3)]]
  have sec: "ha_secret ha = pv_secret p" using hb(1) cred by simp
  have rid: "rq_id (ha_request ha) = ca_id io" "ca_id io \<noteq> []"
    using v(4,12) f(2) by (auto simp: request_fields_checked_def ok_simps valid_identifier_def)
  have "sv_node s = pv_node p" using hb(2) v(7) f(1) by (cases "pv_node p") simp
  then have node: "sv_node s2 = pv_node p"
    using guarded_node [OF host h(2)] handle_begin_keeps [OF steady_parts(1), of canon pyrepr s "Inr ?env" generation t tick draws] h(1) by simp
  then have node': "sv_node s' = pv_node p" using respond_keeps [OF host, of canon dumps s2 ha generation later r] h(3) by simp
  have ses: "opt_identifier (Some (ha_session ha))" using handle_begin_session [OF h(1) ids(3)] by (simp add: opt_identifier_def)
  obtain status payload err w where w: "sign_response canon (nid_value (sv_node w)) (rq_id (ha_request ha)) status (ha_secret ha) later payload err
        (Some (ha_session ha)) generation = Inr resp" "w = s2 \<or> w = s'" "status \<in> {''ok'', ''error''}"
      and st: "case r of
        Inl e \<Rightarrow> status = ''error'' \<and> error_text e \<noteq> None \<and> err = error_text e
      | Inr v \<Rightarrow> if dumps_returns dumps v then status = ''ok'' \<and> payload = v else status = ''error'' \<and> err = Some ''execution_failed''"
    using respond_reports [OF h(3)] by blast
  have wn: "sv_node w = pv_node p" using w(2) node node' by blast
  let ?r = "\<lparr>rs_node = pv_node p, rs_id = ca_id io, rs_status = status, rs_payload = payload,
    rs_error = (case err of None \<Rightarrow> PNone | Some e \<Rightarrow> PStr e), rs_ts = later, rs_session = Some (ha_session ha), rs_generation = generation\<rparr>"
  have ok: "nid_ok (NodeId (nid_value (pv_node p)))" "NodeId (nid_value (pv_node p)) = pv_node p" using ids(1) by (cases "pv_node p"; simp)+
  have "verify_response canon (pv_secret p) (ca_received io) (pv_freshness p) resp = Inr ?r"
    using response_accepted [OF w(1) _ _ w(3) ses ids(2) fresh] ok rid wn sec by simp
  then have e: "end_request canon p2 fl (Inr resp) (ca_received io) = (note_session (fl_seq fl) (Some (ha_session ha)) p2, response_outcome ?r)"
    using end_request_verified [of canon p2 "ca_received io" resp ?r fl] peer b(2) by (simp add: same_peer_def)
  have "case r of
        Inl e \<Rightarrow> \<exists>m. response_outcome ?r = Inl (Exn (reported e) m)
      | Inr v \<Rightarrow> if dumps_returns dumps v \<and> v \<noteq> PNone then response_outcome ?r = Inr v
          else \<exists>c m. response_outcome ?r = Inl (Exn c m) \<and> c \<in> {RemoteProtocolError, RemoteExecutionError}"
  proof (cases r)
    case (Inl e)
    then show ?thesis using st by (auto simp: error_text_def response_outcome_def reported_def raise_def split: if_splits)
  next
    case (Inr v)
    then show ?thesis using st by (auto simp: response_outcome_def raise_def split: if_splits)
  qed
  then show ?thesis using h(1,2) e by blast
qed

section \<open>Repeated requests\<close>

lemma verified_same:
  assumes "verify_request canon secret now freshness env c = (c1, Inr q)" "verify_request canon secret' now' freshness' env c' = (c2, Inr q')"
  shows "request_owner q' = request_owner q \<and> rq_id q' = rq_id q \<and> rq_op q' = rq_op q \<and> rq_params q' = rq_params q"
  using verify_request_unrecorded_Inr(7,9-12) [OF verify_request_Inr(1) [OF assms(1)]]
    verify_request_unrecorded_Inr(7,9-12) [OF verify_request_Inr(1) [OF assms(2)]] by (auto simp: request_owner_def)

abbreviation idem_key_of :: "handling \<Rightarrow> idem_key" where
  "idem_key_of ha \<equiv> (request_owner (ha_request ha), rq_id (ha_request ha))"

lemma run_first:
  assumes "idem_inv (sv_idem s)" "map_of (ic_entries (sv_idem s)) k = None" "\<And>t. sv_idem (fst (op1 t)) = sv_idem t"
    and run: "run_idempotent ho s k fp now later op1 = Some (s', Inr v)"
  shows "\<exists>n. n = length (ic_store (sv_idem s)) \<and> idem_holds k n fp (now + ic_ttl (sv_idem s)) (sv_idem s') \<and> idem_answer (sv_idem s') n = Some (Inr v)"
proof -
  have none: "map_of (ic_entries (idem_prune now (sv_idem s))) k = None"
    using idem_prune_lookup [of "sv_idem s" now k] assms(1,2) by (cases "map_of (ic_entries (idem_prune now (sv_idem s))) k") (auto simp: idem_inv_def)
  obtain c x where e: "idem_enter (sv_idem s) k fp now = (c, x)" by (cases "idem_enter (sv_idem s) k fp now")
  have "x \<noteq> Inl y" for y using run e by (auto simp: run_idempotent_def)
  then obtain n where x: "x = Inr (n, True)" "n = length (ic_store (sv_idem s))"
    using e none by (cases x) (auto simp: idem_enter_def Let_def split: if_splits)
  note held = idem_enter_owner [OF assms(1) e [unfolded x(1)]]
  have new: "ie_error (idem_entry_of c n) = None"
    using e x none by (auto simp: idem_enter_def Let_def idem_entry_of_def split: if_splits)
  obtain t r where o: "op1 (s\<lparr>sv_idem := c\<rparr>) = (t, r)" by (cases "op1 (s\<lparr>sv_idem := c\<rparr>)")
  have t: "sv_idem t = c" using assms(3) [of "s\<lparr>sv_idem := c\<rparr>"] o by simp
  have f: "idem_finish (ho_save ho) c n r later = (sv_idem s', Inr v)"
    using run e x(1) o t by (auto simp: run_idempotent_def split: prod.splits)
  have "idem_holds k n fp (now + ic_ttl (sv_idem s)) (sv_idem s')"
    using idem_holds_step [OF held, of "Finish n r later (ho_save ho)"] f by simp
  moreover have "idem_answer (sv_idem s') n = Some (Inr v)"
    using idem_answer_finish [of n c "ho_save ho" r later] held new f by (simp add: idem_holds_def)
  ultimately show ?thesis using x(2) by blast
qed

lemma run_again:
  assumes "idem_holds k n fp x (sv_idem s)" "now < x" "idem_answer (sv_idem s) n = Some r" "sv_idem (ho_others ho (s\<lparr>sv_idem := idem_prune now (sv_idem s)\<rparr>)) = idem_prune now (sv_idem s)"
  shows "run_idempotent ho s k fp now later op1 = Some (ho_others ho (s\<lparr>sv_idem := idem_prune now (sv_idem s)\<rparr>), r)"
  using idem_enter_held [OF assms(1,2), of fp] assms(3,4) by (simp add: run_idempotent_def idem_answer_def)

lemma sign_response_fields:
  assumes "sign_response canon n rid status secret ts payload err session generation = Inr env"
  shows "fget env ''status'' = PStr status" "fget env ''payload'' = payload"
  using assms by (auto simp: sign_response_def Let_def ok_simps opt_field_def split: option.splits if_splits)

lemma handle_ok:
  assumes "handle canon dumps pyrepr ho s loaded generation now tick draws later tick' = Some (s', Inr resp)" "fget resp ''status'' = PStr ''ok''"
    and "handle_begin canon pyrepr s loaded generation now tick draws = (s0, Inr ha)"
  shows "\<exists>fp s2 v. canon (pdict [(''op'', PStr (rq_op (ha_request ha))), (''params'', rq_params (ha_request ha))]) = Inr fp
    \<and> handle_guarded dumps pyrepr ho s0 ha fp generation now later tick' = Some (s2, Inr v) \<and> fget resp ''payload'' = v
    \<and> s' = fst (respond canon dumps ho s2 ha generation later (Inr v))"
proof -
  obtain fp s2 r where h: "canon (pdict [(''op'', PStr (rq_op (ha_request ha))), (''params'', rq_params (ha_request ha))]) = Inr fp"
      "handle_guarded dumps pyrepr ho s0 ha fp generation now later tick' = Some (s2, r)"
      "respond canon dumps ho s2 ha generation later r = (s', Inr resp)"
    using handle_parts [OF assms(1)] assms(3) by auto
  obtain v where r: "r = Inr v" using respond_ok [OF h(3) assms(2)] by blast
  have "fget resp ''payload'' = v"
    using respond_reports [OF h(3)]
  proof (elim exE conjE)
    fix status payload err t
    assume w: "sign_response canon (nid_value (sv_node t)) (rq_id (ha_request ha)) status (ha_secret ha) later payload err
        (Some (ha_session ha)) generation = Inr resp"
      and st: "case r of
        Inl e \<Rightarrow> status = ''error'' \<and> error_text e \<noteq> None \<and> err = error_text e
      | Inr v \<Rightarrow> if dumps_returns dumps v then status = ''ok'' \<and> payload = v else status = ''error'' \<and> err = Some ''execution_failed''"
    note f = sign_response_fields [OF w]
    from f(1) assms(2) have "status = ''ok''" by (simp only: pyval.inject)
    then have "status \<noteq> ''error''" by simp
    with st [unfolded r sum.case] have "payload = v" by (metis (full_types))
    with f(2) show ?thesis by (simp only:)
  qed
  then show ?thesis using h r by auto
qed

lemma guarded_first:
  assumes "handle_guarded dumps pyrepr ho s ha fp generation now later tick' = Some (s', Inr v)" "host_keeps sv_idem ho"
    and "OPERATION_SAFETY (rq_op (ha_request ha)) \<noteq> Some ''read''" "idem_inv (sv_idem s)" "map_of (ic_entries (sv_idem s)) (idem_key_of ha) = None"
  shows "\<exists>n. n = length (ic_store (sv_idem s)) \<and> idem_holds (idem_key_of ha) n fp (now + ic_ttl (sv_idem s)) (sv_idem s') \<and> idem_answer (sv_idem s') n = Some (Inr v)"
proof -
  obtain m where m: "run_idempotent ho s (idem_key_of ha) fp now later (\<lambda>s. solve_checked dumps ho s ha generation now later tick') = Some m"
      "settle dumps pyrepr ha generation later tick' m = (s', Inr v)"
    using assms(1,3) unfolding guarded_settles by (auto split: sum.splits)
  have "sv_idem s' = sv_idem (fst m)" using settle_keeps [OF steady_parts(2), of dumps pyrepr ha generation later tick' m] m(2) by simp
  moreover have "m = (fst m, Inr v)" using settle_Inr [OF m(2)] by (cases m) simp
  ultimately show ?thesis 
    using run_first [where ?op1.0 = "\<lambda>s. solve_checked dumps ho s ha generation now later tick'", OF assms(4,5) solve_checked_keeps [OF assms(2) steady_parts(2)],
        of ho fp now later "fst m" v] m(1) by simp
qed

lemma guarded_again:
  assumes "idem_holds (idem_key_of ha) n fp x (sv_idem s)" "now < x" "idem_answer (sv_idem s) n = Some (Inr v)"
    and "OPERATION_SAFETY (rq_op (ha_request ha)) \<noteq> Some ''read''" "\<forall>s. sv_idem (ho_others ho s) = sv_idem s"
  shows "handle_guarded dumps pyrepr ho s ha fp generation now later tick' =
     Some (case rbind (assert_grant_snapshot_current s (ha_grant ha) (ha_version ha) now)
             (\<lambda>_. authorize_request dumps s (ha_request ha) (ha_grant ha) now) of
        Inl e \<Rightarrow> (s, Inl e)
      | Inr _ \<Rightarrow> settle dumps pyrepr ha generation later tick' (ho_others ho (s\<lparr>sv_idem := idem_prune now (sv_idem s)\<rparr>), Inr v))"
  using run_again [OF assms(1-3), of ho] assms(4,5) by (simp add: guarded_settles split: sum.splits)

text \<open>
  C5. A request that is sent again is not executed again. Let a request that changes something be answered \<open>ok\<close>, and let its
  answer be lost. When the same envelope arrives again before the entry's time is up, whatever other requests and threads did
  to the cache, then the response does not depend on what the operations of the host would do now, none of them is called; and
  when the service answers \<open>ok\<close> again, it answers the payload of the first execution.
\<close>

theorem retry_runs_once:
  assumes first: "handle canon dumps pyrepr ho s (Inr env) generation now tick draws later tick' = Some (s1, Inr resp)" "fget resp ''status'' = PStr ''ok''"
    and start: "handle_begin canon pyrepr s (Inr env) generation now tick draws = (s0, Inr ha)" "OPERATION_SAFETY (rq_op (ha_request ha)) \<noteq> Some ''read''"
    and cache: "idem_inv (sv_idem s)" "map_of (ic_entries (sv_idem s)) (idem_key_of ha) = None"
    and keep: "host_keeps sv_idem ho" "\<forall>t. sv_idem (ho_others ho2 t) = sv_idem t"
    and between: "sv_idem s2 = foldl idem_step (sv_idem s1) ops"
      "list_all (\<lambda>x. early (now + ic_ttl (sv_idem s)) x \<and> \<not> finishes (length (ic_store (sv_idem s))) x) ops" "now2 < now + ic_ttl (sv_idem s)"
  shows "handle canon dumps pyrepr (ho2\<lparr>ho_role := a, ho_revoke := b, ho_handler := h, ho_provider := pr, ho_process := pc\<rparr>) s2 (Inr env)
      generation2 now2 tick2 draws2 later2 tick2' = handle canon dumps pyrepr ho2 s2 (Inr env) generation2 now2 tick2 draws2 later2 tick2'
    \<and> (\<forall>s3 resp2. handle canon dumps pyrepr ho2 s2 (Inr env) generation2 now2 tick2 draws2 later2 tick2' = Some (s3, Inr resp2)
        \<and> fget resp2 ''status'' = PStr ''ok'' \<longrightarrow> fget resp2 ''payload'' = fget resp ''payload'')"
proof -
  let ?x = "now + ic_ttl (sv_idem s)" let ?n = "length (ic_store (sv_idem s))"
  obtain fp t v where g: "canon (pdict [(''op'', PStr (rq_op (ha_request ha))), (''params'', rq_params (ha_request ha))]) = Inr fp"
      "handle_guarded dumps pyrepr ho s0 ha fp generation now later tick' = Some (t, Inr v)" "fget resp ''payload'' = v"
      "s1 = fst (respond canon dumps ho t ha generation later (Inr v))"
    using handle_ok [OF first start(1)] by blast
  have s0: "sv_idem s0 = sv_idem s"
    using handle_begin_keeps [OF steady_parts(2), of canon pyrepr s "Inr env" generation now tick draws] start(1) by simp
  have s1: "sv_idem s1 = sv_idem t" unfolding g(4) by (rule respond_keeps [OF keep(1)])
  have held: "idem_holds (idem_key_of ha) ?n fp ?x (sv_idem s1)" "idem_answer (sv_idem s1) ?n = Some (Inr v)"
    using guarded_first [OF g(2) keep(1) start(2)] cache s0 s1 by auto
  have ops: "list_all (early ?x) ops" "list_all (\<lambda>x. \<not> finishes ?n x) ops" using between(2) by (auto simp: list_all_iff)
  have held2: "idem_holds (idem_key_of ha) ?n fp ?x (sv_idem s2)" unfolding between(1) using held(1) ops(1) by (rule idem_holds_run)
  have ans2: "idem_answer (sv_idem s2) ?n = Some (Inr v)"
    using idem_entry_run [of ?n "sv_idem s1" ops] held ops(2) by (simp add: between(1) idem_answer_def idem_holds_def)
  obtain u y where y: "handle_begin canon pyrepr s2 (Inr env) generation2 now2 tick2 draws2 = (u, y)"
    by (cases "handle_begin canon pyrepr s2 (Inr env) generation2 now2 tick2 draws2")
  have u: "sv_idem u = sv_idem s2"
    using handle_begin_keeps [OF steady_parts(2), of canon pyrepr s2 "Inr env" generation2 now2 tick2 draws2] y by simp
  show ?thesis
  proof (cases y)
    case (Inl e)
    then show ?thesis using y by (simp add: handle_def)
  next
    case (Inr hb)
    obtain c1 c2 where v1: "verify_request canon (ha_secret ha) now (sv_freshness s) env c1 = (c2, Inr (ha_request ha))"
      using handle_begin_Inr [OF start(1)] by auto
    obtain c3 c4 where v2: "verify_request canon (ha_secret hb) now2 (sv_freshness s2) env c3 = (c4, Inr (ha_request hb))"
      using handle_begin_Inr [OF y [unfolded Inr]] by auto
    note q = verified_same [OF v1 v2]
    note again = guarded_again [of hb ?n fp ?x u now2 v, unfolded u]
    have k: "idem_key_of hb = idem_key_of ha" "rq_op (ha_request hb) = rq_op (ha_request ha)" using q by simp_all
    note again = again [unfolded k, OF held2 between(3) ans2 start(2)]
    let ?ho = "ho2\<lparr>ho_role := a, ho_revoke := b, ho_handler := h, ho_provider := pr, ho_process := pc\<rparr>"
    have e1: "handle_guarded dumps pyrepr ?ho u hb fp generation2 now2 later2 tick2' = handle_guarded dumps pyrepr ho2 u hb fp generation2 now2 later2 tick2'"
      using again [of ?ho] again [of ho2] keep(2) by (simp cong: sum.case_cong)
    have e2: "respond canon dumps ?ho w hb generation2 later2 r = respond canon dumps ho2 w hb generation2 later2 r" for w r
    proof -
      have "ho_commit ?ho = ho_commit ho2" by simp
      then show ?thesis unfolding respond_def by (simp only:)
    qed
    have fp: "canon (pdict [(''op'', PStr (rq_op (ha_request hb))), (''params'', rq_params (ha_request hb))]) = Inr fp" using g(1) q by simp
    have "fget resp2 ''payload'' = v" if r2: "handle canon dumps pyrepr ho2 s2 (Inr env) generation2 now2 tick2 draws2 later2 tick2' = Some (s3, Inr resp2)"
      "fget resp2 ''status'' = PStr ''ok''" for s3 resp2
    proof -
      obtain w v' where "handle_guarded dumps pyrepr ho2 u hb fp generation2 now2 later2 tick2' = Some (w, Inr v')" "fget resp2 ''payload'' = v'"
        using handle_ok [OF r2 y [unfolded Inr]] fp by auto
      then show ?thesis using again [of ho2] keep(2) by (auto split: sum.splits dest!: settle_Inr)
    qed
    moreover have "handle canon dumps pyrepr ?ho s2 (Inr env) generation2 now2 tick2 draws2 later2 tick2'
        = handle canon dumps pyrepr ho2 s2 (Inr env) generation2 now2 tick2 draws2 later2 tick2'"
      unfolding handle_def y Inr prod.case sum.case fp e1 e2 ..
    ultimately show ?thesis using g(3) by blast
  qed
qed

section \<open>Role calls\<close>

fun role_call_ok :: "(pyval \<Rightarrow> string res) \<Rightarrow> role_call \<Rightarrow> bool" where
  "role_call_ok dumps (AssignRole target roles) = (roles \<noteq> [])"
| "role_call_ok dumps (UploadSnapshot payload) =
     (is_dict payload \<and> (case dumps payload of Inl _ \<Rightarrow> False | Inr text \<Rightarrow> length text \<le> MAX_ENVELOPE_BYTES div 2))"
| "role_call_ok dumps (UploadStandbyBatch payload) =
     (is_dict payload \<and> (case dumps payload of Inl _ \<Rightarrow> False | Inr text \<Rightarrow> length text \<le> MAX_ENVELOPE_BYTES div 2))"
| "role_call_ok dumps (RemoveConnection target) = (target \<noteq> [])"
| "role_call_ok dumps (RemoveJob target) = (target \<noteq> [])"
| "role_call_ok dumps (GrantCapabilities subject target permissions expires_at) =
     (subject \<noteq> [] \<and> target \<noteq> [] \<and> permissions \<noteq> [] \<and> list_all (\<lambda>x. x \<in> range permission_value) permissions \<and> isfinite expires_at)"
| "role_call_ok dumps (RevokeCapabilities subject target) = (subject \<noteq> [] \<and> target \<noteq> [])"
| "role_call_ok dumps (SyncCapabilityGrant subject target permissions expires_at) =
     (subject \<noteq> [] \<and> target \<noteq> [] \<and> list_all (\<lambda>x. x \<in> range permission_value) permissions \<and> isfinite expires_at)"
| "role_call_ok dumps _ = True"

lemma role_call_op_role: "role_call_op c \<in> ROLE_OPERATIONS"
  by (cases c) (simp_all add: ROLE_OPERATIONS_def)

lemma role_operation_checked:
  assumes "op1 \<in> ROLE_OPERATIONS" "is_dict params"
  shows "validate_operation_params dumps op1 params = role_params_checked dumps op1 params"
proof -
  have "op1 \<notin> NO_PARAM_OPERATIONS" "op1 \<noteq> ''capability_request''" "op1 \<notin> SURFACE_OPERATIONS" "op1 \<noteq> ''component_summary''"
      "op1 \<notin> {''process_request_quit'', ''process_force_quit''}" "OP_REQUIRED_CAPABILITY op1 = Some CAP_REMOTE_MANAGEMENT"
    using assms(1) by (auto simp: ROLE_OPERATIONS_def NO_PARAM_OPERATIONS_def SURFACE_OPERATIONS_def OP_REQUIRED_CAPABILITY_def)
  then show ?thesis using assms by (simp add: validate_operation_params_def)
qed

lemma role_call_fence:
  "fget (role_call_params c cluster ep token) ''cluster_id'' = PStr cluster" "has_key (role_call_params c cluster ep token) ''cluster_id''"
  "fget (role_call_params c cluster ep token) ''epoch'' = PInt ep" "has_key (role_call_params c cluster ep token) ''epoch''"
  "fget (role_call_params c cluster ep token) ''fencing_token'' = PStr token" "has_key (role_call_params c cluster ep token) ''fencing_token''"
  "is_dict (role_call_params c cluster ep token)"
  by (cases c; simp add: role_call_params_def grant_fields_def)+

lemma grant_fields_checked:
  "grant_params_checked op1 (pdict (grant_fields subject target permissions x @ [(''cluster_id'', PStr cluster), (''epoch'', PInt ep), (''fencing_token'', PStr token)])) = Inr ()
    \<longleftrightarrow> subject \<noteq> [] \<and> target \<noteq> [] \<and> (op1 = ''grant_capabilities'' \<longrightarrow> permissions \<noteq> []) \<and> list_all (\<lambda>x. x \<in> range permission_value) permissions \<and> isfinite x"
  if "op1 \<noteq> ''revoke_capabilities''"
proof -
  let ?d = "pdict (grant_fields subject target permissions x @ [(''cluster_id'', PStr cluster), (''epoch'', PInt ep), (''fencing_token'', PStr token)])"
  have k: "dict_keys ?d = KStr ` ({''cluster_id'', ''epoch'', ''fencing_token'', ''subject_node_id'', ''target_node_id''} \<union> {''permissions'', ''expires_at''})"
    by (auto simp: dict_keys_def pdict_def grant_fields_def)
  have f: "fget ?d ''subject_node_id'' = PStr subject" "fget ?d ''target_node_id'' = PStr target" "fget ?d ''permissions'' = PList (map PStr permissions)"
    "fget ?d ''expires_at'' = PFloat x" by (simp_all add: grant_fields_def)
  show ?thesis using that unfolding grant_params_checked_def Let_def k
    by (simp add: f text_field_def list_all_iff ok_simps grant_fields_def)
qed

lemma revoke_fields_checked:
  "grant_params_checked ''revoke_capabilities'' (pdict [(''subject_node_id'', PStr subject), (''target_node_id'', PStr target),
      (''cluster_id'', PStr cluster), (''epoch'', PInt ep), (''fencing_token'', PStr token)]) = Inr () \<longleftrightarrow> subject \<noteq> [] \<and> target \<noteq> []"
proof -
  let ?d = "pdict [(''subject_node_id'', PStr subject), (''target_node_id'', PStr target), (''cluster_id'', PStr cluster),
      (''epoch'', PInt ep), (''fencing_token'', PStr token)]"
  have k: "dict_keys ?d = KStr ` {''cluster_id'', ''epoch'', ''fencing_token'', ''subject_node_id'', ''target_node_id''}"
    by (auto simp: dict_keys_def pdict_def)
  show ?thesis unfolding grant_params_checked_def Let_def k by (simp add: text_field_def)
qed

text \<open>
  C33. What the client sends is what the service admits: a method of \<open>RemoteRoleOperations\<close> builds parameters that pass the
  service's validation exactly when its fence is complete (a cluster, a token and an epoch that is not negative) and its own
  arguments are admissible; the two sides never disagree about the fields.
\<close>

theorem role_calls_admitted:
  "validate_operation_params dumps (role_call_op c) (role_call_params c cluster ep token) = Inr ()
    \<longleftrightarrow> cluster \<noteq> [] \<and> token \<noteq> [] \<and> 0 \<le> ep \<and> role_call_ok dumps c"
proof -
  note v = role_operation_checked [OF role_call_op_role [of c] role_call_fence(7) [of c cluster ep token], of dumps]
  have t: "text_field (role_call_params c cluster ep token) ''cluster_id'' \<longleftrightarrow> cluster \<noteq> []"
    "text_field (role_call_params c cluster ep token) ''fencing_token'' \<longleftrightarrow> token \<noteq> []"
    using role_call_fence [of c cluster ep token] by (simp_all add: text_field_def)
  show ?thesis
  proof (cases "cluster \<noteq> [] \<and> token \<noteq> [] \<and> 0 \<le> ep")
    case True
    note w = True v [unfolded role_params_checked_def] role_call_fence [of c cluster ep token] t
    show ?thesis
    proof (cases c)
      case (GrantCapabilities a b p x)
      then show ?thesis using w grant_fields_checked [of "''grant_capabilities''" a b p x cluster ep token]
        by (simp add: role_call_params_def)
    next
      case (SyncCapabilityGrant a b p x)
      then show ?thesis using w grant_fields_checked [of "''sync_capability_grant''" a b p x cluster ep token]
        by (simp add: role_call_params_def)
    next
      case (RevokeCapabilities a b)
      then show ?thesis using w revoke_fields_checked [of a b cluster ep token] by (simp add: role_call_params_def)
    qed (use w in \<open>auto simp: role_call_params_def ok_simps list_all_iff split: sum.splits\<close>)
  next
    case False
    then show ?thesis using v role_call_fence [of c cluster ep token] t by (auto simp: role_params_checked_def)
  qed
qed

section \<open>Operations over any request function\<close>

text \<open>What the operations of the provider need of \<open>_request\<close>: it keeps the peer and returns objects.\<close>

locale requests =
  fixes request :: requester
  assumes request_keeps: "same_peer p (fst (request p op1 params))"
    and request_object: "request p op1 params = (p', Inr v) \<Longrightarrow> is_dict v"
begin

lemma hello_Inr:
  assumes "provider_hello request p = (p', Inr v)"
  shows "request p ''hello'' (PDict []) = (p', Inr v) \<and> fget v ''ok'' = PBool True \<and> fget v ''node_id'' = PStr (nid_value (pv_node p))"
proof -
  obtain c where r: "request p ''hello'' (PDict []) = (p', Inr v)" "validate_hello_payload v (Some (pv_node p')) = Inr c"
    using assms by (auto simp: provider_hello_def ok_simps)
  have "pv_node p' = pv_node p" using request_keeps [of p "''hello''" "PDict []"] r(1) by (simp add: same_peer_def)
  then show ?thesis using r by (auto simp: validate_hello_payload_def is_str_PStr split: if_splits)
qed

lemma shared_Inr:
  assumes "request_shared request p capability params = (p', Inr v)"
  shows "\<exists>payload. request p ''capability_request'' (pdict [(''capability'', PStr capability), (''params'', object_or_empty params)]) = (p', Inr payload)
    \<and> is_dict payload \<and> fitem payload ''result'' = Inr v"
  using assms request_object by (auto simp: request_shared_def ok_simps split: if_splits)

lemma surface_Inr:
  assumes "surface_request dumps request p op1 params = (p', Inr v)"
  shows "\<exists>payload. validate_surface_operation_params (dumps_returns dumps) RemoteProtocolError op1 params = Inr ()
    \<and> request p op1 params = (p', Inr payload) \<and> fitem payload ''result'' = Inr v"
  using assms by (auto simp: surface_request_def ok_simps split: if_splits)

end

lemma end_request_keeps: "same_peer p (fst (end_request canon p fl loaded now))"
  using client_step_session [of p canon "End fl loaded now"] by simp

lemma begin_request_keeps: "same_peer p (fst (begin_request canon p op1 params io))"
  using client_step_session [of p canon "Begin op1 params io"] by simp

lemma provider_request_keeps: "same_peer p (fst (provider_request canon send cancel (\<lambda>p. p) io p op1 params))"
proof -
  obtain p1 x where b: "begin_request canon p op1 params io = (p1, x)" by (cases "begin_request canon p op1 params io")
  have k: "same_peer p p1" using begin_request_keeps [of p canon op1 params io] b by simp
  show ?thesis using k end_request_keeps [of p1 canon] same_peer_trans [OF k]
    by (cases x; cases "request_with_retry (send (fl_envelope (projr x))) cancel (PInt (attempts_of op1))") (auto simp: provider_request_def b)
qed

interpretation calls: requests "provider_request canon send cancel (\<lambda>p. p) io" for canon send cancel io
proof unfold_locales
  show "is_dict v" if run: "provider_request canon send cancel (\<lambda>p. p) io p op1 params = (p', Inr v)" for p op1 params p' v
  proof -
    obtain p1 fl loaded where "end_request canon p1 fl loaded (ca_received io) = (p', Inr v)"
      using run unfolding provider_request_def sbind_Inr by blast
    from end_request_Inr [OF this] show ?thesis by (auto dest: verify_response_Inr(7))
  qed
qed (rule provider_request_keeps)

text \<open>
  A greeting comes from the node that was asked: \<open>hello\<close> returns a payload only if a believed answer carried it, and the
  payload is positive and names the provider's own node.
\<close>

theorem hello_names_peer:
  assumes "provider_hello (provider_request canon send cancel (\<lambda>p. p) io) p = (p', Inr v)"
  shows "provider_request canon send cancel (\<lambda>p. p) io p ''hello'' (PDict []) = (p', Inr v)
    \<and> fget v ''ok'' = PBool True \<and> fget v ''node_id'' = PStr (nid_value (pv_node p))"
  using assms by (rule calls.hello_Inr)

end
