(* ===== verification/ClientExamples.thy ===== *)
theory ClientExamples
  imports ClientLaws
begin

text \<open>
  The properties of the client at concrete inputs: a ping whose first answer is lost, two answers out of order, a greeting
  handled by a service, and a self-revocation that is sent twice.
\<close>

definition demo_provider :: remote_provider where
  "demo_provider = provider_new (NodeId ''b'') ''key'' 60 (Some (NodeId ''a''))"

definition demo_call :: call_io where
  "demo_call = \<lparr>ca_id = ''r-1'', ca_nonce = ''n-1'', ca_sent = 100, ca_received = 112, ca_cancelled = False\<rparr>"

definition demo_payload :: pyval where
  "demo_payload = pdict [(''pong'', PInt 1)]"

definition demo_reply :: "string \<Rightarrow> string \<Rightarrow> pyval" where
  "demo_reply rid sid = (case sign_response demo_canon ''b'' rid ''ok'' ''key'' 111 demo_payload None (Some sid) None of Inl _ \<Rightarrow> PNone | Inr d \<Rightarrow> d)"

lemma demo_reply_signed: "sign_response demo_canon ''b'' rid ''ok'' ''key'' 111 demo_payload None (Some sid) None = Inr (demo_reply rid sid)"
  by (simp add: demo_reply_def sign_response_def demo_payload_def Let_def signature_def demo_canon_def pdict_def)

lemma demo_reply_verified:
  assumes "rid \<noteq> []" "valid_identifier (PStr sid)"
  shows "verify_response demo_canon ''key'' 112 60 (demo_reply rid sid) = Inr \<lparr>rs_node = NodeId ''b'', rs_id = rid, rs_status = ''ok'',
    rs_payload = demo_payload, rs_error = PNone, rs_ts = 111, rs_session = Some sid, rs_generation = None\<rparr>"
  using response_accepted [OF demo_reply_signed, of rid sid 112 60] assms by (simp add: opt_identifier_def nid_ok_def)

lemma demo_session_ids: "valid_identifier (PStr ''s1'')" "valid_identifier (PStr ''s2'')"
  by (simp_all add: valid_identifier_def MAX_IDENTIFIER_LENGTH_def str_isalnum_def)

definition demo_send :: "pyval \<Rightarrow> nat \<Rightarrow> pyval res res" where
  "demo_send env k = (if k = 0 then raise RemoteTransportError ''reset'' else Inr (Inr (demo_reply ''r-1'' ''s1'')))"

lemma demo_begun:
  "sign_request demo_canon ''b'' op1 params ''r-1'' ''n-1'' 100 ''key'' (Some ''a'') None False None = Inr env
    \<Longrightarrow> begin_request demo_canon demo_provider op1 params demo_call = (demo_provider\<lparr>pv_sent := 1\<rparr>, Inr \<lparr>fl_seq = 1, fl_id = ''r-1'', fl_envelope = env\<rparr>)"
  by (simp add: begin_request_def demo_provider_def provider_new_def demo_call_def)

lemma demo_answered:
  "provider_request demo_canon demo_send (\<lambda>_. False) (\<lambda>x. x) demo_call demo_provider ''ping'' (PDict [])
     = (note_session 1 (Some ''s1'') (demo_provider\<lparr>pv_sent := 1\<rparr>), Inr demo_payload)"
proof -
  have "attempts_of ''ping'' = 2"
    by (simp add: attempts_of_def OPERATION_SAFETY_def OP_REQUIRED_CAPABILITY_def NO_PARAM_OPERATIONS_def ROLE_OPERATIONS_def)
  then have "request_with_retry (demo_send env) (\<lambda>_. False) (PInt (attempts_of ''ping'')) = Inr (Inr (demo_reply ''r-1'' ''s1''))" for env
    by (simp add: request_with_retry_def demo_send_def numeral_eq_Suc raise_def)
  note sent = this
  have e: "end_request demo_canon (demo_provider\<lparr>pv_sent := 1\<rparr>) \<lparr>fl_seq = 1, fl_id = ''r-1'', fl_envelope = demo_envelope\<rparr> (Inr (demo_reply ''r-1'' ''s1'')) 112
      = (note_session 1 (Some ''s1'') (demo_provider\<lparr>pv_sent := 1\<rparr>), Inr demo_payload)"
    using demo_reply_verified [of "''r-1''" "''s1''"] demo_session_ids(1)
    by (simp add: end_request_def demo_provider_def provider_new_def response_outcome_def demo_payload_def pdict_def)
  then show ?thesis
    unfolding provider_request_def demo_begun [OF demo_signed] sbind_simps in_flight.select_convs sent by (simp add: demo_call_def)
qed

theorem client_answer_sound_witness:
  "\<not> pv_invalidated demo_provider \<and> (\<exists>env k resp. demo_send env k = Inr (Inr resp) \<and> demo_payload = fget resp ''payload'')"
  using client_answer_sound [OF demo_answered] by blast

text \<open>The answer to the second request comes before the answer to the first.\<close>

definition demo_late :: "client_op list" where
  "demo_late = [End \<lparr>fl_seq = 2, fl_id = ''r-2'', fl_envelope = PNone\<rparr> (Inr (demo_reply ''r-2'' ''s2'')) 112,
     End \<lparr>fl_seq = 1, fl_id = ''r-1'', fl_envelope = PNone\<rparr> (Inr (demo_reply ''r-1'' ''s1'')) 112]"

theorem newest_session_wins_witness:
  "pv_session (foldl (client_step demo_canon) demo_provider demo_late) = Some ''s2''
   \<and> pv_session (foldl (client_step demo_canon) demo_provider (rev demo_late)) = Some ''s2''"
proof -
  have b: "believed demo_canon demo_provider (demo_late ! 0) = Some (2, Some ''s2'')" "believed demo_canon demo_provider (demo_late ! 1) = Some (1, Some ''s1'')"
    using demo_reply_verified [of "''r-2''" "''s2''"] demo_reply_verified [of "''r-1''" "''s1''"] demo_session_ids
    by (simp_all add: demo_late_def demo_provider_def provider_new_def)
  have m: "demo_late ! 0 \<in> set demo_late" by (simp add: demo_late_def)
  have a: "pv_answered demo_provider \<le> 2" by (simp add: demo_provider_def provider_new_def)
  have o: "\<forall>y \<in> set demo_late. \<forall>m s. believed demo_canon demo_provider y = Some (m, s) \<longrightarrow> m < 2 \<or> m = 2 \<and> s = Some ''s2''"
  proof -
    have "set demo_late = {demo_late ! 0, demo_late ! 1}" by (simp add: demo_late_def)
    then show ?thesis using b by auto
  qed
  from newest_session_wins [OF m b(1) a o, of demo_late] newest_session_wins [OF m b(1) a o, of "rev demo_late"] show ?thesis by simp
qed

lemma demo_host_keeps: "host_keeps sv_node demo_host" "host_keeps sv_idem demo_host"
  by (simp_all add: host_keeps_def demo_host_def)

theorem call_reports_witness:
  "\<exists>s' resp p3 x. handle demo_canon demo_canon (\<lambda>_. []) demo_host demo_service (Inr demo_hello) None 110 (PInt 1) [''s1''] 111 (PInt 2)
     = Some (s', Inr resp)
   \<and> end_request demo_canon demo_provider \<lparr>fl_seq = 1, fl_id = ''r-1'', fl_envelope = demo_hello\<rparr> (Inr resp) 112 = (p3, x) \<and> pv_session p3 = Some ''s1''"
proof -
  obtain s' resp where r: "handle demo_canon demo_canon (\<lambda>_. []) demo_host demo_service (Inr demo_hello) None 110 (PInt 1) [''s1''] 111 (PInt 2)
     = Some (s', Inr resp)" using demo_answer by blast
  have c: "select_credential demo_service demo_hello 110 = Inr (pv_secret demo_provider, None)"
    by (simp add: select_credential_def demo_service_def demo_provider_def provider_new_def)
  have n: "nid_ok (pv_node demo_provider)" by (simp add: demo_provider_def provider_new_def nid_ok_def)
  have i: "\<forall>d \<in> set [''s1'']. valid_identifier (PStr d)" using demo_session_ids by simp
  have g: "opt_identifier None" by (simp add: opt_identifier_def)
  have f: "\<bar>ca_received demo_call - 111\<bar> \<le> pv_freshness demo_provider" by (simp add: demo_call_def demo_provider_def provider_new_def)
  have p: "same_peer demo_provider demo_provider" by (simp add: same_peer_def)
  obtain s1 ha fp s2 y p3 x where w: "handle_begin demo_canon (\<lambda>_. []) demo_service (Inr demo_hello) None 110 (PInt 1) [''s1''] = (s1, Inr ha)"
      "end_request demo_canon demo_provider \<lparr>fl_seq = 1, fl_id = ''r-1'', fl_envelope = demo_hello\<rparr> (Inr resp) 112 = (p3, x)"
      "p3 = note_session 1 (Some (ha_session ha)) demo_provider"
    using call_reports [OF demo_begun [OF demo_hello_signed], unfolded in_flight.select_convs, OF r c n g i f demo_host_keeps(1) p]
    by (auto simp: demo_call_def)
  have "ha_session ha = ''s1''" using demo_begin w(1) by auto
  then have "pv_session p3 = Some ''s1''" unfolding w(3) by (simp add: note_session_def demo_provider_def provider_new_def)
  then show ?thesis using r w(2) by blast
qed

text \<open>A peer asks twice to be forgotten; the second service would refuse if it were asked.\<close>

definition demo_forget :: pyval where
  "demo_forget = (case sign_request demo_canon ''b'' ''revoke_self'' (PDict []) ''r-1'' ''n-1'' 100 ''key'' (Some ''a'') None False None of
     Inl _ \<Rightarrow> PNone | Inr env \<Rightarrow> env)"

lemma demo_forget_signed:
  "sign_request demo_canon ''b'' ''revoke_self'' (PDict []) ''r-1'' ''n-1'' 100 ''key'' (Some ''a'') None False None = Inr demo_forget"
  by (simp add: demo_forget_def sign_request_def Let_def signature_def demo_canon_def split: sum.splits)

definition demo_forgetting :: remote_request where
  "demo_forgetting = \<lparr>rq_node = NodeId ''b'', rq_caller = Some (NodeId ''a''), rq_op = ''revoke_self'', rq_params = PDict [], rq_id = ''r-1'',
     rq_nonce = ''n-1'', rq_ts = 100, rq_session = None, rq_resume = False, rq_generation = None\<rparr>"

definition demo_forgetter :: host where
  "demo_forgetter = demo_host\<lparr>ho_revoke := Some (\<lambda>_ s. (s, Inr demo_payload))\<rparr>"

definition demo_handling :: handling where
  "demo_handling = \<lparr>ha_request = demo_forgetting, ha_grant = None, ha_version = 0, ha_secret = ''key'', ha_session = ''s1''\<rparr>"

lemma demo_forget_begin:
  "\<exists>s1. handle_begin demo_canon (\<lambda>_. []) demo_service (Inr demo_forget) None 110 (PInt 1) [''s1''] = (s1, Inr demo_handling)
   \<and> sv_capabilities s1 = {CAP_READ_STATE} \<and> sv_permissions s1 = {READ_STATE} \<and> sv_version s1 = 0 \<and> sv_cluster_grants s1 = [] \<and> sv_idem s1 = demo_idem
   \<and> map_of (sg_sessions (sv_sessions s1)) ''s1'' = Some \<lparr>ls_owner = ''a'', ls_active = None, ls_expires = 601, ls_retired = {}\<rparr>"
proof -
  obtain c where "verify_request demo_canon ''key'' 110 60 demo_forget (replay_new 300 4096) = (c, Inr demo_forgetting)"
    using request_accepted [OF demo_forget_signed demo_inputs_ok _ demo_fresh, of 60] by (simp add: demo_forgetting_def)
  then show ?thesis
    by (simp add: handle_begin_def select_credential_def demo_service_def verify_or_retry_def demo_forgetting_def open_session_def demo_handling_def
        authenticate_def validate_generation_def validated_clock_def float_limit_def create_session_def prune_locked_def
        valid_token_def MAX_IDENTIFIER_LENGTH_def Let_def fence_checked_def ROLE_OPERATIONS_def request_owner_def)
qed

lemma demo_forget_safety: "OPERATION_SAFETY (rq_op (ha_request demo_handling)) = Some ''retry_safe''"
  by (simp add: demo_handling_def demo_forgetting_def OPERATION_SAFETY_def OP_REQUIRED_CAPABILITY_def NO_PARAM_OPERATIONS_def ROLE_OPERATIONS_def)

lemma demo_idem_run:
  assumes "sv_idem s = demo_idem" "\<And>c. op1 (s\<lparr>sv_idem := c\<rparr>) = (s\<lparr>sv_idem := c\<rparr>, Inr v)"
  shows "\<exists>c. run_idempotent ho s k fp 110 111 op1 = Some (s\<lparr>sv_idem := c\<rparr>, Inr v)"
  by (rule exI [of _ "\<lparr>ic_ttl = 300, ic_max = 4096, ic_entries = [(k, 0)], ic_store = [\<lparr>ie_fingerprint = fp, ie_expires = 410,
      ie_event = True, ie_result = Some v, ie_error = None, ie_complete = True\<rparr>], ic_stored = False\<rparr>"])
    (simp add: assms run_idempotent_def idem_enter_def idem_prune_def demo_idem_def idem_finish_def idem_done_def Let_def
      idem_save_state_def set_entry_def)

lemma demo_forgotten:
  "\<exists>s' resp. handle demo_canon demo_canon (\<lambda>_. []) demo_forgetter demo_service (Inr demo_forget) None 110 (PInt 1) [''s1''] 111 (PInt 2)
     = Some (s', Inr resp) \<and> fget resp ''status'' = PStr ''ok''"
proof -
  obtain s1 where b: "handle_begin demo_canon (\<lambda>_. []) demo_service (Inr demo_forget) None 110 (PInt 1) [''s1''] = (s1, Inr demo_handling)"
      and s1: "sv_capabilities s1 = {CAP_READ_STATE}" "sv_permissions s1 = {READ_STATE}" "sv_version s1 = 0" "sv_cluster_grants s1 = []" "sv_idem s1 = demo_idem"
      and ses: "map_of (sg_sessions (sv_sessions s1)) ''s1'' = Some \<lparr>ls_owner = ''a'', ls_active = None, ls_expires = 601, ls_retired = {}\<rparr>"
    using demo_forget_begin by blast
  have cur: "session_current (s1\<lparr>sv_idem := c\<rparr>) ''s1'' None (PInt 2) = (s1\<lparr>sv_idem := c\<rparr>, Inr ())" for c
    using ses by (simp add: session_current_def assert_current_def validate_generation_def validated_clock_def float_limit_def
        valid_token_def MAX_IDENTIFIER_LENGTH_def)
  have auth: "authorize_request demo_canon (s1\<lparr>sv_idem := c\<rparr>) demo_forgetting None t = Inr None" for c t
    using s1 by (simp add: authorize_request_def demo_forgetting_def OP_REQUIRED_CAPABILITY_def OP_REQUIRED_PERMISSION_def
        NO_PARAM_OPERATIONS_def find_cluster_grant_def SURFACE_OPERATIONS_def)
  have snap: "assert_grant_snapshot_current (s1\<lparr>sv_idem := c\<rparr>) None 0 t = Inr ()" for c t using s1 by (simp add: assert_grant_snapshot_current_def)
  have same: "s1\<lparr>sv_idem := demo_idem\<rparr> = s1" using s1(5) by simp
  have "solve demo_canon demo_forgetter (s1\<lparr>sv_idem := c\<rparr>) demo_forgetting None 110 = (s1\<lparr>sv_idem := c\<rparr>, Inr demo_payload)" for c
    using auth [of c 110] by (simp add: solve_def demo_forgetting_def validate_operation_params_def OP_REQUIRED_CAPABILITY_def
        NO_PARAM_OPERATIONS_def ROLE_OPERATIONS_def SURFACE_OPERATIONS_def demo_forgetter_def)
  then have sc: "solve_checked demo_canon demo_forgetter (s1\<lparr>sv_idem := c\<rparr>) demo_handling None 110 111 (PInt 2) = (s1\<lparr>sv_idem := c\<rparr>, Inr demo_payload)" for c
    using snap cur by (simp add: solve_checked_def demo_handling_def)
  have st: "settle demo_canon (\<lambda>_. []) demo_handling None 111 (PInt 2) (s1\<lparr>sv_idem := c\<rparr>, Inr demo_payload) = (s1\<lparr>sv_idem := c\<rparr>, Inr demo_payload)" for c
    using snap cur auth by (simp add: settle_def demo_handling_def fence_checked_def demo_forgetting_def ROLE_OPERATIONS_def)
  have run: "\<exists>c. run_idempotent demo_forgetter s1 (idem_key_of demo_handling) fp 110 111
      (\<lambda>s. solve_checked demo_canon demo_forgetter s demo_handling None 110 111 (PInt 2)) = Some (s1\<lparr>sv_idem := c\<rparr>, Inr demo_payload)" for fp
    by (rule demo_idem_run [OF s1(5) sc])
  have checks: "rbind (assert_grant_snapshot_current s1 (ha_grant demo_handling) (ha_version demo_handling) 110)
      (\<lambda>_. authorize_request demo_canon s1 (ha_request demo_handling) (ha_grant demo_handling) 110) = Inr None"
    using snap [of demo_idem 110] auth [of demo_idem 110] unfolding same by (simp add: demo_handling_def)
  have guarded: "\<exists>c. handle_guarded demo_canon (\<lambda>_. []) demo_forgetter s1 demo_handling fp None 110 111 (PInt 2) = Some (s1\<lparr>sv_idem := c\<rparr>, Inr demo_payload)" for fp
    using run [of fp] st demo_forget_safety unfolding guarded_settles checks by auto
  have answered: "\<exists>resp. respond demo_canon demo_canon demo_forgetter s demo_handling None 111 (Inr demo_payload) = (s, Inr resp) \<and> fget resp ''status'' = PStr ''ok''" for s
    by (simp add: respond_def demo_forgetter_def demo_host_def demo_canon_def sign_response_def demo_payload_def signature_def Let_def opt_field_def)
  obtain c where guard: "handle_guarded demo_canon (\<lambda>_. []) demo_forgetter s1 demo_handling (show_nat 2) None 110 111 (PInt 2) = Some (s1\<lparr>sv_idem := c\<rparr>, Inr demo_payload)"
    using guarded by blast
  have fp: "demo_canon (pdict [(''op'', PStr (rq_op (ha_request demo_handling))), (''params'', rq_params (ha_request demo_handling))]) = Inr (show_nat 2)"
    by (simp add: demo_canon_def pdict_def numeral_2_eq_2)
  show ?thesis using answered [of "s1\<lparr>sv_idem := c\<rparr>"] unfolding handle_def b prod.case sum.case fp guard option.map by blast
qed

definition demo_unasked :: host where
  "demo_unasked = demo_host\<lparr>ho_revoke := Some (\<lambda>_ s. (s, raise RemoteUnavailableError []))\<rparr>"

theorem retry_runs_once_witness:
  "\<exists>s1 resp. handle demo_canon demo_canon (\<lambda>_. []) demo_forgetter demo_service (Inr demo_forget) None 110 (PInt 1) [''s1''] 111 (PInt 2) = Some (s1, Inr resp)
    \<and> (\<forall>b. handle demo_canon demo_canon (\<lambda>_. []) (demo_unasked\<lparr>ho_role := None, ho_revoke := b, ho_handler := \<lambda>_ _ _ s. (s, Inr PNone),
          ho_provider := \<lambda>_ s. (s, Inr PNone), ho_process := None\<rparr>) s1 (Inr demo_forget) None 120 (PInt 3) [''s2''] 121 (PInt 4)
        = handle demo_canon demo_canon (\<lambda>_. []) demo_unasked s1 (Inr demo_forget) None 120 (PInt 3) [''s2''] 121 (PInt 4))"
proof -
  obtain s1 resp where r: "handle demo_canon demo_canon (\<lambda>_. []) demo_forgetter demo_service (Inr demo_forget) None 110 (PInt 1) [''s1''] 111 (PInt 2)
     = Some (s1, Inr resp)" "fget resp ''status'' = PStr ''ok''" using demo_forgotten by blast
  obtain s0 where b: "handle_begin demo_canon (\<lambda>_. []) demo_service (Inr demo_forget) None 110 (PInt 1) [''s1''] = (s0, Inr demo_handling)"
    using demo_forget_begin by blast
  have o: "OPERATION_SAFETY (rq_op (ha_request demo_handling)) \<noteq> Some ''read''" using demo_forget_safety by simp
  have i: "sv_idem demo_service = demo_idem" by (simp add: demo_service_def)
  have c: "idem_inv (sv_idem demo_service)" "map_of (ic_entries (sv_idem demo_service)) (idem_key_of demo_handling) = None"
    using demo_idem_inv unfolding i by (simp_all add: demo_idem_def)
  have k: "host_keeps sv_idem demo_forgetter" "\<forall>t. sv_idem (ho_others demo_unasked t) = sv_idem t"
    by (simp_all add: host_keeps_def demo_forgetter_def demo_unasked_def demo_host_def)
  have n: "sv_idem s1 = foldl idem_step (sv_idem s1) []" "list_all (\<lambda>x. early (110 + ic_ttl (sv_idem demo_service)) x
      \<and> \<not> finishes (length (ic_store (sv_idem demo_service))) x) []" "120 < 110 + ic_ttl (sv_idem demo_service)"
    unfolding i by (simp_all add: demo_idem_def)
  show ?thesis using retry_runs_once [OF r b o c k n] r(1) by blast
qed

text \<open>A greeting.\<close>

definition demo_greeting :: pyval where
  "demo_greeting = pdict [(''ok'', PBool True), (''node_id'', PStr ''b''), (''identity_fingerprint'', PStr ''f'')]"

definition demo_greeting_reply :: pyval where
  "demo_greeting_reply = (case sign_response demo_canon ''b'' ''r-1'' ''ok'' ''key'' 111 demo_greeting None (Some ''s1'') None of Inl _ \<Rightarrow> PNone | Inr d \<Rightarrow> d)"

lemma demo_greeting_signed: "sign_response demo_canon ''b'' ''r-1'' ''ok'' ''key'' 111 demo_greeting None (Some ''s1'') None = Inr demo_greeting_reply"
  by (simp add: demo_greeting_reply_def sign_response_def demo_greeting_def Let_def signature_def demo_canon_def pdict_def)

theorem hello_names_peer_witness:
  "\<exists>p' v. provider_hello (provider_request demo_canon (\<lambda>_ _. Inr (Inr demo_greeting_reply)) (\<lambda>_. False) (\<lambda>p. p) demo_call) demo_provider = (p', Inr v)
    \<and> fget v ''node_id'' = PStr (nid_value (pv_node demo_provider))"
proof -
  let ?request = "provider_request demo_canon (\<lambda>_ _. Inr (Inr demo_greeting_reply)) (\<lambda>_. False) (\<lambda>p. p) demo_call"
  let ?p = "note_session 1 (Some ''s1'') (demo_provider\<lparr>pv_sent := 1\<rparr>)"
  have sent: "request_with_retry (\<lambda>_. Inr (Inr demo_greeting_reply)) (\<lambda>_. False) (PInt (attempts_of ''hello'')) = Inr (Inr demo_greeting_reply)"
    by (simp add: request_with_retry_def attempts_of_def numeral_eq_Suc)
  have v: "verify_response demo_canon ''key'' 112 60 demo_greeting_reply = Inr \<lparr>rs_node = NodeId ''b'', rs_id = ''r-1'', rs_status = ''ok'',
    rs_payload = demo_greeting, rs_error = PNone, rs_ts = 111, rs_session = Some ''s1'', rs_generation = None\<rparr>"
    using response_accepted [OF demo_greeting_signed, of 112 60] demo_session_ids by (simp add: opt_identifier_def nid_ok_def)
  have e: "end_request demo_canon (demo_provider\<lparr>pv_sent := 1\<rparr>) \<lparr>fl_seq = 1, fl_id = ''r-1'', fl_envelope = demo_hello\<rparr> (Inr demo_greeting_reply) 112
      = (?p, Inr demo_greeting)"
    using v by (simp add: end_request_def demo_provider_def provider_new_def response_outcome_def demo_greeting_def pdict_def)
  have r: "?request demo_provider ''hello'' (PDict []) = (?p, Inr demo_greeting)"
    using e unfolding provider_request_def demo_begun [OF demo_hello_signed] sbind_simps in_flight.select_convs sent by (simp add: demo_call_def)
  have n: "pv_node ?p = NodeId ''b''" by (simp add: note_session_def demo_provider_def provider_new_def)
  have c: "validate_hello_payload demo_greeting (Some (NodeId ''b'')) = Inr {}"
    by (simp add: validate_hello_payload_def demo_greeting_def parse_hello_capabilities_def REMOTE_PROTOCOL_VERSION_def)
  have "provider_hello ?request demo_provider = (?p, Inr demo_greeting)"
    unfolding provider_hello_def r sbind_simps n c by simp
  from hello_names_peer [OF this] this show ?thesis by blast
qed

end
