(* ===== verification/PairingFlow.thy ===== *)
theory PairingFlow
  imports RuntimeTrust
begin

text \<open>
  Pairing over the network: the answering side (\<open>pairing/target.py\<close>), the asking side (\<open>pairing/flow.py\<close>) and the messages
  between them (\<open>AuthenticatedNodeProvider.request_pairing\<close> and \<open>pairing_control\<close> in \<open>remote/provider.py\<close>).

  \<open>NetworkPairing\<close> works on the pairing manager and the candidates of its runtime and persists through it, so its
  operations are functions of \<open>runtime\<close>. What a run obtains from outside is one record, \<open>pairing_io\<close>: the reply on each
  route, the reply to a control message, the readings of the cancel event at the moments the code reads it, the two saves,
  the clock readings and the random texts. Route reports to the host are left out: they change nothing and their errors
  are swallowed.
\<close>

section \<open>Answering a pairing request\<close>

definition refusal :: "string \<Rightarrow> pyval" where
  "refusal outcome = pdict [(''approved'', PBool False), (''outcome'', PStr outcome)]"

definition pairing_response :: "runtime \<Rightarrow> pending_pairing \<Rightarrow> pyval res" where
  "pairing_response r t =
     (case map_of (rt_permissions r) (pp_id t) of
        None \<Rightarrow> raise KeyError (pp_id t)
      | Some ps \<Rightarrow> Inr (pdict (
          [(''approved'', PBool True), (''transaction_id'', PStr (pp_id t)), (''caller_node_id'', PStr (nid_value (pp_peer t)))]
          @ binding_items (pp_binding t)
          @ [(''intent'', PStr (pp_intent t)), (''secret'', PStr (pp_secret t)), (''permissions'', sorted_permissions ps),
             (''expires_at'', PFloat (Fin (pp_expires t)))])))"

definition request_binding :: "pairing_request \<Rightarrow> binding" where
  "request_binding q = \<lparr>bd_identity = Some (pq_identity q), bd_transport = Some (pq_transport q), bd_root = pq_root q,
     bd_generation = pq_generation q, bd_proof = pq_proof q\<rparr>"

text \<open>The host's callback, when there is one, answers or raises; any exception of it counts as a refusal.\<close>

definition host_approves :: "(pairing_request \<Rightarrow> bool res) option \<Rightarrow> pairing_request \<Rightarrow> bool res" where
  "host_approves callback q =
     (case callback of
        None \<Rightarrow> Inr False
      | Some f \<Rightarrow> (case f q of Inl e \<Rightarrow> if isa e Exception then Inr False else Inl e | Inr b \<Rightarrow> Inr b))"

definition open_request :: "storage \<Rightarrow> runtime \<Rightarrow> pairing_request \<Rightarrow> rat \<Rightarrow> string \<Rightarrow> runtime \<times> pyval res" where
  "open_request st r q now tx =
     (case pm_begin (rt_pairing r) (pq_caller q) (Some (pq_secret q)) (request_binding q) ''inbound'' (pq_intent q) now tx [] of
        (p, Inl e) \<Rightarrow> (set_pairing p r, if isa e PairingBusy then Inr (refusal ''already_pending'') else Inl e)
      | (p, Inr t) \<Rightarrow>
          (case save_persisted_state st
                  ((set_pairing p r)\<lparr>rt_permissions := dict_set (pp_id t) (permission_value ` pq_permissions q) (rt_permissions r)\<rparr>) of
             (r1, Inl e) \<Rightarrow> (r1, Inl e)
           | (r1, Inr False) \<Rightarrow> (abort_pairing r1 (pp_id t), Inr (refusal ''persistence_failed''))
           | (r1, Inr True) \<Rightarrow> (r1, pairing_response r1 t)))"

text \<open>\<open>busy\<close>: another request holds the inbound lock. The two clock readings are \<open>now\<close> and \<open>now'\<close>.\<close>

definition handle_pairing_request ::
  "sig_check \<Rightarrow> storage \<Rightarrow> runtime \<Rightarrow> pairing_request \<Rightarrow> bool \<Rightarrow> (pairing_request \<Rightarrow> bool res) option \<Rightarrow> rat \<Rightarrow> rat \<Rightarrow> string
   \<Rightarrow> runtime \<times> pyval res" where
  "handle_pairing_request sig_ok st r q busy callback now now' tx =
     (if busy then (r, Inr (refusal ''already_pending''))
      else if \<not> rt_loaded r then (r, raise RuntimeError ''runtime has not started'')
      else if pq_caller q = cm_local (rt_cm r) then (r, Inr (refusal ''denied''))
      else
        let existing = map_of (pm_grants (rt_pairing r)) (pq_caller q) in
        if (case existing of None \<Rightarrow> False
            | Some g \<Rightarrow> \<not> grant_root_continuous sig_ok g (pq_root q) (pq_generation q) (pq_transport q) (pq_proof q))
        then (r, Inr (refusal ''identity_conflict''))
        else if existing \<noteq> None \<and> pq_intent q \<noteq> ''repair'' then (r, Inr (refusal ''already_paired''))
        else case find_pending_for (rt_pairing r) (pq_caller q) (Some ''inbound'') now of
          Some t \<Rightarrow> (r, if pp_secret t = pq_secret q then pairing_response r t else Inr (refusal ''already_pending''))
        | None \<Rightarrow>
            (case host_approves callback q of
               Inl e \<Rightarrow> (r, Inl e)
             | Inr b \<Rightarrow> if b then open_request st r q now' tx else (r, Inr (refusal ''denied''))))"

text \<open>The listener's answer to a control message; the handler works on any state \<open>'s\<close>, when there is one.\<close>

definition pair_control_response ::
  "('s \<Rightarrow> pairing_control \<Rightarrow> 's \<times> bool res) option \<Rightarrow> 's \<Rightarrow> pyval \<Rightarrow> rat \<Rightarrow> 's \<times> pyval res" where
  "pair_control_response handler r raw now =
     (let answer = (\<lambda>b. pdict [(''approved'', PBool b), (''error'', if b then PNone else PStr ''denied'')]) in
      case handler of
        None \<Rightarrow> (r, Inr (pdict [(''approved'', PBool False), (''error'', PStr ''pairing_unavailable'')]))
      | Some h \<Rightarrow>
          (case sbind (r, validate_pairing_control_request raw now) h of
             (r', Inr b) \<Rightarrow> (r', Inr (answer b))
           | (r', Inl e) \<Rightarrow>
               (r', if isa e KeyError \<or> isa e TypeError \<or> isa e ValueError \<or> isa e RemoteProtocolError then Inr (answer False) else Inl e)))"

section \<open>Messages of the asking side\<close>

text \<open>When the cancel event is read: a function from these moments to its state, constantly false without an event.\<close>

datatype moment = Starting | BeforeRequest nat | AfterRequest nat | Rejected | Accepted | Saved | Confirming

record pairing_io =
  pn_request :: "nat \<Rightarrow> pairing_request \<Rightarrow> pyval res" \<comment> \<open>the reply on the route tried as the n-th, or its error\<close>
  pn_control :: "nat \<Rightarrow> pyval \<Rightarrow> pyval res"
  pn_cancel :: "moment \<Rightarrow> bool"
  pn_commit :: storage
  pn_undo :: storage
  pn_classify_at :: rat
  pn_begin_at :: rat
  pn_accept_at :: rat
  pn_id :: string
  pn_secret :: string

text \<open>\<open>None\<close> is the result \<open>False\<close>. The envelope is given by the request it carries.\<close>

definition request_pairing :: "pairing_io \<Rightarrow> nat \<Rightarrow> pairing_request \<Rightarrow> pyval option res" where
  "request_pairing io i q =
     (if pn_cancel io (BeforeRequest i) then Inr None
      else rbind (pn_request io i q) (\<lambda>response.
        if pn_cancel io (AfterRequest i) then Inr None
        else if \<not> is_dict response \<or> fget response ''approved'' \<noteq> PBool True then Inr None
        else if \<not> is_str (fget response ''transaction_id'') \<or> str_of (fget response ''transaction_id'') = [] then Inr None
        else Inr (Some response)))"

text \<open>The fields of a \<open>PairingTransaction\<close> are taken from the response as they are.\<close>

record pairing_transaction =
  pt_id :: pyval
  pt_caller :: pyval
  pt_identity :: pyval
  pt_transport :: pyval
  pt_secret :: pyval
  pt_permissions :: "node_permission set"
  pt_expires :: pyval
  pt_route :: nat
  pt_root :: pyval
  pt_generation :: pyval
  pt_proof :: pyval

definition control_envelope :: "string \<Rightarrow> pairing_transaction \<Rightarrow> pyval" where
  "control_envelope operation tx = pdict
     [(''op'', PStr operation), (''transaction_id'', pt_id tx), (''caller_node_id'', pt_caller tx),
      (''identity_fingerprint'', pt_identity tx), (''transport_fingerprint'', pt_transport tx), (''secret'', pt_secret tx),
      (''permissions'', sorted_permissions (permission_value ` pt_permissions tx)), (''expires_at'', pt_expires tx)]"

definition send_control :: "pairing_io \<Rightarrow> string \<Rightarrow> pairing_transaction \<Rightarrow> bool \<Rightarrow> bool res" where
  "send_control io operation tx cancelled =
     (if operation \<notin> {''pair_confirm'', ''pair_abort''} then raise ValueError ''invalid pairing control operation''
      else if cancelled then Inr False
      else rbind (pn_control io (pt_route tx) (control_envelope operation tx)) (\<lambda>response.
        Inr (is_dict response \<and> fget response ''approved'' = PBool True)))"

section \<open>The asking side\<close>

record network_pairing =
  np_node :: node_id
  np_identity_root :: string \<comment> \<open>\<open>identity.root_public_key\<close>\<close>
  np_transport :: string
  np_root :: "string option"
  np_generation :: int
  np_proof :: "string option"

definition own_binding :: "(string \<Rightarrow> string) \<Rightarrow> network_pairing \<Rightarrow> binding res" where
  "own_binding sign np =
     rbind (if truthy (np_proof np) then Inr (or_empty (np_proof np))
            else sign_transport_proof sign (np_node np) (np_generation np) (np_transport np)) (\<lambda>prf.
       Inr \<lparr>bd_identity = Some (node_identity_fingerprint (nid_value (np_node np))), bd_transport = Some (np_transport np),
            bd_root = Some (if truthy (np_root np) then or_empty (np_root np) else np_identity_root np),
            bd_generation = Some (np_generation np), bd_proof = Some prf\<rparr>)"

definition named_permissions :: "string set \<Rightarrow> node_permission set" where
  "named_permissions ps = set (filter (\<lambda>p. permission_value p \<in> ps) all_permissions)"

text \<open>The call leaves out the root key, the generation and the proof, which default to \<open>None\<close>.\<close>

definition sent_request :: "network_pairing \<Rightarrow> string \<Rightarrow> string set \<Rightarrow> string \<Rightarrow> pairing_request" where
  "sent_request np secret permissions intent =
     \<lparr>pq_caller = np_node np, pq_identity = node_identity_fingerprint (nid_value (np_node np)), pq_transport = np_transport np,
      pq_secret = secret, pq_permissions = named_permissions permissions, pq_root = None, pq_generation = None,
      pq_proof = None, pq_intent = intent\<rparr>"

definition pairing_gate :: "string \<Rightarrow> relationship_state \<Rightarrow> trusted_peer option \<Rightarrow> trusted_peer option res" where
  "pairing_gate intent state previous =
     (if intent = ''pair'' then
        if state = IDENTITY_CONFLICT then raise IdentityConflict ''peer identity conflicts with stored trust''
        else if state \<in> {OUTBOUND_TRUSTED, BIDIRECTIONAL} then
          (if previous = None then raise AssertionError [] else Inr previous)
        else if state = REPAIR_REQUIRED then raise RepairRequired ''peer credentials require explicit repair''
        else if state = PENDING_OUTBOUND then raise PairingBusy ''a pairing transaction is already active for this peer''
        else Inr None
      else
        if previous = None then raise PairingConflict ''peer has no outbound relationship to repair''
        else if state = IDENTITY_CONFLICT then raise IdentityConflict ''peer cannot prove continuity of the stored root''
        else if state \<in> {OUTBOUND_TRUSTED, BIDIRECTIONAL} then raise RepairNotRequired ''peer relationship does not require repair''
        else if state \<noteq> REPAIR_REQUIRED then raise PairingConflict ''peer relationship cannot be repaired''
        else Inr None)"

datatype route_result = Answered nat "pyval option" | Unreachable "exn option" | Escaped exn

fun pairing_routes :: "pairing_io \<Rightarrow> pairing_request \<Rightarrow> nat \<Rightarrow> endpoint list \<Rightarrow> exn option \<Rightarrow> route_result" where
  "pairing_routes io q i [] last_error = Unreachable last_error"
| "pairing_routes io q i (e # es) last_error =
     (case request_pairing io i q of
        Inr response \<Rightarrow> Answered i response
      | Inl x \<Rightarrow>
          if isa x OSError \<or> isa x ConnectionError \<or> isa x RemoteTransportError
          then pairing_routes io q (Suc i) es (Some x) else Escaped x)"

definition rollback_pairing ::
  "storage \<Rightarrow> runtime \<Rightarrow> node_id \<Rightarrow> trusted_peer option \<Rightarrow> bool \<Rightarrow> string \<Rightarrow> runtime \<times> unit res" where
  "rollback_pairing st r peer previous broken tx =
     sbind (save_persisted_state st (set_pairing (pm_restore_trusted (pm_abort (rt_pairing r) tx) peer previous broken) r))
       (\<lambda>r _. (r, Inr ()))"

text \<open>What a rollback needs: the peer, its trust before the run and the transaction.\<close>

record undo_point =
  un_peer :: node_id
  un_previous :: "trusted_peer option"
  un_broken :: bool
  un_pending :: pending_pairing

definition roll_back :: "pairing_io \<Rightarrow> undo_point \<Rightarrow> runtime \<Rightarrow> runtime \<times> unit res" where
  "roll_back io u r = rollback_pairing (pn_undo io) r (un_peer u) (un_previous u) (un_broken u) (pp_id (un_pending u))"

definition fail_pairing :: "pairing_io \<Rightarrow> undo_point \<Rightarrow> runtime \<Rightarrow> exn \<Rightarrow> runtime \<times> 'a res" where
  "fail_pairing io u r e = sbind (roll_back io u r) (\<lambda>r _. (r, Inl e))"

text \<open>
  Abort at the target, roll back here, then raise; an error of the abort message replaces the exception. The code rolls
  back before or after it sends the abort; neither depends on the other.
\<close>

definition withdraw_pairing :: "pairing_io \<Rightarrow> undo_point \<Rightarrow> pairing_transaction \<Rightarrow> runtime \<Rightarrow> exn \<Rightarrow> runtime \<times> 'a res" where
  "withdraw_pairing io u tx r e =
     sbind (roll_back io u r) (\<lambda>r _.
       (r, case send_control io ''pair_abort'' tx False of Inl x \<Rightarrow> Inl x | Inr _ \<Rightarrow> Inl e))"

definition finish_pairing :: "pairing_io \<Rightarrow> undo_point \<Rightarrow> pairing_transaction \<Rightarrow> trusted_peer \<Rightarrow> runtime \<Rightarrow> runtime \<times> trusted_peer res" where
  "finish_pairing io u tx trusted r =
     (if pn_cancel io Accepted then withdraw_pairing io u tx r (Exn RuntimeError ''pairing cancelled'')
      else sbind (save_persisted_state (pn_commit io) r) (\<lambda>r stored.
        if \<not> stored then withdraw_pairing io u tx r (Exn RuntimeError ''pairing was not durably persisted'')
        else if pn_cancel io Saved then withdraw_pairing io u tx r (Exn RuntimeError ''pairing cancelled'')
        else case send_control io ''pair_confirm'' tx (pn_cancel io Confirming) of
          Inl e \<Rightarrow> if isa e Exception then withdraw_pairing io u tx r e else (r, Inl e)
        | Inr confirmed \<Rightarrow>
            if confirmed then (r, Inr trusted) else withdraw_pairing io u tx r (Exn PermissionError ''peer did not confirm pairing'')))"

text \<open>Iterating over a JSON value, and \<open>NodePermission(item)\<close> for each item.\<close>

fun iter_items :: "pyval \<Rightarrow> pyval list res" where
  "iter_items (PList xs) = Inr xs"
| "iter_items (PStr s) = Inr (map (\<lambda>c. PStr [c]) s)"
| "iter_items (PDict kvs) = Inr (map (\<lambda>(k, v). case k of KStr s \<Rightarrow> PStr s | KOther n \<Rightarrow> POther n) kvs)"
| "iter_items _ = raise TypeError ''object is not iterable''"

definition response_permissions :: "pyval \<Rightarrow> node_permission list res" where
  "response_permissions response =
     rbind (fitem response ''permissions'') (\<lambda>v. rbind (iter_items v) (rmap (\<lambda>x.
       case x of PStr s \<Rightarrow> mk_permission s | _ \<Rightarrow> raise ValueError ''not a valid NodePermission'')))"

definition transaction_of :: "pyval \<Rightarrow> node_permission set \<Rightarrow> nat \<Rightarrow> pairing_transaction res" where
  "transaction_of response permissions i =
     rbind (fitem response ''transaction_id'') (\<lambda>tid. rbind (fitem response ''caller_node_id'') (\<lambda>caller.
     rbind (fitem response ''identity_fingerprint'') (\<lambda>identity. rbind (fitem response ''transport_fingerprint'') (\<lambda>transport.
     rbind (fitem response ''secret'') (\<lambda>secret. rbind (fitem response ''expires_at'') (\<lambda>expires.
       Inr \<lparr>pt_id = tid, pt_caller = caller, pt_identity = identity, pt_transport = transport, pt_secret = secret,
            pt_permissions = permissions, pt_expires = expires, pt_route = i, pt_root = fget response ''root_public_key'',
            pt_generation = fget response ''transport_generation'', pt_proof = fget response ''transport_proof''\<rparr>))))))"

definition candidate_binding :: "candidate \<Rightarrow> binding" where
  "candidate_binding c = \<lparr>bd_identity = dc_identity c, bd_transport = dc_transport c, bd_root = dc_root c,
     bd_generation = dc_generation c, bd_proof = dc_proof c\<rparr>"

definition accept_response ::
  "network_pairing \<Rightarrow> binding \<Rightarrow> pairing_io \<Rightarrow> undo_point \<Rightarrow> candidate \<Rightarrow> string set \<Rightarrow> nat \<Rightarrow> pyval \<Rightarrow> runtime
   \<Rightarrow> runtime \<times> trusted_peer res" where
  "accept_response np b io u c permissions i response r =
     (case response_permissions response of
        Inl _ \<Rightarrow> fail_pairing io u r (Exn ValueError ''pairing response permissions are malformed'')
      | Inr ps \<Rightarrow>
          if set ps = {} \<or> \<not> set ps \<subseteq> named_permissions permissions
          then fail_pairing io u r (Exn PermissionError ''peer returned permissions outside the request'')
          else case transaction_of response (set ps) i of
            Inl e \<Rightarrow> (r, Inl e)
          | Inr tx \<Rightarrow>
              (case pm_accept_grant (rt_pairing r) (pp_id (un_pending u)) (un_peer u)
                      \<lparr>pg_caller = np_node np, pg_secret = pp_secret (un_pending u), pg_permissions = permission_value ` set ps,
                       pg_binding = b, pg_members = True\<rparr> (candidate_binding c) (pn_accept_at io) of
                 (p, Inl e) \<Rightarrow> (set_pairing p r, Inl e)
               | (p, Inr trusted) \<Rightarrow> finish_pairing io u tx trusted (set_pairing p r)))"

definition run_routes ::
  "network_pairing \<Rightarrow> binding \<Rightarrow> pairing_io \<Rightarrow> undo_point \<Rightarrow> candidate \<Rightarrow> string set \<Rightarrow> string \<Rightarrow> runtime \<Rightarrow> runtime \<times> trusted_peer res" where
  "run_routes np b io u c permissions intent r =
     (case pairing_endpoints c of
        Inl e \<Rightarrow> (r, Inl e)
      | Inr es \<Rightarrow>
          (case pairing_routes io (sent_request np (pp_secret (un_pending u)) permissions intent) 0 (sort_key endpoint_rank es) None of
             Escaped e \<Rightarrow> (r, Inl e)
           | Unreachable None \<Rightarrow> fail_pairing io u r (Exn ConnectionError ''pairing routes failed'')
           | Unreachable (Some e) \<Rightarrow> fail_pairing io u r e
           | Answered i None \<Rightarrow> fail_pairing io u r
               (if pn_cancel io Rejected then Exn RuntimeError ''pairing cancelled'' else Exn PermissionError ''peer rejected pairing'')
           | Answered i (Some response) \<Rightarrow> accept_response np b io u c permissions i response r))"

definition candidate_connectable :: "candidate \<Rightarrow> bool" where
  "candidate_connectable c \<longleftrightarrow> dc_compatible c \<and> dc_port c \<noteq> None \<and> dc_addresses c \<noteq> []"

definition establish ::
  "sig_check \<Rightarrow> (string \<Rightarrow> string) \<Rightarrow> network_pairing \<Rightarrow> pairing_io \<Rightarrow> runtime \<Rightarrow> node_id \<Rightarrow> string set \<Rightarrow> string
   \<Rightarrow> runtime \<times> trusted_peer res" where
  "establish sig_ok sign np io r peer permissions intent =
     (if pn_cancel io Starting then (r, raise RuntimeError ''pairing cancelled'')
      else case map_of (cm_candidates (rt_cm r)) (nid_value peer) of
        None \<Rightarrow> (r, raise ConnectionError ''peer must be discovered and connectable'')
      | Some c \<Rightarrow>
          if \<not> candidate_connectable c then (r, raise ConnectionError ''peer must be discovered and connectable'')
          else if \<not> truthy (dc_transport c) then (r, raise ValueError ''peer advertisement has no transport fingerprint'')
          else if \<not> permissions \<subseteq> permission_value ` READ_PERMISSIONS
          then (r, raise ValueError ''pairing permissions must be read-only'')
          else
            let previous = map_of (pm_trusted (rt_pairing r)) peer;
                broken = pm_is_auth_broken (rt_pairing r) peer;
                state = pm_classify_trusted_candidate sig_ok (rt_pairing r) peer (dc_root c) (dc_transport c) (dc_generation c)
                          (dc_proof c) (pn_classify_at io)
            in sbind (r, pairing_gate intent state previous) (\<lambda>r early. case early of
                 Some p \<Rightarrow> (r, Inr p)
               | None \<Rightarrow> sbind (r, own_binding sign np) (\<lambda>r b.
                   case pm_begin (rt_pairing r) peer (Some (pn_secret io)) b ''outbound'' intent (pn_begin_at io) (pn_id io) [] of
                     (p, Inl e) \<Rightarrow> (set_pairing p r, Inl e)
                   | (p, Inr t) \<Rightarrow> run_routes np b io \<lparr>un_peer = peer, un_previous = previous, un_broken = broken, un_pending = t\<rparr>
                       c permissions intent (set_pairing p r))))"

text \<open>The runtime's entry points; there is no \<open>NetworkPairing\<close> before a start.\<close>

definition pair_peer ::
  "sig_check \<Rightarrow> (string \<Rightarrow> string) \<Rightarrow> network_pairing option \<Rightarrow> pairing_io \<Rightarrow> runtime \<Rightarrow> node_id \<Rightarrow> string set \<Rightarrow> runtime \<times> trusted_peer res" where
  "pair_peer sig_ok sign np io r peer permissions =
     (case np of
        None \<Rightarrow> (r, raise RuntimeError ''runtime must be started before pairing'')
      | Some np \<Rightarrow> sbind (establish sig_ok sign np io r peer permissions ''pair'') (\<lambda>r p. (project_registry_trust r peer, Inr p)))"

definition repair_peer ::
  "sig_check \<Rightarrow> (string \<Rightarrow> string) \<Rightarrow> network_pairing option \<Rightarrow> pairing_io \<Rightarrow> runtime \<Rightarrow> node_id \<Rightarrow> string set \<Rightarrow> runtime \<times> trusted_peer res" where
  "repair_peer sig_ok sign np io r peer permissions =
     (case np of
        None \<Rightarrow> (r, raise RuntimeError ''runtime must be started before repair'')
      | Some np \<Rightarrow> establish sig_ok sign np io r peer permissions ''repair'')"

end
