(* ===== verification/Listener.thy ===== *)
theory Listener
  imports PairingFlow SocketTransport
begin

text \<open>
  \<open>transport/server.py\<close>: the framed listener. Its admission of connections, the choice of what serves a message, and the
  parsing of pairing and elevation messages, together with the envelope the asking side writes.

  A message is the object \<open>json.loads\<close> delivers. What stands behind the listener, the service and the runtime's handlers,
  works on a state \<open>'s\<close> and is an argument.
\<close>

section \<open>Admission\<close>

text \<open>\<open>BoundedSemaphore\<close> and the connections that hold one of its permits.\<close>

record admission =
  ad_limit :: nat
  ad_free :: nat
  ad_active :: "nat list"

definition admission_new :: "int \<Rightarrow> admission res" where
  "admission_new n =
     (if n < 1 then raise ValueError ''max_active_handlers must be positive''
      else Inr \<lparr>ad_limit = nat n, ad_free = nat n, ad_active = []\<rparr>)"

definition acquire :: "admission \<Rightarrow> admission option" where
  "acquire a = (if ad_free a = 0 then None else Some (a\<lparr>ad_free := ad_free a - 1\<rparr>))"

definition release :: "admission \<Rightarrow> admission res" where
  "release a =
     (if ad_free a \<ge> ad_limit a then raise ValueError ''Semaphore released too many times'' else Inr (a\<lparr>ad_free := ad_free a + 1\<rparr>))"

text \<open>
  The \<open>finally\<close> clause of a handler. With TLS the handler closes the wrapped socket first, and when that raises the permit
  is not released. The exception ends the handler's thread.
\<close>

definition finish_handler :: "bool \<Rightarrow> unit res \<Rightarrow> admission \<Rightarrow> admission \<times> unit res" where
  "finish_handler wrapped close a =
     sbind (a, if wrapped then close else Inr ()) (\<lambda>a _.
       case release a of Inl e \<Rightarrow> (a, Inl e) | Inr b \<Rightarrow> (b, Inr ()))"

text \<open>
  A connection arrives and gets a thread, arrives at a full listener, arrives and gets no thread because starting one
  raises, or its handler ends, with or without a wrapped socket and with what closing that gives.
\<close>

datatype listener_event = Served nat | Refused nat | Unstarted nat | Ended nat bool "unit res"

inductive listener_step :: "admission \<Rightarrow> listener_event \<Rightarrow> admission \<Rightarrow> bool" where
  step_served: "acquire a = Some b \<Longrightarrow> c \<notin> set (ad_active a) \<Longrightarrow> listener_step a (Served c) (b\<lparr>ad_active := c # ad_active a\<rparr>)"
| step_refused: "acquire a = None \<Longrightarrow> listener_step a (Refused c) a"
| step_unstarted: "acquire a = Some b \<Longrightarrow> release b = Inr d \<Longrightarrow> listener_step a (Unstarted c) d"
| step_ended: "c \<in> set (ad_active a) \<Longrightarrow> finish_handler wrapped close a = (b, x)
    \<Longrightarrow> listener_step a (Ended c wrapped close) (b\<lparr>ad_active := remove1 c (ad_active a)\<rparr>)"

inductive listener_run :: "admission \<Rightarrow> listener_event list \<Rightarrow> admission \<Rightarrow> bool" where
  run_start: "listener_run a [] a"
| run_step: "listener_run a es b \<Longrightarrow> listener_step b e c \<Longrightarrow> listener_run a (es @ [e]) c"

text \<open>The port: the preferred one first, when there is one. \<open>bind\<close> gives the port a server is bound to, or its error.\<close>

fun bind_ports :: "int \<Rightarrow> int \<Rightarrow> (int \<Rightarrow> int res) \<Rightarrow> int list \<Rightarrow> (int \<times> bool option) res" where
  "bind_ports preferred port bind [] = raise OSError ''could not bind peer listener''"
| "bind_ports preferred port bind (p # ps) =
     (case bind p of
        Inr n \<Rightarrow> Inr (n, if preferred > 0 then Some (p = preferred) else None)
      | Inl e \<Rightarrow> if isa e OSError \<and> \<not> (p = port \<or> preferred = 0) then bind_ports preferred port bind ps else Inl e)"

definition bind_listener :: "int \<Rightarrow> int \<Rightarrow> (int \<Rightarrow> int res) \<Rightarrow> (int \<times> bool option) res" where
  "bind_listener preferred port bind = bind_ports preferred port bind (if preferred > 0 then [preferred, port] else [port])"

section \<open>Pairing messages\<close>

text \<open>\<open>not v\<close>.\<close>

fun falsy :: "pyval \<Rightarrow> bool" where
  "falsy PNone = True"
| "falsy (PBool b) = (\<not> b)"
| "falsy (PInt i) = (i = 0)"
| "falsy (PFloat f) = (f = Fin 0)"
| "falsy (PStr s) = (s = [])"
| "falsy (PList xs) = (xs = [])"
| "falsy (PDict d) = (d = [])"
| "falsy (POther _) = False"

text \<open>The two fingerprints of a request are whatever the message holds: the parser does not check that they are text.\<close>

record raw_pairing =
  rw_caller :: node_id
  rw_identity :: pyval
  rw_transport :: pyval
  rw_secret :: string
  rw_permissions :: "node_permission set"
  rw_root :: "string option"
  rw_generation :: "int option"
  rw_proof :: "string option"
  rw_intent :: string

text \<open>\<open>PairingRequest.__post_init__\<close>; the secret may be of any type before it.\<close>

definition raw_pairing_checked :: "raw_pairing \<Rightarrow> pyval \<Rightarrow> raw_pairing res" where
  "raw_pairing_checked r secret =
     (if rw_intent r \<notin> {''pair'', ''repair''} then raise RemoteProtocolError ''pairing intent is invalid''
      else if nid_value (rw_caller r) = [] \<or> falsy (rw_identity r) then raise RemoteAuthError ''pairing identity is missing''
      else if falsy (rw_transport r) then raise RemoteAuthError ''pairing transport fingerprint is missing''
      else rbind (validate_secret secret) (\<lambda>_.
        if \<not> rw_permissions r \<subseteq> READ_PERMISSIONS then raise RemoteAuthorizationError ''pairing is read-only'' else Inr r))"

definition message_node :: "pyval \<Rightarrow> node_id res" where
  "message_node v = (if is_str v then mk_node_id (str_of v) else raise ValueError ''invalid node id'')"

definition message_permissions :: "pyval \<Rightarrow> node_permission set res" where
  "message_permissions v = rbind (rmap (\<lambda>x. mk_permission (str_of x)) (list_of v)) (\<lambda>ps. Inr (set ps))"

definition optional_str :: "pyval \<Rightarrow> string option" where
  "optional_str v = (if is_str v then Some (str_of v) else None)"

definition optional_int :: "pyval \<Rightarrow> int option" where
  "optional_int v = (if is_int v then Some (int_of v) else None)"

definition parse_pairing :: "pyval \<Rightarrow> string \<Rightarrow> raw_pairing res" where
  "parse_pairing raw intent =
     rbind (message_node (fget raw ''caller_node_id'')) (\<lambda>n.
     rbind (message_permissions (fget raw ''permissions'')) (\<lambda>ps.
     raw_pairing_checked \<lparr>rw_caller = n, rw_identity = fget raw ''identity_fingerprint'', rw_transport = fget raw ''transport_fingerprint'',
         rw_secret = str_of (fget raw ''secret''), rw_permissions = ps, rw_root = optional_str (fget raw ''root_public_key''),
         rw_generation = optional_int (fget raw ''transport_generation''), rw_proof = optional_str (fget raw ''transport_proof''),
         rw_intent = intent\<rparr> (fget raw ''secret'')))"

definition pairing_required :: "string set" where
  "pairing_required = {''op'', ''pairing_mode'', ''caller_node_id'', ''identity_fingerprint'', ''transport_fingerprint'', ''secret'',
     ''permissions''}"

definition pairing_allowed :: "string set" where
  "pairing_allowed = pairing_required \<union> {''root_public_key'', ''transport_generation'', ''transport_proof'', ''intent''}"

definition not_approved :: "string \<Rightarrow> pyval" where
  "not_approved why = pdict [(''approved'', PBool False), (''error'', PStr why)]"

definition approval :: "bool \<Rightarrow> pyval" where
  "approval b = pdict [(''approved'', PBool b), (''error'', if b then PNone else PStr ''denied'')]"

text \<open>\<open>except (KeyError, TypeError, ValueError, RemoteProtocolError)\<close>.\<close>

definition denied_or :: "('a \<Rightarrow> pyval) \<Rightarrow> 's \<times> 'a res \<Rightarrow> 's \<times> pyval res" where
  "denied_or answer m =
     (case m of
        (s, Inr x) \<Rightarrow> (s, Inr (answer x))
      | (s, Inl e) \<Rightarrow>
          (s, if isa e KeyError \<or> isa e TypeError \<or> isa e ValueError \<or> isa e RemoteProtocolError then Inr (approval False) else Inl e))"

definition texts :: "pyval \<Rightarrow> bool" where
  "texts v \<longleftrightarrow> is_list v \<and> list_all is_str (list_of v)"

definition pair_request_response :: "('s \<Rightarrow> raw_pairing \<Rightarrow> 's \<times> pyval res) option \<Rightarrow> 's \<Rightarrow> pyval \<Rightarrow> 's \<times> pyval res" where
  "pair_request_response handler s raw =
     (case handler of
        None \<Rightarrow> (s, Inr (not_approved ''pairing_unavailable''))
      | Some h \<Rightarrow>
          if \<not> KStr ` pairing_required \<subseteq> dict_keys raw \<or> \<not> dict_keys raw \<subseteq> KStr ` pairing_allowed
             \<or> fget raw ''pairing_mode'' \<noteq> PStr ''transactional''
          then (s, Inr (not_approved ''pairing_unavailable''))
          else if \<not> texts (fget raw ''permissions'') then (s, Inr (not_approved ''invalid_pairing''))
          else let intent = fget_or raw ''intent'' (PStr ''pair'') in
            if intent \<notin> {PStr ''pair'', PStr ''repair''} then (s, Inr (not_approved ''invalid_pairing''))
            else denied_or (\<lambda>result. if is_dict result then result else approval (\<not> falsy result))
                   (sbind (s, parse_pairing raw (str_of intent)) h))"

record raw_elevation =
  re_caller :: node_id
  re_identity :: pyval
  re_transport :: pyval
  re_current :: string
  re_proposed :: string
  re_permissions :: "node_permission set"

definition parse_elevation :: "pyval \<Rightarrow> raw_elevation res" where
  "parse_elevation raw =
     rbind (message_node (fget raw ''caller_node_id'')) (\<lambda>n.
     rbind (message_permissions (fget raw ''permissions'')) (\<lambda>ps.
     if nid_value n = [] \<or> falsy (fget raw ''identity_fingerprint'') then raise RemoteAuthError ''elevation identity is missing''
     else if falsy (fget raw ''transport_fingerprint'') then raise RemoteAuthError ''elevation transport fingerprint is missing''
     else rbind (validate_secret (fget raw ''current_secret'')) (\<lambda>_. rbind (validate_secret (fget raw ''secret'')) (\<lambda>_.
       if ps = {} then raise RemoteAuthorizationError ''elevation requires a permission''
       else Inr \<lparr>re_caller = n, re_identity = fget raw ''identity_fingerprint'', re_transport = fget raw ''transport_fingerprint'',
                 re_current = str_of (fget raw ''current_secret''), re_proposed = str_of (fget raw ''secret''), re_permissions = ps\<rparr>))))"

definition elevation_fields :: "string set" where
  "elevation_fields = {''op'', ''caller_node_id'', ''identity_fingerprint'', ''transport_fingerprint'', ''current_secret'', ''secret'',
     ''permissions''}"

definition elevation_response :: "('s \<Rightarrow> raw_elevation \<Rightarrow> 's \<times> bool res) option \<Rightarrow> 's \<Rightarrow> pyval \<Rightarrow> 's \<times> pyval res" where
  "elevation_response handler s raw =
     (case handler of
        None \<Rightarrow> (s, Inr (not_approved ''elevation_unavailable''))
      | Some h \<Rightarrow>
          if dict_keys raw \<noteq> KStr ` elevation_fields then (s, Inr (not_approved ''elevation_unavailable''))
          else if \<not> texts (fget raw ''permissions'') then (s, Inr (not_approved ''invalid_elevation''))
          else denied_or approval (sbind (s, parse_elevation raw) h))"

section \<open>Serving a connection\<close>

record 's handlers =
  hd_pairing :: "('s \<Rightarrow> raw_pairing \<Rightarrow> 's \<times> pyval res) option"
  hd_confirm :: "('s \<Rightarrow> pairing_control \<Rightarrow> 's \<times> bool res) option"
  hd_abort :: "('s \<Rightarrow> pairing_control \<Rightarrow> 's \<times> bool res) option"
  hd_elevation :: "('s \<Rightarrow> raw_elevation \<Rightarrow> 's \<times> bool res) option"

definition pairing_operations :: "string set" where
  "pairing_operations = {''pair_request'', ''pair_confirm'', ''pair_abort'', ''elevation_request''}"

definition serve_message ::
  "bool \<Rightarrow> 's handlers \<Rightarrow> ('s \<Rightarrow> pyval \<Rightarrow> 's \<times> pyval res) \<Rightarrow> rat \<Rightarrow> 's \<Rightarrow> pyval \<Rightarrow> 's \<times> pyval res" where
  "serve_message allow_pairing hs service now s raw =
     (let operation = (if is_dict raw then fget raw ''op'' else PNone) in
      if \<not> hashable operation then (s, raise TypeError ''unhashable type'')
      else if operation \<in> PStr ` pairing_operations \<and> \<not> allow_pairing
      then (s, raise RemoteProtocolError ''pairing operation is not served on this listener'')
      else if operation = PStr ''pair_request'' then pair_request_response (hd_pairing hs) s raw
      else if operation = PStr ''pair_confirm'' then pair_control_response (hd_confirm hs) s raw now
      else if operation = PStr ''pair_abort'' then pair_control_response (hd_abort hs) s raw now
      else if operation = PStr ''elevation_request'' then elevation_response (hd_elevation hs) s raw
      else service s raw)"

text \<open>The bytes that are written, nothing when an exception closes the connection silently.\<close>

definition serve_connection ::
  "(bytes \<Rightarrow> pyval res) \<Rightarrow> (pyval \<Rightarrow> bytes) \<Rightarrow> bool \<Rightarrow> 's handlers \<Rightarrow> ('s \<Rightarrow> pyval \<Rightarrow> 's \<times> pyval res) \<Rightarrow> rat \<Rightarrow> 's \<Rightarrow> tick list \<Rightarrow> bytes
   \<Rightarrow> ('s \<times> bytes option) option" where
  "serve_connection loads dumps allow_pairing hs service now s ts bs =
     (case recv_frame False ''connection closed before request'' (PInt (int MAX_ENVELOPE_BYTES)) ts bs of
        None \<Rightarrow> None
      | Some (_, _, body) \<Rightarrow>
          Some (case sbind (s, rbind body loads) (serve_message allow_pairing hs service now) of
            (s', Inl e) \<Rightarrow> (s', None)
          | (s', Inr doc) \<Rightarrow> (s', case send_frame (dumps doc) (PInt (int MAX_ENVELOPE_BYTES)) of Inl e \<Rightarrow> None | Inr w \<Rightarrow> Some w)))"

text \<open>\<open>_PairingOnlyService\<close>.\<close>

definition pairing_only :: "'s \<Rightarrow> pyval \<Rightarrow> 's \<times> pyval res" where
  "pairing_only s raw = (s, raise RemoteProtocolError ''operation is not served by pairing listener'')"

section \<open>The message of the asking side\<close>

definition opt_text :: "string option \<Rightarrow> pyval" where
  "opt_text v = (case v of None \<Rightarrow> PNone | Some s \<Rightarrow> PStr s)"

definition pairing_envelope :: "pairing_request \<Rightarrow> pyval" where
  "pairing_envelope q = pdict
     [(''op'', PStr ''pair_request''), (''pairing_mode'', PStr ''transactional''), (''caller_node_id'', PStr (nid_value (pq_caller q))),
      (''identity_fingerprint'', PStr (pq_identity q)), (''transport_fingerprint'', PStr (pq_transport q)),
      (''root_public_key'', opt_text (pq_root q)),
      (''transport_generation'', case pq_generation q of None \<Rightarrow> PNone | Some i \<Rightarrow> PInt i),
      (''transport_proof'', opt_text (pq_proof q)), (''secret'', PStr (pq_secret q)),
      (''permissions'', sorted_permissions (permission_value ` pq_permissions q)), (''intent'', PStr (pq_intent q))]"

definition elevation_envelope :: "elevation_request \<Rightarrow> pyval" where
  "elevation_envelope q = pdict
     [(''op'', PStr ''elevation_request''), (''caller_node_id'', PStr (nid_value (er_caller q))),
      (''identity_fingerprint'', PStr (er_identity q)), (''transport_fingerprint'', PStr (er_transport q)),
      (''current_secret'', PStr (er_current q)), (''secret'', PStr (er_proposed q)),
      (''permissions'', sorted_permissions (permission_value ` er_permissions q))]"

end
