(* ===== verification/PairingFlowLaws.thy ===== *)
theory PairingFlowLaws
  imports PairingFlow
begin

text \<open>
  What network pairing guarantees on each side and for both together.
\<close>

section \<open>The answering side\<close>

lemma refusal_simps [simp]: "fget (refusal x) ''approved'' = PBool False" "is_dict (refusal x)"
  by (simp_all add: refusal_def)

lemma host_approves_True: "host_approves cb q = Inr True \<longleftrightarrow> (\<exists>f. cb = Some f \<and> f q = Inr True)"
  by (auto simp: host_approves_def split: option.splits sum.splits if_splits)

lemma set_pairing_same [simp]: "set_pairing (rt_pairing r) r = r"
  by (simp add: set_pairing_def)

lemma set_pairing_twice [simp]: "set_pairing a (set_pairing b r) = set_pairing a r"
  by (simp add: set_pairing_def)

lemma dict_pop_fresh: "map_of d k = None \<Longrightarrow> dict_pop k d = d"
  by (induction d) (auto split: if_splits)

lemma dict_pop_set_fresh: "map_of d k = None \<Longrightarrow> dict_pop k (dict_set k v d) = d"
  by (induction d) (auto split: if_splits)

lemma response_fields:
  assumes "pairing_response r t = Inr v"
  shows "is_dict v" "fget v ''approved'' = PBool True" "fget v ''transaction_id'' = PStr (pp_id t)"
    "\<exists>ps. map_of (rt_permissions r) (pp_id t) = Some ps \<and> fitem v ''permissions'' = Inr (sorted_permissions ps)"
    "fitem v ''transaction_id'' = Inr (PStr (pp_id t))" "fitem v ''caller_node_id'' = Inr (PStr (nid_value (pp_peer t)))"
    "fitem v ''identity_fingerprint'' = Inr (opt_text (bd_identity (pp_binding t)))"
    "fitem v ''transport_fingerprint'' = Inr (opt_text (bd_transport (pp_binding t)))"
    "fitem v ''secret'' = Inr (PStr (pp_secret t))" "fitem v ''expires_at'' = Inr (PFloat (Fin (pp_expires t)))"
  using assms by (auto simp: pairing_response_def binding_items_def split: option.splits)

definition opened :: "pairing_request \<Rightarrow> pairing_manager \<Rightarrow> rat \<Rightarrow> string \<Rightarrow> pending_pairing" where
  "opened q m now tx = \<lparr>pp_id = tx, pp_peer = pq_caller q, pp_secret = pq_secret q, pp_expires = now + pm_ttl m,
     pp_binding = request_binding q, pp_direction = ''inbound'', pp_intent = pq_intent q\<rparr>"

lemma find_pending_later:
  assumes "find_pending_for m p (Some d) now = None" "now \<le> now'"
  shows "find_pending_for m p (Some d) now' = None" "find_pending m p s now' = Some t \<Longrightarrow> pp_direction t \<noteq> d"
proof -
  have n: "\<not> (pp_peer t = p \<and> now < pp_expires t \<and> d = pp_direction t)" if "t \<in> snd ` set (pm_pending m)" for t
    using assms(1) that by (auto simp: find_pending_for_def find_None_iff)
  show "find_pending_for m p (Some d) now' = None" using n assms(2) by (fastforce simp: find_pending_for_def find_None_iff)
  show "pp_direction t \<noteq> d" if "find_pending m p s now' = Some t"
    using find_Some_D [OF that [unfolded find_pending_def]] n [of t] assms(2) by auto
qed

lemma begin_inbound:
  assumes "find_pending_for m (pq_caller q) (Some ''inbound'') now = None" "now \<le> now'" "pq_intent q \<in> INTENTS"
  shows "pm_begin m (pq_caller q) (Some (pq_secret q)) (request_binding q) ''inbound'' (pq_intent q) now' tx []
    = (m\<lparr>pm_pending := dict_set tx (opened q m now' tx) (pm_pending m)\<rparr>, Inr (opened q m now' tx))"
proof -
  have s: "(if truthy (Some (pq_secret q)) then or_empty (Some (pq_secret q)) else []) = pq_secret q" by (simp add: or_empty_def)
  show ?thesis
    using find_pending_later [OF assms(1,2)] assms(3) s
    by (auto simp: pm_begin_def Let_def DIRECTIONS_def mk_pending_def opened_def split: option.splits)
qed

lemma open_request_cases:
  assumes run: "open_request st r q now' tx = (r', Inr v)"
    and q: "find_pending_for (rt_pairing r) (pq_caller q) (Some ''inbound'') now = None" "now \<le> now'" "pq_intent q \<in> INTENTS"
    and fresh: "map_of (pm_pending (rt_pairing r)) tx = None" "map_of (rt_permissions r) tx = None"
  shows "v = refusal ''persistence_failed'' \<and> rt_pairing r' = rt_pairing r \<and> rt_permissions r' = rt_permissions r
    \<or> pairing_response r' (opened q (rt_pairing r) now' tx) = Inr v
      \<and> rt_pairing r' = (rt_pairing r)\<lparr>pm_pending := dict_set tx (opened q (rt_pairing r) now' tx) (pm_pending (rt_pairing r))\<rparr>
      \<and> rt_permissions r' = dict_set tx (permission_value ` pq_permissions q) (rt_permissions r)
      \<and> rt_trust_file r' = Some (trust_document (rt_pairing r') (rt_permissions r'))"
proof -
  let ?t = "opened q (rt_pairing r) now' tx"
  define r0 where "r0 = (set_pairing ((rt_pairing r)\<lparr>pm_pending := dict_set tx ?t (pm_pending (rt_pairing r))\<rparr>) r)
     \<lparr>rt_permissions := dict_set tx (permission_value ` pq_permissions q) (rt_permissions r)\<rparr>"
  have id: "pp_id ?t = tx" by (simp add: opened_def)
  note d = run [unfolded open_request_def begin_inbound [OF q] prod.case sum.case id, folded r0_def]
  obtain r1 x where s: "save_persisted_state st r0 = (r1, x)" by fastforce
  note k = save_keeps(1,2) [OF s]
  consider "x = Inr True" | "x = Inr False" using d s by (cases x) auto
  then show ?thesis
  proof cases
    case 1
    then have "r' = r1" "pairing_response r1 ?t = Inr v" using d s by auto
    then show ?thesis using k save_True [OF s [unfolded 1]] by (simp add: r0_def)
  next
    case 2
    then have "r' = abort_pairing r1 tx" "v = refusal ''persistence_failed''" using d s by auto
    then show ?thesis using k fresh by (simp add: r0_def pm_abort_def dict_pop_set_fresh)
  qed
qed

lemma request_answer:
  assumes run: "handle_pairing_request sig_ok st r q busy cb now now' tx = (r', Inr v)" and inv: "pm_inv (rt_pairing r)"
    and q: "mk_pairing_request q = Inr q" "now \<le> now'"
    and fresh: "map_of (pm_pending (rt_pairing r)) tx = None" "map_of (rt_permissions r) tx = None"
  shows "pm_grants (rt_pairing r') = pm_grants (rt_pairing r) \<and> pm_trusted (rt_pairing r') = pm_trusted (rt_pairing r)
    \<and> (fget v ''approved'' \<noteq> PBool True \<longrightarrow> rt_pairing r' = rt_pairing r \<and> rt_permissions r' = rt_permissions r)
    \<and> (fget v ''approved'' = PBool True \<longrightarrow> \<not> busy \<and> pq_caller q \<noteq> cm_local (rt_cm r)
        \<and> (\<forall>g. map_of (pm_grants (rt_pairing r)) (pq_caller q) = Some g \<longrightarrow> pq_intent q = ''repair''
             \<and> grant_root_continuous sig_ok g (pq_root q) (pq_generation q) (pq_transport q) (pq_proof q))
        \<and> (\<exists>t. map_of (pm_pending (rt_pairing r')) (pp_id t) = Some t \<and> pairing_response r' t = Inr v \<and> pp_peer t = pq_caller q
             \<and> pp_secret t = pq_secret q \<and> pp_direction t = ''inbound''
             \<and> (r' = r \<or> (\<exists>f. cb = Some f \<and> f q = Inr True) \<and> pp_binding t = request_binding q \<and> pp_intent t = pq_intent q
                  \<and> map_of (rt_permissions r') (pp_id t) = Some (permission_value ` pq_permissions q)
                  \<and> rt_trust_file r' = Some (trust_document (rt_pairing r') (rt_permissions r')))))"
proof (cases "r' = r \<and> (\<exists>x. v = refusal x)")
  case True
  then show ?thesis by auto
next
  case False
  let ?m = "rt_pairing r"
  note d = run [unfolded handle_pairing_request_def Let_def]
  have g: "\<not> busy" "pq_caller q \<noteq> cm_local (rt_cm r)" "\<forall>g. map_of (pm_grants ?m) (pq_caller q) = Some g \<longrightarrow> pq_intent q = ''repair''
      \<and> grant_root_continuous sig_ok g (pq_root q) (pq_generation q) (pq_transport q) (pq_proof q)"
    using d False by (auto split: if_splits option.splits)
  have rest: "(case find_pending_for ?m (pq_caller q) (Some ''inbound'') now of
          Some t \<Rightarrow> (r, if pp_secret t = pq_secret q then pairing_response r t else Inr (refusal ''already_pending''))
        | None \<Rightarrow> (case host_approves cb q of Inl e \<Rightarrow> (r, Inl e)
             | Inr b \<Rightarrow> if b then open_request st r q now' tx else (r, Inr (refusal ''denied'')))) = (r', Inr v)"
    using d False by (auto split: if_splits)
  show ?thesis
  proof (cases "find_pending_for ?m (pq_caller q) (Some ''inbound'') now")
    case (Some t)
    with rest False have t: "r' = r" "pp_secret t = pq_secret q" "pairing_response r t = Inr v" by (auto split: if_splits)
    from find_Some_D [OF Some [unfolded find_pending_for_def]] obtain k where k: "(k, t) \<in> set (pm_pending ?m)"
      "pp_peer t = pq_caller q" "pp_direction t = ''inbound''" by auto
    then have "map_of (pm_pending ?m) (pp_id t) = Some t" using inv by (auto simp: pm_inv_def)
    then show ?thesis using t k g by auto
  next
    case None
    with rest False have h: "host_approves cb q = Inr True" "open_request st r q now' tx = (r', Inr v)"
      by (auto split: sum.splits if_splits)
    have i: "pq_intent q \<in> INTENTS" using q(1) by (auto simp: mk_pairing_request_def INTENTS_def split: if_splits)
    from open_request_cases [OF h(2) None q(2) i fresh] h(1) g response_fields(2) [of r' "opened q ?m now' tx" v] show ?thesis
      by (auto simp: host_approves_True opened_def intro!: exI [of _ "opened q ?m now' tx"])
  qed
qed

text \<open>The exact outcome.\<close>

lemma request_answered:
  assumes run: "handle_pairing_request sig_ok st r q busy cb now now' tx = (r', Inr v)" and inv: "pm_inv (rt_pairing r)"
    and q: "mk_pairing_request q = Inr q" "now \<le> now'"
    and fresh: "map_of (pm_pending (rt_pairing r)) tx = None" "map_of (rt_permissions r) tx = None"
  shows "(fget v ''approved'' \<noteq> PBool True \<longrightarrow> rt_pairing r' = rt_pairing r \<and> rt_permissions r' = rt_permissions r)
    \<and> (fget v ''approved'' = PBool True \<longrightarrow> \<not> busy \<and> rt_loaded r \<and> pq_caller q \<noteq> cm_local (rt_cm r)
        \<and> (\<forall>g. map_of (pm_grants (rt_pairing r)) (pq_caller q) = Some g \<longrightarrow> pq_intent q = ''repair''
             \<and> grant_root_continuous sig_ok g (pq_root q) (pq_generation q) (pq_transport q) (pq_proof q))
        \<and> (case find_pending_for (rt_pairing r) (pq_caller q) (Some ''inbound'') now of
             Some t \<Rightarrow> r' = r \<and> pp_secret t = pq_secret q \<and> pairing_response r t = Inr v
           | None \<Rightarrow> (\<exists>f. cb = Some f \<and> f q = Inr True) \<and> pairing_response r' (opened q (rt_pairing r) now' tx) = Inr v
               \<and> rt_pairing r' = (rt_pairing r)\<lparr>pm_pending := dict_set tx (opened q (rt_pairing r) now' tx) (pm_pending (rt_pairing r))\<rparr>
               \<and> rt_permissions r' = dict_set tx (permission_value ` pq_permissions q) (rt_permissions r)
               \<and> rt_trust_file r' = Some (trust_document (rt_pairing r') (rt_permissions r'))))"
proof (cases "r' = r \<and> (\<exists>x. v = refusal x)")
  case True
  then show ?thesis by auto
next
  case False
  let ?m = "rt_pairing r"
  note d = run [unfolded handle_pairing_request_def Let_def]
  have g: "\<not> busy" "rt_loaded r" "pq_caller q \<noteq> cm_local (rt_cm r)" "\<forall>g. map_of (pm_grants ?m) (pq_caller q) = Some g \<longrightarrow> pq_intent q = ''repair''
      \<and> grant_root_continuous sig_ok g (pq_root q) (pq_generation q) (pq_transport q) (pq_proof q)"
    using d False by (auto split: if_splits option.splits)
  have rest: "(case find_pending_for ?m (pq_caller q) (Some ''inbound'') now of
          Some t \<Rightarrow> (r, if pp_secret t = pq_secret q then pairing_response r t else Inr (refusal ''already_pending''))
        | None \<Rightarrow> (case host_approves cb q of Inl e \<Rightarrow> (r, Inl e)
             | Inr b \<Rightarrow> if b then open_request st r q now' tx else (r, Inr (refusal ''denied'')))) = (r', Inr v)"
    using d False by (auto split: if_splits)
  show ?thesis
  proof (cases "find_pending_for ?m (pq_caller q) (Some ''inbound'') now")
    case (Some t)
    with rest False have "r' = r" "pp_secret t = pq_secret q" "pairing_response r t = Inr v" by (auto split: if_splits)
    then show ?thesis using Some g by auto
  next
    case None
    with rest False have h: "host_approves cb q = Inr True" "open_request st r q now' tx = (r', Inr v)"
      by (auto split: sum.splits if_splits)
    have i: "pq_intent q \<in> INTENTS" using q(1) by (auto simp: mk_pairing_request_def INTENTS_def split: if_splits)
    from open_request_cases [OF h(2) None q(2) i fresh] h(1) g None response_fields(2) [of r' "opened q ?m now' tx" v] show ?thesis
      by (auto simp: host_approves_True)
  qed
qed


section \<open>The asking side: failures\<close>

definition trust_kept :: "pairing_manager \<Rightarrow> pairing_manager \<Rightarrow> bool" where
  "trust_kept m m' \<longleftrightarrow> (\<forall>k. map_of (pm_trusted m') k = map_of (pm_trusted m) k \<and> pm_is_auth_broken m' k = pm_is_auth_broken m k)
     \<and> pm_grants m' = pm_grants m"

text \<open>What the run changes before it settles: nothing but the trust in its peer and pending transactions.\<close>

definition only_peer :: "node_id \<Rightarrow> pairing_manager \<Rightarrow> pairing_manager \<Rightarrow> bool" where
  "only_peer p m m' \<longleftrightarrow> (\<forall>k. k \<noteq> p \<longrightarrow> map_of (pm_trusted m') k = map_of (pm_trusted m) k \<and> pm_is_auth_broken m' k = pm_is_auth_broken m k)
     \<and> pm_grants m' = pm_grants m"

definition undoes :: "undo_point \<Rightarrow> pairing_manager \<Rightarrow> bool" where
  "undoes u m \<longleftrightarrow> un_previous u = map_of (pm_trusted m) (un_peer u) \<and> un_broken u = pm_is_auth_broken m (un_peer u)"

lemma kept_only: "trust_kept m m' \<Longrightarrow> only_peer p m m'"
  by (simp add: trust_kept_def only_peer_def)

lemma pending_kept [simp]: "trust_kept m (m\<lparr>pm_pending := d\<rparr>)" "trust_kept m m"
  by (simp_all add: trust_kept_def pm_is_auth_broken_def)

lemma restore_keeps:
  assumes "pm_inv m" "undoes u m" "only_peer (un_peer u) m m'"
  shows "trust_kept m (pm_restore_trusted (pm_abort m' tx) (un_peer u) (un_previous u) (un_broken u))"
proof (cases "map_of (pm_trusted m) (un_peer u)")
  case None
  then have "un_peer u \<notin> fst ` set (pm_broken m)" using assms(1) by (auto simp: pm_inv_def map_of_eq_None_iff)
  then have "\<not> pm_is_auth_broken m (un_peer u)" by (force simp: pm_is_auth_broken_def dest: map_of_SomeD)
  then show ?thesis using None assms(2,3)
    by (auto simp: undoes_def only_peer_def trust_kept_def pm_restore_trusted_def pm_revoke_trusted_def pm_abort_def
        pm_is_auth_broken_def dict_simps)
next
  case (Some p)
  then show ?thesis using assms(2,3)
    by (auto simp: undoes_def only_peer_def trust_kept_def pm_restore_trusted_def pm_abort_def pm_is_auth_broken_def dict_simps)
qed

lemma roll_back_ok:
  assumes "io_storage (pn_undo io)" "pm_inv m" "undoes u m" "only_peer (un_peer u) m (rt_pairing r)"
  shows "\<exists>r'. roll_back io u r = (r', Inr ()) \<and> trust_kept m (rt_pairing r') \<and> rt_permissions r' = rt_permissions r"
proof -
  let ?q = "set_pairing (pm_restore_trusted (pm_abort (rt_pairing r) (pp_id (un_pending u))) (un_peer u) (un_previous u) (un_broken u)) r"
  obtain r' b where s: "save_persisted_state (pn_undo io) ?q = (r', Inr b)" using save_total [OF assms(1)] by blast
  then have "roll_back io u r = (r', Inr ())" by (simp add: roll_back_def rollback_pairing_def)
  then show ?thesis using save_keeps(1,2) [OF s] restore_keeps [OF assms(2-4)] by simp
qed

definition pairing_undone :: "pairing_manager \<Rightarrow> runtime \<Rightarrow> runtime \<Rightarrow> bool" where
  "pairing_undone m r r' \<longleftrightarrow> trust_kept m (rt_pairing r') \<and> rt_permissions r' = rt_permissions r"

lemma fail_settles:
  assumes "io_storage (pn_undo io)" "pm_inv m" "undoes u m" "only_peer (un_peer u) m (rt_pairing r)"
  shows "\<exists>r'. fail_pairing io u r e = (r', Inl e) \<and> pairing_undone m r r'"
    "\<exists>r' x. withdraw_pairing io u tx r e = (r', Inl x) \<and> pairing_undone m r r'"
  using roll_back_ok [OF assms] by (auto simp: fail_pairing_def withdraw_pairing_def pairing_undone_def split: sum.split)

lemma finish_fails:
  assumes "finish_pairing io u tx p r = (r', Inl e)" "io_storage (pn_undo io)" "io_storage (pn_commit io)" "pm_inv m" "undoes u m"
    "only_peer (un_peer u) m (rt_pairing r)" and c: "\<And>i raw x. pn_control io i raw = Inl x \<Longrightarrow> isa x Exception"
  shows "pairing_undone m r r'"
proof -
  obtain r1 b where s: "save_persisted_state (pn_commit io) r = (r1, Inr b)" using save_total [OF assms(3)] by blast
  note k = save_keeps(1,2) [OF s]
  note w = fail_settles(2) [where 'b = trusted_peer, OF assms(2,4,5)]
  have w1: "pairing_undone m r q" if "withdraw_pairing io u tx r1 x = (q, Inl y :: trusted_peer res)" for x y q
    using w [of r1 tx x] that assms(6) k by (auto simp: pairing_undone_def)
  have w0: "pairing_undone m r q" if "withdraw_pairing io u tx r x = (q, Inl y :: trusted_peer res)" for x y q
    using w [of r tx x] that assms(6) by auto
  have sc: "isa x Exception" if "send_control io ''pair_confirm'' tx f = Inl x" for x f
    using that c by (auto simp: send_control_def ok_simps split: if_splits)
  show ?thesis
    using assms(1) w0 w1 sc by (auto simp: finish_pairing_def s split: if_splits sum.splits)
qed

lemma accept_only_peer:
  assumes "pm_accept_grant m tx p g b now = (m', x)"
  shows "only_peer p m m'" "x = Inl e \<Longrightarrow> m' = m"
proof -
  show "only_peer p m m'"
    using assms by (auto simp: pm_accept_grant_def Let_def pm_trust_def only_peer_def pm_is_auth_broken_def dict_simps split: sum.splits if_splits)
  show "m' = m" if "x = Inl e"
    using assms that by (auto simp: pm_accept_grant_def Let_def split: sum.splits if_splits)
qed

lemma only_peer_trans: "trust_kept m m' \<Longrightarrow> only_peer p m' m'' \<Longrightarrow> only_peer p m m''"
  by (simp add: trust_kept_def only_peer_def)

lemma accept_response_fails:
  assumes run: "accept_response np b io u c ps i v r = (r', Inl e)" and io: "io_storage (pn_undo io)" "io_storage (pn_commit io)"
    and m: "pm_inv m" "undoes u m" "trust_kept m (rt_pairing r)" and c: "\<And>i raw x. pn_control io i raw = Inl x \<Longrightarrow> isa x Exception"
  shows "pairing_undone m r r'"
proof -
  note o = kept_only [OF m(3), of "un_peer u"]
  have f: "pairing_undone m r q" if "fail_pairing io u r x = (q, Inl y :: trusted_peer res)" for x y q
    using fail_settles(1) [where 'a = trusted_peer, OF io(1) m(1,2) o, of x] that by auto
  have fin: "pairing_undone m r q" if a: "pm_accept_grant (rt_pairing r) tid (un_peer u) g b2 now = (p, Inr t)"
      and q: "finish_pairing io u tx t (set_pairing p r) = (q, Inl y)" for tid g b2 now p t tx q y
    using finish_fails [OF q io m(1,2) _ c] only_peer_trans [OF m(3) accept_only_peer(1) [OF a]] by (simp add: pairing_undone_def)
  have same: "pairing_undone m r (set_pairing p r)" if "pm_accept_grant (rt_pairing r) tid (un_peer u) g b2 now = (p, Inl y)" for tid g b2 now p y
    using accept_only_peer(2) [OF that refl] m(3) by (simp add: pairing_undone_def)
  have "pairing_undone m r r" using m(3) by (simp add: pairing_undone_def)
  then show ?thesis using run f fin same by (auto simp: accept_response_def split: sum.splits if_splits prod.splits)
qed

lemma run_routes_fails:
  assumes run: "run_routes np b io u c ps intent r = (r', Inl e)" and io: "io_storage (pn_undo io)" "io_storage (pn_commit io)"
    and m: "pm_inv m" "undoes u m" "trust_kept m (rt_pairing r)" and c: "\<And>i raw x. pn_control io i raw = Inl x \<Longrightarrow> isa x Exception"
  shows "pairing_undone m r r'"
proof -
  note o = kept_only [OF m(3), of "un_peer u"]
  have f: "pairing_undone m r q" if "fail_pairing io u r x = (q, Inl y :: trusted_peer res)" for x y q
    using fail_settles(1) [where 'a = trusted_peer, OF io(1) m(1,2) o, of x] that by auto
  have "pairing_undone m r r" using m(3) by (simp add: pairing_undone_def)
  then show ?thesis using run f accept_response_fails [OF _ io m c]
    by (auto simp: run_routes_def split: sum.splits route_result.splits option.splits)
qed

lemma begin_trust:
  assumes "pm_begin m p s b d n now i f = (m', x)"
  shows "trust_kept m m' \<and> pm_local m' = pm_local m \<and> (\<forall>e. x = Inl e \<longrightarrow> m' = m)"
proof (cases rule: pm_begin_cases [of m p s b d n now i f, case_names refused replayed new])
  case (new u)
  then show ?thesis using assms by auto
qed (use assms in auto)

lemma establish_runs:
  assumes "establish sig_ok sign np io r peer permissions intent = (r', x)"
  obtains (refused) e where "r' = r" "x = Inl e"
  | (early) p where "r' = r" "x = Inr p" "map_of (pm_trusted (rt_pairing r)) peer = Some p" "intent = ''pair''"
  | (run) c b m t where "map_of (cm_candidates (rt_cm r)) (nid_value peer) = Some c" "own_binding sign np = Inr b"
      "permissions \<subseteq> permission_value ` READ_PERMISSIONS"
      "pairing_gate intent (pm_classify_trusted_candidate sig_ok (rt_pairing r) peer (dc_root c) (dc_transport c) (dc_generation c)
          (dc_proof c) (pn_classify_at io)) (map_of (pm_trusted (rt_pairing r)) peer) = Inr None"
      "pm_begin (rt_pairing r) peer (Some (pn_secret io)) b ''outbound'' intent (pn_begin_at io) (pn_id io) [] = (m, Inr t)"
      "run_routes np b io \<lparr>un_peer = peer, un_previous = map_of (pm_trusted (rt_pairing r)) peer,
          un_broken = pm_is_auth_broken (rt_pairing r) peer, un_pending = t\<rparr> c permissions intent (set_pairing m r) = (r', x)"
proof (cases "pn_cancel io Starting \<or> (\<forall>c. map_of (cm_candidates (rt_cm r)) (nid_value peer) = Some c \<longrightarrow>
    \<not> candidate_connectable c \<or> \<not> truthy (dc_transport c) \<or> \<not> permissions \<subseteq> permission_value ` READ_PERMISSIONS)")
  case True
  then have "\<exists>e. establish sig_ok sign np io r peer permissions intent = (r, Inl e)"
    by (auto simp: establish_def raise_def split: option.split)
  then show ?thesis using assms refused by auto
next
  case False
  let ?m = "rt_pairing r" let ?prev = "map_of (pm_trusted ?m) peer"
  obtain c where c: "\<not> pn_cancel io Starting" "map_of (cm_candidates (rt_cm r)) (nid_value peer) = Some c" "candidate_connectable c"
    "truthy (dc_transport c)" "permissions \<subseteq> permission_value ` READ_PERMISSIONS" using False by auto
  let ?gate = "pairing_gate intent (pm_classify_trusted_candidate sig_ok ?m peer (dc_root c) (dc_transport c) (dc_generation c)
          (dc_proof c) (pn_classify_at io)) ?prev"
  note d = assms [unfolded establish_def c(2) option.case Let_def if_not_P [OF c(1)]]
  have d: "sbind (r, ?gate) (\<lambda>r early. case early of
                 Some p \<Rightarrow> (r, Inr p)
               | None \<Rightarrow> sbind (r, own_binding sign np) (\<lambda>r b.
                   case pm_begin (rt_pairing r) peer (Some (pn_secret io)) b ''outbound'' intent (pn_begin_at io) (pn_id io) [] of
                     (p, Inl e) \<Rightarrow> (set_pairing p r, Inl e)
                   | (p, Inr t) \<Rightarrow> run_routes np b io \<lparr>un_peer = peer, un_previous = ?prev, un_broken = pm_is_auth_broken ?m peer, un_pending = t\<rparr>
                       c permissions intent (set_pairing p r))) = (r', x)"
    using d c(3-5) by simp
  show ?thesis
  proof (cases ?gate)
    case (Inl e)
    then show ?thesis using d refused by auto
  next
    case (Inr early)
    show ?thesis
    proof (cases early)
      case (Some p)
      then have "?prev = Some p" "intent = ''pair''" using Inr by (auto simp: pairing_gate_def split: if_splits)
      then show ?thesis using d Inr Some early by auto
    next
      case None
      show ?thesis
      proof (cases "own_binding sign np")
        case (Inl e)
        then show ?thesis using d Inr None refused by auto
      next
        case b: (Inr b)
        obtain m y where m: "pm_begin ?m peer (Some (pn_secret io)) b ''outbound'' intent (pn_begin_at io) (pn_id io) [] = (m, y)" by fastforce
        show ?thesis
        proof (cases y)
          case (Inl e)
          then have "m = ?m" using begin_trust [OF m] by simp
          then show ?thesis using d Inr None b m Inl refused by auto
        next
          case t: (Inr t)
          then have "run_routes np b io \<lparr>un_peer = peer, un_previous = ?prev, un_broken = pm_is_auth_broken ?m peer, un_pending = t\<rparr>
             c permissions intent (set_pairing m r) = (r', x)" using d Inr None b m by simp
          then show ?thesis using run [OF c(2) b c(5)] Inr None m t by simp
        qed
      qed
    qed
  qed
qed

text \<open>
  C8. A pairing or repair that fails leaves trust as it was: whatever exception \<open>pair\<close> or \<open>repair\<close> raises, at whatever
  step (no route, refusal, a malformed or overreaching answer, cancellation, a failed write, a confirmation that is lost
  or refused), every peer is trusted afterwards with the same secret, permissions and binding and the same broken mark as
  before, and the grants to others and the remembered permissions are unchanged. The hypotheses say that storage fails with
  the errors a save handles and that the transport raises no \<open>BaseException\<close> outside \<open>Exception\<close>.
\<close>

theorem failed_pairing_keeps_trust:
  assumes run: "establish sig_ok sign np io r peer permissions intent = (r', Inl e)" and inv: "pm_inv (rt_pairing r)"
    and io: "io_storage (pn_undo io)" "io_storage (pn_commit io)" "\<And>i raw x. pn_control io i raw = Inl x \<Longrightarrow> isa x Exception"
  shows "map_of (pm_trusted (rt_pairing r')) k = map_of (pm_trusted (rt_pairing r)) k
    \<and> pm_is_auth_broken (rt_pairing r') k = pm_is_auth_broken (rt_pairing r) k
    \<and> pm_grants (rt_pairing r') = pm_grants (rt_pairing r) \<and> rt_permissions r' = rt_permissions r"
proof (rule establish_runs [OF run])
  fix c b m t
  assume b: "pm_begin (rt_pairing r) peer (Some (pn_secret io)) b ''outbound'' intent (pn_begin_at io) (pn_id io) [] = (m, Inr t)"
    and rr: "run_routes np b io \<lparr>un_peer = peer, un_previous = map_of (pm_trusted (rt_pairing r)) peer,
        un_broken = pm_is_auth_broken (rt_pairing r) peer, un_pending = t\<rparr> c permissions intent (set_pairing m r) = (r', Inl e)"
  have "pairing_undone (rt_pairing r) (set_pairing m r) r'"
    by (rule run_routes_fails [OF rr io(1,2) inv _ _ io(3)]) (use begin_trust [OF b] in \<open>simp_all add: undoes_def\<close>)
  then show ?thesis by (simp add: pairing_undone_def trust_kept_def)
qed auto

section \<open>The asking side: success\<close>

lemma fail_no_result [simp]: "fail_pairing io u r e \<noteq> (r', Inr p)" "withdraw_pairing io u tx r e \<noteq> (r', Inr p)"
  by (auto simp: fail_pairing_def withdraw_pairing_def ok_simps split: sum.splits)

lemma routes_answered: "pairing_routes io q i es le = Answered j v \<Longrightarrow> request_pairing io j q = Inr v"
  by (induction io q i es le rule: pairing_routes.induct) (auto split: sum.splits if_splits)

lemma request_pairing_Some:
  "request_pairing io i q = Inr (Some v) \<Longrightarrow> pn_request io i q = Inr v \<and> is_dict v \<and> fget v ''approved'' = PBool True"
  by (auto simp: request_pairing_def ok_simps split: if_splits)

lemma send_control_True:
  assumes "send_control io op tx f = Inr True"
  obtains v where "pn_control io (pt_route tx) (control_envelope op tx) = Inr v" "fget v ''approved'' = PBool True" "\<not> f"
  using assms by (auto simp: send_control_def ok_simps split: if_splits)

lemma finish_ok:
  assumes "finish_pairing io u tx p r = (r', Inr q)"
  shows "q = p \<and> save_persisted_state (pn_commit io) r = (r', Inr True) \<and> send_control io ''pair_confirm'' tx (pn_cancel io Confirming) = Inr True"
  using assms by (auto simp: finish_pairing_def ok_simps split: if_splits sum.splits)

lemma accept_response_ok:
  assumes "accept_response np b io u c permissions i v r = (r', Inr p)"
  obtains ps tx m where "response_permissions v = Inr ps" "set ps \<noteq> {}" "set ps \<subseteq> named_permissions permissions"
    "transaction_of v (set ps) i = Inr tx"
    "pm_accept_grant (rt_pairing r) (pp_id (un_pending u)) (un_peer u)
       \<lparr>pg_caller = np_node np, pg_secret = pp_secret (un_pending u), pg_permissions = permission_value ` set ps,
        pg_binding = b, pg_members = True\<rparr> (candidate_binding c) (pn_accept_at io) = (m, Inr p)"
    "save_persisted_state (pn_commit io) (set_pairing m r) = (r', Inr True)"
    "send_control io ''pair_confirm'' tx (pn_cancel io Confirming) = Inr True"
proof -
  obtain ps where ps: "response_permissions v = Inr ps" "set ps \<noteq> {}" "set ps \<subseteq> named_permissions permissions"
    using assms by (auto simp: accept_response_def split: sum.splits if_splits)
  let ?g = "\<lparr>pg_caller = np_node np, pg_secret = pp_secret (un_pending u), pg_permissions = permission_value ` set ps,
        pg_binding = b, pg_members = True\<rparr>"
  note d = assms [unfolded accept_response_def ps(1) sum.case]
  obtain tx where tx: "transaction_of v (set ps) i = Inr tx" using d ps by (auto split: sum.splits if_splits)
  obtain m y where m: "pm_accept_grant (rt_pairing r) (pp_id (un_pending u)) (un_peer u) ?g (candidate_binding c) (pn_accept_at io) = (m, y)"
    by fastforce
  have d: "(case y of Inl e \<Rightarrow> (set_pairing m r, Inl e) | Inr trusted \<Rightarrow> finish_pairing io u tx trusted (set_pairing m r)) = (r', Inr p)"
    using d ps tx m by simp
  then obtain t where t: "y = Inr t" "finish_pairing io u tx t (set_pairing m r) = (r', Inr p)" by (auto split: sum.splits)
  from that [OF ps tx] finish_ok [OF t(2)] m t(1) show thesis by auto
qed

lemma begin_binds:
  assumes "pm_begin m peer (Some s) b d n now i f = (m', Inr t)" "s \<noteq> []"
  shows "pp_secret t = s \<and> pp_peer t = peer \<and> pp_direction t = d \<and> pp_intent t = n"
proof (cases "\<exists>u. find_pending m peer s now = Some u \<and> pp_direction u = d \<and> pp_intent u = n")
  case True
  then obtain u where u: "find_pending m peer s now = Some u" "pp_direction u = d" "pp_intent u = n" by blast
  with assms have "t = u" by (auto simp: pm_begin_def Let_def split: if_splits)
  with u find_Some_D [OF u(1) [unfolded find_pending_def]] show ?thesis by auto
next
  case False
  with assms show ?thesis
    by (auto simp: pm_begin_def Let_def mk_pending_def or_empty_def split: if_splits option.splits sum.splits)
qed

lemma named_value: "permission_value ` named_permissions ps = ps \<inter> permission_value ` set all_permissions"
  by (auto simp: named_permissions_def)

lemma established:
  assumes "establish sig_ok sign np io r peer permissions intent = (r', Inr p)" "map_of (pm_trusted (rt_pairing r)) peer \<noteq> Some p"
    "pn_secret io \<noteq> []"
  obtains c b m t i v ps tx m' where "map_of (cm_candidates (rt_cm r)) (nid_value peer) = Some c" "own_binding sign np = Inr b"
      "permissions \<subseteq> permission_value ` READ_PERMISSIONS"
      "pairing_gate intent (pm_classify_trusted_candidate sig_ok (rt_pairing r) peer (dc_root c) (dc_transport c) (dc_generation c)
          (dc_proof c) (pn_classify_at io)) (map_of (pm_trusted (rt_pairing r)) peer) = Inr None"
      "pm_begin (rt_pairing r) peer (Some (pn_secret io)) b ''outbound'' intent (pn_begin_at io) (pn_id io) [] = (m, Inr t)"
      "pn_request io i (sent_request np (pp_secret t) permissions intent) = Inr v" "fget v ''approved'' = PBool True" "is_dict v"
      "response_permissions v = Inr ps" "set ps \<noteq> {}" "set ps \<subseteq> named_permissions permissions"
      "transaction_of v (set ps) i = Inr tx"
      "pm_accept_grant m (pp_id t) peer \<lparr>pg_caller = np_node np, pg_secret = pp_secret t, pg_permissions = permission_value ` set ps,
          pg_binding = b, pg_members = True\<rparr> (candidate_binding c) (pn_accept_at io) = (m', Inr p)"
      "save_persisted_state (pn_commit io) (set_pairing m' r) = (r', Inr True)"
      "send_control io ''pair_confirm'' tx (pn_cancel io Confirming) = Inr True"
proof (rule establish_runs [OF assms(1)])
  fix c b m t
  assume a: "map_of (cm_candidates (rt_cm r)) (nid_value peer) = Some c" "own_binding sign np = Inr b" "permissions \<subseteq> permission_value ` READ_PERMISSIONS"
      "pairing_gate intent (pm_classify_trusted_candidate sig_ok (rt_pairing r) peer (dc_root c) (dc_transport c) (dc_generation c)
          (dc_proof c) (pn_classify_at io)) (map_of (pm_trusted (rt_pairing r)) peer) = Inr None"
      "pm_begin (rt_pairing r) peer (Some (pn_secret io)) b ''outbound'' intent (pn_begin_at io) (pn_id io) [] = (m, Inr t)"
    and rr: "run_routes np b io \<lparr>un_peer = peer, un_previous = map_of (pm_trusted (rt_pairing r)) peer,
          un_broken = pm_is_auth_broken (rt_pairing r) peer, un_pending = t\<rparr> c permissions intent (set_pairing m r) = (r', Inr p)"
  let ?u = "\<lparr>un_peer = peer, un_previous = map_of (pm_trusted (rt_pairing r)) peer,
          un_broken = pm_is_auth_broken (rt_pairing r) peer, un_pending = t\<rparr>"
  have "\<exists>es i v. pairing_routes io (sent_request np (pp_secret t) permissions intent) 0 es None = Answered i (Some v)
      \<and> accept_response np b io ?u c permissions i v (set_pairing m r) = (r', Inr p)"
    using rr by (auto simp: run_routes_def split: sum.splits route_result.splits option.splits)
  then obtain es i v where v: "pairing_routes io (sent_request np (pp_secret t) permissions intent) 0 es None = Answered i (Some v)"
    and acc: "accept_response np b io ?u c permissions i v (set_pairing m r) = (r', Inr p)" by blast
  note q = request_pairing_Some [OF routes_answered [OF v]]
  show thesis
    by (rule accept_response_ok [OF acc]) (rule that [OF a]; use q in simp)
qed (use assms(2) in auto)

lemma classify_range:
  "map_of (pm_trusted m) p = Some t \<Longrightarrow>
    pm_classify_trusted_candidate sig_ok m p rk fp gen pr now \<in> {IDENTITY_CONFLICT, REPAIR_REQUIRED, OUTBOUND_TRUSTED}"
  by (simp add: pm_classify_trusted_candidate_def Let_def)

lemma gate_passes:
  assumes "pairing_gate intent (pm_classify_trusted_candidate sig_ok m p rk fp gen pr now) (map_of (pm_trusted m) p) = Inr None"
  shows "if intent = ''pair'' then map_of (pm_trusted m) p = None
    else pm_classify_trusted_candidate sig_ok m p rk fp gen pr now = REPAIR_REQUIRED"
proof (cases "map_of (pm_trusted m) p")
  case (Some t)
  from classify_range [OF Some, of sig_ok rk fp gen pr now] assms Some show ?thesis
    by (auto simp: pairing_gate_def split: if_splits)
qed (use assms in \<open>auto simp: pairing_gate_def split: if_splits\<close>)

lemma accept_grant_trusts:
  assumes "pm_accept_grant m tx p g b now = (m', Inr q)"
  shows "\<exists>t. map_of (pm_pending m) tx = Some t \<and> q = \<lparr>tp_peer = p, tp_secret = pp_secret t, tp_permissions = pg_permissions g,
      tp_binding = b, tp_members = pg_members g\<rparr> \<and> m' = pm_trust m tx q"
  using assms by (auto simp: pm_accept_grant_def Let_def active_Inr split: sum.splits if_splits)

lemma begin_pending:
  assumes "pm_begin m peer s b d n now i f = (m', Inr t)" "pm_inv m"
  shows "map_of (pm_pending m') (pp_id t) = Some t"
proof (cases rule: pm_begin_cases [of m peer s b d n now i f, case_names refused replayed new])
  case (replayed u)
  then show ?thesis using assms by (auto simp: pm_inv_def)
next
  case (new u)
  then show ?thesis using assms by (auto simp: begin_result_def)
qed (use assms in auto)

text \<open>
  C34. A pairing that succeeds trusts exactly the peer that was announced, with what both sides agreed: when \<open>pair\<close> or
  \<open>repair\<close> returns new trust, its secret is the one this run drew, its permissions are a non-empty part of the requested
  ones and read-only, its binding is the announced one; the peer is trusted with it and not marked broken, the
  trust file holds it, and the peer confirmed the transaction of its answer. \<open>pair\<close> found no trust before and
  so replaced none; \<open>repair\<close> found trust that the announcement proved to need repair. Trust in other peers, all grants and
  the remembered permissions are unchanged.
\<close>

theorem pairing_establishes:
  assumes run: "establish sig_ok sign np io r peer permissions intent = (r', Inr p)" and new: "map_of (pm_trusted (rt_pairing r)) peer \<noteq> Some p"
    and secret: "pn_secret io \<noteq> []" and inv: "pm_inv (rt_pairing r)"
  shows "tp_peer p = peer \<and> tp_secret p = pn_secret io \<and> tp_permissions p \<noteq> {} \<and> tp_permissions p \<subseteq> permissions
    \<and> permissions \<subseteq> permission_value ` READ_PERMISSIONS
    \<and> (\<exists>c. map_of (cm_candidates (rt_cm r)) (nid_value peer) = Some c \<and> tp_binding p = candidate_binding c
         \<and> (if intent = ''pair'' then map_of (pm_trusted (rt_pairing r)) peer = None
            else pm_classify_trusted_candidate sig_ok (rt_pairing r) peer (dc_root c) (dc_transport c) (dc_generation c)
              (dc_proof c) (pn_classify_at io) = REPAIR_REQUIRED))
    \<and> map_of (pm_trusted (rt_pairing r')) peer = Some p \<and> \<not> pm_is_auth_broken (rt_pairing r') peer
    \<and> (k \<noteq> peer \<longrightarrow> map_of (pm_trusted (rt_pairing r')) k = map_of (pm_trusted (rt_pairing r)) k)
    \<and> pm_grants (rt_pairing r') = pm_grants (rt_pairing r) \<and> rt_permissions r' = rt_permissions r
    \<and> rt_trust_file r' = Some (trust_document (rt_pairing r') (rt_permissions r'))
    \<and> (\<exists>i tx v. pn_control io i (control_envelope ''pair_confirm'' tx) = Inr v \<and> fget v ''approved'' = PBool True
         \<and> permission_value ` pt_permissions tx = tp_permissions p)"
proof (rule established [OF run new secret])
  fix c b m t i v ps tx m'
  assume c: "map_of (cm_candidates (rt_cm r)) (nid_value peer) = Some c"
    and perm: "permissions \<subseteq> permission_value ` READ_PERMISSIONS"
    and gate: "pairing_gate intent (pm_classify_trusted_candidate sig_ok (rt_pairing r) peer (dc_root c) (dc_transport c) (dc_generation c)
          (dc_proof c) (pn_classify_at io)) (map_of (pm_trusted (rt_pairing r)) peer) = Inr None"
    and b: "pm_begin (rt_pairing r) peer (Some (pn_secret io)) b ''outbound'' intent (pn_begin_at io) (pn_id io) [] = (m, Inr t)"
    and ps: "set ps \<noteq> {}" "set ps \<subseteq> named_permissions permissions" and tx: "transaction_of v (set ps) i = Inr tx"
    and acc: "pm_accept_grant m (pp_id t) peer \<lparr>pg_caller = np_node np, pg_secret = pp_secret t, pg_permissions = permission_value ` set ps,
          pg_binding = b, pg_members = True\<rparr> (candidate_binding c) (pn_accept_at io) = (m', Inr p)"
    and sv: "save_persisted_state (pn_commit io) (set_pairing m' r) = (r', Inr True)"
    and conf: "send_control io ''pair_confirm'' tx (pn_cancel io Confirming) = Inr True"
  have p: "p = \<lparr>tp_peer = peer, tp_secret = pn_secret io, tp_permissions = permission_value ` set ps, tp_binding = candidate_binding c,
      tp_members = True\<rparr>" "m' = pm_trust m (pp_id t) p"
    using accept_grant_trusts [OF acc] begin_pending [OF b inv] begin_binds [OF b secret] by auto
  have kept: "trust_kept (rt_pairing r) m" using begin_trust [OF b] by simp
  have r': "rt_pairing r' = m'" "rt_permissions r' = rt_permissions r" using save_keeps(1,2) [OF sv] by simp_all
  have stored: "rt_trust_file r' = Some (trust_document (rt_pairing r') (rt_permissions r'))" using save_True [OF sv] r' by simp
  have sub: "permission_value ` set ps \<subseteq> permissions" using ps(2) by (auto simp: named_permissions_def)
  have pt: "pt_permissions tx = set ps" using tx by (auto simp: transaction_of_def ok_simps)
  obtain w where w: "pn_control io (pt_route tx) (control_envelope ''pair_confirm'' tx) = Inr w" "fget w ''approved'' = PBool True"
    by (rule send_control_True [OF conf])
  have ex: "\<exists>i tx v. pn_control io i (control_envelope ''pair_confirm'' tx) = Inr v \<and> fget v ''approved'' = PBool True
      \<and> permission_value ` pt_permissions tx = tp_permissions p"
    by (intro exI [of _ "pt_route tx"] exI [of _ tx] exI [of _ w]) (use w pt p(1) in simp)
  show ?thesis
    unfolding r' stored using ex p c perm sub ps(1) gate_passes [OF gate] kept
    by (auto simp: pm_trust_def trust_kept_def pm_is_auth_broken_def dict_simps)
qed

end
