(* ===== verification/PairingAgreement.thy ===== *)
theory PairingAgreement
  imports PairingFlowLaws
begin

text \<open>
  Both ends of a network pairing together: the asking runtime of \<open>pairing/flow.py\<close> whose messages reach an answering
  runtime of \<open>pairing/target.py\<close> and \<open>runtime/core.py\<close>.
\<close>

section \<open>The control message\<close>

lemma rmap_image: "rmap f xs = Inr ys \<Longrightarrow> Inr ` set ys = f ` set xs"
proof (induction xs arbitrary: ys)
  case (Cons x xs)
  then obtain y zs where "f x = Inr y" "rmap f xs = Inr zs" "ys = y # zs" by (auto simp: ok_simps)
  with Cons.IH [of zs] show ?case by simp
qed simp

lemma permission_universe: "set all_permissions = UNIV"
  using node_permission.exhaust by (auto simp: all_permissions_def)

lemma finite_permissions [simp]: "finite (P :: node_permission set)"
  by (rule finite_subset [of _ "set all_permissions"]) (simp_all add: permission_universe)

lemma mk_permission_Inr: "mk_permission s = Inr p \<longleftrightarrow> s = permission_value p"
proof
  assume "mk_permission s = Inr p"
  then have "find (\<lambda>p. permission_value p = s) all_permissions = Some p" by (auto simp: mk_permission_def split: option.splits)
  from find_Some_D [OF this] show "s = permission_value p" by simp
qed simp

lemma sorted_permissions_read:
  assumes "rmap (\<lambda>v. mk_permission (str_of v)) (list_of (sorted_permissions (permission_value ` P))) = Inr ps"
  shows "set ps = P"
proof -
  have "Inr ` set ps = (Inr ` P :: node_permission res set)"
    using rmap_image [OF assms] by (simp add: sorted_permissions_def image_image)
  then show ?thesis by blast
qed

lemma finite_case: "(case f of Fin x \<Rightarrow> g x | PosInf \<Rightarrow> raise c m | NegInf \<Rightarrow> raise c m | NaN \<Rightarrow> raise c m) = Inr y
    \<longleftrightarrow> (\<exists>x. f = Fin x \<and> g x = Inr y)"
  by (cases f) auto

lemma validated_control:
  assumes "validate_pairing_control_request raw now = Inr q"
  shows "fget raw ''op'' = PStr (pc_operation q) \<and> fget raw ''transaction_id'' = PStr (pc_transaction q)
    \<and> fget raw ''secret'' = PStr (pc_secret q) \<and> fget raw ''caller_node_id'' = PStr (nid_value (pc_caller q))
    \<and> (\<exists>ps. rmap (\<lambda>v. mk_permission (str_of v)) (list_of (fget raw ''permissions'')) = Inr ps \<and> pc_permissions q = set ps)"
proof -
  have sec: "is_str (fget raw ''secret'')" if "validate_secret (fget raw ''secret'') = Inr ()"
    using that by (auto simp: validate_secret_def split: if_splits)
  show ?thesis
    using assms sec
    by (auto simp: validate_pairing_control_request_def text_field_def ok_simps is_str_PStr finite_case split: if_splits sum.splits)
qed

section \<open>Agreement\<close>

lemma control_approved:
  assumes "pair_control_response (Some h) t raw now = (t', Inr v)" "fget v ''approved'' = PBool True"
  obtains q where "validate_pairing_control_request raw now = Inr q" "h t q = (t', Inr True)"
proof -
  obtain u x where u: "sbind (t, validate_pairing_control_request raw now) h = (u, x)" by fastforce
  then have "x = Inr True" "u = t'" using assms by (auto simp: pair_control_response_def Let_def split: sum.splits if_splits)
  then show thesis using u that by (auto simp: ok_simps)
qed

lemma transaction_fields:
  assumes "transaction_of v P i = Inr tx" "pairing_response r t = Inr v"
  shows "pt_id tx = PStr (pp_id t) \<and> pt_caller tx = PStr (nid_value (pp_peer t)) \<and> pt_secret tx = PStr (pp_secret t) \<and> pt_permissions tx = P
    \<and> pt_identity tx = opt_text (bd_identity (pp_binding t)) \<and> pt_transport tx = opt_text (bd_transport (pp_binding t))
    \<and> pt_expires tx = PFloat (Fin (pp_expires t)) \<and> pt_route tx = i"
  using assms response_fields [OF assms(2)] by (auto simp: transaction_of_def)

lemma opened_storable:
  assumes "inbound_storable m" "pm_inv m" "secret_ok (pq_secret q)" "nid_ok (pq_caller q)" "pq_generation q = None" "pq_intent q \<in> INTENTS"
  shows "inbound_storable (m\<lparr>pm_pending := dict_set tx (opened q m now tx) (pm_pending m)\<rparr>)"
  using assms keyed_set [of pp_id pending_storable "pm_pending m" "opened q m now tx"]
  by (simp add: inbound_storable_def opened_def pending_storable_def binding_ok_def request_binding_def DIRECTIONS_def)

lemma mk_request_fields:
  "mk_pairing_request q = Inr q' \<Longrightarrow> q' = q \<and> pq_intent q \<in> INTENTS"
  by (auto simp: mk_pairing_request_def INTENTS_def ok_simps split: if_splits)

lemma request_effect:
  assumes run: "handle_pairing_request sig_ok st r q busy cb now now' tx = (r', Inr v)" and q: "now \<le> now'" "pq_intent q \<in> INTENTS"
    and fresh: "map_of (pm_pending (rt_pairing r)) tx = None" "map_of (rt_permissions r) tx = None"
  shows "rt_pairing r' = rt_pairing r
    \<or> rt_pairing r' = (rt_pairing r)\<lparr>pm_pending := dict_set tx (opened q (rt_pairing r) now' tx) (pm_pending (rt_pairing r))\<rparr>"
proof (cases "r' = r")
  case False
  then have "find_pending_for (rt_pairing r) (pq_caller q) (Some ''inbound'') now = None" "open_request st r q now' tx = (r', Inr v)"
    using run by (auto simp: handle_pairing_request_def Let_def split: if_splits option.splits sum.splits)
  from open_request_cases [OF this(2,1) q fresh] show ?thesis by auto
qed simp

text \<open>
  C6. The two ends of a pairing agree: let the requests of the asking runtime reach an answering runtime (its state \<open>t\<close>
  becomes \<open>t1\<close>) and its control messages reach \<open>t1\<close>, over any routes (that what answers there is the peer is the business of
  the pinned transport, the answer itself does not name it), and let the secret be new to it, so that no live
  transaction of another request holds it. When the asking side returns new trust, it has recorded the peer it asked under
  the binding of that peer's announced candidate, and the answering side, after the
  confirmation, grants the asking node exactly that trust: filed under and naming the asking node, with the binding of the
  request (identity, transport, root, generation, proof), the same secret and the same permissions, all of which it
  stored; its grants to other nodes and its outbound trust are as before. Whether a grant was there before does not matter,
  and neither side can end with a secret the other does not hold.
\<close>

theorem pairing_ends_agree:
  assumes run: "establish sig_ok sign np io r peer permissions intent = (r', Inr p)" and new: "map_of (pm_trusted (rt_pairing r)) peer \<noteq> Some p"
    and inv: "pm_inv (rt_pairing r)" "pm_inv (rt_pairing t)" "inbound_storable (rt_pairing t)"
    and q: "q = sent_request np (pn_secret io) permissions intent" "mk_pairing_request q = Inr q" "secret_ok (pn_secret io)" "nid_ok (np_node np)"
    and fresh: "map_of (pm_pending (rt_pairing t)) tid = None" "map_of (rt_permissions t) tid = None" "now \<le> now'"
      "\<And>w. map_of (pm_pending (rt_pairing t)) (pp_id w) = Some w \<Longrightarrow> pp_secret w = pn_secret io \<Longrightarrow> pp_binding w = request_binding q"
    and asked: "\<And>i v. pn_request io i q = Inr v \<Longrightarrow> handle_pairing_request sig_ok' st t q busy cb now now' tid = (t1, Inr v)"
    and h: "h = (\<lambda>t c. handle_pairing_control st1 st2 st3 t c now2)" "io_storage st1" "io_storage st2" "io_storage st3"
    and controlled: "\<And>i raw v. pn_control io i raw = Inr v \<Longrightarrow> snd (pair_control_response (Some h) t1 raw now2) = Inr v"
  shows "\<exists>c tx t2 v g. map_of (cm_candidates (rt_cm r)) (nid_value peer) = Some c \<and> tp_peer p = peer \<and> tp_binding p = candidate_binding c
    \<and> pair_control_response (Some h) t1 (control_envelope ''pair_confirm'' tx) now2 = (t2, Inr v)
    \<and> fget v ''approved'' = PBool True \<and> np_node np \<noteq> cm_local (rt_cm t)
    \<and> map_of (pm_grants (rt_pairing t2)) (np_node np) = Some g \<and> pg_caller g = np_node np \<and> pg_binding g = request_binding q
    \<and> pg_secret g = tp_secret p \<and> pg_permissions g = tp_permissions p
    \<and> (\<forall>k. k \<noteq> np_node np \<longrightarrow> map_of (pm_grants (rt_pairing t2)) k = map_of (pm_grants (rt_pairing t)) k)
    \<and> pm_trusted (rt_pairing t2) = pm_trusted (rt_pairing t)
    \<and> rt_trust_file t2 = Some (trust_document (rt_pairing t2) (rt_permissions t2))"
proof -
  have sec: "pn_secret io \<noteq> []" using q(3) by (auto simp: secret_ok_def)
  show ?thesis
  proof (rule established [OF run new sec])
    fix c b m u i v ps tx m'
    assume cand: "map_of (cm_candidates (rt_cm r)) (nid_value peer) = Some c"
      and b: "pm_begin (rt_pairing r) peer (Some (pn_secret io)) b ''outbound'' intent (pn_begin_at io) (pn_id io) [] = (m, Inr u)"
      and v: "pn_request io i (sent_request np (pp_secret u) permissions intent) = Inr v" "fget v ''approved'' = PBool True"
      and tx: "transaction_of v (set ps) i = Inr tx"
      and acc: "pm_accept_grant m (pp_id u) peer \<lparr>pg_caller = np_node np, pg_secret = pp_secret u, pg_permissions = permission_value ` set ps,
          pg_binding = b, pg_members = True\<rparr> (candidate_binding c) (pn_accept_at io) = (m', Inr p)"
      and conf: "send_control io ''pair_confirm'' tx (pn_cancel io Confirming) = Inr True"
    have p: "tp_secret p = pn_secret io" "tp_permissions p = permission_value ` set ps" "tp_peer p = peer" "tp_binding p = candidate_binding c"
      using accept_grant_trusts [OF acc] begin_pending [OF b inv(1)] begin_binds [OF b sec] by auto
    have hd: "handle_pairing_request sig_ok' st t q busy cb now now' tid = (t1, Inr v)"
      using asked v(1) begin_binds [OF b sec] q(1) by simp
    have i: "pq_intent q \<in> INTENTS" using mk_request_fields [OF q(2)] by simp
    have st1: "inbound_storable (rt_pairing t1)"
      using request_effect [OF hd fresh(3) i fresh(1,2)] opened_storable [OF inv(3,2)] inv(3) q i by (auto simp: sent_request_def)
    from request_answer [OF hd inv(2) q(2) fresh(3,1,2)] v(2) obtain w where
      w: "map_of (pm_pending (rt_pairing t1)) (pp_id w) = Some w" "pairing_response t1 w = Inr v" "pp_peer w = np_node np"
        "pp_secret w = pn_secret io" "t1 = t \<or> pp_binding w = request_binding q" "np_node np \<noteq> cm_local (rt_cm t)"
      and t1: "pm_grants (rt_pairing t1) = pm_grants (rt_pairing t)" "pm_trusted (rt_pairing t1) = pm_trusted (rt_pairing t)"
      by (auto simp: q(1) sent_request_def)
    have wb: "pp_binding w = request_binding q" using w fresh(4) by blast
    note txf = transaction_fields [OF tx w(2)]
    obtain a where a: "pn_control io (pt_route tx) (control_envelope ''pair_confirm'' tx) = Inr a" "fget a ''approved'' = PBool True"
      by (rule send_control_True [OF conf])
    obtain t2 where t2: "pair_control_response (Some h) t1 (control_envelope ''pair_confirm'' tx) now2 = (t2, Inr a)"
      using controlled [OF a(1)] by (metis prod.collapse)
    obtain ctl where ctl: "validate_pairing_control_request (control_envelope ''pair_confirm'' tx) now2 = Inr ctl" "h t1 ctl = (t2, Inr True)"
      by (rule control_approved [OF t2 a(2)])
    have cf: "pc_operation ctl = ''pair_confirm''" "pc_transaction ctl = pp_id w" "pc_permissions ctl = set ps"
      using validated_control [OF ctl(1)] txf sorted_permissions_read by (auto simp: control_envelope_def)
    from control_confirms [OF ctl(2) [unfolded h(1)] cf(1) h(2-4) st1] cf w(1)
    have g: "pm_grants (rt_pairing t2) = dict_set (pp_peer w) (agreed_grant w (permission_value ` set ps)) (pm_grants (rt_pairing t1))"
        "pm_trusted (rt_pairing t2) = pm_trusted (rt_pairing t1)" "rt_trust_file t2 = Some (trust_document (rt_pairing t2) (rt_permissions t2))"
      by auto
    show ?thesis
      by (intro exI [of _ c] exI [of _ tx] exI [of _ t2] exI [of _ a] exI [of _ "agreed_grant w (permission_value ` set ps)"])
        (use cand t2 a(2) g w(3,4,6) wb t1 p in \<open>auto simp: agreed_grant_def dict_simps\<close>)
  qed
qed

end
