(* ===== verification/ListenerLaws.thy ===== *)
theory ListenerLaws
  imports Listener SocketLaws PairingAgreement
begin

text \<open>
  The listener admits a bounded number of connections and loses a permit only with a socket that does not close, its two instances keep pairing and service
  apart, and a pairing request written on one side reaches the handler on the other as it was meant.
\<close>

section \<open>Admission\<close>

text \<open>
  A handler whose wrapped socket does not close keeps its permit for good. Free permits, served connections and these add up
  to the limit.
\<close>

fun leaks :: "listener_event \<Rightarrow> nat" where
  "leaks (Ended c wrapped close) = (if wrapped \<and> close \<noteq> Inr () then 1 else 0)"
| "leaks _ = 0"

definition leaked :: "listener_event list \<Rightarrow> nat" where
  "leaked es = sum_list (map leaks es)"

definition admission_ok :: "nat \<Rightarrow> nat \<Rightarrow> admission \<Rightarrow> bool" where
  "admission_ok n k a \<longleftrightarrow> ad_limit a = n \<and> ad_free a + length (ad_active a) + k = n \<and> distinct (ad_active a)"

inductive_cases refusedE: "listener_step a (Refused c) b"

lemma acquire_Some: "acquire a = Some b \<longleftrightarrow> 0 < ad_free a \<and> b = a\<lparr>ad_free := ad_free a - 1\<rparr>"
  by (auto simp: acquire_def)

lemma release_Inr: "release a = Inr b \<longleftrightarrow> ad_free a < ad_limit a \<and> b = a\<lparr>ad_free := ad_free a + 1\<rparr>"
  by (auto simp: release_def)

text \<open>A handler of a served connection finds a permit to give back.\<close>

lemma finish_served:
  assumes "admission_ok n k a" "c \<in> set (ad_active a)"
  shows "finish_handler wrapped close a =
    (if wrapped \<and> close \<noteq> Inr () then a else a\<lparr>ad_free := ad_free a + 1\<rparr>, if wrapped then close else Inr ())"
proof -
  obtain l where "length (ad_active a) = Suc l" using assms(2) by (cases "ad_active a") auto
  then have "release a = Inr (a\<lparr>ad_free := ad_free a + 1\<rparr>)" using assms(1) by (simp add: admission_ok_def release_Inr)
  then show ?thesis by (cases close) (auto simp: finish_handler_def)
qed

lemma admission_step: "listener_step a e b \<Longrightarrow> admission_ok n k a \<Longrightarrow> admission_ok n (k + leaks e) b"
proof (induction rule: listener_step.induct)
  case (step_ended c a wrapped close b x)
  obtain l where l: "length (ad_active a) = Suc l" using step_ended(1) by (cases "ad_active a") auto
  have b: "b = (if wrapped \<and> close \<noteq> Inr () then a else a\<lparr>ad_free := ad_free a + 1\<rparr>)"
    using finish_served [OF step_ended(3,1), of wrapped close] step_ended(2) by simp
  show ?case using step_ended(1,3) by (auto simp: b admission_ok_def length_remove1 l)
qed (auto simp: admission_ok_def acquire_Some release_Inr)

lemma admission_run: "listener_run a es b \<Longrightarrow> admission_ok n k a \<Longrightarrow> admission_ok n (k + leaked es) b"
proof (induction rule: listener_run.induct)
  case (run_step a es b e c)
  from admission_step [OF run_step(2) run_step(3) [OF run_step(4)]] show ?case by (simp add: leaked_def add.assoc)
qed (simp add: leaked_def)

lemma ending_runs:
  assumes "admission_ok n k a" "c \<in> set (ad_active a)"
  shows "listener_step a (Ended c wrapped (Inr ())) (a\<lparr>ad_free := ad_free a + 1, ad_active := remove1 c (ad_active a)\<rparr>)"
  using step_ended [OF assms(2) surjective_pairing, of wrapped "Inr ()"] finish_served [OF assms, of wrapped "Inr ()"] by simp

lemma run_trans: "listener_run b es c \<Longrightarrow> listener_run a ds b \<Longrightarrow> listener_run a (ds @ es) c"
proof (induction arbitrary: ds rule: listener_run.induct)
  case (run_step b es c e d)
  have "listener_run a ((ds @ es) @ [e]) d" by (rule listener_run.run_step) (use run_step in auto)
  then show ?case by simp
qed simp

lemma drain:
  assumes "admission_ok n k a"
  shows "\<exists>b. listener_run a (map (\<lambda>c. Ended c wrapped (Inr ())) (ad_active a)) b \<and> ad_active b = [] \<and> ad_free b + k = n"
  using assms
proof (induction "ad_active a" arbitrary: a)
  case Nil
  then show ?case by (auto simp: admission_ok_def intro!: exI [of _ a] run_start)
next
  case (Cons c cs)
  let ?b = "a\<lparr>ad_free := ad_free a + 1, ad_active := remove1 c (ad_active a)\<rparr>" and ?done = "\<lambda>c. Ended c wrapped (Inr ())"
  have s: "listener_step a (?done c) ?b" using Cons by (intro ending_runs) (auto simp: Cons(2) [symmetric])
  have b: "cs = ad_active ?b" using Cons(2) by (simp flip: Cons(2))
  have k: "admission_ok n k ?b" using admission_step [OF s Cons(3)] by simp
  obtain d where d: "listener_run ?b (map ?done (ad_active ?b)) d" "ad_active d = []" "ad_free d + k = n"
    using Cons(1) [OF b k] by blast
  have "listener_run a ([] @ [?done c]) ?b" by (rule run_step [OF run_start s])
  from run_trans [OF d(1) this] d(2,3) show ?case by (auto simp flip: Cons(2) simp: b [symmetric])
qed

text \<open>
  C39. The listener never serves more connections than it admits, and loses a permit only with a socket that does not
  close. Along every run of arrivals, failures to start a thread and ends of handlers, the free permits, the connections
  being served and the handlers whose wrapped TLS socket raised in \<open>close\<close> add up to the limit; so a connection is refused
  exactly when the served and the leaked together reach the limit. The end of a handler raises what \<open>close\<close> raises and
  nothing else, releasing never fails; and when the connections being served have ended without such an error, all permits
  are free but the leaked ones.
\<close>

theorem listener_admission:
  assumes "admission_new m = Inr a" "listener_run a es b"
  shows "int (ad_free b + length (ad_active b) + leaked es) = m
    \<and> ((\<exists>d. listener_step b (Refused c) d) \<longleftrightarrow> int (length (ad_active b) + leaked es) = m)
    \<and> (c \<in> set (ad_active b) \<longrightarrow> snd (finish_handler wrapped close b) = (if wrapped then close else Inr ())
         \<and> (\<exists>d. listener_step b (Ended c wrapped close) d))
    \<and> (\<exists>d. listener_run b (map (\<lambda>c. Ended c wrapped (Inr ())) (ad_active b)) d \<and> ad_active d = [] \<and> int (ad_free d + leaked es) = m)"
proof -
  have a: "a = \<lparr>ad_limit = nat m, ad_free = nat m, ad_active = []\<rparr>" "1 \<le> m" using assms(1) by (auto simp: admission_new_def split: if_splits)
  have "admission_ok (nat m) 0 a" using a by (simp add: admission_ok_def)
  then have b: "admission_ok (nat m) (leaked es) b" using admission_run [OF assms(2)] by fastforce
  then have s: "ad_free b + length (ad_active b) + leaked es = nat m" by (simp add: admission_ok_def)
  have "(\<exists>d. listener_step b (Refused c) d) \<longleftrightarrow> ad_free b = 0"
    by (auto elim!: refusedE intro!: exI [of _ b] step_refused simp: acquire_def split: if_splits)
  then have r: "(\<exists>d. listener_step b (Refused c) d) \<longleftrightarrow> int (length (ad_active b) + leaked es) = m" using s a(2) by auto
  obtain d where d: "listener_run b (map (\<lambda>c. Ended c wrapped (Inr ())) (ad_active b)) d" "ad_active d = []" "ad_free d + leaked es = nat m"
    using drain [OF b] by blast
  have "c \<in> set (ad_active b) \<longrightarrow> snd (finish_handler wrapped close b) = (if wrapped then close else Inr ())
         \<and> (\<exists>d. listener_step b (Ended c wrapped close) d)"
    using finish_served [OF b, of c wrapped close] step_ended [OF _ surjective_pairing] by fastforce
  moreover have "int (ad_free d + leaked es) = m" "int (ad_free b + length (ad_active b) + leaked es) = m" using d(3) s a(2) by simp_all
  ultimately show ?thesis using r d(1,2) by blast
qed

lemma bind_falls_back:
  assumes "0 < preferred" "bind preferred = Inl e" "isa e OSError" "preferred \<noteq> port" "bind port = Inr n"
  shows "bind_listener preferred port bind = Inr (n, Some False)"
  using assms by (simp add: bind_listener_def)

section \<open>What is served where\<close>

lemma serve_connection_reads:
  assumes "serve_connection loads dumps allow hs service now s ts bs = Some (s', out)" "s' \<noteq> s \<or> out \<noteq> None"
  shows "\<exists>p w rest raw y. send_frame p (PInt (int MAX_ENVELOPE_BYTES)) = Inr w \<and> bs = w @ rest \<and> loads p = Inr raw
    \<and> serve_message allow hs service now s raw = (s', y)
    \<and> (case out of None \<Rightarrow> True | Some v \<Rightarrow> \<exists>doc. y = Inr doc \<and> send_frame (dumps doc) (PInt (int MAX_ENVELOPE_BYTES)) = Inr v)"
proof -
  obtain ts1 rest body where r: "recv_frame False ''connection closed before request'' (PInt (int MAX_ENVELOPE_BYTES)) ts bs = Some (ts1, rest, body)"
    using assms(1) by (auto simp: serve_connection_def split: option.splits)
  let ?m = "sbind (s, rbind body loads) (serve_message allow hs service now)"
  have m: "(case ?m of (s', Inl e) \<Rightarrow> (s', None)
      | (s', Inr doc) \<Rightarrow> (s', case send_frame (dumps doc) (PInt (int MAX_ENVELOPE_BYTES)) of Inl e \<Rightarrow> None | Inr w \<Rightarrow> Some w)) = (s', out)"
    using assms(1) r by (simp add: serve_connection_def)
  obtain p where p: "body = Inr p" using m assms(2) by (cases body) auto
  obtain raw where raw: "loads p = Inr raw" using m assms(2) p by (cases "loads p") auto
  obtain w where w: "send_frame p (PInt (int MAX_ENVELOPE_BYTES)) = Inr w" "bs = w @ rest" using frame_read [OF r [unfolded p]] by blast
  obtain y where "serve_message allow hs service now s raw = (s', y)"
    using m p raw by (cases "serve_message allow hs service now s raw") (auto split: sum.splits)
  then show ?thesis using w raw m p
    by (intro exI [of _ p] exI [of _ w] exI [of _ rest] exI [of _ raw] exI [of _ y]) (auto split: sum.splits option.splits)
qed

text \<open>
  C21. Pairing and service never mix. The listener of the service (\<open>allow_pairing=False\<close>) changes something or answers only when
  a whole frame arrived whose message is no pairing operation, and then it is the service that did; the pairing listener
  does so only for one of the four pairing operations, so no other message gets past it, whatever it says.
\<close>

theorem listeners_separate:
  assumes "serve_connection loads dumps allow hs (if allow then pairing_only else service) now s ts bs = Some (s', out)" "s' \<noteq> s \<or> out \<noteq> None"
  shows "\<exists>p w rest raw. send_frame p (PInt (int MAX_ENVELOPE_BYTES)) = Inr w \<and> bs = w @ rest \<and> loads p = Inr raw
    \<and> (allow \<longleftrightarrow> is_dict raw \<and> fget raw ''op'' \<in> PStr ` pairing_operations)
    \<and> (\<not> allow \<longrightarrow> (\<exists>y. service s raw = (s', y) \<and> (out \<noteq> None \<longrightarrow> (\<exists>doc. y = Inr doc))))"
proof -
  obtain p w rest raw y where m: "send_frame p (PInt (int MAX_ENVELOPE_BYTES)) = Inr w" "bs = w @ rest" "loads p = Inr raw"
    "serve_message allow hs (if allow then pairing_only else service) now s raw = (s', y)"
    "case out of None \<Rightarrow> True | Some v \<Rightarrow> \<exists>doc. y = Inr doc \<and> send_frame (dumps doc) (PInt (int MAX_ENVELOPE_BYTES)) = Inr v"
    using serve_connection_reads [OF assms] by blast
  define op1 where "op1 = (if is_dict raw then fget raw ''op'' else PNone)"
  have changed: "s' \<noteq> s \<or> (\<exists>doc. y = Inr doc)" using assms(2) m(5) by (cases out) auto
  have o: "op1 \<in> PStr ` pairing_operations \<longleftrightarrow> is_dict raw \<and> fget raw ''op'' \<in> PStr ` pairing_operations" by (auto simp: op1_def)
  have h: "hashable op1" using m(4) changed unfolding serve_message_def Let_def op1_def [symmetric] by (auto split: if_splits)
  have sep: "(allow \<longleftrightarrow> op1 \<in> PStr ` pairing_operations) \<and> (\<not> allow \<longrightarrow> service s raw = (s', y))"
  proof (cases "op1 \<in> PStr ` pairing_operations")
    case True
    then show ?thesis using m(4) changed h unfolding serve_message_def Let_def op1_def [symmetric] by (auto split: if_splits)
  next
    case False
    then have "op1 \<noteq> PStr ''pair_request''" "op1 \<noteq> PStr ''pair_confirm''" "op1 \<noteq> PStr ''pair_abort''" "op1 \<noteq> PStr ''elevation_request''"
      by (auto simp: pairing_operations_def)
    then show ?thesis using m(4) changed h False unfolding serve_message_def Let_def op1_def [symmetric]
      by (auto simp: pairing_only_def split: if_splits)
  qed
  have answered: "\<exists>doc. y = Inr doc" if "out \<noteq> None" using m(5) that by (cases out) auto
  have gate: "allow \<longleftrightarrow> is_dict raw \<and> fget raw ''op'' \<in> PStr ` pairing_operations" using sep unfolding o by blast
  have served: "\<not> allow \<longrightarrow> (\<exists>y. service s raw = (s', y) \<and> (out \<noteq> None \<longrightarrow> (\<exists>doc. y = Inr doc)))" 
    using sep answered by (intro impI exI [of _ y] conjI) simp_all
  show ?thesis by (intro exI conjI) (rule m(1) m(2) m(3) gate served)+
qed

section \<open>Pairing requests\<close>

definition raw_of :: "pairing_request \<Rightarrow> raw_pairing" where
  "raw_of q = \<lparr>rw_caller = pq_caller q, rw_identity = PStr (pq_identity q), rw_transport = PStr (pq_transport q), rw_secret = pq_secret q,
     rw_permissions = pq_permissions q, rw_root = pq_root q, rw_generation = pq_generation q, rw_proof = pq_proof q, rw_intent = pq_intent q\<rparr>"

lemma message_permissions_sorted: "message_permissions (sorted_permissions (permission_value ` P)) = Inr P"
proof -
  have "\<exists>ps. rmap (\<lambda>v. mk_permission (str_of v)) (list_of (sorted_permissions (permission_value ` P))) = Inr ps"
  proof -
    have "rmap (\<lambda>v. mk_permission (str_of v)) (map PStr xs) = Inr (map (\<lambda>s. projr (mk_permission s)) xs)" if "set xs \<subseteq> range permission_value" for xs
      unfolding rmap_map by (rule rmap_id) (use that in \<open>auto simp: mk_permission_Inr\<close>)
    moreover have "set (sorted_list_of_set (permission_value ` P)) \<subseteq> range permission_value" by auto
    ultimately show ?thesis by (simp add: sorted_permissions_def)
  qed
  then show ?thesis using sorted_permissions_read by (auto simp: message_permissions_def)
qed

lemma pairing_envelope_fields:
  "fget (pairing_envelope q) ''op'' = PStr ''pair_request''" "fget (pairing_envelope q) ''pairing_mode'' = PStr ''transactional''"
  "fget (pairing_envelope q) ''caller_node_id'' = PStr (nid_value (pq_caller q))"
  "fget (pairing_envelope q) ''identity_fingerprint'' = PStr (pq_identity q)" "fget (pairing_envelope q) ''transport_fingerprint'' = PStr (pq_transport q)"
  "fget (pairing_envelope q) ''root_public_key'' = opt_text (pq_root q)"
  "fget (pairing_envelope q) ''transport_generation'' = (case pq_generation q of None \<Rightarrow> PNone | Some i \<Rightarrow> PInt i)"
  "fget (pairing_envelope q) ''transport_proof'' = opt_text (pq_proof q)" "fget (pairing_envelope q) ''secret'' = PStr (pq_secret q)"
  "fget (pairing_envelope q) ''permissions'' = sorted_permissions (permission_value ` pq_permissions q)"
  "fget_or (pairing_envelope q) ''intent'' (PStr ''pair'') = PStr (pq_intent q)" "is_dict (pairing_envelope q)"
  by (simp_all add: pairing_envelope_def)

lemma pairing_envelope_keys: "dict_keys (pairing_envelope q) = KStr ` pairing_allowed"
  by (auto simp: dict_keys_def pdict_def pairing_envelope_def pairing_allowed_def pairing_required_def)

lemma pairing_envelope_parsed:
  assumes "mk_pairing_request q = Inr q" "nid_ok (pq_caller q)"
  shows "parse_pairing (pairing_envelope q) (pq_intent q) = Inr (raw_of q)"
proof -
  have "raw_pairing_checked (raw_of q) (PStr (pq_secret q)) = Inr (raw_of q)"
    using assms(1) by (auto simp: raw_pairing_checked_def raw_of_def mk_pairing_request_def ok_simps split: if_splits)
  moreover have "optional_str (opt_text v) = v" for v by (cases v) (simp_all add: optional_str_def opt_text_def)
  moreover have "optional_int (case v of None \<Rightarrow> PNone | Some i \<Rightarrow> PInt i) = v" for v by (cases v) (simp_all add: optional_int_def)
  ultimately show ?thesis using assms(2)
    by (simp add: parse_pairing_def pairing_envelope_fields message_node_def message_permissions_sorted raw_of_def)
qed

lemma pairing_request_heard:
  assumes "mk_pairing_request q = Inr q" "nid_ok (pq_caller q)"
  shows "pair_request_response (Some h) s (pairing_envelope q) = denied_or (\<lambda>result. if is_dict result then result else approval (\<not> falsy result)) (h s (raw_of q))"
proof -
  have t: "texts (fget (pairing_envelope q) ''permissions'')"
    by (simp add: texts_def pairing_envelope_fields sorted_permissions_def list_all_iff)
  have i: "PStr (pq_intent q) \<in> {PStr ''pair'', PStr ''repair''}" using assms(1) by (auto simp: mk_pairing_request_def split: if_splits)
  have k: "KStr ` pairing_required \<subseteq> dict_keys (pairing_envelope q)" "dict_keys (pairing_envelope q) \<subseteq> KStr ` pairing_allowed"
    unfolding pairing_envelope_keys by (auto simp: pairing_allowed_def)
  show ?thesis unfolding pair_request_response_def option.case Let_def pairing_envelope_fields(11)
    using t i k pairing_envelope_parsed [OF assms] by (auto simp: pairing_envelope_fields(2))
qed

text \<open>
  C40. A pairing request is heard as it was meant, from the caller's object to the bytes of the answer. When the asking side
  writes an admissible request as one frame and the network delivers it in any fragments without a pause, the pairing
  listener hands exactly this request to the runtime's handler, once, and writes the handler's document as one frame; nothing
  of the request is lost, changed or added on the way.
\<close>

theorem pairing_request_served:
  assumes "mk_pairing_request q = Inr q" "nid_ok (pq_caller q)" "loads (dumps (pairing_envelope q)) = Inr (pairing_envelope q)"
    and "send_frame (dumps (pairing_envelope q)) (PInt (int MAX_ENVELOPE_BYTES)) = Inr w" "smooth False ts" "length w \<le> deliveries ts"
    and "hd_pairing hs = Some h" "h s (raw_of q) = (s', Inr doc)" "is_dict doc"
  shows "serve_connection loads dumps True hs pairing_only now s ts (w @ rest)
    = Some (s', case send_frame (dumps doc) (PInt (int MAX_ENVELOPE_BYTES)) of Inl _ \<Rightarrow> None | Inr v \<Rightarrow> Some v)"
proof -
  obtain ts' where r: "recv_frame False ''connection closed before request'' (PInt (int MAX_ENVELOPE_BYTES)) ts (w @ rest)
      = Some (ts', rest, Inr (dumps (pairing_envelope q)))" using frame_delivered [OF assms(4) order_refl assms(5,6)] by blast
  have "serve_message True hs pairing_only now s (pairing_envelope q) = (s', Inr doc)"
    using pairing_request_heard [OF assms(1,2), of h s] assms(7-9)
    by (simp add: serve_message_def pairing_envelope_fields(1,12) pairing_operations_def denied_or_def)
  then show ?thesis using assms(3) by (simp add: serve_connection_def r)
qed

end
