(* ===== verification/PairingLive.thy ===== *)
theory PairingLive
  imports PairingAgreement
begin

text \<open>
  Network pairing completes: when the peer is announced, nothing is pending on either side, the host of the target
  approves and storage works, a run over the first working route ends with trust on both sides.
\<close>

section \<open>Saving works\<close>

definition can_save :: "storage \<Rightarrow> runtime \<Rightarrow> bool" where
  "can_save st r \<longleftrightarrow> accepts st \<and> rt_loaded r \<and> rt_ready r
     \<and> (\<forall>c. rt_cluster r = Some c \<longrightarrow> (\<exists>d. cs_to_dict (stored_cluster r c) = Inr d))"

definition same_shell :: "runtime \<Rightarrow> runtime \<Rightarrow> bool" where
  "same_shell r r' \<longleftrightarrow> rt_loaded r' = rt_loaded r \<and> rt_ready r' = rt_ready r \<and> rt_cluster r' = rt_cluster r \<and> rt_grants r' = rt_grants r"

lemma can_save_shell: "can_save st r \<Longrightarrow> same_shell r r' \<Longrightarrow> can_save st r'"
  by (simp add: can_save_def same_shell_def stored_cluster_def)

lemma can_save_ok:
  assumes "can_save st r"
  shows "\<exists>r'. save_persisted_state st r = (r', Inr True) \<and> same_shell r r'"
proof -
  have t: "try_save (st_trust st) (migrate_state ''trust'' (trust_document (rt_pairing r) (rt_permissions r)))
      = Inr (Some (trust_document (rt_pairing r) (rt_permissions r)))"
    using assms by (simp add: can_save_def accepts_def try_save_def trust_document_current)
  have "\<exists>r'. save_persisted_state st r = (r', Inr True)"
  proof (cases "rt_cluster r")
    case None
    then show ?thesis using assms t by (auto simp: save_persisted_state_def can_save_def Let_def)
  next
    case (Some c)
    then obtain d where "cs_to_dict (stored_cluster r c) = Inr d" using assms by (auto simp: can_save_def)
    then have "try_save (st_cluster st) (cs_to_dict (stored_cluster r c)) = Inr (Some d)"
      using assms by (simp add: can_save_def accepts_def try_save_def)
    then show ?thesis using Some assms t by (auto simp: save_persisted_state_def can_save_def Let_def)
  qed
  then obtain r' where r': "save_persisted_state st r = (r', Inr True)" by blast
  from save_keeps [OF r'] r' show ?thesis by (auto simp: same_shell_def)
qed

lemma shell_simps [simp]:
  "same_shell r (set_pairing p r') = same_shell r r'" "same_shell r (r'\<lparr>rt_permissions := x\<rparr>) = same_shell r r'" "same_shell r r"
  "same_shell r (r'\<lparr>rt_service := s\<rparr>) = same_shell r r'" "same_shell r (abort_pairing r' tx) = same_shell r r'"
  "same_shell r (project_registry_trust r' n) = same_shell r r'"
  by (simp_all add: same_shell_def set_pairing_def abort_pairing_def project_registry_trust_def set_registry_def)

section \<open>The answering side\<close>

lemma find_none: "(\<forall>w \<in> snd ` set (pm_pending m). pp_peer w \<noteq> n) \<Longrightarrow> find_pending_for m n d now = None \<and> find_pending m n s now = None"
  by (auto simp: find_pending_for_def find_pending_def find_None_iff)

lemma target_approves:
  assumes t: "rt_loaded t" "pq_caller q \<noteq> cm_local (rt_cm t)" "map_of (pm_grants (rt_pairing t)) (pq_caller q) = None"
      "\<forall>w \<in> snd ` set (pm_pending (rt_pairing t)). pp_peer w \<noteq> pq_caller q" "can_save st t"
    and q: "cb = Some f" "f q = Inr True" "pq_intent q \<in> INTENTS" "now \<le> now'"
  shows "\<exists>t1 v. handle_pairing_request sig_ok st t q False cb now now' tid = (t1, Inr v)
    \<and> pairing_response t1 (opened q (rt_pairing t) now' tid) = Inr v
    \<and> rt_pairing t1 = (rt_pairing t)\<lparr>pm_pending := dict_set tid (opened q (rt_pairing t) now' tid) (pm_pending (rt_pairing t))\<rparr>
    \<and> rt_permissions t1 = dict_set tid (permission_value ` pq_permissions q) (rt_permissions t) \<and> same_shell t t1"
proof -
  let ?w = "opened q (rt_pairing t) now' tid"
  define t0 where "t0 = (set_pairing ((rt_pairing t)\<lparr>pm_pending := dict_set tid ?w (pm_pending (rt_pairing t))\<rparr>) t)
     \<lparr>rt_permissions := dict_set tid (permission_value ` pq_permissions q) (rt_permissions t)\<rparr>"
  have id: "pp_id ?w = tid" by (simp add: opened_def)
  have n: "find_pending_for (rt_pairing t) (pq_caller q) (Some ''inbound'') now = None" using find_none [OF t(4)] by simp
  obtain t1 where t1: "save_persisted_state st t0 = (t1, Inr True)" "same_shell t t1"
    using can_save_ok [of st t0] can_save_shell [OF t(5), of t0] by (auto simp: t0_def same_shell_def)
  note k = save_keeps(1,2) [OF t1(1)]
  have ot: "open_request st t q now' tid = (t1, pairing_response t1 ?w)"
    unfolding open_request_def begin_inbound [OF n q(4,3)] using t1(1) by (simp add: id t0_def)
  have h: "host_approves cb q = Inr True" using q by (simp add: host_approves_True)
  have hd: "handle_pairing_request sig_ok st t q False cb now now' tid = (t1, pairing_response t1 ?w)"
    using t n ot h by (simp add: handle_pairing_request_def)
  have "\<exists>v. pairing_response t1 ?w = Inr v" using k by (simp add: pairing_response_def id t0_def)
  then show ?thesis using hd k t1(2) by (auto simp: t0_def)
qed

lemma confirm_succeeds:
  assumes w: "map_of (pm_pending (rt_pairing t)) (pc_transaction c) = Some w" "map_of (rt_permissions t) (pc_transaction c) = Some ps"
      "ps = permission_value ` pc_permissions c" "ps \<subseteq> permission_value ` READ_PERMISSIONS" "pp_peer w = pc_caller c"
      "bd_identity (pp_binding w) = Some (pc_identity c)" "bd_transport (pp_binding w) = Some (pc_transport c)"
      "pp_secret w = pc_secret c" "pp_expires w = pc_expires c" "now < pp_expires w" "pc_operation c = ''pair_confirm''"
    and t: "can_save st1 t" "can_save st2 t" "inbound_storable (rt_pairing t)"
  shows "\<exists>t'. handle_pairing_control st1 st2 st3 t c now = (t', Inr True)"
proof -
  let ?tx = "pc_transaction c" let ?g = "agreed_grant w ps"
  let ?m = "(rt_pairing t)\<lparr>pm_grants := dict_set (pp_peer w) ?g (pm_grants (rt_pairing t))\<rparr>"
  have "permission_value ` READ_PERMISSIONS \<subseteq> READ_ONLY_PERMISSIONS" by (simp add: READ_PERMISSIONS_def READ_ONLY_PERMISSIONS_def)
  then have ap: "pm_approve (rt_pairing t) ?tx ps now = (?m, Inr ?g)" using w by (auto simp: pm_approve_Inr)
  have ld: "rt_loaded t" using t(1) by (simp add: can_save_def)
  obtain r1 where r1: "save_persisted_state st1 (set_pairing ?m t) = (r1, Inr True)" "same_shell t r1"
    using can_save_ok [of st1 "set_pairing ?m t"] can_save_shell [OF t(1), of "set_pairing ?m t"] by (auto simp: same_shell_def)
  have "pending_storable w" using t(3) w(1) by (auto simp: inbound_storable_def keyed_def dest: map_of_SomeD)
  then have "grant_storable ?g" using w(4) agreed_storable read_known by blast
  then have "keyed pg_caller grant_storable (pm_grants ?m)"
    using keyed_set [of pg_caller grant_storable "pm_grants (rt_pairing t)" ?g] t(3) by (simp add: inbound_storable_def agreed_grant_def)
  then obtain r2 where r2: "refresh_live_grants (project_registry_trust r1 (pg_caller ?g)) = (r2, Inr ())"
    using refresh_ok [of "project_registry_trust r1 (pg_caller ?g)"] save_keeps(1) [OF r1(1)] by auto
  have sh: "same_shell t r2" using r1(2) by (subst refresh_rest [OF r2]) simp
  have appr: "approve_pairing st1 t ?tx ps now = (r2, Inr ?g)"
    using w(4) ld ap r1(1) r2 by (simp add: approve_pairing_def saved_or_def)
  obtain r3 where r3: "save_persisted_state st2 (abort_pairing r2 ?tx) = (r3, Inr True)"
    using can_save_ok [of st2 "abort_pairing r2 ?tx"] can_save_shell [OF t(2), of "abort_pairing r2 ?tx"] sh by auto
  have "confirm_pairing st1 st2 st3 t ?tx ps now = (r3, Inr True)" by (simp add: confirm_pairing_def appr r3)
  then show ?thesis using w ld by (simp add: handle_pairing_control_def)
qed

section \<open>The messages\<close>

lemma read_back_permissions:
  "\<exists>ps. rmap (\<lambda>x. case x of PStr s \<Rightarrow> mk_permission s | _ \<Rightarrow> raise ValueError ''not a valid NodePermission'')
      (map PStr (sorted_list_of_set (permission_value ` P))) = Inr ps \<and> set ps = P"
  "\<exists>ps. rmap (\<lambda>v. mk_permission (str_of v)) (map PStr (sorted_list_of_set (permission_value ` P))) = Inr ps \<and> set ps = P"
proof -
  have "\<exists>ps. rmap mk_permission (sorted_list_of_set (permission_value ` P)) = Inr ps"
    by (rule rmap_total) auto
  then obtain ps where ps: "rmap mk_permission (sorted_list_of_set (permission_value ` P)) = Inr ps" by blast
  have "Inr ` set ps = (Inr ` P :: node_permission res set)" using rmap_image [OF ps] by (simp add: image_image)
  then have "set ps = P" by blast
  with ps show "\<exists>ps. rmap (\<lambda>x. case x of PStr s \<Rightarrow> mk_permission s | _ \<Rightarrow> raise ValueError ''not a valid NodePermission'')
      (map PStr (sorted_list_of_set (permission_value ` P))) = Inr ps \<and> set ps = P"
    "\<exists>ps. rmap (\<lambda>v. mk_permission (str_of v)) (map PStr (sorted_list_of_set (permission_value ` P))) = Inr ps \<and> set ps = P"
    by (simp_all add: rmap_map)
qed

lemma response_permissions_ok:
  assumes "pairing_response t w = Inr v" "map_of (rt_permissions t) (pp_id w) = Some (permission_value ` P)"
  shows "\<exists>ps. response_permissions v = Inr ps \<and> set ps = P"
  using response_fields(4) [OF assms(1)] assms(2) read_back_permissions(1) [of P]
  by (auto simp: response_permissions_def sorted_permissions_def)

lemma transaction_total:
  "pairing_response t w = Inr v \<Longrightarrow> \<exists>tx. transaction_of v P i = Inr tx"
  using response_fields [of t w v] by (simp add: transaction_of_def)

lemma control_valid:
  assumes tx: "pt_id tx = PStr tid" "pt_caller tx = PStr (nid_value n)" "pt_identity tx = PStr ident" "pt_transport tx = PStr fpr"
      "pt_secret tx = PStr secret" "pt_expires tx = PFloat (Fin x)" "pt_permissions tx \<subseteq> READ_PERMISSIONS"
    and ok: "tid \<noteq> []" "nid_ok n" "ident \<noteq> []" "fpr \<noteq> []" "secret_ok secret" "now < x"
  shows "validate_pairing_control_request (control_envelope ''pair_confirm'' tx) now =
    Inr \<lparr>pc_operation = ''pair_confirm'', pc_transaction = tid, pc_caller = n, pc_identity = ident, pc_transport = fpr,
      pc_secret = secret, pc_permissions = pt_permissions tx, pc_expires = x\<rparr>"
proof -
  obtain ps where ps: "rmap (\<lambda>v. mk_permission (str_of v)) (map PStr (sorted_list_of_set (permission_value ` pt_permissions tx))) = Inr ps"
    "set ps = pt_permissions tx" using read_back_permissions(2) by blast
  let ?raw = "control_envelope ''pair_confirm'' tx"
  have f: "fget ?raw ''op'' = PStr ''pair_confirm''" "fget ?raw ''transaction_id'' = PStr tid" "fget ?raw ''caller_node_id'' = PStr (nid_value n)"
    "fget ?raw ''identity_fingerprint'' = PStr ident" "fget ?raw ''transport_fingerprint'' = PStr fpr" "fget ?raw ''secret'' = PStr secret"
    "fget ?raw ''permissions'' = PList (map PStr (sorted_list_of_set (permission_value ` pt_permissions tx)))"
    "fget ?raw ''expires_at'' = PFloat (Fin x)" "is_dict ?raw"
    using tx by (simp_all add: control_envelope_def sorted_permissions_def)
  have keys: "dict_keys ?raw = KStr ` control_fields"
    by (auto simp: control_envelope_def control_fields_def dict_keys_def pdict_def)
  have sec: "validate_secret (PStr secret) = Inr ()" using ok(5) by (simp add: validate_secret_def secret_ok_def)
  have n: "nid_value n \<noteq> []" using ok(2) by (cases n) (auto simp: nid_ok_def)
  show ?thesis
    unfolding validate_pairing_control_request_def text_field_def f keys
    using ok ps sec n tx(7) f(9) by (simp add: list_all_iff)
qed

lemma routes_reach:
  assumes "\<And>k. i \<le> k \<Longrightarrow> k < j \<Longrightarrow> \<exists>x. request_pairing io k q = Inl x \<and> isa x RemoteTransportError" "request_pairing io j q = Inr v"
    "i \<le> j" "j < i + length es"
  shows "pairing_routes io q i es le = Answered j v"
  using assms
proof (induction es arbitrary: i le)
  case (Cons e es)
  show ?case
  proof (cases "i = j")
    case False
    then obtain x where "request_pairing io i q = Inl x" "isa x RemoteTransportError" using Cons.prems(1) [of i] Cons.prems(3) by auto
    moreover have "pairing_routes io q (Suc i) es (Some x) = Answered j v"
      by (rule Cons.IH) (use Cons.prems False in auto)
    ultimately show ?thesis by simp
  qed (use Cons.prems in simp)
qed simp

lemma fingerprint_nonempty: "node_identity_fingerprint v \<noteq> []"
proof -
  have "1 \<in> set [0..<16]" by simp
  then have "CHR '':'' \<in> set (node_identity_fingerprint v)" unfolding node_identity_fingerprint_def Let_def by (auto intro!: bexI [of _ 1])
  then show ?thesis by auto
qed

section \<open>A complete run\<close>

text \<open>What the asking side needs: an announced peer it does not know yet, no cancellation, working storage and a good draw.\<close>

definition ready_to_ask :: "(string \<Rightarrow> string) \<Rightarrow> network_pairing \<Rightarrow> pairing_io \<Rightarrow> runtime \<Rightarrow> node_id \<Rightarrow> endpoint list \<Rightarrow> bool" where
  "ready_to_ask sign np io r peer es \<longleftrightarrow>
     (\<exists>c. map_of (cm_candidates (rt_cm r)) (nid_value peer) = Some c \<and> candidate_connectable c \<and> truthy (dc_transport c)
        \<and> pairing_endpoints c = Inr es)
     \<and> map_of (pm_trusted (rt_pairing r)) peer = None \<and> (\<forall>w \<in> snd ` set (pm_pending (rt_pairing r)). pp_peer w \<noteq> peer)
     \<and> pn_cancel io = (\<lambda>_. False) \<and> can_save (pn_commit io) r \<and> \<not> isl (own_binding sign np)
     \<and> np_node np = pm_local (rt_pairing r) \<and> nid_ok (np_node np) \<and> np_transport np \<noteq> [] \<and> secret_ok (pn_secret io)
     \<and> pn_accept_at io < pn_begin_at io + pm_ttl (rt_pairing r)"

text \<open>What the answering side needs: it runs, does not know the caller yet, and its storage works.\<close>

definition ready_to_answer :: "storage \<Rightarrow> storage \<Rightarrow> storage \<Rightarrow> runtime \<Rightarrow> node_id \<Rightarrow> bool" where
  "ready_to_answer st st1 st2 t caller \<longleftrightarrow> caller \<noteq> cm_local (rt_cm t) \<and> map_of (pm_grants (rt_pairing t)) caller = None
     \<and> (\<forall>w \<in> snd ` set (pm_pending (rt_pairing t)). pp_peer w \<noteq> caller) \<and> can_save st t \<and> can_save st1 t \<and> can_save st2 t
     \<and> pm_inv (rt_pairing t) \<and> inbound_storable (rt_pairing t)"

lemma establish_starts:
  assumes a: "ready_to_ask sign np io r peer es"
  obtains c b m t where "map_of (cm_candidates (rt_cm r)) (nid_value peer) = Some c" "pairing_endpoints c = Inr es" "own_binding sign np = Inr b"
    "t = \<lparr>pp_id = pn_id io, pp_peer = peer, pp_secret = pn_secret io, pp_expires = pn_begin_at io + pm_ttl (rt_pairing r),
        pp_binding = b, pp_direction = ''outbound'', pp_intent = ''pair''\<rparr>"
    "m = (rt_pairing r)\<lparr>pm_pending := dict_set (pn_id io) t (pm_pending (rt_pairing r))\<rparr>"
    "establish sig_ok sign np io r peer {''read_state''} ''pair'' = run_routes np b io \<lparr>un_peer = peer, un_previous = None,
        un_broken = pm_is_auth_broken (rt_pairing r) peer, un_pending = t\<rparr> c {''read_state''} ''pair'' (set_pairing m r)"
proof -
  obtain c where c: "map_of (cm_candidates (rt_cm r)) (nid_value peer) = Some c" "candidate_connectable c" "truthy (dc_transport c)"
    "pairing_endpoints c = Inr es" using a by (auto simp: ready_to_ask_def)
  obtain b where b: "own_binding sign np = Inr b" using a by (cases "own_binding sign np") (auto simp: ready_to_ask_def)
  have n: "find_pending_for (rt_pairing r) peer d now = None \<and> find_pending (rt_pairing r) peer s now = None" for d s now
    by (rule find_none) (use a in \<open>simp add: ready_to_ask_def\<close>)
  have u: "map_of (pm_trusted (rt_pairing r)) peer = None" "\<not> pn_cancel io Starting" "pn_secret io \<noteq> []"
    using a by (auto simp: ready_to_ask_def secret_ok_def)
  let ?t = "\<lparr>pp_id = pn_id io, pp_peer = peer, pp_secret = pn_secret io, pp_expires = pn_begin_at io + pm_ttl (rt_pairing r),
        pp_binding = b, pp_direction = ''outbound'', pp_intent = ''pair''\<rparr>"
  let ?m = "(rt_pairing r)\<lparr>pm_pending := dict_set (pn_id io) ?t (pm_pending (rt_pairing r))\<rparr>"
  have bg: "pm_begin (rt_pairing r) peer (Some (pn_secret io)) b ''outbound'' ''pair'' (pn_begin_at io) (pn_id io) [] = (?m, Inr ?t)"
    using n u by (simp add: pm_begin_def DIRECTIONS_def INTENTS_def mk_pending_def or_empty_def)
  have gate: "pairing_gate ''pair'' (pm_classify_trusted_candidate sig_ok (rt_pairing r) peer (dc_root c) (dc_transport c)
      (dc_generation c) (dc_proof c) (pn_classify_at io)) None = Inr None"
    using n u by (simp add: pm_classify_trusted_candidate_def pm_relationship_def pairing_gate_def Let_def)
  have "establish sig_ok sign np io r peer {''read_state''} ''pair'' = run_routes np b io \<lparr>un_peer = peer, un_previous = None,
        un_broken = pm_is_auth_broken (rt_pairing r) peer, un_pending = ?t\<rparr> c {''read_state''} ''pair'' (set_pairing ?m r)"
    using u c gate b bg by (simp add: establish_def READ_PERMISSIONS_def)
  then show thesis using that c b by blast
qed

lemma accept_succeeds:
  assumes "map_of (pm_pending m) (pp_id t) = Some t" "now < pp_expires t" "pp_peer t = peer" "pg_caller g = pm_local m" "pg_binding g = pp_binding t"
  shows "\<exists>m' p. pm_accept_grant m (pp_id t) peer g b now = (m', Inr p)"
  using assms by (simp add: pm_accept_grant_def active_def Let_def)

lemma pairing_run_completes:
  assumes a: "ready_to_ask sign np io r peer es" and t: "ready_to_answer st st1 st2 t (np_node np)"
    and q: "q = sent_request np (pn_secret io) {''read_state''} ''pair''" "cb = Some f" "f q = Inr True"
    and clock: "now \<le> now'" "now2 < now' + pm_ttl (rt_pairing t)" "tid \<noteq> []"
    and served: "handle_pairing_request sig_ok' st t q False cb now now' tid = (t1, v)"
    and route: "j < length es" "\<And>k. k < j \<Longrightarrow> \<exists>x. pn_request io k q = Inl x \<and> isa x RemoteTransportError" "pn_request io j q = v"
    and control: "\<And>raw. pn_control io j raw = snd (pair_control_response (Some (\<lambda>t c. handle_pairing_control st1 st2 st3 t c now2)) t1 raw now2)"
  shows "\<exists>r' p. establish sig_ok sign np io r peer {''read_state''} ''pair'' = (r', Inr p)"
proof (rule establish_starts [OF a, where sig_ok = sig_ok])
  fix c b m u
  assume c: "pairing_endpoints c = Inr es" and b: "own_binding sign np = Inr b"
    and u: "u = \<lparr>pp_id = pn_id io, pp_peer = peer, pp_secret = pn_secret io, pp_expires = pn_begin_at io + pm_ttl (rt_pairing r),
        pp_binding = b, pp_direction = ''outbound'', pp_intent = ''pair''\<rparr>"
    and m: "m = (rt_pairing r)\<lparr>pm_pending := dict_set (pn_id io) u (pm_pending (rt_pairing r))\<rparr>"
    and e: "establish sig_ok sign np io r peer {''read_state''} ''pair'' = run_routes np b io \<lparr>un_peer = peer, un_previous = None,
        un_broken = pm_is_auth_broken (rt_pairing r) peer, un_pending = u\<rparr> c {''read_state''} ''pair'' (set_pairing m r)"
  let ?w = "opened q (rt_pairing t) now' tid"
  have qf: "pq_caller q = np_node np" "pq_intent q = ''pair''" "pq_permissions q = {READ_STATE}" "pq_secret q = pn_secret io"
    "pq_identity q = node_identity_fingerprint (nid_value (np_node np))" "pq_transport q = np_transport np" "pq_generation q = None"
    using q(1) by (auto simp: sent_request_def named_permissions_def all_permissions_def)
  have i: "pq_intent q \<in> INTENTS" by (simp add: qf INTENTS_def)
  have k: "pn_cancel io = (\<lambda>_. False)" "nid_ok (np_node np)" "np_transport np \<noteq> []" "secret_ok (pn_secret io)" "can_save (pn_commit io) r"
    "np_node np = pm_local (rt_pairing r)" "pn_accept_at io < pn_begin_at io + pm_ttl (rt_pairing r)"
    using a by (auto simp: ready_to_ask_def)
  have td: "rt_loaded t" "pq_caller q \<noteq> cm_local (rt_cm t)" "map_of (pm_grants (rt_pairing t)) (pq_caller q) = None"
    "\<forall>w \<in> snd ` set (pm_pending (rt_pairing t)). pp_peer w \<noteq> pq_caller q" "can_save st t"
    using t by (auto simp: ready_to_answer_def can_save_def qf)
  from target_approves [OF td q(2,3) i clock(1), of sig_ok' tid] served obtain v1 where v: "v = Inr v1" "pairing_response t1 ?w = Inr v1"
    and t1: "rt_pairing t1 = (rt_pairing t)\<lparr>pm_pending := dict_set tid ?w (pm_pending (rt_pairing t))\<rparr>"
      "rt_permissions t1 = dict_set tid (permission_value ` {READ_STATE}) (rt_permissions t)" "same_shell t t1"
    by (auto simp: qf)
  have wf: "pp_id ?w = tid" "pp_peer ?w = np_node np" "pp_secret ?w = pn_secret io" "pp_expires ?w = now' + pm_ttl (rt_pairing t)"
    "bd_identity (pp_binding ?w) = Some (node_identity_fingerprint (nid_value (np_node np)))" "bd_transport (pp_binding ?w) = Some (np_transport np)"
    by (simp_all add: opened_def qf request_binding_def)
  have rq: "request_pairing io j q = Inr (Some v1)"
    using response_fields(1-3) [OF v(2)] clock(3) route(3) v(1) wf(1) k(1) by (simp add: request_pairing_def)
  have tr: "\<exists>x. request_pairing io l q = Inl x \<and> isa x RemoteTransportError" if "l < j" for l
    using route(2) [OF that] k(1) by (auto simp: request_pairing_def)
  have ans: "pairing_routes io q 0 (sort_key endpoint_rank es) None = Answered j (Some v1)"
    by (rule routes_reach) (use tr rq route(1) in auto)
  obtain ps where ps: "response_permissions v1 = Inr ps" "set ps = {READ_STATE}"
    using response_permissions_ok [OF v(2), of "{READ_STATE}"] t1(2) wf(1) by auto
  obtain tx where tx: "transaction_of v1 (set ps) j = Inr tx" using transaction_total [OF v(2)] by blast
  note txf = transaction_fields [OF tx v(2)]
  have val: "validate_pairing_control_request (control_envelope ''pair_confirm'' tx) now2 = Inr \<lparr>pc_operation = ''pair_confirm'',
      pc_transaction = tid, pc_caller = np_node np, pc_identity = node_identity_fingerprint (nid_value (np_node np)), pc_transport = np_transport np,
      pc_secret = pn_secret io, pc_permissions = pt_permissions tx, pc_expires = now' + pm_ttl (rt_pairing t)\<rparr>"
    by (rule control_valid) (use txf wf ps k clock fingerprint_nonempty in \<open>simp_all add: opt_text_def READ_PERMISSIONS_def\<close>)
  have st1: "inbound_storable (rt_pairing t1)"
    unfolding t1(1) by (rule opened_storable) (use t qf i k in \<open>auto simp: ready_to_answer_def\<close>)
  have sv: "can_save st1 t1" "can_save st2 t1" using t can_save_shell [OF _ t1(3)] by (auto simp: ready_to_answer_def)
  have "\<exists>t2. handle_pairing_control st1 st2 st3 t1 \<lparr>pc_operation = ''pair_confirm'', pc_transaction = tid, pc_caller = np_node np,
      pc_identity = node_identity_fingerprint (nid_value (np_node np)), pc_transport = np_transport np, pc_secret = pn_secret io,
      pc_permissions = pt_permissions tx, pc_expires = now' + pm_ttl (rt_pairing t)\<rparr> now2 = (t2, Inr True)"
    by (rule confirm_succeeds [OF _ _ refl _ _ _ _ _ _ _ _ sv st1, where w = ?w]) (use t1 wf txf ps clock in \<open>simp_all add: READ_PERMISSIONS_def\<close>)
  then have confirmed: "send_control io ''pair_confirm'' tx False = Inr True"
    using control [of "control_envelope ''pair_confirm'' tx"] txf val by (auto simp: send_control_def pair_control_response_def)
  have "\<exists>m' p. pm_accept_grant m (pp_id u) peer \<lparr>pg_caller = np_node np, pg_secret = pp_secret u, pg_permissions = permission_value ` set ps,
        pg_binding = b, pg_members = True\<rparr> (candidate_binding c) (pn_accept_at io) = (m', Inr p)"
    by (rule accept_succeeds) (use m u k in simp_all)
  then obtain m' p where acc: "pm_accept_grant m (pp_id u) peer \<lparr>pg_caller = np_node np, pg_secret = pp_secret u,
        pg_permissions = permission_value ` set ps, pg_binding = b, pg_members = True\<rparr> (candidate_binding c) (pn_accept_at io) = (m', Inr p)" by blast
  obtain r' where "save_persisted_state (pn_commit io) (set_pairing m' r) = (r', Inr True)"
    using can_save_ok can_save_shell [OF k(5)] by (metis shell_simps(1,3))
  then have "finish_pairing io \<lparr>un_peer = peer, un_previous = None, un_broken = pm_is_auth_broken (rt_pairing r) peer, un_pending = u\<rparr> tx p
      (set_pairing m' r) = (r', Inr p)" using confirmed k(1) by (simp add: finish_pairing_def)
  moreover have "named_permissions {''read_state''} = {READ_STATE}" by (auto simp: named_permissions_def all_permissions_def)
  ultimately have "accept_response np b io \<lparr>un_peer = peer, un_previous = None, un_broken = pm_is_auth_broken (rt_pairing r) peer, un_pending = u\<rparr> c
      {''read_state''} j v1 (set_pairing m r) = (r', Inr p)" using ps tx acc by (simp add: accept_response_def)
  then have "run_routes np b io \<lparr>un_peer = peer, un_previous = None, un_broken = pm_is_auth_broken (rt_pairing r) peer, un_pending = u\<rparr> c
      {''read_state''} ''pair'' (set_pairing m r) = (r', Inr p)" using c ans q(1) u by (simp add: run_routes_def)
  then show ?thesis using e by auto
qed

text \<open>
  C16. Pairing completes: let the asking side be ready (the peer is announced and unknown, nothing is pending with it, storage
  works) and the answering side too, and let its host approve. Then a run whose first working route leads to the answering
  side returns trust in the peer, however many routes failed before; the answers are those the answering side computes, the
  confirmation included.
\<close>

theorem pairing_completes:
  assumes "ready_to_ask sign np io r peer es" "ready_to_answer st st1 st2 t (np_node np)"
    and "q = sent_request np (pn_secret io) {''read_state''} ''pair''" "cb = Some f" "f q = Inr True"
    and "now \<le> now'" "now2 < now' + pm_ttl (rt_pairing t)" "tid \<noteq> []"
    and "handle_pairing_request sig_ok' st t q False cb now now' tid = (t1, v)"
    and "j < length es" "\<And>k. k < j \<Longrightarrow> \<exists>x. pn_request io k q = Inl x \<and> isa x RemoteTransportError" "pn_request io j q = v"
    and "\<And>raw. pn_control io j raw = snd (pair_control_response (Some (\<lambda>t c. handle_pairing_control st1 st2 st3 t c now2)) t1 raw now2)"
  shows "\<exists>r' p. establish sig_ok sign np io r peer {''read_state''} ''pair'' = (r', Inr p)"
  by (rule pairing_run_completes [OF assms])

section \<open>A run between two runtimes\<close>

definition demo_route :: endpoint where
  "demo_route = \<lparr>ec_address = ''10.0.0.2'', ec_port = 9, ec_source = SRC_IPV4, ec_validation = ''validated'', ec_priority = 0,
     ec_success = None, ec_failure = None\<rparr>"

definition demo_announced :: candidate where
  "demo_announced = \<lparr>dc_stable_id = ''b'', dc_hostname = ''h'', dc_addresses = [''10.0.0.2''], dc_port = Some 8, dc_service_name = ''s'',
     dc_app_version = ''1'', dc_protocol_version = ''1'', dc_platform = None, dc_connectable = True, dc_compatible = True, dc_last_seen = 0,
     dc_identity = Some ''i'', dc_transport = Some ''f'', dc_endpoints = [demo_route\<lparr>ec_port := 8\<rparr>], dc_root = Some ''k'',
     dc_generation = Some 1, dc_proof = Some ''p'', dc_pairing_port = Some 9\<rparr>"

definition demo_asker :: runtime where
  "demo_asker = demo_plain\<lparr>rt_cm := (rt_cm demo_plain)\<lparr>cm_pairing := pm_new (NodeId ''a'') 300, cm_candidates := [(''b'', demo_announced)]\<rparr>,
     rt_permissions := []\<rparr>"

definition demo_answerer :: runtime where
  "demo_answerer = demo_plain\<lparr>rt_cm := (rt_cm demo_plain)\<lparr>cm_local := NodeId ''b'', cm_pairing := pm_new (NodeId ''b'') 300\<rparr>, rt_permissions := []\<rparr>"

definition demo_pairing :: network_pairing where
  "demo_pairing = \<lparr>np_node = NodeId ''a'', np_identity_root = ''ka'', np_transport = ''fa'', np_root = Some ''ka'', np_generation = 1,
     np_proof = Some ''pa''\<rparr>"

definition demo_served :: "pairing_request \<Rightarrow> runtime \<times> pyval res" where
  "demo_served q = handle_pairing_request (\<lambda>_ _ _. True) demo_storage demo_answerer q False (Some (\<lambda>_. Inr True)) 5 5 ''t''"

definition demo_ask :: pairing_request where
  "demo_ask = sent_request demo_pairing sample_secret {''read_state''} ''pair''"

definition demo_handler :: "runtime \<Rightarrow> pairing_control \<Rightarrow> runtime \<times> bool res" where
  "demo_handler = (\<lambda>t c. handle_pairing_control demo_storage demo_storage demo_storage t c 6)"

definition demo_io_run :: pairing_io where
  "demo_io_run = \<lparr>pn_request = (\<lambda>i q. snd (demo_served q)),
     pn_control = (\<lambda>i raw. snd (pair_control_response (Some demo_handler) (fst (demo_served demo_ask)) raw 6)), pn_cancel = (\<lambda>_. False),
     pn_commit = demo_storage, pn_undo = demo_storage, pn_classify_at = 4, pn_begin_at = 4, pn_accept_at = 6, pn_id = ''u'', pn_secret = sample_secret\<rparr>"

lemma demo_sides [simp]:
  "rt_pairing demo_asker = pm_new (NodeId ''a'') 300" "cm_candidates (rt_cm demo_asker) = [(''b'', demo_announced)]"
  "rt_pairing demo_answerer = pm_new (NodeId ''b'') 300" "cm_local (rt_cm demo_answerer) = NodeId ''b''"
  "rt_permissions demo_answerer = []" "rt_permissions demo_asker = []" "rt_cluster demo_asker = None" "rt_cluster demo_answerer = None"
  "rt_loaded demo_asker" "rt_loaded demo_answerer" "rt_ready demo_asker" "rt_ready demo_answerer"
  by (simp_all add: demo_asker_def demo_answerer_def)

lemma demo_can_save: "can_save demo_storage demo_asker" "can_save demo_storage demo_answerer"
  by (simp_all add: can_save_def demo_accepts)

lemma pm_new_empty [simp]: "pm_pending (pm_new n l) = []" "pm_trusted (pm_new n l) = []" "pm_grants (pm_new n l) = []" "pm_broken (pm_new n l) = []"
    "pm_ttl (pm_new n l) = l" "pm_local (pm_new n l) = n" "pm_inv (pm_new n l)" "inbound_storable (pm_new n l)"
  by (simp_all add: pm_new_def pm_inv_def inbound_storable_def keyed_def)

lemma demo_ready:
  assumes "pn_cancel io = (\<lambda>_. False)" "pn_commit io = demo_storage" "pn_secret io = sample_secret" "pn_accept_at io < pn_begin_at io + 300"
  shows "ready_to_ask sign demo_pairing io demo_asker (NodeId ''b'') [demo_route]"
  using assms demo_can_save(1)
  by (simp add: ready_to_ask_def demo_announced_def candidate_connectable_def pairing_endpoints_def demo_route_def endpoint_checked_def blank_def str_isspace_def
      own_binding_def demo_pairing_def nid_ok_def sample_secret_ok)

lemma demo_ready_io: "ready_to_ask sign demo_pairing demo_io_run demo_asker (NodeId ''b'') [demo_route]"
  by (rule demo_ready) (simp_all add: demo_io_run_def)

lemma demo_ready_answer: "ready_to_answer demo_storage demo_storage demo_storage demo_answerer (np_node demo_pairing)"
  using demo_can_save(2) by (simp add: ready_to_answer_def demo_pairing_def)

theorem pairing_completes_witness:
  "\<exists>r' p. establish (\<lambda>_ _ _. True) (\<lambda>x. x) demo_pairing demo_io_run demo_asker (NodeId ''b'') {''read_state''} ''pair'' = (r', Inr p)"
proof -
  obtain t1 v where s: "demo_served demo_ask = (t1, v)" by fastforce
  show ?thesis
    by (rule pairing_completes [OF demo_ready_io demo_ready_answer refl refl, where now = 5 and now' = 5 and ?now2.0 = 6 and tid = "''t''" and j = 0
          and sig_ok' = "\<lambda>_ _ _. True" and ?t1.0 = t1 and v = v and f = "\<lambda>_. Inr True" and ?st3.0 = demo_storage])
      (use s in \<open>simp_all add: demo_io_run_def demo_served_def demo_ask_def demo_handler_def\<close>)
qed

lemma demo_run:
  obtains r' p t1 v where "demo_served demo_ask = (t1, Inr v)" "fget v ''approved'' = PBool True"
    "establish (\<lambda>_ _ _. True) (\<lambda>x. x) demo_pairing demo_io_run demo_asker (NodeId ''b'') {''read_state''} ''pair'' = (r', Inr p)"
proof -
  have q: "pq_caller demo_ask = NodeId ''a''" "pq_intent demo_ask = ''pair''" by (simp_all add: demo_ask_def sent_request_def demo_pairing_def)
  have "\<exists>t1 v. demo_served demo_ask = (t1, Inr v) \<and> pairing_response t1 (opened demo_ask (pm_new (NodeId ''b'') 300) 5 ''t'') = Inr v"
    using target_approves [of demo_answerer demo_ask demo_storage "Some (\<lambda>_. Inr True)" "\<lambda>_. Inr True" 5 5 "\<lambda>_ _ _. True" "''t''"] q demo_can_save(2)
    by (auto simp: demo_served_def INTENTS_def)
  then obtain t1 v where t1: "demo_served demo_ask = (t1, Inr v)" "fget v ''approved'' = PBool True" using response_fields(2) by blast
  have "\<exists>r' p. establish (\<lambda>_ _ _. True) (\<lambda>x. x) demo_pairing demo_io_run demo_asker (NodeId ''b'') {''read_state''} ''pair'' = (r', Inr p)"
    by (rule pairing_run_completes [OF demo_ready_io demo_ready_answer refl refl, where now = 5 and now' = 5 and ?now2.0 = 6 and tid = "''t''" and j = 0
          and sig_ok' = "\<lambda>_ _ _. True" and ?t1.0 = t1 and v = "Inr v" and f = "\<lambda>_. Inr True" and ?st3.0 = demo_storage])
      (use t1 in \<open>simp_all add: demo_io_run_def demo_served_def demo_ask_def demo_handler_def\<close>)
  with t1 that show thesis by blast
qed

lemma demo_ask_valid: "mk_pairing_request demo_ask = Inr demo_ask"
  using sample_secret_ok by (auto simp: mk_pairing_request_def demo_ask_def sent_request_def demo_pairing_def fingerprint_nonempty
      validate_secret_def secret_ok_def named_permissions_def all_permissions_def READ_PERMISSIONS_def)


theorem pairing_establishes_witness:
  "\<exists>r' p. establish (\<lambda>_ _ _. True) (\<lambda>x. x) demo_pairing demo_io_run demo_asker (NodeId ''b'') {''read_state''} ''pair'' = (r', Inr p)
     \<and> tp_secret p = sample_secret \<and> map_of (pm_trusted (rt_pairing r')) (NodeId ''b'') = Some p"
proof (rule demo_run)
  fix t1 v r' p
  assume r: "establish (\<lambda>_ _ _. True) (\<lambda>x. x) demo_pairing demo_io_run demo_asker (NodeId ''b'') {''read_state''} ''pair'' = (r', Inr p)"
  have "pn_secret demo_io_run = sample_secret" "sample_secret \<noteq> []" using sample_secret_ok by (auto simp: demo_io_run_def secret_ok_def)
  with pairing_establishes [OF r] r show ?thesis by auto
qed

theorem pairing_ends_agree_witness:
  "\<exists>r' p tx t2 v g. establish (\<lambda>_ _ _. True) (\<lambda>x. x) demo_pairing demo_io_run demo_asker (NodeId ''b'') {''read_state''} ''pair'' = (r', Inr p)
     \<and> pair_control_response (Some demo_handler) (fst (demo_served demo_ask)) (control_envelope ''pair_confirm'' tx) 6 = (t2, Inr v)
     \<and> map_of (pm_grants (rt_pairing t2)) (NodeId ''a'') = Some g \<and> pg_secret g = tp_secret p \<and> pg_binding g = request_binding demo_ask"
proof (rule demo_run)
  fix t1 v r' p
  assume s: "demo_served demo_ask = (t1, Inr v)"
    and r: "establish (\<lambda>_ _ _. True) (\<lambda>x. x) demo_pairing demo_io_run demo_asker (NodeId ''b'') {''read_state''} ''pair'' = (r', Inr p)"
  have k: "np_node demo_pairing = NodeId ''a''" "pn_secret demo_io_run = sample_secret" by (simp_all add: demo_pairing_def demo_io_run_def)
  have "\<exists>c tx t2 v g. map_of (cm_candidates (rt_cm demo_asker)) (nid_value (NodeId ''b'')) = Some c \<and> tp_peer p = NodeId ''b'' \<and> tp_binding p = candidate_binding c
    \<and> pair_control_response (Some demo_handler) t1 (control_envelope ''pair_confirm'' tx) 6 = (t2, Inr v)
    \<and> fget v ''approved'' = PBool True \<and> np_node demo_pairing \<noteq> cm_local (rt_cm demo_answerer)
    \<and> map_of (pm_grants (rt_pairing t2)) (np_node demo_pairing) = Some g \<and> pg_caller g = np_node demo_pairing \<and> pg_binding g = request_binding demo_ask
    \<and> pg_secret g = tp_secret p \<and> pg_permissions g = tp_permissions p
    \<and> (\<forall>k. k \<noteq> np_node demo_pairing \<longrightarrow> map_of (pm_grants (rt_pairing t2)) k = map_of (pm_grants (rt_pairing demo_answerer)) k)
    \<and> pm_trusted (rt_pairing t2) = pm_trusted (rt_pairing demo_answerer)
    \<and> rt_trust_file t2 = Some (trust_document (rt_pairing t2) (rt_permissions t2))"
    by (rule pairing_ends_agree [OF r _ _ _ _ _ demo_ask_valid _ _ _ _ _ _ _ demo_handler_def demo_io demo_io demo_io, where t = demo_answerer
          and tid = "''t''" and now = 5 and now' = 5 and sig_ok' = "\<lambda>_ _ _. True" and st = demo_storage and busy = False and cb = "Some (\<lambda>_. Inr True)"])
      (use s k sample_secret_ok in \<open>simp_all add: demo_ask_def demo_io_run_def demo_served_def nid_ok_def\<close>)
  then show ?thesis using r s k by auto
qed

text \<open>A peer that refuses.\<close>

definition demo_refused :: pairing_io where
  "demo_refused = demo_io_run\<lparr>pn_request := (\<lambda>i q. Inr (refusal ''denied'')), pn_control := (\<lambda>i raw. Inr (refusal ''denied''))\<rparr>"

theorem failed_pairing_keeps_trust_witness:
  "\<exists>r'. establish (\<lambda>_ _ _. True) (\<lambda>x. x) demo_pairing demo_refused demo_asker (NodeId ''b'') {''read_state''} ''pair''
       = (r', Inl (Exn PermissionError ''peer rejected pairing'')) \<and> map_of (pm_trusted (rt_pairing r')) (NodeId ''b'') = None"
proof -
  have io: "pn_cancel demo_refused = (\<lambda>_. False)" "pn_commit demo_refused = demo_storage" "pn_undo demo_refused = demo_storage"
    "pn_request demo_refused = (\<lambda>i q. Inr (refusal ''denied''))" "pn_control demo_refused = (\<lambda>i raw. Inr (refusal ''denied''))"
    by (simp_all add: demo_refused_def demo_io_run_def)
  have rq: "request_pairing demo_refused 0 q = Inr None" for q by (simp add: request_pairing_def io)
  have a: "ready_to_ask (\<lambda>x. x) demo_pairing demo_refused demo_asker (NodeId ''b'') [demo_route]"
    by (rule demo_ready) (simp_all add: demo_refused_def demo_io_run_def)
  have "\<exists>r'. establish (\<lambda>_ _ _. True) (\<lambda>x. x) demo_pairing demo_refused demo_asker (NodeId ''b'') {''read_state''} ''pair''
       = (r', Inl (Exn PermissionError ''peer rejected pairing''))"
  proof (rule establish_starts [OF a, where sig_ok = "\<lambda>_ _ _. True"])
    fix c b m t
    assume c: "pairing_endpoints c = Inr [demo_route]" and m: "m = (rt_pairing demo_asker)\<lparr>pm_pending := dict_set (pn_id demo_refused) t (pm_pending (rt_pairing demo_asker))\<rparr>"
      and e: "establish (\<lambda>_ _ _. True) (\<lambda>x. x) demo_pairing demo_refused demo_asker (NodeId ''b'') {''read_state''} ''pair'' =
        run_routes demo_pairing b demo_refused \<lparr>un_peer = NodeId ''b'', un_previous = None,
          un_broken = pm_is_auth_broken (rt_pairing demo_asker) (NodeId ''b''), un_pending = t\<rparr> c {''read_state''} ''pair'' (set_pairing m demo_asker)"
    have "\<exists>r'. fail_pairing demo_refused \<lparr>un_peer = NodeId ''b'', un_previous = None,
          un_broken = pm_is_auth_broken (rt_pairing demo_asker) (NodeId ''b''), un_pending = t\<rparr> (set_pairing m demo_asker)
          (Exn PermissionError ''peer rejected pairing'') = (r', Inl (Exn PermissionError ''peer rejected pairing'') :: trusted_peer res)"
      using fail_settles(1) [where 'a = trusted_peer, of demo_refused "rt_pairing demo_asker" "\<lparr>un_peer = NodeId ''b'', un_previous = None,
          un_broken = pm_is_auth_broken (rt_pairing demo_asker) (NodeId ''b''), un_pending = t\<rparr>" "set_pairing m demo_asker"
          "Exn PermissionError ''peer rejected pairing''"] demo_io kept_only [OF pending_kept(1)]
      by (auto simp: undoes_def m io)
    then show ?thesis using c e rq by (simp add: run_routes_def io)
  qed
  then obtain r' where r: "establish (\<lambda>_ _ _. True) (\<lambda>x. x) demo_pairing demo_refused demo_asker (NodeId ''b'') {''read_state''} ''pair''
       = (r', Inl (Exn PermissionError ''peer rejected pairing''))" by blast
  from failed_pairing_keeps_trust [OF r, of "NodeId ''b''"] r show ?thesis by (auto simp: io demo_io)
qed

section \<open>What pairing leaves behind\<close>

lemma load_each_fails:
  "raw \<in> set raws \<Longrightarrow> f raw = Inl e \<Longrightarrow> \<exists>s' e'. load_each put f s raws = (s', Inl e')"
proof (induction raws arbitrary: s)
  case (Cons x xs)
  then show ?case by (cases "f x") auto
qed simp

lemma member_peer_unreadable:
  assumes "tp_members p" "tp_permissions p \<inter> permission_value ` set all_permissions \<noteq> {}"
  shows "trusted_peer_from_json pyrepr (trusted_peer_to_json p) = raise ValueError ''persisted permissions contain an unknown value''"
proof -
  let ?S = "permission_str ` {q \<in> set all_permissions. permission_value q \<in> tp_permissions p}"
  obtain q where q: "permission_value q \<in> tp_permissions p" using assms(2) by auto
  have n: "permission_str q \<notin> permission_value ` set all_permissions" for q by (cases q) (auto simp: all_permissions_def)
  have "permission_str q \<in> ?S" using q by (simp add: permission_universe)
  then have "\<not> ?S \<subseteq> permission_value ` set all_permissions" using n by blast
  then show ?thesis using assms(1)
    by (simp add: trusted_peer_from_json_def)
      (simp add: trusted_peer_to_json_def permissions_from_json_def sorted_permissions_def printed_permissions_def list_all_iff image_image)
qed

lemma member_document_unreadable:
  assumes "(k, p) \<in> set (pm_trusted m)" "tp_members p" "tp_permissions p \<inter> permission_value ` set all_permissions \<noteq> {}"
  shows "\<exists>s e. load_trust pyrepr s0 (trust_document m perms) = (s, Inl e)"
proof -
  let ?gs = "map (\<lambda>(k, g). peer_grant_to_json g) (pm_grants m)" let ?ts = "map (\<lambda>(k, p). trusted_peer_to_json p) (pm_trusted m)"
  have t: "\<exists>s' e. load_each put_trusted (trusted_peer_from_json pyrepr) s ?ts = (s', Inl e)" for s
    by (rule load_each_fails [where raw = "trusted_peer_to_json p"])
      (use assms(1) member_peer_unreadable [OF assms(2,3), of pyrepr] in \<open>force simp: raise_def\<close>)+
  obtain s1 x where g: "load_each put_grant (peer_grant_from_json pyrepr) s0 ?gs = (s1, x)" by fastforce
  obtain s2 e where "load_each put_trusted (trusted_peer_from_json pyrepr) s1 ?ts = (s2, Inl e)" using t by blast
  then show ?thesis using g
    by (cases x) (simp_all add: load_trust_def trust_document_current, simp_all add: trust_document_def)
qed

text \<open>
  C35. A successful network pairing makes the trust file unreadable: whatever \<open>pair\<close> or \<open>repair\<close> has newly established and
  stored, reading the file that it left fails, since the accepted permissions are members of \<open>NodePermission\<close>, which are
  written as \<open>NodePermission.READ_STATE\<close> and refused when read. The next start of the runtime cannot load its state.
\<close>

theorem pairing_breaks_restart:
  assumes run: "establish sig_ok sign np io r peer permissions intent = (r', Inr p)" and new: "map_of (pm_trusted (rt_pairing r)) peer \<noteq> Some p"
    and secret: "pn_secret io \<noteq> []" and inv: "pm_inv (rt_pairing r)"
  shows "\<exists>d s e. rt_trust_file r' = Some d \<and> load_trust pyrepr s0 d = (s, Inl e)"
proof (rule established [OF run new secret])
  fix c b m t i v ps tx m'
  assume b: "pm_begin (rt_pairing r) peer (Some (pn_secret io)) b ''outbound'' intent (pn_begin_at io) (pn_id io) [] = (m, Inr t)"
    and ps: "set ps \<noteq> {}"
    and acc: "pm_accept_grant m (pp_id t) peer \<lparr>pg_caller = np_node np, pg_secret = pp_secret t, pg_permissions = permission_value ` set ps,
          pg_binding = b, pg_members = True\<rparr> (candidate_binding c) (pn_accept_at io) = (m', Inr p)"
    and sv: "save_persisted_state (pn_commit io) (set_pairing m' r) = (r', Inr True)"
  have p: "tp_members p" "tp_permissions p = permission_value ` set ps" "tp_peer p = peer" "m' = pm_trust m (pp_id t) p"
    using accept_grant_trusts [OF acc] by auto
  have "map_of (pm_trusted m') peer = Some p" using p(3,4) by (simp add: pm_trust_def)
  then have "(peer, p) \<in> set (pm_trusted m')" by (rule map_of_SomeD)
  moreover have "tp_permissions p \<inter> permission_value ` set all_permissions \<noteq> {}"
    using ps p(2) permission_universe by (cases ps) auto
  ultimately show ?thesis using member_document_unreadable [OF _ p(1)] save_True [OF sv] by auto
qed

theorem pairing_breaks_restart_witness:
  "\<exists>r' p d s e. establish (\<lambda>_ _ _. True) (\<lambda>x. x) demo_pairing demo_io_run demo_asker (NodeId ''b'') {''read_state''} ''pair'' = (r', Inr p)
     \<and> rt_trust_file r' = Some d \<and> load_trust (\<lambda>_. []) (pm_new (NodeId ''a'') 300, []) d = (s, Inl e)"
proof (rule demo_run)
  fix t1 v r' p
  assume r: "establish (\<lambda>_ _ _. True) (\<lambda>x. x) demo_pairing demo_io_run demo_asker (NodeId ''b'') {''read_state''} ''pair'' = (r', Inr p)"
  have "pn_secret demo_io_run \<noteq> []" using sample_secret_ok by (auto simp: demo_io_run_def secret_ok_def)
  with pairing_breaks_restart [OF r, of "\<lambda>_. []" "(pm_new (NodeId ''a'') 300, [])"] r show ?thesis by auto
qed

text \<open>
  The request that \<open>flow.py\<close> sends carries no root key and no proof, so a target that still holds a grant of the caller
  answers every request of it, a repair too, with an identity conflict.
\<close>

lemma repair_always_conflicts:
  assumes "rt_loaded t" "np_node np \<noteq> cm_local (rt_cm t)" "map_of (pm_grants (rt_pairing t)) (np_node np) = Some g"
  shows "handle_pairing_request sig_ok st t (sent_request np secret permissions intent) False cb now now' tid
    = (t, Inr (refusal ''identity_conflict''))"
  using assms by (auto simp: handle_pairing_request_def sent_request_def grant_root_continuous_def Let_def)

text \<open>
  An error that is not a transport error, such as a wrong certificate on the first route or a cancellation while the request
  is under way, ends the run without trying the other routes and without rollback: the transaction stays pending, and
  the next attempt is refused as busy until it expires.
\<close>

lemma escaped_request_blocks:
  assumes a: "ready_to_ask sign np io r peer (e # es)" "pairing_routes io (sent_request np (pn_secret io) {''read_state''} ''pair'') 0
      (sort_key endpoint_rank (e # es)) None = Escaped x"
  shows "\<exists>r' t. establish sig_ok sign np io r peer {''read_state''} ''pair'' = (r', Inl x)
    \<and> map_of (pm_pending (rt_pairing r')) (pn_id io) = Some t \<and> pp_peer t = peer
    \<and> pp_expires t = pn_begin_at io + pm_ttl (rt_pairing r)"
proof (rule establish_starts [OF a(1), where sig_ok = sig_ok])
  fix c b m t
  assume h: "pairing_endpoints c = Inr (e # es)"
    "t = \<lparr>pp_id = pn_id io, pp_peer = peer, pp_secret = pn_secret io, pp_expires = pn_begin_at io + pm_ttl (rt_pairing r),
        pp_binding = b, pp_direction = ''outbound'', pp_intent = ''pair''\<rparr>"
    "m = (rt_pairing r)\<lparr>pm_pending := dict_set (pn_id io) t (pm_pending (rt_pairing r))\<rparr>"
    "establish sig_ok sign np io r peer {''read_state''} ''pair'' = run_routes np b io \<lparr>un_peer = peer, un_previous = None,
        un_broken = pm_is_auth_broken (rt_pairing r) peer, un_pending = t\<rparr> c {''read_state''} ''pair'' (set_pairing m r)"
  have "run_routes np b io \<lparr>un_peer = peer, un_previous = None, un_broken = pm_is_auth_broken (rt_pairing r) peer, un_pending = t\<rparr> c
      {''read_state''} ''pair'' (set_pairing m r) = (set_pairing m r, Inl x)"
    unfolding run_routes_def h(1) sum.case using a(2) h(2) by (simp only: undo_point.simps pending_pairing.simps route_result.case)
  then show ?thesis using h by auto
qed

end
