(* ===== verification/ListenerExamples.thy ===== *)
theory ListenerExamples
  imports ListenerLaws PairingLive
begin

text \<open>The properties of the listener at concrete inputs: one permit, a ping on the service's listener, and a pairing request.\<close>

definition demo_admission :: admission where
  "demo_admission = \<lparr>ad_limit = 1, ad_free = 1, ad_active = []\<rparr>"

theorem listener_admission_witness:
  "\<exists>b d. listener_run demo_admission [Served 7] b \<and> (\<exists>d. listener_step b (Refused 8) d)
     \<and> (\<exists>d. listener_run b [Ended 7 True (Inr ())] d \<and> ad_free d = 1)
     \<and> listener_run demo_admission [Served 7, Ended 7 True (Inl (Exn OSError []))] d \<and> ad_active d = []
     \<and> (\<exists>e. listener_step d (Refused 8) e)"
proof -
  let ?b = "\<lparr>ad_limit = 1, ad_free = 0, ad_active = [7]\<rparr>" and ?d = "\<lparr>ad_limit = 1, ad_free = 0, ad_active = []\<rparr>"
  let ?close = "Inl (Exn OSError []) :: unit res"
  have n: "admission_new 1 = Inr demo_admission" by (simp add: admission_new_def demo_admission_def)
  have a: "acquire demo_admission = Some ?d" by (simp add: acquire_def demo_admission_def)
  have "listener_step demo_admission (Served 7) ?b" using step_served [OF a, of 7] by (simp add: demo_admission_def)
  from run_step [OF run_start this] have r: "listener_run demo_admission [Served 7] ?b" by simp
  have "finish_handler True ?close ?b = (?b, ?close)" by (simp add: finish_handler_def)
  from step_ended [OF _ this, of 7] have "listener_step ?b (Ended 7 True ?close) ?d" by simp
  from run_step [OF r this] have l: "listener_run demo_admission [Served 7, Ended 7 True ?close] ?d" by simp
  have "\<exists>e. listener_step ?d (Refused 8) e" using listener_admission [OF n l, where c = 8] by (simp add: leaked_def)
  moreover from listener_admission [OF n r, where c = 8 and wrapped = True] have "\<exists>d. listener_run ?b [Ended 7 True (Inr ())] d \<and> ad_free d = 1"
    "\<exists>d. listener_step ?b (Refused 8) d" by (auto simp: leaked_def)
  ultimately show ?thesis using r l by (intro exI [of _ ?b] exI [of _ ?d]) auto
qed

definition demo_frame :: bytes where
  "demo_frame = [0, 0, 0, 1, 5]"

lemma demo_frame_read:
  "recv_frame False eof (PInt (int MAX_ENVELOPE_BYTES)) [Ready 4, Ready 1] demo_frame = Some ([], [], Inr [5])"
proof -
  have "recv_loop False eof [Ready 4, Ready 1] demo_frame 4 [] = Some ([Ready 1], [5], Inr [0, 0, 0, 1])"
    "recv_loop False eof [Ready 1] [5] 1 [] = Some ([], [], Inr [5])" by (simp_all add: numeral_eq_Suc demo_frame_def)
  then show ?thesis by (simp add: recv_frame_def validate_max_bytes_def unpack_four MAX_ENVELOPE_BYTES_def recv_exact_def)
qed

lemma demo_frame_sent: "send_frame [5] (PInt (int MAX_ENVELOPE_BYTES)) = Inr demo_frame"
  by (simp add: send_frame_Inr MAX_ENVELOPE_BYTES_def be32_def demo_frame_def)

definition demo_handlers :: "nat handlers" where
  "demo_handlers = \<lparr>hd_pairing = Some (\<lambda>n _. (n + 1, Inr (PDict []))), hd_confirm = None, hd_abort = None, hd_elevation = None\<rparr>"

definition demo_ping :: pyval where
  "demo_ping = pdict [(''op'', PStr ''ping'')]"

theorem listeners_separate_witness:
  "\<exists>out. serve_connection (\<lambda>_. Inr demo_ping) (\<lambda>_. [5]) False demo_handlers (\<lambda>n _. (n + 1, Inr (PInt 0))) 0 0 [Ready 4, Ready 1] demo_frame
     = Some (1, out) \<and> fget demo_ping ''op'' \<notin> PStr ` pairing_operations"
proof -
  have r: "serve_connection (\<lambda>_. Inr demo_ping) (\<lambda>_. [5]) False demo_handlers (if False then pairing_only else (\<lambda>n _. (n + 1, Inr (PInt 0)))) 0 0
      [Ready 4, Ready 1] demo_frame = Some (1, Some demo_frame)"
    unfolding serve_connection_def demo_frame_read demo_frame_sent
    by (simp add: serve_message_def demo_ping_def pairing_operations_def)
  have c: "1 \<noteq> (0 :: nat) \<or> Some demo_frame \<noteq> None" by simp
  from listeners_separate [OF r c] r show ?thesis by (auto simp: demo_ping_def)
qed

theorem pairing_request_served_witness:
  "\<exists>s' out. serve_connection (\<lambda>_. Inr (pairing_envelope demo_ask)) (\<lambda>_. [5]) True demo_handlers pairing_only 0 (0 :: nat)
     (replicate 5 (Ready 1)) (demo_frame @ []) = Some (s', out) \<and> s' = 1"
proof -
  have n: "nid_ok (pq_caller demo_ask)" by (simp add: demo_ask_def sent_request_def demo_pairing_def nid_ok_def)
  have h: "hd_pairing demo_handlers = Some (\<lambda>n _. (n + 1, Inr (PDict [])))" by (simp add: demo_handlers_def)
  have t: "smooth False (replicate 5 (Ready 1))" "length demo_frame \<le> deliveries (replicate 5 (Ready 1))"
    by (simp_all add: smooth_def deliveries_def demo_frame_def)
  from pairing_request_served [OF demo_ask_valid n refl demo_frame_sent t h refl, of 0 0 "[]"] show ?thesis by simp
qed

end
