(* ===== verification/Transport.thy ===== *)
theory Transport
  imports RoleCodec Interfaces
begin

text \<open>
  \<open>identity/transport_generation.py\<close>: \<open>TransportGenerationManager\<close>, the signed generations of a node's transport
  key and their rotation. Signing with the root key and checking a signature are third-party code: the parameters
  \<open>sign\<close> and \<open>sig_ok\<close>. \<open>persist\<close> is the callback or the store: \<open>Inr False\<close> when it rejects the document and
  \<open>Inl e\<close> when it raises. An accepted generation's expiry, an \<open>int\<close> or a \<open>float\<close> after loading, is its value.
\<close>

section \<open>The manager\<close>

record transport_generation =
  tg_number :: int
  tg_fingerprint :: string
  tg_proof :: string

record transport_manager =
  tm_node :: node_id
  tm_root :: string
  tm_grace :: rat
  tm_current :: "transport_generation option"
  tm_accepted :: "(int, transport_generation \<times> rat option) dict"
  tm_next :: "transport_generation option"

type_synonym transport_store = "pyval \<Rightarrow> bool res"

definition tm_new :: "node_id \<Rightarrow> string \<Rightarrow> rat \<Rightarrow> transport_manager" where
  "tm_new n rk grace = \<lparr>tm_node = n, tm_root = rk, tm_grace = grace, tm_current = None, tm_accepted = [], tm_next = None\<rparr>"

definition tm_generation :: "(string \<Rightarrow> string) \<Rightarrow> transport_manager \<Rightarrow> int \<Rightarrow> string \<Rightarrow> transport_generation res" where
  "tm_generation sign m number fingerprint =
     (if fingerprint = [] then raise TransportStateError ''transport fingerprint is required''
      else rbind (sign_transport_proof sign (tm_node m) number fingerprint) (\<lambda>proof.
        Inr \<lparr>tg_number = number, tg_fingerprint = fingerprint, tg_proof = proof\<rparr>))"

definition generation_items :: "transport_generation \<Rightarrow> (string \<times> pyval) list" where
  "generation_items g = [(''generation'', PInt (tg_number g)), (''fingerprint'', PStr (tg_fingerprint g)),
     (''proof'', PStr (tg_proof g))]"

definition expiry_value :: "rat option \<Rightarrow> pyval" where
  "expiry_value x = (case x of None \<Rightarrow> PNone | Some t \<Rightarrow> PFloat (Fin t))"

definition tm_to_dict :: "transport_manager \<Rightarrow> pyval res" where
  "tm_to_dict m =
     (case tm_current m of
        None \<Rightarrow> raise TransportStateError ''transport generation is not initialized''
      | Some c \<Rightarrow> Inr (pdict [(''version'', PInt 2), (''current'', pdict (generation_items c)),
          (''accepted'', PList (map (\<lambda>(k, g, x). pdict (generation_items g @ [(''expires_at'', expiry_value x)])) (tm_accepted m))),
          (''next'', case tm_next m of None \<Rightarrow> PNone | Some g \<Rightarrow> pdict (generation_items g))]))"

definition tm_commit ::
  "transport_store \<Rightarrow> transport_manager \<Rightarrow> transport_generation \<Rightarrow> (int, transport_generation \<times> rat option) dict
   \<Rightarrow> transport_generation option \<Rightarrow> transport_manager \<times> unit res" where
  "tm_commit persist m current acc nxt =
     (let m' = m\<lparr>tm_current := Some current, tm_accepted := acc, tm_next := nxt\<rparr> in
      case rbind (tm_to_dict m') persist of
        Inr True \<Rightarrow> (m', Inr ())
      | Inr False \<Rightarrow> (m, raise TransportStateError ''transport state was not persisted'')
      | Inl e \<Rightarrow> if isa e Exception then (m, raise TransportStateError ''transport state was not persisted'') else (m', Inl e))"

text \<open>\<open>_commit\<close>, then the value the method returns.\<close>

definition tm_publish ::
  "transport_store \<Rightarrow> transport_manager \<Rightarrow> transport_generation \<Rightarrow> (int, transport_generation \<times> rat option) dict
   \<Rightarrow> transport_generation option \<Rightarrow> 'a \<Rightarrow> transport_manager \<times> 'a res" where
  "tm_publish persist m current acc nxt answer = sbind (tm_commit persist m current acc nxt) (\<lambda>m _. (m, Inr answer))"

definition tm_initialize ::
  "(string \<Rightarrow> string) \<Rightarrow> transport_store \<Rightarrow> transport_manager \<Rightarrow> string \<Rightarrow> transport_manager \<times> transport_generation res" where
  "tm_initialize sign persist m fingerprint =
     (case tm_current m of
        Some c \<Rightarrow>
          (m, if tg_fingerprint c \<noteq> fingerprint then raise TransportStateError ''initial transport generation already exists''
              else Inr c)
      | None \<Rightarrow> sbind (m, tm_generation sign m 1 fingerprint) (\<lambda>m g. tm_publish persist m g [] None g))"

definition tm_highest :: "transport_manager \<Rightarrow> int" where
  "tm_highest m = fold max (map fst (tm_accepted m) @ (case tm_current m of None \<Rightarrow> [] | Some c \<Rightarrow> [tg_number c])
     @ (case tm_next m of None \<Rightarrow> [] | Some g \<Rightarrow> [tg_number g])) 0"

definition tm_prepare ::
  "(string \<Rightarrow> string) \<Rightarrow> transport_store \<Rightarrow> transport_manager \<Rightarrow> string \<Rightarrow> transport_manager \<times> transport_generation res" where
  "tm_prepare sign persist m fingerprint =
     (case tm_current m of
        None \<Rightarrow> tm_initialize sign persist m fingerprint
      | Some c \<Rightarrow>
          if tm_next m \<noteq> None then (m, raise RotationConflict ''a transport rotation is already pending'')
          else sbind (m, tm_generation sign m (tm_highest m + 1) fingerprint) (\<lambda>m g.
                 tm_publish persist m c (tm_accepted m) (Some g) g))"

definition tm_activate ::
  "transport_store \<Rightarrow> transport_manager \<Rightarrow> int \<Rightarrow> rat \<Rightarrow> transport_manager \<times> transport_generation res" where
  "tm_activate persist m number clock =
     (case (tm_next m, tm_current m) of
        (Some g, Some c) \<Rightarrow>
          if tg_number g \<noteq> number then (m, raise TransportStateError ''generation is not pending activation'')
          else tm_publish persist m g (dict_set (tg_number c) (c, Some (clock + tm_grace m)) (tm_accepted m)) None g
      | (Some g, None) \<Rightarrow>
          (m, if tg_number g \<noteq> number then raise TransportStateError ''generation is not pending activation''
              else raise TransportStateError ''transport generation is not initialized'')
      | (None, _) \<Rightarrow> (m, raise TransportStateError ''generation is not pending activation''))"

definition tm_retire :: "transport_store \<Rightarrow> transport_manager \<Rightarrow> int \<Rightarrow> transport_manager \<times> unit res" where
  "tm_retire persist m number =
     (case tm_current m of
        None \<Rightarrow> (m, raise TransportStateError ''transport generation is not initialized'')
      | Some c \<Rightarrow>
          if number = tg_number c then (m, raise TransportStateError ''cannot retire current transport generation'')
          else tm_commit persist m c (dict_pop number (tm_accepted m)) (tm_next m))"

definition tm_rollback :: "transport_store \<Rightarrow> transport_manager \<Rightarrow> transport_manager \<times> unit res" where
  "tm_rollback persist m =
     (case (tm_next m, tm_current m) of
        (None, _) \<Rightarrow> (m, raise TransportStateError ''no transport rotation is pending'')
      | (Some _, None) \<Rightarrow> (m, raise TransportStateError ''transport generation is not initialized'')
      | (Some _, Some c) \<Rightarrow> tm_commit persist m c (tm_accepted m) None)"

definition tm_rollback_active ::
  "transport_store \<Rightarrow> transport_manager \<Rightarrow> transport_manager \<times> transport_generation res" where
  "tm_rollback_active persist m =
     (if tm_accepted m = [] then (m, raise TransportStateError ''no previous transport generation is retained'')
      else let number = fold max (map fst (tm_accepted m)) (fst (hd (tm_accepted m)));
               previous = fst (the (map_of (tm_accepted m) number))
        in tm_publish persist m previous (filter (\<lambda>(k, v). k \<noteq> number) (tm_accepted m)) None previous)"

definition tm_is_accepted :: "transport_manager \<Rightarrow> string \<Rightarrow> rat \<Rightarrow> bool" where
  "tm_is_accepted m fingerprint now \<longleftrightarrow>
     (case tm_current m of None \<Rightarrow> False | Some c \<Rightarrow> tg_fingerprint c = fingerprint)
     \<or> list_ex (\<lambda>(k, g, x). tg_fingerprint g = fingerprint \<and> (case x of None \<Rightarrow> True | Some t \<Rightarrow> t \<ge> now)) (tm_accepted m)"

definition tm_accept_remote ::
  "sig_check \<Rightarrow> transport_manager \<Rightarrow> node_id \<Rightarrow> pyval \<Rightarrow> string \<Rightarrow> string \<Rightarrow> string option \<Rightarrow> transport_generation res" where
  "tm_accept_remote sig_ok m n number fingerprint proof rk =
     (if n \<noteq> tm_node m \<or> \<not> is_int number \<or> int_of number < 1
      then raise TransportStateError ''transport identity binding mismatch''
      else if \<not> verify_transport_proof sig_ok n (case rk of None \<Rightarrow> tm_root m | Some r \<Rightarrow> if r = [] then tm_root m else r)
                 (int_of number) fingerprint proof
      then raise TransportStateError ''invalid transport continuity proof''
      else Inr \<lparr>tg_number = int_of number, tg_fingerprint = fingerprint, tg_proof = proof\<rparr>)"

section \<open>Reading the stored state\<close>

definition tm_decode :: "sig_check \<Rightarrow> transport_manager \<Rightarrow> pyval \<Rightarrow> transport_generation res" where
  "tm_decode sig_ok m raw =
     (if \<not> is_dict raw then raise TypeError []
      else rbind (fitem raw ''generation'') (\<lambda>number. rbind (fitem raw ''fingerprint'') (\<lambda>fp. rbind (fitem raw ''proof'') (\<lambda>proof.
        if \<not> is_int number \<or> int_of number < 1 \<or> \<not> is_str fp \<or> str_of fp = [] \<or> \<not> is_str proof
           \<or> \<not> verify_transport_proof sig_ok (tm_node m) (tm_root m) (int_of number) (str_of fp) (str_of proof)
        then raise ValueError []
        else Inr \<lparr>tg_number = int_of number, tg_fingerprint = str_of fp, tg_proof = str_of proof\<rparr>))))"

definition decode_expiry :: "pyval \<Rightarrow> rat option res" where
  "decode_expiry v =
     (if v = PNone then Inr None
      else if \<not> is_number v then raise ValueError []
      else rbind (py_float v) (\<lambda>f. case f of Fin t \<Rightarrow> Inr (Some t) | _ \<Rightarrow> raise ValueError []))"

fun tm_load_accepted ::
  "sig_check \<Rightarrow> transport_manager \<Rightarrow> int \<Rightarrow> pyval list \<Rightarrow> (int, transport_generation \<times> rat option) dict
   \<Rightarrow> (int, transport_generation \<times> rat option) dict res" where
  "tm_load_accepted sig_ok m current [] acc = Inr acc"
| "tm_load_accepted sig_ok m current (raw # rest) acc =
     (if \<not> is_dict raw then raise TypeError []
      else rbind (tm_decode sig_ok m raw) (\<lambda>g.
        if map_of acc (tg_number g) \<noteq> None \<or> tg_number g \<ge> current then raise ValueError []
        else rbind (decode_expiry (fget raw ''expires_at'')) (\<lambda>x.
          tm_load_accepted sig_ok m current rest (dict_set (tg_number g) (g, x) acc))))"

definition tm_load_body :: "(string \<Rightarrow> string) \<Rightarrow> sig_check \<Rightarrow> transport_manager \<Rightarrow> pyval \<Rightarrow> transport_manager res" where
  "tm_load_body sign sig_ok m doc =
     (if equals_int (fget doc ''version'') 1
      then rbind (fitem doc ''fingerprint'') (\<lambda>fp.
        if \<not> is_str fp \<or> str_of fp = [] then raise ValueError []
        else rbind (tm_generation sign m 1 (str_of fp)) (\<lambda>g. Inr (m\<lparr>tm_current := Some g\<rparr>)))
      else if \<not> equals_int (fget doc ''version'') 2 then raise ValueError []
      else rbind (fitem doc ''current'') (\<lambda>rc. rbind (tm_decode sig_ok m rc) (\<lambda>current.
        rbind (fitem doc ''accepted'') (\<lambda>ra.
        if \<not> is_list ra then raise TypeError []
        else rbind (tm_load_accepted sig_ok m (tg_number current) (list_of ra) []) (\<lambda>acc.
          rbind (if fget doc ''next'' = PNone then Inr None
                 else rbind (tm_decode sig_ok m (fget doc ''next'')) (\<lambda>g. Inr (Some g))) (\<lambda>nxt.
          if (case nxt of None \<Rightarrow> False | Some g \<Rightarrow> tg_number g \<le> tg_number current \<or> map_of acc (tg_number g) \<noteq> None)
          then raise ValueError []
          else Inr (m\<lparr>tm_current := Some current, tm_accepted := acc, tm_next := nxt\<rparr>)))))))"

definition tm_load :: "(string \<Rightarrow> string) \<Rightarrow> sig_check \<Rightarrow> transport_manager \<Rightarrow> pyval \<Rightarrow> transport_manager res" where
  "tm_load sign sig_ok m doc =
     (case tm_load_body sign sig_ok m doc of
        Inr m' \<Rightarrow> Inr m'
      | Inl e \<Rightarrow>
          if isa e KeyError \<or> isa e OverflowError \<or> isa e TypeError \<or> isa e ValueError
          then raise StateDataError ''transport state is malformed'' else Inl e)"

section \<open>Invariant\<close>

definition tg_ok :: "sig_check \<Rightarrow> transport_manager \<Rightarrow> transport_generation \<Rightarrow> bool" where
  "tg_ok sig_ok m g \<longleftrightarrow> verify_transport_proof sig_ok (tm_node m) (tm_root m) (tg_number g) (tg_fingerprint g) (tg_proof g)"

definition accepted_ok :: "sig_check \<Rightarrow> transport_manager \<Rightarrow> int \<Rightarrow> (int, transport_generation \<times> rat option) dict \<Rightarrow> bool" where
  "accepted_ok sig_ok m mx acc \<longleftrightarrow> keys_distinct acc
     \<and> (\<forall>k g x. (k, g, x) \<in> set acc \<longrightarrow> k = tg_number g \<and> tg_ok sig_ok m g \<and> k < mx)"

text \<open>The published triple: numbers below, at and above the current one, each with a valid proof.\<close>

definition triple_ok ::
  "sig_check \<Rightarrow> transport_manager \<Rightarrow> transport_generation \<Rightarrow> (int, transport_generation \<times> rat option) dict
   \<Rightarrow> transport_generation option \<Rightarrow> bool" where
  "triple_ok sig_ok m c acc nxt \<longleftrightarrow> tg_ok sig_ok m c \<and> accepted_ok sig_ok m (tg_number c) acc
     \<and> (\<forall>g. nxt = Some g \<longrightarrow> tg_ok sig_ok m g \<and> tg_number c < tg_number g)"

definition tm_inv :: "sig_check \<Rightarrow> transport_manager \<Rightarrow> bool" where
  "tm_inv sig_ok m \<longleftrightarrow> (case tm_current m of
      None \<Rightarrow> tm_accepted m = [] \<and> tm_next m = None
    | Some c \<Rightarrow> triple_ok sig_ok m c (tm_accepted m) (tm_next m))"

lemma tg_ok_update [simp]: "tg_ok sig_ok (m\<lparr>tm_current := a, tm_accepted := b, tm_next := c\<rparr>) = tg_ok sig_ok m"
  by (rule ext) (simp add: tg_ok_def)

lemma accepted_ok_update [simp]:
  "accepted_ok sig_ok (m\<lparr>tm_current := a, tm_accepted := b, tm_next := c\<rparr>) = accepted_ok sig_ok m"
  by (intro ext) (simp add: accepted_ok_def)

lemma triple_ok_update [simp]:
  "triple_ok sig_ok (m\<lparr>tm_current := a, tm_accepted := b, tm_next := c\<rparr>) = triple_ok sig_ok m"
  by (intro ext) (simp add: triple_ok_def)

lemma tm_commit_inv:
  assumes "tm_inv sig_ok m" "triple_ok sig_ok m c acc nxt"
  shows "tm_inv sig_ok (fst (tm_commit persist m c acc nxt))"
proof -
  let ?m = "m\<lparr>tm_current := Some c, tm_accepted := acc, tm_next := nxt\<rparr>"
  have "fst (tm_commit persist m c acc nxt) = m \<or> fst (tm_commit persist m c acc nxt) = ?m"
    by (simp add: tm_commit_def Let_def split: sum.splits bool.splits)
  moreover have "tm_inv sig_ok ?m" using assms(2) by (simp add: tm_inv_def)
  ultimately show ?thesis using assms(1) by auto
qed

lemma tm_publish_inv:
  assumes "tm_inv sig_ok m" "triple_ok sig_ok m c acc nxt"
  shows "tm_inv sig_ok (fst (tm_publish persist m c acc nxt answer))"
  using tm_commit_inv [OF assms, of persist]
  by (cases "tm_commit persist m c acc nxt") (auto simp: tm_publish_def sbind_def split: sum.splits)

lemma tm_generation_ok:
  assumes "\<And>x. sig_ok (tm_root m) (sign x) x" "tm_generation sign m n fp = Inr g"
  shows "tg_ok sig_ok m g \<and> tg_number g = n \<and> tg_fingerprint g = fp"
  using assms
  by (auto simp: tm_generation_def sign_transport_proof_def tg_ok_def verify_transport_proof_def ok_simps split: if_splits)

lemma fold_max_base: "(z :: 'a :: linorder) \<le> fold max xs z"
proof (induction xs arbitrary: z)
  case (Cons y ys)
  have "z \<le> max y z" by simp
  also have "\<dots> \<le> fold max ys (max y z)" by (rule Cons.IH)
  finally show ?case by simp
qed simp

lemma fold_max_ge: "x \<in> set xs \<or> x = (z :: 'a :: linorder) \<Longrightarrow> x \<le> fold max xs z"
proof (induction xs arbitrary: z)
  case (Cons y ys)
  have le: "max y z \<le> fold max ys (max y z)" by (rule fold_max_base)
  show ?case using Cons le by auto
qed simp

lemma fold_max_in: "fold max xs z \<in> insert (z :: 'a :: linorder) (set xs)"
  by (induction xs arbitrary: z) (auto simp: max_def)

lemma tm_highest_current: "tm_current m = Some c \<Longrightarrow> tg_number c \<le> tm_highest m"
  unfolding tm_highest_def by (intro fold_max_ge) simp

lemma accepted_ok_pop: "accepted_ok sig_ok m b acc \<Longrightarrow> accepted_ok sig_ok m b (filter P acc)"
  by (auto simp: accepted_ok_def distinct_map_filter)

lemma rollback_target:
  assumes "accepted_ok sig_ok m b acc" "acc \<noteq> []" "number = fold max (map fst acc) (fst (hd acc))"
  shows "\<exists>g x. map_of acc number = Some (g, x) \<and> tg_number g = number \<and> tg_ok sig_ok m g \<and> number < b
    \<and> accepted_ok sig_ok m number (filter (\<lambda>(k, v). k \<noteq> number) acc)"
proof -
  have "fst (hd acc) \<in> fst ` set acc" using assms(2) by simp
  then have "number \<in> fst ` set acc" using fold_max_in [of "map fst acc" "fst (hd acc)"] unfolding assms(3) by (simp only: set_map insert_absorb)
  then obtain g x where v: "(number, g, x) \<in> set acc" by auto
  have mx: "k \<le> number" if "(k, v) \<in> set acc" for k v
    unfolding assms(3) using that by (intro fold_max_ge) force
  have "map_of acc number = Some (g, x)" using v assms(1) by (simp add: accepted_ok_def)
  moreover have "accepted_ok sig_ok m number (filter (\<lambda>(k, v). k \<noteq> number) acc)"
    using assms(1) mx by (fastforce simp: accepted_ok_def distinct_map_filter order_less_le)
  moreover have "number = tg_number g \<and> tg_ok sig_ok m g \<and> number < b" using v assms(1) unfolding accepted_ok_def by blast
  ultimately show ?thesis by blast
qed

datatype tm_op =
    TmInitialize string | TmPrepare string | TmActivate int rat | TmRetire int | TmRollback | TmRollbackActive

fun tm_step :: "(string \<Rightarrow> string) \<Rightarrow> transport_manager \<Rightarrow> transport_store \<times> tm_op \<Rightarrow> transport_manager" where
  "tm_step sign m (p, TmInitialize f) = fst (tm_initialize sign p m f)"
| "tm_step sign m (p, TmPrepare f) = fst (tm_prepare sign p m f)"
| "tm_step sign m (p, TmActivate n t) = fst (tm_activate p m n t)"
| "tm_step sign m (p, TmRetire n) = fst (tm_retire p m n)"
| "tm_step sign m (p, TmRollback) = fst (tm_rollback p m)"
| "tm_step sign m (p, TmRollbackActive) = fst (tm_rollback_active p m)"

lemma sbind_pure: "fst (sbind (m, r) f) = (case r of Inl e \<Rightarrow> m | Inr x \<Rightarrow> fst (f m x))"
  by (cases r) auto

lemma tm_initialize_inv:
  assumes "\<And>x. sig_ok (tm_root m) (sign x) x" "tm_inv sig_ok m"
  shows "tm_inv sig_ok (fst (tm_initialize sign p m f))"
proof (cases "tm_current m")
  case None
  have "tm_inv sig_ok (fst (tm_publish p m g [] None g))" if "tm_generation sign m 1 f = Inr g" for g
    using tm_generation_ok [of sig_ok m sign, OF assms(1) that] assms(2)
    by (intro tm_publish_inv) (auto simp: triple_ok_def accepted_ok_def)
  then show ?thesis using None assms(2) by (auto simp: tm_initialize_def sbind_pure split: sum.splits)
qed (use assms in \<open>simp add: tm_initialize_def\<close>)

lemma tm_prepare_inv:
  assumes "\<And>x. sig_ok (tm_root m) (sign x) x" "tm_inv sig_ok m"
  shows "tm_inv sig_ok (fst (tm_prepare sign p m f))"
proof (cases "tm_current m")
  case None
  then show ?thesis using tm_initialize_inv [OF assms] by (simp add: tm_prepare_def)
next
  case (Some c)
  have "tm_inv sig_ok (fst (tm_publish p m c (tm_accepted m) (Some g) g))" if "tm_generation sign m (tm_highest m + 1) f = Inr g" for g
    using tm_generation_ok [of sig_ok m sign, OF assms(1) that] assms(2) tm_highest_current [OF Some] Some
    by (intro tm_publish_inv) (auto simp: triple_ok_def tm_inv_def)
  then show ?thesis using Some assms(2) by (auto simp: tm_prepare_def sbind_pure split: sum.splits)
qed

lemma tm_step_inv:
  assumes "\<And>x. sig_ok (tm_root m) (sign x) x" "tm_inv sig_ok m"
  shows "tm_inv sig_ok (tm_step sign m (p, a))"
proof (cases a)
  case (TmActivate n t)
  show ?thesis
  proof (cases "tm_next m")
    case (Some g)
    then obtain c where c: "tm_current m = Some c" "triple_ok sig_ok m c (tm_accepted m) (Some g)"
      using assms(2) by (auto simp: tm_inv_def split: option.splits)
    have "triple_ok sig_ok m g (dict_set (tg_number c) (c, Some (t + tm_grace m)) (tm_accepted m)) None"
      using c(2) by (force simp: triple_ok_def accepted_ok_def dict_set_in_set)
    then show ?thesis using tm_publish_inv [OF assms(2)] TmActivate Some c assms(2) by (auto simp: tm_activate_def)
  qed (use TmActivate assms in \<open>simp add: tm_activate_def\<close>)
next
  case (TmRetire n)
  show ?thesis
  proof (cases "tm_current m")
    case (Some c)
    then have "triple_ok sig_ok m c (dict_pop n (tm_accepted m)) (tm_next m)"
      using assms(2) by (auto simp: tm_inv_def triple_ok_def accepted_ok_def dict_pop_set)
    then show ?thesis using tm_commit_inv [OF assms(2)] TmRetire Some assms(2) by (simp add: tm_retire_def)
  qed (use TmRetire assms in \<open>simp add: tm_retire_def\<close>)
next
  case TmRollback
  show ?thesis
  proof (cases "tm_current m")
    case (Some c)
    then have "triple_ok sig_ok m c (tm_accepted m) None" using assms(2) by (simp add: tm_inv_def triple_ok_def)
    then show ?thesis using tm_commit_inv [OF assms(2)] TmRollback Some assms(2)
      by (auto simp: tm_rollback_def split: option.splits)
  qed (use TmRollback assms in \<open>simp add: tm_rollback_def tm_inv_def split: option.splits\<close>)
next
  case TmRollbackActive
  show ?thesis
  proof (cases "tm_accepted m = []")
    case False
    then obtain b where c: "accepted_ok sig_ok m b (tm_accepted m)"
      using assms(2) by (auto simp: tm_inv_def triple_ok_def split: option.splits)
    let ?n = "fold max (map fst (tm_accepted m)) (fst (hd (tm_accepted m)))"
    from rollback_target [OF c False refl] obtain g x where g: "map_of (tm_accepted m) ?n = Some (g, x)" "tg_number g = ?n"
        "tg_ok sig_ok m g" "accepted_ok sig_ok m ?n (filter (\<lambda>(k, v). k \<noteq> ?n) (tm_accepted m))" by blast
    then have "triple_ok sig_ok m g (filter (\<lambda>(k, v). k \<noteq> ?n) (tm_accepted m)) None" by (simp add: triple_ok_def)
    then show ?thesis using tm_publish_inv [OF assms(2)] TmRollbackActive False g(1)
      by (simp add: tm_rollback_active_def Let_def)
  qed (use TmRollbackActive assms in \<open>simp add: tm_rollback_active_def\<close>)
qed (use tm_initialize_inv [OF assms] tm_prepare_inv [OF assms] in auto)

lemma tm_step_identity: "tm_node (tm_step sign m x) = tm_node m \<and> tm_root (tm_step sign m x) = tm_root m"
proof -
  have c: "tm_node (fst (tm_commit p m c a n)) = tm_node m \<and> tm_root (fst (tm_commit p m c a n)) = tm_root m" for p m c a n
    by (simp add: tm_commit_def Let_def split: sum.splits bool.splits)
  have q: "tm_node (fst (tm_publish p m c a n v)) = tm_node m \<and> tm_root (fst (tm_publish p m c a n v)) = tm_root m" for p m c a n v
    using c [of p m c a n] by (cases "tm_commit p m c a n") (auto simp: tm_publish_def sbind_def split: sum.splits)
  have i: "tm_node (fst (tm_initialize sign p m f)) = tm_node m \<and> tm_root (fst (tm_initialize sign p m f)) = tm_root m" for p f
    by (auto simp: tm_initialize_def sbind_pure q split: option.splits sum.splits)
  show ?thesis
    by (cases "(sign, m, x)" rule: tm_step.cases)
      (auto simp: i q c tm_prepare_def tm_activate_def tm_retire_def tm_rollback_def tm_rollback_active_def sbind_pure Let_def
        split: option.splits sum.splits)
qed

definition honest :: "sig_check \<Rightarrow> (string \<Rightarrow> string) \<Rightarrow> transport_manager \<Rightarrow> bool" where
  \<comment> \<open>a signature the root key makes is one its public key accepts\<close>
  "honest sig_ok sign m \<longleftrightarrow> (\<forall>x. sig_ok (tm_root m) (sign x) x)"

interpretation transport_runs: transition_system "tm_step sign" "\<lambda>m. honest sig_ok sign m \<and> tm_inv sig_ok m"
proof unfold_locales
  fix m x assume "honest sig_ok sign m \<and> tm_inv sig_ok m"
  then show "honest sig_ok sign (tm_step sign m x) \<and> tm_inv sig_ok (tm_step sign m x)"
    using tm_step_inv [of sig_ok m sign "fst x" "snd x"] tm_step_identity [of sign m x] by (simp add: honest_def)
qed

section \<open>Saving and loading\<close>

lemma list_ex_dict_set:
  "keys_distinct d \<Longrightarrow> list_ex P (dict_set k v d) \<longleftrightarrow> P (k, v) \<or> (\<exists>x \<in> set d. fst x \<noteq> k \<and> P x)"
  unfolding list_ex_iff Bex_def by (simp only: dict_set_in_set) blast

lemma tm_decode_items:
  assumes "tg_ok sig_ok m g" "map_of xs ''generation'' = None" "map_of xs ''fingerprint'' = None" "map_of xs ''proof'' = None"
  shows "tm_decode sig_ok m (pdict (generation_items g @ xs)) = Inr g"
  using assms by (auto simp: tm_decode_def generation_items_def tg_ok_def verify_transport_proof_def split: if_splits)

lemma tm_load_accepted_saved:
  assumes "accepted_ok sig_ok m b acc" "\<forall>k \<in> fst ` set acc. map_of old k = None"
  shows "tm_load_accepted sig_ok m b (map (\<lambda>(k, g, x). pdict (generation_items g @ [(''expires_at'', expiry_value x)])) acc) old
    = Inr (old @ acc)"
  using assms
proof (induction acc arbitrary: old)
  case (Cons a acc)
  obtain k g x where a: "a = (k, g, x)" by (cases a)
  have g: "tg_ok sig_ok m g" "k = tg_number g" "k < b" using Cons.prems(1) a unfolding accepted_ok_def by (auto simp: all_conj_distrib)
  have e: "decode_expiry (fget (pdict (generation_items g @ [(''expires_at'', expiry_value x)])) ''expires_at'') = Inr x"
    by (cases x) (simp_all add: decode_expiry_def expiry_value_def generation_items_def)
  have k: "map_of old k = None" "k \<notin> fst ` set acc" using Cons.prems a by (auto simp: accepted_ok_def)
  have "accepted_ok sig_ok m b acc" using Cons.prems(1) by (auto simp: accepted_ok_def)
  moreover have "\<forall>j \<in> fst ` set acc. map_of (old @ [(k, g, x)]) j = None" using Cons.prems(2) k(2) by (auto simp: map_add_def)
  ultimately have "tm_load_accepted sig_ok m b
      (map (\<lambda>(k, g, x). pdict (generation_items g @ [(''expires_at'', expiry_value x)])) acc) (old @ [(k, g, x)])
      = Inr ((old @ [(k, g, x)]) @ acc)"
    by (rule Cons.IH)
  then show ?case using g e k(1) tm_decode_items [OF g(1), of "[(''expires_at'', expiry_value x)]"]
    by (simp add: a length_dict_set_new)
qed simp

section \<open>Properties\<close>

text \<open>
  C20. Rotation keeps the chain of transport keys intact: starting from a new manager, whatever sequence of
  initializations, preparations, activations, retirements and rollbacks runs and whatever storage does, the generation
  in force has a proof that verifies under the node's root key, every generation still accepted has one too and a
  smaller number, and the pending one has one and a larger number. A manager started from the saved document has
  exactly the same state.
\<close>

theorem rotation_chain:
  assumes "honest sig_ok sign (tm_new n rk grace)" "m = foldl (tm_step sign) (tm_new n rk grace) ops" "tm_current m = Some c"
  shows "verify_transport_proof sig_ok n rk (tg_number c) (tg_fingerprint c) (tg_proof c)
    \<and> (\<forall>k g x. map_of (tm_accepted m) k = Some (g, x) \<longrightarrow> k = tg_number g \<and> k < tg_number c
          \<and> verify_transport_proof sig_ok n rk k (tg_fingerprint g) (tg_proof g))
    \<and> (\<forall>g. tm_next m = Some g \<longrightarrow> tg_number c < tg_number g
          \<and> verify_transport_proof sig_ok n rk (tg_number g) (tg_fingerprint g) (tg_proof g))
    \<and> (\<exists>d. tm_to_dict m = Inr d \<and> tm_load sign sig_ok (m\<lparr>tm_current := None, tm_accepted := [], tm_next := None\<rparr>) d = Inr m)"
proof -
  have "tm_inv sig_ok (tm_new n rk grace)" by (simp add: tm_inv_def tm_new_def)
  then have i: "tm_inv sig_ok m" unfolding assms(2) using assms(1) transport_runs.run_inv [of sig_ok sign] by blast
  have id: "tm_node (foldl (tm_step sign) x ops) = tm_node x \<and> tm_root (foldl (tm_step sign) x ops) = tm_root x" for x
    by (induction ops arbitrary: x) (auto simp: tm_step_identity)
  have nr: "tm_node m = n" "tm_root m = rk" using id [of "tm_new n rk grace"] by (simp_all add: assms(2) tm_new_def)
  have t: "triple_ok sig_ok m c (tm_accepted m) (tm_next m)" using i assms(3) by (simp add: tm_inv_def)
  let ?m0 = "m\<lparr>tm_current := None, tm_accepted := [], tm_next := None\<rparr>"
  have acc: "tm_load_accepted sig_ok ?m0 (tg_number c)
      (map (\<lambda>(k, g, x). pdict (generation_items g @ [(''expires_at'', expiry_value x)])) (tm_accepted m)) [] = Inr (tm_accepted m)"
    using tm_load_accepted_saved [of sig_ok ?m0 "tg_number c" "tm_accepted m" "[]"] t by (simp add: triple_ok_def)
  have dec: "tm_decode sig_ok ?m0 (pdict (generation_items g)) = Inr g" if "tg_ok sig_ok m g" for g
    using tm_decode_items [of sig_ok ?m0 g "[]"] that by simp
  have nx: "map_of (tm_accepted m) (tg_number g) = None" if "tm_next m = Some g" for g
  proof (rule ccontr)
    assume "map_of (tm_accepted m) (tg_number g) \<noteq> None"
    then obtain h x where "(tg_number g, h, x) \<in> set (tm_accepted m)" by (auto dest: map_of_SomeD)
    then have "tg_number g < tg_number c" using t unfolding triple_ok_def accepted_ok_def by blast
    then show False using t that by (auto simp: triple_ok_def)
  qed
  have "tm_load sign sig_ok ?m0 (pdict [(''version'', PInt 2), (''current'', pdict (generation_items c)),
          (''accepted'', PList (map (\<lambda>(k, g, x). pdict (generation_items g @ [(''expires_at'', expiry_value x)])) (tm_accepted m))),
          (''next'', case tm_next m of None \<Rightarrow> PNone | Some g \<Rightarrow> pdict (generation_items g))]) = Inr m"
    using t acc dec nx assms(3)
    by (cases "tm_next m"; cases m) (auto simp: tm_load_def tm_load_body_def triple_ok_def)
  then have load: "\<exists>d. tm_to_dict m = Inr d \<and> tm_load sign sig_ok ?m0 d = Inr m"
    using assms(3) by (simp add: tm_to_dict_def)
  have "k = tg_number g \<and> k < tg_number c \<and> verify_transport_proof sig_ok n rk k (tg_fingerprint g) (tg_proof g)"
    if "map_of (tm_accepted m) k = Some (g, x)" for k g x
    using map_of_SomeD [OF that] t nr by (auto simp: triple_ok_def accepted_ok_def tg_ok_def)
  then show ?thesis using load t nr by (auto simp: triple_ok_def tg_ok_def)
qed

definition ok_store :: transport_store where
  "ok_store d = Inr True"

lemma rotation_chain_witness:
  "let m = foldl (tm_step id) (tm_new (NodeId ''n'') ''rk'' 300)
        [(ok_store, TmInitialize ''a''), (ok_store, TmPrepare ''b''), (ok_store, TmActivate 2 10), (ok_store, TmPrepare ''c'')]
   in (\<exists>d. tm_to_dict m = Inr d \<and> tm_load id (\<lambda>k s x. s = x) (m\<lparr>tm_current := None, tm_accepted := [], tm_next := None\<rparr>) d = Inr m)
      \<and> map fst (tm_accepted m) = [1]"
proof -
  let ?ops = "[(ok_store, TmInitialize ''a''), (ok_store, TmPrepare ''b''), (ok_store, TmActivate 2 10), (ok_store, TmPrepare ''c'')]"
  let ?m = "foldl (tm_step id) (tm_new (NodeId ''n'') ''rk'' 300) ?ops"
  have "map fst (tm_accepted ?m) = [1] \<and> (\<exists>c. tm_current ?m = Some c)"
    by (simp add: tm_new_def tm_initialize_def tm_prepare_def tm_activate_def tm_publish_def tm_commit_def tm_generation_def
        sign_transport_proof_def tm_to_dict_def ok_store_def tm_highest_def Let_def)
  moreover have "honest (\<lambda>k s x. s = x) id (tm_new (NodeId ''n'') ''rk'' 300)" by (simp add: honest_def)
  ultimately show ?thesis using rotation_chain [of "\<lambda>k s x. s = x" id "NodeId ''n''" "''rk''" 300 ?m ?ops] unfolding Let_def by blast
qed

text \<open>
  A rotation overlaps for exactly the grace period: after an activation at one clock reading the new fingerprint
  is accepted at every time, and the replaced one until the grace period is over and not after it, unless it is also
  the fingerprint of another generation that is still accepted.
\<close>

theorem rotation_overlap:
  assumes "tm_inv sig_ok m" "tm_current m = Some c" "tm_activate persist m number clock = (m', Inr g)"
    and "tg_fingerprint c \<noteq> tg_fingerprint g" "\<not> list_ex (\<lambda>(k, h, x). tg_fingerprint h = tg_fingerprint c) (tm_accepted m)"
  shows "tm_next m = Some g \<and> tm_current m' = Some g \<and> tm_is_accepted m' (tg_fingerprint g) now
    \<and> (tm_is_accepted m' (tg_fingerprint c) now \<longleftrightarrow> now \<le> clock + tm_grace m)"
proof -
  have g: "tm_next m = Some g"
    using assms(2,3) by (auto simp: tm_activate_def tm_publish_def ok_simps split: option.splits if_splits)
  then have m': "m' = m\<lparr>tm_current := Some g,
      tm_accepted := dict_set (tg_number c) (c, Some (clock + tm_grace m)) (tm_accepted m), tm_next := None\<rparr>"
    using assms(2,3) by (auto simp: tm_activate_def tm_publish_def tm_commit_def Let_def ok_simps
        split: option.splits if_splits sum.splits bool.splits)
  have "keys_distinct (tm_accepted m)" using assms(1,2) by (simp add: tm_inv_def triple_ok_def accepted_ok_def)
  then have "tm_is_accepted m' (tg_fingerprint c) now \<longleftrightarrow> now \<le> clock + tm_grace m"
    using assms(4,5) unfolding list_ex_iff by (auto simp: m' tm_is_accepted_def list_ex_dict_set)
  with g m' show ?thesis by (simp add: tm_is_accepted_def)
qed


lemma rotation_overlap_witness:
  "let g1 = \<lparr>tg_number = 1, tg_fingerprint = ''a'', tg_proof = ''p''\<rparr>; g2 = \<lparr>tg_number = 2, tg_fingerprint = ''b'', tg_proof = ''q''\<rparr>;
       m = (tm_new (NodeId ''n'') ''rk'' 300)\<lparr>tm_current := Some g1, tm_next := Some g2\<rparr>;
       m' = fst (tm_activate ok_store m 2 10)
   in tm_is_accepted m' ''a'' 310 \<and> \<not> tm_is_accepted m' ''a'' 311"
proof -
  define g1 g2 where g: "g1 = \<lparr>tg_number = 1, tg_fingerprint = ''a'', tg_proof = ''p''\<rparr>"
    "g2 = \<lparr>tg_number = 2, tg_fingerprint = ''b'', tg_proof = ''q''\<rparr>"
  define m where m: "m = (tm_new (NodeId ''n'') ''rk'' 300)\<lparr>tm_current := Some g1, tm_next := Some g2\<rparr>"
  have "tm_inv (\<lambda>k s x. True) m"
    by (simp add: m g tm_new_def tm_inv_def triple_ok_def accepted_ok_def tg_ok_def verify_transport_proof_def)
  moreover have "tm_activate ok_store m 2 10 = (fst (tm_activate ok_store m 2 10), Inr g2)" "tm_current m = Some g1" "tm_accepted m = []"
      "tm_grace m = 300" "tg_fingerprint g1 = ''a''" "tg_fingerprint g2 = ''b''"
    by (simp_all add: m g tm_new_def tm_activate_def tm_publish_def tm_commit_def tm_to_dict_def ok_store_def Let_def)
  ultimately show ?thesis
    using rotation_overlap [of "\<lambda>k s x. True" m g1 ok_store 2 10 "fst (tm_activate ok_store m 2 10)" g2 310]
      rotation_overlap [of "\<lambda>k s x. True" m g1 ok_store 2 10 "fst (tm_activate ok_store m 2 10)" g2 311]
    unfolding Let_def g [symmetric] m [symmetric] by simp
qed

section \<open>A generation number can come back\<close>

text \<open>
  \<open>_highest_generation\<close> looks only at what the manager still holds. After \<open>rollback_active\<close> the abandoned generation
  is forgotten, so the next preparation signs a second fingerprint under the same number: both proofs verify.
\<close>

lemma generation_number_reused:
  "\<exists>ops ops'. let m0 = tm_new (NodeId ''n'') ''rk'' 300; m = foldl (tm_step id) m0 ops; m' = foldl (tm_step id) m ops' in
     (\<exists>g g'. tm_current m = Some g \<and> tm_next m' = Some g' \<and> tg_number g = tg_number g' \<and> tg_fingerprint g \<noteq> tg_fingerprint g')"
proof -
  let ?ops = "[(ok_store, TmInitialize ''a''), (ok_store, TmPrepare ''b''), (ok_store, TmActivate 2 10)]"
  let ?ops' = "[(ok_store, TmRollbackActive), (ok_store, TmPrepare ''c'')]"
  show ?thesis
    by (rule exI [of _ ?ops], rule exI [of _ ?ops'])
      (simp add: tm_new_def tm_initialize_def tm_prepare_def tm_activate_def tm_rollback_active_def tm_publish_def tm_commit_def
        tm_generation_def sign_transport_proof_def tm_to_dict_def ok_store_def tm_highest_def Let_def)
qed

end
