(* ===== verification/Spec2Isabelle.thy ===== *)
theory Spec2Isabelle
  imports ClusterRuns ClientExamples ListenerExamples Transport
begin

text \<open>
  Expra Connect, the Python package \<open>src/src/expra_connect\<close>: nodes of a local network find each other, pair, form a
  cluster with a Coordinator, a Subcoordinator and Workers, and call each other's capabilities over authenticated
  connections. This development models the decision logic of the package and proves what keeps it safe.

  \<^bold>\<open>How the parts interact.\<close> A node has an identity (\<open>identity\<close>): a root key and a series of transport keys, each
  vouched for by a proof under the root key. Pairing (\<open>pairing/manager.py\<close>, \<open>pairing/flow.py\<close> and
  \<open>pairing/target.py\<close>) exchanges a shared secret and read-only permissions between two nodes: a request, the
  approval of the target's host, and a confirmation or an abort. A cluster (\<open>cluster\<close>) binds members to roles; its
  Coordinator holds a lease in an epoch, and its Subcoordinator takes over when the lease runs out. A request
  (\<open>remote/wire_protocol.py\<close>) is an envelope signed with the pairing secret or with a cluster capability grant; the
  service (\<open>remote/service.py\<close>) verifies it, refuses replays, checks the cluster fence, the session and the
  permissions, runs the operation at most once and checks again before it answers. The client (\<open>remote/requests.py\<close>,
  \<open>remote/provider.py\<close>) signs the envelope, sends it as one frame over a connection with a pinned certificate
  (\<open>transport/socket_transport.py\<close>), once more when the connection is lost, and checks the answer; at the other end
  the listener (\<open>transport/server.py\<close>) admits the connection and hands the message to the service or, on a listener
  of its own, to the pairing handlers. Operations reach the host program through capability shares (\<open>sharing\<close>) and
  surfaces (\<open>surfaces\<close>). Members ask each other for role changes, leases and snapshots
  (\<open>remote/role_operations.py\<close>). A node hears announcements of others (\<open>discovery\<close>), keeps what it knows of them in
  the registry of \<open>nodes/registry.py\<close> and holds connections to trusted peers (\<open>connections\<close>). The runtime (\<open>runtime/core.py\<close>)
  owns all of these objects: it stores the trust file and the cluster file, projects trust and grants into the live
  service, and starts, stops and restarts the whole.

  \<^bold>\<open>Theories.\<close>
  \<^item> \<open>Prelude\<close>: Python values (\<open>pyval\<close>), exceptions as values of the sum type \<open>'a res\<close>, insertion-ordered
    dictionaries as association lists, floats with NaN and infinities, \<open>float()\<close> on texts. \<open>Interfaces\<close>: the locales \<open>transition_system\<close>
    and its extensions, with the lemmas on runs that every stateful component uses through an interpretation.
  \<^item> \<open>Digest\<close>: SHA-256 and HMAC on 32-bit words, as \<open>hashlib\<close> and \<open>hmac\<close> compute them. \<open>Identity\<close>: node
    identifiers, permissions, the signed bytes of a transport proof. \<open>Transport\<close>: \<open>TransportGenerationManager\<close>, key
    rotation with a grace period and its stored form.
  \<^item> \<open>Roles\<close>, \<open>RoleLaws\<close>: \<open>RoleState\<close> of \<open>cluster/roles.py\<close> and the records of \<open>cluster/models.py\<close>. \<open>Failover\<close>:
    lease renewal, promotion, and the \<open>FailoverCoordinator\<close> of \<open>cluster/failover.py\<close>. \<open>RoleCodec\<close>:
    \<open>cluster/state.py\<close>, role states as documents.
  \<^item> \<open>ClusterOps\<close>, \<open>ClusterLaws\<close>, \<open>ClusterRestart\<close>: \<open>ClusterState\<close>, \<open>Cluster\<close> and \<open>ClusterStore\<close> of
    \<open>cluster/operations.py\<close>, \<open>invites.py\<close> and \<open>persistence.py\<close>.
  \<^item> \<open>Pairing\<close>, \<open>PairingLaws\<close>: every operation of \<open>PairingManager\<close>. \<open>PairingFlow\<close>: \<open>NetworkPairing\<close> of
    \<open>pairing/flow.py\<close> and the answers of \<open>pairing/target.py\<close>, over the state of the runtime. \<open>PairingFlowLaws\<close>: what
    each end guarantees by itself; \<open>PairingAgreement\<close>: both ends together; \<open>PairingLive\<close>: a run completes, and the
    examples and defects of the flow.
  \<^item> \<open>Wire\<close>, \<open>WireLaws\<close>, \<open>Replay\<close>, \<open>Idempotency\<close>: \<open>remote/wire_protocol.py\<close>: envelopes, signatures, validation
    of parameters, \<open>ReplayCache\<close> and \<open>IdempotencyCache\<close>. \<open>Session\<close>: \<open>remote/session.py\<close>. \<open>Service\<close>,
    \<open>ServiceLaws\<close>: \<open>RemoteService\<close>, with \<open>handle\<close> composed from all of these.
  \<^item> \<open>SocketTransport\<close>, \<open>SocketLaws\<close>: frames, the receiving loop, a request over a pinned connection and its retry.
    \<open>Client\<close>, \<open>ClientLaws\<close>, \<open>ClientExamples\<close>: the client's requests, its sessions and its operations, and the client
    and \<open>handle\<close> composed. \<open>Listener\<close>, \<open>ListenerLaws\<close>, \<open>ListenerExamples\<close>: admission, dispatch and the parsing of
    pairing messages.
  \<^item> \<open>Sharing\<close>, \<open>Surfaces\<close>: \<open>CapabilityShare\<close>, parameter validation and \<open>SurfaceRegistry\<close>.
  \<^item> \<open>Discovery\<close>: addresses, endpoint ranking and the announcement registry of \<open>discovery/candidates.py\<close>,
    \<open>models.py\<close> and \<open>network.py\<close>. \<open>Nodes\<close>: the node registry, its trust and connection states and the retry
    policy. \<open>Connections\<close>, \<open>ConnectionLaws\<close>: the connection manager, with routes, health and identity checks.
  \<^item> \<open>TrustCodec\<close>: the stored form of pairing state (\<open>runtime/persistence.py\<close>). \<open>Runtime\<close>, \<open>RuntimeLaws\<close>,
    \<open>RuntimeTrust\<close>: \<open>runtime/core.py\<close>: start, restart and shutdown; saving with rollback; approval, revocation,
    pairing controls and elevation. \<open>RoleRequests\<close>, \<open>RoleRequestLaws\<close>: \<open>remote/role_operations.py\<close>, the role
    requests of one runtime to another, and the runtime's own cluster operations over the failover coordinator.
    \<open>ClusterRuns\<close>: long runs of a cluster object, with role requests, joins and reloads; the role requests of the
    dispatcher are steps of these runs.

  \<^bold>\<open>State and operations.\<close> A class is a record whose fields are its attributes; a method is a function from the
  record and the arguments to the new record and a result, \<open>Inl\<close> an exception with its class and message or \<open>Inr\<close>
  the value. A method that only reads returns the result alone. What a method obtains from outside (the clock,
  random tokens, an answer of the host program, whether storage accepted a document) is an argument. Methods hold
  the lock of their object from beginning to end, so each is one step; where the code releases the lock in between
  (\<open>CapabilityShare.request\<close>, \<open>IdempotencyCache.execute\<close>, \<open>RemoteService.handle\<close>) the model has one function for
  each section, and the theorems allow any steps of others between them. Exception classes form the hierarchy of the
  code, and an \<open>except\<close> clause is the test \<open>isa\<close>. Floats are rational numbers with the special values: rounding is
  not modelled.

  \<^bold>\<open>Lemmas.\<close> Invariants by induction on runs (role states, failover, cluster, pairing, sessions, idempotency,
  fences, rotation); exact behaviour of the operations that admit, promote, revoke and authorize; order of storage
  and publication; equivalences of loops with the definition they compute (JSON safety, authorization) and of the
  client's calls with what the service admits; refinement of the share by its abstract permission table, of the
  failover of the runtime by \<open>FailoverCoordinator\<close>, and of a remote call by the outcome of the service; round trips
  of every stored document, of signed requests, of frames and of pairing messages; bounds of every table and of
  every frame. A network pairing that fails leaves trust as it was, one that succeeds leaves the same secret and
  permissions on both sides, and it does succeed when the target can be reached and its host approves. What an
  attacker without the secret can do is not a theorem about HMAC: the theorems say that an accepted request carries
  exactly the HMAC of its fields, and that the signed bytes determine the fields.

  \<^bold>\<open>Conditions worth knowing.\<close> Some guarantees hold only under conditions that the code does not establish itself; the
  theorems state them. A restart needs pairing state that the trust codec reads back (\<open>trust_storable\<close>), and a peer
  paired over the network in the same run is written in a form that it does not. A cluster object stays consistent
  across \<open>Cluster.join\<close> only when it holds no capability grants, and a revocation lasts until the local node joins another
  cluster. A listener loses the permit of a handler whose TLS socket raises on \<open>close\<close>. A refused invite is burnt in
  memory only. An operation of the failover coordinator can be saved and published although it raises afterwards. A
  better ranked route that fails authentication ends a connection attempt. That the runtime which answers a pairing
  request is the peer meant is up to the pinned transport.

  \<^bold>\<open>Bounds and fuel.\<close> Recursion is structural or has a measure. Two bounds are chosen: the loop that draws a fresh
  identifier takes a list of draws, and 100 draws are given, where one is enough unless two random tokens coincide;
  the chain of superclasses is followed for 6 steps, the depth of the hierarchy. The receiving loop of a socket
  takes the list of its turns: \<open>None\<close> means that it still waits when the list is used up; as many delivering turns
  as the largest frame has bytes are enough.

  \<^bold>\<open>Third-party code.\<close> Ed25519 signatures (\<open>cryptography\<close>) are the parameters \<open>sign\<close> and \<open>sig_ok\<close>. A theorem that
  needs them assumes that a signature made with the root key verifies, and its witness gives a pair that does.

  \<^bold>\<open>Not modelled.\<close> What happens inside sockets and TLS, certificate generation, discovery by multicast, file locking
  and YAML syntax, key files, platform queries, the start and end of threads, logging, metrics and reports to the
  host, the command line, and the tools and scripts beside the package: they are I/O or call libraries. Of the code
  in between: \<open>PeerServer\<close> and \<open>MemoryRemoteTransport\<close> (compatibility and tests), and the conversions of
  \<open>remote/models.py\<close> between data classes and documents, with the client operations that only apply them (snapshots,
  summaries, process actions). \<close>

end
